(* ===== verification/Relay_Prelude.thy ===== *)
theory Relay_Prelude
  imports Main "HOL-Library.Word" "HOL-Library.Char_ord" "HOL-Library.List_Lexorder"
    "HOL-Library.Sublist" "HOL-Library.AList"
begin

text \<open>
  Shared ground of the development: results and validation issues, the JavaScript values the
  program computes with (strings, decimal numbers, dates that may be NaN, arrays used as sets,
  plain objects), and the step-machine interface that the stateful components instantiate.

  Strings.  Identifiers, tokens, digests and timestamps are confined to ASCII by their schemas and
  are HOL strings.  Free text (message bodies, reasons, opaque references) is a list of UTF-16 code
  units, \<^typ>\<open>16 word list\<close>, so that length, trim and UTF-8 byte length mean what they mean in the
  program.

  Code outside the repository.  The record \<open>host_lib\<close> holds the functions of zod and of the
  JavaScript engine whose definition is not in the repository; every definition that depends on one
  of them takes it as an argument.
\<close>

named_theorems unfold_checks "validators and guards, unfolded to their conjuncts"
named_theorems run_laws "laws of runs of step machines"

section \<open>Functions outside the repository\<close>

record host_lib =
  uuid_format :: "string \<Rightarrow> bool"
  datetime_format :: "string \<Rightarrow> bool"
  url_format :: "16 word list \<Rightarrow> bool"
  date_parse :: "string \<Rightarrow> int option"
  sha256_hex :: "16 word list \<Rightarrow> string"

text \<open>
  \<open>uuid_format\<close>, \<open>datetime_format\<close> and \<open>url_format\<close> are zod's string formats
  (\<open>z.string().uuid()\<close>, \<open>.datetime({ offset: true })\<close>, \<open>.url()\<close>); \<open>date_parse\<close> is
  \<open>Date.parse\<close> in milliseconds, \<^const>\<open>None\<close> standing for NaN; \<open>sha256_hex\<close> is the hex SHA-256 of
  the UTF-8 encoding of a text.
\<close>

section \<open>Validation issues\<close>

datatype path_elem = Key string | Index nat

type_synonym issue = "string \<times> path_elem list"

definition add_issue :: "bool \<Rightarrow> string \<Rightarrow> path_elem list \<Rightarrow> issue list" where
  "add_issue c msg path = (if c then [(msg, path)] else [])"

lemma add_issue_Nil [simp]: "add_issue c msg path = [] \<longleftrightarrow> \<not> c"
  by (simp add: add_issue_def)

lemma add_issue_False [simp]: "add_issue False msg path = []"
  by (simp add: add_issue_def)

fun issues_from :: "nat \<Rightarrow> (nat \<Rightarrow> 'a \<Rightarrow> issue list) \<Rightarrow> 'a list \<Rightarrow> issue list" where
  "issues_from i f [] = []"
| "issues_from i f (x # xs) = f i x @ issues_from (Suc i) f xs"

text \<open>A loop \<open>for (const [index, x] of xs.entries())\<close> that adds issues.\<close>

definition indexed_issues :: "(nat \<Rightarrow> 'a \<Rightarrow> issue list) \<Rightarrow> 'a list \<Rightarrow> issue list" where
  "indexed_issues f xs = issues_from 0 f xs"

lemma issues_from_Nil:
  "issues_from i f xs = [] \<longleftrightarrow> (\<forall>k < length xs. f (i + k) (xs ! k) = [])"
proof (induction xs arbitrary: i)
  case Nil
  then show ?case by simp
next
  case (Cons x xs)
  show ?case by (auto simp: Cons.IH less_Suc_eq_0_disj)
qed

lemma indexed_issues_Nil [simp]:
  "indexed_issues f xs = [] \<longleftrightarrow> (\<forall>i < length xs. f i (xs ! i) = [])"
  by (simp add: indexed_issues_def issues_from_Nil)

section \<open>Results\<close>

text \<open>An operation that goes on after a successful first part, as \<open>await\<close> or a call does.\<close>

lemma bind_Inr [simp]:
  "(case r of Inl e \<Rightarrow> Inl e | Inr x \<Rightarrow> f x) = Inr y \<longleftrightarrow> (\<exists>x. r = Inr x \<and> f x = Inr y)"
  by (cases r) auto

lemma bind_Inr_sym [simp]:
  "Inr y = (case r of Inl e \<Rightarrow> Inl e | Inr x \<Rightarrow> f x) \<longleftrightarrow> (\<exists>x. r = Inr x \<and> f x = Inr y)"
  by (cases r) auto

fun traverse :: "('a \<Rightarrow> 'e + 'b) \<Rightarrow> 'a list \<Rightarrow> 'e + 'b list" where
  "traverse f [] = Inr []"
| "traverse f (x # xs) =
     (case f x of Inl e \<Rightarrow> Inl e
      | Inr y \<Rightarrow> (case traverse f xs of Inl e \<Rightarrow> Inl e | Inr ys \<Rightarrow> Inr (y # ys)))"

lemma traverse_Inr: "traverse f xs = Inr ys \<longleftrightarrow> list_all2 (\<lambda>x y. f x = Inr y) xs ys"
proof (induction xs arbitrary: ys)
  case Nil
  then show ?case by auto
next
  case (Cons x xs)
  then show ?case
    by (cases ys; cases "f x"; cases "traverse f xs") auto
qed

lemma traverse_ok: "(\<And>x. x \<in> set xs \<Longrightarrow> f x = Inr (g x)) \<Longrightarrow> traverse f xs = Inr (map g xs)"
  by (induction xs) auto

section \<open>Dates\<close>

text \<open>Comparisons of two \<open>Date.parse\<close> results: false as soon as one of them is NaN.\<close>

fun num_lt :: "int option \<Rightarrow> int option \<Rightarrow> bool" where
  "num_lt (Some a) (Some b) = (a < b)"
| "num_lt _ _ = False"

fun num_le :: "int option \<Rightarrow> int option \<Rightarrow> bool" where
  "num_le (Some a) (Some b) = (a \<le> b)"
| "num_le _ _ = False"

lemma num_lt_Some: "num_lt a b \<longleftrightarrow> (\<exists>x y. a = Some x \<and> b = Some y \<and> x < y)"
  by (cases a; cases b) auto

lemma num_le_Some: "num_le a b \<longleftrightarrow> (\<exists>x y. a = Some x \<and> b = Some y \<and> x \<le> y)"
  by (cases a; cases b) auto

lemma num_lt_trans: "num_lt a b \<Longrightarrow> num_lt b c \<Longrightarrow> num_lt a c"
  by (auto simp: num_lt_Some)

lemma num_lt_irrefl [simp]: "\<not> num_lt a a"
  by (auto simp: num_lt_Some)

lemma num_lt_asym: "num_lt a b \<Longrightarrow> \<not> num_lt b a"
  by (auto simp: num_lt_Some)

section \<open>Character classes and strings\<close>

definition is_digit :: "char \<Rightarrow> bool" where
  "is_digit c \<longleftrightarrow> CHR ''0'' \<le> c \<and> c \<le> CHR ''9''"

definition is_lower :: "char \<Rightarrow> bool" where
  "is_lower c \<longleftrightarrow> CHR ''a'' \<le> c \<and> c \<le> CHR ''z''"

definition is_upper :: "char \<Rightarrow> bool" where
  "is_upper c \<longleftrightarrow> CHR ''A'' \<le> c \<and> c \<le> CHR ''Z''"

definition is_alnum :: "char \<Rightarrow> bool" where
  "is_alnum c \<longleftrightarrow> is_upper c \<or> is_lower c \<or> is_digit c"

definition is_hex :: "char \<Rightarrow> bool" where
  "is_hex c \<longleftrightarrow> (CHR ''a'' \<le> c \<and> c \<le> CHR ''f'') \<or> is_digit c"

definition to_lower :: "char \<Rightarrow> char" where
  "to_lower c = (if is_upper c then char_of (of_char c + (32::nat)) else c)"

text \<open>\<open>value === value.toLowerCase()\<close>\<close>

definition is_lowercase :: "string \<Rightarrow> bool" where
  "is_lowercase s \<longleftrightarrow> map to_lower s = s"

fun contains :: "'a list \<Rightarrow> 'a list \<Rightarrow> bool" where
  "contains p [] = (p = [])"
| "contains p (c # cs) = (prefix p (c # cs) \<or> contains p cs)"

lemma includes_sublist: "contains p s \<longleftrightarrow> sublist p s"
  by (induction s) (auto simp: sublist_Cons_right)

section \<open>Decimal strings\<close>

text \<open>\<open>String(n)\<close> for an integral number below $10^{21}$.\<close>

definition digit_char :: "nat \<Rightarrow> char" where
  "digit_char d = char_of (48 + d)"

fun nat_digits :: "nat \<Rightarrow> string" where
  "nat_digits n = (if n < 10 then [digit_char n] else nat_digits (n div 10) @ [digit_char (n mod 10)])"

declare nat_digits.simps [simp del]

definition string_of_int :: "int \<Rightarrow> string" where
  "string_of_int n = (if n < 0 then CHR ''-'' # nat_digits (nat (- n)) else nat_digits (nat n))"

text \<open>\<open>BigInt(s)\<close> on a string of decimal digits.\<close>

definition digit_val :: "char \<Rightarrow> nat" where
  "digit_val c = of_char c - 48"

definition decimal_value :: "string \<Rightarrow> nat" where
  "decimal_value s = foldl (\<lambda>acc c. acc * 10 + digit_val c) 0 s"

lemma digit_val_char [simp]: "d < 10 \<Longrightarrow> digit_val (digit_char d) = d"
  by (simp add: digit_val_def digit_char_def of_char_of)

lemma decimal_value_snoc [simp]: "decimal_value (s @ [c]) = decimal_value s * 10 + digit_val c"
  by (simp add: decimal_value_def)

lemma decimal_value_single [simp]: "decimal_value [c] = digit_val c"
  by (simp add: decimal_value_def)

lemma decimal_value_nat_digits [simp]: "decimal_value (nat_digits n) = n"
proof (induction n rule: nat_digits.induct)
  case (1 n)
  then show ?case by (subst nat_digits.simps) auto
qed

lemma nat_digits_inject [simp]: "nat_digits a = nat_digits b \<longleftrightarrow> a = b"
  by (metis decimal_value_nat_digits)

lemma is_digit_of_char: "is_digit c \<longleftrightarrow> (48::nat) \<le> of_char c \<and> of_char c \<le> (57::nat)"
  by (simp add: is_digit_def less_eq_char_def)

lemma is_digit_digit_char [simp]: "d < 10 \<Longrightarrow> is_digit (digit_char d)"
  by (simp add: is_digit_of_char digit_char_def of_char_of)

lemma nat_digits_digits: "list_all is_digit (nat_digits n)"
proof (induction n rule: nat_digits.induct)
  case (1 n)
  then show ?case by (subst nat_digits.simps) auto
qed

lemma nat_digits_not_Nil [simp]: "nat_digits n \<noteq> []"
  by (subst nat_digits.simps) simp

lemma not_is_digit_minus [simp]: "\<not> is_digit (CHR ''-'')"
  by (simp add: is_digit_of_char)

lemma string_of_int_inject [simp]: "string_of_int a = string_of_int b \<longleftrightarrow> a = b"
proof -
  have hd_dig: "\<And>n s. nat_digits n \<noteq> CHR ''-'' # s"
    using nat_digits_digits by (metis list.pred_inject(2) not_is_digit_minus)
  show ?thesis
    using hd_dig by (auto simp: string_of_int_def) (metis hd_dig)+
qed

lemma decimal_value_string_of_int [simp]: "0 \<le> n \<Longrightarrow> decimal_value (string_of_int n) = nat n"
  by (simp add: string_of_int_def)

section \<open>Free text: UTF-16 code units\<close>

type_synonym jstext = "16 word list"

definition text_of :: "string \<Rightarrow> jstext" where
  "text_of s = map of_char s"

definition is_high_surrogate :: "16 word \<Rightarrow> bool" where
  "is_high_surrogate u \<longleftrightarrow> 0xD800 \<le> u \<and> u \<le> 0xDBFF"

definition is_low_surrogate :: "16 word \<Rightarrow> bool" where
  "is_low_surrogate u \<longleftrightarrow> 0xDC00 \<le> u \<and> u \<le> 0xDFFF"

text \<open>\<open>Buffer.byteLength(s, "utf8")\<close>; an unpaired surrogate is encoded as U+FFFD.\<close>

fun utf8_length :: "jstext \<Rightarrow> nat" where
  "utf8_length [] = 0"
| "utf8_length [u] = (if u < 0x80 then 1 else if u < 0x800 then 2 else 3)"
| "utf8_length (u # v # us) =
     (if u < 0x80 then 1 + utf8_length (v # us)
      else if u < 0x800 then 2 + utf8_length (v # us)
      else if is_high_surrogate u \<and> is_low_surrogate v then 4 + utf8_length us
      else 3 + utf8_length (v # us))"

text \<open>The white space and line terminators that \<open>trim()\<close> removes.\<close>

definition is_js_space :: "16 word \<Rightarrow> bool" where
  "is_js_space u \<longleftrightarrow> (9 \<le> u \<and> u \<le> 13) \<or> u = 0x20 \<or> u = 0xA0 \<or> u = 0x1680
     \<or> (0x2000 \<le> u \<and> u \<le> 0x200A) \<or> u = 0x2028 \<or> u = 0x2029 \<or> u = 0x202F
     \<or> u = 0x205F \<or> u = 0x3000 \<or> u = 0xFEFF"

definition js_trim :: "jstext \<Rightarrow> jstext" where
  "js_trim t = rev (dropWhile is_js_space (rev (dropWhile is_js_space t)))"

lemma utf8_length_bounds: "length t \<le> utf8_length t \<and> utf8_length t \<le> 3 * length t"
  by (induction t rule: utf8_length.induct) auto

lemma utf8_length_0 [simp]: "utf8_length t = 0 \<longleftrightarrow> t = []"
  using utf8_length_bounds [of t] by auto

section \<open>Arrays used as sets, plain objects\<close>

text \<open>\<open>new Set(xs).size === xs.length\<close>\<close>

definition has_unique_values :: "'a list \<Rightarrow> bool" where
  "has_unique_values xs \<longleftrightarrow> length (remdups xs) = length xs"

lemma has_unique_values_distinct [simp]: "has_unique_values xs \<longleftrightarrow> distinct xs"
  by (auto simp: has_unique_values_def length_remdups_card_conv card_distinct distinct_card)

text \<open>\<open>Object.fromEntries\<close>: a later entry of a key replaces the value of an earlier one.\<close>

definition object_from_entries :: "('k \<times> 'v) list \<Rightarrow> ('k \<times> 'v) list" where
  "object_from_entries es = foldl (\<lambda>obj (k, v). AList.update k v obj) [] es"

lemma object_from_entries_distinct:
  "distinct (map fst es) \<Longrightarrow> object_from_entries es = es"
proof (induction es rule: rev_induct)
  case Nil
  then show ?case by (simp add: object_from_entries_def)
next
  case (snoc e es)
  have fresh: "k \<notin> fst ` set xs \<Longrightarrow> AList.update k v xs = xs @ [(k, v)]"
    for k :: 'a and v :: 'b and xs
    by (induction xs) auto
  from snoc show ?case
    by (cases e) (auto simp: object_from_entries_def fresh)
qed

section \<open>Step machines\<close>

text \<open>
  A component with state is a function \<open>step\<close> from a state and an input to an error or the next
  state.  A run stops at the first error; a service goes on after a rejected request with its state
  unchanged.
\<close>

fun run_steps :: "('s \<Rightarrow> 'e \<Rightarrow> 'err + 's) \<Rightarrow> 's \<Rightarrow> 'e list \<Rightarrow> 'err + 's" where
  "run_steps step s [] = Inr s"
| "run_steps step s (e # es) = (case step s e of Inl err \<Rightarrow> Inl err | Inr s' \<Rightarrow> run_steps step s' es)"

definition serve :: "('s \<Rightarrow> 'e \<Rightarrow> 'err + 's) \<Rightarrow> 's \<Rightarrow> 'e \<Rightarrow> 's" where
  "serve step s e = (case step s e of Inl _ \<Rightarrow> s | Inr s' \<Rightarrow> s')"

fun serve_all :: "('s \<Rightarrow> 'e \<Rightarrow> 'err + 's) \<Rightarrow> 's \<Rightarrow> 'e list \<Rightarrow> 's" where
  "serve_all step s [] = s"
| "serve_all step s (e # es) = serve_all step (serve step s e) es"

lemma run_steps_append [run_laws]:
  "run_steps step s (xs @ ys) =
     (case run_steps step s xs of Inl err \<Rightarrow> Inl err | Inr s' \<Rightarrow> run_steps step s' ys)"
  by (induction xs arbitrary: s) (auto split: sum.splits)

lemma serve_all_append [run_laws]:
  "serve_all step s (xs @ ys) = serve_all step (serve_all step s xs) ys"
  by (induction xs arbitrary: s) auto

lemma run_steps_ConsE:
  assumes "run_steps step s (e # es) = Inr t"
  obtains s' where "step s e = Inr s'" and "run_steps step s' es = Inr t"
  using assms by auto

text \<open>An invariant that every accepted step keeps.\<close>

locale step_machine =
  fixes step :: "'s \<Rightarrow> 'e \<Rightarrow> 'err + 's" and inv :: "'s \<Rightarrow> bool"
  assumes step_inv: "inv s \<Longrightarrow> step s e = Inr s' \<Longrightarrow> inv s'"
begin

lemma run_inv: "inv s \<Longrightarrow> run_steps step s es = Inr t \<Longrightarrow> inv t"
proof (induction es arbitrary: s)
  case Nil
  then show ?case by simp
next
  case (Cons e es)
  from Cons.prems(2) obtain s' where "step s e = Inr s'" and "run_steps step s' es = Inr t"
    by (rule run_steps_ConsE)
  with Cons.IH Cons.prems(1) step_inv show ?case by blast
qed

lemma serve_inv: "inv s \<Longrightarrow> inv (serve step s e)"
  by (auto simp: serve_def step_inv split: sum.splits)

lemma serve_all_inv: "inv s \<Longrightarrow> inv (serve_all step s es)"
  by (induction es arbitrary: s) (auto simp: serve_inv)

end

text \<open>A preorder along which every accepted step moves forward.\<close>

locale advancing_machine = step_machine step inv
  for step :: "'s \<Rightarrow> 'e \<Rightarrow> 'err + 's" and inv :: "'s \<Rightarrow> bool" +
  fixes le :: "'s \<Rightarrow> 's \<Rightarrow> bool"
  assumes le_refl: "le s s"
    and le_trans: "le s t \<Longrightarrow> le t u \<Longrightarrow> le s u"
    and step_le: "inv s \<Longrightarrow> step s e = Inr s' \<Longrightarrow> le s s'"
begin

lemma run_le: "inv s \<Longrightarrow> run_steps step s es = Inr t \<Longrightarrow> le s t"
proof (induction es arbitrary: s)
  case Nil
  then show ?case by (simp add: le_refl)
next
  case (Cons e es)
  from Cons.prems(2) obtain s' where "step s e = Inr s'" and "run_steps step s' es = Inr t"
    by (rule run_steps_ConsE)
  with Cons.IH Cons.prems(1) step_inv step_le le_trans show ?case by blast
qed

lemma serve_le: "inv s \<Longrightarrow> le s (serve step s e)"
  by (auto simp: serve_def le_refl step_le split: sum.splits)

lemma serve_all_le: "inv s \<Longrightarrow> le s (serve_all step s es)"
proof (induction es arbitrary: s)
  case Nil
  then show ?case by (simp add: le_refl)
next
  case (Cons e es)
  then show ?case
    using serve_inv serve_le le_trans by fastforce
qed

end

text \<open>A machine whose accepted steps use up a budget: its runs are bounded.\<close>

locale budgeted_machine = step_machine step inv
  for step :: "'s \<Rightarrow> 'e \<Rightarrow> 'err + 's" and inv :: "'s \<Rightarrow> bool" +
  fixes budget :: "'s \<Rightarrow> nat"
  assumes step_budget: "inv s \<Longrightarrow> step s e = Inr s' \<Longrightarrow> budget s' < budget s"
begin

lemma run_bound: "inv s \<Longrightarrow> run_steps step s es = Inr t \<Longrightarrow> budget t + length es \<le> budget s"
proof (induction es arbitrary: s)
  case Nil
  then show ?case by simp
next
  case (Cons e es)
  from Cons.prems(2) obtain s' where s': "step s e = Inr s'" "run_steps step s' es = Inr t"
    by (rule run_steps_ConsE)
  with Cons.prems(1) have "inv s'" by (blast intro: step_inv)
  with s' Cons.IH have "budget t + length es \<le> budget s'" by blast
  with s' Cons.prems(1) step_budget [of s e s'] show ?case by simp
qed

end

end
