(* ===== verification/Schemas.thy ===== *)
theory Schemas
  imports Relay_Prelude
begin

text \<open>
  The wire data of \<^verbatim>\<open>protocol/src/schemas.ts\<close>.  A zod object schema becomes a record (its shape),
  a \<open>_ok\<close> predicate (the value constraints of its fields) and, where the source refines the object,
  an \<open>_issues\<close> function that returns the issues the refinement adds, in the order of the source;
  a value parses when the fields are in order and no issue is added.  Number fields are integers,
  which is what their \<open>.int()\<close> requires.
\<close>

section \<open>Scalars\<close>

type_synonym uuid = string
type_synonym timestamp = string

abbreviation "max_text_length \<equiv> (16000 :: int)"
abbreviation "max_acceptance_criteria \<equiv> (32 :: nat)"
abbreviation "max_artifacts \<equiv> (16 :: nat)"
abbreviation "max_artifact_types \<equiv> (16 :: nat)"
abbreviation "max_verification_evidence \<equiv> (16 :: nat)"
abbreviation "max_artifact_bytes \<equiv> (1048576 :: int)"
abbreviation "max_turns_limit \<equiv> (200 :: int)"
abbreviation "max_wall_time_seconds_limit \<equiv> (7 * 24 * 60 * 60 :: int)"
abbreviation "max_token_budget \<equiv> (100000000 :: int)"
abbreviation "max_safe_integer \<equiv> (9007199254740991 :: int)"
abbreviation "max_int32 \<equiv> (2147483647 :: int)"

definition bounded_text_ok :: "jstext \<Rightarrow> bool" where
  "bounded_text_ok t \<longleftrightarrow> 1 \<le> length t \<and> int (length t) \<le> max_text_length \<and> js_trim t \<noteq> []"

definition acceptance_criterion_ok :: "jstext \<Rightarrow> bool" where
  "acceptance_criterion_ok t \<longleftrightarrow> 1 \<le> length t \<and> int (length t) \<le> 2000 \<and> js_trim t \<noteq> []"

text \<open>A first character of one class and further characters of another, the shape of the
  identifier patterns.\<close>

definition head_tail :: "(char \<Rightarrow> bool) \<Rightarrow> (char \<Rightarrow> bool) \<Rightarrow> string \<Rightarrow> bool" where
  "head_tail p q s = (case s of [] \<Rightarrow> False | c # cs \<Rightarrow> p c \<and> list_all q cs)"

definition identifier_ok :: "string \<Rightarrow> bool" where
  "identifier_ok s \<longleftrightarrow> 1 \<le> length s \<and> length s \<le> 128
     \<and> head_tail is_alnum (\<lambda>c. is_alnum c \<or> c \<in> set ''._:-'') s"

definition alias_ok :: "string \<Rightarrow> bool" where
  "alias_ok s \<longleftrightarrow> 1 \<le> length s \<and> length s \<le> 64
     \<and> head_tail is_alnum (\<lambda>c. is_alnum c \<or> c \<in> set ''._-'') s
     \<and> s \<noteq> ''.'' \<and> s \<noteq> ''..''"

definition sha256_ok :: "string \<Rightarrow> bool" where
  "sha256_ok s \<longleftrightarrow> length s = 64 \<and> list_all is_hex s"

definition base_commit_ok :: "string \<Rightarrow> bool" where
  "base_commit_ok s \<longleftrightarrow> (length s = 40 \<or> length s = 64) \<and> list_all is_hex s"

definition repository_ref_ok :: "string \<Rightarrow> bool" where
  "repository_ref_ok s \<longleftrightarrow> 1 \<le> length s \<and> length s \<le> 256
     \<and> head_tail is_alnum (\<lambda>c. is_alnum c \<or> c \<in> set ''._/-'') s
     \<and> \<not> contains ''..'' s \<and> \<not> contains ''//'' s
     \<and> \<not> suffix ''/'' s \<and> \<not> suffix ''.'' s \<and> \<not> suffix ''.lock'' s"

text \<open>\<open>charCodeAt(0)\<close> of the elements of \<open>[...value]\<close>: the second unit of a surrogate pair is not
  visited.\<close>

fun code_point_leads :: "jstext \<Rightarrow> jstext" where
  "code_point_leads [] = []"
| "code_point_leads [u] = [u]"
| "code_point_leads (u # v # us) =
     (if is_high_surrogate u \<and> is_low_surrogate v then u # code_point_leads us
      else u # code_point_leads (v # us))"

definition opaque_ok :: "nat \<Rightarrow> jstext \<Rightarrow> bool" where
  "opaque_ok max_length t \<longleftrightarrow> 1 \<le> length t \<and> length t \<le> max_length
     \<and> list_all (\<lambda>code. 0x1F < code \<and> code \<noteq> 0x7F) (code_point_leads t)"

definition opaque_reference_ok :: "jstext \<Rightarrow> bool" where
  "opaque_reference_ok t \<longleftrightarrow> opaque_ok 256 t"

definition fencing_token_ok :: "string \<Rightarrow> bool" where
  "fencing_token_ok s \<longleftrightarrow>
     (s = ''0'' \<or> head_tail (\<lambda>c. is_digit c \<and> c \<noteq> CHR ''0'') is_digit s) \<and> length s \<le> 64"

definition uuid_ok :: "host_lib \<Rightarrow> string \<Rightarrow> bool" where
  "uuid_ok L s \<longleftrightarrow> uuid_format L s \<and> is_lowercase s"

definition contract_version_ok :: "int \<Rightarrow> bool" where
  "contract_version_ok n \<longleftrightarrow> 0 < n \<and> n \<le> 1000000"

definition iso_timestamp_ok :: "host_lib \<Rightarrow> string \<Rightarrow> bool" where
  "iso_timestamp_ok L s \<longleftrightarrow> length s \<le> 64 \<and> datetime_format L s"

text \<open>\<open>x.nullable()\<close> and \<open>x.optional()\<close> around a schema.\<close>

definition nullable :: "('a \<Rightarrow> bool) \<Rightarrow> 'a option \<Rightarrow> bool" where
  "nullable ok v = (case v of None \<Rightarrow> True | Some x \<Rightarrow> ok x)"

lemma nullable_simps [simp]: "nullable ok None" "nullable ok (Some x) = ok x"
  by (simp_all add: nullable_def)

section \<open>Enumerations\<close>

datatype mission_status =
  M_awaiting_acceptance | M_active | M_verifying | M_blocked
| M_completed | M_cancelled | M_expired | M_failed

datatype delivery_status =
  D_stored | D_leased | D_executing | D_acknowledged | D_cancelled | D_dead_lettered

datatype delivery_kind = K_turn | K_verification | K_contract_acknowledgement

datatype cancellation_reason =
  Mission_cancelled | Mission_expired | Mission_failed | Work_superseded
| Node_revoked | Workspace_revoked

datatype release_classification = R_transient | R_permanent | R_policy_denied

datatype run_status = Run_running | Run_completed | Run_failed | Run_cancelled

datatype message_type = T_question | T_answer | T_proposal | T_decision | T_progress | T_blocker

datatype actor_kind = A_owner | A_agent

datatype active_status = S_active | S_revoked

datatype evidence_outcome = Passed | Failed

datatype failure_class = F_transient | F_permanent | F_policy_denied

fun delivery_status_name :: "delivery_status \<Rightarrow> string" where
  "delivery_status_name D_stored = ''stored''"
| "delivery_status_name D_leased = ''leased''"
| "delivery_status_name D_executing = ''executing''"
| "delivery_status_name D_acknowledged = ''acknowledged''"
| "delivery_status_name D_cancelled = ''cancelled''"
| "delivery_status_name D_dead_lettered = ''dead_lettered''"

section \<open>Delivery cursors\<close>

definition compare_decimal_strings :: "string \<Rightarrow> string \<Rightarrow> int" where
  "compare_decimal_strings left right =
     (if length left \<noteq> length right then (if length left > length right then 1 else -1)
      else if left = right then 0 else if left > right then 1 else -1)"

definition delivery_cursor_ok :: "string \<Rightarrow> bool" where
  "delivery_cursor_ok s \<longleftrightarrow> head_tail (\<lambda>c. is_digit c \<and> c \<noteq> CHR ''0'') is_digit s
     \<and> length s \<le> 19 \<and> compare_decimal_strings s ''9223372036854775807'' \<le> 0"

definition artifact_type_ok :: "string \<Rightarrow> bool" where
  "artifact_type_ok s \<longleftrightarrow> 1 \<le> length s \<and> length s \<le> 64
     \<and> head_tail is_lower (\<lambda>c. is_lower c \<or> is_digit c \<or> c \<in> set ''._-'') s"

section \<open>Actors, nodes and workspaces\<close>

record actor_ref =
  principal_id :: uuid
  actor_ref_kind :: actor_kind

definition actor_ref_ok :: "host_lib \<Rightarrow> actor_ref \<Rightarrow> bool" where
  "actor_ref_ok L a \<longleftrightarrow> uuid_ok L (principal_id a)"

record node_enrollment_input =
  ne_name :: string
  ne_capabilities :: "string list"

definition node_enrollment_input_ok :: "node_enrollment_input \<Rightarrow> bool" where
  "node_enrollment_input_ok i \<longleftrightarrow> alias_ok (ne_name i)
     \<and> list_all identifier_ok (ne_capabilities i) \<and> length (ne_capabilities i) \<le> 32
     \<and> has_unique_values (ne_capabilities i)"

record node_descriptor =
  nd_node_id :: uuid
  nd_agent_id :: uuid
  nd_name :: string
  nd_status :: active_status
  nd_capabilities :: "string list"
  nd_last_seen_at :: "timestamp option"
  nd_created_at :: timestamp
  nd_updated_at :: timestamp
  nd_revoked_at :: "timestamp option"

definition node_descriptor_fields_ok :: "host_lib \<Rightarrow> node_descriptor \<Rightarrow> bool" where
  "node_descriptor_fields_ok L n \<longleftrightarrow>
     uuid_ok L (nd_node_id n) \<and> uuid_ok L (nd_agent_id n) \<and> alias_ok (nd_name n)
     \<and> list_all identifier_ok (nd_capabilities n) \<and> length (nd_capabilities n) \<le> 32
     \<and> nullable (iso_timestamp_ok L) (nd_last_seen_at n)
     \<and> iso_timestamp_ok L (nd_created_at n) \<and> iso_timestamp_ok L (nd_updated_at n)
     \<and> nullable (iso_timestamp_ok L) (nd_revoked_at n)"

definition outside_lifetime :: "host_lib \<Rightarrow> timestamp option \<Rightarrow> timestamp \<Rightarrow> timestamp \<Rightarrow> bool" where
  "outside_lifetime L at created updated =
     (case at of None \<Rightarrow> False
      | Some t \<Rightarrow> num_lt (date_parse L t) (date_parse L created)
          \<or> num_lt (date_parse L updated) (date_parse L t))"

definition node_descriptor_issues :: "host_lib \<Rightarrow> node_descriptor \<Rightarrow> issue list" where
  "node_descriptor_issues L n =
     add_issue ((nd_status n = S_revoked) \<noteq> (nd_revoked_at n \<noteq> None))
       ''Node revocation timestamp must match revoked status'' [Key ''revoked_at'']
   @ add_issue (outside_lifetime L (nd_revoked_at n) (nd_created_at n) (nd_updated_at n))
       ''Node revocation timestamp must fall within its persisted lifetime'' [Key ''revoked_at'']
   @ add_issue (num_lt (date_parse L (nd_updated_at n)) (date_parse L (nd_created_at n)))
       ''Node update cannot precede enrollment'' [Key ''updated_at'']
   @ add_issue (outside_lifetime L (nd_last_seen_at n) (nd_created_at n) (nd_updated_at n))
       ''Node last-seen timestamp must fall within its persisted lifetime'' [Key ''last_seen_at'']
   @ add_issue (\<not> has_unique_values (nd_capabilities n))
       ''Node capabilities must be unique'' [Key ''capabilities'']"

definition node_descriptor_ok :: "host_lib \<Rightarrow> node_descriptor \<Rightarrow> bool" where
  "node_descriptor_ok L n \<longleftrightarrow> node_descriptor_fields_ok L n \<and> node_descriptor_issues L n = []"

definition before_char :: "'a \<Rightarrow> 'a list \<Rightarrow> 'a list" where
  "before_char c s = takeWhile (\<lambda>x. x \<noteq> c) s"

text \<open>\<open>s.slice(0, s.lastIndexOf(c))\<close>, the empty string when \<open>c\<close> does not occur.\<close>

definition before_last :: "'a \<Rightarrow> 'a list \<Rightarrow> 'a list" where
  "before_last c s = rev (tl (dropWhile (\<lambda>x. x \<noteq> c) (rev s)))"

definition repository_url_issues :: "jstext \<Rightarrow> issue list" where
  "repository_url_issues url =
     (if list_ex (\<lambda>code. code \<le> 0x20 \<or> code = 0x7F \<or> code = 0x5C) (code_point_leads url)
      then add_issue True ''Repository URL must not contain whitespace, controls, or backslashes'' []
      else
        (let https = text_of ''https://''; ssh = text_of ''ssh://'' in
         if \<not> prefix https url \<and> \<not> prefix ssh url
         then add_issue True ''Repository URL must use https or ssh'' []
         else
           (let rest = drop (if prefix https url then length https else length ssh) url;
                authority = before_char (of_char (CHR ''/'')) rest;
                user_info = before_last (of_char (CHR ''@'')) authority
            in add_issue ((prefix https url \<and> user_info \<noteq> [])
                          \<or> (\<not> prefix https url \<and> user_info \<noteq> text_of ''git''))
                 ''Repository URL must not contain credentials'' []
             @ add_issue (of_char (CHR ''?'') \<in> set url \<or> of_char (CHR ''#'') \<in> set url)
                 ''Repository URL must not contain query parameters or fragments'' [])))"

definition repository_url_ok :: "host_lib \<Rightarrow> jstext \<Rightarrow> bool" where
  "repository_url_ok L url \<longleftrightarrow>
     int (length url) \<le> 2048 \<and> url_format L url \<and> repository_url_issues url = []"

record workspace_registration_input =
  wr_alias :: string
  wr_repository_url :: jstext
  wr_allowed_base_refs :: "string list"

definition workspace_registration_input_ok :: "host_lib \<Rightarrow> workspace_registration_input \<Rightarrow> bool" where
  "workspace_registration_input_ok L i \<longleftrightarrow>
     alias_ok (wr_alias i) \<and> repository_url_ok L (wr_repository_url i)
     \<and> list_all repository_ref_ok (wr_allowed_base_refs i) \<and> length (wr_allowed_base_refs i) \<le> 32
     \<and> has_unique_values (wr_allowed_base_refs i)"

record workspace_binding =
  wb_workspace_binding_id :: uuid
  wb_node_id :: uuid
  wb_agent_id :: uuid
  wb_alias :: string
  wb_repository_url :: jstext
  wb_allowed_base_refs :: "string list"
  wb_status :: active_status
  wb_created_at :: timestamp
  wb_updated_at :: timestamp
  wb_revoked_at :: "timestamp option"

definition workspace_binding_fields_ok :: "host_lib \<Rightarrow> workspace_binding \<Rightarrow> bool" where
  "workspace_binding_fields_ok L b \<longleftrightarrow>
     uuid_ok L (wb_workspace_binding_id b) \<and> uuid_ok L (wb_node_id b) \<and> uuid_ok L (wb_agent_id b)
     \<and> alias_ok (wb_alias b) \<and> repository_url_ok L (wb_repository_url b)
     \<and> list_all repository_ref_ok (wb_allowed_base_refs b) \<and> length (wb_allowed_base_refs b) \<le> 32
     \<and> iso_timestamp_ok L (wb_created_at b) \<and> iso_timestamp_ok L (wb_updated_at b)
     \<and> nullable (iso_timestamp_ok L) (wb_revoked_at b)"

definition workspace_binding_issues :: "host_lib \<Rightarrow> workspace_binding \<Rightarrow> issue list" where
  "workspace_binding_issues L b =
     add_issue ((wb_status b = S_revoked) \<noteq> (wb_revoked_at b \<noteq> None))
       ''Workspace-binding revocation timestamp must match revoked status'' [Key ''revoked_at'']
   @ add_issue (outside_lifetime L (wb_revoked_at b) (wb_created_at b) (wb_updated_at b))
       ''Workspace-binding revocation must fall within its persisted lifetime'' [Key ''revoked_at'']
   @ add_issue (num_lt (date_parse L (wb_updated_at b)) (date_parse L (wb_created_at b)))
       ''Workspace-binding update cannot precede creation'' [Key ''updated_at'']
   @ add_issue (\<not> has_unique_values (wb_allowed_base_refs b))
       ''Allowed base refs must be unique'' [Key ''allowed_base_refs'']"

definition workspace_binding_ok :: "host_lib \<Rightarrow> workspace_binding \<Rightarrow> bool" where
  "workspace_binding_ok L b \<longleftrightarrow> workspace_binding_fields_ok L b \<and> workspace_binding_issues L b = []"

section \<open>Participants, artifacts and contract revisions\<close>

record participant =
  p_agent_id :: uuid
  p_role :: string
  p_workspace_alias :: string
  p_repository_url :: jstext
  p_expected_base_commit :: string
  p_initial_assignment :: jstext
  p_requested_local_policy_profile :: string

definition participant_ok :: "host_lib \<Rightarrow> participant \<Rightarrow> bool" where
  "participant_ok L p \<longleftrightarrow>
     uuid_ok L (p_agent_id p) \<and> alias_ok (p_role p) \<and> alias_ok (p_workspace_alias p)
     \<and> repository_url_ok L (p_repository_url p) \<and> base_commit_ok (p_expected_base_commit p)
     \<and> bounded_text_ok (p_initial_assignment p) \<and> alias_ok (p_requested_local_policy_profile p)"

record artifact_ref =
  a_artifact_id :: uuid
  a_type :: string
  a_version :: int
  a_sha256 :: string
  a_media_type :: jstext
  a_byte_size :: int

definition artifact_ref_ok :: "host_lib \<Rightarrow> artifact_ref \<Rightarrow> bool" where
  "artifact_ref_ok L a \<longleftrightarrow>
     uuid_ok L (a_artifact_id a) \<and> artifact_type_ok (a_type a) \<and> contract_version_ok (a_version a)
     \<and> sha256_ok (a_sha256 a) \<and> 1 \<le> length (a_media_type a) \<and> length (a_media_type a) \<le> 128
     \<and> 0 \<le> a_byte_size a \<and> a_byte_size a \<le> max_artifact_bytes"

definition shared_contract_ok :: "host_lib \<Rightarrow> artifact_ref \<Rightarrow> bool" where
  "shared_contract_ok L a \<longleftrightarrow> artifact_ref_ok L a \<and> a_version a = 1"

record contract_revision =
  r_revision_id :: uuid
  r_mission_id :: uuid
  r_previous_version :: int
  r_version :: int
  r_artifact :: artifact_ref
  r_proposed_by_agent_id :: uuid
  r_acknowledged_by_agent_ids :: "uuid list"
  r_idempotency_key :: string
  r_created_at :: timestamp

definition contract_revision_fields_ok :: "host_lib \<Rightarrow> contract_revision \<Rightarrow> bool" where
  "contract_revision_fields_ok L r \<longleftrightarrow>
     uuid_ok L (r_revision_id r) \<and> uuid_ok L (r_mission_id r)
     \<and> 0 < r_previous_version r \<and> r_previous_version r \<le> 999999
     \<and> contract_version_ok (r_version r) \<and> 2 \<le> r_version r
     \<and> artifact_ref_ok L (r_artifact r) \<and> uuid_ok L (r_proposed_by_agent_id r)
     \<and> list_all (uuid_ok L) (r_acknowledged_by_agent_ids r)
     \<and> length (r_acknowledged_by_agent_ids r) \<le> 2
     \<and> identifier_ok (r_idempotency_key r) \<and> iso_timestamp_ok L (r_created_at r)"

definition contract_revision_issues :: "contract_revision \<Rightarrow> issue list" where
  "contract_revision_issues r =
     add_issue (r_version r \<noteq> r_previous_version r + 1)
       ''Contract revision versions must be consecutive'' [Key ''version'']
   @ add_issue (a_version (r_artifact r) \<noteq> r_version r)
       ''Contract artifact version must match revision version'' [Key ''artifact'', Key ''version'']
   @ add_issue (\<not> has_unique_values (r_acknowledged_by_agent_ids r))
       ''Contract acknowledgements must be unique'' [Key ''acknowledged_by_agent_ids'']"

definition contract_revision_ok :: "host_lib \<Rightarrow> contract_revision \<Rightarrow> bool" where
  "contract_revision_ok L r \<longleftrightarrow> contract_revision_fields_ok L r \<and> contract_revision_issues r = []"

section \<open>Messages, evidence and turn dispositions\<close>

record message =
  m_message_id :: uuid
  m_mission_id :: uuid
  m_sequence_no :: int
  m_author_agent_id :: uuid
  m_type :: message_type
  m_body :: jstext
  m_artifacts :: "artifact_ref list"
  m_contract_version :: int
  m_idempotency_key :: string
  m_causal_parent_message_id :: "uuid option"
  m_created_at :: timestamp

definition message_ok :: "host_lib \<Rightarrow> message \<Rightarrow> bool" where
  "message_ok L m \<longleftrightarrow>
     uuid_ok L (m_message_id m) \<and> uuid_ok L (m_mission_id m)
     \<and> 0 < m_sequence_no m \<and> m_sequence_no m \<le> max_safe_integer
     \<and> uuid_ok L (m_author_agent_id m) \<and> bounded_text_ok (m_body m)
     \<and> list_all (artifact_ref_ok L) (m_artifacts m) \<and> length (m_artifacts m) \<le> max_artifacts
     \<and> contract_version_ok (m_contract_version m) \<and> identifier_ok (m_idempotency_key m)
     \<and> nullable (uuid_ok L) (m_causal_parent_message_id m) \<and> iso_timestamp_ok L (m_created_at m)
     \<and> has_unique_values (map a_artifact_id (m_artifacts m))"

record verification_evidence =
  e_verification_id :: uuid
  e_command_id :: string
  e_outcome :: evidence_outcome
  e_exit_code :: int
  e_duration_ms :: int
  e_summary :: jstext
  e_output_sha256 :: string
  e_artifacts :: "artifact_ref list"
  e_recorded_at :: timestamp

definition evidence_fields_ok :: "host_lib \<Rightarrow> verification_evidence \<Rightarrow> bool" where
  "evidence_fields_ok L e \<longleftrightarrow>
     uuid_ok L (e_verification_id e) \<and> alias_ok (e_command_id e)
     \<and> 0 \<le> e_exit_code e \<and> e_exit_code e \<le> 255
     \<and> 0 \<le> e_duration_ms e \<and> e_duration_ms e \<le> max_wall_time_seconds_limit * 1000
     \<and> bounded_text_ok (e_summary e) \<and> sha256_ok (e_output_sha256 e)
     \<and> list_all (artifact_ref_ok L) (e_artifacts e) \<and> length (e_artifacts e) \<le> max_artifacts
     \<and> iso_timestamp_ok L (e_recorded_at e)"

definition evidence_issues :: "verification_evidence \<Rightarrow> issue list" where
  "evidence_issues e =
     add_issue (e_outcome e = Passed \<and> e_exit_code e \<noteq> 0)
       ''Passed verification must have exit code 0'' [Key ''exit_code'']
   @ add_issue (e_outcome e = Failed \<and> e_exit_code e = 0)
       ''Failed verification must have a non-zero exit code'' [Key ''exit_code'']"

definition evidence_ok :: "host_lib \<Rightarrow> verification_evidence \<Rightarrow> bool" where
  "evidence_ok L e \<longleftrightarrow> evidence_fields_ok L e \<and> evidence_issues e = []"

text \<open>The five dispositions, in the order of the discriminated union; an absent optional field is
  \<^const>\<open>None\<close>.\<close>

datatype turn_disposition =
  Reply message_type jstext "artifact_ref list option"
| Propose_contract artifact_ref
| Ready "verification_evidence list"
| Blocked jstext "jstext option"
| Failed_turn failure_class

fun turn_disposition_ok :: "host_lib \<Rightarrow> turn_disposition \<Rightarrow> bool" where
  "turn_disposition_ok L (Reply t msg arts) =
     (bounded_text_ok msg
      \<and> nullable (\<lambda>as. list_all (artifact_ref_ok L) as \<and> length as \<le> max_artifacts) arts)"
| "turn_disposition_ok L (Propose_contract a) = artifact_ref_ok L a"
| "turn_disposition_ok L (Ready es) =
     (list_all (evidence_ok L) es \<and> length es \<le> max_verification_evidence)"
| "turn_disposition_ok L (Blocked reason requested) =
     (bounded_text_ok reason \<and> nullable bounded_text_ok requested)"
| "turn_disposition_ok L (Failed_turn c) = True"

section \<open>Mission manifests\<close>

record manifest =
  mf_schema_version :: int
  mf_mission_id :: uuid
  mf_objective :: jstext
  mf_public_acceptance_criteria :: "jstext list"
  mf_participants :: "participant list"
  mf_shared_contract :: artifact_ref
  mf_max_turns :: int
  mf_max_wall_time_seconds :: int
  mf_token_budget :: int
  mf_expires_at :: timestamp
  mf_allowed_artifact_types :: "string list"
  mf_created_at :: timestamp

definition manifest_fields_ok :: "host_lib \<Rightarrow> manifest \<Rightarrow> bool" where
  "manifest_fields_ok L m \<longleftrightarrow>
     mf_schema_version m = 1 \<and> uuid_ok L (mf_mission_id m) \<and> bounded_text_ok (mf_objective m)
     \<and> list_all acceptance_criterion_ok (mf_public_acceptance_criteria m)
     \<and> 1 \<le> length (mf_public_acceptance_criteria m)
     \<and> length (mf_public_acceptance_criteria m) \<le> max_acceptance_criteria
     \<and> list_all (participant_ok L) (mf_participants m) \<and> length (mf_participants m) = 2
     \<and> shared_contract_ok L (mf_shared_contract m)
     \<and> 0 < mf_max_turns m \<and> mf_max_turns m \<le> max_turns_limit
     \<and> 0 < mf_max_wall_time_seconds m \<and> mf_max_wall_time_seconds m \<le> max_wall_time_seconds_limit
     \<and> 0 < mf_token_budget m \<and> mf_token_budget m \<le> max_token_budget
     \<and> iso_timestamp_ok L (mf_expires_at m)
     \<and> list_all artifact_type_ok (mf_allowed_artifact_types m)
     \<and> 1 \<le> length (mf_allowed_artifact_types m)
     \<and> length (mf_allowed_artifact_types m) \<le> max_artifact_types
     \<and> iso_timestamp_ok L (mf_created_at m)"

definition manifest_issues :: "host_lib \<Rightarrow> manifest \<Rightarrow> issue list" where
  "manifest_issues L m =
     add_issue (\<not> has_unique_values (map p_agent_id (mf_participants m)))
       ''Mission participants must be unique'' [Key ''participants'']
   @ add_issue (\<not> has_unique_values (mf_public_acceptance_criteria m))
       ''Public acceptance criteria must be unique'' [Key ''public_acceptance_criteria'']
   @ add_issue (\<not> has_unique_values (mf_allowed_artifact_types m))
       ''Allowed artifact types must be unique'' [Key ''allowed_artifact_types'']
   @ add_issue (a_type (mf_shared_contract m) \<notin> set (mf_allowed_artifact_types m))
       ''Shared contract type must be allowed by the Mission'' [Key ''shared_contract'', Key ''type'']
   @ add_issue (num_le (date_parse L (mf_expires_at m)) (date_parse L (mf_created_at m)))
       ''Mission expiry must be after creation'' [Key ''expires_at'']"

definition manifest_ok :: "host_lib \<Rightarrow> manifest \<Rightarrow> bool" where
  "manifest_ok L m \<longleftrightarrow> manifest_fields_ok L m \<and> manifest_issues L m = []"

record mission_context =
  mc_manifest :: manifest
  mc_created_by :: actor_ref

definition mission_context_ok :: "host_lib \<Rightarrow> mission_context \<Rightarrow> bool" where
  "mission_context_ok L c \<longleftrightarrow> manifest_ok L (mc_manifest c) \<and> actor_ref_ok L (mc_created_by c)"

record event_envelope =
  ev_event_id :: uuid
  ev_idempotency_key :: string
  ev_mission_id :: uuid
  ev_sequence_no :: int
  ev_created_at :: timestamp

definition event_envelope_ok :: "host_lib \<Rightarrow> event_envelope \<Rightarrow> bool" where
  "event_envelope_ok L v \<longleftrightarrow>
     uuid_ok L (ev_event_id v) \<and> identifier_ok (ev_idempotency_key v) \<and> uuid_ok L (ev_mission_id v)
     \<and> 0 < ev_sequence_no v \<and> ev_sequence_no v \<le> max_int32 \<and> iso_timestamp_ok L (ev_created_at v)"

end
