(* ===== verification/Deliveries.thy ===== *)
theory Deliveries
  imports Schemas
begin

text \<open>
  Deliveries, their leases and settlements, the cursor pages of stored deliveries, and runs
  (\<^verbatim>\<open>protocol/src/schemas.ts\<close>, second half), with the order of delivery cursors.
\<close>

section \<open>Delivery records\<close>

record delivery_lease =
  dl_lease_id :: uuid
  dl_fencing_token :: string
  dl_expires_at :: timestamp

definition active_fencing_token_ok :: "string \<Rightarrow> bool" where
  "active_fencing_token_ok t \<longleftrightarrow> fencing_token_ok t \<and> t \<noteq> ''0''"

definition delivery_lease_ok :: "host_lib \<Rightarrow> delivery_lease \<Rightarrow> bool" where
  "delivery_lease_ok L l \<longleftrightarrow> uuid_ok L (dl_lease_id l)
     \<and> active_fencing_token_ok (dl_fencing_token l) \<and> iso_timestamp_ok L (dl_expires_at l)"

record lease_authority =
  la_lease_id :: uuid
  la_fencing_token :: string

definition lease_authority_ok :: "host_lib \<Rightarrow> lease_authority \<Rightarrow> bool" where
  "lease_authority_ok L l \<longleftrightarrow> uuid_ok L (la_lease_id l) \<and> active_fencing_token_ok (la_fencing_token l)"

record logical_settlement =
  ls_settled_by_event_id :: uuid
  ls_settled_at :: timestamp

definition logical_settlement_ok :: "host_lib \<Rightarrow> logical_settlement \<Rightarrow> bool" where
  "logical_settlement_ok L x \<longleftrightarrow>
     uuid_ok L (ls_settled_by_event_id x) \<and> iso_timestamp_ok L (ls_settled_at x)"

record delivery =
  d_delivery_id :: uuid
  d_node_id :: uuid
  d_mission_id :: uuid
  d_mission_event_id :: uuid
  d_kind :: delivery_kind
  d_cursor :: string
  d_status :: delivery_status
  d_attempt_count :: int
  d_max_attempts :: int
  d_last_fencing_token :: string
  d_contract_version :: int
  d_verification_round :: "int option"
  d_lease :: "delivery_lease option"
  d_logical_settlement :: "logical_settlement option"
  d_idempotency_key :: string
  d_causal_parent_delivery_id :: "uuid option"
  d_available_at :: timestamp
  d_created_at :: timestamp
  d_updated_at :: timestamp
  d_acknowledged_at :: "timestamp option"
  d_cancelled_at :: "timestamp option"
  d_cancellation_reason :: "cancellation_reason option"
  d_dead_lettered_at :: "timestamp option"

definition delivery_fields_ok :: "host_lib \<Rightarrow> delivery \<Rightarrow> bool" where
  "delivery_fields_ok L d \<longleftrightarrow>
     uuid_ok L (d_delivery_id d) \<and> uuid_ok L (d_node_id d) \<and> uuid_ok L (d_mission_id d)
     \<and> uuid_ok L (d_mission_event_id d) \<and> delivery_cursor_ok (d_cursor d)
     \<and> 0 \<le> d_attempt_count d \<and> d_attempt_count d \<le> 100
     \<and> 0 < d_max_attempts d \<and> d_max_attempts d \<le> 100
     \<and> fencing_token_ok (d_last_fencing_token d) \<and> contract_version_ok (d_contract_version d)
     \<and> nullable (\<lambda>r. 0 < r \<and> r \<le> max_int32) (d_verification_round d)
     \<and> nullable (delivery_lease_ok L) (d_lease d)
     \<and> nullable (logical_settlement_ok L) (d_logical_settlement d)
     \<and> identifier_ok (d_idempotency_key d)
     \<and> nullable (uuid_ok L) (d_causal_parent_delivery_id d)
     \<and> iso_timestamp_ok L (d_available_at d) \<and> iso_timestamp_ok L (d_created_at d)
     \<and> iso_timestamp_ok L (d_updated_at d)
     \<and> nullable (iso_timestamp_ok L) (d_acknowledged_at d)
     \<and> nullable (iso_timestamp_ok L) (d_cancelled_at d)
     \<and> nullable (iso_timestamp_ok L) (d_dead_lettered_at d)"

definition needs_lease :: "delivery \<Rightarrow> bool" where
  "needs_lease d \<longleftrightarrow> d_status d = D_leased \<or> d_status d = D_executing"

definition settled_at :: "delivery \<Rightarrow> timestamp option" where
  "settled_at d = map_option ls_settled_at (d_logical_settlement d)"

text \<open>The loops over \<open>[field, value]\<close> pairs of the refinement.\<close>

definition each_time :: "(timestamp \<Rightarrow> bool) \<Rightarrow> string \<Rightarrow> (string \<times> timestamp option) list \<Rightarrow> issue list" where
  "each_time bad msg pairs =
     concat (map (\<lambda>(field, v). case v of None \<Rightarrow> []
                  | Some t \<Rightarrow> add_issue (bad t) (field @ msg) [Key field]) pairs)"

lemma each_time_Nil [simp]:
  "each_time bad msg pairs = [] \<longleftrightarrow> (\<forall>(f, v) \<in> set pairs. case v of None \<Rightarrow> True | Some t \<Rightarrow> \<not> bad t)"
  by (force simp: each_time_def split: option.splits)

definition delivery_shape_issues :: "delivery \<Rightarrow> issue list" where
  "delivery_shape_issues d =
     add_issue ((d_kind d = K_verification) \<noteq> (d_verification_round d \<noteq> None))
       ''Only verification deliveries carry a verification round'' [Key ''verification_round'']
   @ add_issue (needs_lease d \<and> d_lease d = None)
       (delivery_status_name (d_status d) @ '' delivery requires a lease'') [Key ''lease'']
   @ add_issue (\<not> needs_lease d \<and> d_lease d \<noteq> None)
       (delivery_status_name (d_status d) @ '' delivery cannot retain an active lease'') [Key ''lease'']
   @ add_issue (d_attempt_count d > d_max_attempts d)
       ''Delivery attempt count cannot exceed its limit'' [Key ''attempt_count'']
   @ add_issue (needs_lease d \<and> d_attempt_count d = 0)
       ''Active delivery lease requires at least one attempt'' [Key ''attempt_count'']
   @ add_issue (d_status d = D_acknowledged \<and> d_attempt_count d = 0)
       ''Acknowledged delivery requires at least one execution attempt'' [Key ''attempt_count'']
   @ add_issue (d_status d = D_stored \<and> d_attempt_count d \<ge> d_max_attempts d)
       ''Stored delivery must retain capacity for another lease'' [Key ''attempt_count'']
   @ add_issue (d_last_fencing_token d \<noteq> string_of_int (d_attempt_count d))
       ''Latest fencing token must equal the delivery attempt count'' [Key ''last_fencing_token'']
   @ add_issue (case d_lease d of None \<Rightarrow> False
                | Some l \<Rightarrow> dl_fencing_token l \<noteq> d_last_fencing_token d)
       ''Active lease must use the delivery's latest fencing token'' [Key ''lease'', Key ''fencing_token'']
   @ add_issue ((d_status d = D_acknowledged) \<noteq> (d_acknowledged_at d \<noteq> None))
       ''Acknowledged timestamp must match acknowledged status'' [Key ''acknowledged_at'']
   @ add_issue ((d_status d = D_cancelled) \<noteq> (d_cancelled_at d \<noteq> None))
       ''Cancellation timestamp must match cancelled status'' [Key ''cancelled_at'']
   @ add_issue ((d_status d = D_cancelled) \<noteq> (d_cancellation_reason d \<noteq> None))
       ''Cancellation reason must match cancelled status'' [Key ''cancellation_reason'']
   @ add_issue ((d_status d = D_dead_lettered) \<noteq> (d_dead_lettered_at d \<noteq> None))
       ''Dead-letter timestamp must match dead-lettered status'' [Key ''dead_lettered_at'']
   @ add_issue (d_status d = D_acknowledged \<and> d_logical_settlement d = None)
       ''Acknowledged delivery requires logical settlement'' [Key ''logical_settlement'']
   @ add_issue (d_logical_settlement d \<noteq> None \<and> d_status d \<noteq> D_acknowledged \<and> d_status d \<noteq> D_cancelled)
       ''Logical settlement belongs only to acknowledged or cancelled work'' [Key ''logical_settlement'']"

definition delivery_time_issues :: "host_lib \<Rightarrow> delivery \<Rightarrow> issue list" where
  "delivery_time_issues L d =
     (let P = date_parse L; created = P (d_created_at d); updated = P (d_updated_at d) in
     each_time (\<lambda>t. num_lt (P t) created) '' cannot precede delivery creation''
       [(''available_at'', Some (d_available_at d)), (''updated_at'', Some (d_updated_at d)),
        (''settled_at'', settled_at d), (''acknowledged_at'', d_acknowledged_at d),
        (''cancelled_at'', d_cancelled_at d), (''dead_lettered_at'', d_dead_lettered_at d)]
   @ add_issue (case d_lease d of None \<Rightarrow> False | Some l \<Rightarrow> num_lt (P (dl_expires_at l)) created)
       ''Lease expiry cannot precede delivery creation'' [Key ''lease'', Key ''expires_at'']
   @ add_issue ((needs_lease d \<or> d_status d = D_acknowledged) \<and> num_lt updated (P (d_available_at d)))
       ''Delivery cannot be leased before it becomes available'' [Key ''available_at'']
   @ add_issue (case d_lease d of None \<Rightarrow> False | Some l \<Rightarrow> num_le (P (dl_expires_at l)) updated)
       ''Active lease must expire after the delivery update'' [Key ''lease'', Key ''expires_at'']
   @ each_time (\<lambda>t. num_lt updated (P t)) '' cannot follow the delivery update timestamp''
       [(''settled_at'', settled_at d), (''acknowledged_at'', d_acknowledged_at d),
        (''cancelled_at'', d_cancelled_at d), (''dead_lettered_at'', d_dead_lettered_at d)]
   @ add_issue (case d_acknowledged_at d of None \<Rightarrow> False
                | Some t \<Rightarrow> num_lt (P t) (P (d_available_at d)))
       ''Delivery acknowledgement cannot precede availability'' [Key ''acknowledged_at''])"

definition delivery_issues :: "host_lib \<Rightarrow> delivery \<Rightarrow> issue list" where
  "delivery_issues L d = delivery_shape_issues d @ delivery_time_issues L d"

definition delivery_ok :: "host_lib \<Rightarrow> delivery \<Rightarrow> bool" where
  "delivery_ok L d \<longleftrightarrow> delivery_fields_ok L d \<and> delivery_issues L d = []"

definition stored_delivery_ok :: "host_lib \<Rightarrow> delivery \<Rightarrow> bool" where
  "stored_delivery_ok L d \<longleftrightarrow> delivery_ok L d \<and> d_status d = D_stored"

section \<open>Cursor pages\<close>

record page_request =
  pr_after_cursor :: "string option"
  pr_limit :: int

definition stored_page_request_ok :: "page_request \<Rightarrow> bool" where
  "stored_page_request_ok r \<longleftrightarrow>
     nullable delivery_cursor_ok (pr_after_cursor r) \<and> 0 < pr_limit r \<and> pr_limit r \<le> 200"

record stored_page =
  sp_items :: "delivery list"
  sp_next_cursor :: "string option"

text \<open>The loop from index 1 over adjacent cursors.\<close>

fun adjacent_issues :: "(string \<Rightarrow> string \<Rightarrow> int) \<Rightarrow> string \<Rightarrow> (nat \<Rightarrow> path_elem list) \<Rightarrow> nat
    \<Rightarrow> string list \<Rightarrow> issue list" where
  "adjacent_issues cmp msg path i (a # b # cs) =
     add_issue (cmp a b \<ge> 0) msg (path i) @ adjacent_issues cmp msg path (Suc i) (b # cs)"
| "adjacent_issues cmp msg path i _ = []"

definition last_option :: "'a list \<Rightarrow> 'a option" where
  "last_option xs = (if xs = [] then None else Some (last xs))"

definition stored_page_issues :: "stored_page \<Rightarrow> issue list" where
  "stored_page_issues p =
     adjacent_issues compare_decimal_strings ''Delivery cursors must be strictly increasing''
       (\<lambda>i. [Key ''items'', Index i, Key ''cursor'']) 1 (map d_cursor (sp_items p))
   @ add_issue (length (remdups (map d_node_id (sp_items p))) > 1)
       ''A delivery cursor page belongs to one Node'' [Key ''items'']
   @ add_issue (case last_option (sp_items p) of None \<Rightarrow> False
                | Some d \<Rightarrow> sp_next_cursor p \<noteq> Some (d_cursor d))
       ''Next cursor must match the final returned delivery'' [Key ''next_cursor'']"

definition stored_page_ok :: "host_lib \<Rightarrow> stored_page \<Rightarrow> bool" where
  "stored_page_ok L p \<longleftrightarrow>
     list_all (stored_delivery_ok L) (sp_items p) \<and> length (sp_items p) \<le> 200
     \<and> nullable delivery_cursor_ok (sp_next_cursor p) \<and> stored_page_issues p = []"

section \<open>Runs\<close>

record runtime =
  rt_name :: jstext
  rt_version :: jstext

definition runtime_name_ok :: "jstext \<Rightarrow> bool" where
  "runtime_name_ok t \<longleftrightarrow> opaque_ok 128 t"

definition runtime_ok :: "runtime \<Rightarrow> bool" where
  "runtime_ok r \<longleftrightarrow> runtime_name_ok (rt_name r) \<and> runtime_name_ok (rt_version r)"

datatype usage_reason = Unsupported | Not_reported

datatype token_usage = Available_usage int int | Unavailable_usage usage_reason

fun token_usage_ok :: "token_usage \<Rightarrow> bool" where
  "token_usage_ok (Available_usage i out) =
     (0 \<le> i \<and> i \<le> max_token_budget \<and> 0 \<le> out \<and> out \<le> max_token_budget)"
| "token_usage_ok (Unavailable_usage r) = True"

record run =
  run_run_id :: uuid
  run_mission_id :: uuid
  run_participant_agent_id :: uuid
  run_node_id :: uuid
  run_delivery_id :: uuid
  run_lease_id :: uuid
  run_fencing_token :: string
  run_contract_version :: int
  run_runtime :: runtime
  run_turn_ref :: jstext
  run_status :: run_status
  run_usage :: token_usage
  run_disposition :: "turn_disposition option"
  run_artifact_hashes :: "string list"
  run_verification_evidence :: "verification_evidence list"
  run_started_at :: timestamp
  run_completed_at :: "timestamp option"

definition run_fields_ok :: "host_lib \<Rightarrow> run \<Rightarrow> bool" where
  "run_fields_ok L r \<longleftrightarrow>
     uuid_ok L (run_run_id r) \<and> uuid_ok L (run_mission_id r) \<and> uuid_ok L (run_participant_agent_id r)
     \<and> uuid_ok L (run_node_id r) \<and> uuid_ok L (run_delivery_id r) \<and> uuid_ok L (run_lease_id r)
     \<and> active_fencing_token_ok (run_fencing_token r) \<and> contract_version_ok (run_contract_version r)
     \<and> runtime_ok (run_runtime r) \<and> opaque_reference_ok (run_turn_ref r)
     \<and> token_usage_ok (run_usage r) \<and> nullable (turn_disposition_ok L) (run_disposition r)
     \<and> list_all sha256_ok (run_artifact_hashes r) \<and> length (run_artifact_hashes r) \<le> max_artifacts
     \<and> list_all (evidence_ok L) (run_verification_evidence r)
     \<and> length (run_verification_evidence r) \<le> max_verification_evidence
     \<and> iso_timestamp_ok L (run_started_at r) \<and> nullable (iso_timestamp_ok L) (run_completed_at r)"

fun is_failed_disposition :: "turn_disposition option \<Rightarrow> bool" where
  "is_failed_disposition (Some (Failed_turn c)) = True"
| "is_failed_disposition _ = False"

definition run_issues :: "host_lib \<Rightarrow> run \<Rightarrow> issue list" where
  "run_issues L r =
     add_issue ((run_status r = Run_running) \<noteq> (run_completed_at r = None))
       ''Only running runs may omit a completion timestamp'' [Key ''completed_at'']
   @ add_issue (run_status r = Run_completed \<and> run_disposition r = None)
       ''Completed run requires a disposition'' [Key ''disposition'']
   @ add_issue (run_status r = Run_running \<and> run_disposition r \<noteq> None)
       ''Running run cannot have a terminal disposition'' [Key ''disposition'']
   @ add_issue (run_status r = Run_failed \<and> \<not> is_failed_disposition (run_disposition r))
       ''Failed run requires a failed disposition'' [Key ''disposition'']
   @ add_issue (run_status r = Run_completed \<and> is_failed_disposition (run_disposition r))
       ''Completed run cannot have a failed disposition'' [Key ''disposition'']
   @ add_issue (run_status r = Run_cancelled \<and> run_disposition r \<noteq> None)
       ''Cancelled run cannot have a turn disposition'' [Key ''disposition'']
   @ add_issue (case run_completed_at r of None \<Rightarrow> False
                | Some t \<Rightarrow> num_lt (date_parse L t) (date_parse L (run_started_at r)))
       ''Run completion cannot precede its start'' [Key ''completed_at'']"

definition run_ok :: "host_lib \<Rightarrow> run \<Rightarrow> bool" where
  "run_ok L r \<longleftrightarrow> run_fields_ok L r \<and> run_issues L r = []"

end
