(* ===== verification/Samples.thy ===== *)
theory Samples
  imports Deliveries
begin

text \<open>
  Concrete values for the witnesses: an instance of the outside functions, with timestamps of the form
  \<^verbatim>\<open>YYYY-MM-DDTHH:MM:SSZ\<close> read as milliseconds since 1970, and deliveries built on it.
\<close>

definition int_value :: "string \<Rightarrow> int" where
  "int_value s = foldl (\<lambda>acc c. acc * 10 + (of_char c - 48)) 0 s"

definition days_from_civil :: "int \<Rightarrow> int \<Rightarrow> int \<Rightarrow> int" where
  "days_from_civil y m d =
     (let y' = (if m \<le> 2 then y - 1 else y); era = y' div 400; yoe = y' - era * 400;
          doy = (153 * (if m > 2 then m - 3 else m + 9) + 2) div 5 + d - 1;
          doe = yoe * 365 + yoe div 4 - yoe div 100 + doy
      in era * 146097 + doe - 719468)"

definition field :: "nat \<Rightarrow> nat \<Rightarrow> string \<Rightarrow> int" where
  "field from len s = int_value (take len (drop from s))"

definition utc_format :: "string \<Rightarrow> bool" where
  "utc_format s \<longleftrightarrow> length s = 20
     \<and> list_all (\<lambda>i. is_digit (s ! i)) [0, 1, 2, 3, 5, 6, 8, 9, 11, 12, 14, 15, 17, 18]
     \<and> s ! 4 = CHR ''-'' \<and> s ! 7 = CHR ''-'' \<and> s ! 10 = CHR ''T'' \<and> s ! 13 = CHR '':''
     \<and> s ! 16 = CHR '':'' \<and> s ! 19 = CHR ''Z''"

definition utc_millis :: "string \<Rightarrow> int option" where
  "utc_millis s = (if utc_format s
     then Some ((((days_from_civil (field 0 4 s) (field 5 2 s) (field 8 2 s) * 24 + field 11 2 s) * 60
                  + field 14 2 s) * 60 + field 17 2 s) * 1000)
     else None)"

definition sample_lib :: host_lib where
  "sample_lib = \<lparr>uuid_format = (\<lambda>s. length s = 36), datetime_format = utc_format,
     url_format = (\<lambda>s. True), date_parse = utc_millis,
     sha256_hex = (\<lambda>t. replicate 64 (CHR ''0''))\<rparr>"

text \<open>A UUID that ends in the given digits.\<close>

definition uid :: "string \<Rightarrow> uuid" where
  "uid s = ''00000000-0000-4000-8000-0000000000'' @ s"

definition sample_delivery :: "string \<Rightarrow> string \<Rightarrow> delivery" where
  "sample_delivery n cursor = \<lparr>d_delivery_id = uid n, d_node_id = uid ''90'', d_mission_id = uid ''80'',
     d_mission_event_id = uid ''70'', d_kind = K_turn, d_cursor = cursor, d_status = D_stored,
     d_attempt_count = 0, d_max_attempts = 3, d_last_fencing_token = ''0'', d_contract_version = 1,
     d_verification_round = None, d_lease = None, d_logical_settlement = None,
     d_idempotency_key = ''k1'', d_causal_parent_delivery_id = None,
     d_available_at = ''2026-01-01T00:00:00Z'', d_created_at = ''2026-01-01T00:00:00Z'',
     d_updated_at = ''2026-01-01T00:00:00Z'', d_acknowledged_at = None, d_cancelled_at = None,
     d_cancellation_reason = None, d_dead_lettered_at = None\<rparr>"

definition sample_page :: stored_page where
  "sample_page = \<lparr>sp_items = [sample_delivery ''01'' ''9'', sample_delivery ''02'' ''10''],
     sp_next_cursor = Some ''10''\<rparr>"

lemma utc_millis_epoch: "utc_millis ''1970-01-02T00:00:01Z'' = Some 86401000"
  by code_simp

lemma sample_page_ok: "stored_page_ok sample_lib sample_page"
  by code_simp

end
