(* ===== verification/Cursors.thy ===== *)
theory Cursors
  imports Samples
begin

text \<open>
  The order of delivery cursors.  A cursor is a canonical decimal string of a Postgres bigint and is
  compared by \<open>compareDecimalStrings\<close>: first by length, then character by character.  The order is
  total on all strings (instance \<open>linorder\<close> of the type \<open>cursor\<close>) and is the numeric order on
  canonical decimal strings; the pages' loops over adjacent cursors accept exactly the strictly
  sorted lists.
\<close>

section \<open>The cursor order\<close>

datatype cursor = Cursor (cursor_text: string)

instantiation cursor :: linorder
begin

definition less_eq_cursor :: "cursor \<Rightarrow> cursor \<Rightarrow> bool" where
  "less_eq_cursor a b \<longleftrightarrow> compare_decimal_strings (cursor_text a) (cursor_text b) \<le> 0"

definition less_cursor :: "cursor \<Rightarrow> cursor \<Rightarrow> bool" where
  "less_cursor a b \<longleftrightarrow> compare_decimal_strings (cursor_text a) (cursor_text b) < 0"

instance
proof
  fix x y z :: cursor
  show "x < y \<longleftrightarrow> x \<le> y \<and> \<not> y \<le> x"
    by (auto simp: less_eq_cursor_def less_cursor_def compare_decimal_strings_def split: if_splits)
  show "x \<le> x"
    by (simp add: less_eq_cursor_def compare_decimal_strings_def)
  show "x \<le> y \<Longrightarrow> y \<le> z \<Longrightarrow> x \<le> z"
    by (auto simp: less_eq_cursor_def compare_decimal_strings_def split: if_splits)
  show "x \<le> y \<Longrightarrow> y \<le> x \<Longrightarrow> x = y"
    by (cases x; cases y)
       (auto simp: less_eq_cursor_def compare_decimal_strings_def split: if_splits)
  show "x \<le> y \<or> y \<le> x"
    by (auto simp: less_eq_cursor_def compare_decimal_strings_def split: if_splits)
qed

end

lemma compare_less_iff: "compare_decimal_strings a b < 0 \<longleftrightarrow> Cursor a < Cursor b"
  by (simp add: less_cursor_def)

lemma compare_le_iff: "compare_decimal_strings a b \<le> 0 \<longleftrightarrow> Cursor a \<le> Cursor b"
  by (simp add: less_eq_cursor_def)

lemma compare_eq_iff: "compare_decimal_strings a b = 0 \<longleftrightarrow> a = b"
  by (auto simp: compare_decimal_strings_def)

section \<open>The numeric order\<close>

lemma decimal_value_Cons:
  "decimal_value (c # cs) = digit_val c * 10 ^ length cs + decimal_value cs"
proof (induction cs rule: rev_induct)
  case Nil
  then show ?case by (simp add: decimal_value_def)
next
  case (snoc d cs)
  then show ?case
    by (simp del: append_Cons add: append_Cons [symmetric] algebra_simps)
qed

lemma digit_val_le: "is_digit c \<Longrightarrow> digit_val c \<le> 9"
  unfolding digit_val_def is_digit_of_char by linarith

lemma decimal_value_less: "list_all is_digit s \<Longrightarrow> decimal_value s < 10 ^ length s"
proof (induction s)
  case Nil
  then show ?case by (simp add: decimal_value_def)
next
  case (Cons c cs)
  then have "digit_val c \<le> 9" and "decimal_value cs < 10 ^ length cs"
    by (auto dest: digit_val_le)
  then have "digit_val c * 10 ^ length cs + decimal_value cs < 9 * 10 ^ length cs + 10 ^ length cs"
    by (intro add_le_less_mono) auto
  then show ?case by (simp add: decimal_value_Cons)
qed

lemma digit_order: "is_digit c \<Longrightarrow> is_digit d \<Longrightarrow> c < d \<longleftrightarrow> digit_val c < digit_val d"
  by (auto simp: digit_val_def is_digit_of_char less_char_def)

lemma digit_val_inj: "is_digit c \<Longrightarrow> is_digit d \<Longrightarrow> digit_val c = digit_val d \<Longrightarrow> c = d"
  using digit_order by (metis less_irrefl neqE)

lemma decimal_value_lex:
  assumes "list_all is_digit a" and "list_all is_digit b" and "length a = length b"
  shows "a < b \<longleftrightarrow> decimal_value a < decimal_value b"
  using assms(3,1,2)
proof (induction a b rule: list_induct2)
  case Nil
  then show ?case by simp
next
  case (Cons c cs d ds)
  then have dig: "is_digit c" "is_digit d" and IH: "cs < ds \<longleftrightarrow> decimal_value cs < decimal_value ds"
    and bounds: "decimal_value cs < 10 ^ length cs" "decimal_value ds < 10 ^ length ds"
    by (auto dest: decimal_value_less)
  consider "c = d" | "c < d" | "d < c" by fastforce
  then show ?case
  proof cases
    case 1
    with IH Cons.hyps show ?thesis by (simp add: decimal_value_Cons)
  next
    case 2
    with dig have "Suc (digit_val c) \<le> digit_val d" by (simp add: digit_order)
    then have "Suc (digit_val c) * 10 ^ length cs \<le> digit_val d * 10 ^ length cs" by (rule mult_right_mono) simp
    with bounds Cons.hyps 2 show ?thesis by (simp add: decimal_value_Cons)
  next
    case 3
    with dig have "Suc (digit_val d) \<le> digit_val c" by (simp add: digit_order)
    then have "Suc (digit_val d) * 10 ^ length cs \<le> digit_val c * 10 ^ length cs" by (rule mult_right_mono) simp
    with bounds Cons.hyps 3 show ?thesis by (auto simp: decimal_value_Cons)
  qed
qed

definition canonical_decimal :: "string \<Rightarrow> bool" where
  "canonical_decimal s \<longleftrightarrow> head_tail (\<lambda>c. is_digit c \<and> c \<noteq> CHR ''0'') is_digit s"

lemma canonical_decimal_digits: "canonical_decimal s \<Longrightarrow> list_all is_digit s"
  by (auto simp: canonical_decimal_def head_tail_def split: list.splits)

lemma canonical_decimal_ge: "canonical_decimal s \<Longrightarrow> 10 ^ (length s - 1) \<le> decimal_value s"
proof (cases s)
  case (Cons c cs)
  assume "canonical_decimal s"
  then have c: "is_digit c" "c \<noteq> CHR ''0''" by (auto simp: canonical_decimal_def head_tail_def Cons)
  moreover have "is_digit (CHR ''0'')" by (simp add: is_digit_of_char)
  ultimately have "digit_val c \<noteq> digit_val (CHR ''0'')"
    using digit_val_inj by blast
  then have "1 \<le> digit_val c" by (simp add: digit_val_def)
  then have "10 ^ length cs \<le> digit_val c * 10 ^ length cs" by simp
  then have "10 ^ length cs \<le> digit_val c * 10 ^ length cs + decimal_value cs" by (rule trans_le_add1)
  then show ?thesis by (simp only: Cons decimal_value_Cons list.size) simp
qed (auto simp: canonical_decimal_def head_tail_def)

lemma canonical_shorter_less:
  assumes "canonical_decimal a" and "canonical_decimal b" and "length a < length b"
  shows "decimal_value a < decimal_value b"
proof -
  have "decimal_value a < 10 ^ length a"
    using assms(1) by (simp add: canonical_decimal_digits decimal_value_less)
  also have "(10::nat) ^ length a \<le> 10 ^ (length b - 1)"
    using assms(3) by (intro power_increasing) auto
  also have "\<dots> \<le> decimal_value b"
    using assms(2) by (rule canonical_decimal_ge)
  finally show ?thesis .
qed

lemma canonical_inj:
  assumes "canonical_decimal a" and "canonical_decimal b" and "decimal_value a = decimal_value b"
  shows "a = b"
proof -
  have "length a = length b"
    using canonical_shorter_less [of a b] canonical_shorter_less [of b a] assms by fastforce
  with assms show ?thesis
    using decimal_value_lex [of a b] decimal_value_lex [of b a]
    by (auto simp: canonical_decimal_digits)
qed

lemma compare_less_numeric:
  assumes "canonical_decimal a" and "canonical_decimal b"
  shows "compare_decimal_strings a b < 0 \<longleftrightarrow> decimal_value a < decimal_value b"
proof (cases "length a = length b")
  case True
  with assms show ?thesis
    by (auto simp: compare_decimal_strings_def decimal_value_lex [symmetric] canonical_decimal_digits)
next
  case False
  with assms show ?thesis
    using canonical_shorter_less [of a b] canonical_shorter_less [of b a]
    by (auto simp: compare_decimal_strings_def)
qed

lemma delivery_cursor_canonical: "delivery_cursor_ok s \<Longrightarrow> canonical_decimal s"
  by (simp add: delivery_cursor_ok_def canonical_decimal_def)

lemma compare_antisym: "compare_decimal_strings b a = - compare_decimal_strings a b"
  by (auto simp: compare_decimal_strings_def)

text \<open>Comparing two delivery cursors as the code does (length first, then code units) is
  comparing the numbers they denote.\<close>

theorem compare_cursors_numeric:
  assumes "delivery_cursor_ok a" and "delivery_cursor_ok b"
  shows "compare_decimal_strings a b = sgn (int (decimal_value a) - int (decimal_value b))"
proof -
  note can = assms [THEN delivery_cursor_canonical]
  have lt: "compare_decimal_strings a b < 0 \<longleftrightarrow> decimal_value a < decimal_value b"
    using can by (rule compare_less_numeric)
  have gt: "compare_decimal_strings a b > 0 \<longleftrightarrow> decimal_value b < decimal_value a"
    using compare_less_numeric [OF can(2,1)] by (simp add: compare_antisym [of a b])
  have "compare_decimal_strings a b \<in> {-1, 0, 1}"
    by (auto simp: compare_decimal_strings_def)
  with lt gt show ?thesis by (auto simp: sgn_if split: if_splits)
qed

theorem compare_cursors_numeric_witness:
  "compare_decimal_strings ''99'' ''100'' = sgn (int (decimal_value ''99'') - int (decimal_value ''100''))"
  by (rule compare_cursors_numeric) code_simp+

lemma max_bigint_canonical: "canonical_decimal ''9223372036854775807''"
  by code_simp

lemma max_bigint_value: "decimal_value ''9223372036854775807'' = 9223372036854775807"
  by (simp add: decimal_value_def digit_val_def)

lemma canonical_positive: "canonical_decimal s \<Longrightarrow> 0 < decimal_value s"
  using canonical_decimal_ge [of s] by (metis less_le_trans zero_less_numeral zero_less_power)

lemma delivery_cursor_ok_value:
  "delivery_cursor_ok s \<longleftrightarrow> canonical_decimal s \<and> decimal_value s \<le> 9223372036854775807"
proof -
  have "canonical_decimal s \<Longrightarrow>
      compare_decimal_strings s ''9223372036854775807'' \<le> 0 \<longleftrightarrow> decimal_value s \<le> 9223372036854775807"
    using compare_less_numeric [OF max_bigint_canonical, of s]
    by (simp add: compare_antisym [of s "''9223372036854775807''"] max_bigint_value not_less [symmetric])
  moreover have "compare_decimal_strings s ''9223372036854775807'' \<le> 0 \<Longrightarrow> length s \<le> 19"
    by (auto simp: compare_decimal_strings_def split: if_splits)
  ultimately show ?thesis
    by (auto simp: delivery_cursor_ok_def canonical_decimal_def)
qed

lemma canonical_nat_digits: "0 < n \<Longrightarrow> canonical_decimal (nat_digits n)"
proof (induction n rule: nat_digits.induct)
  case (1 n)
  show ?case
  proof (cases "n < 10")
    case True
    have "digit_char n \<noteq> CHR ''0''"
    proof
      assume "digit_char n = CHR ''0''"
      then have "digit_val (digit_char n) = digit_val (CHR ''0'')" by simp
      with True "1.prems" show False by (simp add: digit_val_def [of "CHR ''0''"])
    qed
    with True show ?thesis
      by (subst nat_digits.simps) (simp add: canonical_decimal_def head_tail_def)
  next
    case False
    with 1 have "canonical_decimal (nat_digits (n div 10))" by simp
    then show ?thesis
      using False by (subst nat_digits.simps)
        (auto simp: canonical_decimal_def head_tail_def split: list.splits)
  qed
qed

text \<open>A string accepted as a delivery cursor denotes a positive number that fits a Postgres
  bigint, and every such number has exactly one accepted cursor.\<close>

theorem delivery_cursor_bigint:
  "(\<exists>s. delivery_cursor_ok s \<and> decimal_value s = n) \<longleftrightarrow> 0 < n \<and> n \<le> 9223372036854775807"
  using canonical_positive canonical_nat_digits
  by (auto simp: delivery_cursor_ok_value intro!: exI [of _ "nat_digits n"])

section \<open>Sorted pages\<close>

lemma adjacent_issues_Nil:
  "adjacent_issues compare_decimal_strings msg path i cs = [] \<longleftrightarrow> sorted_wrt (<) (map Cursor cs)"
proof (induction compare_decimal_strings msg path i cs rule: adjacent_issues.induct)
  case (1 msg path i a b cs)
  have "\<not> 0 \<le> compare_decimal_strings a b \<longleftrightarrow> Cursor a < Cursor b"
    by (simp add: compare_less_iff [symmetric] not_le)
  with 1 show ?case by (auto intro: less_trans)
qed auto

lemma one_node_iff: "\<not> Suc 0 < length (remdups xs) \<longleftrightarrow> (\<forall>x \<in> set xs. \<forall>y \<in> set xs. x = y)"
proof -
  have "length (remdups xs) = card (set xs)" by (simp add: length_remdups_card_conv)
  then show ?thesis by (auto simp: not_less card_le_Suc0_iff_eq)
qed

text \<open>A page of stored deliveries parses only if its cursors increase strictly as numbers, all
  its deliveries belong to one Node, and the cursor to resume from is the greatest cursor returned.\<close>

theorem stored_page_sorted:
  assumes "stored_page_ok L p"
  shows "sorted_wrt (<) (map (\<lambda>d. decimal_value (d_cursor d)) (sp_items p))
    \<and> (\<forall>d \<in> set (sp_items p). \<forall>e \<in> set (sp_items p). d_node_id d = d_node_id e)
    \<and> (sp_items p \<noteq> [] \<longrightarrow> (\<exists>c. sp_next_cursor p = Some c
          \<and> (\<forall>d \<in> set (sp_items p). decimal_value (d_cursor d) \<le> decimal_value c)))"
proof -
  let ?cs = "map d_cursor (sp_items p)"
  have ok: "delivery_cursor_ok (d_cursor d)" if "d \<in> set (sp_items p)" for d
    using assms that
    by (auto simp: stored_page_ok_def stored_delivery_ok_def delivery_ok_def delivery_fields_ok_def list_all_iff)
  have issues: "stored_page_issues p = []" using assms by (simp add: stored_page_ok_def)
  then have "sorted_wrt (<) (map Cursor ?cs)"
    by (simp add: stored_page_issues_def adjacent_issues_Nil)
  then have "sorted_wrt (\<lambda>d e. Cursor (d_cursor d) < Cursor (d_cursor e)) (sp_items p)"
    by (simp add: sorted_wrt_map)
  then have sorted: "sorted_wrt (\<lambda>d e. decimal_value (d_cursor d) < decimal_value (d_cursor e)) (sp_items p)"
    by (rule sorted_wrt_mono_rel [rotated])
       (simp add: compare_less_iff [symmetric] compare_less_numeric ok delivery_cursor_canonical)
  have last_max: "\<forall>d \<in> set xs. decimal_value (d_cursor d) \<le> decimal_value (d_cursor (last xs))"
    if "sorted_wrt (\<lambda>d e. decimal_value (d_cursor d) < decimal_value (d_cursor e)) xs" for xs
    using that by (induction xs) (auto split: if_splits simp: less_imp_le)
  have "\<exists>c. sp_next_cursor p = Some c \<and> (\<forall>d \<in> set (sp_items p). decimal_value (d_cursor d) \<le> decimal_value c)"
    if "sp_items p \<noteq> []"
    using that issues last_max [OF sorted] by (auto simp: stored_page_issues_def last_option_def)
  moreover have "\<not> Suc 0 < length (remdups (map d_node_id (sp_items p)))"
    using issues by (simp add: stored_page_issues_def)
  then have "\<forall>d \<in> set (sp_items p). \<forall>e \<in> set (sp_items p). d_node_id d = d_node_id e"
    unfolding one_node_iff set_map by blast
  ultimately show ?thesis using sorted unfolding sorted_wrt_map by blast
qed

theorem stored_page_sorted_witness:
  "stored_page_ok sample_lib sample_page
   \<and> sorted_wrt (<) (map (\<lambda>d. decimal_value (d_cursor d)) (sp_items sample_page))"
  using stored_page_sorted [OF sample_page_ok] sample_page_ok by blast

end
