(* ===== verification/Fencing.thy ===== *)
theory Fencing
  imports Relay_Prelude
begin

text \<open>
  The fencing contract that the protocol's delivery state machine and the Relay's delivery ledger
  share.  Each accepted grant hands out the next number as the fencing token, and every other
  operation that presents a token must present the latest one; the lemmas of the locale say what that
  buys: tokens are handed out once each and in order, and a holder of an older token is locked out
  for good.
\<close>

fun granted_tokens ::
  "('s \<Rightarrow> 'e \<Rightarrow> 'err + 's) \<Rightarrow> ('s \<Rightarrow> 'e \<Rightarrow> 's \<Rightarrow> string option) \<Rightarrow> 's \<Rightarrow> 'e list \<Rightarrow> string list" where
  "granted_tokens step grants s [] = []"
| "granted_tokens step grants s (e # es) =
     (case step s e of
        Inl err \<Rightarrow> granted_tokens step grants s es
      | Inr t \<Rightarrow> (case grants s e t of None \<Rightarrow> [] | Some f \<Rightarrow> [f]) @ granted_tokens step grants t es)"

locale fenced_machine = step_machine step inv
  for step :: "'s \<Rightarrow> 'e \<Rightarrow> 'err + 's" and inv :: "'s \<Rightarrow> bool" +
  fixes attempts :: "'s \<Rightarrow> int"
    and presents :: "'e \<Rightarrow> string option"
    and grants :: "'s \<Rightarrow> 'e \<Rightarrow> 's \<Rightarrow> string option"
  assumes attempts_nonneg: "inv s \<Longrightarrow> 0 \<le> attempts s"
    and present_latest: "inv s \<Longrightarrow> step s e = Inr t \<Longrightarrow> presents e = Some f
      \<Longrightarrow> f = string_of_int (attempts s)"
    and grant_next: "inv s \<Longrightarrow> step s e = Inr t \<Longrightarrow> grants s e t = Some f
      \<Longrightarrow> f = string_of_int (attempts s + 1) \<and> attempts t = attempts s + 1"
    and keep_otherwise: "inv s \<Longrightarrow> step s e = Inr t \<Longrightarrow> grants s e t = None \<Longrightarrow> attempts t = attempts s"
begin

lemma step_attempts: "inv s \<Longrightarrow> step s e = Inr t \<Longrightarrow> attempts s \<le> attempts t"
  using grant_next keep_otherwise by (cases "grants s e t") fastforce+

sublocale advancing_machine step inv "\<lambda>s t. attempts s \<le> attempts t"
  by unfold_locales (auto simp: step_attempts)

lemma stale_token_rejected:
  assumes "inv s" and "presents e = Some (string_of_int n)" and "n < attempts s"
  shows "\<exists>err. step (serve_all step s es) e = Inl err"
proof (cases "step (serve_all step s es) e")
  case (Inr t)
  have "inv (serve_all step s es)" using assms(1) by (rule serve_all_inv)
  with Inr assms(2) have "n = attempts (serve_all step s es)"
    using present_latest by fastforce
  moreover have "attempts s \<le> attempts (serve_all step s es)"
    using assms(1) by (rule serve_all_le)
  ultimately show ?thesis using assms(3) by simp
qed simp

lemma granted_consecutive:
  "inv s \<Longrightarrow> granted_tokens step grants s es
     = map string_of_int [attempts s + 1 .. attempts (serve_all step s es)]"
proof (induction es arbitrary: s)
  case Nil
  then show ?case by simp
next
  case (Cons e es)
  show ?case
  proof (cases "step s e")
    case (Inl err)
    with Cons show ?thesis by (simp add: serve_def)
  next
    case (Inr t)
    then have "inv t" using Cons.prems step_inv by blast
    then have IH: "granted_tokens step grants t es
        = map string_of_int [attempts t + 1 .. attempts (serve_all step t es)]"
      and le: "attempts t \<le> attempts (serve_all step t es)"
      by (auto intro: Cons.IH serve_all_le)
    show ?thesis
    proof (cases "grants s e t")
      case None
      with Inr IH Cons.prems keep_otherwise show ?thesis by (simp add: serve_def)
    next
      case (Some f)
      with Inr Cons.prems grant_next have "f = string_of_int (attempts s + 1)" "attempts t = attempts s + 1"
        by blast+
      with Inr Some IH le show ?thesis
        by (simp add: serve_def upto_rec1 [of "attempts s + 1"])
    qed
  qed
qed

lemma granted_distinct: "inv s \<Longrightarrow> distinct (granted_tokens step grants s es)"
  by (simp add: granted_consecutive distinct_map inj_on_def)

end

end
