(* ===== verification/Transitions.thy ===== *)
theory Transitions
  imports Samples Fencing
begin

text \<open>
  The Mission and delivery state machines of \<^verbatim>\<open>protocol/src/state-machines.ts\<close>: the two transition
  tables, the guarded delivery transition with its lease claims and fencing tokens, and the errors it
  throws.  Enumerations that the source re-checks with a schema (the release classification, the
  cancellation reason) are datatypes here, so those checks always pass; timestamps and lease ids are
  strings and are checked.
\<close>

section \<open>Mission statuses\<close>

datatype mission_event_type =
  Participants_accepted_ev | Participants_ready_ev | Blocking_required_ev | Block_resolved_ev
| Verification_passed_ev | Verification_failed_ev | Cancel_ev | Expire_ev | Fail_ev

fun mission_transitions :: "mission_status \<Rightarrow> mission_event_type \<Rightarrow> mission_status option" where
  "mission_transitions M_awaiting_acceptance Participants_accepted_ev = Some M_active"
| "mission_transitions M_awaiting_acceptance Cancel_ev = Some M_cancelled"
| "mission_transitions M_awaiting_acceptance Expire_ev = Some M_expired"
| "mission_transitions M_awaiting_acceptance Fail_ev = Some M_failed"
| "mission_transitions M_active Participants_ready_ev = Some M_verifying"
| "mission_transitions M_active Blocking_required_ev = Some M_blocked"
| "mission_transitions M_active Cancel_ev = Some M_cancelled"
| "mission_transitions M_active Expire_ev = Some M_expired"
| "mission_transitions M_active Fail_ev = Some M_failed"
| "mission_transitions M_verifying Blocking_required_ev = Some M_blocked"
| "mission_transitions M_verifying Verification_passed_ev = Some M_completed"
| "mission_transitions M_verifying Verification_failed_ev = Some M_active"
| "mission_transitions M_verifying Cancel_ev = Some M_cancelled"
| "mission_transitions M_verifying Expire_ev = Some M_expired"
| "mission_transitions M_verifying Fail_ev = Some M_failed"
| "mission_transitions M_blocked Block_resolved_ev = Some M_active"
| "mission_transitions M_blocked Cancel_ev = Some M_cancelled"
| "mission_transitions M_blocked Expire_ev = Some M_expired"
| "mission_transitions M_blocked Fail_ev = Some M_failed"
| "mission_transitions _ _ = None"

section \<open>Delivery events and states\<close>

record delivery_claim =
  cl_lease_id :: string
  cl_fencing_token :: string
  cl_now :: timestamp

text \<open>\<open>Partial<DeliveryClaim>\<close>, the claim as the exported assertion receives it.\<close>

record partial_claim =
  pc_lease_id :: "string option"
  pc_fencing_token :: "string option"
  pc_now :: "timestamp option"

definition full_claim :: "delivery_claim \<Rightarrow> partial_claim" where
  "full_claim c = \<lparr>pc_lease_id = Some (cl_lease_id c), pc_fencing_token = Some (cl_fencing_token c),
     pc_now = Some (cl_now c)\<rparr>"

datatype delivery_event =
  E_lease delivery_claim timestamp
| E_renew_lease delivery_claim timestamp
| E_start_execution delivery_claim
| E_acknowledge delivery_claim
| E_release delivery_claim release_classification
| E_lease_expired delivery_claim
| E_cancel cancellation_reason timestamp

datatype delivery_event_type =
  Lease_ev | Renew_lease_ev | Start_execution_ev | Acknowledge_ev | Release_ev | Lease_expired_ev
| Cancel_delivery_ev

fun delivery_event_type_of :: "delivery_event \<Rightarrow> delivery_event_type" where
  "delivery_event_type_of (E_lease c e) = Lease_ev"
| "delivery_event_type_of (E_renew_lease c e) = Renew_lease_ev"
| "delivery_event_type_of (E_start_execution c) = Start_execution_ev"
| "delivery_event_type_of (E_acknowledge c) = Acknowledge_ev"
| "delivery_event_type_of (E_release c k) = Release_ev"
| "delivery_event_type_of (E_lease_expired c) = Lease_expired_ev"
| "delivery_event_type_of (E_cancel r n) = Cancel_delivery_ev"

record delivery_state =
  ds_status :: delivery_status
  ds_attempt_count :: int
  ds_max_attempts :: int
  ds_last_fencing_token :: string
  ds_active_lease_id :: "string option"
  ds_active_fencing_token :: "string option"
  ds_lease_expires_at :: "timestamp option"
  ds_logically_settled :: bool

datatype claim_error_reason = Inactive | Lease_mismatch | Claim_expired | Invalid_time

datatype transition_error =
  Invalid_mission_transition mission_status mission_event_type
| Invalid_delivery_transition delivery_status delivery_event_type
| Invalid_fencing_token delivery_status delivery_event_type "string option" "string option"
| Invalid_lease_claim delivery_status delivery_event_type claim_error_reason

fun delivery_transitions :: "delivery_status \<Rightarrow> delivery_event_type \<Rightarrow> delivery_status option" where
  "delivery_transitions D_stored Lease_ev = Some D_leased"
| "delivery_transitions D_stored Cancel_delivery_ev = Some D_cancelled"
| "delivery_transitions D_leased Renew_lease_ev = Some D_leased"
| "delivery_transitions D_leased Start_execution_ev = Some D_executing"
| "delivery_transitions D_leased Release_ev = Some D_stored"
| "delivery_transitions D_leased Lease_expired_ev = Some D_stored"
| "delivery_transitions D_leased Cancel_delivery_ev = Some D_cancelled"
| "delivery_transitions D_executing Renew_lease_ev = Some D_executing"
| "delivery_transitions D_executing Acknowledge_ev = Some D_acknowledged"
| "delivery_transitions D_executing Release_ev = Some D_stored"
| "delivery_transitions D_executing Lease_expired_ev = Some D_stored"
| "delivery_transitions D_executing Cancel_delivery_ev = Some D_cancelled"
| "delivery_transitions _ _ = None"

definition transition_mission_status ::
  "mission_status \<Rightarrow> mission_event_type \<Rightarrow> transition_error + mission_status" where
  "transition_mission_status current event =
     (case mission_transitions current event of
        None \<Rightarrow> Inl (Invalid_mission_transition current event)
      | Some next \<Rightarrow> Inr next)"

section \<open>Guards on claims\<close>

definition is_timestamp :: "host_lib \<Rightarrow> timestamp option \<Rightarrow> bool" where
  "is_timestamp L v = (case v of None \<Rightarrow> False | Some s \<Rightarrow> iso_timestamp_ok L s)"

definition is_timestamp_before :: "host_lib \<Rightarrow> timestamp option \<Rightarrow> timestamp option \<Rightarrow> bool" where
  "is_timestamp_before L left right \<longleftrightarrow>
     (case (left, right) of
        (Some l, Some r) \<Rightarrow> iso_timestamp_ok L l \<and> iso_timestamp_ok L r
          \<and> num_lt (date_parse L l) (date_parse L r)
      | _ \<Rightarrow> False)"

definition assert_matching_delivery_claim ::
  "host_lib \<Rightarrow> delivery_state \<Rightarrow> partial_claim \<Rightarrow> delivery_event_type \<Rightarrow> transition_error + unit" where
  "assert_matching_delivery_claim L current received event_type =
     (if ds_status current \<noteq> D_leased \<and> ds_status current \<noteq> D_executing
      then Inl (Invalid_lease_claim (ds_status current) event_type Inactive)
      else if pc_lease_id received = None \<or> pc_lease_id received \<noteq> ds_active_lease_id current
      then Inl (Invalid_lease_claim (ds_status current) event_type Lease_mismatch)
      else if pc_fencing_token received = None
        \<or> pc_fencing_token received \<noteq> ds_active_fencing_token current
      then Inl (Invalid_fencing_token (ds_status current) event_type
        (ds_active_fencing_token current) (pc_fencing_token received))
      else if pc_now received = None \<or> \<not> is_timestamp L (pc_now received)
        \<or> \<not> is_timestamp L (ds_lease_expires_at current)
      then Inl (Invalid_lease_claim (ds_status current) event_type Invalid_time)
      else Inr ())"

definition assert_active_delivery_claim ::
  "host_lib \<Rightarrow> delivery_state \<Rightarrow> partial_claim \<Rightarrow> delivery_event_type \<Rightarrow> transition_error + unit" where
  "assert_active_delivery_claim L current received event_type =
     (case assert_matching_delivery_claim L current received event_type of
        Inl e \<Rightarrow> Inl e
      | Inr _ \<Rightarrow>
          if \<not> is_timestamp_before L (pc_now received) (ds_lease_expires_at current)
          then Inl (Invalid_lease_claim (ds_status current) event_type Claim_expired)
          else Inr ())"

section \<open>The delivery transition\<close>

text \<open>The claim check between the \<open>cancel\<close> and \<open>renew_lease\<close> branches: \<open>lease_expired\<close> needs a
  matching claim whose lease is over, every other claim needs a live lease.\<close>

definition check_claim ::
  "host_lib \<Rightarrow> delivery_state \<Rightarrow> delivery_event_type \<Rightarrow> delivery_claim \<Rightarrow> transition_error + unit" where
  "check_claim L current event_type claim =
     (if ds_status current = D_leased \<or> ds_status current = D_executing then
        (if event_type = Lease_expired_ev then
           (case assert_matching_delivery_claim L current (full_claim claim) event_type of
              Inl e \<Rightarrow> Inl e
            | Inr _ \<Rightarrow>
                if is_timestamp_before L (Some (cl_now claim)) (ds_lease_expires_at current)
                then Inl (Invalid_lease_claim (ds_status current) event_type Invalid_time)
                else Inr ())
         else assert_active_delivery_claim L current (full_claim claim) event_type)
      else Inr ())"

definition apply_lease ::
  "host_lib \<Rightarrow> delivery_state \<Rightarrow> delivery_status \<Rightarrow> delivery_claim \<Rightarrow> timestamp
    \<Rightarrow> transition_error + delivery_state" where
  "apply_lease L current next claim expires_at =
     (if ds_logically_settled current \<or> ds_attempt_count current \<ge> ds_max_attempts current
        \<or> cl_fencing_token claim \<noteq> string_of_int (ds_attempt_count current + 1)
      then Inl (Invalid_delivery_transition (ds_status current) Lease_ev)
      else if \<not> is_timestamp_before L (Some (cl_now claim)) (Some expires_at)
      then Inl (Invalid_lease_claim (ds_status current) Lease_ev Invalid_time)
      else if \<not> uuid_ok L (cl_lease_id claim)
      then Inl (Invalid_lease_claim (ds_status current) Lease_ev Lease_mismatch)
      else Inr (current\<lparr>ds_status := next, ds_attempt_count := ds_attempt_count current + 1,
        ds_last_fencing_token := cl_fencing_token claim, ds_active_lease_id := Some (cl_lease_id claim),
        ds_active_fencing_token := Some (cl_fencing_token claim),
        ds_lease_expires_at := Some expires_at\<rparr>))"

definition apply_cancel ::
  "host_lib \<Rightarrow> delivery_state \<Rightarrow> delivery_status \<Rightarrow> timestamp \<Rightarrow> transition_error + delivery_state" where
  "apply_cancel L current next now =
     (if \<not> iso_timestamp_ok L now
      then Inl (Invalid_delivery_transition (ds_status current) Cancel_delivery_ev)
      else Inr (current\<lparr>ds_status := next, ds_active_lease_id := None,
        ds_active_fencing_token := None, ds_lease_expires_at := None\<rparr>))"

definition apply_renewal ::
  "host_lib \<Rightarrow> delivery_state \<Rightarrow> delivery_claim \<Rightarrow> timestamp \<Rightarrow> transition_error + delivery_state" where
  "apply_renewal L current claim expires_at =
     (if \<not> is_timestamp_before L (Some (cl_now claim)) (Some expires_at)
        \<or> \<not> is_timestamp L (ds_lease_expires_at current)
        \<or> \<not> is_timestamp_before L (ds_lease_expires_at current) (Some expires_at)
      then Inl (Invalid_lease_claim (ds_status current) Renew_lease_ev Invalid_time)
      else Inr (current\<lparr>ds_lease_expires_at := Some expires_at\<rparr>))"

text \<open>The tail of the function: start, acknowledge, release and expiry.\<close>

definition settle_attempt ::
  "delivery_state \<Rightarrow> delivery_status \<Rightarrow> delivery_event_type \<Rightarrow> release_classification option
    \<Rightarrow> delivery_state" where
  "settle_attempt current next event_type classification =
     (let attempts_exhausted = (event_type = Release_ev \<or> event_type = Lease_expired_ev)
            \<and> ds_attempt_count current \<ge> ds_max_attempts current;
          terminal_release = event_type = Release_ev
            \<and> (classification = Some R_permanent \<or> classification = Some R_policy_denied);
          keep = (next = D_executing)
      in current\<lparr>ds_status := (if attempts_exhausted \<or> terminal_release then D_dead_lettered else next),
           ds_active_lease_id := (if keep then ds_active_lease_id current else None),
           ds_active_fencing_token := (if keep then ds_active_fencing_token current else None),
           ds_lease_expires_at := (if keep then ds_lease_expires_at current else None)\<rparr>)"

definition apply_claimed ::
  "host_lib \<Rightarrow> delivery_state \<Rightarrow> delivery_status \<Rightarrow> delivery_event_type \<Rightarrow> delivery_claim
    \<Rightarrow> (unit \<Rightarrow> transition_error + delivery_state) \<Rightarrow> transition_error + delivery_state" where
  "apply_claimed L current next event_type claim body =
     (if ds_logically_settled current \<and> event_type \<noteq> Acknowledge_ev
      then Inl (Invalid_delivery_transition (ds_status current) event_type)
      else (case check_claim L current event_type claim of Inl e \<Rightarrow> Inl e | Inr _ \<Rightarrow> body ()))"

definition transition_delivery_state ::
  "host_lib \<Rightarrow> delivery_state \<Rightarrow> delivery_event \<Rightarrow> transition_error + delivery_state" where
  "transition_delivery_state L current event =
     (let et = delivery_event_type_of event in
      case delivery_transitions (ds_status current) et of
        None \<Rightarrow> Inl (Invalid_delivery_transition (ds_status current) et)
      | Some next \<Rightarrow>
         (case event of
            E_lease claim expires_at \<Rightarrow> apply_lease L current next claim expires_at
          | E_cancel reason now \<Rightarrow> apply_cancel L current next now
          | E_renew_lease claim expires_at \<Rightarrow>
              apply_claimed L current next et claim (\<lambda>_. apply_renewal L current claim expires_at)
          | E_start_execution claim \<Rightarrow>
              apply_claimed L current next et claim (\<lambda>_. Inr (settle_attempt current next et None))
          | E_acknowledge claim \<Rightarrow>
              apply_claimed L current next et claim
                (\<lambda>_. if \<not> ds_logically_settled current
                     then Inl (Invalid_delivery_transition (ds_status current) et)
                     else Inr (settle_attempt current next et None))
          | E_release claim classification \<Rightarrow>
              apply_claimed L current next et claim
                (\<lambda>_. Inr (settle_attempt current next et (Some classification)))
          | E_lease_expired claim \<Rightarrow>
              apply_claimed L current next et claim (\<lambda>_. Inr (settle_attempt current next et None))))"

section \<open>Laws of the tables\<close>

definition terminal_mission_status :: "mission_status \<Rightarrow> bool" where
  "terminal_mission_status s \<longleftrightarrow> s \<in> {M_completed, M_cancelled, M_expired, M_failed}"

lemma transition_mission_status_Inr [simp]:
  "transition_mission_status s e = Inr t \<longleftrightarrow> mission_transitions s e = Some t"
  by (auto simp: transition_mission_status_def split: option.splits)

lemma mission_transitions_terminal: "terminal_mission_status s \<Longrightarrow> mission_transitions s e = None"
  by (cases s; cases e) (auto simp: terminal_mission_status_def)

lemma mission_transitions_abort:
  "\<not> terminal_mission_status s \<Longrightarrow>
     mission_transitions s Cancel_ev = Some M_cancelled \<and> mission_transitions s Expire_ev = Some M_expired
     \<and> mission_transitions s Fail_ev = Some M_failed"
  by (cases s) (auto simp: terminal_mission_status_def)

text \<open>Reachability of Mission statuses over any number of transitions.\<close>

inductive mission_reaches :: "mission_status \<Rightarrow> mission_status \<Rightarrow> bool" where
  here: "mission_reaches s s"
| there: "mission_reaches s t \<Longrightarrow> transition_mission_status t e = Inr u \<Longrightarrow> mission_reaches s u"

lemma mission_reaches_terminal:
  "mission_reaches s t \<Longrightarrow> terminal_mission_status s \<Longrightarrow> t = s"
  by (induction rule: mission_reaches.induct) (auto simp: mission_transitions_terminal)

lemma mission_reaches_not_awaiting:
  "mission_reaches s t \<Longrightarrow> t = M_awaiting_acceptance \<Longrightarrow> s = M_awaiting_acceptance"
proof (induction rule: mission_reaches.induct)
  case (there s t e u)
  then show ?case by (cases t; cases e) auto
qed simp

text \<open>Inversion of the guards.\<close>

lemma is_timestamp_before_Some:
  "is_timestamp_before L l r \<longleftrightarrow> (\<exists>a b. l = Some a \<and> r = Some b
     \<and> iso_timestamp_ok L a \<and> iso_timestamp_ok L b \<and> num_lt (date_parse L a) (date_parse L b))"
  by (cases l; cases r) (auto simp: is_timestamp_before_def)

lemma assert_matching_Inr:
  "assert_matching_delivery_claim L s c et = Inr u \<longleftrightarrow>
     (ds_status s = D_leased \<or> ds_status s = D_executing)
     \<and> (\<exists>l f n. c = \<lparr>pc_lease_id = Some l, pc_fencing_token = Some f, pc_now = Some n\<rparr>
          \<and> ds_active_lease_id s = Some l \<and> ds_active_fencing_token s = Some f
          \<and> iso_timestamp_ok L n \<and> is_timestamp L (ds_lease_expires_at s))"
  by (cases c) (auto simp: assert_matching_delivery_claim_def is_timestamp_def)

lemma assert_active_Inr:
  "assert_active_delivery_claim L s c et = Inr u \<longleftrightarrow>
     assert_matching_delivery_claim L s c et = Inr () \<and> is_timestamp_before L (pc_now c) (ds_lease_expires_at s)"
  by (auto simp: assert_active_delivery_claim_def)

text \<open>A live claim: the lease and fencing token of the state, presented before the lease expires.\<close>

definition live_claim :: "host_lib \<Rightarrow> delivery_state \<Rightarrow> delivery_claim \<Rightarrow> bool" where
  "live_claim L s c \<longleftrightarrow> ds_active_lease_id s = Some (cl_lease_id c)
     \<and> ds_active_fencing_token s = Some (cl_fencing_token c)
     \<and> is_timestamp_before L (Some (cl_now c)) (ds_lease_expires_at s)"

definition over_claim :: "host_lib \<Rightarrow> delivery_state \<Rightarrow> delivery_claim \<Rightarrow> bool" where
  "over_claim L s c \<longleftrightarrow> ds_active_lease_id s = Some (cl_lease_id c)
     \<and> ds_active_fencing_token s = Some (cl_fencing_token c)
     \<and> iso_timestamp_ok L (cl_now c) \<and> is_timestamp L (ds_lease_expires_at s)
     \<and> \<not> is_timestamp_before L (Some (cl_now c)) (ds_lease_expires_at s)"

lemma check_claim_Inr:
  assumes "ds_status s = D_leased \<or> ds_status s = D_executing"
  shows "check_claim L s et c = Inr u \<longleftrightarrow>
    (if et = Lease_expired_ev then over_claim L s c else live_claim L s c)"
  using assms
  by (auto simp: check_claim_def full_claim_def assert_active_Inr assert_matching_Inr over_claim_def
      live_claim_def is_timestamp_before_Some is_timestamp_def split: if_splits option.splits)

lemma active_step_status:
  "delivery_transitions s et = Some n \<Longrightarrow> et \<noteq> Lease_ev \<Longrightarrow> et \<noteq> Cancel_delivery_ev
     \<Longrightarrow> s = D_leased \<or> s = D_executing"
  by (cases s; cases et) auto

text \<open>Every accepted transition, one case per event with its guard and its effect.\<close>

lemma transition_cases:
  assumes "transition_delivery_state L s e = Inr t"
  obtains
    (lease) c x where "e = E_lease c x" "ds_status s = D_stored" "\<not> ds_logically_settled s"
      "ds_attempt_count s < ds_max_attempts s"
      "cl_fencing_token c = string_of_int (ds_attempt_count s + 1)"
      "is_timestamp_before L (Some (cl_now c)) (Some x)" "uuid_ok L (cl_lease_id c)"
      "t = s\<lparr>ds_status := D_leased, ds_attempt_count := ds_attempt_count s + 1,
        ds_last_fencing_token := cl_fencing_token c, ds_active_lease_id := Some (cl_lease_id c),
        ds_active_fencing_token := Some (cl_fencing_token c), ds_lease_expires_at := Some x\<rparr>"
  | (renew) c x where "e = E_renew_lease c x" "ds_status s = D_leased \<or> ds_status s = D_executing"
      "\<not> ds_logically_settled s" "live_claim L s c"
      "is_timestamp_before L (ds_lease_expires_at s) (Some x)"
      "t = s\<lparr>ds_lease_expires_at := Some x\<rparr>"
  | (start) c where "e = E_start_execution c" "ds_status s = D_leased" "\<not> ds_logically_settled s"
      "live_claim L s c" "t = s\<lparr>ds_status := D_executing\<rparr>"
  | (ack) c where "e = E_acknowledge c" "ds_status s = D_executing" "ds_logically_settled s"
      "live_claim L s c"
      "t = s\<lparr>ds_status := D_acknowledged, ds_active_lease_id := None,
        ds_active_fencing_token := None, ds_lease_expires_at := None\<rparr>"
  | (retire) c d where "e = E_release c d \<and> live_claim L s c \<or> e = E_lease_expired c \<and> over_claim L s c"
      "ds_status s = D_leased \<or> ds_status s = D_executing" "\<not> ds_logically_settled s"
      "t = s\<lparr>ds_status := (if ds_attempt_count s \<ge> ds_max_attempts s
             \<or> e = E_release c R_permanent \<or> e = E_release c R_policy_denied
           then D_dead_lettered else D_stored),
        ds_active_lease_id := None, ds_active_fencing_token := None, ds_lease_expires_at := None\<rparr>"
  | (cancel) r n where "e = E_cancel r n"
      "ds_status s \<in> {D_stored, D_leased, D_executing}"
      "t = s\<lparr>ds_status := D_cancelled, ds_active_lease_id := None,
        ds_active_fencing_token := None, ds_lease_expires_at := None\<rparr>"
proof -
  note that' = that
  note defs = transition_delivery_state_def apply_claimed_def settle_attempt_def Let_def
  show thesis
  proof (cases e)
    case (E_lease c x)
    with assms show thesis
      by (intro that'(1) [of c x])
         (cases "ds_status s"; auto simp: defs apply_lease_def split: if_splits)+
  next
    case (E_renew_lease c x)
    with assms show thesis
      by (intro that'(2) [of c x])
         (cases "ds_status s"; auto simp: defs check_claim_Inr apply_renewal_def split: if_splits)+
  next
    case (E_start_execution c)
    with assms show thesis
      by (intro that'(3) [of c])
         (cases "ds_status s"; auto simp: defs check_claim_Inr split: if_splits)+
  next
    case (E_acknowledge c)
    with assms show thesis
      by (intro that'(4) [of c])
         (cases "ds_status s"; auto simp: defs check_claim_Inr split: if_splits)+
  next
    case (E_release c k)
    with assms show thesis
      by (intro that'(5) [of c k])
         (cases "ds_status s"; cases k; auto simp: defs check_claim_Inr split: if_splits)+
  next
    case (E_lease_expired c)
    with assms show thesis
      by (intro that'(5) [of c R_transient])
         (cases "ds_status s"; auto simp: defs check_claim_Inr split: if_splits)+
  next
    case (E_cancel r n)
    with assms show thesis
      by (intro that'(6) [of r n])
         (cases "ds_status s"; auto simp: defs apply_cancel_def split: if_splits)+
  qed
qed

section \<open>The delivery invariant\<close>

text \<open>A delivery state as the schema and the transitions keep it: the fencing token spells the
  attempt count, and there is a lease, with that token, exactly while work is leased or executing.\<close>

definition delivery_state_inv :: "delivery_state \<Rightarrow> bool" where
  "delivery_state_inv s \<longleftrightarrow>
     0 \<le> ds_attempt_count s \<and> ds_attempt_count s \<le> ds_max_attempts s
     \<and> ds_last_fencing_token s = string_of_int (ds_attempt_count s)
     \<and> (if ds_status s = D_leased \<or> ds_status s = D_executing
        then 0 < ds_attempt_count s \<and> ds_active_lease_id s \<noteq> None
          \<and> ds_active_fencing_token s = Some (ds_last_fencing_token s) \<and> ds_lease_expires_at s \<noteq> None
        else ds_active_lease_id s = None \<and> ds_active_fencing_token s = None \<and> ds_lease_expires_at s = None)
     \<and> (ds_status s = D_stored \<longrightarrow> ds_attempt_count s < ds_max_attempts s)
     \<and> (ds_status s = D_acknowledged \<longrightarrow> ds_logically_settled s \<and> 0 < ds_attempt_count s)"

text \<open>A freshly derived delivery.\<close>

definition initial_delivery_state :: "int \<Rightarrow> delivery_state" where
  "initial_delivery_state max_attempts =
     \<lparr>ds_status = D_stored, ds_attempt_count = 0, ds_max_attempts = max_attempts,
      ds_last_fencing_token = ''0'', ds_active_lease_id = None, ds_active_fencing_token = None,
      ds_lease_expires_at = None, ds_logically_settled = False\<rparr>"

lemma string_of_int_0: "string_of_int 0 = ''0''"
  by code_simp

lemma initial_delivery_state_inv: "0 < m \<Longrightarrow> delivery_state_inv (initial_delivery_state m)"
  by (simp add: delivery_state_inv_def initial_delivery_state_def string_of_int_0)

lemma transition_keeps_inv:
  assumes "delivery_state_inv s" and "transition_delivery_state L s e = Inr t"
  shows "delivery_state_inv t"
  using assms(2)
proof (cases rule: transition_cases)
qed (use assms(1) in \<open>auto simp: delivery_state_inv_def\<close>)

lemma transition_keeps_limits:
  "transition_delivery_state L s e = Inr t \<Longrightarrow>
     ds_max_attempts t = ds_max_attempts s \<and> ds_logically_settled t = ds_logically_settled s"
  by (erule transition_cases) auto

text \<open>The token an event presents for an existing lease, and the token a lease event grants.\<close>

fun presented_token :: "delivery_event \<Rightarrow> string option" where
  "presented_token (E_renew_lease c x) = Some (cl_fencing_token c)"
| "presented_token (E_start_execution c) = Some (cl_fencing_token c)"
| "presented_token (E_acknowledge c) = Some (cl_fencing_token c)"
| "presented_token (E_release c k) = Some (cl_fencing_token c)"
| "presented_token (E_lease_expired c) = Some (cl_fencing_token c)"
| "presented_token _ = None"

fun leased_token :: "delivery_state \<Rightarrow> delivery_event \<Rightarrow> delivery_state \<Rightarrow> string option" where
  "leased_token s (E_lease c x) t = Some (cl_fencing_token c)"
| "leased_token s _ t = None"

lemma live_claim_token:
  "delivery_state_inv s \<Longrightarrow> live_claim L s c \<or> over_claim L s c
     \<Longrightarrow> cl_fencing_token c = string_of_int (ds_attempt_count s)"
  by (auto simp: delivery_state_inv_def live_claim_def over_claim_def split: if_splits)

interpretation fenced: fenced_machine "transition_delivery_state L" delivery_state_inv
  ds_attempt_count presented_token leased_token
proof
  fix s e t f
  assume inv: "delivery_state_inv s"
  show "0 \<le> ds_attempt_count s" using inv by (simp add: delivery_state_inv_def)
  assume step: "transition_delivery_state L s e = Inr t"
  show "delivery_state_inv t" using inv step by (rule transition_keeps_inv)
  show "presented_token e = Some f \<Longrightarrow> f = string_of_int (ds_attempt_count s)"
    using step by (cases rule: transition_cases) (auto dest: live_claim_token [OF inv disjI1] live_claim_token [OF inv disjI2])
  show "leased_token s e t = Some f \<Longrightarrow>
      f = string_of_int (ds_attempt_count s + 1) \<and> ds_attempt_count t = ds_attempt_count s + 1"
    using step by (cases rule: transition_cases) auto
  show "leased_token s e t = None \<Longrightarrow> ds_attempt_count t = ds_attempt_count s"
    using step by (cases rule: transition_cases) auto
qed

section \<open>Properties\<close>

text \<open>C34. A delivery that starts as a freshly derived one keeps its invariant through every run of
  accepted events: attempts never exceed the limit, the last fencing token is the attempt count, and a
  lease with exactly that token is held exactly while the delivery is leased or executing.\<close>

theorem delivery_run_invariant:
  assumes "0 < m" and "run_steps (transition_delivery_state L) (initial_delivery_state m) es = Inr t"
  shows "delivery_state_inv t \<and> ds_max_attempts t = m"
proof
  show "delivery_state_inv t"
    using initial_delivery_state_inv [OF assms(1)] assms(2) by (rule fenced.run_inv)
  have "run_steps (transition_delivery_state L) s es = Inr t \<Longrightarrow> ds_max_attempts t = ds_max_attempts s" for s
    by (induction es arbitrary: s) (auto dest: transition_keeps_limits)
  with assms(2) show "ds_max_attempts t = m" by (fastforce simp: initial_delivery_state_def)
qed

definition sample_claim :: "string \<Rightarrow> timestamp \<Rightarrow> delivery_claim" where
  "sample_claim token now = \<lparr>cl_lease_id = uid ''11'', cl_fencing_token = token, cl_now = now\<rparr>"

definition sample_lease_events :: "delivery_event list" where
  "sample_lease_events =
     [E_lease (sample_claim ''1'' ''2026-01-01T00:00:00Z'') ''2026-01-01T00:01:00Z'',
      E_start_execution (sample_claim ''1'' ''2026-01-01T00:00:10Z''),
      E_lease_expired (sample_claim ''1'' ''2026-01-01T00:02:00Z''),
      E_lease (sample_claim ''2'' ''2026-01-01T00:03:00Z'') ''2026-01-01T00:04:00Z'']"

definition sample_leased_state :: delivery_state where
  "sample_leased_state = (initial_delivery_state 3)\<lparr>ds_status := D_leased, ds_attempt_count := 2,
     ds_last_fencing_token := ''2'', ds_active_lease_id := Some (uid ''11''),
     ds_active_fencing_token := Some ''2'', ds_lease_expires_at := Some ''2026-01-01T00:04:00Z''\<rparr>"

lemma sample_delivery_run:
  "run_steps (transition_delivery_state sample_lib) (initial_delivery_state 3) sample_lease_events
     = Inr sample_leased_state"
  by code_simp

theorem delivery_run_invariant_witness: "delivery_state_inv sample_leased_state"
  using delivery_run_invariant [OF _ sample_delivery_run] by simp

text \<open>C10. A Node that still holds an old fencing token can never act on a delivery again: once a newer
  token is out, whatever requests are served in between, every renewal, start, acknowledgement,
  release or expiry that presents an older token is rejected.\<close>

theorem stale_fence_rejected:
  assumes "delivery_state_inv s" and "presented_token e = Some (string_of_int n)"
    and "n < ds_attempt_count s"
  shows "\<exists>err. transition_delivery_state L (serve_all (transition_delivery_state L) s es) e = Inl err"
  using assms by (rule fenced.stale_token_rejected)

theorem stale_fence_rejected_witness:
  "\<exists>err. transition_delivery_state sample_lib
     (serve_all (transition_delivery_state sample_lib) sample_leased_state [])
     (E_acknowledge (sample_claim (string_of_int 1) ''2026-01-01T00:03:30Z'')) = Inl err"
  by (rule stale_fence_rejected)
     (simp_all add: delivery_run_invariant_witness sample_claim_def, simp add: sample_leased_state_def)

text \<open>Whatever requests arrive, the leases granted on a delivery carry the consecutive fencing
  tokens that follow its attempt count, each exactly once, and there are at most as many as the
  attempt limit leaves.\<close>

theorem granted_tokens_consecutive:
  assumes "delivery_state_inv s"
  shows "granted_tokens (transition_delivery_state L) leased_token s es
      = map string_of_int [ds_attempt_count s + 1 ..
          ds_attempt_count (serve_all (transition_delivery_state L) s es)]
    \<and> int (length (granted_tokens (transition_delivery_state L) leased_token s es))
        \<le> ds_max_attempts s - ds_attempt_count s"
proof -
  let ?t = "serve_all (transition_delivery_state L) s es"
  have max: "ds_max_attempts (serve_all (transition_delivery_state L) s es) = ds_max_attempts s" for s
    by (induction es arbitrary: s) (auto simp: serve_def dest: transition_keeps_limits split: sum.splits)
  have "delivery_state_inv ?t" using assms by (rule fenced.serve_all_inv)
  then have "ds_attempt_count ?t \<le> ds_max_attempts s"
    by (simp add: delivery_state_inv_def max)
  moreover have "ds_attempt_count s \<le> ds_max_attempts s"
    using assms by (simp add: delivery_state_inv_def)
  ultimately show ?thesis
    by (simp add: fenced.granted_consecutive [OF assms])
qed

theorem granted_tokens_consecutive_witness:
  "granted_tokens (transition_delivery_state sample_lib) leased_token (initial_delivery_state 3)
     sample_lease_events = map string_of_int [1, 2]"
proof -
  have inv: "delivery_state_inv (initial_delivery_state 3)" by (simp add: initial_delivery_state_inv)
  have n: "ds_attempt_count (initial_delivery_state 3) = 0"
    "ds_attempt_count (serve_all (transition_delivery_state sample_lib) (initial_delivery_state 3) sample_lease_events) = 2"
    by code_simp+
  have "[0 + 1 .. 2 :: int] = [1, 2]" by code_simp
  then show ?thesis
    using granted_tokens_consecutive [OF inv, of sample_lib sample_lease_events] by (simp only: n)
qed

definition terminal_delivery_status :: "delivery_status \<Rightarrow> bool" where
  "terminal_delivery_status d \<longleftrightarrow> d \<in> {D_acknowledged, D_cancelled, D_dead_lettered}"

text \<open>A delivery reaches a terminal status only as the protocol allows: acknowledged only from
  executing work that is logically settled, under the live lease; dead-lettered only by a release or an
  expiry, and then because the attempts are exhausted or the release is permanent or denied by policy;
  and from a terminal status every event is rejected.\<close>

theorem terminal_delivery_transitions:
  assumes "transition_delivery_state L s e = Inr t"
  shows "\<not> terminal_delivery_status (ds_status s)
    \<and> (ds_status t = D_acknowledged \<longrightarrow>
         (\<exists>c. e = E_acknowledge c \<and> ds_status s = D_executing \<and> ds_logically_settled s \<and> live_claim L s c))
    \<and> (ds_status t = D_dead_lettered \<longrightarrow>
         (\<exists>c. (\<exists>k. e = E_release c k \<and> (k \<noteq> R_transient \<or> ds_attempt_count s \<ge> ds_max_attempts s))
              \<or> e = E_lease_expired c \<and> ds_attempt_count s \<ge> ds_max_attempts s))"
  using assms
proof (cases rule: transition_cases)
  case (retire c d)
  then show ?thesis
    by (cases d) (auto simp: terminal_delivery_status_def split: if_splits)
qed (auto simp: terminal_delivery_status_def)

theorem terminal_delivery_transitions_witness:
  "\<exists>t. transition_delivery_state sample_lib sample_leased_state
     (E_release (sample_claim ''2'' ''2026-01-01T00:03:30Z'') R_permanent) = Inr t
   \<and> ds_status t = D_dead_lettered \<and> \<not> terminal_delivery_status (ds_status sample_leased_state)"
proof -
  let ?e = "E_release (sample_claim ''2'' ''2026-01-01T00:03:30Z'') R_permanent"
  let ?t = "sample_leased_state\<lparr>ds_status := D_dead_lettered, ds_active_lease_id := None,
    ds_active_fencing_token := None, ds_lease_expires_at := None\<rparr>"
  have step: "transition_delivery_state sample_lib sample_leased_state ?e = Inr ?t" by code_simp
  have "ds_status ?t = D_dead_lettered" by simp
  with step show ?thesis using terminal_delivery_transitions [OF step] by blast
qed

text \<open>Exactly the terminal Mission statuses are dead ends: the statuses reachable from s by any
  sequence of Mission transitions are s alone if and only if s is completed, failed, cancelled or expired.\<close>

theorem mission_status_terminal:
  "({t. mission_reaches s t} = {s}) = terminal_mission_status s"
proof
  assume "terminal_mission_status s"
  then show "{t. mission_reaches s t} = {s}"
    by (auto dest: mission_reaches_terminal intro: mission_reaches.here)
next
  assume only: "{t. mission_reaches s t} = {s}"
  show "terminal_mission_status s"
  proof (rule ccontr)
    assume "\<not> terminal_mission_status s"
    then have "mission_reaches s M_failed"
      using mission_transitions_abort [of s]
      by (intro mission_reaches.there [OF mission_reaches.here, of _ Fail_ev]) simp
    with only have "s = M_failed" by auto
    with \<open>\<not> terminal_mission_status s\<close> show False by (simp add: terminal_mission_status_def)
  qed
qed

end
