(* ===== verification/Coordinator.thy ===== *)
theory Coordinator
  imports Transitions
begin

text \<open>
  The Mission coordinator of \<^verbatim>\<open>protocol/src/mission-coordinator.ts\<close>: its configuration, events and
  state, the schema refinements of each, and the reducer that applies one event at a time.  The
  reducer is pure in the source (it clones its input), so it is a function to an error or the next
  state; \<open>structuredClone\<close> is the identity on values and \<open>isDeepStrictEqual\<close> is equality.
\<close>

section \<open>Helpers\<close>

definition same_string_set :: "string list \<Rightarrow> string list \<Rightarrow> bool" where
  "same_string_set left right \<longleftrightarrow>
     length left = length right \<and> length (remdups left) = length left
     \<and> list_all (\<lambda>item. item \<in> set right) left"

definition is_terminal :: "mission_status \<Rightarrow> bool" where
  "is_terminal s \<longleftrightarrow> s = M_completed \<or> s = M_cancelled \<or> s = M_expired \<or> s = M_failed"

lemma same_string_set_iff:
  "same_string_set left right \<longleftrightarrow> distinct left \<and> distinct right \<and> set left = set right"
proof
  assume "same_string_set left right"
  then have len: "length left = length right" and dist: "distinct left" and sub: "set left \<subseteq> set right"
    using has_unique_values_distinct [of left]
    by (auto simp: same_string_set_def list_all_iff has_unique_values_def)
  have "card (set left) = length right" using len dist by (simp add: distinct_card)
  moreover have "card (set left) \<le> card (set right)" using sub by (simp add: card_mono)
  moreover have "card (set right) \<le> length right" by (rule card_length)
  ultimately have card: "card (set right) = length right" "card (set left) = card (set right)" by linarith+
  then have "distinct right" by (simp add: card_distinct)
  moreover have "set left = set right" using sub card(2) by (simp add: card_subset_eq)
  ultimately show "distinct left \<and> distinct right \<and> set left = set right" using dist by simp
next
  assume eq: "distinct left \<and> distinct right \<and> set left = set right"
  then have "length left = length right" by (metis distinct_card)
  with eq show "same_string_set left right"
    by (simp add: same_string_set_def list_all_iff distinct_remdups_id)
qed

section \<open>Configuration\<close>

definition command_id_ok :: "string \<Rightarrow> bool" where
  "command_id_ok s \<longleftrightarrow> 1 \<le> length s \<and> length s \<le> 64
     \<and> head_tail is_alnum (\<lambda>c. is_alnum c \<or> c \<in> set ''._-'') s"

text \<open>A plain object from participant ids to command lists, as its entries in insertion order.\<close>

type_synonym required_commands = "(string \<times> string list) list"

definition required_commands_ok :: "required_commands \<Rightarrow> bool" where
  "required_commands_ok r \<longleftrightarrow>
     list_all (\<lambda>(k, cmds). list_all command_id_ok cmds \<and> 1 \<le> length cmds \<and> length cmds \<le> 16) r"

record coordinator_config =
  cfg_mission_context :: mission_context
  cfg_required_verification_commands :: required_commands

definition manifest_participant_ids :: "manifest \<Rightarrow> string list" where
  "manifest_participant_ids m = map p_agent_id (mf_participants m)"

definition config_issues :: "coordinator_config \<Rightarrow> issue list" where
  "config_issues c =
     (let participant_ids = manifest_participant_ids (mc_manifest (cfg_mission_context c));
          required = cfg_required_verification_commands c;
          configured_ids = map fst required
      in add_issue (\<not> same_string_set participant_ids configured_ids)
           ''Verification plan must contain exactly the two Mission participants''
           [Key ''required_verification_commands'']
       @ concat (map (\<lambda>p.
           let commands = (case map_of required p of None \<Rightarrow> [] | Some cs \<Rightarrow> cs)
           in add_issue (\<not> has_unique_values commands)
                ''Required verification command IDs must be unique per participant''
                [Key ''required_verification_commands'', Key p]) configured_ids))"

definition config_ok :: "host_lib \<Rightarrow> coordinator_config \<Rightarrow> bool" where
  "config_ok L c \<longleftrightarrow> mission_context_ok L (cfg_mission_context c)
     \<and> required_commands_ok (cfg_required_verification_commands c) \<and> config_issues c = []"

section \<open>Events\<close>

datatype terminal_kind = Terminal_expired | Terminal_failed
datatype terminal_reason = Deadline_exceeded | Delivery_dead_lettered

fun terminal_kind_text :: "terminal_kind \<Rightarrow> string" where
  "terminal_kind_text Terminal_expired = ''expired''"
| "terminal_kind_text Terminal_failed = ''failed''"

fun terminal_reason_text :: "terminal_reason \<Rightarrow> string" where
  "terminal_reason_text Deadline_exceeded = ''deadline_exceeded''"
| "terminal_reason_text Delivery_dead_lettered = ''delivery_dead_lettered''"

datatype event_body =
  Participants_accepted (accepted_ids: "uuid list") (accepted_contract: artifact_ref)
| Turn_completed (body_participant: uuid) (body_delivery_id: uuid) (body_version: int)
    (turn_disposition: turn_disposition) (turn_message: "message option")
    (turn_revision: "contract_revision option")
| Contract_acknowledged (body_participant: uuid) (body_delivery_id: uuid) (ack_revision_id: uuid)
    (body_version: int) (ack_artifact: artifact_ref)
| Verification_recorded (body_participant: uuid) (body_delivery_id: uuid) (body_version: int)
    (body_round: int) (body_evidence: verification_evidence)
| Mission_terminal (terminal_status: terminal_kind) (terminal_reason: terminal_reason)
    (terminal_delivery: "uuid option")

record coordinator_event = event_envelope +
  ev_body :: event_body

fun event_body_fields_ok :: "host_lib \<Rightarrow> event_body \<Rightarrow> bool" where
  "event_body_fields_ok L (Participants_accepted ids contract) =
     (list_all (uuid_ok L) ids \<and> length ids = 2 \<and> artifact_ref_ok L contract)"
| "event_body_fields_ok L (Turn_completed p d v disposition msg revision) =
     (uuid_ok L p \<and> uuid_ok L d \<and> contract_version_ok v \<and> turn_disposition_ok L disposition
      \<and> nullable (message_ok L) msg \<and> nullable (contract_revision_ok L) revision)"
| "event_body_fields_ok L (Contract_acknowledged p d r v a) =
     (uuid_ok L p \<and> uuid_ok L d \<and> uuid_ok L r \<and> contract_version_ok v \<and> artifact_ref_ok L a)"
| "event_body_fields_ok L (Verification_recorded p d v round evidence) =
     (uuid_ok L p \<and> uuid_ok L d \<and> contract_version_ok v
      \<and> 0 < round \<and> round \<le> max_safe_integer \<and> evidence_ok L evidence)"
| "event_body_fields_ok L (Mission_terminal status reason trigger) = nullable (uuid_ok L) trigger"

fun is_reply :: "turn_disposition \<Rightarrow> bool" where
  "is_reply (Reply t m a) = True"
| "is_reply _ = False"

fun is_proposal :: "turn_disposition \<Rightarrow> bool" where
  "is_proposal (Propose_contract a) = True"
| "is_proposal _ = False"

fun is_ready :: "turn_disposition \<Rightarrow> bool" where
  "is_ready (Ready es) = True"
| "is_ready _ = False"

definition turn_companion_issues ::
  "turn_disposition \<Rightarrow> message option \<Rightarrow> contract_revision option \<Rightarrow> issue list" where
  "turn_companion_issues disposition msg revision =
     add_issue (is_reply disposition \<noteq> (msg \<noteq> None))
       ''Reply dispositions require exactly one Message companion'' [Key ''message'']
   @ add_issue (is_proposal disposition \<noteq> (revision \<noteq> None))
       ''Contract proposals require exactly one revision companion'' [Key ''revision'']
   @ add_issue (\<not> is_reply disposition \<and> \<not> is_proposal disposition \<and> \<not> is_ready disposition)
       ''This coordinator slice supports reply, propose_contract, and ready turns''
       [Key ''disposition'', Key ''kind'']"

fun event_body_issues :: "event_body \<Rightarrow> issue list" where
  "event_body_issues (Participants_accepted ids contract) =
     add_issue (\<not> has_unique_values ids)
       ''Accepted Mission participants must be unique'' [Key ''participant_agent_ids'']"
| "event_body_issues (Mission_terminal status reason trigger) =
     (let expires_mission = status = Terminal_expired \<and> reason = Deadline_exceeded \<and> trigger = None;
          fails_mission = status = Terminal_failed \<and> reason = Delivery_dead_lettered \<and> trigger \<noteq> None
      in add_issue (\<not> expires_mission \<and> \<not> fails_mission)
           ''Mission terminal status must match its authoritative cause'' [Key ''terminal_status''])"
| "event_body_issues (Turn_completed p d v disposition msg revision) =
     turn_companion_issues disposition msg revision"
| "event_body_issues _ = []"

definition coordinator_event_ok :: "host_lib \<Rightarrow> coordinator_event \<Rightarrow> bool" where
  "coordinator_event_ok L e \<longleftrightarrow> event_envelope_ok L (event_envelope.truncate e)
     \<and> event_body_fields_ok L (ev_body e) \<and> event_body_issues (ev_body e) = []"

section \<open>State\<close>

record verification_record =
  vr_event_id :: uuid
  vr_participant_agent_id :: uuid
  vr_contract_version :: int
  vr_verification_round :: int
  vr_evidence :: verification_evidence

record coordinator_state =
  cs_mission_context :: mission_context
  cs_required_verification_commands :: required_commands
  cs_status :: mission_status
  cs_sequence_no :: int
  cs_turn_count :: int
  cs_contract_version :: int
  cs_verification_round :: int
  cs_active_contract :: artifact_ref
  cs_pending_revision :: "contract_revision option"
  cs_accepted_revisions :: "contract_revision list"
  cs_current_participant :: "uuid option"
  cs_ready_agent_ids :: "uuid list"
  cs_verification_records :: "verification_record list"
  cs_messages :: "message list"
  cs_applied_events :: "coordinator_event list"

abbreviation "cs_manifest s \<equiv> mc_manifest (cs_mission_context s)"

datatype coordinator_error =
  Zod_error | Invalid_event string | Transition_failed transition_error | Type_error

definition mission_participant_ids :: "coordinator_state \<Rightarrow> string list" where
  "mission_participant_ids s = manifest_participant_ids (cs_manifest s)"

definition create_coordinator_state ::
  "host_lib \<Rightarrow> coordinator_config \<Rightarrow> coordinator_error + coordinator_state" where
  "create_coordinator_state L config =
     (if \<not> config_ok L config then Inl Zod_error
      else
        (let manifest = mc_manifest (cfg_mission_context config) in
         case traverse (\<lambda>p. case map_of (cfg_required_verification_commands config) p of
                  None \<Rightarrow> Inl Type_error | Some commands \<Rightarrow> Inr (p, commands))
                (manifest_participant_ids manifest) of
           Inl e \<Rightarrow> Inl e
         | Inr entries \<Rightarrow> Inr
             \<lparr>cs_mission_context = cfg_mission_context config,
              cs_required_verification_commands = object_from_entries entries,
              cs_status = M_awaiting_acceptance, cs_sequence_no = 0, cs_turn_count = 0,
              cs_contract_version = a_version (mf_shared_contract manifest),
              cs_verification_round = 0, cs_active_contract = mf_shared_contract manifest,
              cs_pending_revision = None, cs_accepted_revisions = [], cs_current_participant = None,
              cs_ready_agent_ids = [], cs_verification_records = [], cs_messages = [],
              cs_applied_events = []\<rparr>))"

section \<open>Reducer helpers\<close>

definition find_replay ::
  "coordinator_state \<Rightarrow> coordinator_event \<Rightarrow> coordinator_error + coordinator_event option" where
  "find_replay s event =
     (case filter (\<lambda>applied. ev_event_id applied = ev_event_id event
                     \<or> ev_idempotency_key applied = ev_idempotency_key event) (cs_applied_events s) of
        [] \<Rightarrow> Inr None
      | [m] \<Rightarrow> Inr (Some m)
      | _ \<Rightarrow> Inl (Invalid_event ''event_identity_conflict''))"

definition assert_allowed_artifacts ::
  "coordinator_state \<Rightarrow> artifact_ref list \<Rightarrow> coordinator_error + unit" where
  "assert_allowed_artifacts s artifacts =
     (if list_ex (\<lambda>a. a_type a \<notin> set (mf_allowed_artifact_types (cs_manifest s))) artifacts
      then Inl (Invalid_event ''artifact_type'') else Inr ())"

definition other_participant :: "coordinator_state \<Rightarrow> string \<Rightarrow> coordinator_error + string" where
  "other_participant s p =
     (case find (\<lambda>candidate. candidate \<noteq> p) (mission_participant_ids s) of
        None \<Rightarrow> Inl (Invalid_event ''participant'')
      | Some other \<Rightarrow> if other = '''' then Inl (Invalid_event ''participant'') else Inr other)"

definition mission_step ::
  "mission_status \<Rightarrow> mission_event_type \<Rightarrow> coordinator_error + mission_status" where
  "mission_step s e =
     (case transition_mission_status s e of Inl err \<Rightarrow> Inl (Transition_failed err) | Inr t \<Rightarrow> Inr t)"

definition all_participant_commands_recorded ::
  "string list \<Rightarrow> verification_record list \<Rightarrow> bool" where
  "all_participant_commands_recorded required records \<longleftrightarrow>
     list_all (\<lambda>command_id. list_ex (\<lambda>r. e_command_id (vr_evidence r) = command_id) records) required"

text \<open>\<open>every\<close> over the participants, stopping at the first that fails; a participant without a command
  list makes the source read a property of \<open>undefined\<close>.\<close>

fun all_required_commands_passed_for ::
  "coordinator_state \<Rightarrow> verification_record list \<Rightarrow> string list \<Rightarrow> coordinator_error + bool" where
  "all_required_commands_passed_for s records [] = Inr True"
| "all_required_commands_passed_for s records (p # ps) =
     (case map_of (cs_required_verification_commands s) p of
        None \<Rightarrow> Inl Type_error
      | Some commands \<Rightarrow>
          if list_all (\<lambda>command_id. list_ex (\<lambda>r. vr_participant_agent_id r = p
                \<and> vr_contract_version r = cs_contract_version s
                \<and> vr_verification_round r = cs_verification_round s
                \<and> e_command_id (vr_evidence r) = command_id
                \<and> e_outcome (vr_evidence r) = Passed) records) commands
          then all_required_commands_passed_for s records ps
          else Inr False)"

definition all_required_commands_passed ::
  "coordinator_state \<Rightarrow> verification_record list \<Rightarrow> coordinator_error + bool" where
  "all_required_commands_passed s records =
     all_required_commands_passed_for s records (mission_participant_ids s)"

section \<open>The five event handlers\<close>

text \<open>The fields every handler resets when a turn or round is over.\<close>

definition apply_mission_terminal ::
  "coordinator_state \<Rightarrow> terminal_kind \<Rightarrow> coordinator_error + coordinator_state" where
  "apply_mission_terminal s status =
     (if cs_status s \<noteq> M_active \<and> cs_status s \<noteq> M_verifying
      then Inl (Invalid_event ''terminal_state'')
      else (case mission_step (cs_status s) (if status = Terminal_expired then Expire_ev else Fail_ev) of
              Inl e \<Rightarrow> Inl e
            | Inr next \<Rightarrow> Inr (s\<lparr>cs_status := next, cs_pending_revision := None,
                cs_current_participant := None, cs_ready_agent_ids := [],
                cs_verification_records := []\<rparr>)))"

definition apply_participants_accepted ::
  "coordinator_state \<Rightarrow> uuid list \<Rightarrow> artifact_ref \<Rightarrow> coordinator_error + coordinator_state" where
  "apply_participants_accepted s ids contract =
     (if cs_status s \<noteq> M_awaiting_acceptance \<or> length (cs_applied_events s) \<noteq> 0
      then Inl (Invalid_event ''acceptance_state'')
      else if \<not> same_string_set ids (mission_participant_ids s)
      then Inl (Invalid_event ''acceptance_participants'')
      else if contract \<noteq> mf_shared_contract (cs_manifest s)
      then Inl (Invalid_event ''acceptance_contract'')
      else (case mission_step (cs_status s) Participants_accepted_ev of
              Inl e \<Rightarrow> Inl e
            | Inr next \<Rightarrow> Inr (s\<lparr>cs_status := next,
                cs_current_participant := (case mission_participant_ids s of [] \<Rightarrow> None | p # _ \<Rightarrow> Some p)\<rparr>)))"

definition apply_reply ::
  "coordinator_state \<Rightarrow> uuid \<Rightarrow> uuid \<Rightarrow> turn_disposition \<Rightarrow> message option
    \<Rightarrow> coordinator_error + coordinator_state" where
  "apply_reply s mission_id participant disposition msg =
     (case (disposition, msg) of
        (Reply message_type body artifacts, Some m) \<Rightarrow>
          (let expected_artifacts = (case artifacts of None \<Rightarrow> [] | Some as \<Rightarrow> as);
               expected_parent = map_option m_message_id (last_option (cs_messages s)) in
           if m_mission_id m \<noteq> mission_id \<or> m_author_agent_id m \<noteq> participant
             \<or> m_contract_version m \<noteq> cs_contract_version s \<or> m_type m \<noteq> message_type
             \<or> m_body m \<noteq> body \<or> m_artifacts m \<noteq> expected_artifacts
             \<or> m_sequence_no m \<noteq> int (length (cs_messages s)) + 1
             \<or> m_causal_parent_message_id m \<noteq> expected_parent
           then Inl (Invalid_event ''reply_message_mismatch'')
           else if list_ex (\<lambda>existing. m_message_id existing = m_message_id m
                  \<or> m_idempotency_key existing = m_idempotency_key m) (cs_messages s)
           then Inl (Invalid_event ''message_identity_conflict'')
           else (case assert_allowed_artifacts s (m_artifacts m) of
                   Inl e \<Rightarrow> Inl e
                 | Inr _ \<Rightarrow>
                    (case other_participant s participant of
                       Inl e \<Rightarrow> Inl e
                     | Inr other \<Rightarrow> Inr (s\<lparr>cs_current_participant := Some other, cs_ready_agent_ids := [],
                         cs_verification_records := [], cs_messages := cs_messages s @ [m]\<rparr>))))
      | _ \<Rightarrow> Inl (Invalid_event ''reply_message_missing''))"

definition apply_contract_proposal ::
  "coordinator_state \<Rightarrow> uuid \<Rightarrow> uuid \<Rightarrow> turn_disposition \<Rightarrow> contract_revision option
    \<Rightarrow> coordinator_error + coordinator_state" where
  "apply_contract_proposal s mission_id participant disposition revision =
     (case (disposition, revision) of
        (Propose_contract artifact, Some r) \<Rightarrow>
          (if r_mission_id r \<noteq> mission_id \<or> r_proposed_by_agent_id r \<noteq> participant
             \<or> r_previous_version r \<noteq> cs_contract_version s
             \<or> r_version r \<noteq> cs_contract_version s + 1
             \<or> length (r_acknowledged_by_agent_ids r) \<noteq> 0 \<or> r_artifact r \<noteq> artifact
           then Inl (Invalid_event ''revision_mismatch'')
           else if a_artifact_id (r_artifact r) \<noteq> a_artifact_id (cs_active_contract s)
             \<or> a_type (r_artifact r) \<noteq> a_type (cs_active_contract s)
           then Inl (Invalid_event ''revision_contract_identity'')
           else if list_ex (\<lambda>existing. r_revision_id existing = r_revision_id r
                  \<or> r_idempotency_key existing = r_idempotency_key r) (cs_accepted_revisions s)
           then Inl (Invalid_event ''revision_identity_conflict'')
           else (case assert_allowed_artifacts s [r_artifact r] of
                   Inl e \<Rightarrow> Inl e
                 | Inr _ \<Rightarrow> Inr (s\<lparr>cs_pending_revision := Some r, cs_current_participant := None,
                     cs_ready_agent_ids := [], cs_verification_records := []\<rparr>)))
      | _ \<Rightarrow> Inl (Invalid_event ''revision_missing''))"

definition apply_ready ::
  "coordinator_state \<Rightarrow> uuid \<Rightarrow> turn_disposition \<Rightarrow> coordinator_error + coordinator_state" where
  "apply_ready s participant disposition =
     (case disposition of
        Ready evidence \<Rightarrow>
          (case assert_allowed_artifacts s (concat (map e_artifacts evidence)) of
             Inl e \<Rightarrow> Inl e
           | Inr _ \<Rightarrow>
              (let ready_agent_ids = cs_ready_agent_ids s @ [participant] in
               if same_string_set ready_agent_ids (mission_participant_ids s)
               then (case mission_step (cs_status s) Participants_ready_ev of
                       Inl e \<Rightarrow> Inl e
                     | Inr next \<Rightarrow> Inr (s\<lparr>cs_status := next,
                         cs_verification_round := cs_verification_round s + 1,
                         cs_current_participant := None, cs_ready_agent_ids := ready_agent_ids,
                         cs_verification_records := []\<rparr>))
               else (case other_participant s participant of
                       Inl e \<Rightarrow> Inl e
                     | Inr other \<Rightarrow> Inr (s\<lparr>cs_current_participant := Some other,
                         cs_ready_agent_ids := ready_agent_ids\<rparr>))))
      | _ \<Rightarrow> Inl (Invalid_event ''ready_disposition''))"

text \<open>The check after a turn: an active Mission that has used its last turn fails.\<close>

definition fail_when_out_of_turns ::
  "coordinator_state \<Rightarrow> coordinator_error + coordinator_state" where
  "fail_when_out_of_turns s =
     (if cs_status s = M_active \<and> cs_turn_count s \<ge> mf_max_turns (cs_manifest s)
      then (case mission_step (cs_status s) Fail_ev of
              Inl e \<Rightarrow> Inl e
            | Inr next \<Rightarrow> Inr (s\<lparr>cs_status := next, cs_pending_revision := None,
                cs_current_participant := None, cs_ready_agent_ids := [],
                cs_verification_records := []\<rparr>))
      else Inr s)"

definition apply_disposition ::
  "coordinator_state \<Rightarrow> uuid \<Rightarrow> uuid \<Rightarrow> turn_disposition \<Rightarrow> message option \<Rightarrow> contract_revision option
    \<Rightarrow> coordinator_error + coordinator_state" where
  "apply_disposition s mission_id participant disposition msg revision =
     (if is_reply disposition then apply_reply s mission_id participant disposition msg
      else if is_proposal disposition
      then apply_contract_proposal s mission_id participant disposition revision
      else if is_ready disposition then apply_ready s participant disposition
      else Inl (Invalid_event ''unsupported_disposition''))"

definition apply_turn_completed ::
  "coordinator_state \<Rightarrow> uuid \<Rightarrow> uuid \<Rightarrow> int \<Rightarrow> turn_disposition \<Rightarrow> message option
    \<Rightarrow> contract_revision option \<Rightarrow> coordinator_error + coordinator_state" where
  "apply_turn_completed s mission_id participant version disposition msg revision =
     (if cs_status s \<noteq> M_active \<or> cs_pending_revision s \<noteq> None \<or> cs_current_participant s = None
      then Inl (Invalid_event ''turn_not_scheduled'')
      else if Some participant \<noteq> cs_current_participant s
      then Inl (Invalid_event ''turn_participant'')
      else if version \<noteq> cs_contract_version s then Inl (Invalid_event ''contract_version'')
      else if cs_turn_count s \<ge> mf_max_turns (cs_manifest s) then Inl (Invalid_event ''turn_limit'')
      else (case apply_disposition (s\<lparr>cs_turn_count := cs_turn_count s + 1\<rparr>) mission_id participant
                   disposition msg revision of
              Inl e \<Rightarrow> Inl e
            | Inr reduced \<Rightarrow> fail_when_out_of_turns reduced))"

definition apply_contract_acknowledged ::
  "host_lib \<Rightarrow> coordinator_state \<Rightarrow> uuid \<Rightarrow> uuid \<Rightarrow> int \<Rightarrow> artifact_ref
    \<Rightarrow> coordinator_error + coordinator_state" where
  "apply_contract_acknowledged L s participant revision_id version artifact =
     (case cs_pending_revision s of
        None \<Rightarrow> Inl (Invalid_event ''no_pending_revision'')
      | Some pending \<Rightarrow>
         if cs_status s \<noteq> M_active \<or> cs_current_participant s \<noteq> None
         then Inl (Invalid_event ''no_pending_revision'')
         else if participant \<notin> set (mission_participant_ids s)
         then Inl (Invalid_event ''acknowledgement_participant'')
         else if revision_id \<noteq> r_revision_id pending \<or> version \<noteq> r_version pending
           \<or> artifact \<noteq> r_artifact pending
         then Inl (Invalid_event ''acknowledgement_revision'')
         else if participant \<in> set (r_acknowledged_by_agent_ids pending)
         then Inl (Invalid_event ''duplicate_acknowledgement'')
         else
           (let acknowledged = pending\<lparr>r_acknowledged_by_agent_ids :=
                  r_acknowledged_by_agent_ids pending @ [participant]\<rparr> in
            if \<not> contract_revision_ok L acknowledged then Inl Zod_error
            else if \<not> same_string_set (r_acknowledged_by_agent_ids acknowledged) (mission_participant_ids s)
            then Inr (s\<lparr>cs_pending_revision := Some acknowledged\<rparr>)
            else (case other_participant s (r_proposed_by_agent_id acknowledged) of
                    Inl e \<Rightarrow> Inl e
                  | Inr other \<Rightarrow> Inr (s\<lparr>cs_contract_version := r_version acknowledged,
                      cs_active_contract := r_artifact acknowledged, cs_pending_revision := None,
                      cs_accepted_revisions := cs_accepted_revisions s @ [acknowledged],
                      cs_current_participant := Some other, cs_ready_agent_ids := [],
                      cs_verification_records := []\<rparr>))))"

text \<open>The decision after a record is added: wait for the rest of the participant's commands, go back
  to work (or fail) when one failed, complete when every required command of both passed.\<close>

definition conclude_verification ::
  "coordinator_state \<Rightarrow> uuid \<Rightarrow> string list \<Rightarrow> verification_record list
    \<Rightarrow> coordinator_error + coordinator_state" where
  "conclude_verification s participant required records =
     (let participant_records = filter (\<lambda>r. vr_participant_agent_id r = participant) records in
      if \<not> all_participant_commands_recorded required participant_records
      then Inr (s\<lparr>cs_verification_records := records\<rparr>)
      else if list_ex (\<lambda>r. e_outcome (vr_evidence r) = Failed) participant_records
      then (let remaining_turns = mf_max_turns (cs_manifest s) - cs_turn_count s;
                can_retry = remaining_turns \<ge> int (length (mission_participant_ids s)) in
            case mission_step (cs_status s) (if can_retry then Verification_failed_ev else Fail_ev) of
              Inl e \<Rightarrow> Inl e
            | Inr next \<Rightarrow> Inr (s\<lparr>cs_status := next,
                cs_current_participant := (if can_retry then Some participant else None),
                cs_ready_agent_ids := [], cs_verification_records := []\<rparr>))
      else (case all_required_commands_passed s records of
              Inl e \<Rightarrow> Inl e
            | Inr False \<Rightarrow> Inr (s\<lparr>cs_verification_records := records\<rparr>)
            | Inr True \<Rightarrow>
                (case mission_step (cs_status s) Verification_passed_ev of
                   Inl e \<Rightarrow> Inl e
                 | Inr next \<Rightarrow> Inr (s\<lparr>cs_status := next, cs_verification_records := records\<rparr>))))"

fun records_verification :: "uuid \<Rightarrow> event_body \<Rightarrow> bool" where
  "records_verification vid (Verification_recorded p d v r evidence) = (e_verification_id evidence = vid)"
| "records_verification vid _ = False"

definition apply_verification_recorded ::
  "coordinator_state \<Rightarrow> uuid \<Rightarrow> uuid \<Rightarrow> int \<Rightarrow> int \<Rightarrow> verification_evidence
    \<Rightarrow> coordinator_error + coordinator_state" where
  "apply_verification_recorded s event_id participant version round evidence =
     (if cs_status s \<noteq> M_verifying \<or> cs_pending_revision s \<noteq> None \<or> cs_current_participant s \<noteq> None
      then Inl (Invalid_event ''not_verifying'')
      else if version \<noteq> cs_contract_version s then Inl (Invalid_event ''contract_version'')
      else if round \<noteq> cs_verification_round s then Inl (Invalid_event ''verification_round'')
      else (case map_of (cs_required_verification_commands s) participant of
              None \<Rightarrow> Inl (Invalid_event ''verification_command'')
            | Some required \<Rightarrow>
               if e_command_id evidence \<notin> set required
               then Inl (Invalid_event ''verification_command'')
               else if list_ex (\<lambda>applied. records_verification (e_verification_id evidence) (ev_body applied))
                    (cs_applied_events s)
                  \<or> list_ex (\<lambda>r. vr_participant_agent_id r = participant
                       \<and> e_command_id (vr_evidence r) = e_command_id evidence) (cs_verification_records s)
               then Inl (Invalid_event ''verification_conflict'')
               else (case assert_allowed_artifacts s (e_artifacts evidence) of
                       Inl e \<Rightarrow> Inl e
                     | Inr _ \<Rightarrow>
                         conclude_verification s participant required
                           (cs_verification_records s @
                             [\<lparr>vr_event_id = event_id, vr_participant_agent_id = participant,
                               vr_contract_version = version, vr_verification_round = round,
                               vr_evidence = evidence\<rparr>]))))"

section \<open>The reducer\<close>

fun completes_delivery :: "uuid \<Rightarrow> event_body \<Rightarrow> bool" where
  "completes_delivery d (Turn_completed p d' v disposition msg revision) = (d' = d)"
| "completes_delivery d _ = False"

definition apply_event ::
  "host_lib \<Rightarrow> coordinator_state \<Rightarrow> coordinator_event \<Rightarrow> coordinator_error + coordinator_state" where
  "apply_event L s event =
     (case ev_body event of
        Participants_accepted ids contract \<Rightarrow> apply_participants_accepted s ids contract
      | Turn_completed p d v disposition msg revision \<Rightarrow>
          apply_turn_completed s (ev_mission_id event) p v disposition msg revision
      | Contract_acknowledged p d r v artifact \<Rightarrow> apply_contract_acknowledged L s p r v artifact
      | Verification_recorded p d v round evidence \<Rightarrow>
          apply_verification_recorded s (ev_event_id event) p v round evidence
      | Mission_terminal status reason trigger \<Rightarrow> apply_mission_terminal s status)"

text \<open>The part of the reducer after the replay check.\<close>

definition reduce_fresh_event ::
  "host_lib \<Rightarrow> coordinator_state \<Rightarrow> coordinator_event \<Rightarrow> coordinator_error + coordinator_state" where
  "reduce_fresh_event L s event =
     (if ev_mission_id event \<noteq> mf_mission_id (cs_manifest s)
      then Inl (Invalid_event ''mission_mismatch'')
      else if ev_sequence_no event \<noteq> cs_sequence_no s + 1 then Inl (Invalid_event ''sequence'')
      else if is_terminal (cs_status s) then Inl (Invalid_event ''terminal'')
      else if (case ev_body event of
                 Turn_completed p d v disposition msg revision \<Rightarrow>
                   list_ex (\<lambda>applied. completes_delivery d (ev_body applied)) (cs_applied_events s)
               | _ \<Rightarrow> False)
      then Inl (Invalid_event ''delivery_conflict'')
      else (case apply_event L s event of
              Inl e \<Rightarrow> Inl e
            | Inr reduced \<Rightarrow> Inr (reduced\<lparr>cs_sequence_no := ev_sequence_no event,
                cs_applied_events := cs_applied_events reduced @ [event]\<rparr>)))"

definition reduce_coordinator_event ::
  "host_lib \<Rightarrow> coordinator_state \<Rightarrow> coordinator_event \<Rightarrow> coordinator_error + coordinator_state" where
  "reduce_coordinator_event L s event =
     (if \<not> coordinator_event_ok L event then Inl Zod_error
      else (case find_replay s event of
              Inl e \<Rightarrow> Inl e
            | Inr (Some replay) \<Rightarrow>
                if replay = event then Inr s else Inl (Invalid_event ''event_identity_conflict'')
            | Inr None \<Rightarrow> reduce_fresh_event L s event))"

definition replay_coordinator_events ::
  "host_lib \<Rightarrow> coordinator_config \<Rightarrow> coordinator_event list \<Rightarrow> coordinator_error + coordinator_state" where
  "replay_coordinator_events L config events =
     (case create_coordinator_state L config of
        Inl e \<Rightarrow> Inl e
      | Inr s \<Rightarrow> run_steps (reduce_coordinator_event L) s events)"

end
