(* ===== verification/Coordinator_Steps.thy ===== *)
theory Coordinator_Steps
  imports Coordinator
begin

text \<open>
  What an accepted coordinator event does: one inversion lemma per handler, giving its guards and the
  exact next state.  The invariant proofs rest on these and never unfold a handler.
\<close>

section \<open>Helpers\<close>

lemma mission_step_Inr [simp]: "mission_step s e = Inr t \<longleftrightarrow> mission_transitions s e = Some t"
  by (auto simp: mission_step_def transition_mission_status_def split: sum.splits option.splits)

lemma assert_allowed_artifacts_Inr:
  "assert_allowed_artifacts s as = Inr u \<longleftrightarrow>
     (\<forall>a \<in> set as. a_type a \<in> set (mf_allowed_artifact_types (cs_manifest s)))"
  by (auto simp: assert_allowed_artifacts_def list_ex_iff)

lemma other_participant_Inr:
  assumes "other_participant s p = Inr other"
  shows "other \<in> set (mission_participant_ids s) \<and> other \<noteq> p \<and> other \<noteq> ''''"
  using assms by (auto simp: other_participant_def find_Some_iff split: option.splits if_splits)

lemma other_of_two:
  assumes "mission_participant_ids s = [p, q]" and "p \<noteq> q" and "x = p \<or> x = q"
    and "p \<noteq> ''''" and "q \<noteq> ''''"
  shows "other_participant s x = Inr (if x = p then q else p)"
  using assms by (auto simp: other_participant_def)

text \<open>A Mission that gives up: what every failing branch leaves behind.\<close>

definition stopped :: "mission_status \<Rightarrow> coordinator_state \<Rightarrow> coordinator_state" where
  "stopped status s = s\<lparr>cs_status := status, cs_pending_revision := None, cs_current_participant := None,
     cs_ready_agent_ids := [], cs_verification_records := []\<rparr>"

definition after_turn :: "coordinator_state \<Rightarrow> coordinator_state" where
  "after_turn s = (if cs_status s = M_active \<and> cs_turn_count s \<ge> mf_max_turns (cs_manifest s)
     then stopped M_failed s else s)"

definition logged :: "coordinator_event \<Rightarrow> coordinator_state \<Rightarrow> coordinator_state" where
  "logged e s = s\<lparr>cs_sequence_no := ev_sequence_no e, cs_applied_events := cs_applied_events s @ [e]\<rparr>"

lemma fail_when_out_of_turns_eq: "fail_when_out_of_turns s = Inr (after_turn s)"
  by (auto simp: fail_when_out_of_turns_def after_turn_def stopped_def mission_step_def
      transition_mission_status_def)

section \<open>Handlers\<close>

lemma apply_mission_terminal_Inr:
  "apply_mission_terminal s k = Inr t \<longleftrightarrow>
     (cs_status s = M_active \<or> cs_status s = M_verifying)
     \<and> t = stopped (if k = Terminal_expired then M_expired else M_failed) s"
  by (cases k) (auto simp: apply_mission_terminal_def stopped_def)

lemma apply_participants_accepted_Inr:
  "apply_participants_accepted s ids contract = Inr t \<longleftrightarrow>
     cs_status s = M_awaiting_acceptance \<and> cs_applied_events s = []
     \<and> same_string_set ids (mission_participant_ids s) \<and> contract = mf_shared_contract (cs_manifest s)
     \<and> t = s\<lparr>cs_status := M_active,
          cs_current_participant := (case mission_participant_ids s of [] \<Rightarrow> None | p # _ \<Rightarrow> Some p)\<rparr>"
  by (auto simp: apply_participants_accepted_def)

text \<open>The message a reply must carry.\<close>

definition reply_fits :: "coordinator_state \<Rightarrow> uuid \<Rightarrow> uuid \<Rightarrow> message \<Rightarrow> bool" where
  "reply_fits s mission_id p m \<longleftrightarrow>
     m_mission_id m = mission_id \<and> m_author_agent_id m = p
     \<and> m_contract_version m = cs_contract_version s
     \<and> m_sequence_no m = int (length (cs_messages s)) + 1
     \<and> m_causal_parent_message_id m = map_option m_message_id (last_option (cs_messages s))
     \<and> m_message_id m \<notin> m_message_id ` set (cs_messages s)
     \<and> m_idempotency_key m \<notin> m_idempotency_key ` set (cs_messages s)"

lemma apply_reply_Inr:
  assumes "apply_reply s mission_id p disposition msg = Inr t"
  shows "\<exists>m other. msg = Some m \<and> is_reply disposition \<and> reply_fits s mission_id p m
     \<and> other_participant s p = Inr other
     \<and> t = s\<lparr>cs_current_participant := Some other, cs_ready_agent_ids := [],
          cs_verification_records := [], cs_messages := cs_messages s @ [m]\<rparr>"
  using assms
  by (auto simp: apply_reply_def reply_fits_def list_ex_iff Let_def
      split: turn_disposition.splits option.splits if_splits)

text \<open>The revision a proposal must carry.\<close>

definition proposal_fits :: "coordinator_state \<Rightarrow> uuid \<Rightarrow> uuid \<Rightarrow> contract_revision \<Rightarrow> bool" where
  "proposal_fits s mission_id p r \<longleftrightarrow>
     r_mission_id r = mission_id \<and> r_proposed_by_agent_id r = p
     \<and> r_previous_version r = cs_contract_version s \<and> r_version r = cs_contract_version s + 1
     \<and> r_acknowledged_by_agent_ids r = []
     \<and> a_artifact_id (r_artifact r) = a_artifact_id (cs_active_contract s)
     \<and> a_type (r_artifact r) = a_type (cs_active_contract s)
     \<and> r_revision_id r \<notin> r_revision_id ` set (cs_accepted_revisions s)
     \<and> a_type (r_artifact r) \<in> set (mf_allowed_artifact_types (cs_manifest s))"

lemma apply_contract_proposal_Inr:
  assumes "apply_contract_proposal s mission_id p disposition revision = Inr t"
  shows "\<exists>r. revision = Some r \<and> is_proposal disposition \<and> proposal_fits s mission_id p r
     \<and> t = s\<lparr>cs_pending_revision := Some r, cs_current_participant := None,
          cs_ready_agent_ids := [], cs_verification_records := []\<rparr>"
  using assms
  by (auto simp: apply_contract_proposal_def proposal_fits_def list_ex_iff assert_allowed_artifacts_Inr
      split: turn_disposition.splits option.splits if_splits)

lemma apply_ready_Inr:
  assumes "apply_ready s p disposition = Inr t"
  shows "is_ready disposition \<and>
     (if same_string_set (cs_ready_agent_ids s @ [p]) (mission_participant_ids s)
      then mission_transitions (cs_status s) Participants_ready_ev = Some (cs_status t)
        \<and> t = s\<lparr>cs_status := cs_status t, cs_verification_round := cs_verification_round s + 1,
             cs_current_participant := None, cs_ready_agent_ids := cs_ready_agent_ids s @ [p],
             cs_verification_records := []\<rparr>
      else \<exists>other. other_participant s p = Inr other
        \<and> t = s\<lparr>cs_current_participant := Some other, cs_ready_agent_ids := cs_ready_agent_ids s @ [p]\<rparr>)"
  using assms by (auto simp: apply_ready_def Let_def split: turn_disposition.splits if_splits)

text \<open>Turns: the guards, and the three kinds of effect, before the turn limit is applied.\<close>

lemma apply_turn_completed_Inr:
  assumes "apply_turn_completed s mission_id p version disposition msg revision = Inr t"
  obtains u where "cs_status s = M_active" "cs_pending_revision s = None"
    "cs_current_participant s = Some p" "version = cs_contract_version s"
    "cs_turn_count s < mf_max_turns (cs_manifest s)"
    "apply_disposition (s\<lparr>cs_turn_count := cs_turn_count s + 1\<rparr>) mission_id p disposition msg revision = Inr u"
    "t = after_turn u"
  using assms by (auto simp: apply_turn_completed_def fail_when_out_of_turns_eq split: if_splits)

lemma apply_contract_acknowledged_Inr:
  assumes "apply_contract_acknowledged L s p revision_id version artifact = Inr t"
  obtains r where "cs_pending_revision s = Some r" "cs_status s = M_active"
    "cs_current_participant s = None" "p \<in> set (mission_participant_ids s)"
    "p \<notin> set (r_acknowledged_by_agent_ids r)"
    "contract_revision_ok L (r\<lparr>r_acknowledged_by_agent_ids := r_acknowledged_by_agent_ids r @ [p]\<rparr>)"
    "(if same_string_set (r_acknowledged_by_agent_ids r @ [p]) (mission_participant_ids s)
      then \<exists>other. other_participant s (r_proposed_by_agent_id r) = Inr other
        \<and> t = s\<lparr>cs_contract_version := r_version r, cs_active_contract := r_artifact r,
             cs_pending_revision := None,
             cs_accepted_revisions := cs_accepted_revisions s
               @ [r\<lparr>r_acknowledged_by_agent_ids := r_acknowledged_by_agent_ids r @ [p]\<rparr>],
             cs_current_participant := Some other, cs_ready_agent_ids := [], cs_verification_records := []\<rparr>
      else t = s\<lparr>cs_pending_revision :=
             Some (r\<lparr>r_acknowledged_by_agent_ids := r_acknowledged_by_agent_ids r @ [p]\<rparr>)\<rparr>)"
  using assms
  by (auto simp: apply_contract_acknowledged_def Let_def split: option.splits if_splits)

text \<open>Verification: the record added and the four ways the round can go on.\<close>

definition new_record ::
  "coordinator_state \<Rightarrow> uuid \<Rightarrow> uuid \<Rightarrow> verification_evidence \<Rightarrow> verification_record" where
  "new_record s event_id p evidence = \<lparr>vr_event_id = event_id, vr_participant_agent_id = p,
     vr_contract_version = cs_contract_version s, vr_verification_round = cs_verification_round s,
     vr_evidence = evidence\<rparr>"

definition fresh_result ::
  "coordinator_state \<Rightarrow> uuid \<Rightarrow> string list \<Rightarrow> verification_evidence \<Rightarrow> bool" where
  "fresh_result s p required evidence \<longleftrightarrow>
     map_of (cs_required_verification_commands s) p = Some required
     \<and> e_command_id evidence \<in> set required
     \<and> (\<forall>a \<in> set (cs_applied_events s). \<not> records_verification (e_verification_id evidence) (ev_body a))
     \<and> (\<forall>r \<in> set (cs_verification_records s). vr_participant_agent_id r = p
          \<longrightarrow> e_command_id (vr_evidence r) \<noteq> e_command_id evidence)
     \<and> (\<forall>a \<in> set (e_artifacts evidence). a_type a \<in> set (mf_allowed_artifact_types (cs_manifest s)))"

lemma apply_verification_recorded_Inr:
  "apply_verification_recorded s event_id p version round evidence = Inr t \<longleftrightarrow>
     cs_status s = M_verifying \<and> cs_pending_revision s = None \<and> cs_current_participant s = None
     \<and> version = cs_contract_version s \<and> round = cs_verification_round s
     \<and> (\<exists>required. fresh_result s p required evidence
          \<and> conclude_verification s p required
              (cs_verification_records s @ [new_record s event_id p evidence]) = Inr t)"
  by (auto simp: apply_verification_recorded_def fresh_result_def new_record_def list_ex_iff
      assert_allowed_artifacts_Inr split: option.splits)

lemma conclude_verification_cases:
  assumes "conclude_verification s p required records = Inr t" and "cs_status s = M_verifying"
  obtains
    (wait) "\<not> all_participant_commands_recorded required
              (filter (\<lambda>r. vr_participant_agent_id r = p) records)
            \<or> (\<forall>r \<in> set records. vr_participant_agent_id r = p \<longrightarrow> e_outcome (vr_evidence r) = Passed)
              \<and> all_required_commands_passed s records = Inr False"
      "t = s\<lparr>cs_verification_records := records\<rparr>"
  | (retry) "mf_max_turns (cs_manifest s) - cs_turn_count s \<ge> int (length (mission_participant_ids s))"
      "t = s\<lparr>cs_status := M_active, cs_current_participant := Some p, cs_ready_agent_ids := [],
           cs_verification_records := []\<rparr>"
  | (give_up) "t = s\<lparr>cs_status := M_failed, cs_current_participant := None, cs_ready_agent_ids := [],
           cs_verification_records := []\<rparr>"
  | (pass) "all_required_commands_passed s records = Inr True"
      "t = s\<lparr>cs_status := M_completed, cs_verification_records := records\<rparr>"
proof -
  have outcome: "e_outcome (vr_evidence r) = Passed \<longleftrightarrow> e_outcome (vr_evidence r) \<noteq> Failed" for r
    by (cases "e_outcome (vr_evidence r)") auto
  from assms that show thesis
    by (auto simp: conclude_verification_def Let_def list_ex_iff outcome
        split: if_splits sum.splits bool.splits)
qed

section \<open>The reducer\<close>

lemma filter_Cons_mem: "filter P xs = y # ys \<Longrightarrow> y \<in> set xs \<and> P y"
  by (drule arg_cong [of _ _ set]) auto

lemma find_replay_None:
  "find_replay s e = Inr None \<longleftrightarrow>
     (\<forall>a \<in> set (cs_applied_events s). ev_event_id a \<noteq> ev_event_id e
        \<and> ev_idempotency_key a \<noteq> ev_idempotency_key e)"
  by (auto simp: find_replay_def filter_empty_conv split: list.splits dest!: filter_Cons_mem)

lemma find_replay_Some: "find_replay s e = Inr (Some a) \<Longrightarrow> a \<in> set (cs_applied_events s)"
  by (auto simp: find_replay_def split: list.splits dest!: filter_Cons_mem)

lemma reduce_fresh_event_Inr:
  "reduce_fresh_event L s e = Inr t \<longleftrightarrow>
     ev_mission_id e = mf_mission_id (cs_manifest s) \<and> ev_sequence_no e = cs_sequence_no s + 1
     \<and> \<not> is_terminal (cs_status s)
     \<and> (\<forall>p d v disposition msg revision. ev_body e = Turn_completed p d v disposition msg revision
          \<longrightarrow> (\<forall>a \<in> set (cs_applied_events s). \<not> completes_delivery d (ev_body a)))
     \<and> (\<exists>u. apply_event L s e = Inr u \<and> t = logged e u)"
  by (cases "ev_body e") (auto simp: reduce_fresh_event_def logged_def list_ex_iff)

lemma reduce_coordinator_event_Inr:
  "reduce_coordinator_event L s e = Inr t \<longleftrightarrow>
     coordinator_event_ok L e
     \<and> (find_replay s e = Inr (Some e) \<and> t = s
        \<or> find_replay s e = Inr None \<and> reduce_fresh_event L s e = Inr t)"
  by (auto simp: reduce_coordinator_event_def split: option.splits if_splits)

section \<open>The accepted fresh events, one case per kind of effect\<close>

lemma frame_turn_count [simp]:
  "reply_fits (s\<lparr>cs_turn_count := n\<rparr>) = reply_fits s"
  "proposal_fits (s\<lparr>cs_turn_count := n\<rparr>) = proposal_fits s"
  "other_participant (s\<lparr>cs_turn_count := n\<rparr>) = other_participant s"
  "mission_participant_ids (s\<lparr>cs_turn_count := n\<rparr>) = mission_participant_ids s"
  by (auto simp: reply_fits_def proposal_fits_def other_participant_def mission_participant_ids_def fun_eq_iff)

text \<open>The guard of a turn.\<close>

definition turn_scheduled :: "coordinator_state \<Rightarrow> uuid \<Rightarrow> bool" where
  "turn_scheduled s p \<longleftrightarrow> cs_status s = M_active \<and> cs_pending_revision s = None
     \<and> cs_current_participant s = Some p \<and> cs_turn_count s < mf_max_turns (cs_manifest s)"

definition acknowledge :: "uuid \<Rightarrow> contract_revision \<Rightarrow> contract_revision" where
  "acknowledge p r = r\<lparr>r_acknowledged_by_agent_ids := r_acknowledged_by_agent_ids r @ [p]\<rparr>"

lemma turn_effect_cases:
  assumes "apply_turn_completed s mid p v disposition msg revision = Inr t"
  obtains
    (reply) m other where "turn_scheduled s p" "v = cs_contract_version s" "msg = Some m"
      "reply_fits s mid p m" "other_participant s p = Inr other"
      "t = after_turn (s\<lparr>cs_turn_count := cs_turn_count s + 1, cs_current_participant := Some other,
        cs_ready_agent_ids := [], cs_verification_records := [], cs_messages := cs_messages s @ [m]\<rparr>)" "is_reply disposition"
  | (propose) r where "turn_scheduled s p" "v = cs_contract_version s" "revision = Some r"
      "proposal_fits s mid p r"
      "t = after_turn (s\<lparr>cs_turn_count := cs_turn_count s + 1, cs_pending_revision := Some r,
        cs_current_participant := None, cs_ready_agent_ids := [], cs_verification_records := []\<rparr>)"
      "is_proposal disposition"
  | (ready) other where "turn_scheduled s p" "v = cs_contract_version s"
      "\<not> same_string_set (cs_ready_agent_ids s @ [p]) (mission_participant_ids s)"
      "other_participant s p = Inr other"
      "t = after_turn (s\<lparr>cs_turn_count := cs_turn_count s + 1, cs_current_participant := Some other,
        cs_ready_agent_ids := cs_ready_agent_ids s @ [p]\<rparr>)" "is_ready disposition"
  | (verify) "turn_scheduled s p" "v = cs_contract_version s"
      "same_string_set (cs_ready_agent_ids s @ [p]) (mission_participant_ids s)"
      "t = s\<lparr>cs_turn_count := cs_turn_count s + 1, cs_status := M_verifying,
        cs_verification_round := cs_verification_round s + 1, cs_current_participant := None,
        cs_ready_agent_ids := cs_ready_agent_ids s @ [p], cs_verification_records := []\<rparr>" "is_ready disposition"
proof -
  let ?s = "s\<lparr>cs_turn_count := cs_turn_count s + 1\<rparr>"
  from assms obtain u where
    sched: "turn_scheduled s p" and v: "v = cs_contract_version s"
    and u: "apply_disposition ?s mid p disposition msg revision = Inr u" and t: "t = after_turn u"
    by (rule apply_turn_completed_Inr) (auto simp: turn_scheduled_def)
  then have active: "cs_status ?s = M_active" by (simp add: turn_scheduled_def)
  consider "is_reply disposition" "apply_reply ?s mid p disposition msg = Inr u"
    | "is_proposal disposition" "apply_contract_proposal ?s mid p disposition revision = Inr u"
    | "is_ready disposition" "apply_ready ?s p disposition = Inr u"
    using u by (auto simp: apply_disposition_def split: if_splits)
  then show thesis
  proof cases
    case 1
    then show thesis
      using apply_reply_Inr [of ?s mid p disposition msg u] sched v t by (auto intro: reply)
  next
    case 2
    then show thesis
      using apply_contract_proposal_Inr [of ?s mid p disposition revision u] sched v t by (auto intro: propose)
  next
    case 3
    show thesis
    proof (cases "same_string_set (cs_ready_agent_ids s @ [p]) (mission_participant_ids s)")
      case True
      with 3 active have "u = ?s\<lparr>cs_status := M_verifying,
          cs_verification_round := cs_verification_round s + 1, cs_current_participant := None,
          cs_ready_agent_ids := cs_ready_agent_ids s @ [p], cs_verification_records := []\<rparr>"
        using apply_ready_Inr [of ?s p disposition u] by auto
      with True 3(1) sched v t show thesis by (auto intro: verify simp: after_turn_def)
    next
      case False
      with 3 sched v t show thesis
        using apply_ready_Inr [of ?s p disposition u] by (auto intro: ready)
    qed
  qed
qed

lemma fresh_event_cases:
  assumes "reduce_fresh_event L s e = Inr t"
  obtains
    (accept) ids contract where "ev_body e = Participants_accepted ids contract"
      "cs_status s = M_awaiting_acceptance" "cs_applied_events s = []"
      "t = logged e (s\<lparr>cs_status := M_active,
        cs_current_participant := (case mission_participant_ids s of [] \<Rightarrow> None | p # _ \<Rightarrow> Some p)\<rparr>)"
  | (turn) p d v disposition msg revision u where
      "ev_body e = Turn_completed p d v disposition msg revision"
      "\<forall>a \<in> set (cs_applied_events s). \<not> completes_delivery d (ev_body a)"
      "apply_turn_completed s (mf_mission_id (cs_manifest s)) p v disposition msg revision = Inr u"
      "t = logged e u"
  | (ack) p d rid v a r where "ev_body e = Contract_acknowledged p d rid v a"
      "cs_pending_revision s = Some r" "cs_status s = M_active"
      "cs_current_participant s = None" "p \<in> set (mission_participant_ids s)"
      "p \<notin> set (r_acknowledged_by_agent_ids r)" "contract_revision_ok L (acknowledge p r)"
      "\<not> same_string_set (r_acknowledged_by_agent_ids r @ [p]) (mission_participant_ids s)"
      "t = logged e (s\<lparr>cs_pending_revision := Some (acknowledge p r)\<rparr>)"
  | (agree) p d rid v a r other where "ev_body e = Contract_acknowledged p d rid v a"
      "cs_pending_revision s = Some r" "cs_status s = M_active"
      "cs_current_participant s = None" "p \<in> set (mission_participant_ids s)"
      "contract_revision_ok L (acknowledge p r)"
      "same_string_set (r_acknowledged_by_agent_ids r @ [p]) (mission_participant_ids s)"
      "other_participant s (r_proposed_by_agent_id r) = Inr other"
      "t = logged e (s\<lparr>cs_contract_version := r_version r, cs_active_contract := r_artifact r,
        cs_pending_revision := None, cs_accepted_revisions := cs_accepted_revisions s @ [acknowledge p r],
        cs_current_participant := Some other, cs_ready_agent_ids := [], cs_verification_records := []\<rparr>)"
  | (check) p d v round evidence required u where
      "ev_body e = Verification_recorded p d v round evidence"
      "cs_status s = M_verifying" "cs_pending_revision s = None" "cs_current_participant s = None"
      "fresh_result s p required evidence"
      "conclude_verification s p required
        (cs_verification_records s @ [new_record s (ev_event_id e) p evidence]) = Inr u"
      "t = logged e u" "v = cs_contract_version s" "round = cs_verification_round s"
  | (terminate) k reason trigger where "ev_body e = Mission_terminal k reason trigger"
      "cs_status s = M_active \<or> cs_status s = M_verifying"
      "t = logged e (stopped (if k = Terminal_expired then M_expired else M_failed) s)"
proof -
  from assms obtain u where
    mid: "ev_mission_id e = mf_mission_id (cs_manifest s)" and u: "apply_event L s e = Inr u"
    and t: "t = logged e u"
    and no_dup: "\<And>p d v disposition msg revision. ev_body e = Turn_completed p d v disposition msg revision
      \<Longrightarrow> \<forall>a \<in> set (cs_applied_events s). \<not> completes_delivery d (ev_body a)"
    by (auto simp: reduce_fresh_event_Inr)
  show thesis
  proof (cases "ev_body e")
    case (Participants_accepted ids contract)
    with u t show thesis
      by (intro accept) (auto simp: apply_event_def apply_participants_accepted_Inr)
  next
    case (Turn_completed p d v disposition msg revision)
    with u t mid show thesis
      by (intro turn [OF Turn_completed no_dup [OF Turn_completed]]) (auto simp: apply_event_def)
  next
    case (Contract_acknowledged p d rid v a)
    with u have "apply_contract_acknowledged L s p rid v a = Inr u" by (simp add: apply_event_def)
    then show thesis
      by (rule apply_contract_acknowledged_Inr)
         (auto simp: t acknowledge_def [symmetric] split: if_splits
           intro: ack [OF Contract_acknowledged] agree [OF Contract_acknowledged])
  next
    case (Verification_recorded p d v round evidence)
    with u t show thesis
      by (auto simp: apply_event_def apply_verification_recorded_Inr intro: check [OF Verification_recorded])
  next
    case (Mission_terminal k reason trigger)
    with u t show thesis
      by (intro terminate) (auto simp: apply_event_def apply_mission_terminal_Inr)
  qed
qed

end
