(* ===== verification/Coordinator_Invariant.thy ===== *)
theory Coordinator_Invariant
  imports Coordinator_Steps
begin

text \<open>
  The invariant of the Mission coordinator, in six parts (set-up, contract versions, message chain,
  phase, verification records, event log), each kept by every accepted fresh event.
\<close>

section \<open>The parts\<close>

definition commands_of :: "coordinator_state \<Rightarrow> string \<Rightarrow> string list" where
  "commands_of s p = (case map_of (cs_required_verification_commands s) p of None \<Rightarrow> [] | Some cs \<Rightarrow> cs)"

text \<open>What the configuration fixes: two participants, each with distinct required commands, a first
  contract of an allowed type, at least one turn.\<close>

definition setup_inv :: "coordinator_state \<Rightarrow> bool" where
  "setup_inv s \<longleftrightarrow>
     (\<exists>p q. mission_participant_ids s = [p, q] \<and> p \<noteq> q
        \<and> map fst (cs_required_verification_commands s) = [p, q])
     \<and> (\<forall>(k, cmds) \<in> set (cs_required_verification_commands s). distinct cmds \<and> cmds \<noteq> [])
     \<and> 0 < mf_max_turns (cs_manifest s)
     \<and> a_type (mf_shared_contract (cs_manifest s)) \<in> set (mf_allowed_artifact_types (cs_manifest s))"

definition revision_open :: "coordinator_state \<Rightarrow> contract_revision \<Rightarrow> bool" where
  "revision_open s r \<longleftrightarrow>
     r_version r = cs_contract_version s + 1 \<and> a_version (r_artifact r) = r_version r
     \<and> a_type (r_artifact r) = a_type (cs_active_contract s)
     \<and> r_mission_id r = mf_mission_id (cs_manifest s)
     \<and> distinct (r_acknowledged_by_agent_ids r)
     \<and> set (r_acknowledged_by_agent_ids r) \<subset> set (mission_participant_ids s)
     \<and> r_proposed_by_agent_id r \<in> set (mission_participant_ids s)"

definition contract_inv :: "coordinator_state \<Rightarrow> bool" where
  "contract_inv s \<longleftrightarrow>
     cs_contract_version s = int (length (cs_accepted_revisions s)) + 1
     \<and> a_version (cs_active_contract s) = cs_contract_version s
     \<and> a_type (cs_active_contract s) = a_type (mf_shared_contract (cs_manifest s))
     \<and> (\<forall>i < length (cs_accepted_revisions s).
          r_version (cs_accepted_revisions s ! i) = int i + 2
          \<and> r_mission_id (cs_accepted_revisions s ! i) = mf_mission_id (cs_manifest s)
          \<and> same_string_set (r_acknowledged_by_agent_ids (cs_accepted_revisions s ! i))
              (mission_participant_ids s))
     \<and> (\<forall>r. cs_pending_revision s = Some r \<longrightarrow> revision_open s r)"

definition message_inv :: "coordinator_state \<Rightarrow> bool" where
  "message_inv s \<longleftrightarrow>
     (\<forall>i < length (cs_messages s).
        m_sequence_no (cs_messages s ! i) = int i + 1
        \<and> m_mission_id (cs_messages s ! i) = mf_mission_id (cs_manifest s)
        \<and> m_author_agent_id (cs_messages s ! i) \<in> set (mission_participant_ids s)
        \<and> m_causal_parent_message_id (cs_messages s ! i)
            = (if i = 0 then None else Some (m_message_id (cs_messages s ! (i - 1)))))
     \<and> distinct (map m_message_id (cs_messages s))
     \<and> distinct (map m_idempotency_key (cs_messages s))"

definition phase_inv :: "coordinator_state \<Rightarrow> bool" where
  "phase_inv s \<longleftrightarrow>
     0 \<le> cs_turn_count s \<and> cs_turn_count s \<le> mf_max_turns (cs_manifest s)
     \<and> 0 \<le> cs_verification_round s \<and> cs_verification_round s \<le> cs_turn_count s
     \<and> (\<forall>p. cs_current_participant s = Some p \<longrightarrow> p \<in> set (mission_participant_ids s))
     \<and> distinct (cs_ready_agent_ids s) \<and> set (cs_ready_agent_ids s) \<subseteq> set (mission_participant_ids s)
     \<and> (case cs_status s of
          M_awaiting_acceptance \<Rightarrow> cs_applied_events s = [] \<and> cs_turn_count s = 0
            \<and> cs_pending_revision s = None \<and> cs_current_participant s = None
            \<and> cs_ready_agent_ids s = [] \<and> cs_verification_records s = []
        | M_active \<Rightarrow> cs_turn_count s < mf_max_turns (cs_manifest s)
            \<and> (cs_pending_revision s = None \<longleftrightarrow> cs_current_participant s \<noteq> None)
            \<and> (cs_pending_revision s \<noteq> None \<longrightarrow> cs_ready_agent_ids s = [])
            \<and> (\<forall>p. cs_current_participant s = Some p \<longrightarrow> p \<notin> set (cs_ready_agent_ids s))
            \<and> cs_verification_records s = []
        | M_verifying \<Rightarrow> cs_pending_revision s = None \<and> cs_current_participant s = None
            \<and> set (cs_ready_agent_ids s) = set (mission_participant_ids s)
        | M_completed \<Rightarrow> cs_pending_revision s = None \<and> cs_current_participant s = None
            \<and> all_required_commands_passed s (cs_verification_records s) = Inr True
        | M_expired \<Rightarrow> cs_pending_revision s = None \<and> cs_current_participant s = None
            \<and> cs_ready_agent_ids s = [] \<and> cs_verification_records s = []
        | M_failed \<Rightarrow> cs_pending_revision s = None \<and> cs_current_participant s = None
            \<and> cs_ready_agent_ids s = [] \<and> cs_verification_records s = []
        | _ \<Rightarrow> False)"

definition records_of :: "string \<Rightarrow> verification_record list \<Rightarrow> verification_record list" where
  "records_of p records = filter (\<lambda>r. vr_participant_agent_id r = p) records"

definition record_key :: "verification_record \<Rightarrow> string \<times> string" where
  "record_key r = (vr_participant_agent_id r, e_command_id (vr_evidence r))"

definition records_inv :: "coordinator_state \<Rightarrow> bool" where
  "records_inv s \<longleftrightarrow>
     (\<forall>r \<in> set (cs_verification_records s).
        vr_contract_version r = cs_contract_version s
        \<and> vr_verification_round r = cs_verification_round s
        \<and> vr_participant_agent_id r \<in> set (mission_participant_ids s)
        \<and> e_command_id (vr_evidence r) \<in> set (commands_of s (vr_participant_agent_id r)))
     \<and> distinct (map record_key (cs_verification_records s))
     \<and> (cs_status s = M_verifying \<longrightarrow>
          all_required_commands_passed s (cs_verification_records s) = Inr False
          \<and> (\<forall>p \<in> set (mission_participant_ids s).
               all_participant_commands_recorded (commands_of s p)
                 (records_of p (cs_verification_records s))
               \<longrightarrow> (\<forall>r \<in> set (records_of p (cs_verification_records s)).
                      e_outcome (vr_evidence r) = Passed)))"

fun is_turn :: "event_body \<Rightarrow> bool" where
  "is_turn (Turn_completed p d v disposition msg revision) = True"
| "is_turn _ = False"

definition turn_events :: "coordinator_state \<Rightarrow> coordinator_event list" where
  "turn_events s = filter (\<lambda>e. is_turn (ev_body e)) (cs_applied_events s)"

definition log_inv :: "coordinator_state \<Rightarrow> bool" where
  "log_inv s \<longleftrightarrow>
     cs_sequence_no s = int (length (cs_applied_events s))
     \<and> (\<forall>i < length (cs_applied_events s).
          ev_mission_id (cs_applied_events s ! i) = mf_mission_id (cs_manifest s)
          \<and> ev_sequence_no (cs_applied_events s ! i) = int i + 1)
     \<and> distinct (map ev_event_id (cs_applied_events s))
     \<and> distinct (map ev_idempotency_key (cs_applied_events s))
     \<and> cs_turn_count s = int (length (turn_events s))
     \<and> distinct (map (\<lambda>e. body_delivery_id (ev_body e)) (turn_events s))"

section \<open>Frames\<close>

text \<open>No event changes the Mission context or the required commands.\<close>

lemma after_turn_frame [simp]:
  "cs_mission_context (after_turn s) = cs_mission_context s"
  "cs_required_verification_commands (after_turn s) = cs_required_verification_commands s"
  "cs_sequence_no (after_turn s) = cs_sequence_no s"
  "cs_applied_events (after_turn s) = cs_applied_events s"
  "cs_turn_count (after_turn s) = cs_turn_count s"
  "cs_contract_version (after_turn s) = cs_contract_version s"
  "cs_verification_round (after_turn s) = cs_verification_round s"
  "cs_active_contract (after_turn s) = cs_active_contract s"
  "cs_accepted_revisions (after_turn s) = cs_accepted_revisions s"
  "cs_messages (after_turn s) = cs_messages s"
  by (simp_all add: after_turn_def stopped_def)

lemma stopped_fields [simp]:
  "cs_mission_context (stopped k s) = cs_mission_context s"
  "cs_required_verification_commands (stopped k s) = cs_required_verification_commands s"
  "cs_sequence_no (stopped k s) = cs_sequence_no s"
  "cs_applied_events (stopped k s) = cs_applied_events s"
  "cs_turn_count (stopped k s) = cs_turn_count s"
  "cs_contract_version (stopped k s) = cs_contract_version s"
  "cs_verification_round (stopped k s) = cs_verification_round s"
  "cs_active_contract (stopped k s) = cs_active_contract s"
  "cs_accepted_revisions (stopped k s) = cs_accepted_revisions s"
  "cs_messages (stopped k s) = cs_messages s"
  "cs_status (stopped k s) = k" "cs_pending_revision (stopped k s) = None"
  "cs_current_participant (stopped k s) = None" "cs_ready_agent_ids (stopped k s) = []"
  "cs_verification_records (stopped k s) = []"
  by (simp_all add: stopped_def)

lemma logged_fields [simp]:
  "cs_mission_context (logged e s) = cs_mission_context s"
  "cs_required_verification_commands (logged e s) = cs_required_verification_commands s"
  "cs_sequence_no (logged e s) = ev_sequence_no e"
  "cs_applied_events (logged e s) = cs_applied_events s @ [e]"
  "cs_turn_count (logged e s) = cs_turn_count s"
  "cs_contract_version (logged e s) = cs_contract_version s"
  "cs_verification_round (logged e s) = cs_verification_round s"
  "cs_active_contract (logged e s) = cs_active_contract s"
  "cs_accepted_revisions (logged e s) = cs_accepted_revisions s"
  "cs_messages (logged e s) = cs_messages s"
  "cs_status (logged e s) = cs_status s" "cs_pending_revision (logged e s) = cs_pending_revision s"
  "cs_current_participant (logged e s) = cs_current_participant s"
  "cs_ready_agent_ids (logged e s) = cs_ready_agent_ids s"
  "cs_verification_records (logged e s) = cs_verification_records s"
  by (simp_all add: logged_def)

lemma turn_frame:
  assumes "apply_turn_completed s mid p v disposition msg revision = Inr t"
  shows "cs_mission_context t = cs_mission_context s
    \<and> cs_required_verification_commands t = cs_required_verification_commands s
    \<and> cs_sequence_no t = cs_sequence_no s \<and> cs_applied_events t = cs_applied_events s
    \<and> cs_turn_count t = cs_turn_count s + 1"
  using assms by (cases rule: turn_effect_cases) auto

lemma conclude_frame:
  assumes "conclude_verification s p required records = Inr t" and "cs_status s = M_verifying"
  shows "cs_mission_context t = cs_mission_context s
    \<and> cs_required_verification_commands t = cs_required_verification_commands s
    \<and> cs_sequence_no t = cs_sequence_no s \<and> cs_applied_events t = cs_applied_events s
    \<and> cs_turn_count t = cs_turn_count s \<and> cs_contract_version t = cs_contract_version s
    \<and> cs_active_contract t = cs_active_contract s \<and> cs_accepted_revisions t = cs_accepted_revisions s
    \<and> cs_messages t = cs_messages s \<and> cs_verification_round t = cs_verification_round s
    \<and> cs_pending_revision t = cs_pending_revision s"
  using assms by (cases rule: conclude_verification_cases) auto

lemma fresh_event_frame:
  assumes "reduce_fresh_event L s e = Inr t"
  shows "cs_mission_context t = cs_mission_context s
    \<and> cs_required_verification_commands t = cs_required_verification_commands s
    \<and> cs_applied_events t = cs_applied_events s @ [e] \<and> cs_sequence_no t = ev_sequence_no e
    \<and> cs_turn_count t = (if is_turn (ev_body e) then cs_turn_count s + 1 else cs_turn_count s)"
  using assms by (cases rule: fresh_event_cases) (auto dest: turn_frame conclude_frame)

lemma participant_ids_frame:
  "cs_mission_context t = cs_mission_context s \<Longrightarrow> mission_participant_ids t = mission_participant_ids s"
  by (simp add: mission_participant_ids_def)

section \<open>Set-up and log\<close>

lemma setup_inv_step: "reduce_fresh_event L s e = Inr t \<Longrightarrow> setup_inv s \<Longrightarrow> setup_inv t"
  using fresh_event_frame [of L s e t] by (simp add: setup_inv_def mission_participant_ids_def)

lemma log_inv_step:
  assumes "reduce_fresh_event L s e = Inr t" and "find_replay s e = Inr None" and "log_inv s"
  shows "log_inv t"
proof -
  note frame = fresh_event_frame [OF assms(1)]
  have no_dup: "body_delivery_id (ev_body e) \<noteq> body_delivery_id (ev_body a)"
    if "is_turn (ev_body e)" "a \<in> set (turn_events s)" for a
    using assms(1) that by (cases "ev_body e"; cases "ev_body a") (auto simp: reduce_fresh_event_Inr turn_events_def)
  from assms(1) have "ev_mission_id e = mf_mission_id (cs_manifest s)" "ev_sequence_no e = cs_sequence_no s + 1"
    by (auto simp: reduce_fresh_event_Inr)
  with frame assms(2,3) no_dup show ?thesis
    by (auto simp: log_inv_def find_replay_None nth_append less_Suc_eq turn_events_def image_iff)
qed

section \<open>Contract versions\<close>

lemma event_revision_ok:
  assumes "coordinator_event_ok L e" and "ev_body e = Turn_completed p d v disposition msg (Some r)"
  shows "contract_revision_ok L r"
  using assms by (simp add: coordinator_event_ok_def)

lemma event_message_ok:
  assumes "coordinator_event_ok L e" and "ev_body e = Turn_completed p d v disposition (Some m) revision"
  shows "message_ok L m"
  using assms by (simp add: coordinator_event_ok_def)

lemma scheduled_participant:
  assumes "turn_scheduled s p" and "phase_inv s"
  shows "p \<in> set (mission_participant_ids s)"
  using assms by (simp add: turn_scheduled_def phase_inv_def)

lemma after_turn_pending:
  "cs_pending_revision (after_turn s) = Some r \<Longrightarrow> cs_pending_revision s = Some r"
  by (auto simp: after_turn_def split: if_splits)

lemma contract_inv_frame:
  assumes "contract_inv s" and "cs_mission_context t = cs_mission_context s"
    and "cs_contract_version t = cs_contract_version s" and "cs_active_contract t = cs_active_contract s"
    and "cs_accepted_revisions t = cs_accepted_revisions s"
    and "\<And>r. cs_pending_revision t = Some r \<Longrightarrow> revision_open s r"
  shows "contract_inv t"
  using assms by (simp add: contract_inv_def revision_open_def mission_participant_ids_def)

lemma proposal_open:
  assumes "proposal_fits s (mf_mission_id (cs_manifest s)) p r" and "contract_revision_ok L r"
    and "p \<in> set (mission_participant_ids s)"
  shows "revision_open s r"
  using assms
  by (auto simp: proposal_fits_def revision_open_def contract_revision_ok_def contract_revision_issues_def)

lemma acknowledged_open:
  assumes "revision_open s r" and "setup_inv s" and "p \<in> set (mission_participant_ids s)"
    and "p \<notin> set (r_acknowledged_by_agent_ids r)"
    and "\<not> same_string_set (r_acknowledged_by_agent_ids r @ [p]) (mission_participant_ids s)"
  shows "revision_open s (acknowledge p r)"
  using assms by (auto simp: revision_open_def acknowledge_def same_string_set_iff setup_inv_def)

lemma contract_inv_step:
  assumes step: "reduce_fresh_event L s e = Inr t" and ok: "coordinator_event_ok L e"
    and inv: "setup_inv s" "phase_inv s" "contract_inv s"
  shows "contract_inv t"
  using step
proof (cases rule: fresh_event_cases)
  case (turn p d v disposition msg revision u)
  from turn(3) show ?thesis
  proof (cases rule: turn_effect_cases)
    case (propose r)
    then have "revision_open s r"
      using proposal_open event_revision_ok [OF ok] turn(1) scheduled_participant inv(2) by blast
    with propose turn(4) show ?thesis
      by (intro contract_inv_frame [OF inv(3)]) (auto dest: after_turn_pending)
  next
    case (reply m other)
    with turn(4) show ?thesis
      by (intro contract_inv_frame [OF inv(3)]) (auto simp: turn_scheduled_def dest: after_turn_pending)
  next
    case (ready other)
    with turn(4) show ?thesis
      by (intro contract_inv_frame [OF inv(3)]) (auto simp: turn_scheduled_def dest: after_turn_pending)
  next
    case verify
    with turn(4) show ?thesis
      by (intro contract_inv_frame [OF inv(3)]) (auto simp: turn_scheduled_def)
  qed
next
  case (ack p d rid v a r)
  then have "revision_open s (acknowledge p r)"
    using inv by (intro acknowledged_open) (auto simp: contract_inv_def)
  with ack show ?thesis by (intro contract_inv_frame [OF inv(3)]) auto
next
  case (agree p d rid v a r other)
  then have "revision_open s r" using inv by (auto simp: contract_inv_def)
  with agree inv show ?thesis
    by (auto simp: contract_inv_def revision_open_def nth_append less_Suc_eq acknowledge_def
        mission_participant_ids_def)
next
  case (check p d v round evidence required u)
  then show ?thesis using conclude_frame [of s p required _ u] inv(3)
    by (intro contract_inv_frame [OF inv(3)]) auto
next
  case (accept ids contract)
  then show ?thesis
    by (intro contract_inv_frame [OF inv(3)]) (use inv(3) in \<open>auto simp: contract_inv_def\<close>)
next
  case (terminate k reason trigger)
  then show ?thesis by (intro contract_inv_frame [OF inv(3)]) auto
qed

section \<open>The message chain\<close>

lemma message_inv_frame:
  assumes "message_inv s" and "cs_mission_context t = cs_mission_context s" and "cs_messages t = cs_messages s"
  shows "message_inv t"
  using assms by (simp add: message_inv_def mission_participant_ids_def)

lemma last_option_nth: "last_option xs = (if xs = [] then None else Some (xs ! (length xs - 1)))"
  by (simp add: last_option_def last_conv_nth)

lemma message_inv_reply:
  assumes "message_inv s" and "reply_fits s (mf_mission_id (cs_manifest s)) p m"
    and "p \<in> set (mission_participant_ids s)"
    and "cs_mission_context t = cs_mission_context s" and "cs_messages t = cs_messages s @ [m]"
  shows "message_inv t"
  using assms
  by (auto simp: message_inv_def reply_fits_def nth_append less_Suc_eq last_option_nth mission_participant_ids_def)

lemma message_inv_step:
  assumes step: "reduce_fresh_event L s e = Inr t" and inv: "phase_inv s" "message_inv s"
  shows "message_inv t"
  using step
proof (cases rule: fresh_event_cases)
  case (turn p d v disposition msg revision u)
  from turn(3) show ?thesis
  proof (cases rule: turn_effect_cases)
    case (reply m other)
    then show ?thesis
      using turn(4) by (intro message_inv_reply [OF inv(2)]) (auto dest: scheduled_participant [OF _ inv(1)])
  qed (use turn(4) in \<open>auto intro!: message_inv_frame [OF inv(2)]\<close>)
next
  case (check p d v round evidence required u)
  then show ?thesis using conclude_frame [of s p required _ u]
    by (intro message_inv_frame [OF inv(2)]) auto
qed (auto intro!: message_inv_frame [OF inv(2)])

section \<open>Phases\<close>

lemma phase_inv_stopped:
  assumes "phase_inv s" and "k = M_expired \<or> k = M_failed"
  shows "phase_inv (logged e (stopped k s))"
  using assms by (auto simp: phase_inv_def mission_participant_ids_def)

lemma phase_inv_after_turn:
  assumes "phase_inv s \<or> cs_turn_count s \<ge> mf_max_turns (cs_manifest s)
      \<and> phase_inv (stopped M_failed s) \<and> cs_status s = M_active"
  shows "phase_inv (after_turn s)"
  using assms by (auto simp: after_turn_def) (auto simp: phase_inv_def mission_participant_ids_def)

lemma same_ready:
  assumes "setup_inv s" and "same_string_set (cs_ready_agent_ids s @ [p]) (mission_participant_ids s)"
  shows "distinct (cs_ready_agent_ids s @ [p])" "set (cs_ready_agent_ids s @ [p]) = set (mission_participant_ids s)"
  using assms(2) by (auto simp: same_string_set_iff)

text \<open>Among two participants, the one that is not \<open>p\<close> is the only other.\<close>

lemma other_unique:
  assumes "setup_inv s" and "other_participant s p = Inr other" and "p \<in> set (mission_participant_ids s)"
  shows "other \<in> set (mission_participant_ids s)" "other \<noteq> p"
    "set (mission_participant_ids s) = {p, other}"
  using other_participant_Inr [OF assms(2)] assms(1,3) by (auto simp: setup_inv_def)

lemma phase_inv_turn:
  assumes turn: "apply_turn_completed s mid p v disposition msg revision = Inr t"
    and inv: "setup_inv s" "phase_inv s"
  shows "phase_inv (logged e t)"
proof -
  have p: "p \<in> set (mission_participant_ids s)" "p \<notin> set (cs_ready_agent_ids s)"
    "cs_status s = M_active" "cs_turn_count s < mf_max_turns (cs_manifest s)"
    "cs_pending_revision s = None"
    if "turn_scheduled s p"
    using that inv(2) by (auto simp: turn_scheduled_def phase_inv_def)
  from turn show ?thesis
  proof (cases rule: turn_effect_cases)
    case (reply m other)
    note o = other_unique [OF inv(1) reply(5) p(1) [OF reply(1)]]
    show ?thesis
      using p [OF reply(1)] o inv(2) unfolding reply(6)
      by (auto simp: after_turn_def phase_inv_def mission_participant_ids_def)
  next
    case (propose r)
    show ?thesis
      using p [OF propose(1)] inv(2) unfolding propose(5)
      by (auto simp: after_turn_def phase_inv_def mission_participant_ids_def)
  next
    case (ready other)
    note o = other_unique [OF inv(1) ready(4) p(1) [OF ready(1)]]
    have "other \<notin> set (cs_ready_agent_ids s)"
    proof
      assume "other \<in> set (cs_ready_agent_ids s)"
      then have "same_string_set (cs_ready_agent_ids s @ [p]) (mission_participant_ids s)"
        using o p [OF ready(1)] inv by (auto simp: same_string_set_iff phase_inv_def setup_inv_def)
      with ready(3) show False by simp
    qed
    then show ?thesis
      using p [OF ready(1)] o inv(2) unfolding ready(5)
      by (auto simp: after_turn_def phase_inv_def mission_participant_ids_def)
  next
    case verify
    show ?thesis
      using p [OF verify(1)] same_ready [OF inv(1) verify(3)] inv(2) unfolding verify(4)
      by (auto simp: phase_inv_def mission_participant_ids_def)
  qed
qed

lemma all_passed_frame:
  assumes "cs_required_verification_commands t = cs_required_verification_commands s"
    and "cs_contract_version t = cs_contract_version s"
    and "cs_verification_round t = cs_verification_round s"
    and "cs_mission_context t = cs_mission_context s"
  shows "all_required_commands_passed t records = all_required_commands_passed s records"
proof -
  have "all_required_commands_passed_for t records ps = all_required_commands_passed_for s records ps" for ps
    using assms by (induction ps) (simp_all split: option.split)
  then show ?thesis by (simp add: all_required_commands_passed_def mission_participant_ids_def assms(4))
qed

lemma phase_inv_conclude:
  assumes conc: "conclude_verification s p required records = Inr t" and st: "cs_status s = M_verifying"
    and inv: "setup_inv s" "phase_inv s" and p: "p \<in> set (mission_participant_ids s)"
  shows "phase_inv (logged e t)"
  using conc st
proof (cases rule: conclude_verification_cases)
  case pass
  then have "all_required_commands_passed (logged e t) records = Inr True"
    by (subst all_passed_frame [of _ s]) auto
  with pass st inv(2) show ?thesis
    by (auto simp: phase_inv_def mission_participant_ids_def)
qed (use st inv p in \<open>auto simp: phase_inv_def mission_participant_ids_def setup_inv_def\<close>)

lemma phase_inv_step:
  assumes step: "reduce_fresh_event L s e = Inr t" and inv: "setup_inv s" "phase_inv s"
  shows "phase_inv t"
  using step
proof (cases rule: fresh_event_cases)
  case (accept ids contract)
  with inv show ?thesis
    by (auto simp: phase_inv_def mission_participant_ids_def setup_inv_def split: list.splits)
next
  case (turn p d v disposition msg revision u)
  then show ?thesis using phase_inv_turn inv by blast
next
  case (ack p d rid v a r)
  with inv show ?thesis by (auto simp: phase_inv_def mission_participant_ids_def)
next
  case (agree p d rid v a r other)
  with inv other_participant_Inr [OF agree(8)] show ?thesis
    by (auto simp: phase_inv_def mission_participant_ids_def)
next
  case (check p d v round evidence required u)
  have "p \<in> set (mission_participant_ids s)"
    using check(5) inv(1) by (auto simp: fresh_result_def setup_inv_def dest!: map_of_SomeD)
  with check show ?thesis using phase_inv_conclude inv by blast
next
  case (terminate k reason trigger)
  with inv(2) show ?thesis using phase_inv_stopped by auto
qed

section \<open>Verification records\<close>

lemma commands_of_participant:
  assumes "setup_inv s" and "p \<in> set (mission_participant_ids s)"
  shows "map_of (cs_required_verification_commands s) p = Some (commands_of s p)"
    "distinct (commands_of s p)" "commands_of s p \<noteq> []"
proof -
  from assms have "p \<in> fst ` set (cs_required_verification_commands s)"
    by (force simp: setup_inv_def image_set [symmetric] simp del: set_map image_set)
  then obtain cs where cs: "map_of (cs_required_verification_commands s) p = Some cs"
    by (metis domD dom_map_of_conv_image_fst)
  then show "map_of (cs_required_verification_commands s) p = Some (commands_of s p)"
    by (simp add: commands_of_def)
  with cs have "(p, commands_of s p) \<in> set (cs_required_verification_commands s)"
    by (auto dest: map_of_SomeD)
  with assms(1) show "distinct (commands_of s p)" "commands_of s p \<noteq> []"
    by (auto simp: setup_inv_def)
qed

text \<open>The meaning of the completion check: every required command of every participant has a passing
  record of the current version and round.\<close>

definition passed_by :: "coordinator_state \<Rightarrow> verification_record list \<Rightarrow> string \<Rightarrow> bool" where
  "passed_by s records p \<longleftrightarrow>
     (\<forall>c \<in> set (commands_of s p). \<exists>r \<in> set records. vr_participant_agent_id r = p
        \<and> vr_contract_version r = cs_contract_version s
        \<and> vr_verification_round r = cs_verification_round s
        \<and> e_command_id (vr_evidence r) = c \<and> e_outcome (vr_evidence r) = Passed)"

lemma all_passed_iff:
  assumes "setup_inv s"
  shows "all_required_commands_passed s records
    = Inr (\<forall>p \<in> set (mission_participant_ids s). passed_by s records p)"
proof -
  have "all_required_commands_passed_for s records ps = Inr (\<forall>p \<in> set ps. passed_by s records p)"
    if "set ps \<subseteq> set (mission_participant_ids s)" for ps
    using that
    by (induction ps)
       (auto simp: commands_of_participant [OF assms] passed_by_def list_all_iff list_ex_iff)
  then show ?thesis by (simp add: all_required_commands_passed_def)
qed

lemma nothing_passed:
  assumes "setup_inv s"
  shows "all_required_commands_passed s [] = Inr False"
proof -
  obtain p q where "mission_participant_ids s = [p, q]" using assms by (auto simp: setup_inv_def)
  then have p: "p \<in> set (mission_participant_ids s)" by simp
  then have "\<not> passed_by s [] p"
    using commands_of_participant(3) [OF assms p] by (cases "commands_of s p") (auto simp: passed_by_def)
  with p show ?thesis using assms by (auto simp: all_passed_iff)
qed

lemma records_inv_empty: "setup_inv s \<Longrightarrow> cs_verification_records s = [] \<Longrightarrow> records_inv s"
  by (simp add: records_inv_def nothing_passed records_of_def)

text \<open>What a record adds to the set of records.\<close>

lemma fresh_participant:
  assumes "fresh_result s p required evidence" and "setup_inv s"
  shows "p \<in> set (mission_participant_ids s)" and "required = commands_of s p"
  using assms by (auto simp: fresh_result_def setup_inv_def commands_of_def dest!: map_of_SomeD)

lemma record_keys_extend:
  fixes event_id :: uuid
  assumes "fresh_result s p required evidence" and "setup_inv s" and "records_inv s"
  defines "records \<equiv> cs_verification_records s @ [new_record s event_id p evidence]"
  shows "distinct (map record_key records)"
    and "\<forall>r \<in> set records.
        vr_contract_version r = cs_contract_version s
        \<and> vr_verification_round r = cs_verification_round s
        \<and> vr_participant_agent_id r \<in> set (mission_participant_ids s)
        \<and> e_command_id (vr_evidence r) \<in> set (commands_of s (vr_participant_agent_id r))"
  using assms(1,3) fresh_participant [OF assms(1,2)]
  by (auto simp: fresh_result_def records_inv_def records_def record_key_def new_record_def)

lemma recorded_but_not_passed:
  assumes "setup_inv s" and "p \<in> set (mission_participant_ids s)"
    and "\<not> all_participant_commands_recorded (commands_of s p) (records_of p records)"
  shows "all_required_commands_passed s records = Inr False"
proof -
  have "\<not> passed_by s records p"
    using assms(3) by (auto simp: all_participant_commands_recorded_def passed_by_def list_all_iff
        list_ex_iff records_of_def)
  with assms show ?thesis by (auto simp: all_passed_iff)
qed

lemma records_inv_wait:
  assumes fresh: "fresh_result s p required evidence" and inv: "setup_inv s" "records_inv s"
    and st: "cs_status s = M_verifying"
    and records: "records = cs_verification_records s @ [new_record s event_id p evidence]"
    and wait: "\<not> all_participant_commands_recorded required (records_of p records)
      \<or> (\<forall>r \<in> set records. vr_participant_agent_id r = p \<longrightarrow> e_outcome (vr_evidence r) = Passed)
        \<and> all_required_commands_passed s records = Inr False"
  shows "all_required_commands_passed s records = Inr False
    \<and> (\<forall>p' \<in> set (mission_participant_ids s).
         all_participant_commands_recorded (commands_of s p') (records_of p' records)
         \<longrightarrow> (\<forall>r \<in> set (records_of p' records). e_outcome (vr_evidence r) = Passed))"
proof -
  note new = fresh_participant [OF fresh inv(1)]
  have "all_required_commands_passed s records = Inr False"
    using wait recorded_but_not_passed [OF inv(1) new(1)] new(2) by blast
  moreover have "e_outcome (vr_evidence r) = Passed"
    if "p' \<in> set (mission_participant_ids s)"
      "all_participant_commands_recorded (commands_of s p') (records_of p' records)"
      "r \<in> set (records_of p' records)" for p' r
  proof (cases "p' = p")
    case True
    with that wait new(2) show ?thesis by (auto simp: records_of_def)
  next
    case False
    then have "records_of p' records = records_of p' (cs_verification_records s)"
      by (simp add: records records_of_def new_record_def)
    with that inv(2) st show ?thesis by (simp add: records_inv_def)
  qed
  ultimately show ?thesis by blast
qed

lemma records_inv_step:
  assumes step: "reduce_fresh_event L s e = Inr t"
    and inv: "setup_inv s" "phase_inv s" "records_inv s"
  shows "records_inv t"
proof -
  have t: "setup_inv t" using setup_inv_step step inv(1) .
  have active: "cs_verification_records s = []" if "cs_status s = M_active"
    using that inv(2) by (simp add: phase_inv_def)
  note empty = records_inv_empty [OF t]
  from step show ?thesis
  proof (cases rule: fresh_event_cases)
    case (accept ids contract)
    with inv(2) show ?thesis by (intro empty) (simp add: phase_inv_def)
  next
    case (turn p d v disposition msg revision u)
    from turn(3) have "cs_verification_records u = []"
      using active by (cases rule: turn_effect_cases) (auto simp: turn_scheduled_def after_turn_def)
    with turn(4) show ?thesis by (intro empty) simp
  next
    case (ack p d rid v a r)
    with active show ?thesis by (intro empty) simp
  next
    case (agree p d rid v a r other)
    then show ?thesis by (intro empty) simp
  next
    case (terminate k reason trigger)
    then show ?thesis by (intro empty) simp
  next
    case (check p d v round evidence required u)
    note new = record_keys_extend [OF check(5) inv(1,3), where event_id = "ev_event_id e"]
    from check(6,2) show ?thesis
    proof (cases rule: conclude_verification_cases)
      case wait
      have "all_required_commands_passed s (cs_verification_records u) = Inr False
        \<and> (\<forall>p' \<in> set (mission_participant_ids s).
             all_participant_commands_recorded (commands_of s p') (records_of p' (cs_verification_records u))
             \<longrightarrow> (\<forall>r \<in> set (records_of p' (cs_verification_records u)). e_outcome (vr_evidence r) = Passed))"
        by (rule records_inv_wait [OF check(5) inv(1,3) check(2), where event_id = "ev_event_id e"])
           (use wait in \<open>simp_all add: records_of_def\<close>)
      moreover have "all_required_commands_passed t = all_required_commands_passed s"
        by (intro ext all_passed_frame) (simp_all add: check(7) wait(2))
      ultimately show ?thesis
        using new by (auto simp: records_inv_def check(7) wait(2) commands_of_def mission_participant_ids_def)
    next
      case pass
      then show ?thesis using new
        by (simp add: records_inv_def check(7) commands_of_def mission_participant_ids_def)
    next
      case retry
      with check(7) show ?thesis by (intro empty) simp
    next
      case give_up
      with check(7) show ?thesis by (intro empty) simp
    qed
  qed
qed

end
