(* ===== verification/Coordinator_Schemas.thy ===== *)
theory Coordinator_Schemas
  imports Coordinator
begin

text \<open>
  The remaining schemas of \<^verbatim>\<open>protocol/src/mission-coordinator.ts\<close>: the coordinator state as it is
  stored and sent, append inputs, Node delivery results, Mission acceptance, creation and assignment
  records, and the pages of Mission deliveries, each with the refinement of the source.
\<close>

section \<open>Event inputs\<close>

text \<open>An event without the fields the relay owns; \<open>mission_terminal\<close> cannot be appended.\<close>

record coordinator_append_input =
  ai_idempotency_key :: string
  ai_body :: event_body

fun appendable :: "event_body \<Rightarrow> bool" where
  "appendable (Mission_terminal status reason trigger) = False"
| "appendable _ = True"

definition append_input_ok :: "host_lib \<Rightarrow> coordinator_append_input \<Rightarrow> bool" where
  "append_input_ok L i \<longleftrightarrow> identifier_ok (ai_idempotency_key i) \<and> appendable (ai_body i)
     \<and> event_body_fields_ok L (ai_body i) \<and> event_body_issues (ai_body i) = []"

datatype node_delivery_result =
  Result_turn_completed turn_disposition
| Result_contract_acknowledged
| Result_verification_recorded "verification_evidence list"

definition node_disposition_ok :: "host_lib \<Rightarrow> turn_disposition \<Rightarrow> bool" where
  "node_disposition_ok L disposition \<longleftrightarrow> turn_disposition_ok L disposition
     \<and> (is_reply disposition \<or> is_proposal disposition \<or> is_ready disposition)"

fun node_delivery_result_ok :: "host_lib \<Rightarrow> node_delivery_result \<Rightarrow> bool" where
  "node_delivery_result_ok L (Result_turn_completed disposition) = node_disposition_ok L disposition"
| "node_delivery_result_ok L Result_contract_acknowledged = True"
| "node_delivery_result_ok L (Result_verification_recorded evidence) =
     (list_all (evidence_ok L) evidence \<and> 1 \<le> length evidence \<and> length evidence \<le> 16
      \<and> has_unique_values (map e_command_id evidence)
      \<and> has_unique_values (map e_verification_id evidence))"

section \<open>The coordinator state\<close>

definition verification_record_ok :: "host_lib \<Rightarrow> verification_record \<Rightarrow> bool" where
  "verification_record_ok L r \<longleftrightarrow> uuid_ok L (vr_event_id r) \<and> uuid_ok L (vr_participant_agent_id r)
     \<and> contract_version_ok (vr_contract_version r)
     \<and> 0 < vr_verification_round r \<and> vr_verification_round r \<le> max_int32
     \<and> evidence_ok L (vr_evidence r)"

definition coordinator_state_fields_ok :: "host_lib \<Rightarrow> coordinator_state \<Rightarrow> bool" where
  "coordinator_state_fields_ok L s \<longleftrightarrow>
     mission_context_ok L (cs_mission_context s)
     \<and> required_commands_ok (cs_required_verification_commands s)
     \<and> 0 \<le> cs_sequence_no s \<and> cs_sequence_no s \<le> max_int32
     \<and> 0 \<le> cs_turn_count s \<and> cs_turn_count s \<le> 200
     \<and> contract_version_ok (cs_contract_version s)
     \<and> 0 \<le> cs_verification_round s \<and> cs_verification_round s \<le> max_int32
     \<and> artifact_ref_ok L (cs_active_contract s)
     \<and> nullable (contract_revision_ok L) (cs_pending_revision s)
     \<and> list_all (contract_revision_ok L) (cs_accepted_revisions s)
     \<and> length (cs_accepted_revisions s) \<le> 200
     \<and> nullable (uuid_ok L) (cs_current_participant s)
     \<and> list_all (uuid_ok L) (cs_ready_agent_ids s) \<and> length (cs_ready_agent_ids s) \<le> 2
     \<and> list_all (verification_record_ok L) (cs_verification_records s)
     \<and> int (length (cs_verification_records s)) \<le> 3200
     \<and> list_all (message_ok L) (cs_messages s) \<and> length (cs_messages s) \<le> 200
     \<and> list_all (coordinator_event_ok L) (cs_applied_events s)
     \<and> int (length (cs_applied_events s)) \<le> 4096"

definition coordinator_state_issues :: "coordinator_state \<Rightarrow> issue list" where
  "coordinator_state_issues s =
     (let manifest = cs_manifest s; participant_ids = manifest_participant_ids manifest in
     add_issue (\<not> same_string_set participant_ids (map fst (cs_required_verification_commands s)))
       ''Coordinator state must retain verification commands for both participants''
       [Key ''required_verification_commands'']
   @ add_issue (a_version (cs_active_contract s) \<noteq> cs_contract_version s
         \<or> a_type (cs_active_contract s) \<notin> set (mf_allowed_artifact_types manifest))
       ''Active contract must match the coordinator contract version and artifact policy''
       [Key ''active_contract'']
   @ add_issue (case cs_current_participant s of None \<Rightarrow> False | Some p \<Rightarrow> p \<notin> set participant_ids)
       ''Current participant must belong to the Mission'' [Key ''current_participant_agent_id'']
   @ add_issue (\<not> has_unique_values (cs_ready_agent_ids s)
         \<or> list_ex (\<lambda>p. p \<notin> set participant_ids) (cs_ready_agent_ids s))
       ''Ready participants must be unique Mission participants'' [Key ''ready_agent_ids'']
   @ add_issue (int (length (cs_applied_events s)) \<noteq> cs_sequence_no s)
       ''Coordinator sequence must equal its applied event count'' [Key ''sequence_no'']
   @ indexed_issues (\<lambda>index event.
       add_issue (ev_mission_id event \<noteq> mf_mission_id manifest \<or> ev_sequence_no event \<noteq> int index + 1)
         ''Applied events must be contiguous and belong to the Mission''
         [Key ''applied_events'', Index index]) (cs_applied_events s)
   @ indexed_issues (\<lambda>index m.
       add_issue (m_mission_id m \<noteq> mf_mission_id manifest)
         ''Coordinator messages must belong to the Mission''
         [Key ''messages'', Index index, Key ''mission_id'']) (cs_messages s)
   @ indexed_issues (\<lambda>index r.
       add_issue (r_mission_id r \<noteq> mf_mission_id manifest)
         ''Contract revisions must belong to the Mission''
         [Key ''accepted_revisions'', Index index, Key ''mission_id''])
       (cs_accepted_revisions s @ (case cs_pending_revision s of None \<Rightarrow> [] | Some r \<Rightarrow> [r])))"

definition coordinator_state_ok :: "host_lib \<Rightarrow> coordinator_state \<Rightarrow> bool" where
  "coordinator_state_ok L s \<longleftrightarrow> coordinator_state_fields_ok L s \<and> coordinator_state_issues s = []"

section \<open>Participant acceptance\<close>

record local_policy_grant =
  pg_profile_name :: string
  pg_grant_sha256 :: string

definition local_policy_grant_ok :: "local_policy_grant \<Rightarrow> bool" where
  "local_policy_grant_ok g \<longleftrightarrow> alias_ok (pg_profile_name g) \<and> sha256_ok (pg_grant_sha256 g)"

record acceptance_input =
  pa_idempotency_key :: string
  pa_contract :: artifact_ref
  pa_local_policy_grant :: local_policy_grant

definition acceptance_input_ok :: "host_lib \<Rightarrow> acceptance_input \<Rightarrow> bool" where
  "acceptance_input_ok L i \<longleftrightarrow> identifier_ok (pa_idempotency_key i) \<and> artifact_ref_ok L (pa_contract i)
     \<and> local_policy_grant_ok (pa_local_policy_grant i)"

record acceptance_receipt =
  ar_mission_id :: uuid
  ar_participant_agent_id :: uuid
  ar_idempotency_key :: string
  ar_contract :: artifact_ref
  ar_local_policy_grant :: local_policy_grant
  ar_accepted_at :: timestamp

definition acceptance_receipt_ok :: "host_lib \<Rightarrow> acceptance_receipt \<Rightarrow> bool" where
  "acceptance_receipt_ok L r \<longleftrightarrow> uuid_ok L (ar_mission_id r) \<and> uuid_ok L (ar_participant_agent_id r)
     \<and> identifier_ok (ar_idempotency_key r) \<and> artifact_ref_ok L (ar_contract r)
     \<and> local_policy_grant_ok (ar_local_policy_grant r) \<and> iso_timestamp_ok L (ar_accepted_at r)"

record acceptance_result =
  ax_receipt :: acceptance_receipt
  ax_replayed :: bool

definition acceptance_result_ok :: "host_lib \<Rightarrow> acceptance_result \<Rightarrow> bool" where
  "acceptance_result_ok L r \<longleftrightarrow> acceptance_receipt_ok L (ax_receipt r)"

section \<open>Creation and assignment\<close>

record participant_binding =
  pb_agent_id :: uuid
  pb_node_id :: uuid
  pb_workspace_binding_id :: uuid

definition participant_binding_ok :: "host_lib \<Rightarrow> participant_binding \<Rightarrow> bool" where
  "participant_binding_ok L b \<longleftrightarrow>
     uuid_ok L (pb_agent_id b) \<and> uuid_ok L (pb_node_id b) \<and> uuid_ok L (pb_workspace_binding_id b)"

record creation_result =
  cr_mission_id :: uuid
  cr_state :: coordinator_state
  cr_participant_bindings :: "participant_binding list"
  cr_replayed :: bool

definition creation_result_issues :: "creation_result \<Rightarrow> issue list" where
  "creation_result_issues r =
     (let bindings = cr_participant_bindings r in
     add_issue (cr_mission_id r \<noteq> mf_mission_id (cs_manifest (cr_state r)))
       ''Creation result Mission ID must match coordinator state'' [Key ''mission_id'']
   @ add_issue (\<not> same_string_set (mission_participant_ids (cr_state r)) (map pb_agent_id bindings))
       ''Creation result must bind exactly the Mission participants'' [Key ''participant_bindings'']
   @ add_issue (\<not> has_unique_values (map pb_node_id bindings)
         \<or> \<not> has_unique_values (map pb_workspace_binding_id bindings))
       ''Mission participant Node and workspace bindings must be unique'' [Key ''participant_bindings''])"

definition creation_result_ok :: "host_lib \<Rightarrow> creation_result \<Rightarrow> bool" where
  "creation_result_ok L r \<longleftrightarrow> uuid_ok L (cr_mission_id r) \<and> coordinator_state_ok L (cr_state r)
     \<and> list_all (participant_binding_ok L) (cr_participant_bindings r)
     \<and> length (cr_participant_bindings r) = 2 \<and> creation_result_issues r = []"

datatype acceptance_status = Pending | Accepted

record mission_assignment =
  as_mission_id :: uuid
  as_coordinator_config :: coordinator_config
  as_coordinator_state :: coordinator_state
  as_participant_agent_id :: uuid
  as_workspace_binding_id :: uuid
  as_acceptance_status :: acceptance_status
  as_acceptance_receipt :: "acceptance_receipt option"

text \<open>\<open>isDeepStrictEqual\<close> on plain objects does not look at the order of the keys.\<close>

definition same_commands :: "required_commands \<Rightarrow> required_commands \<Rightarrow> bool" where
  "same_commands a b \<longleftrightarrow> length a = length b \<and> list_all (\<lambda>(k, v). map_of b k = Some v) a"

definition assignment_issues :: "mission_assignment \<Rightarrow> issue list" where
  "assignment_issues a =
     (let config = as_coordinator_config a; manifest = mc_manifest (cfg_mission_context config);
          s = as_coordinator_state a in
     add_issue (as_mission_id a \<noteq> mf_mission_id manifest
         \<or> as_mission_id a \<noteq> mf_mission_id (cs_manifest s))
       ''Assignment Mission ID must match its config and current state'' [Key ''mission_id'']
   @ add_issue (cfg_mission_context config \<noteq> cs_mission_context s
         \<or> \<not> same_commands (cfg_required_verification_commands config) (cs_required_verification_commands s))
       ''Coordinator state must retain the immutable Mission config'' [Key ''coordinator_state'']
   @ (case find (\<lambda>p. p_agent_id p = as_participant_agent_id a) (mf_participants manifest) of
        None \<Rightarrow> add_issue True ''Assignment participant must belong to the Mission''
                  [Key ''participant_agent_id'']
      | Some p \<Rightarrow>
          add_issue ((as_acceptance_status a = Accepted) \<noteq> (as_acceptance_receipt a \<noteq> None))
            ''Participant acceptance status and receipt must agree'' [Key ''acceptance_receipt'']
        @ add_issue (as_acceptance_status a = Pending \<and> cs_status s \<noteq> M_awaiting_acceptance)
            ''Pending participant acceptance requires an awaiting Mission'' [Key ''acceptance_status'']
        @ add_issue (case as_acceptance_receipt a of None \<Rightarrow> False
              | Some r \<Rightarrow> ar_mission_id r \<noteq> as_mission_id a
                  \<or> ar_participant_agent_id r \<noteq> as_participant_agent_id a
                  \<or> ar_contract r \<noteq> mf_shared_contract manifest
                  \<or> pg_profile_name (ar_local_policy_grant r) \<noteq> p_requested_local_policy_profile p)
            ''Acceptance receipt must bind the exact Mission participant contract and policy''
            [Key ''acceptance_receipt'']))"

definition assignment_ok :: "host_lib \<Rightarrow> mission_assignment \<Rightarrow> bool" where
  "assignment_ok L a \<longleftrightarrow> uuid_ok L (as_mission_id a) \<and> config_ok L (as_coordinator_config a)
     \<and> coordinator_state_ok L (as_coordinator_state a) \<and> uuid_ok L (as_participant_agent_id a)
     \<and> uuid_ok L (as_workspace_binding_id a)
     \<and> nullable (acceptance_receipt_ok L) (as_acceptance_receipt a) \<and> assignment_issues a = []"

record assignment_list_request =
  al_status :: "mission_status option"
  al_after_cursor :: "uuid option"
  al_limit :: int

definition assignment_list_request_ok :: "host_lib \<Rightarrow> assignment_list_request \<Rightarrow> bool" where
  "assignment_list_request_ok L r \<longleftrightarrow> nullable (uuid_ok L) (al_after_cursor r)
     \<and> 0 < al_limit r \<and> al_limit r \<le> 200"

record assignment_list =
  al_missions :: "mission_assignment list"
  al_next_cursor :: "uuid option"

definition assignment_list_issues :: "assignment_list \<Rightarrow> issue list" where
  "assignment_list_issues p =
     (case (al_next_cursor p, last_option (al_missions p)) of
        (Some c, None) \<Rightarrow> add_issue True ''An empty Mission page cannot have a next cursor''
                            [Key ''next_cursor'']
      | (Some c, Some m) \<Rightarrow> add_issue (c \<noteq> as_mission_id m)
                            ''Next cursor must match the final returned Mission'' [Key ''next_cursor'']
      | (None, _) \<Rightarrow> [])"

definition assignment_list_ok :: "host_lib \<Rightarrow> assignment_list \<Rightarrow> bool" where
  "assignment_list_ok L p \<longleftrightarrow> list_all (assignment_ok L) (al_missions p) \<and> length (al_missions p) \<le> 200
     \<and> nullable (uuid_ok L) (al_next_cursor p) \<and> assignment_list_issues p = []"

section \<open>Mission deliveries\<close>

record mission_delivery_item =
  mdi_delivery :: delivery
  mdi_event :: coordinator_event
  mdi_actor_agent_id :: uuid
  mdi_source_delivery_id :: "uuid option"
  mdi_causal_parent_event_id :: "uuid option"

definition actor_issues :: "mission_delivery_item \<Rightarrow> uuid \<Rightarrow> uuid \<Rightarrow> issue list" where
  "actor_issues i participant source =
     add_issue (mdi_actor_agent_id i \<noteq> participant)
       ''Stored event actor must match the participant result'' [Key ''actor_agent_id'']
   @ add_issue (mdi_source_delivery_id i \<noteq> Some source)
       ''Stored event must retain its source delivery'' [Key ''source_delivery_id'']"

definition mission_delivery_item_issues :: "mission_delivery_item \<Rightarrow> issue list" where
  "mission_delivery_item_issues i =
     add_issue (d_mission_event_id (mdi_delivery i) \<noteq> ev_event_id (mdi_event i))
       ''Delivery must reference the returned Mission event'' [Key ''delivery'', Key ''mission_event_id'']
   @ add_issue (d_mission_id (mdi_delivery i) \<noteq> ev_mission_id (mdi_event i))
       ''Delivery and event must belong to the same Mission'' [Key ''delivery'', Key ''mission_id'']
   @ (case ev_body (mdi_event i) of
        Participants_accepted ids contract \<Rightarrow>
          add_issue (mdi_source_delivery_id i \<noteq> None)
            ''Derived participant acceptance has no source delivery'' [Key ''source_delivery_id'']
      | Mission_terminal status reason trigger \<Rightarrow>
          add_issue True ''Terminal Mission events do not derive Node deliveries'' [Key ''event'', Key ''type'']
      | Turn_completed p d v disposition msg revision \<Rightarrow> actor_issues i p d
      | Contract_acknowledged p d r v artifact \<Rightarrow> actor_issues i p d
      | Verification_recorded p d v round evidence \<Rightarrow> actor_issues i p d)"

definition mission_delivery_item_ok :: "host_lib \<Rightarrow> mission_delivery_item \<Rightarrow> bool" where
  "mission_delivery_item_ok L i \<longleftrightarrow> delivery_ok L (mdi_delivery i) \<and> coordinator_event_ok L (mdi_event i)
     \<and> uuid_ok L (mdi_actor_agent_id i) \<and> nullable (uuid_ok L) (mdi_source_delivery_id i)
     \<and> nullable (uuid_ok L) (mdi_causal_parent_event_id i) \<and> mission_delivery_item_issues i = []"

definition stored_mission_delivery_item_ok :: "host_lib \<Rightarrow> mission_delivery_item \<Rightarrow> bool" where
  "stored_mission_delivery_item_ok L i \<longleftrightarrow>
     stored_delivery_ok L (mdi_delivery i) \<and> mission_delivery_item_ok L i"

definition compare_delivery_cursors :: "string \<Rightarrow> string \<Rightarrow> int" where
  "compare_delivery_cursors left right =
     (if length left \<noteq> length right then (if length left > length right then 1 else -1)
      else if left = right then 0 else if left > right then 1 else -1)"

record stored_mission_page =
  smp_items :: "mission_delivery_item list"
  smp_next_cursor :: "string option"

definition stored_mission_page_issues :: "stored_mission_page \<Rightarrow> issue list" where
  "stored_mission_page_issues p =
     adjacent_issues compare_delivery_cursors ''Delivery cursors must be strictly increasing''
       (\<lambda>i. [Key ''items'', Index i, Key ''delivery'', Key ''cursor'']) 1
       (map (\<lambda>i. d_cursor (mdi_delivery i)) (smp_items p))
   @ add_issue (length (remdups (map (\<lambda>i. d_node_id (mdi_delivery i)) (smp_items p))) > 1)
       ''A Mission delivery cursor page belongs to one Node'' [Key ''items'']
   @ add_issue (case last_option (smp_items p) of None \<Rightarrow> False
                | Some i \<Rightarrow> smp_next_cursor p \<noteq> Some (d_cursor (mdi_delivery i)))
       ''Next cursor must match the final returned delivery'' [Key ''next_cursor'']"

definition stored_mission_page_ok :: "host_lib \<Rightarrow> stored_mission_page \<Rightarrow> bool" where
  "stored_mission_page_ok L p \<longleftrightarrow> list_all (stored_mission_delivery_item_ok L) (smp_items p)
     \<and> length (smp_items p) \<le> 200 \<and> nullable delivery_cursor_ok (smp_next_cursor p)
     \<and> stored_mission_page_issues p = []"

definition recovery_request_ok :: "int \<Rightarrow> bool" where
  "recovery_request_ok limit \<longleftrightarrow> 0 < limit \<and> limit \<le> 200"

record recoverable_page =
  rp_items :: "mission_delivery_item list"
  rp_as_of :: timestamp

definition resumable_lease :: "delivery \<Rightarrow> bool" where
  "resumable_lease d \<longleftrightarrow> (d_status d = D_leased \<or> d_status d = D_executing)
     \<and> d_lease d \<noteq> None \<and> d_logical_settlement d = None"

definition due_retry :: "host_lib \<Rightarrow> timestamp \<Rightarrow> delivery \<Rightarrow> bool" where
  "due_retry L as_of d \<longleftrightarrow> d_status d = D_stored \<and> d_attempt_count d > 0
     \<and> d_logical_settlement d = None
     \<and> num_le (date_parse L (d_available_at d)) (date_parse L as_of)"

definition recoverable_page_issues :: "host_lib \<Rightarrow> recoverable_page \<Rightarrow> issue list" where
  "recoverable_page_issues L p =
     adjacent_issues compare_delivery_cursors ''Recoverable delivery cursors must be strictly increasing''
       (\<lambda>i. [Key ''items'', Index i, Key ''delivery'', Key ''cursor'']) 1
       (map (\<lambda>i. d_cursor (mdi_delivery i)) (rp_items p))
   @ add_issue (length (remdups (map (\<lambda>i. d_node_id (mdi_delivery i)) (rp_items p))) > 1)
       ''A recoverable delivery page belongs to one Node'' [Key ''items'']
   @ indexed_issues (\<lambda>index i.
       add_issue (\<not> resumable_lease (mdi_delivery i) \<and> \<not> due_retry L (rp_as_of p) (mdi_delivery i))
         ''Recovery pages contain only resumable leases or due stored retries''
         [Key ''items'', Index index, Key ''delivery'', Key ''status'']) (rp_items p)"

definition recoverable_page_ok :: "host_lib \<Rightarrow> recoverable_page \<Rightarrow> bool" where
  "recoverable_page_ok L p \<longleftrightarrow> list_all (mission_delivery_item_ok L) (rp_items p)
     \<and> length (rp_items p) \<le> 200 \<and> iso_timestamp_ok L (rp_as_of p) \<and> recoverable_page_issues L p = []"

end
