(* ===== verification/Coordinator_Bounds.thy ===== *)
theory Coordinator_Bounds
  imports Coordinator_Invariant Coordinator_Schemas
begin

text \<open>
  How much a Mission can grow: every turn pays for the messages, revisions and verification rounds it
  brings about, and the events are bounded by a potential that each accepted event lowers.
\<close>

section \<open>What turns pay for\<close>

definition counts_inv :: "coordinator_state \<Rightarrow> bool" where
  "counts_inv s \<longleftrightarrow>
     int (length (cs_messages s)) + int (length (cs_accepted_revisions s))
       + (if cs_pending_revision s = None then 0 else 1) + cs_verification_round s \<le> cs_turn_count s"

lemma counts_inv_step:
  assumes step: "reduce_fresh_event L s e = Inr t" and inv: "phase_inv s" "counts_inv s"
  shows "counts_inv t"
  using step
proof (cases rule: fresh_event_cases)
  case (accept ids contract)
  with inv show ?thesis by (auto simp: counts_inv_def)
next
  case (turn p d v disposition msg revision u)
  from turn(3) show ?thesis
    using inv(2) unfolding turn(4)
    by (cases rule: turn_effect_cases)
       (auto simp: counts_inv_def turn_scheduled_def after_turn_def)
next
  case (ack p d rid v a r)
  with inv(2) show ?thesis by (auto simp: counts_inv_def)
next
  case (agree p d rid v a r other)
  with inv(2) show ?thesis by (auto simp: counts_inv_def)
next
  case (check p d v round evidence required u)
  with inv(2) conclude_frame [OF check(6,2)] show ?thesis by (auto simp: counts_inv_def)
next
  case (terminate k reason trigger)
  with inv(2) show ?thesis by (auto simp: counts_inv_def split: if_splits)
qed

section \<open>Required commands and records\<close>

definition command_total :: "coordinator_state \<Rightarrow> nat" where
  "command_total s = sum_list (map (\<lambda>p. length (commands_of s p)) (mission_participant_ids s))"

lemma records_bound:
  assumes "setup_inv s" and "distinct (map record_key records)"
    and "\<forall>r \<in> set records. vr_participant_agent_id r \<in> set (mission_participant_ids s)
      \<and> e_command_id (vr_evidence r) \<in> set (commands_of s (vr_participant_agent_id r))"
  shows "length records \<le> command_total s"
proof -
  let ?pairs = "concat (map (\<lambda>p. map (Pair p) (commands_of s p)) (mission_participant_ids s))"
  have sub: "set (map record_key records) \<subseteq> set ?pairs"
    using assms(3) by (force simp: record_key_def)
  have "length records = card (set (map record_key records))"
    using distinct_card [OF assms(2)] by simp
  also have "\<dots> \<le> card (set ?pairs)" by (rule card_mono [OF _ sub]) simp
  also have "\<dots> \<le> length ?pairs" by (rule card_length)
  also have "\<dots> = command_total s" by (simp add: command_total_def length_concat comp_def)
  finally show ?thesis .
qed

lemma command_total_bound:
  assumes "setup_inv s" and "required_commands_ok (cs_required_verification_commands s)"
  shows "command_total s \<le> 32"
proof -
  obtain p q where pq: "mission_participant_ids s = [p, q]" using assms(1) by (auto simp: setup_inv_def)
  have "length (commands_of s x) \<le> 16" if "x \<in> set (mission_participant_ids s)" for x
    using commands_of_participant(1) [OF assms(1) that] assms(2)
    by (force dest: map_of_SomeD simp: required_commands_ok_def list_all_iff)
  from this [of p] this [of q] show ?thesis by (simp add: pq command_total_def)
qed

lemma command_total_frame:
  assumes "cs_mission_context t = cs_mission_context s"
    and "cs_required_verification_commands t = cs_required_verification_commands s"
  shows "command_total t = command_total s"
  using assms by (simp add: command_total_def mission_participant_ids_def commands_of_def)

section \<open>The event budget\<close>

text \<open>Twice the events a Mission can still take: a turn pays \<open>turn_price\<close>, of which an
  acknowledgement round uses six and a verification round of two turns what its records need.\<close>

definition turn_price :: "coordinator_state \<Rightarrow> int" where
  "turn_price s = max 6 (int (command_total s) + 2)"

definition event_potential :: "coordinator_state \<Rightarrow> int" where
  "event_potential s =
     (let paid = (mf_max_turns (cs_manifest s) - cs_turn_count s) * turn_price s; c = int (command_total s) in
      case cs_status s of
        M_awaiting_acceptance \<Rightarrow> paid + 4
      | M_active \<Rightarrow> paid + int (length (cs_ready_agent_ids s)) * c
          + (case cs_pending_revision s of None \<Rightarrow> 0
             | Some r \<Rightarrow> 2 * (2 - int (length (r_acknowledged_by_agent_ids r)))) + 2
      | M_verifying \<Rightarrow> paid + 2 * (c - int (length (cs_verification_records s))) + 2
      | _ \<Rightarrow> 0)"

definition budget_inv :: "coordinator_state \<Rightarrow> bool" where
  "budget_inv s \<longleftrightarrow> 2 * int (length (cs_applied_events s)) + event_potential s
     \<le> mf_max_turns (cs_manifest s) * turn_price s + 4"

lemma turn_price_frame:
  assumes "cs_mission_context t = cs_mission_context s"
    and "cs_required_verification_commands t = cs_required_verification_commands s"
  shows "turn_price t = turn_price s"
  using command_total_frame [OF assms] by (simp add: turn_price_def)

lemma turn_price_bounds: "6 \<le> turn_price s" "int (command_total s) + 2 \<le> turn_price s"
  by (simp_all add: turn_price_def)

lemma one_turn_paid: "(m - (n + 1)) * k = (m - n) * k - (k :: int)"
  by (simp add: algebra_simps)

text \<open>While it is not over, a Mission can take at least one more event.\<close>

lemma paid_nonneg:
  "phase_inv s \<Longrightarrow> 0 \<le> (mf_max_turns (cs_manifest s) - cs_turn_count s) * turn_price s"
  using turn_price_bounds(1) [of s] by (simp add: phase_inv_def)

lemma ready_single:
  assumes "setup_inv s" and "phase_inv s" and "cs_status s = M_active" and "cs_current_participant s = Some p"
  shows "length (cs_ready_agent_ids s) \<le> 1"
proof -
  obtain a b where ab: "mission_participant_ids s = [a, b]" using assms(1) by (auto simp: setup_inv_def)
  have "distinct (p # cs_ready_agent_ids s)" "set (p # cs_ready_agent_ids s) \<subseteq> {a, b}"
    using assms(2-4) ab by (auto simp: phase_inv_def)
  then have "length (p # cs_ready_agent_ids s) \<le> card {a, b}"
    by (metis card_mono distinct_card finite.emptyI finite_insert)
  also have "\<dots> \<le> 2" by (simp add: card_insert_if)
  finally show ?thesis by simp
qed

lemma same_set_length:
  assumes "setup_inv s" and "same_string_set xs (mission_participant_ids s)"
  shows "length xs = 2"
  using assms by (auto simp: setup_inv_def same_string_set_def)

lemma open_acks:
  assumes "setup_inv s" and "revision_open s r"
  shows "length (r_acknowledged_by_agent_ids r) \<le> 1"
proof -
  obtain a b where ab: "mission_participant_ids s = [a, b]" "a \<noteq> b" using assms(1) by (auto simp: setup_inv_def)
  have "card (set (r_acknowledged_by_agent_ids r)) < card (set (mission_participant_ids s))"
    using assms(2) by (intro psubset_card_mono) (auto simp: revision_open_def)
  moreover have "card (set (r_acknowledged_by_agent_ids r)) = length (r_acknowledged_by_agent_ids r)"
    using assms(2) by (simp add: revision_open_def distinct_card)
  ultimately show ?thesis using ab by simp
qed

lemma potential_logged [simp]: "event_potential (logged e s) = event_potential s"
proof -
  have "command_total (logged e s) = command_total s" "turn_price (logged e s) = turn_price s"
    by (rule command_total_frame turn_price_frame; simp)+
  then show ?thesis by (simp add: event_potential_def Let_def split: mission_status.split)
qed

lemma potential_stopped: "k = M_expired \<or> k = M_failed \<Longrightarrow> event_potential (stopped k s) = 0"
  by (auto simp: event_potential_def)

lemma potential_active:
  assumes "setup_inv s" and "phase_inv s" and "contract_inv s" and "cs_status s = M_active \<or> cs_status s = M_verifying"
    and "length (cs_verification_records s) \<le> command_total s"
  shows "2 \<le> event_potential s"
proof -
  have "0 \<le> int (length (cs_ready_agent_ids s)) * int (command_total s)" by simp
  moreover have "0 \<le> (case cs_pending_revision s of None \<Rightarrow> 0
      | Some r \<Rightarrow> 2 * (2 - int (length (r_acknowledged_by_agent_ids r))))"
    using assms(3) open_acks [OF assms(1)] by (force simp: contract_inv_def split: option.split)
  ultimately show ?thesis
    using assms(4,5) paid_nonneg [OF assms(2)] by (auto simp: event_potential_def Let_def)
qed

lemma potential_turn:
  assumes turn: "apply_turn_completed s mid p v disposition msg revision = Inr t"
    and inv: "setup_inv s" "phase_inv s" "contract_inv s"
  shows "event_potential t + 2 \<le> event_potential s"
proof -
  let ?m = "mf_max_turns (cs_manifest s)" and ?c = "int (command_total s)" and ?k = "turn_price s"
  let ?paid = "(?m - cs_turn_count s) * ?k"
  let ?n = "length (cs_ready_agent_ids s)"
  have frame: "cs_mission_context t = cs_mission_context s"
    "cs_required_verification_commands t = cs_required_verification_commands s"
    "cs_turn_count t = cs_turn_count s + 1"
    using turn_frame [OF turn] by auto
  have eqs: "command_total t = command_total s" "turn_price t = turn_price s"
    by (rule command_total_frame turn_price_frame; simp add: frame)+
  have one: "(?m - cs_turn_count t) * ?k = ?paid - ?k" unfolding frame(3) by (rule one_turn_paid)
  have sched: "turn_scheduled s p" using turn by (cases rule: turn_effect_cases) auto
  then have st: "cs_status s = M_active" "cs_pending_revision s = None" "cs_current_participant s = Some p"
    by (auto simp: turn_scheduled_def)
  define held where "held = int ?n * ?c"
  have before: "event_potential s = ?paid + held + 2" using st by (simp add: event_potential_def held_def)
  have n: "?n \<le> 1" using ready_single inv st by blast
  then have nc: "held \<le> ?c" "0 \<le> held" by (auto simp: held_def mult_left_le_one_le)
  have paid: "?k \<le> ?paid"
    using sched turn_price_bounds(1) [of s] by (simp add: turn_scheduled_def)
  note price = turn_price_bounds [of s]
  show ?thesis
  proof (cases "cs_status t = M_failed")
    case True
    then show ?thesis using before nc paid price by (simp add: event_potential_def)
  next
    case False
    have pot: "event_potential t = ?paid - ?k + int (length (cs_ready_agent_ids t)) * ?c
        + (case cs_pending_revision t of None \<Rightarrow> 0
           | Some r \<Rightarrow> 2 * (2 - int (length (r_acknowledged_by_agent_ids r)))) + 2"
      if "cs_status t = M_active"
      using that by (simp add: event_potential_def eqs frame(1) one)
    from turn show ?thesis
    proof (cases rule: turn_effect_cases)
      case (reply m other)
      with False st have "cs_status t = M_active" "cs_ready_agent_ids t = []" "cs_pending_revision t = None"
        by (auto simp: after_turn_def split: if_splits)
      with pot before nc price show ?thesis by simp
    next
      case (propose r)
      with False st have "cs_status t = M_active" "cs_ready_agent_ids t = []" "cs_pending_revision t = Some r"
        "r_acknowledged_by_agent_ids r = []"
        by (auto simp: after_turn_def proposal_fits_def split: if_splits)
      with pot before nc price show ?thesis by simp
    next
      case (ready other)
      with False st have t: "cs_status t = M_active" "cs_pending_revision t = None"
        "cs_ready_agent_ids t = cs_ready_agent_ids s @ [p]"
        by (auto simp: after_turn_def split: if_splits)
      then have "int (length (cs_ready_agent_ids t)) * ?c = held + ?c" by (simp add: held_def algebra_simps)
      with pot t before price show ?thesis by simp
    next
      case verify
      have "?n = 1" using same_set_length [OF inv(1) verify(3)] by simp
      then have "held = ?c" by (simp add: held_def)
      moreover have "cs_status t = M_verifying" "cs_verification_records t = []" by (simp_all add: verify(4))
      ultimately show ?thesis
        using before price by (simp add: event_potential_def eqs frame(1) one)
    qed
  qed
qed

lemma potential_check:
  assumes check: "cs_status s = M_verifying" "fresh_result s p required evidence"
      "conclude_verification s p required (cs_verification_records s @ [new_record s eid p evidence]) = Inr t"
    and inv: "setup_inv s" "phase_inv s" "records_inv s"
  shows "event_potential t + 2 \<le> event_potential s"
proof -
  have "length (cs_verification_records s @ [new_record s eid p evidence]) \<le> command_total s"
    using record_keys_extend [OF check(2) inv(1,3)] by (intro records_bound [OF inv(1)]) auto
  then have room: "int (length (cs_verification_records s)) + 1 \<le> int (command_total s)" by simp
  have eqs: "command_total t = command_total s" "turn_price t = turn_price s"
    using conclude_frame [OF check(3,1)] by (auto intro!: command_total_frame turn_price_frame)
  note paid = paid_nonneg [OF inv(2)]
  have before: "event_potential s = (mf_max_turns (cs_manifest s) - cs_turn_count s) * turn_price s
      + 2 * (int (command_total s) - int (length (cs_verification_records s))) + 2"
    using check(1) by (simp add: event_potential_def)
  from check(3,1) show ?thesis
  proof (cases rule: conclude_verification_cases)
    case wait
    with check(1) have "event_potential t = event_potential s - 2"
      by (simp add: before event_potential_def eqs [unfolded wait(2)])
    then show ?thesis by simp
  next
    case retry
    then have "event_potential t = (mf_max_turns (cs_manifest s) - cs_turn_count s) * turn_price s
        + (case cs_pending_revision s of None \<Rightarrow> 0
           | Some r \<Rightarrow> 2 * (2 - int (length (r_acknowledged_by_agent_ids r)))) + 2"
      by (simp add: event_potential_def eqs [unfolded retry(2)])
    moreover have "cs_pending_revision s = None" using inv(2) check(1) by (simp add: phase_inv_def)
    ultimately show ?thesis using before room by simp
  next
    case give_up
    then have "event_potential t = 0" by (simp add: event_potential_def)
    then show ?thesis using before room paid by simp
  next
    case pass
    then have "event_potential t = 0" by (simp add: event_potential_def)
    then show ?thesis using before room paid by simp
  qed
qed

lemma potential_update:
  assumes "cs_mission_context t = cs_mission_context s"
    and "cs_required_verification_commands t = cs_required_verification_commands s"
    and "cs_turn_count t = cs_turn_count s" and "cs_status t = M_active"
  shows "event_potential t = (mf_max_turns (cs_manifest s) - cs_turn_count s) * turn_price s
    + int (length (cs_ready_agent_ids t)) * int (command_total s)
    + (case cs_pending_revision t of None \<Rightarrow> 0
       | Some r \<Rightarrow> 2 * (2 - int (length (r_acknowledged_by_agent_ids r)))) + 2"
  using assms by (simp add: event_potential_def command_total_frame [OF assms(1,2)] turn_price_frame [OF assms(1,2)])

lemma potential_step:
  assumes step: "reduce_fresh_event L s e = Inr t"
    and inv: "setup_inv s" "phase_inv s" "contract_inv s" "records_inv s"
  shows "event_potential t + 2 \<le> event_potential s"
proof -
  note frame = fresh_event_frame [OF step]
  note update = potential_update [OF conjunct1 [OF frame] conjunct1 [OF conjunct2 [OF frame]]]
  have records: "length (cs_verification_records s) \<le> command_total s"
    using inv(1,4) by (intro records_bound) (auto simp: records_inv_def)
  have ready: "cs_ready_agent_ids s = []" if "cs_status s = M_active" "cs_pending_revision s = Some r" for r
    using that inv(2) by (simp add: phase_inv_def)
  from step show ?thesis
  proof (cases rule: fresh_event_cases)
    case (accept ids contract)
    with inv(2) have "cs_ready_agent_ids s = []" "cs_pending_revision s = None" by (auto simp: phase_inv_def)
    with accept show ?thesis using update frame by (simp add: event_potential_def [of s])
  next
    case (turn p d v disposition msg revision u)
    then show ?thesis using potential_turn inv by simp
  next
    case (ack p d rid v a r)
    then show ?thesis
      using update frame ready [OF ack(3,2)]
      by (simp add: event_potential_def [of s] acknowledge_def)
  next
    case (agree p d rid v a r other)
    then show ?thesis
      using update frame ready [OF agree(3,2)] same_set_length [OF inv(1) agree(7)]
      by (simp add: event_potential_def [of s])
  next
    case (check p d v round evidence required u)
    then show ?thesis using potential_check inv by simp
  next
    case (terminate k reason trigger)
    then show ?thesis
      using potential_active [OF inv(1-3) _ records] by (simp add: potential_stopped)
  qed
qed

lemma budget_inv_step:
  assumes step: "reduce_fresh_event L s e = Inr t"
    and inv: "setup_inv s" "phase_inv s" "contract_inv s" "records_inv s" "budget_inv s"
  shows "budget_inv t"
  using fresh_event_frame [OF step] potential_step [OF step inv(1-4)] inv(5) turn_price_frame [of t s]
  by (simp add: budget_inv_def)

section \<open>Validity of the stored data\<close>

definition data_inv :: "host_lib \<Rightarrow> coordinator_state \<Rightarrow> bool" where
  "data_inv L s \<longleftrightarrow>
     mission_context_ok L (cs_mission_context s)
     \<and> required_commands_ok (cs_required_verification_commands s)
     \<and> artifact_ref_ok L (cs_active_contract s)
     \<and> nullable (contract_revision_ok L) (cs_pending_revision s)
     \<and> list_all (contract_revision_ok L) (cs_accepted_revisions s)
     \<and> list_all (verification_record_ok L) (cs_verification_records s)
     \<and> list_all (message_ok L) (cs_messages s)
     \<and> list_all (coordinator_event_ok L) (cs_applied_events s)"

lemma data_inv_turn:
  assumes turn: "apply_turn_completed s mid p v disposition msg revision = Inr t"
    and inv: "data_inv L s" and ok: "nullable (message_ok L) msg" "nullable (contract_revision_ok L) revision"
  shows "data_inv L t"
  using turn
proof (cases rule: turn_effect_cases)
  case (reply m other)
  with inv ok show ?thesis by (auto simp: data_inv_def after_turn_def)
next
  case (propose r)
  with inv ok show ?thesis by (auto simp: data_inv_def after_turn_def)
next
  case (ready other)
  with inv show ?thesis by (auto simp: data_inv_def after_turn_def)
next
  case verify
  with inv show ?thesis by (auto simp: data_inv_def)
qed

lemma data_inv_logged: "data_inv L s \<Longrightarrow> coordinator_event_ok L e \<Longrightarrow> data_inv L (logged e s)"
  by (simp add: data_inv_def)

lemma data_inv_step:
  assumes step: "reduce_fresh_event L s e = Inr t" and ok: "coordinator_event_ok L e"
    and phase: "phase_inv s" and inv: "data_inv L s"
  shows "data_inv L t"
  using step
proof (cases rule: fresh_event_cases)
  case (accept ids contract)
  with inv ok show ?thesis by (simp add: data_inv_def)
next
  case (turn p d v disposition msg revision u)
  then show ?thesis
    using ok data_inv_turn [OF turn(3) inv] by (auto simp: coordinator_event_ok_def intro!: data_inv_logged [OF _ ok])
next
  case (ack p d rid v a r)
  with inv ok show ?thesis by (simp add: data_inv_def)
next
  case (agree p d rid v a r other)
  with inv ok show ?thesis by (simp add: data_inv_def contract_revision_ok_def contract_revision_fields_ok_def)
next
  case (check p d v round evidence required u)
  have "cs_verification_round s \<le> 200"
    using phase inv
    by (auto simp: phase_inv_def data_inv_def mission_context_ok_def manifest_ok_def manifest_fields_ok_def)
  then have "verification_record_ok L (new_record s (ev_event_id e) p evidence)"
    using ok check(1,8,9)
    by (auto simp: verification_record_ok_def new_record_def coordinator_event_ok_def event_envelope_ok_def
        event_envelope.truncate_def)
  then show ?thesis
    using inv ok check(6,2) unfolding check(7)
    by (auto elim!: conclude_verification_cases simp: data_inv_def)
next
  case (terminate k reason trigger)
  with inv ok show ?thesis by (simp add: data_inv_def)
qed

end
