(* ===== verification/Coordinator_Samples.thy ===== *)
theory Coordinator_Samples
  imports Coordinator_Schemas
begin

text \<open>
  A Mission from its acceptance to its completion, run through the coordinator: two participants, one
  required command each, a message, a contract revision acknowledged by both, and a verification round.
\<close>

definition agent_a :: uuid where "agent_a = uid ''a1''"
definition agent_b :: uuid where "agent_b = uid ''b1''"
definition sample_mission_id :: uuid where "sample_mission_id = uid ''80''"

definition sample_artifact :: "int \<Rightarrow> artifact_ref" where
  "sample_artifact version = \<lparr>a_artifact_id = uid ''c0'', a_type = ''contract'', a_version = version,
     a_sha256 = replicate 64 (CHR ''a''), a_media_type = text_of ''a/b'', a_byte_size = 64\<rparr>"

definition sample_participant :: "uuid \<Rightarrow> string \<Rightarrow> participant" where
  "sample_participant p role = \<lparr>p_agent_id = p, p_role = role, p_workspace_alias = ''main'',
     p_repository_url = text_of ''https://h/r'',
     p_expected_base_commit = replicate 40 (CHR ''0''), p_initial_assignment = text_of ''Do'',
     p_requested_local_policy_profile = ''default''\<rparr>"

definition sample_manifest :: "int \<Rightarrow> manifest" where
  "sample_manifest max_turns = \<lparr>mf_schema_version = 1, mf_mission_id = sample_mission_id,
     mf_objective = text_of ''Go'', mf_public_acceptance_criteria = [text_of ''Ok''],
     mf_participants = [sample_participant agent_a ''frontend'', sample_participant agent_b ''backend''],
     mf_shared_contract = sample_artifact 1, mf_max_turns = max_turns, mf_max_wall_time_seconds = 3600,
     mf_token_budget = 10000, mf_expires_at = ''2026-01-02T00:00:00Z'',
     mf_allowed_artifact_types = [''contract''], mf_created_at = ''2026-01-01T00:00:00Z''\<rparr>"

definition sample_config :: "int \<Rightarrow> coordinator_config" where
  "sample_config max_turns = \<lparr>cfg_mission_context =
       \<lparr>mc_manifest = sample_manifest max_turns,
        mc_created_by = \<lparr>principal_id = uid ''d0'', actor_ref_kind = A_owner\<rparr>\<rparr>,
     cfg_required_verification_commands = [(agent_a, [''test'']), (agent_b, [''test''])]\<rparr>"

definition sample_event :: "string \<Rightarrow> int \<Rightarrow> event_body \<Rightarrow> coordinator_event" where
  "sample_event n sequence body = \<lparr>ev_event_id = uid n, ev_idempotency_key = ''key-'' @ n,
     ev_mission_id = sample_mission_id, ev_sequence_no = sequence,
     ev_created_at = ''2026-01-01T00:00:01Z'', ev_body = body\<rparr>"

definition sample_accept :: coordinator_event where
  "sample_accept = sample_event ''01'' 1 (Participants_accepted [agent_a, agent_b] (sample_artifact 1))"

definition sample_message :: message where
  "sample_message = \<lparr>m_message_id = uid ''e1'', m_mission_id = sample_mission_id, m_sequence_no = 1,
     m_author_agent_id = agent_a, m_type = T_question, m_body = text_of ''Which port?'', m_artifacts = [],
     m_contract_version = 1, m_idempotency_key = ''msg-1'', m_causal_parent_message_id = None,
     m_created_at = ''2026-01-01T00:00:02Z''\<rparr>"

definition sample_revision :: contract_revision where
  "sample_revision = \<lparr>r_revision_id = uid ''f1'', r_mission_id = sample_mission_id, r_previous_version = 1,
     r_version = 2, r_artifact = sample_artifact 2, r_proposed_by_agent_id = agent_b,
     r_acknowledged_by_agent_ids = [], r_idempotency_key = ''rev-1'',
     r_created_at = ''2026-01-01T00:00:03Z''\<rparr>"

definition sample_evidence :: "string \<Rightarrow> evidence_outcome \<Rightarrow> verification_evidence" where
  "sample_evidence n outcome = \<lparr>e_verification_id = uid n, e_command_id = ''test'', e_outcome = outcome,
     e_exit_code = (if outcome = Passed then 0 else 1), e_duration_ms = 10, e_summary = text_of ''done'',
     e_output_sha256 = replicate 64 (CHR ''b''), e_artifacts = [],
     e_recorded_at = ''2026-01-01T00:00:04Z''\<rparr>"

text \<open>Acceptance, a question, a proposal and its two acknowledgements, both ready, both verified.\<close>

definition sample_events :: "coordinator_event list" where
  "sample_events =
     [sample_accept,
      sample_event ''02'' 2 (Turn_completed agent_a (uid ''21'') 1
        (Reply T_question (text_of ''Which port?'') None) (Some sample_message) None),
      sample_event ''03'' 3 (Turn_completed agent_b (uid ''22'') 1
        (Propose_contract (sample_artifact 2)) None (Some sample_revision)),
      sample_event ''04'' 4 (Contract_acknowledged agent_a (uid ''23'') (uid ''f1'') 2 (sample_artifact 2)),
      sample_event ''05'' 5 (Contract_acknowledged agent_b (uid ''24'') (uid ''f1'') 2 (sample_artifact 2)),
      sample_event ''06'' 6 (Turn_completed agent_a (uid ''25'') 2 (Ready []) None None),
      sample_event ''07'' 7 (Turn_completed agent_b (uid ''26'') 2 (Ready []) None None),
      sample_event ''08'' 8 (Verification_recorded agent_a (uid ''27'') 2 1 (sample_evidence ''31'' Passed)),
      sample_event ''09'' 9 (Verification_recorded agent_b (uid ''28'') 2 1 (sample_evidence ''32'' Passed))]"

definition state_of :: "coordinator_error + coordinator_state \<Rightarrow> coordinator_state" where
  "state_of r = (case r of Inr s \<Rightarrow> s | Inl e \<Rightarrow> undefined)"

abbreviation sample_replay :: "nat \<Rightarrow> coordinator_error + coordinator_state" where
  "sample_replay n \<equiv> replay_coordinator_events sample_lib (sample_config 20) (take n sample_events)"

lemma sample_completed:
  "(case sample_replay 9 of Inl e \<Rightarrow> False | Inr s \<Rightarrow> cs_status s = M_completed \<and> cs_contract_version s = 2)"
  by code_simp

lemma sample_awaiting:
  "(case sample_replay 3 of Inl err \<Rightarrow> False
    | Inr s \<Rightarrow> cs_pending_revision s = Some sample_revision \<and> cs_current_participant s = None
        \<and> cs_status s = M_active \<and> mission_participant_ids s = [agent_a, agent_b]
        \<and> find_replay s (sample_events ! 3) = Inr None \<and> cs_sequence_no s = 3
        \<and> mf_mission_id (cs_manifest s) = sample_mission_id)"
  by code_simp

lemma sample_acknowledgement_ok:
  "coordinator_event_ok sample_lib (sample_events ! 3) \<and> \<not> uuid_ok sample_lib ''''"
  by code_simp

end
