(* ===== verification/Coordinator_Laws.thy ===== *)
theory Coordinator_Laws
  imports Coordinator_Bounds Coordinator_Samples
begin

text \<open>
  The laws of the Mission coordinator for every state reached from a configuration by accepted events:
  the invariant holds at the start and is kept by the reducer, and the properties follow from it.
\<close>

section \<open>The invariant\<close>

text \<open>Every verification record was put there by an applied event.\<close>

definition evidence_inv :: "coordinator_state \<Rightarrow> bool" where
  "evidence_inv s \<longleftrightarrow> (\<forall>r \<in> set (cs_verification_records s). \<exists>e \<in> set (cs_applied_events s).
     ev_event_id e = vr_event_id r
     \<and> (\<exists>d. ev_body e = Verification_recorded (vr_participant_agent_id r) d (vr_contract_version r)
           (vr_verification_round r) (vr_evidence r)))"

lemma evidence_inv_step:
  assumes step: "reduce_fresh_event L s e = Inr t" and inv: "phase_inv s" "evidence_inv s"
  shows "evidence_inv t"
  using step
proof (cases rule: fresh_event_cases)
  case (accept ids contract)
  with inv show ?thesis by (auto simp: evidence_inv_def)
next
  case (turn p d v disposition msg revision u)
  from turn(3) have "cs_verification_records u = []"
    using inv(1) by (cases rule: turn_effect_cases) (auto simp: turn_scheduled_def after_turn_def phase_inv_def)
  with turn(4) show ?thesis by (simp add: evidence_inv_def)
next
  case (ack p d rid v a r)
  with inv show ?thesis by (auto simp: evidence_inv_def)
next
  case (agree p d rid v a r other)
  then show ?thesis by (simp add: evidence_inv_def)
next
  case (check p d v round evidence required u)
  let ?new = "new_record s (ev_event_id e) p evidence"
  have sub: "set (cs_verification_records u) \<subseteq> insert ?new (set (cs_verification_records s))"
    using check(6,2) by (cases rule: conclude_verification_cases) auto
  have log: "cs_applied_events u = cs_applied_events s" using conclude_frame [OF check(6,2)] by simp
  show ?thesis
    unfolding evidence_inv_def check(7) logged_fields log
  proof
    fix r assume "r \<in> set (cs_verification_records u)"
    with sub consider "r = ?new" | "r \<in> set (cs_verification_records s)" by auto
    then show "\<exists>e' \<in> set (cs_applied_events s @ [e]). ev_event_id e' = vr_event_id r
        \<and> (\<exists>d. ev_body e' = Verification_recorded (vr_participant_agent_id r) d (vr_contract_version r)
              (vr_verification_round r) (vr_evidence r))"
    proof cases
      case 1
      then show ?thesis using check(1,8,9) by (simp add: new_record_def)
    next
      case 2
      with inv(2) show ?thesis by (fastforce simp: evidence_inv_def)
    qed
  qed
next
  case (terminate k reason trigger)
  then show ?thesis by (simp add: evidence_inv_def)
qed

text \<open>The active contract is the last one both participants accepted.\<close>

definition active_inv :: "coordinator_state \<Rightarrow> bool" where
  "active_inv s \<longleftrightarrow> cs_active_contract s =
     (case last_option (cs_accepted_revisions s) of None \<Rightarrow> mf_shared_contract (cs_manifest s)
      | Some r \<Rightarrow> r_artifact r)"

lemma active_inv_step:
  assumes step: "reduce_fresh_event L s e = Inr t" and inv: "active_inv s"
  shows "active_inv t"
  using step
proof (cases rule: fresh_event_cases)
  case (turn p d v disposition msg revision u)
  from turn(3) show ?thesis
    using inv unfolding turn(4) by (cases rule: turn_effect_cases) (simp_all add: active_inv_def cong: option.case_cong)
next
  case (agree p d rid v a r other)
  then show ?thesis by (simp add: active_inv_def last_option_def acknowledge_def)
next
  case (check p d v round evidence required u)
  with inv conclude_frame [OF check(6,2)] show ?thesis by (simp add: active_inv_def cong: option.case_cong)
qed (use inv in \<open>simp_all add: active_inv_def cong: option.case_cong\<close>)

definition coordinator_inv :: "host_lib \<Rightarrow> coordinator_state \<Rightarrow> bool" where
  "coordinator_inv L s \<longleftrightarrow> setup_inv s \<and> phase_inv s \<and> contract_inv s \<and> message_inv s \<and> records_inv s
     \<and> log_inv s \<and> evidence_inv s \<and> active_inv s \<and> counts_inv s \<and> budget_inv s \<and> data_inv L s"

lemmas coordinator_steps = setup_inv_step phase_inv_step contract_inv_step message_inv_step
  records_inv_step log_inv_step evidence_inv_step active_inv_step counts_inv_step budget_inv_step data_inv_step

lemma coordinator_inv_step:
  assumes "coordinator_inv L s" and "reduce_coordinator_event L s e = Inr t"
  shows "coordinator_inv L t"
proof (cases "find_replay s e = Inr (Some e)")
  case True
  with assms show ?thesis by (auto simp: reduce_coordinator_event_Inr)
next
  case False
  with assms(2) have step: "reduce_fresh_event L s e = Inr t" and fresh: "find_replay s e = Inr None"
    and ok: "coordinator_event_ok L e"
    by (auto simp: reduce_coordinator_event_Inr)
  from assms(1) show ?thesis
    using coordinator_steps [OF step] fresh ok by (simp add: coordinator_inv_def)
qed

section \<open>The first state\<close>

lemma create_coordinator_state_Inr:
  assumes "create_coordinator_state L config = Inr s"
  defines "manifest \<equiv> mc_manifest (cfg_mission_context config)"
  obtains entries where "config_ok L config" "map fst entries = manifest_participant_ids manifest"
    "\<forall>(k, cs) \<in> set entries. map_of (cfg_required_verification_commands config) k = Some cs"
    "cs_mission_context s = cfg_mission_context config"
    "cs_required_verification_commands s = object_from_entries entries"
    "cs_status s = M_awaiting_acceptance" "cs_sequence_no s = 0" "cs_turn_count s = 0"
    "cs_contract_version s = a_version (mf_shared_contract manifest)" "cs_verification_round s = 0"
    "cs_active_contract s = mf_shared_contract manifest" "cs_pending_revision s = None"
    "cs_accepted_revisions s = []" "cs_current_participant s = None" "cs_ready_agent_ids s = []"
    "cs_verification_records s = []" "cs_messages s = []" "cs_applied_events s = []"
proof -
  have entries: "map fst entries = ps \<and> (\<forall>(k, cs) \<in> set entries. required k = Some cs)"
    if "traverse (\<lambda>p. case required p of None \<Rightarrow> Inl Type_error | Some commands \<Rightarrow> Inr (p, commands)) ps
      = Inr entries"
    for ps entries and required :: "string \<Rightarrow> string list option"
    using that unfolding traverse_Inr
    by (induction ps entries rule: list_all2_induct) (auto split: option.splits)
  from assms(1) show thesis
    by (auto simp: create_coordinator_state_def Let_def manifest_def split: if_splits
        dest!: entries intro!: that)
qed

lemma create_coordinator_inv:
  assumes "create_coordinator_state L config = Inr s"
  shows "coordinator_inv L s"
proof -
  let ?m = "mc_manifest (cfg_mission_context config)"
  from assms obtain entries where created: "config_ok L config"
    "map fst entries = manifest_participant_ids ?m"
    "\<forall>(k, cs) \<in> set entries. map_of (cfg_required_verification_commands config) k = Some cs"
    "cs_mission_context s = cfg_mission_context config"
    "cs_required_verification_commands s = object_from_entries entries"
    and fields: "cs_status s = M_awaiting_acceptance" "cs_sequence_no s = 0" "cs_turn_count s = 0"
    "cs_contract_version s = a_version (mf_shared_contract ?m)" "cs_verification_round s = 0"
    "cs_active_contract s = mf_shared_contract ?m" "cs_pending_revision s = None"
    "cs_accepted_revisions s = []" "cs_current_participant s = None" "cs_ready_agent_ids s = []"
    "cs_verification_records s = []" "cs_messages s = []" "cs_applied_events s = []"
    by (rule create_coordinator_state_Inr)
  have ids: "mission_participant_ids s = manifest_participant_ids ?m"
    by (simp add: mission_participant_ids_def created)
  have ctx: "mission_context_ok L (cfg_mission_context config)"
    and cmds: "required_commands_ok (cfg_required_verification_commands config)"
    and plan: "config_issues config = []"
    using created(1) by (simp_all add: config_ok_def)
  have unique: "distinct cs" if "(k, cs) \<in> set entries" for k cs
  proof -
    from that created(3) have k: "map_of (cfg_required_verification_commands config) k = Some cs" by auto
    then have "k \<in> fst ` set (cfg_required_verification_commands config)" by (force dest: map_of_SomeD)
    with plan k show ?thesis by (fastforce simp: config_issues_def Let_def)
  qed
  have distinct: "distinct (manifest_participant_ids ?m)" and two: "length (manifest_participant_ids ?m) = 2"
    using ctx by (simp_all add: mission_context_ok_def manifest_ok_def manifest_issues_def
        manifest_fields_ok_def manifest_participant_ids_def)
  have es: "cs_required_verification_commands s = entries"
    using created(2,5) distinct by (simp add: object_from_entries_distinct)
  have entry_ok: "list_all command_id_ok cs \<and> 1 \<le> length cs \<and> length cs \<le> 16" if "(k, cs) \<in> set entries" for k cs
    using that created(3) cmds by (force simp: required_commands_ok_def list_all_iff dest: map_of_SomeD)
  have two_sided: "setup_inv s"
  proof -
    from two obtain p q where "manifest_participant_ids ?m = [p, q]"
      by (auto simp: length_Suc_conv numeral_2_eq_2)
    with distinct created(2) es ids
    have "\<exists>p q. mission_participant_ids s = [p, q] \<and> p \<noteq> q
        \<and> map fst (cs_required_verification_commands s) = [p, q]" by auto
    moreover have "\<forall>(k, cmds) \<in> set (cs_required_verification_commands s). distinct cmds \<and> cmds \<noteq> []"
      using unique entry_ok unfolding es by fastforce
    ultimately show ?thesis
      using ctx
      by (simp add: setup_inv_def created(4) mission_context_ok_def manifest_ok_def
          manifest_fields_ok_def manifest_issues_def)
  qed
  moreover have "data_inv L s"
    using ctx entry_ok
    by (auto simp: data_inv_def fields created(4) es required_commands_ok_def list_all_iff
        mission_context_ok_def manifest_ok_def manifest_fields_ok_def shared_contract_ok_def)
  moreover have "0 < mf_max_turns ?m" "a_version (mf_shared_contract ?m) = 1"
    using ctx by (auto simp: mission_context_ok_def manifest_ok_def manifest_fields_ok_def shared_contract_ok_def)
  ultimately show ?thesis
    by (simp add: coordinator_inv_def phase_inv_def contract_inv_def message_inv_def records_inv_def
        log_inv_def evidence_inv_def active_inv_def last_option_def counts_inv_def budget_inv_def event_potential_def turn_events_def
        fields created(4))
qed

section \<open>Runs\<close>

text \<open>What later states keep of earlier ones: the configuration, the log, the messages, the contract
  history.\<close>

definition extends :: "coordinator_state \<Rightarrow> coordinator_state \<Rightarrow> bool" where
  "extends s t \<longleftrightarrow> cs_mission_context t = cs_mission_context s
     \<and> cs_required_verification_commands t = cs_required_verification_commands s
     \<and> prefix (cs_applied_events s) (cs_applied_events t)
     \<and> prefix (cs_messages s) (cs_messages t)
     \<and> prefix (cs_accepted_revisions s) (cs_accepted_revisions t)
     \<and> cs_contract_version s \<le> cs_contract_version t
     \<and> cs_turn_count s \<le> cs_turn_count t
     \<and> cs_verification_round s \<le> cs_verification_round t"

lemma extends_refl: "extends s s"
  by (simp add: extends_def)

lemma extends_trans: "extends s t \<Longrightarrow> extends t u \<Longrightarrow> extends s u"
  by (auto simp: extends_def)

lemma fresh_event_extends:
  assumes step: "reduce_fresh_event L s e = Inr t" and inv: "contract_inv s"
  shows "extends s t"
  using step
proof (cases rule: fresh_event_cases)
  case (accept ids contract)
  then show ?thesis by (simp add: extends_def)
next
  case (turn p d v disposition msg revision u)
  from turn(3) show ?thesis
    unfolding turn(4) by (cases rule: turn_effect_cases) (auto simp: extends_def)
next
  case (ack p d rid v a r)
  then show ?thesis by (simp add: extends_def)
next
  case (agree p d rid v a r other)
  with inv show ?thesis by (auto simp: extends_def contract_inv_def revision_open_def)
next
  case (check p d v round evidence required u)
  then show ?thesis using conclude_frame [OF check(6,2)] by (simp add: extends_def)
next
  case (terminate k reason trigger)
  then show ?thesis by (simp add: extends_def)
qed

lemma reduce_extends:
  assumes "coordinator_inv L s" and "reduce_coordinator_event L s e = Inr t"
  shows "extends s t"
  using assms fresh_event_extends
  by (auto simp: reduce_coordinator_event_Inr extends_refl coordinator_inv_def)

interpretation coordinator: advancing_machine "reduce_coordinator_event L" "coordinator_inv L" extends for L
  by unfold_locales
     (auto intro: extends_refl reduce_extends coordinator_inv_step elim: extends_trans)

text \<open>The states a Mission can reach.\<close>

lemma replay_inv:
  "replay_coordinator_events L config events = Inr s \<Longrightarrow> coordinator_inv L s"
  by (auto simp: replay_coordinator_events_def intro: coordinator.run_inv create_coordinator_inv)

lemma reduce_log_set:
  assumes "reduce_coordinator_event L s e = Inr t"
  shows "set (cs_applied_events t) = insert e (set (cs_applied_events s))"
  using assms fresh_event_frame [of L s e t] find_replay_Some [of s e e]
  by (auto simp: reduce_coordinator_event_Inr)

lemma run_log_set:
  "run_steps (reduce_coordinator_event L) s events = Inr t
    \<Longrightarrow> set (cs_applied_events t) = set (cs_applied_events s) \<union> set events"
proof (induction events arbitrary: s)
  case Nil
  then show ?case by simp
next
  case (Cons e events)
  from Cons.prems obtain s' where "reduce_coordinator_event L s e = Inr s'"
    and "run_steps (reduce_coordinator_event L) s' events = Inr t"
    by (rule run_steps_ConsE)
  with Cons.IH reduce_log_set [of L s e s'] show ?case by simp
qed

lemma replay_log_set:
  assumes "replay_coordinator_events L config events = Inr s"
  shows "set (cs_applied_events s) = set events"
proof -
  from assms obtain s0 where "create_coordinator_state L config = Inr s0"
    and run: "run_steps (reduce_coordinator_event L) s0 events = Inr s"
    by (auto simp: replay_coordinator_events_def)
  then have "cs_applied_events s0 = []" by (auto elim: create_coordinator_state_Inr)
  with run_log_set [OF run] show ?thesis by simp
qed

lemma event_total:
  assumes "coordinator_inv L s"
  shows "int (length (cs_applied_events s)) \<le> 3402"
proof -
  have max: "mf_max_turns (cs_manifest s) \<le> 200" "0 < mf_max_turns (cs_manifest s)"
    using assms by (auto simp: coordinator_inv_def data_inv_def mission_context_ok_def manifest_ok_def
        manifest_fields_ok_def)
  have "command_total s \<le> 32"
    using assms by (intro command_total_bound) (auto simp: coordinator_inv_def data_inv_def)
  then have price: "turn_price s \<le> 34" by (simp add: turn_price_def)
  have "0 \<le> event_potential s"
  proof (cases "cs_status s = M_active \<or> cs_status s = M_verifying")
    case True
    have "length (cs_verification_records s) \<le> command_total s"
      using assms by (intro records_bound) (auto simp: coordinator_inv_def records_inv_def)
    then show ?thesis
      using True assms potential_active [of s] by (auto simp: coordinator_inv_def)
  next
    case False
    then show ?thesis
      using paid_nonneg [of s] assms
      by (auto simp: event_potential_def coordinator_inv_def Let_def split: mission_status.split)
  qed
  moreover have "mf_max_turns (cs_manifest s) * turn_price s \<le> 200 * 34"
    using max price turn_price_bounds(1) [of s] by (intro mult_mono) auto
  ultimately show ?thesis using assms by (simp add: coordinator_inv_def budget_inv_def)
qed

lemma coordinator_inv_fields:
  assumes inv: "coordinator_inv L s"
  shows "coordinator_state_fields_ok L s"
proof -
  have data: "data_inv L s" and phase: "phase_inv s" and counts: "counts_inv s" and log: "log_inv s"
    and two_sided: "setup_inv s" and contract: "contract_inv s"
    using inv by (simp_all add: coordinator_inv_def)
  have turns: "cs_turn_count s \<le> 200"
    using data phase
    by (auto simp: phase_inv_def data_inv_def mission_context_ok_def manifest_ok_def manifest_fields_ok_def)
  have ids: "\<forall>p \<in> set (mission_participant_ids s). uuid_ok L p"
    using data
    by (auto simp: data_inv_def mission_context_ok_def manifest_ok_def manifest_fields_ok_def
        mission_participant_ids_def manifest_participant_ids_def participant_ok_def list_all_iff)
  have total: "command_total s \<le> 32" "length (cs_verification_records s) \<le> command_total s"
    using inv by (auto intro!: command_total_bound records_bound simp: coordinator_inv_def data_inv_def records_inv_def)
  have ready: "list_all (uuid_ok L) (cs_ready_agent_ids s)" "nullable (uuid_ok L) (cs_current_participant s)"
    using phase ids by (auto simp: phase_inv_def list_all_iff nullable_def split: option.split)
  have two: "length (cs_ready_agent_ids s) \<le> 2"
  proof -
    obtain p q where pq: "mission_participant_ids s = [p, q]" using two_sided by (auto simp: setup_inv_def)
    have "card (set (cs_ready_agent_ids s)) \<le> card {p, q}"
      using phase pq by (intro card_mono) (auto simp: phase_inv_def)
    also have "\<dots> \<le> 2" by (simp add: card_insert_if)
    finally show ?thesis using phase by (simp add: phase_inv_def distinct_card)
  qed
  have small: "int (length (cs_messages s)) \<le> 200" "int (length (cs_accepted_revisions s)) \<le> 200"
    "0 \<le> cs_verification_round s" "cs_verification_round s \<le> 200" "0 \<le> cs_turn_count s"
    using counts turns phase by (auto simp: counts_inv_def phase_inv_def split: if_splits)
  have version: "contract_version_ok (cs_contract_version s)"
    using small contract by (simp add: contract_inv_def contract_version_ok_def)
  show ?thesis
    using data ready two small version turns total event_total [OF inv] log
    by (simp add: coordinator_state_fields_ok_def data_inv_def log_inv_def)
qed

lemma coordinator_inv_issues:
  assumes inv: "coordinator_inv L s"
  shows "coordinator_state_issues s = []"
proof -
  have parts: "setup_inv s" "phase_inv s" "contract_inv s" "message_inv s" "log_inv s"
    using inv by (simp_all add: coordinator_inv_def)
  have "same_string_set (mission_participant_ids s) (map fst (cs_required_verification_commands s))"
    using parts(1) by (auto simp: setup_inv_def same_string_set_iff)
  moreover have "a_version (cs_active_contract s) = cs_contract_version s"
    "a_type (cs_active_contract s) \<in> set (mf_allowed_artifact_types (cs_manifest s))"
    using parts(1,3) by (simp_all add: contract_inv_def setup_inv_def)
  moreover have "\<forall>p. cs_current_participant s = Some p \<longrightarrow> p \<in> set (mission_participant_ids s)"
    "distinct (cs_ready_agent_ids s)" "set (cs_ready_agent_ids s) \<subseteq> set (mission_participant_ids s)"
    using parts(2) by (simp_all add: phase_inv_def)
  moreover have "\<forall>i < length (cs_messages s). m_mission_id (cs_messages s ! i) = mf_mission_id (cs_manifest s)"
    using parts(4) by (simp add: message_inv_def)
  moreover have "\<forall>r \<in> set (cs_accepted_revisions s). r_mission_id r = mf_mission_id (cs_manifest s)"
    "\<forall>r. cs_pending_revision s = Some r \<longrightarrow> r_mission_id r = mf_mission_id (cs_manifest s)"
    using parts(3) by (auto simp: contract_inv_def revision_open_def in_set_conv_nth)
  ultimately show ?thesis
    using parts(5)
    by (auto simp: coordinator_state_issues_def Let_def log_inv_def list_ex_iff nth_append
        mission_participant_ids_def split: option.splits)
qed

section \<open>The properties\<close>

lemma filter_single: "distinct xs \<Longrightarrow> e \<in> set xs \<Longrightarrow> filter (\<lambda>a. a = e) xs = [e]"
  by (induction xs) (auto simp: filter_empty_conv)


text \<open>C8. Every state the coordinator reaches from a configuration is a valid coordinator state: it
  passes the schema that the relay and the Nodes check it with, including the caps on events, messages,
  revisions and records.\<close>

theorem reached_state_valid:
  assumes "replay_coordinator_events L config events = Inr s"
  shows "coordinator_state_ok L s"
  using replay_inv [OF assms]
  by (simp add: coordinator_state_ok_def coordinator_inv_fields coordinator_inv_issues)

theorem reached_state_valid_witness:
  "\<exists>s. sample_replay 9 = Inr s \<and> cs_status s = M_completed \<and> coordinator_state_ok sample_lib s"
  using sample_completed reached_state_valid by (auto split: sum.splits)

text \<open>C25. The applied events are the accepted ones, in the order of their sequence numbers 1, 2, ...,
  with distinct event ids, idempotency keys and turn deliveries, and a Mission takes at most 3402 of
  them, below the 4096 that the state schema allows.\<close>

theorem event_log_exact:
  assumes "replay_coordinator_events L config events = Inr s"
  shows "set (cs_applied_events s) = set events
    \<and> map ev_sequence_no (cs_applied_events s) = map (\<lambda>i. int i + 1) [0..<length (cs_applied_events s)]
    \<and> distinct (map ev_event_id (cs_applied_events s))
    \<and> distinct (map ev_idempotency_key (cs_applied_events s))
    \<and> distinct (map (\<lambda>e. body_delivery_id (ev_body e)) (turn_events s))
    \<and> int (length (cs_applied_events s)) \<le> 3402"
  using replay_inv [OF assms] event_total [of L s] replay_log_set [OF assms]
  by (auto simp: coordinator_inv_def log_inv_def intro!: nth_equalityI)

theorem event_log_exact_witness:
  "\<exists>s. sample_replay 9 = Inr s \<and> int (length (cs_applied_events s)) \<le> 3402"
  using sample_completed event_log_exact by (fastforce split: sum.splits)

text \<open>C5. A Mission is completed only when, for both participants and every command its plan requires
  of them, an accepted event recorded a passing run of that command under the current contract version
  and in the current verification round.\<close>

theorem completed_means_verified:
  assumes "replay_coordinator_events L config events = Inr s" and "cs_status s = M_completed"
  shows "\<forall>p \<in> set (mission_participant_ids s). \<forall>c \<in> set (commands_of s p).
    \<exists>e \<in> set events. \<exists>d evidence.
      ev_body e = Verification_recorded p d (cs_contract_version s) (cs_verification_round s) evidence
      \<and> e_command_id evidence = c \<and> e_outcome evidence = Passed"
proof (intro ballI)
  fix p c assume p: "p \<in> set (mission_participant_ids s)" and c: "c \<in> set (commands_of s p)"
  have inv: "setup_inv s" "phase_inv s" "evidence_inv s"
    using replay_inv [OF assms(1)] by (simp_all add: coordinator_inv_def)
  have "passed_by s (cs_verification_records s) p"
    using inv(1,2) assms(2) p by (simp add: phase_inv_def all_passed_iff)
  with c obtain r where "r \<in> set (cs_verification_records s)" "vr_participant_agent_id r = p"
    "vr_contract_version r = cs_contract_version s" "vr_verification_round r = cs_verification_round s"
    "e_command_id (vr_evidence r) = c" "e_outcome (vr_evidence r) = Passed"
    by (auto simp: passed_by_def)
  with inv(3) replay_log_set [OF assms(1)] show "\<exists>e \<in> set events. \<exists>d evidence.
      ev_body e = Verification_recorded p d (cs_contract_version s) (cs_verification_round s) evidence
      \<and> e_command_id evidence = c \<and> e_outcome evidence = Passed"
    by (fastforce simp: evidence_inv_def)
qed

theorem completed_means_verified_witness:
  "\<exists>s. sample_replay 9 = Inr s \<and> (\<forall>p \<in> set (mission_participant_ids s). \<forall>c \<in> set (commands_of s p).
     \<exists>e \<in> set sample_events. \<exists>d evidence.
       ev_body e = Verification_recorded p d (cs_contract_version s) (cs_verification_round s) evidence
       \<and> e_command_id evidence = c \<and> e_outcome evidence = Passed)"
proof -
  obtain s where s: "sample_replay 9 = Inr s" "cs_status s = M_completed"
    using sample_completed by (auto split: sum.splits)
  have all: "take 9 sample_events = sample_events" by (simp add: sample_events_def)
  show ?thesis using completed_means_verified [OF s] s(1) unfolding all by blast
qed

text \<open>C29. The contract version is one more than the number of accepted revisions; revision \<open>i\<close> has
  version \<open>i + 2\<close> and was acknowledged by exactly the two participants, and the active contract is
  the artifact of the last accepted revision, the shared contract of the manifest before the first.\<close>

theorem contract_by_agreement:
  assumes "replay_coordinator_events L config events = Inr s"
  shows "cs_contract_version s = int (length (cs_accepted_revisions s)) + 1
    \<and> map r_version (cs_accepted_revisions s) = map (\<lambda>i. int i + 2) [0..<length (cs_accepted_revisions s)]
    \<and> list_all (\<lambda>r. same_string_set (r_acknowledged_by_agent_ids r) (mission_participant_ids s))
        (cs_accepted_revisions s)
    \<and> a_version (cs_active_contract s) = cs_contract_version s
    \<and> cs_active_contract s = (case last_option (cs_accepted_revisions s) of
        None \<Rightarrow> mf_shared_contract (cs_manifest s) | Some r \<Rightarrow> r_artifact r)"
proof -
  have "contract_inv s" "active_inv s" using replay_inv [OF assms] by (simp_all add: coordinator_inv_def)
  then show ?thesis
    by (auto simp: contract_inv_def active_inv_def list_all_length intro!: nth_equalityI)
qed

theorem contract_by_agreement_witness:
  "\<exists>s. sample_replay 9 = Inr s \<and> cs_contract_version s = 2 \<and> length (cs_accepted_revisions s) = 1"
proof -
  obtain s where s: "sample_replay 9 = Inr s" "cs_contract_version s = 2"
    using sample_completed by (auto split: sum.splits)
  then show ?thesis using contract_by_agreement [OF s(1)] by auto
qed

text \<open>The messages form one causal chain: numbered 1, 2, ..., each naming its predecessor as its
  causal parent, each by a participant, with distinct ids and idempotency keys.\<close>

theorem message_chain:
  assumes "replay_coordinator_events L config events = Inr s"
  shows "map m_sequence_no (cs_messages s) = map (\<lambda>i. int i + 1) [0..<length (cs_messages s)]
    \<and> map m_causal_parent_message_id (cs_messages s)
        = take (length (cs_messages s)) (None # map (Some \<circ> m_message_id) (cs_messages s))
    \<and> set (map m_author_agent_id (cs_messages s)) \<subseteq> set (mission_participant_ids s)
    \<and> distinct (map m_message_id (cs_messages s)) \<and> distinct (map m_idempotency_key (cs_messages s))"
proof -
  have "message_inv s" using replay_inv [OF assms] by (simp add: coordinator_inv_def)
  then show ?thesis
    by (auto simp: message_inv_def in_set_conv_nth nth_Cons' intro!: nth_equalityI)
qed

theorem message_chain_witness:
  "\<exists>s. sample_replay 9 = Inr s \<and> distinct (map m_message_id (cs_messages s))"
  using sample_completed message_chain by (fastforce split: sum.splits)

text \<open>Applying an event a second time, however much later, changes nothing and is not an error.\<close>

theorem applied_event_replays:
  assumes "replay_coordinator_events L config events = Inr s" and "e \<in> set events"
  shows "reduce_coordinator_event L s e = Inr s"
proof -
  have log: "log_inv s" "list_all (coordinator_event_ok L) (cs_applied_events s)"
    using replay_inv [OF assms(1)] by (simp_all add: coordinator_inv_def data_inv_def)
  have e: "e \<in> set (cs_applied_events s)" using replay_log_set [OF assms(1)] assms(2) by simp
  let ?P = "\<lambda>a. ev_event_id a = ev_event_id e \<or> ev_idempotency_key a = ev_idempotency_key e"
  have same: "?P a \<longleftrightarrow> a = e" if "a \<in> set (cs_applied_events s)" for a
    using log(1) e that by (auto simp: log_inv_def distinct_map inj_on_def)
  have "filter ?P (cs_applied_events s) = filter (\<lambda>a. a = e) (cs_applied_events s)"
    using same by (intro filter_cong) auto
  also have "\<dots> = [e]"
    using log(1) e by (simp add: log_inv_def distinct_map filter_single)
  finally have "find_replay s e = Inr (Some e)" by (simp add: find_replay_def)
  then show ?thesis using e log(2) by (simp add: reduce_coordinator_event_Inr list_all_iff)
qed

theorem applied_event_replays_witness:
  "\<exists>s. sample_replay 9 = Inr s \<and> reduce_coordinator_event sample_lib s sample_accept = Inr s"
proof -
  obtain s where s: "sample_replay 9 = Inr s" using sample_completed by (auto split: sum.splits)
  have "sample_accept \<in> set (take 9 sample_events)" by (simp add: sample_events_def)
  with applied_event_replays [OF s] s show ?thesis by blast
qed

text \<open>C33. A Mission that is completed, expired or failed takes no further event: whatever the reducer
  still accepts is an event it applied before, and the state stays as it is.\<close>

theorem terminal_mission_is_final:
  assumes "replay_coordinator_events L config events = Inr s" and "is_terminal (cs_status s)"
    and "run_steps (reduce_coordinator_event L) s later = Inr t"
  shows "t = s \<and> set later \<subseteq> set events"
proof -
  have one: "u = s \<and> e \<in> set events" if "reduce_coordinator_event L s e = Inr u" for e u
    using that assms(2) find_replay_Some [of s e e] replay_log_set [OF assms(1)]
    by (auto simp: reduce_coordinator_event_Inr reduce_fresh_event_Inr)
  show ?thesis
    using assms(3) by (induction later) (auto dest!: one)
qed

theorem terminal_mission_is_final_witness:
  "\<exists>s. sample_replay 9 = Inr s \<and> is_terminal (cs_status s)
     \<and> run_steps (reduce_coordinator_event sample_lib) s [] = Inr s"
proof -
  obtain s where s: "sample_replay 9 = Inr s" "cs_status s = M_completed"
    using sample_completed by (auto split: sum.splits)
  then have "is_terminal (cs_status s)" by (simp add: is_terminal_def)
  with terminal_mission_is_final [OF s(1) this, of "[]" s] s(1) show ?thesis by simp
qed

section \<open>Progress\<close>

text \<open>What a Mission that is not over waits for.\<close>

definition awaits_turn :: "coordinator_state \<Rightarrow> uuid \<Rightarrow> bool" where
  "awaits_turn s p \<longleftrightarrow> cs_status s = M_active \<and> cs_current_participant s = Some p
     \<and> cs_pending_revision s = None \<and> cs_turn_count s < mf_max_turns (cs_manifest s)"

definition awaits_acknowledgement :: "coordinator_state \<Rightarrow> uuid \<Rightarrow> bool" where
  "awaits_acknowledgement s p \<longleftrightarrow> cs_status s = M_active \<and> cs_current_participant s = None
     \<and> (case cs_pending_revision s of None \<Rightarrow> False | Some r \<Rightarrow> p \<notin> set (r_acknowledged_by_agent_ids r))"

definition awaits_verification :: "coordinator_state \<Rightarrow> uuid \<Rightarrow> bool" where
  "awaits_verification s p \<longleftrightarrow> cs_status s = M_verifying
     \<and> list_ex (\<lambda>c. (p, c) \<notin> set (map record_key (cs_verification_records s))) (commands_of s p)"

lemma verification_open:
  assumes inv: "setup_inv s" "records_inv s" and st: "cs_status s = M_verifying"
  shows "\<exists>p \<in> set (mission_participant_ids s). awaits_verification s p"
proof (rule ccontr)
  assume none: "\<not> ?thesis"
  have "passed_by s (cs_verification_records s) p" if p: "p \<in> set (mission_participant_ids s)" for p
    unfolding passed_by_def
  proof
    fix c assume c: "c \<in> set (commands_of s p)"
    have all: "\<exists>r \<in> set (cs_verification_records s). vr_participant_agent_id r = p
        \<and> e_command_id (vr_evidence r) = c'" if "c' \<in> set (commands_of s p)" for c'
    proof -
      from none st p that have "(p, c') \<in> record_key ` set (cs_verification_records s)"
        by (auto simp: awaits_verification_def list_ex_iff)
      then show ?thesis by (auto simp: record_key_def)
    qed
    from all have "all_participant_commands_recorded (commands_of s p) (records_of p (cs_verification_records s))"
      by (auto simp: all_participant_commands_recorded_def list_all_iff list_ex_iff records_of_def)
    with inv(2) st p have passed: "\<forall>r \<in> set (records_of p (cs_verification_records s)).
        e_outcome (vr_evidence r) = Passed" by (simp add: records_inv_def)
    from all [OF c] passed inv(2) show "\<exists>r \<in> set (cs_verification_records s). vr_participant_agent_id r = p
        \<and> vr_contract_version r = cs_contract_version s \<and> vr_verification_round r = cs_verification_round s
        \<and> e_command_id (vr_evidence r) = c \<and> e_outcome (vr_evidence r) = Passed"
      by (auto simp: records_inv_def records_of_def)
  qed
  then have "all_required_commands_passed s (cs_verification_records s) = Inr True"
    by (simp add: all_passed_iff [OF inv(1)])
  with inv(2) st show False by (simp add: records_inv_def)
qed

text \<open>C32. A Mission that started and is not over is never stuck: some participant owes it the scheduled
  turn, the acknowledgement of the pending revision, or a required verification result.\<close>

theorem someone_owes_work:
  assumes "replay_coordinator_events L config events = Inr s" and "events \<noteq> []"
    and "\<not> is_terminal (cs_status s)"
  shows "\<exists>p \<in> set (mission_participant_ids s).
    awaits_turn s p \<or> awaits_acknowledgement s p \<or> awaits_verification s p"
proof -
  have inv: "setup_inv s" "phase_inv s" "contract_inv s" "records_inv s"
    using replay_inv [OF assms(1)] by (simp_all add: coordinator_inv_def)
  have "cs_applied_events s \<noteq> []" using replay_log_set [OF assms(1)] assms(2) by auto
  with inv(2) assms(3) consider "cs_status s = M_active" | "cs_status s = M_verifying"
    by (auto simp: phase_inv_def is_terminal_def split: mission_status.splits)
  then show ?thesis
  proof cases
    case 1
    show ?thesis
    proof (cases "cs_pending_revision s")
      case None
      with 1 inv(2) obtain p where "cs_current_participant s = Some p" "p \<in> set (mission_participant_ids s)"
        by (auto simp: phase_inv_def)
      with 1 None inv(2) show ?thesis by (auto simp: awaits_turn_def phase_inv_def)
    next
      case (Some r)
      then obtain p where "p \<in> set (mission_participant_ids s)" "p \<notin> set (r_acknowledged_by_agent_ids r)"
        using inv(3) by (auto simp: contract_inv_def revision_open_def)
      moreover have "cs_current_participant s = None" using 1 Some inv(2) by (simp add: phase_inv_def)
      ultimately show ?thesis using 1 Some by (auto simp: awaits_acknowledgement_def)
    qed
  next
    case 2
    then show ?thesis using verification_open inv by blast
  qed
qed

theorem someone_owes_work_witness:
  "\<exists>s. sample_replay 3 = Inr s \<and> (\<exists>p \<in> set (mission_participant_ids s).
     awaits_turn s p \<or> awaits_acknowledgement s p \<or> awaits_verification s p)"
proof -
  obtain s where s: "sample_replay 3 = Inr s" "cs_status s = M_active"
    using sample_awaiting by (auto split: sum.splits)
  have "take 3 sample_events \<noteq> []" by (simp add: sample_events_def)
  from someone_owes_work [OF s(1) this] s show ?thesis by (auto simp: is_terminal_def)
qed

text \<open>The acknowledgement a participant owes is always accepted: a well-formed new event that
  acknowledges the pending revision is applied; if it was the last one missing, the revision becomes the
  active contract and the participant who did not propose it has the next turn.\<close>

theorem acknowledgement_accepted:
  assumes "replay_coordinator_events L config events = Inr s"
    and "cs_pending_revision s = Some r" and "awaits_acknowledgement s p" and "p \<in> set (mission_participant_ids s)"
    and "ev_body e = Contract_acknowledged p d (r_revision_id r) (r_version r) (r_artifact r)"
    and "coordinator_event_ok L e" and "find_replay s e = Inr None"
    and "ev_mission_id e = mf_mission_id (cs_manifest s)" and "ev_sequence_no e = cs_sequence_no s + 1"
    and "\<not> uuid_ok L ''''"
  shows "\<exists>t. reduce_coordinator_event L s e = Inr t
    \<and> (if set (mission_participant_ids s) = insert p (set (r_acknowledged_by_agent_ids r))
       then cs_contract_version t = r_version r \<and> cs_active_contract t = r_artifact r
         \<and> cs_pending_revision t = None \<and> cs_current_participant t \<noteq> Some (r_proposed_by_agent_id r)
         \<and> cs_current_participant t \<noteq> None
       else cs_pending_revision t = Some (acknowledge p r))"
proof -
  have inv: "setup_inv s" "contract_inv s" "data_inv L s"
    using replay_inv [OF assms(1)] by (simp_all add: coordinator_inv_def)
  have opened: "revision_open s r" using inv(2) assms(2) by (simp add: contract_inv_def)
  have aw: "cs_status s = M_active" "cs_current_participant s = None" "p \<notin> set (r_acknowledged_by_agent_ids r)"
    using assms(2,3) by (simp_all add: awaits_acknowledgement_def)
  have ok: "contract_revision_ok L (acknowledge p r)"
    using inv(3) assms(2,5,6) aw(3) open_acks [OF inv(1) opened]
    by (simp add: data_inv_def acknowledge_def contract_revision_ok_def contract_revision_fields_ok_def
        contract_revision_issues_def coordinator_event_ok_def)
  have ids: "\<forall>q \<in> set (mission_participant_ids s). q \<noteq> ''''"
    using inv(3) assms(10)
    by (auto simp: data_inv_def mission_context_ok_def manifest_ok_def manifest_fields_ok_def
        mission_participant_ids_def manifest_participant_ids_def participant_ok_def list_all_iff)
  have same: "same_string_set (r_acknowledged_by_agent_ids r @ [p]) (mission_participant_ids s)
      \<longleftrightarrow> set (mission_participant_ids s) = insert p (set (r_acknowledged_by_agent_ids r))"
    using opened aw(3) inv(1) by (auto simp: same_string_set_iff revision_open_def setup_inv_def)
  obtain a b where ab: "mission_participant_ids s = [a, b]" "a \<noteq> b" using inv(1) by (auto simp: setup_inv_def)
  obtain other where other: "other_participant s (r_proposed_by_agent_id r) = Inr other"
    "other \<noteq> r_proposed_by_agent_id r"
    using other_of_two [OF ab, of "r_proposed_by_agent_id r"] ids opened ab
    by (auto simp: revision_open_def split: if_splits)
  show ?thesis
    using assms(2,4-9) aw ok same other
    by (auto simp: reduce_coordinator_event_def reduce_fresh_event_def apply_event_def is_terminal_def
        apply_contract_acknowledged_def Let_def acknowledge_def)
qed

theorem acknowledgement_accepted_witness:
  "\<exists>s t. sample_replay 3 = Inr s \<and> reduce_coordinator_event sample_lib s (sample_events ! 3) = Inr t
     \<and> cs_pending_revision t = Some (acknowledge agent_a sample_revision)"
proof -
  obtain s where s: "sample_replay 3 = Inr s" "cs_pending_revision s = Some sample_revision"
    "cs_current_participant s = None" "cs_status s = M_active"
    "mission_participant_ids s = [agent_a, agent_b]"
    "find_replay s (sample_events ! 3) = Inr None" "cs_sequence_no s = 3"
    "mf_mission_id (cs_manifest s) = sample_mission_id"
    using sample_awaiting by (auto split: sum.splits)
  have "awaits_acknowledgement s agent_a" using s by (simp add: awaits_acknowledgement_def sample_revision_def)
  moreover have "agent_b \<noteq> agent_a" by (simp add: agent_a_def agent_b_def uid_def)
  ultimately show ?thesis
    using acknowledgement_accepted [OF s(1,2), of agent_a "sample_events ! 3" "uid ''23''"]
      s sample_acknowledgement_ok
    by (auto simp: sample_events_def sample_event_def sample_revision_def split: if_splits)
qed

end
