(* ===== verification/Delivery_Operations.thy ===== *)
theory Delivery_Operations
  imports Coordinator_Schemas
begin

text \<open>
  The delivery operations of \<^verbatim>\<open>protocol/src/delivery-operations.ts\<close>: the inputs of claim, start,
  renew, complete and release, the receipt every operation leaves behind, and the results a Node
  receives, with the refinements that tie receipt, delivery snapshot and completion events together.
\<close>

section \<open>Inputs\<close>

datatype delivery_operation = Op_claim | Op_start | Op_renew | Op_complete | Op_release | Op_cancel

datatype claim_outcome = Claimed | Claim_dead_lettered

definition release_summary_ok :: "jstext \<Rightarrow> bool" where
  "release_summary_ok t \<longleftrightarrow> 1 \<le> length t \<and> int (length t) \<le> 2000 \<and> js_trim t \<noteq> []"

record claim_input =
  ci_idempotency_key :: string

definition claim_input_ok :: "claim_input \<Rightarrow> bool" where
  "claim_input_ok i \<longleftrightarrow> identifier_ok (ci_idempotency_key i)"

text \<open>The fields of every operation under a lease; \<open>start\<close> and \<open>renew\<close> have no others.\<close>

record lease_operation_input =
  lo_idempotency_key :: string
  lo_lease_id :: uuid
  lo_fencing_token :: string

definition lease_operation_input_ok :: "host_lib \<Rightarrow> 'a lease_operation_input_scheme \<Rightarrow> bool" where
  "lease_operation_input_ok L i \<longleftrightarrow> identifier_ok (lo_idempotency_key i) \<and> uuid_ok L (lo_lease_id i)
     \<and> active_fencing_token_ok (lo_fencing_token i)"

record complete_input = lease_operation_input +
  co_result :: node_delivery_result

definition complete_input_ok :: "host_lib \<Rightarrow> complete_input \<Rightarrow> bool" where
  "complete_input_ok L i \<longleftrightarrow> lease_operation_input_ok L i \<and> node_delivery_result_ok L (co_result i)"

record release_input = lease_operation_input +
  re_classification :: release_classification
  re_summary :: jstext

definition release_input_ok :: "host_lib \<Rightarrow> release_input \<Rightarrow> bool" where
  "release_input_ok L i \<longleftrightarrow> lease_operation_input_ok L i \<and> release_summary_ok (re_summary i)"

record release_details =
  rd_classification :: release_classification
  rd_summary :: jstext

section \<open>Receipts\<close>

record operation_receipt =
  or_receipt_id :: uuid
  or_operation :: delivery_operation
  or_idempotency_key :: string
  or_node_id :: uuid
  or_delivery_id :: uuid
  or_attempt_count :: int
  or_lease :: "lease_authority option"
  or_lease_expires_at :: "timestamp option"
  or_status_before :: delivery_status
  or_status_after :: delivery_status
  or_logical_settlement :: "logical_settlement option"
  or_claim_outcome :: "claim_outcome option"
  or_release :: "release_details option"
  or_cancellation_reason :: "cancellation_reason option"
  or_recorded_at :: timestamp

definition receipt_fields_ok :: "host_lib \<Rightarrow> operation_receipt \<Rightarrow> bool" where
  "receipt_fields_ok L r \<longleftrightarrow>
     uuid_ok L (or_receipt_id r) \<and> identifier_ok (or_idempotency_key r) \<and> uuid_ok L (or_node_id r)
     \<and> uuid_ok L (or_delivery_id r) \<and> 0 \<le> or_attempt_count r \<and> or_attempt_count r \<le> 100
     \<and> nullable (lease_authority_ok L) (or_lease r)
     \<and> nullable (iso_timestamp_ok L) (or_lease_expires_at r)
     \<and> nullable (logical_settlement_ok L) (or_logical_settlement r)
     \<and> nullable (\<lambda>d. release_summary_ok (rd_summary d)) (or_release r)
     \<and> iso_timestamp_ok L (or_recorded_at r)"

definition active_lease_status :: "delivery_status \<Rightarrow> bool" where
  "active_lease_status s \<longleftrightarrow> s = D_leased \<or> s = D_executing"

definition has_valid_status_pair :: "operation_receipt \<Rightarrow> bool" where
  "has_valid_status_pair r =
     (let before = or_status_before r; after = or_status_after r in
      case or_operation r of
        Op_claim \<Rightarrow>
          (if or_claim_outcome r = Some Claimed then before = D_stored \<and> after = D_leased
           else or_claim_outcome r = Some Claim_dead_lettered
             \<and> (before = D_leased \<or> before = D_executing) \<and> after = D_dead_lettered)
      | Op_start \<Rightarrow> before = D_leased \<and> after = D_executing
      | Op_renew \<Rightarrow> (before = D_leased \<or> before = D_executing) \<and> after = before
      | Op_complete \<Rightarrow> before = D_executing \<and> after = D_acknowledged
      | Op_release \<Rightarrow>
          (if \<not> ((before = D_leased \<or> before = D_executing) \<and> (after = D_stored \<or> after = D_dead_lettered))
           then False
           else map_option rd_classification (or_release r) = Some R_transient \<or> after = D_dead_lettered)
      | Op_cancel \<Rightarrow>
          (before = D_stored \<or> before = D_leased \<or> before = D_executing) \<and> after = D_cancelled)"

definition requires_presented_lease :: "operation_receipt \<Rightarrow> bool" where
  "requires_presented_lease r \<longleftrightarrow> or_operation r = Op_start \<or> or_operation r = Op_renew
     \<or> or_operation r = Op_complete \<or> or_operation r = Op_release"

definition receipt_issues :: "host_lib \<Rightarrow> operation_receipt \<Rightarrow> issue list" where
  "receipt_issues L r =
     (let op = or_operation r;
          claimed = (op = Op_claim \<and> or_claim_outcome r = Some Claimed);
          owned = (requires_presented_lease r \<or> claimed);
          recorded = date_parse L (or_recorded_at r) in
     add_issue (\<not> has_valid_status_pair r)
       ''Delivery operation has an invalid status transition'' [Key ''status_after'']
   @ add_issue (owned \<and> (or_lease r = None \<or> or_lease_expires_at r = None))
       ''Lease-owned operation requires its authority and deadline'' [Key ''lease'']
   @ add_issue (op = Op_claim \<and> or_claim_outcome r = Some Claim_dead_lettered
         \<and> (or_lease r \<noteq> None \<or> or_lease_expires_at r \<noteq> None))
       ''Dead-lettered claim outcome has no active lease'' [Key ''lease'']
   @ add_issue (op = Op_cancel
         \<and> active_lease_status (or_status_before r) \<noteq> (or_lease r \<noteq> None \<and> or_lease_expires_at r \<noteq> None))
       ''Cancellation receipt retains authority only for an active prior lease'' [Key ''lease'']
   @ add_issue ((or_lease r = None) \<noteq> (or_lease_expires_at r = None))
       ''Lease authority and deadline must be present together'' [Key ''lease_expires_at'']
   @ add_issue (op \<noteq> Op_cancel \<and> or_attempt_count r = 0)
       ''Node delivery operations require an execution attempt'' [Key ''attempt_count'']
   @ add_issue ((op = Op_claim) \<noteq> (or_claim_outcome r \<noteq> None))
       ''Only claim receipts carry a claim outcome'' [Key ''claim_outcome'']
   @ add_issue ((op = Op_release) \<noteq> (or_release r \<noteq> None))
       ''Only release receipts carry release details'' [Key ''release'']
   @ add_issue ((op = Op_cancel) \<noteq> (or_cancellation_reason r \<noteq> None))
       ''Only cancellation receipts carry a cancellation reason'' [Key ''cancellation_reason'']
   @ (if op = Op_complete
      then add_issue (or_logical_settlement r = None)
        ''Completion receipt requires logical settlement'' [Key ''logical_settlement'']
      else add_issue (op \<noteq> Op_cancel \<and> or_logical_settlement r \<noteq> None)
        ''Only completion or cancellation may carry logical settlement'' [Key ''logical_settlement''])
   @ add_issue (owned \<and> (case or_lease_expires_at r of None \<Rightarrow> False
         | Some expires \<Rightarrow> num_le (date_parse L expires) recorded))
       ''Lease-owned operation must be recorded before its deadline'' [Key ''recorded_at'']
   @ add_issue (case or_logical_settlement r of None \<Rightarrow> False
         | Some x \<Rightarrow> num_lt recorded (date_parse L (ls_settled_at x)))
       ''Logical settlement cannot follow its operation receipt''
       [Key ''logical_settlement'', Key ''settled_at''])"

definition operation_receipt_ok :: "host_lib \<Rightarrow> operation_receipt \<Rightarrow> bool" where
  "operation_receipt_ok L r \<longleftrightarrow> receipt_fields_ok L r \<and> receipt_issues L r = []"

text \<open>The receipt schemas of the single operations.\<close>

definition receipt_of_ok :: "host_lib \<Rightarrow> delivery_operation \<Rightarrow> operation_receipt \<Rightarrow> bool" where
  "receipt_of_ok L op r \<longleftrightarrow> operation_receipt_ok L r \<and> or_operation r = op"

section \<open>Results\<close>

definition receipt_against_delivery_issues :: "delivery \<Rightarrow> operation_receipt \<Rightarrow> issue list" where
  "receipt_against_delivery_issues d r =
     add_issue (d_delivery_id d \<noteq> or_delivery_id r \<or> d_node_id d \<noteq> or_node_id r
         \<or> d_attempt_count d \<noteq> or_attempt_count r \<or> d_status d \<noteq> or_status_after r)
       ''Operation receipt must describe the returned delivery snapshot'' [Key ''receipt'']
   @ add_issue (d_logical_settlement d \<noteq> or_logical_settlement r)
       ''Operation receipt must retain the delivery's logical settlement''
       [Key ''receipt'', Key ''logical_settlement'']
   @ add_issue (d_cancellation_reason d \<noteq> or_cancellation_reason r)
       ''Operation receipt must retain the delivery's cancellation reason''
       [Key ''receipt'', Key ''cancellation_reason'']
   @ (if or_status_after r = D_leased \<or> or_status_after r = D_executing
      then add_issue (case (d_lease d, or_lease r) of
             (Some l, Some a) \<Rightarrow> dl_lease_id l \<noteq> la_lease_id a \<or> dl_fencing_token l \<noteq> la_fencing_token a
               \<or> Some (dl_expires_at l) \<noteq> or_lease_expires_at r
           | _ \<Rightarrow> True)
        ''Operation receipt must retain the returned active lease'' [Key ''receipt'', Key ''lease'']
      else add_issue (d_lease d \<noteq> None)
        ''Settled operation result cannot retain an active lease'' [Key ''delivery'', Key ''lease''])"

record operation_result =
  ors_delivery :: delivery
  ors_receipt :: operation_receipt
  ors_replayed :: bool

definition operation_result_ok :: "host_lib \<Rightarrow> 'a operation_result_scheme \<Rightarrow> bool" where
  "operation_result_ok L x \<longleftrightarrow> delivery_ok L (ors_delivery x) \<and> operation_receipt_ok L (ors_receipt x)
     \<and> receipt_against_delivery_issues (ors_delivery x) (ors_receipt x) = []"

definition result_of_ok :: "host_lib \<Rightarrow> delivery_operation \<Rightarrow> operation_result \<Rightarrow> bool" where
  "result_of_ok L op x \<longleftrightarrow> operation_result_ok L x \<and> or_operation (ors_receipt x) = op"

datatype claim_result =
  Claimed_result mission_delivery_item operation_receipt bool
| Dead_lettered_result delivery operation_receipt bool

fun claim_result_delivery :: "claim_result \<Rightarrow> delivery" where
  "claim_result_delivery (Claimed_result i r b) = mdi_delivery i"
| "claim_result_delivery (Dead_lettered_result d r b) = d"

fun claim_result_receipt :: "claim_result \<Rightarrow> operation_receipt" where
  "claim_result_receipt (Claimed_result i r b) = r"
| "claim_result_receipt (Dead_lettered_result d r b) = r"

fun claim_result_outcome :: "claim_result \<Rightarrow> claim_outcome" where
  "claim_result_outcome (Claimed_result i r b) = Claimed"
| "claim_result_outcome (Dead_lettered_result d r b) = Claim_dead_lettered"

definition claim_result_issues :: "claim_result \<Rightarrow> issue list" where
  "claim_result_issues x =
     (let d = claim_result_delivery x; r = claim_result_receipt x; claimed = (claim_result_outcome x = Claimed)
      in receipt_against_delivery_issues d r
       @ add_issue (or_claim_outcome r \<noteq> Some (claim_result_outcome x))
           ''Claim receipt outcome must match the result outcome'' [Key ''receipt'', Key ''claim_outcome'']
       @ add_issue (d_status d \<noteq> (if claimed then D_leased else D_dead_lettered))
           (if claimed then ''Claim claimed outcome requires leased delivery state''
            else ''Claim dead_lettered outcome requires dead_lettered delivery state'')
           (if claimed then [Key ''item'', Key ''delivery'', Key ''status'']
            else [Key ''delivery'', Key ''status'']))"

fun claim_result_fields_ok :: "host_lib \<Rightarrow> claim_result \<Rightarrow> bool" where
  "claim_result_fields_ok L (Claimed_result i r b) =
     (mission_delivery_item_ok L i \<and> receipt_of_ok L Op_claim r)"
| "claim_result_fields_ok L (Dead_lettered_result d r b) =
     (delivery_ok L d \<and> receipt_of_ok L Op_claim r)"

definition claim_result_ok :: "host_lib \<Rightarrow> claim_result \<Rightarrow> bool" where
  "claim_result_ok L x \<longleftrightarrow> claim_result_fields_ok L x \<and> claim_result_issues x = []"

section \<open>Completion results\<close>

record complete_result = operation_result +
  cmr_events :: "coordinator_event list"
  cmr_derived_delivery_ids :: "uuid list"

datatype coordinator_event_kind =
  Participants_accepted_kind | Turn_completed_kind | Contract_acknowledged_kind
| Verification_recorded_kind | Mission_terminal_kind

fun event_kind :: "event_body \<Rightarrow> coordinator_event_kind" where
  "event_kind (Participants_accepted ids c) = Participants_accepted_kind"
| "event_kind (Turn_completed p d v x m r) = Turn_completed_kind"
| "event_kind (Contract_acknowledged p d r v a) = Contract_acknowledged_kind"
| "event_kind (Verification_recorded p d v r e) = Verification_recorded_kind"
| "event_kind (Mission_terminal k r t) = Mission_terminal_kind"

definition relay_owned :: "coordinator_event \<Rightarrow> bool" where
  "relay_owned e \<longleftrightarrow> event_kind (ev_body e) = Participants_accepted_kind
     \<or> event_kind (ev_body e) = Mission_terminal_kind"

fun expected_event_kind :: "delivery_kind \<Rightarrow> coordinator_event_kind" where
  "expected_event_kind K_turn = Turn_completed_kind"
| "expected_event_kind K_contract_acknowledgement = Contract_acknowledged_kind"
| "expected_event_kind K_verification = Verification_recorded_kind"

definition event_matches_delivery :: "delivery \<Rightarrow> coordinator_event \<Rightarrow> bool" where
  "event_matches_delivery d e \<longleftrightarrow>
     ev_mission_id e = d_mission_id d \<and> body_delivery_id (ev_body e) = d_delivery_id d
     \<and> event_kind (ev_body e) = expected_event_kind (d_kind d)
     \<and> body_version (ev_body e) = d_contract_version d
     \<and> (case ev_body e of Verification_recorded p i v round evidence \<Rightarrow> Some round = d_verification_round d
        | _ \<Rightarrow> True)"

definition completion_event_issues ::
  "delivery \<Rightarrow> coordinator_event list \<Rightarrow> nat \<Rightarrow> coordinator_event \<Rightarrow> issue list" where
  "completion_event_issues d events index e =
     (if relay_owned e
      then add_issue True ''Completion events must exactly match the returned delivery work''
        [Key ''events'', Index index]
      else add_issue (\<not> event_matches_delivery d e)
          ''Completion events must exactly match the returned delivery work'' [Key ''events'', Index index]
        @ add_issue (0 < index \<and> ev_sequence_no e \<noteq> ev_sequence_no (events ! (index - 1)) + 1)
          ''Completion events must have contiguous coordinator sequence numbers''
          [Key ''events'', Index index, Key ''sequence_no''])"

definition is_verification :: "coordinator_event \<Rightarrow> bool" where
  "is_verification e \<longleftrightarrow> event_kind (ev_body e) = Verification_recorded_kind"

definition verification_set_issues :: "coordinator_event list \<Rightarrow> issue list" where
  "verification_set_issues events =
     (case filter is_verification events of
        [] \<Rightarrow> []
      | first # others \<Rightarrow>
          (let vs = first # others in
           add_issue (\<not> has_unique_values (map (\<lambda>e. e_command_id (body_evidence (ev_body e))) vs)
               \<or> \<not> has_unique_values (map (\<lambda>e. e_verification_id (body_evidence (ev_body e))) vs)
               \<or> list_ex (\<lambda>e. body_participant (ev_body e) \<noteq> body_participant (ev_body first)
                    \<or> body_version (ev_body e) \<noteq> body_version (ev_body first)
                    \<or> body_round (ev_body e) \<noteq> body_round (ev_body first)) vs)
             ''Verification completion events must be one coherent unique command set'' [Key ''events'']))"

definition complete_result_issues :: "complete_result \<Rightarrow> issue list" where
  "complete_result_issues x =
     (let d = ors_delivery x; events = cmr_events x in
      receipt_against_delivery_issues d (ors_receipt x)
    @ (if list_ex relay_owned events
       then add_issue True ''A Node completion cannot publish Relay-owned Mission events'' [Key ''events'']
       else
         (let kind = event_kind (ev_body (hd events)) in
          indexed_issues (completion_event_issues d events) events
        @ add_issue (map_option ls_settled_by_event_id (d_logical_settlement d)
              \<noteq> Some (ev_event_id (last events)))
            ''Final completion event must match the delivery's logical settlement''
            [Key ''delivery'', Key ''logical_settlement'', Key ''settled_by_event_id'']
        @ add_issue ((kind \<noteq> Verification_recorded_kind \<and> length events \<noteq> 1)
              \<or> list_ex (\<lambda>e. event_kind (ev_body e) \<noteq> kind) events)
            ''Turn and acknowledgement completion return one event; verification returns only evidence events''
            [Key ''events'']
        @ (if kind = Verification_recorded_kind then verification_set_issues events else [])
        @ add_issue (\<not> has_unique_values (cmr_derived_delivery_ids x))
            ''Derived delivery IDs must be unique'' [Key ''derived_delivery_ids''])))"

definition complete_result_ok :: "host_lib \<Rightarrow> complete_result \<Rightarrow> bool" where
  "complete_result_ok L x \<longleftrightarrow> delivery_ok L (ors_delivery x) \<and> receipt_of_ok L Op_complete (ors_receipt x)
     \<and> list_all (coordinator_event_ok L) (cmr_events x)
     \<and> 1 \<le> length (cmr_events x) \<and> length (cmr_events x) \<le> 16
     \<and> list_all (uuid_ok L) (cmr_derived_delivery_ids x) \<and> length (cmr_derived_delivery_ids x) \<le> 2
     \<and> complete_result_issues x = []"

end
