(* ===== verification/Operation_Laws.thy ===== *)
theory Operation_Laws
  imports Delivery_Operations Coordinator_Samples
begin

text \<open>
  The laws of operation receipts and results: the receipts describe the delivery state machine, and a
  result that parses is coherent.
\<close>

section \<open>Receipts and the state machine\<close>

text \<open>The operation a delivery event is recorded as.\<close>

fun operation_of :: "delivery_event \<Rightarrow> delivery_operation" where
  "operation_of (E_lease c x) = Op_claim"
| "operation_of (E_renew_lease c x) = Op_renew"
| "operation_of (E_start_execution c) = Op_start"
| "operation_of (E_acknowledge c) = Op_complete"
| "operation_of (E_release c k) = Op_release"
| "operation_of (E_lease_expired c) = Op_claim"
| "operation_of (E_cancel r n) = Op_cancel"

fun claim_outcome_of :: "delivery_event \<Rightarrow> claim_outcome option" where
  "claim_outcome_of (E_lease c x) = Some Claimed"
| "claim_outcome_of (E_lease_expired c) = Some Claim_dead_lettered"
| "claim_outcome_of _ = None"

fun release_of :: "delivery_event \<Rightarrow> release_classification option" where
  "release_of (E_release c k) = Some k"
| "release_of _ = None"

definition records_transition ::
  "delivery_state \<Rightarrow> delivery_event \<Rightarrow> delivery_state \<Rightarrow> operation_receipt \<Rightarrow> bool" where
  "records_transition s e t r \<longleftrightarrow> or_operation r = operation_of e
     \<and> or_status_before r = ds_status s \<and> or_status_after r = ds_status t
     \<and> or_claim_outcome r = claim_outcome_of e
     \<and> map_option rd_classification (or_release r) = release_of e"

text \<open>Every step the delivery state machine takes, except an expiry that puts work back in store, has
  a status pair that the receipt of its operation allows.\<close>

theorem transition_has_receipt:
  assumes "transition_delivery_state L s e = Inr t" and "records_transition s e t r"
    and "\<not> (\<exists>c. e = E_lease_expired c \<and> ds_status t = D_stored)"
  shows "has_valid_status_pair r"
  using assms(1)
proof (cases rule: transition_cases)
  case (retire c d)
  with assms(2,3) show ?thesis
    by (auto simp: records_transition_def has_valid_status_pair_def Let_def split: if_splits)
       (metis release_classification.exhaust)+
qed (use assms(2) in \<open>auto simp: records_transition_def has_valid_status_pair_def Let_def\<close>)

text \<open>The delivery events that can have led from one status to another.\<close>

definition receipt_event_type :: "operation_receipt \<Rightarrow> delivery_event_type" where
  "receipt_event_type r = (case or_operation r of
     Op_claim \<Rightarrow> if or_claim_outcome r = Some Claimed then Lease_ev else Lease_expired_ev
   | Op_start \<Rightarrow> Start_execution_ev | Op_renew \<Rightarrow> Renew_lease_ev | Op_complete \<Rightarrow> Acknowledge_ev
   | Op_release \<Rightarrow> Release_ev | Op_cancel \<Rightarrow> Cancel_delivery_ev)"

text \<open>A receipt that parses records a move of the delivery table: the event of its operation is
  allowed in the earlier status, and the later status is the table's, or dead-lettered where the table
  puts the work back in store.\<close>

theorem receipt_follows_table:
  assumes "operation_receipt_ok L r"
  shows "case delivery_transitions (or_status_before r) (receipt_event_type r) of None \<Rightarrow> False
    | Some next \<Rightarrow> or_status_after r = next \<or> next = D_stored \<and> or_status_after r = D_dead_lettered"
proof -
  have pair: "has_valid_status_pair r"
    using assms by (simp add: operation_receipt_ok_def receipt_issues_def Let_def)
  show ?thesis
  proof (cases "or_operation r")
    case Op_claim
    with pair show ?thesis by (auto simp: has_valid_status_pair_def receipt_event_type_def Let_def split: if_splits)
  next
    case Op_start
    with pair show ?thesis by (auto simp: has_valid_status_pair_def receipt_event_type_def Let_def split: if_splits)
  next
    case Op_renew
    with pair show ?thesis by (auto simp: has_valid_status_pair_def receipt_event_type_def Let_def split: if_splits)
  next
    case Op_complete
    with pair show ?thesis by (auto simp: has_valid_status_pair_def receipt_event_type_def Let_def split: if_splits)
  next
    case Op_release
    with pair show ?thesis by (auto simp: has_valid_status_pair_def receipt_event_type_def Let_def split: if_splits)
  next
    case Op_cancel
    with pair show ?thesis by (auto simp: has_valid_status_pair_def receipt_event_type_def Let_def split: if_splits)
  qed
qed

section \<open>Results\<close>

text \<open>A claim result that says \<open>claimed\<close> carries leased work whose lease is exactly the authority on
  the receipt: the same lease id, a fencing token that spells the attempt count, at least one attempt,
  and a receipt not recorded at or after the deadline.\<close>

theorem claimed_result_authority:
  assumes "claim_result_ok L (Claimed_result item r b)"
  shows "\<exists>l a. d_status (mdi_delivery item) = D_leased \<and> d_lease (mdi_delivery item) = Some l
    \<and> or_lease r = Some a \<and> dl_lease_id l = la_lease_id a \<and> dl_fencing_token l = la_fencing_token a
    \<and> la_fencing_token a = string_of_int (or_attempt_count r) \<and> 1 \<le> or_attempt_count r
    \<and> or_attempt_count r \<le> d_max_attempts (mdi_delivery item)
    \<and> or_status_before r = D_stored
    \<and> \<not> num_le (date_parse L (dl_expires_at l)) (date_parse L (or_recorded_at r))"
proof -
  let ?d = "mdi_delivery item"
  have parts: "delivery_ok L ?d" "operation_receipt_ok L r" "or_operation r = Op_claim"
    "receipt_against_delivery_issues ?d r = []" "or_claim_outcome r = Some Claimed" "d_status ?d = D_leased"
    using assms by (auto simp: claim_result_ok_def claim_result_issues_def Let_def
        mission_delivery_item_ok_def receipt_of_ok_def)
  then obtain l a where la: "d_lease ?d = Some l" "or_lease r = Some a" "dl_lease_id l = la_lease_id a"
    "dl_fencing_token l = la_fencing_token a" "or_lease_expires_at r = Some (dl_expires_at l)"
    "or_attempt_count r = d_attempt_count ?d"
    by (auto simp: receipt_against_delivery_issues_def split: option.splits)
  have "or_status_before r = D_stored"
    "\<not> num_le (date_parse L (dl_expires_at l)) (date_parse L (or_recorded_at r))"
    using parts la by (auto simp: operation_receipt_ok_def receipt_issues_def has_valid_status_pair_def Let_def)
  moreover have "dl_fencing_token l = string_of_int (d_attempt_count ?d)" "d_attempt_count ?d \<noteq> 0"
    "d_attempt_count ?d \<le> d_max_attempts ?d" "0 \<le> d_attempt_count ?d"
    using parts la
    by (auto simp: delivery_ok_def delivery_issues_def delivery_shape_issues_def needs_lease_def
        delivery_fields_ok_def)
  ultimately show ?thesis using parts la by auto
qed

lemma consecutive_numbers:
  assumes "\<And>i. 0 < i \<Longrightarrow> i < length es \<Longrightarrow> f (es ! i) = f (es ! (i - 1)) + (1 :: int)"
  shows "map f es = map (\<lambda>i. f (hd es) + int i) [0..<length es]"
proof (intro nth_equalityI)
  fix i assume "i < length (map f es)"
  then have "i < length es" by simp
  then have "f (es ! i) = f (hd es) + int i"
  proof (induction i)
    case 0
    then show ?case by (cases es) auto
  next
    case (Suc i)
    with assms [of "Suc i"] show ?case by simp
  qed
  then show "map f es ! i = map (\<lambda>i. f (hd es) + int i) [0..<length es] ! i" using \<open>i < length es\<close> by simp
qed simp

text \<open>C36. The events of a completion result are one gapless block of coordinator events of this delivery
  and contract version; they settle the delivery, which is acknowledged, and unless they are
  verification results there is exactly one.\<close>

theorem completion_events_coherent:
  assumes "complete_result_ok L x"
  shows "let d = ors_delivery x; es = cmr_events x in
    d_status d = D_acknowledged
    \<and> map ev_sequence_no es = map (\<lambda>i. ev_sequence_no (hd es) + int i) [0..<length es]
    \<and> list_all (\<lambda>e. ev_mission_id e = d_mission_id d \<and> body_delivery_id (ev_body e) = d_delivery_id d
        \<and> body_version (ev_body e) = d_contract_version d) es
    \<and> map_option ls_settled_by_event_id (d_logical_settlement d) = Some (ev_event_id (last es))
    \<and> (d_kind d \<noteq> K_verification \<longrightarrow> length es = 1)
    \<and> (d_kind d = K_verification \<longrightarrow> distinct (map (\<lambda>e. e_command_id (body_evidence (ev_body e))) es))"
proof -
  let ?d = "ors_delivery x" and ?es = "cmr_events x" and ?r = "ors_receipt x"
  have parts: "operation_receipt_ok L ?r" "or_operation ?r = Op_complete"
    "receipt_against_delivery_issues ?d ?r = []" "?es \<noteq> []" "complete_result_issues x = []"
    using assms by (auto simp: complete_result_ok_def receipt_of_ok_def complete_result_issues_def Let_def)
  then have not_owned: "\<not> list_ex relay_owned ?es" by (auto simp: complete_result_issues_def Let_def)
  with parts(5) have each: "completion_event_issues ?d ?es i (?es ! i) = []" if "i < length ?es" for i
    using that by (simp add: complete_result_issues_def Let_def)
  have owned: "\<not> relay_owned (?es ! i)" if "i < length ?es" for i
    using that not_owned by (auto simp: list_ex_iff)
  have matches: "event_matches_delivery ?d e" if "e \<in> set ?es" for e
    using that each owned by (auto simp: in_set_conv_nth completion_event_issues_def)
  have "has_valid_status_pair ?r" "or_status_after ?r = d_status ?d"
    using parts(1,3) by (simp_all add: operation_receipt_ok_def receipt_issues_def
        receipt_against_delivery_issues_def Let_def)
  with parts(2) have ack: "d_status ?d = D_acknowledged" by (simp add: has_valid_status_pair_def Let_def)
  have seq: "map ev_sequence_no ?es = map (\<lambda>i. ev_sequence_no (hd ?es) + int i) [0..<length ?es]"
  proof (intro consecutive_numbers)
    fix i assume "0 < i" "i < length ?es"
    with each [of i] owned [of i] show "ev_sequence_no (?es ! i) = ev_sequence_no (?es ! (i - 1)) + 1"
      by (auto simp: completion_event_issues_def)
  qed
  have kind: "event_kind (ev_body (hd ?es)) = expected_event_kind (d_kind ?d)"
    using matches [of "hd ?es"] parts(4) by (simp add: event_matches_delivery_def)
  have settle: "map_option ls_settled_by_event_id (d_logical_settlement ?d) = Some (ev_event_id (last ?es))"
    using parts(5) not_owned by (simp add: complete_result_issues_def Let_def)
  have one: "length ?es = 1" if "d_kind ?d \<noteq> K_verification"
    using that parts(5) not_owned kind
    by (cases "d_kind ?d") (auto simp: complete_result_issues_def Let_def)
  have unique: "distinct (map (\<lambda>e. e_command_id (body_evidence (ev_body e))) ?es)" if "d_kind ?d = K_verification"
  proof -
    have "filter is_verification ?es = ?es"
      using matches that by (auto simp: event_matches_delivery_def is_verification_def intro: filter_True)
    moreover have "verification_set_issues ?es = []"
      using that parts(5) not_owned kind by (simp add: complete_result_issues_def Let_def)
    ultimately show ?thesis
      using parts(4) by (auto simp: verification_set_issues_def Let_def split: list.splits)
  qed
  show ?thesis
    using ack seq matches settle one unique by (auto simp: Let_def list_all_iff event_matches_delivery_def)
qed

section \<open>Witnesses\<close>

definition sample_receipt ::
  "delivery_operation \<Rightarrow> delivery_status \<Rightarrow> delivery_status \<Rightarrow> logical_settlement option \<Rightarrow> operation_receipt" where
  "sample_receipt op before after settlement = \<lparr>or_receipt_id = uid ''51'', or_operation = op,
     or_idempotency_key = ''op-1'', or_node_id = uid ''90'', or_delivery_id = uid ''21'',
     or_attempt_count = 1,
     or_lease = Some \<lparr>la_lease_id = uid ''11'', la_fencing_token = ''1''\<rparr>,
     or_lease_expires_at = Some ''2026-01-01T00:05:00Z'', or_status_before = before,
     or_status_after = after, or_logical_settlement = settlement,
     or_claim_outcome = (if op = Op_claim then Some Claimed else None), or_release = None,
     or_cancellation_reason = None, or_recorded_at = ''2026-01-01T00:00:01Z''\<rparr>"

definition sample_work :: delivery where
  "sample_work = (sample_delivery ''21'' ''5'')\<lparr>d_mission_event_id := uid ''02'', d_status := D_leased,
     d_attempt_count := 1, d_last_fencing_token := ''1'',
     d_lease := Some \<lparr>dl_lease_id = uid ''11'', dl_fencing_token = ''1'', dl_expires_at = ''2026-01-01T00:05:00Z''\<rparr>\<rparr>"

definition sample_turn_event :: coordinator_event where
  "sample_turn_event = sample_events ! 1"

definition sample_item :: mission_delivery_item where
  "sample_item = \<lparr>mdi_delivery = sample_work, mdi_event = sample_turn_event, mdi_actor_agent_id = agent_a,
     mdi_source_delivery_id = Some (uid ''21''), mdi_causal_parent_event_id = None\<rparr>"

definition sample_settlement :: logical_settlement where
  "sample_settlement = \<lparr>ls_settled_by_event_id = uid ''02'', ls_settled_at = ''2026-01-01T00:00:01Z''\<rparr>"

definition sample_completion :: complete_result where
  "sample_completion = \<lparr>ors_delivery = sample_work\<lparr>d_status := D_acknowledged, d_lease := None,
       d_logical_settlement := Some sample_settlement, d_updated_at := ''2026-01-01T00:00:01Z'',
       d_acknowledged_at := Some ''2026-01-01T00:00:01Z''\<rparr>,
     ors_receipt = sample_receipt Op_complete D_executing D_acknowledged (Some sample_settlement),
     ors_replayed = False, cmr_events = [sample_turn_event], cmr_derived_delivery_ids = [uid ''61'']\<rparr>"

lemma sample_claim_result_ok:
  "claim_result_ok sample_lib
     (Claimed_result sample_item (sample_receipt Op_claim D_stored D_leased None) False)"
  by code_simp

lemma sample_completion_ok: "complete_result_ok sample_lib sample_completion"
  by code_simp

theorem claimed_result_authority_witness:
  "\<exists>a. or_lease (sample_receipt Op_claim D_stored D_leased None) = Some a
     \<and> la_fencing_token a = string_of_int (or_attempt_count (sample_receipt Op_claim D_stored D_leased None))"
  using claimed_result_authority [OF sample_claim_result_ok] by blast

theorem completion_events_coherent_witness:
  "d_status (ors_delivery sample_completion) = D_acknowledged \<and> length (cmr_events sample_completion) = 1"
  using completion_events_coherent [OF sample_completion_ok]
  by (simp add: Let_def sample_completion_def)

theorem receipt_follows_table_witness:
  "case delivery_transitions D_stored (receipt_event_type (sample_receipt Op_claim D_stored D_leased None)) of
     None \<Rightarrow> False | Some next \<Rightarrow> next = D_leased"
proof -
  have "operation_receipt_ok sample_lib (sample_receipt Op_claim D_stored D_leased None)" by code_simp
  from receipt_follows_table [OF this] show ?thesis
    by (simp add: sample_receipt_def split: option.splits)
qed

theorem transition_has_receipt_witness:
  "has_valid_status_pair (sample_receipt Op_start D_leased D_executing None)"
proof -
  let ?e = "E_start_execution (sample_claim ''2'' ''2026-01-01T00:03:30Z'')"
  have step: "transition_delivery_state sample_lib sample_leased_state ?e
      = Inr (sample_leased_state\<lparr>ds_status := D_executing\<rparr>)" by code_simp
  show ?thesis
    by (rule transition_has_receipt [OF step])
       (simp_all add: records_transition_def sample_receipt_def sample_leased_state_def)
qed

end
