(* ===== verification/Host_Stream.thy ===== *)
theory Host_Stream
  imports Deliveries
begin

text \<open>
  The host adapter contract of \<^verbatim>\<open>protocol/src/adapter.ts\<close>: the inputs of a host turn, the events a
  host emits, and the checked event stream that \<open>acceptHostEvent\<close> keeps.  The JSON text of an artifact
  payload is taken as parsed (\<open>JSON.parse\<close> is not modelled); bounded JSON values are in the theory
  \<open>Bounded_Json\<close>.
\<close>

section \<open>Sessions and turns\<close>

abbreviation "max_host_text_length \<equiv> (16000 :: int)"
abbreviation "max_provider_tokens \<equiv> (100000000 :: int)"

definition host_workspace_alias_ok :: "string \<Rightarrow> bool" where
  "host_workspace_alias_ok s \<longleftrightarrow> 1 \<le> length s \<and> length s \<le> 64
     \<and> head_tail is_alnum (\<lambda>c. is_alnum c \<or> c \<in> set ''._-'') s"

definition host_text_ok :: "jstext \<Rightarrow> bool" where
  "host_text_ok t \<longleftrightarrow> 1 \<le> length t \<and> int (length t) \<le> max_host_text_length \<and> js_trim t \<noteq> []"

definition host_output_chunk_ok :: "jstext \<Rightarrow> bool" where
  "host_output_chunk_ok t \<longleftrightarrow> 1 \<le> length t \<and> int (length t) \<le> max_host_text_length"

definition host_artifact_text_ok :: "jstext \<Rightarrow> bool" where
  "host_artifact_text_ok t \<longleftrightarrow> int (length t) \<le> max_artifact_bytes"

definition safe_positive :: "int \<Rightarrow> bool" where
  "safe_positive n \<longleftrightarrow> 0 < n \<and> n \<le> max_safe_integer"

datatype usage_capability = Turn_cumulative | Usage_unavailable

record adapter_info =
  ai_name :: jstext
  ai_version :: jstext
  ai_cancellation :: bool
  ai_recovery :: bool
  ai_usage :: usage_capability

definition adapter_info_ok :: "adapter_info \<Rightarrow> bool" where
  "adapter_info_ok i \<longleftrightarrow> runtime_name_ok (ai_name i) \<and> runtime_name_ok (ai_version i)"

record session_input =
  si_mission_id :: uuid
  si_participant_id :: uuid
  si_workspace_alias :: string

definition session_input_ok :: "host_lib \<Rightarrow> 'a session_input_scheme \<Rightarrow> bool" where
  "session_input_ok L i \<longleftrightarrow> uuid_ok L (si_mission_id i) \<and> uuid_ok L (si_participant_id i)
     \<and> host_workspace_alias_ok (si_workspace_alias i)"

record host_session = session_input +
  hs_session_id :: jstext

definition host_session_ok :: "host_lib \<Rightarrow> host_session \<Rightarrow> bool" where
  "host_session_ok L s \<longleftrightarrow> session_input_ok L s \<and> opaque_reference_ok (hs_session_id s)"

record host_mission_text =
  ht_text :: jstext
  ht_author_principal_id :: uuid

definition host_mission_text_ok :: "host_lib \<Rightarrow> host_mission_text \<Rightarrow> bool" where
  "host_mission_text_ok L t \<longleftrightarrow> host_text_ok (ht_text t) \<and> uuid_ok L (ht_author_principal_id t)"

record host_peer_message =
  hp_message_id :: uuid
  hp_author_agent_id :: uuid
  hp_kind :: message_type
  hp_body :: jstext

definition host_peer_message_ok :: "host_lib \<Rightarrow> host_peer_message \<Rightarrow> bool" where
  "host_peer_message_ok L m \<longleftrightarrow> uuid_ok L (hp_message_id m) \<and> uuid_ok L (hp_author_agent_id m)
     \<and> host_text_ok (hp_body m)"

section \<open>Input artifacts\<close>

datatype artifact_payload = Text_payload jstext | Json_payload jstext

fun serialize_host_artifact_payload :: "artifact_payload \<Rightarrow> jstext" where
  "serialize_host_artifact_payload (Text_payload t) = t"
| "serialize_host_artifact_payload (Json_payload raw) = raw"

definition lower_unit :: "16 word \<Rightarrow> 16 word" where
  "lower_unit u = (if 0x41 \<le> u \<and> u \<le> 0x5A then u + 32 else u)"

text \<open>\<open>split(";", 1)[0]\<close>, trimmed and lower-cased; the media types of interest are ASCII, so only
  the ASCII part of \<open>toLowerCase\<close> matters for the comparison with \<open>application/json\<close>, while the
  pattern admits any other character in the middle.\<close>

definition has_json_media_type :: "jstext \<Rightarrow> bool" where
  "has_json_media_type media_type =
     (let essence = map lower_unit (js_trim (before_char (of_char (CHR '';'')) media_type));
          head = text_of ''application/''; tail = text_of ''+json'';
          middle = drop (length head) (take (length essence - length tail) essence)
      in essence = text_of ''application/json''
         \<or> (prefix head essence \<and> suffix tail essence \<and> middle \<noteq> []
            \<and> length head + length tail < length essence
            \<and> list_all (\<lambda>u. u \<noteq> of_char (CHR ''/'') \<and> u \<noteq> of_char (CHR '';'')) middle))"

record host_input_artifact =
  hi_artifact :: artifact_ref
  hi_source :: actor_ref
  hi_payload :: artifact_payload

fun is_json_payload :: "artifact_payload \<Rightarrow> bool" where
  "is_json_payload (Json_payload raw) = True"
| "is_json_payload (Text_payload t) = False"

definition host_input_artifact_issues :: "host_lib \<Rightarrow> host_input_artifact \<Rightarrow> issue list" where
  "host_input_artifact_issues L a =
     (let serialized = serialize_host_artifact_payload (hi_payload a) in
     add_issue (has_json_media_type (a_media_type (hi_artifact a)) \<noteq> is_json_payload (hi_payload a))
       ''JSON media types require a JSON payload, and vice versa'' [Key ''payload'', Key ''kind'']
   @ add_issue (int (utf8_length serialized) \<noteq> a_byte_size (hi_artifact a))
       ''Artifact byte length does not match its UTF-8 payload'' [Key ''artifact'', Key ''byte_size'']
   @ add_issue (sha256_hex L serialized \<noteq> a_sha256 (hi_artifact a))
       ''Artifact hash does not match its UTF-8 payload'' [Key ''artifact'', Key ''sha256''])"

definition host_input_artifact_ok :: "host_lib \<Rightarrow> host_input_artifact \<Rightarrow> bool" where
  "host_input_artifact_ok L a \<longleftrightarrow> artifact_ref_ok L (hi_artifact a) \<and> actor_ref_ok L (hi_source a)
     \<and> host_artifact_text_ok (serialize_host_artifact_payload (hi_payload a))
     \<and> host_input_artifact_issues L a = []"

section \<open>Turn inputs\<close>

record turn_input =
  ti_session :: host_session
  ti_mission_id :: uuid
  ti_contract_version :: int
  ti_mission_sequence :: int
  ti_objective :: host_mission_text
  ti_assignment :: host_mission_text
  ti_acceptance_criteria :: "host_mission_text list"
  ti_peer_messages :: "host_peer_message list"
  ti_artifacts :: "host_input_artifact list"

definition turn_input_ok :: "host_lib \<Rightarrow> 'a turn_input_scheme \<Rightarrow> bool" where
  "turn_input_ok L i \<longleftrightarrow>
     host_session_ok L (ti_session i) \<and> uuid_ok L (ti_mission_id i)
     \<and> contract_version_ok (ti_contract_version i) \<and> safe_positive (ti_mission_sequence i)
     \<and> host_mission_text_ok L (ti_objective i) \<and> host_mission_text_ok L (ti_assignment i)
     \<and> list_all (host_mission_text_ok L) (ti_acceptance_criteria i)
     \<and> 1 \<le> length (ti_acceptance_criteria i) \<and> length (ti_acceptance_criteria i) \<le> 32
     \<and> list_all (host_peer_message_ok L) (ti_peer_messages i) \<and> length (ti_peer_messages i) \<le> 64
     \<and> list_all (host_input_artifact_ok L) (ti_artifacts i) \<and> length (ti_artifacts i) \<le> 16
     \<and> ti_mission_id i = si_mission_id (ti_session i)"

record start_turn_input = turn_input +
  st_delivery_id :: uuid
  st_execution_attempt :: int

definition start_turn_input_ok :: "host_lib \<Rightarrow> start_turn_input \<Rightarrow> bool" where
  "start_turn_input_ok L i \<longleftrightarrow> turn_input_ok L i \<and> uuid_ok L (st_delivery_id i)
     \<and> safe_positive (st_execution_attempt i)"

record host_turn_ref =
  tr_turn_id :: jstext
  tr_session_id :: jstext
  tr_mission_id :: uuid
  tr_delivery_id :: uuid
  tr_execution_attempt :: int
  tr_contract_version :: int

definition host_turn_ref_ok :: "host_lib \<Rightarrow> host_turn_ref \<Rightarrow> bool" where
  "host_turn_ref_ok L t \<longleftrightarrow> opaque_reference_ok (tr_turn_id t) \<and> opaque_reference_ok (tr_session_id t)
     \<and> uuid_ok L (tr_mission_id t) \<and> uuid_ok L (tr_delivery_id t)
     \<and> safe_positive (tr_execution_attempt t) \<and> contract_version_ok (tr_contract_version t)"

text \<open>The prompt text a host receives comes from the Mission context alone.\<close>

record host_mission_inputs =
  hm_objective :: host_mission_text
  hm_assignment :: host_mission_text
  hm_acceptance_criteria :: "host_mission_text list"

datatype derive_error = Derive_zod | Participant_not_found

definition from_manifest ::
  "host_lib \<Rightarrow> mission_context \<Rightarrow> jstext \<Rightarrow> derive_error + host_mission_text" where
  "from_manifest L context t =
     (let input = \<lparr>ht_text = t, ht_author_principal_id = principal_id (mc_created_by context)\<rparr>
      in if host_mission_text_ok L input then Inr input else Inl Derive_zod)"

definition derive_host_mission_inputs ::
  "host_lib \<Rightarrow> mission_context \<Rightarrow> string \<Rightarrow> derive_error + host_mission_inputs" where
  "derive_host_mission_inputs L context participant_agent_id =
     (if \<not> mission_context_ok L context \<or> \<not> uuid_ok L participant_agent_id then Inl Derive_zod
      else (case find (\<lambda>p. p_agent_id p = participant_agent_id) (mf_participants (mc_manifest context)) of
              None \<Rightarrow> Inl Participant_not_found
            | Some participant \<Rightarrow>
               (case from_manifest L context (mf_objective (mc_manifest context)) of
                  Inl e \<Rightarrow> Inl e
                | Inr objective \<Rightarrow>
                   (case from_manifest L context (p_initial_assignment participant) of
                      Inl e \<Rightarrow> Inl e
                    | Inr assignment \<Rightarrow>
                       (case traverse (from_manifest L context)
                               (mf_public_acceptance_criteria (mc_manifest context)) of
                          Inl e \<Rightarrow> Inl e
                        | Inr criteria \<Rightarrow> Inr \<lparr>hm_objective = objective, hm_assignment = assignment,
                            hm_acceptance_criteria = criteria\<rparr>)))))"

section \<open>Host events\<close>

record host_failure =
  hf_class :: failure_class
  hf_message :: jstext

definition host_failure_ok :: "host_failure \<Rightarrow> bool" where
  "host_failure_ok f \<longleftrightarrow> 1 \<le> length (hf_message f) \<and> int (length (hf_message f)) \<le> 4000"

datatype activity_phase = Tool_started | Tool_completed | Tool_failed

record tool_activity =
  tl_tool_call_id :: jstext
  tl_name :: jstext
  tl_phase :: activity_phase

definition tool_activity_ok :: "tool_activity \<Rightarrow> bool" where
  "tool_activity_ok a \<longleftrightarrow> opaque_reference_ok (tl_tool_call_id a) \<and> runtime_name_ok (tl_name a)"

datatype permission_phase = Perm_requested | Perm_granted | Perm_denied

record permission_activity =
  pm_request_id :: jstext
  pm_capability :: jstext
  pm_phase :: permission_phase

definition permission_activity_ok :: "permission_activity \<Rightarrow> bool" where
  "permission_activity_ok a \<longleftrightarrow> opaque_reference_ok (pm_request_id a) \<and> runtime_name_ok (pm_capability a)"

datatype host_event_payload =
  H_accepted
| H_output jstext
| H_tool tool_activity
| H_permission permission_activity
| H_artifact artifact_ref
| H_usage token_usage
| H_completed turn_disposition
| H_failed host_failure
| H_cancelled

record host_event =
  he_turn :: host_turn_ref
  he_sequence :: int
  he_payload :: host_event_payload

fun host_payload_ok :: "host_lib \<Rightarrow> host_event_payload \<Rightarrow> bool" where
  "host_payload_ok L H_accepted = True"
| "host_payload_ok L (H_output t) = host_output_chunk_ok t"
| "host_payload_ok L (H_tool a) = tool_activity_ok a"
| "host_payload_ok L (H_permission a) = permission_activity_ok a"
| "host_payload_ok L (H_artifact a) = artifact_ref_ok L a"
| "host_payload_ok L (H_usage u) = token_usage_ok u"
| "host_payload_ok L (H_completed d) = turn_disposition_ok L d"
| "host_payload_ok L (H_failed f) = host_failure_ok f"
| "host_payload_ok L H_cancelled = True"

definition host_event_ok :: "host_lib \<Rightarrow> host_event \<Rightarrow> bool" where
  "host_event_ok L e \<longleftrightarrow> host_turn_ref_ok L (he_turn e) \<and> safe_positive (he_sequence e)
     \<and> host_payload_ok L (he_payload e)"

section \<open>The event stream\<close>

record host_turn_correlation =
  tc_turn_id :: "jstext option"
  tc_session_id :: jstext
  tc_mission_id :: uuid
  tc_delivery_id :: uuid
  tc_execution_attempt :: int
  tc_contract_version :: int

record stream_policy =
  po_max_events :: int
  po_max_output_bytes :: int
  po_max_artifacts :: int
  po_max_artifact_bytes :: int
  po_max_tokens :: int
  po_usage :: usage_capability

datatype stream_phase = Awaiting_acceptance | Active_phase | Terminal_phase

text \<open>The source keeps each artifact as the JSON text of its six fields; that text determines the fields,
  so the artifact itself stands for its key.\<close>

record stream_state =
  ss_phase :: stream_phase
  ss_last_sequence :: int
  ss_output_bytes :: int
  ss_artifact_count :: int
  ss_artifact_bytes :: int
  ss_artifact_keys :: "artifact_ref list"
  ss_usage :: "token_usage option"
  ss_turn :: "host_turn_ref option"
  ss_expected_turn :: host_turn_correlation

datatype stream_reason =
  Sequence_reason | Acceptance_reason | Terminal_reason | Event_limit | Output_limit | Artifact_limit
| Usage_regression | Usage_unavailable_reason | Usage_limit | Usage_missing | Turn_mismatch

datatype stream_error = Bad_policy | Stream_zod | Invalid_stream stream_reason

definition default_stream_policy :: stream_policy where
  "default_stream_policy = \<lparr>po_max_events = 256, po_max_output_bytes = 256 * 1024, po_max_artifacts = 16,
     po_max_artifact_bytes = 16 * max_artifact_bytes, po_max_tokens = max_provider_tokens,
     po_usage = Turn_cumulative\<rparr>"

definition create_stream_state :: "host_turn_correlation \<Rightarrow> stream_state" where
  "create_stream_state expected = \<lparr>ss_phase = Awaiting_acceptance, ss_last_sequence = 0,
     ss_output_bytes = 0, ss_artifact_count = 0, ss_artifact_bytes = 0, ss_artifact_keys = [],
     ss_usage = None, ss_turn = None, ss_expected_turn = expected\<rparr>"

definition policy_ok :: "stream_policy \<Rightarrow> bool" where
  "policy_ok p \<longleftrightarrow> list_all safe_positive
     [po_max_events p, po_max_output_bytes p, po_max_artifacts p, po_max_artifact_bytes p, po_max_tokens p]"

definition same_host_turn_ref :: "host_turn_ref \<Rightarrow> host_turn_ref \<Rightarrow> bool" where
  "same_host_turn_ref left right \<longleftrightarrow>
     tr_turn_id left = tr_turn_id right \<and> tr_session_id left = tr_session_id right
     \<and> tr_mission_id left = tr_mission_id right \<and> tr_delivery_id left = tr_delivery_id right
     \<and> tr_execution_attempt left = tr_execution_attempt right
     \<and> tr_contract_version left = tr_contract_version right"

definition matches_expected_host_turn :: "host_turn_correlation \<Rightarrow> host_turn_ref \<Rightarrow> bool" where
  "matches_expected_host_turn expected received \<longleftrightarrow>
     (tc_turn_id expected = None \<or> tc_turn_id expected = Some (tr_turn_id received))
     \<and> tc_session_id expected = tr_session_id received \<and> tc_mission_id expected = tr_mission_id received
     \<and> tc_delivery_id expected = tr_delivery_id received
     \<and> tc_execution_attempt expected = tr_execution_attempt received
     \<and> tc_contract_version expected = tr_contract_version received"

fun artifacts_in_host_event :: "host_event_payload \<Rightarrow> artifact_ref list" where
  "artifacts_in_host_event (H_artifact a) = [a]"
| "artifacts_in_host_event (H_completed (Reply t body artifacts)) =
     (case artifacts of None \<Rightarrow> [] | Some as \<Rightarrow> as)"
| "artifacts_in_host_event (H_completed (Propose_contract a)) = [a]"
| "artifacts_in_host_event (H_completed (Ready evidence)) = concat (map e_artifacts evidence)"
| "artifacts_in_host_event _ = []"

fun text_bytes_in_host_event :: "host_event_payload \<Rightarrow> int" where
  "text_bytes_in_host_event (H_output t) = int (utf8_length t)"
| "text_bytes_in_host_event (H_failed f) = int (utf8_length (hf_message f))"
| "text_bytes_in_host_event (H_completed (Reply t body artifacts)) = int (utf8_length body)"
| "text_bytes_in_host_event (H_completed (Blocked reason requested)) =
     (case requested of None \<Rightarrow> int (utf8_length reason) | Some r \<Rightarrow> int (utf8_length (reason @ r)))"
| "text_bytes_in_host_event (H_completed (Ready evidence)) =
     foldl (\<lambda>total e. total + int (utf8_length (e_summary e))) 0 evidence"
| "text_bytes_in_host_event _ = 0"

text \<open>The loop over the artifacts of an event: new keys are appended and their bytes counted.\<close>

fun add_artifacts :: "artifact_ref list \<Rightarrow> int \<Rightarrow> artifact_ref list \<Rightarrow> artifact_ref list \<times> int" where
  "add_artifacts keys bytes [] = (keys, bytes)"
| "add_artifacts keys bytes (a # as) =
     (if a \<in> set keys then add_artifacts keys bytes as
      else add_artifacts (keys @ [a]) (bytes + a_byte_size a) as)"

fun usage_available :: "token_usage \<Rightarrow> bool" where
  "usage_available (Available_usage i out) = True"
| "usage_available (Unavailable_usage r) = False"

text \<open>The checks of a usage report against the policy and the last report.\<close>

definition check_usage ::
  "stream_policy \<Rightarrow> token_usage option \<Rightarrow> token_usage \<Rightarrow> stream_error + token_usage" where
  "check_usage policy previous report =
     (if usage_available report \<and> po_usage policy = Usage_unavailable
      then Inl (Invalid_stream Usage_unavailable_reason)
      else if (case report of Available_usage i out \<Rightarrow> i + out > po_max_tokens policy | _ \<Rightarrow> False)
      then Inl (Invalid_stream Usage_limit)
      else if (case previous of
                 Some (Available_usage i0 o0) \<Rightarrow>
                   (case report of Available_usage i out \<Rightarrow> i < i0 \<or> out < o0 | _ \<Rightarrow> True)
               | _ \<Rightarrow> False)
      then Inl (Invalid_stream Usage_regression)
      else Inr report)"

definition next_usage ::
  "stream_policy \<Rightarrow> token_usage option \<Rightarrow> host_event_payload \<Rightarrow> stream_error + token_usage option" where
  "next_usage policy previous payload =
     (case payload of
        H_usage report \<Rightarrow>
          (case check_usage policy previous report of Inl e \<Rightarrow> Inl e | Inr u \<Rightarrow> Inr (Some u))
      | _ \<Rightarrow> Inr previous)"

fun terminal_payload :: "host_event_payload \<Rightarrow> bool" where
  "terminal_payload (H_completed d) = True"
| "terminal_payload (H_failed f) = True"
| "terminal_payload H_cancelled = True"
| "terminal_payload _ = False"

definition accept_host_event ::
  "host_lib \<Rightarrow> stream_policy \<Rightarrow> stream_state \<Rightarrow> host_event \<Rightarrow> stream_error + stream_state" where
  "accept_host_event L policy current event =
     (let accepted = (he_payload event = H_accepted); awaiting = (ss_phase current = Awaiting_acceptance);
          terminal = terminal_payload (he_payload event) in
      if \<not> policy_ok policy then Inl Bad_policy
      else if \<not> host_event_ok L event then Inl Stream_zod
      else if he_sequence event \<noteq> ss_last_sequence current + 1
      then Inl (Invalid_stream Sequence_reason)
      else if (awaiting \<and> \<not> accepted) \<or> (\<not> awaiting \<and> accepted)
      then Inl (Invalid_stream Acceptance_reason)
      else if awaiting \<and> accepted \<and> \<not> matches_expected_host_turn (ss_expected_turn current) (he_turn event)
      then Inl (Invalid_stream Turn_mismatch)
      else if ss_phase current = Terminal_phase then Inl (Invalid_stream Terminal_reason)
      else if \<not> awaiting \<and> (case ss_turn current of None \<Rightarrow> True
                | Some turn \<Rightarrow> \<not> same_host_turn_ref turn (he_turn event))
      then Inl (Invalid_stream Turn_mismatch)
      else if he_sequence event > po_max_events policy then Inl (Invalid_stream Event_limit)
      else
        (let output_bytes = ss_output_bytes current + text_bytes_in_host_event (he_payload event) in
         if output_bytes > po_max_output_bytes policy then Inl (Invalid_stream Output_limit)
         else
           (let (artifact_keys, artifact_bytes) =
                  add_artifacts (ss_artifact_keys current) (ss_artifact_bytes current)
                    (artifacts_in_host_event (he_payload event));
                artifact_count = int (length artifact_keys) in
            if artifact_count > po_max_artifacts policy \<or> artifact_bytes > po_max_artifact_bytes policy
            then Inl (Invalid_stream Artifact_limit)
            else
              (case next_usage policy (ss_usage current) (he_payload event) of
                 Inl e \<Rightarrow> Inl e
               | Inr usage \<Rightarrow>
                   if terminal \<and> usage = None then Inl (Invalid_stream Usage_missing)
                   else Inr \<lparr>ss_phase = (if terminal then Terminal_phase else Active_phase),
                     ss_last_sequence = he_sequence event, ss_output_bytes = output_bytes,
                     ss_artifact_count = artifact_count, ss_artifact_bytes = artifact_bytes,
                     ss_artifact_keys = artifact_keys, ss_usage = usage,
                     ss_turn = (case ss_turn current of None \<Rightarrow> Some (he_turn event) | Some t \<Rightarrow> Some t),
                     ss_expected_turn = ss_expected_turn current\<rparr>))))"

end
