(* ===== verification/Host_Stream_Laws.thy ===== *)
theory Host_Stream_Laws
  imports Host_Stream Samples
begin

text \<open>
  The laws of the host event stream: its state is exactly the account of the events accepted so far,
  every account stays within the policy, usage never goes back, and the stream ends.
\<close>

section \<open>Accounts\<close>

text \<open>First occurrences, in order: the artifacts a stream has shown.\<close>

definition distinct_artifacts :: "artifact_ref list \<Rightarrow> artifact_ref list" where
  "distinct_artifacts as = fst (add_artifacts [] 0 as)"

lemma add_artifacts_append:
  "add_artifacts keys bytes (xs @ ys) =
     (case add_artifacts keys bytes xs of (keys', bytes') \<Rightarrow> add_artifacts keys' bytes' ys)"
  by (induction keys bytes xs rule: add_artifacts.induct) auto

lemma add_artifacts_keys:
  assumes "add_artifacts keys bytes as = (keys', bytes')" and "distinct keys"
  shows "distinct keys' \<and> set keys' = set keys \<union> set as \<and> prefix keys keys'
    \<and> bytes' - bytes = sum_list (map a_byte_size keys') - sum_list (map a_byte_size keys)"
  using assms
  by (induction keys bytes as rule: add_artifacts.induct) (auto split: if_splits dest: append_prefixD)

text \<open>The state after a list of events.\<close>

definition stream_account :: "host_event list \<Rightarrow> stream_state \<Rightarrow> bool" where
  "stream_account es s \<longleftrightarrow>
     ss_last_sequence s = int (length es)
     \<and> map he_sequence es = map (\<lambda>i. int i + 1) [0..<length es]
     \<and> ss_output_bytes s = sum_list (map (\<lambda>e. text_bytes_in_host_event (he_payload e)) es)
     \<and> distinct (ss_artifact_keys s)
     \<and> set (ss_artifact_keys s) = (\<Union>e \<in> set es. set (artifacts_in_host_event (he_payload e)))
     \<and> ss_artifact_count s = int (length (ss_artifact_keys s))
     \<and> ss_artifact_bytes s = sum_list (map a_byte_size (ss_artifact_keys s))
     \<and> ss_turn s = map_option he_turn (if es = [] then None else Some (hd es))
     \<and> (\<forall>e \<in> set es. same_host_turn_ref (he_turn (hd es)) (he_turn e))
     \<and> (ss_phase s = Awaiting_acceptance \<longleftrightarrow> es = [])
     \<and> (es \<noteq> [] \<longrightarrow> he_payload (hd es) = H_accepted
          \<and> matches_expected_host_turn (ss_expected_turn s) (he_turn (hd es)))
     \<and> (\<forall>i < length es. he_payload (es ! i) = H_accepted \<longleftrightarrow> i = 0)
     \<and> (ss_phase s = Terminal_phase \<longleftrightarrow> es \<noteq> [] \<and> terminal_payload (he_payload (last es)))
     \<and> (\<forall>e \<in> set (butlast es). \<not> terminal_payload (he_payload e))
     \<and> (ss_phase s = Terminal_phase \<longrightarrow> ss_usage s \<noteq> None)
     \<and> (\<forall>u. ss_usage s = Some u \<longrightarrow> H_usage u \<in> he_payload ` set es)"

definition within_policy :: "stream_policy \<Rightarrow> stream_state \<Rightarrow> bool" where
  "within_policy p s \<longleftrightarrow>
     0 \<le> ss_last_sequence s \<and> ss_last_sequence s \<le> po_max_events p
     \<and> ss_output_bytes s \<le> po_max_output_bytes p \<and> ss_artifact_count s \<le> po_max_artifacts p
     \<and> ss_artifact_bytes s \<le> po_max_artifact_bytes p
     \<and> (case ss_usage s of
          Some (Available_usage i out) \<Rightarrow> i + out \<le> po_max_tokens p \<and> po_usage p = Turn_cumulative
        | _ \<Rightarrow> True)"

definition usage_le :: "token_usage option \<Rightarrow> token_usage option \<Rightarrow> bool" where
  "usage_le a b \<longleftrightarrow> (case a of
     Some (Available_usage i0 o0) \<Rightarrow>
       (case b of Some (Available_usage i out) \<Rightarrow> i0 \<le> i \<and> o0 \<le> out | _ \<Rightarrow> False)
   | Some (Unavailable_usage r) \<Rightarrow> b \<noteq> None
   | None \<Rightarrow> True)"

lemma usage_le_refl: "usage_le a a"
  by (auto simp: usage_le_def split: option.split token_usage.split)

lemma usage_le_trans: "usage_le a b \<Longrightarrow> usage_le b c \<Longrightarrow> usage_le a c"
  by (auto simp: usage_le_def split: option.splits token_usage.splits)

section \<open>An accepted event\<close>

lemma check_usage_Inr:
  assumes "check_usage p previous report = Inr u"
  shows "u = report \<and> usage_le previous (Some report)
    \<and> (case report of Available_usage i out \<Rightarrow> i + out \<le> po_max_tokens p \<and> po_usage p = Turn_cumulative
       | _ \<Rightarrow> True)"
  using assms
  by (cases report; cases "po_usage p")
     (auto simp: check_usage_def usage_le_def split: if_splits option.splits token_usage.splits)

lemma next_usage_Inr:
  assumes "next_usage p previous payload = Inr u"
  shows "usage_le previous u
    \<and> (u = previous \<or> (\<exists>report. payload = H_usage report \<and> u = Some report
         \<and> (case report of Available_usage i out \<Rightarrow> i + out \<le> po_max_tokens p \<and> po_usage p = Turn_cumulative
            | _ \<Rightarrow> True)))"
  using assms
  by (cases payload) (auto simp: next_usage_def usage_le_refl dest: check_usage_Inr)

text \<open>The guards and the effect of an accepted event.\<close>

lemma accept_host_event_Inr:
  assumes "accept_host_event L p s e = Inr t"
  obtains keys bytes usage where "policy_ok p" "host_event_ok L e"
    "he_sequence e = ss_last_sequence s + 1" "he_sequence e \<le> po_max_events p"
    "ss_phase s = Awaiting_acceptance \<longleftrightarrow> he_payload e = H_accepted"
    "ss_phase s = Awaiting_acceptance \<Longrightarrow> matches_expected_host_turn (ss_expected_turn s) (he_turn e)"
    "ss_phase s \<noteq> Terminal_phase"
    "ss_phase s \<noteq> Awaiting_acceptance \<Longrightarrow>
       \<exists>turn. ss_turn s = Some turn \<and> same_host_turn_ref turn (he_turn e)"
    "ss_output_bytes s + text_bytes_in_host_event (he_payload e) \<le> po_max_output_bytes p"
    "add_artifacts (ss_artifact_keys s) (ss_artifact_bytes s) (artifacts_in_host_event (he_payload e))
       = (keys, bytes)"
    "int (length keys) \<le> po_max_artifacts p" "bytes \<le> po_max_artifact_bytes p"
    "next_usage p (ss_usage s) (he_payload e) = Inr usage"
    "terminal_payload (he_payload e) \<Longrightarrow> usage \<noteq> None"
    "t = \<lparr>ss_phase = (if terminal_payload (he_payload e) then Terminal_phase else Active_phase),
       ss_last_sequence = he_sequence e,
       ss_output_bytes = ss_output_bytes s + text_bytes_in_host_event (he_payload e),
       ss_artifact_count = int (length keys), ss_artifact_bytes = bytes, ss_artifact_keys = keys,
       ss_usage = usage, ss_turn = (case ss_turn s of None \<Rightarrow> Some (he_turn e) | Some r \<Rightarrow> Some r),
       ss_expected_turn = ss_expected_turn s\<rparr>"
proof -
  obtain keys bytes where kb: "add_artifacts (ss_artifact_keys s) (ss_artifact_bytes s)
      (artifacts_in_host_event (he_payload e)) = (keys, bytes)" by fastforce
  from assms obtain usage where usage: "next_usage p (ss_usage s) (he_payload e) = Inr usage"
    by (auto simp: accept_host_event_def Let_def kb split: if_splits)
  show thesis
    using assms usage
    by (intro that [OF _ _ _ _ _ _ _ _ _ kb _ _ usage])
       (auto simp: accept_host_event_def Let_def kb split: if_splits option.splits)
qed

lemma accept_within_policy:
  assumes "accept_host_event L p s e = Inr t" and "within_policy p s"
  shows "within_policy p t"
  using assms(1)
proof (rule accept_host_event_Inr)
  fix keys bytes usage
  assume a: "he_sequence e = ss_last_sequence s + 1" "he_sequence e \<le> po_max_events p"
    "next_usage p (ss_usage s) (he_payload e) = Inr usage"
    "int (length keys) \<le> po_max_artifacts p" "bytes \<le> po_max_artifact_bytes p"
    "ss_output_bytes s + text_bytes_in_host_event (he_payload e) \<le> po_max_output_bytes p"
    "t = \<lparr>ss_phase = (if terminal_payload (he_payload e) then Terminal_phase else Active_phase),
       ss_last_sequence = he_sequence e,
       ss_output_bytes = ss_output_bytes s + text_bytes_in_host_event (he_payload e),
       ss_artifact_count = int (length keys), ss_artifact_bytes = bytes, ss_artifact_keys = keys,
       ss_usage = usage, ss_turn = (case ss_turn s of None \<Rightarrow> Some (he_turn e) | Some r \<Rightarrow> Some r),
       ss_expected_turn = ss_expected_turn s\<rparr>"
  have "case usage of Some (Available_usage i out) \<Rightarrow> i + out \<le> po_max_tokens p \<and> po_usage p = Turn_cumulative
      | _ \<Rightarrow> True"
    using next_usage_Inr [OF a(3)] assms(2) by (auto simp: within_policy_def)
  with a assms(2) show ?thesis by (simp add: within_policy_def)
qed

lemma accept_usage_le:
  "accept_host_event L p s e = Inr t \<Longrightarrow> usage_le (ss_usage s) (ss_usage t)"
  by (erule accept_host_event_Inr) (auto dest: next_usage_Inr)

lemma same_host_turn_ref_eq: "same_host_turn_ref a b \<longleftrightarrow> a = b"
  by (cases a; cases b) (auto simp: same_host_turn_ref_def)

lemma account_keys:
  assumes "stream_account es s"
    and "add_artifacts (ss_artifact_keys s) (ss_artifact_bytes s) (artifacts_in_host_event (he_payload e)) = (keys, bytes)"
  shows "distinct keys"
    and "set keys = (\<Union>e \<in> set (es @ [e]). set (artifacts_in_host_event (he_payload e)))"
    and "bytes = sum_list (map a_byte_size keys)"
  using add_artifacts_keys [OF assms(2)] assms(1) by (auto simp: stream_account_def)

lemma account_turns:
  assumes "stream_account es s"
    and "ss_phase s = Awaiting_acceptance \<longleftrightarrow> he_payload e = H_accepted"
    and "ss_phase s \<noteq> Awaiting_acceptance \<Longrightarrow> \<exists>turn. ss_turn s = Some turn \<and> same_host_turn_ref turn (he_turn e)"
  shows "\<forall>e' \<in> set (es @ [e]). same_host_turn_ref (he_turn (hd (es @ [e]))) (he_turn e')"
    and "\<forall>i < length (es @ [e]). he_payload ((es @ [e]) ! i) = H_accepted \<longleftrightarrow> i = 0"
proof -
  have later: "ss_phase s \<noteq> Awaiting_acceptance \<and> ss_turn s = Some (he_turn (hd es))" if "es \<noteq> []"
    using that assms(1) by (simp add: stream_account_def)
  have before: "\<forall>e' \<in> set es. he_turn (hd es) = he_turn e'"
    "\<forall>i < length es. he_payload (es ! i) = H_accepted \<longleftrightarrow> i = 0"
    "ss_phase s = Awaiting_acceptance \<longleftrightarrow> es = []"
    using assms(1) by (simp_all add: stream_account_def same_host_turn_ref_eq)
  have same: "he_turn (hd es) = he_turn e" if "es \<noteq> []"
    using later [OF that] assms(3) by (simp add: same_host_turn_ref_eq)
  show "\<forall>e' \<in> set (es @ [e]). same_host_turn_ref (he_turn (hd (es @ [e]))) (he_turn e')"
    using before(1) same by (cases es) (simp_all add: same_host_turn_ref_eq)
  show "\<forall>i < length (es @ [e]). he_payload ((es @ [e]) ! i) = H_accepted \<longleftrightarrow> i = 0"
    using before(2,3) assms(2) by (simp add: nth_append less_Suc_eq)
qed

lemma account_terminal:
  assumes "stream_account es s" and "ss_phase s \<noteq> Terminal_phase"
  shows "\<forall>e' \<in> set (butlast (es @ [e])). \<not> terminal_payload (he_payload e')"
proof -
  have "\<forall>e' \<in> set es. \<not> terminal_payload (he_payload e')"
  proof (cases "es = []")
    case False
    then have "set es = insert (last es) (set (butlast es))"
      by (metis append_butlast_last_id list.simps(15) rotate1.simps(2) set_rotate1)
    with False assms show ?thesis by (auto simp: stream_account_def)
  qed simp
  then show ?thesis by simp
qed

lemma stream_account_step:
  assumes account: "stream_account es s" and step: "accept_host_event L p s e = Inr t"
  shows "stream_account (es @ [e]) t"
  using step
proof (rule accept_host_event_Inr)
  fix keys bytes usage
  assume a: "he_sequence e = ss_last_sequence s + 1"
    "ss_phase s = Awaiting_acceptance \<longleftrightarrow> he_payload e = H_accepted"
    "ss_phase s = Awaiting_acceptance \<Longrightarrow> matches_expected_host_turn (ss_expected_turn s) (he_turn e)"
    "ss_phase s \<noteq> Terminal_phase"
    "ss_phase s \<noteq> Awaiting_acceptance \<Longrightarrow>
       \<exists>turn. ss_turn s = Some turn \<and> same_host_turn_ref turn (he_turn e)"
    "add_artifacts (ss_artifact_keys s) (ss_artifact_bytes s) (artifacts_in_host_event (he_payload e))
       = (keys, bytes)"
    "next_usage p (ss_usage s) (he_payload e) = Inr usage"
    "terminal_payload (he_payload e) \<Longrightarrow> usage \<noteq> None"
    "t = \<lparr>ss_phase = (if terminal_payload (he_payload e) then Terminal_phase else Active_phase),
       ss_last_sequence = he_sequence e,
       ss_output_bytes = ss_output_bytes s + text_bytes_in_host_event (he_payload e),
       ss_artifact_count = int (length keys), ss_artifact_bytes = bytes, ss_artifact_keys = keys,
       ss_usage = usage, ss_turn = (case ss_turn s of None \<Rightarrow> Some (he_turn e) | Some r \<Rightarrow> Some r),
       ss_expected_turn = ss_expected_turn s\<rparr>"
  note keys = account_keys [OF account a(6)]
  note turns = account_turns [OF account a(2,5)]
  note over = account_terminal [OF account a(4)]
  have sequence: "map he_sequence (es @ [e]) = map (\<lambda>i. int i + 1) [0..<length (es @ [e])]"
    using account a(1) by (simp add: stream_account_def)
  have first: "he_payload (hd (es @ [e])) = H_accepted
      \<and> matches_expected_host_turn (ss_expected_turn s) (he_turn (hd (es @ [e])))"
    using account a(2,3) by (cases es) (simp_all add: stream_account_def)
  have turn: "(case ss_turn s of None \<Rightarrow> Some (he_turn e) | Some r \<Rightarrow> Some r) = Some (he_turn (hd (es @ [e])))"
    using account by (cases es) (simp_all add: stream_account_def)
  have reported: "\<forall>u. usage = Some u \<longrightarrow> H_usage u \<in> he_payload ` set (es @ [e])"
    using next_usage_Inr [OF a(7)] account by (force simp: stream_account_def)
  show ?thesis
    unfolding stream_account_def a(9)
    using account a(1,8) keys turns over sequence first turn reported
    by (simp add: stream_account_def)
qed

lemma stream_account_run:
  "stream_account es s \<Longrightarrow> run_steps (accept_host_event L p) s fs = Inr t \<Longrightarrow> stream_account (es @ fs) t"
proof (induction fs arbitrary: es s)
  case Nil
  then show ?case by simp
next
  case (Cons f fs)
  from Cons.prems(2) obtain s' where "accept_host_event L p s f = Inr s'"
    and "run_steps (accept_host_event L p) s' fs = Inr t"
    by (rule run_steps_ConsE)
  with Cons.IH [OF stream_account_step [OF Cons.prems(1)]] show ?case by fastforce
qed

lemma stream_account_create: "stream_account [] (create_stream_state expected)"
  by (simp add: stream_account_def create_stream_state_def)

lemma within_policy_create: "policy_ok p \<Longrightarrow> within_policy p (create_stream_state expected)"
  by (simp add: within_policy_def create_stream_state_def policy_ok_def safe_positive_def)

interpretation host_usage: advancing_machine "accept_host_event L p" "within_policy p"
  "\<lambda>s t. usage_le (ss_usage s) (ss_usage t)" for L p
  by unfold_locales (auto simp: usage_le_refl intro: accept_within_policy accept_usage_le usage_le_trans)

interpretation host_budget: budgeted_machine "accept_host_event L p" "within_policy p"
  "\<lambda>s. nat (po_max_events p - ss_last_sequence s)" for L p
proof unfold_locales
  fix s e t assume "within_policy p s" and "accept_host_event L p s e = Inr t"
  then show "nat (po_max_events p - ss_last_sequence t) < nat (po_max_events p - ss_last_sequence s)"
    by (auto elim!: accept_host_event_Inr simp: within_policy_def)
qed

section \<open>Properties\<close>

text \<open>C30. The state of a host stream is an exact account of the accepted events: they are numbered from 1
  without a gap, start with the one acceptance of the expected turn, all belong to that turn, end at the
  first terminal event (and then with a usage report), and the counters are the bytes of their texts and
  the number and size of the distinct artifacts they mention.\<close>

theorem host_stream_account:
  assumes "run_steps (accept_host_event L p) (create_stream_state expected) es = Inr s"
  shows "stream_account es s"
  using stream_account_run [OF stream_account_create assms] by simp

text \<open>C35. Whatever events a host sends, accepted or rejected, the stream stays within its policy: events,
  output bytes, artifacts, artifact bytes and tokens never exceed their limits.\<close>

theorem host_stream_bounded:
  assumes "policy_ok p"
  shows "within_policy p (serve_all (accept_host_event L p) (create_stream_state expected) es)"
  using within_policy_create [OF assms] by (rule host_usage.serve_all_inv)

text \<open>A host stream ends: no more than the policy's number of events is ever accepted, and after a
  terminal event nothing is.\<close>

theorem host_stream_ends:
  assumes "policy_ok p" and "run_steps (accept_host_event L p) (create_stream_state expected) es = Inr s"
  shows "int (length es) \<le> po_max_events p
    \<and> (ss_phase s = Terminal_phase \<longrightarrow> (\<exists>err. accept_host_event L p s e = Inl err))"
proof
  have "length es \<le> nat (po_max_events p)"
    using host_budget.run_bound [OF within_policy_create [OF assms(1)] assms(2)]
    by (simp add: create_stream_state_def)
  with assms(1) show "int (length es) \<le> po_max_events p" by (simp add: policy_ok_def safe_positive_def le_nat_iff)
  show "ss_phase s = Terminal_phase \<longrightarrow> (\<exists>err. accept_host_event L p s e = Inl err)"
  proof (cases "accept_host_event L p s e")
    case (Inr t)
    then show ?thesis by (auto elim!: accept_host_event_Inr)
  qed simp
qed

text \<open>Reported usage never goes back: once tokens have been reported, every later state of the stream,
  whatever is sent in between, reports at least as many.\<close>

theorem host_usage_monotone:
  assumes "policy_ok p"
    and "ss_usage (serve_all (accept_host_event L p) (create_stream_state expected) es) = Some (Available_usage i out)"
  shows "\<exists>i' out'. ss_usage (serve_all (accept_host_event L p) (create_stream_state expected) (es @ fs))
      = Some (Available_usage i' out') \<and> i \<le> i' \<and> out \<le> out'"
proof -
  let ?s = "serve_all (accept_host_event L p) (create_stream_state expected) es"
  have "within_policy p ?s" using host_usage.serve_all_inv [OF within_policy_create [OF assms(1)]] .
  then have "usage_le (ss_usage ?s) (ss_usage (serve_all (accept_host_event L p) ?s fs))"
    by (rule host_usage.serve_all_le)
  with assms(2) show ?thesis
    by (auto simp: usage_le_def run_laws split: option.splits token_usage.splits)
qed

section \<open>Witnesses\<close>

definition sample_turn_ref :: host_turn_ref where
  "sample_turn_ref = \<lparr>tr_turn_id = text_of ''t1'', tr_session_id = text_of ''s1'', tr_mission_id = uid ''80'',
     tr_delivery_id = uid ''21'', tr_execution_attempt = 1, tr_contract_version = 1\<rparr>"

definition sample_correlation :: host_turn_correlation where
  "sample_correlation = \<lparr>tc_turn_id = None, tc_session_id = text_of ''s1'', tc_mission_id = uid ''80'',
     tc_delivery_id = uid ''21'', tc_execution_attempt = 1, tc_contract_version = 1\<rparr>"

definition sample_host_event :: "int \<Rightarrow> host_event_payload \<Rightarrow> host_event" where
  "sample_host_event n payload = \<lparr>he_turn = sample_turn_ref, he_sequence = n, he_payload = payload\<rparr>"

definition sample_host_events :: "host_event list" where
  "sample_host_events = [sample_host_event 1 H_accepted, sample_host_event 2 (H_output (text_of ''hello'')),
     sample_host_event 3 (H_usage (Available_usage 10 5)), sample_host_event 4 (H_completed (Ready []))]"

definition sample_stream_end :: stream_state where
  "sample_stream_end = \<lparr>ss_phase = Terminal_phase, ss_last_sequence = 4, ss_output_bytes = 5,
     ss_artifact_count = 0, ss_artifact_bytes = 0, ss_artifact_keys = [],
     ss_usage = Some (Available_usage 10 5), ss_turn = Some sample_turn_ref,
     ss_expected_turn = sample_correlation\<rparr>"

lemma sample_stream_run:
  "run_steps (accept_host_event sample_lib default_stream_policy) (create_stream_state sample_correlation)
     sample_host_events = Inr sample_stream_end"
  by code_simp

lemma default_policy_ok: "policy_ok default_stream_policy"
  by code_simp

theorem host_stream_account_witness: "stream_account sample_host_events sample_stream_end"
  by (rule host_stream_account [OF sample_stream_run])

theorem host_stream_bounded_witness:
  "within_policy default_stream_policy (serve_all (accept_host_event sample_lib default_stream_policy)
     (create_stream_state sample_correlation) sample_host_events)"
  by (rule host_stream_bounded [OF default_policy_ok])

theorem host_stream_ends_witness:
  "\<exists>err. accept_host_event sample_lib default_stream_policy sample_stream_end (sample_host_event 5 H_cancelled) = Inl err"
proof -
  have "ss_phase sample_stream_end = Terminal_phase" by (simp add: sample_stream_end_def)
  with host_stream_ends [OF default_policy_ok sample_stream_run] show ?thesis by blast
qed

theorem host_usage_monotone_witness:
  "\<exists>i' out'. ss_usage (serve_all (accept_host_event sample_lib default_stream_policy)
      (create_stream_state sample_correlation) (sample_host_events @ [])) = Some (Available_usage i' out')
    \<and> 10 \<le> i' \<and> 5 \<le> out'"
proof (rule host_usage_monotone [OF default_policy_ok])
  show "ss_usage (serve_all (accept_host_event sample_lib default_stream_policy)
      (create_stream_state sample_correlation) sample_host_events) = Some (Available_usage 10 5)"
    by code_simp
qed

end
