(* ===== verification/Bounded_Json.thy ===== *)
theory Bounded_Json
  imports Relay_Prelude Complex_Main
begin

text \<open>
  \<open>sanitizeJsonValue\<close> of \<^verbatim>\<open>protocol/src/adapter.ts\<close>: the copy of an unknown value that keeps only
  bounded, plain JSON.  An unknown JavaScript value is a tree whose objects and arrays carry an identity,
  so that an aliased object is the same identity twice and a cycle is cut where the identity comes back.
\<close>

section \<open>Unknown values and JSON\<close>

text \<open>A number is a finite double (a rational) or not finite; \<open>V_other\<close> is any value that is neither
  JSON-compatible nor an object (undefined, a function, a symbol, a bigint).  A slot is the value of a
  data property, or a hole or an accessor.\<close>

datatype js_value =
  V_null
| V_bool bool
| V_number "rat option"
| V_string jstext
| V_other
| V_array nat "js_slot list"
| V_object nat bool "js_property list"
and js_slot = No_value | Data js_value
and js_property = Property jstext bool js_slot

datatype json =
  J_null
| J_bool bool
| J_number rat
| J_string jstext
| J_array "json list"
| J_object "(jstext \<times> json) list"

datatype json_error =
  Too_many_nodes | Too_deep | Not_finite | String_too_long | Not_json | Cyclic_or_aliased
| Too_many_items | Hole_or_accessor | Not_plain | Too_many_keys | Key_too_long | Enumerable_accessor

abbreviation "max_json_depth \<equiv> (32 :: int)"
abbreviation "max_json_nodes \<equiv> (4096 :: int)"
abbreviation "max_host_items \<equiv> (64 :: nat)"
abbreviation "max_json_string \<equiv> (16000 :: int)"

section \<open>The visitor\<close>

text \<open>The closure's variables \<open>seen\<close> and \<open>nodes\<close> are threaded through the recursion.\<close>

record visit_state =
  vs_seen :: "nat list"
  vs_nodes :: int

text \<open>The tests every visit starts with.\<close>

definition enter_value :: "int \<Rightarrow> visit_state \<Rightarrow> json_error + visit_state" where
  "enter_value depth st =
     (let st' = st\<lparr>vs_nodes := vs_nodes st + 1\<rparr> in
      if vs_nodes st' > max_json_nodes then Inl Too_many_nodes
      else if depth > max_json_depth then Inl Too_deep
      else Inr st')"

definition enter_object :: "nat \<Rightarrow> visit_state \<Rightarrow> json_error + visit_state" where
  "enter_object i st =
     (if i \<in> set (vs_seen st) then Inl Cyclic_or_aliased else Inr (st\<lparr>vs_seen := i # vs_seen st\<rparr>))"

fun property_enumerable :: "js_property \<Rightarrow> bool" where
  "property_enumerable (Property k enumerable slot) = enumerable"

fun visit :: "int \<Rightarrow> js_value \<Rightarrow> visit_state \<Rightarrow> json_error + json \<times> visit_state"
and visit_items :: "int \<Rightarrow> js_slot list \<Rightarrow> visit_state \<Rightarrow> json_error + json list \<times> visit_state"
and visit_properties :: "int \<Rightarrow> js_property list \<Rightarrow> visit_state
  \<Rightarrow> json_error + (jstext \<times> json) list \<times> visit_state" where
  "visit depth v st0 =
     (case enter_value depth st0 of
        Inl e \<Rightarrow> Inl e
      | Inr st \<Rightarrow>
         (case v of
            V_null \<Rightarrow> Inr (J_null, st)
          | V_bool b \<Rightarrow> Inr (J_bool b, st)
          | V_number n \<Rightarrow> (case n of None \<Rightarrow> Inl Not_finite | Some q \<Rightarrow> Inr (J_number q, st))
          | V_string s \<Rightarrow> if int (length s) > max_json_string then Inl String_too_long else Inr (J_string s, st)
          | V_other \<Rightarrow> Inl Not_json
          | V_array i items \<Rightarrow>
             (case enter_object i st of
                Inl e \<Rightarrow> Inl e
              | Inr st \<Rightarrow>
                  if length items > max_host_items then Inl Too_many_items
                  else (case visit_items (depth + 1) items st of
                          Inl e \<Rightarrow> Inl e | Inr (js, st) \<Rightarrow> Inr (J_array js, st)))
          | V_object i plain props \<Rightarrow>
             (case enter_object i st of
                Inl e \<Rightarrow> Inl e
              | Inr st \<Rightarrow>
                  if \<not> plain then Inl Not_plain
                  else if length (filter property_enumerable props) > max_host_items then Inl Too_many_keys
                  else (case visit_properties (depth + 1) props st of
                          Inl e \<Rightarrow> Inl e | Inr (es, st) \<Rightarrow> Inr (J_object es, st)))))"
| "visit_items depth [] st = Inr ([], st)"
| "visit_items depth (No_value # items) st = Inl Hole_or_accessor"
| "visit_items depth (Data v # items) st =
     (case visit depth v st of
        Inl e \<Rightarrow> Inl e
      | Inr (j, st) \<Rightarrow>
          (case visit_items depth items st of Inl e \<Rightarrow> Inl e | Inr (js, st) \<Rightarrow> Inr (j # js, st)))"
| "visit_properties depth [] st = Inr ([], st)"
| "visit_properties depth (Property key enumerable slot # props) st =
     (if \<not> enumerable then visit_properties depth props st
      else if length key > 256 then Inl Key_too_long
      else (case slot of
              No_value \<Rightarrow> Inl Enumerable_accessor
            | Data v \<Rightarrow>
                (case visit depth v st of
                   Inl e \<Rightarrow> Inl e
                 | Inr (j, st) \<Rightarrow>
                     (case visit_properties depth props st of
                        Inl e \<Rightarrow> Inl e | Inr (es, st) \<Rightarrow> Inr ((key, j) # es, st)))))"

definition sanitize_json_value :: "js_value \<Rightarrow> json_error + json" where
  "sanitize_json_value v = (case visit 0 v \<lparr>vs_seen = [], vs_nodes = 0\<rparr> of
     Inl e \<Rightarrow> Inl e | Inr (j, st) \<Rightarrow> Inr j)"

declare visit.simps [simp del]

section \<open>Bounds\<close>

fun json_nodes :: "json \<Rightarrow> nat" where
  "json_nodes (J_array js) = Suc (sum_list (map json_nodes js))"
| "json_nodes (J_object es) = Suc (sum_list (map (\<lambda>e. json_nodes (snd e)) es))"
| "json_nodes _ = 1"

text \<open>Everything below a depth limit is bounded.\<close>

fun json_bounded :: "nat \<Rightarrow> json \<Rightarrow> bool" where
  "json_bounded d (J_string s) \<longleftrightarrow> int (length s) \<le> max_json_string"
| "json_bounded d (J_array js) \<longleftrightarrow> length js \<le> max_host_items
     \<and> (js = [] \<or> 0 < d) \<and> (\<forall>j \<in> set js. json_bounded (d - 1) j)"
| "json_bounded d (J_object es) \<longleftrightarrow> length es \<le> max_host_items
     \<and> (es = [] \<or> 0 < d) \<and> (\<forall>(k, j) \<in> set es. length k \<le> 256 \<and> json_bounded (d - 1) j)"
| "json_bounded d _ \<longleftrightarrow> True"

lemma enter_value_Inr:
  "enter_value depth st = Inr st' \<longleftrightarrow>
     depth \<le> max_json_depth \<and> vs_nodes st + 1 \<le> max_json_nodes \<and> st' = st\<lparr>vs_nodes := vs_nodes st + 1\<rparr>"
  by (auto simp: enter_value_def Let_def)

lemma enter_object_Inr:
  "enter_object i st = Inr st' \<longleftrightarrow> i \<notin> set (vs_seen st) \<and> st' = st\<lparr>vs_seen := i # vs_seen st\<rparr>"
  by (auto simp: enter_object_def)

lemma visit_bounded:
  "visit depth v st = Inr (j, st') \<Longrightarrow> 0 \<le> depth \<Longrightarrow> vs_nodes st \<le> max_json_nodes \<Longrightarrow>
     vs_nodes st' = vs_nodes st + int (json_nodes j) \<and> vs_nodes st' \<le> max_json_nodes
     \<and> depth \<le> max_json_depth \<and> json_bounded (nat (max_json_depth - depth)) j"
  "visit_items depth items st = Inr (js, st') \<Longrightarrow> 0 \<le> depth \<Longrightarrow> vs_nodes st \<le> max_json_nodes \<Longrightarrow>
     vs_nodes st' = vs_nodes st + int (sum_list (map json_nodes js)) \<and> vs_nodes st' \<le> max_json_nodes
     \<and> length js = length items \<and> (js = [] \<or> depth \<le> max_json_depth)
     \<and> (\<forall>j \<in> set js. json_bounded (nat (max_json_depth - depth)) j)"
  "visit_properties depth props st = Inr (es, st') \<Longrightarrow> 0 \<le> depth \<Longrightarrow> vs_nodes st \<le> max_json_nodes \<Longrightarrow>
     vs_nodes st' = vs_nodes st + int (sum_list (map (\<lambda>e. json_nodes (snd e)) es)) \<and> vs_nodes st' \<le> max_json_nodes
     \<and> length es = length (filter property_enumerable props) \<and> (es = [] \<or> depth \<le> max_json_depth)
     \<and> (\<forall>(k, j) \<in> set es. length k \<le> 256 \<and> json_bounded (nat (max_json_depth - depth)) j)"
proof (induction depth v st and depth items st and depth props st arbitrary: j st' and js st' and es st'
    rule: visit_visit_items_visit_properties.induct)
  case (1 depth v st0)
  from "1.prems"(1) obtain st where enter: "enter_value depth st0 = Inr st"
    by (subst (asm) visit.simps) auto
  then have nodes: "vs_nodes st = vs_nodes st0 + 1" "vs_nodes st \<le> max_json_nodes" "depth \<le> max_json_depth"
    by (auto simp: enter_value_Inr)
  have limit: "depth + 1 \<le> max_json_depth \<Longrightarrow> 0 < nat (max_json_depth - depth)"
    "nat (max_json_depth - depth) - 1 = nat (max_json_depth - (depth + 1))" by auto
  show ?case
  proof (cases v)
    case (V_array i items)
    with "1.prems"(1) enter obtain st1 js where st1: "enter_object i st = Inr st1"
      "\<not> length items > max_host_items" and items: "visit_items (depth + 1) items st1 = Inr (js, st')" "j = J_array js"
      by (subst (asm) visit.simps) (auto split: if_splits)
    have "vs_nodes st1 = vs_nodes st" using st1(1) by (simp add: enter_object_Inr)
    with "1.IH"(1) [OF enter V_array st1 items(1)] "1.prems"(2) nodes
    have "vs_nodes st' = vs_nodes st + int (sum_list (map json_nodes js)) \<and> vs_nodes st' \<le> max_json_nodes
      \<and> length js = length items \<and> (js = [] \<or> depth + 1 \<le> max_json_depth)
      \<and> (\<forall>j \<in> set js. json_bounded (nat (max_json_depth - (depth + 1))) j)" by simp
    with items(2) nodes st1(2) limit show ?thesis by auto
  next
    case (V_object i plain props)
    with "1.prems"(1) enter obtain st1 es where st1: "enter_object i st = Inr st1" "\<not> \<not> plain"
      "\<not> length (filter property_enumerable props) > max_host_items"
      and props: "visit_properties (depth + 1) props st1 = Inr (es, st')" "j = J_object es"
      by (subst (asm) visit.simps) (auto split: if_splits)
    have "vs_nodes st1 = vs_nodes st" using st1(1) by (simp add: enter_object_Inr)
    with "1.IH"(2) [OF enter V_object st1 props(1)] "1.prems"(2) nodes
    have "vs_nodes st' = vs_nodes st + int (sum_list (map (\<lambda>e. json_nodes (snd e)) es)) \<and> vs_nodes st' \<le> max_json_nodes
      \<and> length es = length (filter property_enumerable props) \<and> (es = [] \<or> depth + 1 \<le> max_json_depth)
      \<and> (\<forall>(k, j) \<in> set es. length k \<le> 256 \<and> json_bounded (nat (max_json_depth - (depth + 1))) j)" by simp
    with props(2) nodes st1(3) limit show ?thesis by auto
  qed (use "1.prems"(1) [unfolded visit.simps [of depth v st0]] enter nodes in
      \<open>auto split: option.splits if_splits\<close>)
next
  case (4 depth v items st)
  from "4.prems"(1) obtain j st1 js1 where v: "visit depth v st = Inr (j, st1)"
    and items: "visit_items depth items st1 = Inr (js1, st')" "js = j # js1"
    by auto
  from "4.IH"(1) [OF v "4.prems"(2,3)]
  have one: "vs_nodes st1 = vs_nodes st + int (json_nodes j) \<and> vs_nodes st1 \<le> max_json_nodes
    \<and> depth \<le> max_json_depth \<and> json_bounded (nat (max_json_depth - depth)) j" by simp
  with "4.IH"(2) [OF v refl items(1) "4.prems"(2)]
  have "vs_nodes st' = vs_nodes st1 + int (sum_list (map json_nodes js1)) \<and> vs_nodes st' \<le> max_json_nodes
    \<and> length js1 = length items \<and> (\<forall>j \<in> set js1. json_bounded (nat (max_json_depth - depth)) j)"
    by simp
  with one show ?case unfolding items(2) by simp
next
  case (6 depth key enumerable slot props st)
  show ?case
  proof (cases enumerable)
    case False
    then have "visit_properties depth props st = Inr (es, st')" using "6.prems"(1) by simp
    from "6.IH"(1) [OF False this "6.prems"(2,3)] False show ?thesis by simp
  next
    case True
    show ?thesis
    proof (cases "length key > 256")
      case short: False
      with True "6.prems"(1) obtain v where slot: "slot = Data v" by (cases slot) simp_all
      with True short "6.prems"(1) obtain j st1 es1 where v: "visit depth v st = Inr (j, st1)"
        and es: "visit_properties depth props st1 = Inr (es1, st')" "es = (key, j) # es1"
        by auto
      from True have t: "\<not> \<not> enumerable" by simp
      from "6.IH"(2) [OF t short slot v "6.prems"(2,3)]
      have one: "vs_nodes st1 = vs_nodes st + int (json_nodes j) \<and> vs_nodes st1 \<le> max_json_nodes
        \<and> depth \<le> max_json_depth \<and> json_bounded (nat (max_json_depth - depth)) j" by simp
      with "6.IH"(3) [OF t short slot v refl es(1) "6.prems"(2)]
      have "vs_nodes st' = vs_nodes st1 + int (sum_list (map (\<lambda>e. json_nodes (snd e)) es1))
        \<and> vs_nodes st' \<le> max_json_nodes \<and> length es1 = length (filter property_enumerable props)
        \<and> (\<forall>(k, j) \<in> set es1. length k \<le> 256 \<and> json_bounded (nat (max_json_depth - depth)) j)"
        by simp
      with one True short show ?thesis unfolding es(2) by simp
    qed (use True "6.prems"(1) in simp)
  qed
qed auto

section \<open>Properties\<close>

text \<open>C37. Whatever the input, hostile nesting, aliases and huge values included, a value that passes the
  sanitizer is JSON of at most 4096 nodes, nested at most 32 deep, with at most 64 items or keys per
  level, strings of at most 16000 code units and keys of at most 256.\<close>

theorem sanitized_json_bounded:
  assumes "sanitize_json_value v = Inr j"
  shows "json_nodes j \<le> 4096 \<and> json_bounded 32 j"
proof -
  from assms obtain st where "visit 0 v \<lparr>vs_seen = [], vs_nodes = 0\<rparr> = Inr (j, st)"
    by (auto simp: sanitize_json_value_def)
  from visit_bounded(1) [OF this] show ?thesis by simp
qed

definition sample_js_value :: js_value where
  "sample_js_value = V_object 1 True
     [Property (text_of ''ports'') True (Data (V_array 2 [Data (V_number (Some 80)), Data V_null])),
      Property (text_of ''hidden'') False No_value]"

theorem sanitized_json_bounded_witness:
  "sanitize_json_value sample_js_value
     = Inr (J_object [(text_of ''ports'', J_array [J_number 80, J_null])])
   \<and> json_bounded 32 (J_object [(text_of ''ports'', J_array [J_number 80, J_null])])"
proof
  show run: "sanitize_json_value sample_js_value
     = Inr (J_object [(text_of ''ports'', J_array [J_number 80, J_null])])"
    by (simp add: sanitize_json_value_def sample_js_value_def visit.simps enter_value_def enter_object_def
        text_of_def)
  show "json_bounded 32 (J_object [(text_of ''ports'', J_array [J_number 80, J_null])])"
    using sanitized_json_bounded [OF run] by simp
qed

end
