(* ===== verification/Canonical_Json.thy ===== *)
theory Canonical_Json
  imports Relay_Prelude "HOL-Library.Multiset"
begin

text \<open>
  \<open>canonicalJson\<close> of \<^verbatim>\<open>node/src/runtime-authority-contract.ts\<close> and \<^verbatim>\<open>protocol/src/adapter.ts\<close>: the
  JSON text of a value with the keys of every object sorted, with \<open>JSON.stringify\<close> of strings and integers
  written out.
\<close>

datatype json_tree =
  Jt_null
| Jt_bool bool
| Jt_int int
| Jt_string jstext
| Jt_array "json_tree list"
| Jt_object "(jstext \<times> json_tree) list"

definition hex_digit :: "nat \<Rightarrow> char" where
  "hex_digit n = (if n < 10 then char_of (48 + n) else char_of (87 + n))"

definition unicode_escape :: "16 word \<Rightarrow> jstext" where
  "unicode_escape u = text_of (CHR 0x5C # CHR ''u'' # map hex_digit
     [unat u div 4096, unat u div 256 mod 16, unat u div 16 mod 16, unat u mod 16])"

definition short_escape :: "16 word \<Rightarrow> char option" where
  "short_escape u = (if u = 8 then Some (CHR ''b'') else if u = 9 then Some (CHR ''t'')
     else if u = 10 then Some (CHR ''n'') else if u = 12 then Some (CHR ''f'')
     else if u = 13 then Some (CHR ''r'') else if u = 0x22 then Some (CHR 0x22)
     else if u = 0x5C then Some (CHR 0x5C) else None)"

definition escape_unit :: "16 word \<Rightarrow> jstext" where
  "escape_unit u = (case short_escape u of Some c \<Rightarrow> text_of [CHR 0x5C, c]
     | None \<Rightarrow> if u < 0x20 then unicode_escape u else [u])"

text \<open>The contents of a JSON string: a surrogate pair stays, a lone surrogate is escaped.\<close>

fun escape_text :: "jstext \<Rightarrow> jstext" where
  "escape_text [] = []"
| "escape_text [u] = (if is_high_surrogate u \<or> is_low_surrogate u then unicode_escape u else escape_unit u)"
| "escape_text (u # v # us) =
     (if is_high_surrogate u \<and> is_low_surrogate v then u # v # escape_text us
      else (if is_high_surrogate u \<or> is_low_surrogate u then unicode_escape u else escape_unit u)
           @ escape_text (v # us))"

definition json_string :: "jstext \<Rightarrow> jstext" where
  "json_string t = [0x22] @ escape_text t @ [0x22]"

fun join_comma :: "jstext list \<Rightarrow> jstext" where
  "join_comma [] = []"
| "join_comma [t] = t"
| "join_comma (t # ts) = t @ [0x2C] @ join_comma ts"

fun canonical_json :: "json_tree \<Rightarrow> jstext" where
  "canonical_json Jt_null = text_of ''null''"
| "canonical_json (Jt_bool b) = text_of (if b then ''true'' else ''false'')"
| "canonical_json (Jt_int n) = text_of (string_of_int n)"
| "canonical_json (Jt_string t) = json_string t"
| "canonical_json (Jt_array vs) = [0x5B] @ join_comma (map canonical_json vs) @ [0x5D]"
| "canonical_json (Jt_object es) =
     [0x7B] @ join_comma (map (\<lambda>(k, t). json_string k @ [0x3A] @ t)
       (sort_key fst (map (\<lambda>(k, v). (k, canonical_json v)) es))) @ [0x7D]"

lemma filter_key_single:
  "distinct (map fst zs) \<Longrightarrow> k \<in> set zs \<Longrightarrow> filter (\<lambda>x. fst k = fst x) zs = [k]"
  by (induction zs) (force simp: filter_empty_conv)+

lemma sort_key_distinct_perm:
  fixes xs :: "('a :: linorder \<times> 'b) list"
  assumes "distinct (map fst xs)" and "mset xs = mset ys"
  shows "sort_key fst xs = sort_key fst ys"
proof (rule properties_for_sort_key)
  show eq: "mset (sort_key fst ys) = mset xs" using assms(2) by simp
  show "sorted (map fst (sort_key fst ys))" by simp
  have "mset (map fst (sort_key fst ys)) = mset (map fst xs)" using eq by (metis mset_map)
  then have dist: "distinct (map fst (sort_key fst ys))"
    using assms(1) mset_eq_imp_distinct_iff by blast
  fix k assume k: "k \<in> set (sort_key fst ys)"
  with eq have "k \<in> set xs" by (metis set_mset_mset)
  then show "filter (\<lambda>x. fst k = fst x) (sort_key fst ys) = filter (\<lambda>x. fst k = fst x) xs"
    using filter_key_single [OF dist k] filter_key_single [OF assms(1)] by simp
qed

text \<open>Canonical JSON does not depend on the order in which an object's keys were written.\<close>

theorem canonical_json_key_order:
  assumes "distinct (map fst es)" and "mset es = mset fs"
  shows "canonical_json (Jt_object es) = canonical_json (Jt_object fs)"
proof -
  let ?c = "\<lambda>(k, v). (k, canonical_json v)"
  have "sort_key fst (map ?c es) = sort_key fst (map ?c fs)"
  proof (rule sort_key_distinct_perm)
    show "distinct (map fst (map ?c es))" using assms(1) by (simp add: comp_def split_def)
    show "mset (map ?c es) = mset (map ?c fs)" using assms(2) by simp
  qed
  then show ?thesis by simp
qed

theorem canonical_json_key_order_witness:
  "canonical_json (Jt_object [(text_of ''b'', Jt_int 1), (text_of ''a'', Jt_null)])
     = canonical_json (Jt_object [(text_of ''a'', Jt_null), (text_of ''b'', Jt_int 1)])
   \<and> canonical_json (Jt_object [(text_of ''a'', Jt_null), (text_of ''b'', Jt_int 1)])
     = text_of (CHR ''{'' # [CHR 0x22] @ ''a'' @ [CHR 0x22] @ '':null,'' @ [CHR 0x22] @ ''b'' @ [CHR 0x22] @ '':1}'')"
proof
  show "canonical_json (Jt_object [(text_of ''b'', Jt_int 1), (text_of ''a'', Jt_null)])
     = canonical_json (Jt_object [(text_of ''a'', Jt_null), (text_of ''b'', Jt_int 1)])"
    by (rule canonical_json_key_order) (simp_all add: text_of_def)
qed code_simp

end
