(* ===== verification/Runtime_Authority.thy ===== *)
theory Runtime_Authority
  imports Deliveries Canonical_Json
begin

text \<open>
  The local runtime authority of a Node: the grant contract of
  \<^verbatim>\<open>node/src/runtime-authority-contract.ts\<close> and the reference monitor of
  \<^verbatim>\<open>node/src/runtime-authority.ts\<close>.  The monitor's operations take the clock's answer as an argument
  (\<^const>\<open>None\<close> for an invalid date); they return the monitor also when they deny, because an expiry
  found on the way revokes it.
\<close>

section \<open>Actions, resources, limits\<close>

datatype runtime_action =
  Runtime_start | Runtime_recover | Runtime_cancel | Workspace_read | Workspace_write
| Verification_execute | Usage_report | Artifact_publish | Outbound_publish | Repository_push
| Repository_merge | Package_publish | Deploy | Network_access | Secret_read | Privilege_expand

datatype runtime_resource =
  Res_runtime | Res_workspace | Res_verification_command | Res_usage | Res_artifact | Res_relay
| Res_repository | Res_package | Res_deployment | Res_network | Res_secret | Res_privilege

record capability =
  cap_action :: runtime_action
  cap_resource :: runtime_resource

record authority_limits =
  lim_turn_ms :: int
  lim_reported_tokens :: int
  lim_output_bytes :: int
  lim_artifact_count :: int
  lim_artifact_bytes :: int
  lim_artifact_types :: "string list"

definition positive_limit_ok :: "int \<Rightarrow> bool" where
  "positive_limit_ok n \<longleftrightarrow> 0 < n \<and> n \<le> max_safe_integer"

definition limits_ok :: "authority_limits \<Rightarrow> bool" where
  "limits_ok l \<longleftrightarrow> positive_limit_ok (lim_turn_ms l) \<and> positive_limit_ok (lim_reported_tokens l)
     \<and> positive_limit_ok (lim_output_bytes l) \<and> positive_limit_ok (lim_artifact_count l)
     \<and> positive_limit_ok (lim_artifact_bytes l)
     \<and> list_all artifact_type_ok (lim_artifact_types l) \<and> length (lim_artifact_types l) \<le> 32"

definition product_denied_actions :: "runtime_action list" where
  "product_denied_actions = [Repository_push, Repository_merge, Package_publish, Deploy,
     Network_access, Secret_read, Privilege_expand]"

definition is_product_denied_action :: "runtime_action \<Rightarrow> bool" where
  "is_product_denied_action a \<longleftrightarrow> a \<in> set product_denied_actions"

fun expected_runtime_resource :: "runtime_action \<Rightarrow> runtime_resource" where
  "expected_runtime_resource Runtime_start = Res_runtime"
| "expected_runtime_resource Runtime_recover = Res_runtime"
| "expected_runtime_resource Runtime_cancel = Res_runtime"
| "expected_runtime_resource Workspace_read = Res_workspace"
| "expected_runtime_resource Workspace_write = Res_workspace"
| "expected_runtime_resource Verification_execute = Res_verification_command"
| "expected_runtime_resource Usage_report = Res_usage"
| "expected_runtime_resource Artifact_publish = Res_artifact"
| "expected_runtime_resource Outbound_publish = Res_relay"
| "expected_runtime_resource Repository_push = Res_repository"
| "expected_runtime_resource Repository_merge = Res_repository"
| "expected_runtime_resource Package_publish = Res_package"
| "expected_runtime_resource Deploy = Res_deployment"
| "expected_runtime_resource Network_access = Res_network"
| "expected_runtime_resource Secret_read = Res_secret"
| "expected_runtime_resource Privilege_expand = Res_privilege"

definition same_runtime_capability :: "capability \<Rightarrow> capability \<Rightarrow> bool" where
  "same_runtime_capability left right \<longleftrightarrow>
     cap_action left = cap_action right \<and> cap_resource left = cap_resource right"

section \<open>Grants\<close>

record authority_scope =
  sc_grant_id :: string
  sc_agent_id :: string
  sc_node_id :: string
  sc_workspace_binding_id :: string
  sc_workspace_alias :: string
  sc_workspace_resource_sha256 :: string
  sc_mission_id :: string
  sc_delivery_id :: string
  sc_execution_attempt :: int
  sc_lease_id :: string
  sc_fencing_token :: string
  sc_policy_profile :: jstext
  sc_policy_grant_sha256 :: string

definition workspace_alias_pattern :: "string \<Rightarrow> bool" where
  "workspace_alias_pattern s \<longleftrightarrow> 1 \<le> length s \<and> length s \<le> 64
     \<and> head_tail is_alnum (\<lambda>c. is_alnum c \<or> c \<in> set ''._-'') s"

definition scope_ok :: "host_lib \<Rightarrow> 'a authority_scope_scheme \<Rightarrow> bool" where
  "scope_ok L s \<longleftrightarrow> uuid_format L (sc_grant_id s) \<and> uuid_format L (sc_agent_id s)
     \<and> uuid_format L (sc_node_id s) \<and> uuid_format L (sc_workspace_binding_id s)
     \<and> workspace_alias_pattern (sc_workspace_alias s) \<and> sha256_ok (sc_workspace_resource_sha256 s)
     \<and> uuid_format L (sc_mission_id s) \<and> uuid_format L (sc_delivery_id s)
     \<and> positive_limit_ok (sc_execution_attempt s) \<and> uuid_format L (sc_lease_id s)
     \<and> active_fencing_token_ok (sc_fencing_token s)
     \<and> 1 \<le> length (sc_policy_profile s) \<and> length (sc_policy_profile s) \<le> 64
     \<and> sha256_ok (sc_policy_grant_sha256 s)"

record limit_sources =
  src_product :: authority_limits
  src_local :: authority_limits
  src_mission :: authority_limits
  src_runtime :: authority_limits

record grant_input = authority_scope +
  gr_lease_expires_at :: timestamp
  gr_hard_expires_at :: timestamp
  gr_capabilities :: "capability list"
  gr_limit_sources :: limit_sources

record authority_grant = grant_input +
  gr_effective_limits :: authority_limits

text \<open>The versions of a grant are literals, so they are no fields of the model.\<close>

definition grant_capability_issues :: "capability list \<Rightarrow> issue list" where
  "grant_capability_issues capabilities =
     add_issue (\<not> has_unique_values (map (\<lambda>c. (cap_action c, cap_resource c)) capabilities))
       ''Runtime capabilities must be unique'' [Key ''capabilities'']
   @ indexed_issues (\<lambda>index c.
       add_issue (cap_resource c \<noteq> expected_runtime_resource (cap_action c))
         ''Runtime capability action and resource do not match''
         [Key ''capabilities'', Index index, Key ''resource'']) capabilities"

definition sources_ok :: "limit_sources \<Rightarrow> bool" where
  "sources_ok s \<longleftrightarrow> limits_ok (src_product s) \<and> limits_ok (src_local s) \<and> limits_ok (src_mission s)
     \<and> limits_ok (src_runtime s)"

definition grant_input_ok :: "host_lib \<Rightarrow> 'a grant_input_scheme \<Rightarrow> bool" where
  "grant_input_ok L g \<longleftrightarrow> scope_ok L g \<and> datetime_format L (gr_lease_expires_at g)
     \<and> datetime_format L (gr_hard_expires_at g) \<and> length (gr_capabilities g) \<le> 32
     \<and> sources_ok (gr_limit_sources g) \<and> grant_capability_issues (gr_capabilities g) = []"

text \<open>\<open>current.filter((type) => source.includes(type))\<close> folded over the sources, then the distinct types
  in code-unit order.\<close>

definition common_artifact_types :: "authority_limits list \<Rightarrow> string list" where
  "common_artifact_types sources =
     (case map lim_artifact_types sources of
        [] \<Rightarrow> []
      | first # others \<Rightarrow> foldl (\<lambda>current source. filter (\<lambda>t. t \<in> set source) current) first others)"

definition intersect_limits :: "limit_sources \<Rightarrow> authority_limits" where
  "intersect_limits s =
     (let sources = [src_product s, src_local s, src_mission s, src_runtime s];
          minimum = (\<lambda>f. foldr min (map f (tl sources)) (f (hd sources)))
      in \<lparr>lim_turn_ms = minimum lim_turn_ms, lim_reported_tokens = minimum lim_reported_tokens,
          lim_output_bytes = minimum lim_output_bytes, lim_artifact_count = minimum lim_artifact_count,
          lim_artifact_bytes = minimum lim_artifact_bytes,
          lim_artifact_types = sort (remdups (common_artifact_types sources))\<rparr>)"

definition text_json :: "string \<Rightarrow> json_tree" where
  "text_json s = Jt_string (text_of s)"

definition object_json :: "(string \<times> json_tree) list \<Rightarrow> json_tree" where
  "object_json es = Jt_object (map (\<lambda>(k, v). (text_of k, v)) es)"

definition limits_json :: "authority_limits \<Rightarrow> json_tree" where
  "limits_json l = object_json
     [(''turn_ms'', Jt_int (lim_turn_ms l)), (''reported_tokens'', Jt_int (lim_reported_tokens l)),
      (''output_bytes'', Jt_int (lim_output_bytes l)), (''artifact_count'', Jt_int (lim_artifact_count l)),
      (''artifact_bytes'', Jt_int (lim_artifact_bytes l)),
      (''artifact_types'', Jt_array (map text_json (lim_artifact_types l)))]"

text \<open>The source compares the canonical JSON of the two limits; that text spells out the six fields, so
  equal texts are equal limits.\<close>

definition grant_ok :: "host_lib \<Rightarrow> authority_grant \<Rightarrow> bool" where
  "grant_ok L g \<longleftrightarrow> grant_input_ok L g \<and> limits_ok (gr_effective_limits g)
     \<and> intersect_limits (gr_limit_sources g) = gr_effective_limits g"

fun action_name :: "runtime_action \<Rightarrow> string" where
  "action_name Runtime_start = ''runtime_start''"
| "action_name Runtime_recover = ''runtime_recover''"
| "action_name Runtime_cancel = ''runtime_cancel''"
| "action_name Workspace_read = ''workspace_read''"
| "action_name Workspace_write = ''workspace_write''"
| "action_name Verification_execute = ''verification_execute''"
| "action_name Usage_report = ''usage_report''"
| "action_name Artifact_publish = ''artifact_publish''"
| "action_name Outbound_publish = ''outbound_publish''"
| "action_name Repository_push = ''repository_push''"
| "action_name Repository_merge = ''repository_merge''"
| "action_name Package_publish = ''package_publish''"
| "action_name Deploy = ''deploy''"
| "action_name Network_access = ''network_access''"
| "action_name Secret_read = ''secret_read''"
| "action_name Privilege_expand = ''privilege_expand''"

fun resource_name :: "runtime_resource \<Rightarrow> string" where
  "resource_name Res_runtime = ''runtime''"
| "resource_name Res_workspace = ''workspace''"
| "resource_name Res_verification_command = ''verification_command''"
| "resource_name Res_usage = ''usage''"
| "resource_name Res_artifact = ''artifact''"
| "resource_name Res_relay = ''relay''"
| "resource_name Res_repository = ''repository''"
| "resource_name Res_package = ''package''"
| "resource_name Res_deployment = ''deployment''"
| "resource_name Res_network = ''network''"
| "resource_name Res_secret = ''secret''"
| "resource_name Res_privilege = ''privilege''"

definition capability_json :: "capability \<Rightarrow> json_tree" where
  "capability_json c = object_json
     [(''action'', text_json (action_name (cap_action c))),
      (''resource'', text_json (resource_name (cap_resource c)))]"

definition grant_json :: "authority_grant \<Rightarrow> json_tree" where
  "grant_json g = object_json
     [(''grant_id'', text_json (sc_grant_id g)), (''agent_id'', text_json (sc_agent_id g)),
      (''node_id'', text_json (sc_node_id g)),
      (''workspace_binding_id'', text_json (sc_workspace_binding_id g)),
      (''workspace_alias'', text_json (sc_workspace_alias g)),
      (''workspace_resource_sha256'', text_json (sc_workspace_resource_sha256 g)),
      (''mission_id'', text_json (sc_mission_id g)), (''delivery_id'', text_json (sc_delivery_id g)),
      (''execution_attempt'', Jt_int (sc_execution_attempt g)), (''lease_id'', text_json (sc_lease_id g)),
      (''fencing_token'', text_json (sc_fencing_token g)),
      (''policy_profile'', Jt_string (sc_policy_profile g)),
      (''policy_grant_sha256'', text_json (sc_policy_grant_sha256 g)),
      (''schema_version'', Jt_int 1), (''product_policy_version'', Jt_int 1),
      (''lease_expires_at'', text_json (gr_lease_expires_at g)),
      (''hard_expires_at'', text_json (gr_hard_expires_at g)),
      (''capabilities'', Jt_array (map capability_json (gr_capabilities g))),
      (''limit_sources'', object_json
         [(''product'', limits_json (src_product (gr_limit_sources g))),
          (''local'', limits_json (src_local (gr_limit_sources g))),
          (''mission'', limits_json (src_mission (gr_limit_sources g))),
          (''runtime'', limits_json (src_runtime (gr_limit_sources g)))]),
      (''effective_limits'', limits_json (gr_effective_limits g))]"

definition runtime_authority_grant_sha256 :: "host_lib \<Rightarrow> authority_grant \<Rightarrow> string" where
  "runtime_authority_grant_sha256 L g = sha256_hex L (canonical_json (grant_json g))"

datatype deny_code =
  Invalid_request | Wrong_grant | Wrong_agent | Wrong_node | Wrong_workspace | Wrong_resource
| Wrong_mission | Wrong_delivery | Wrong_attempt | Wrong_lease | Stale_fence | Policy_changed
| Expired_code | Revoked_code | Capability_missing | Budget_exceeded | Product_denied

datatype authority_error = Authority_zod | Denied deny_code | Evidence_failed | Not_installed

definition parse_grant :: "host_lib \<Rightarrow> authority_grant \<Rightarrow> authority_error + authority_grant" where
  "parse_grant L g = (if grant_ok L g then Inr g else Inl Authority_zod)"

definition compile_runtime_authority_grant ::
  "host_lib \<Rightarrow> grant_input \<Rightarrow> authority_error + authority_grant" where
  "compile_runtime_authority_grant L input =
     (if \<not> grant_input_ok L input then Inl Authority_zod
      else parse_grant L (grant_input.extend input
             \<lparr>gr_effective_limits = intersect_limits (gr_limit_sources input)\<rparr>))"

section \<open>Requests\<close>

record measurement =
  ms_reported_tokens :: "int option"
  ms_output_bytes :: "int option"
  ms_artifact_count :: "int option"
  ms_artifact_bytes :: "int option"
  ms_artifact_type :: "string option"

definition safe_nonnegative :: "int \<Rightarrow> bool" where
  "safe_nonnegative n \<longleftrightarrow> 0 \<le> n \<and> n \<le> max_safe_integer"

definition measurement_ok :: "measurement \<Rightarrow> bool" where
  "measurement_ok m \<longleftrightarrow> nullable safe_nonnegative (ms_reported_tokens m)
     \<and> nullable safe_nonnegative (ms_output_bytes m) \<and> nullable safe_nonnegative (ms_artifact_count m)
     \<and> nullable safe_nonnegative (ms_artifact_bytes m) \<and> nullable artifact_type_ok (ms_artifact_type m)"

record authority_request = authority_scope +
  rq_capability :: capability
  rq_measurement :: "measurement option"

definition request_ok :: "host_lib \<Rightarrow> authority_request \<Rightarrow> bool" where
  "request_ok L r \<longleftrightarrow> scope_ok L r \<and> nullable measurement_ok (rq_measurement r)"

definition scope_of :: "'a authority_scope_scheme \<Rightarrow> authority_scope" where
  "scope_of g = authority_scope.truncate g"

definition runtime_authority_request ::
  "host_lib \<Rightarrow> authority_grant \<Rightarrow> capability \<Rightarrow> measurement option \<Rightarrow> authority_error + authority_request" where
  "runtime_authority_request L g c m =
     (let r = authority_scope.extend (scope_of g) \<lparr>rq_capability = c, rq_measurement = m\<rparr>
      in if request_ok L r then Inr r else Inl Authority_zod)"

record authority_renewal =
  rn_grant_id :: string
  rn_lease_id :: string
  rn_fencing_token :: string
  rn_lease_expires_at :: timestamp

definition renewal_ok :: "host_lib \<Rightarrow> authority_renewal \<Rightarrow> bool" where
  "renewal_ok L r \<longleftrightarrow> uuid_format L (rn_grant_id r) \<and> uuid_format L (rn_lease_id r)
     \<and> active_fencing_token_ok (rn_fencing_token r) \<and> datetime_format L (rn_lease_expires_at r)"

definition advance_runtime_authority_lease ::
  "host_lib \<Rightarrow> authority_grant \<Rightarrow> timestamp \<Rightarrow> authority_renewal \<Rightarrow> authority_error + timestamp" where
  "advance_runtime_authority_lease L g current_expiry r =
     (if \<not> renewal_ok L r then Inl (Denied Invalid_request)
      else if rn_grant_id r \<noteq> sc_grant_id g then Inl (Denied Wrong_grant)
      else if rn_lease_id r \<noteq> sc_lease_id g then Inl (Denied Wrong_lease)
      else if rn_fencing_token r \<noteq> sc_fencing_token g then Inl (Denied Stale_fence)
      else if num_lt (date_parse L (rn_lease_expires_at r)) (date_parse L current_expiry)
      then Inl (Denied Expired_code)
      else Inr (rn_lease_expires_at r))"

end
