(* ===== verification/Reference_Monitor.thy ===== *)
theory Reference_Monitor
  imports Runtime_Authority
begin

text \<open>
  \<open>LocalReferenceMonitor\<close> of \<^verbatim>\<open>node/src/runtime-authority.ts\<close>.  The abort signal is aborted exactly when
  the monitor is revoked, with the revocation code as its reason; the expiry timer is the operation
  \<open>arm_expiry\<close>, which may run at any time.  A request value that does not parse is \<^const>\<open>None\<close>.
\<close>

section \<open>The monitor\<close>

record monitor =
  mo_grant :: authority_grant
  mo_lease_expires_at :: timestamp
  mo_revoked :: "deny_code option"

definition revoke :: "deny_code \<Rightarrow> monitor \<Rightarrow> monitor" where
  "revoke reason m = (if mo_revoked m \<noteq> None then m else m\<lparr>mo_revoked := Some reason\<rparr>)"

fun opt_min :: "int option \<Rightarrow> int option \<Rightarrow> int option" where
  "opt_min (Some a) (Some b) = Some (min a b)"
| "opt_min _ _ = None"

definition arm_expiry :: "host_lib \<Rightarrow> int option \<Rightarrow> monitor \<Rightarrow> monitor" where
  "arm_expiry L now m =
     (if mo_revoked m \<noteq> None then m
      else (case (opt_min (date_parse L (mo_lease_expires_at m)) (date_parse L (gr_hard_expires_at (mo_grant m))), now) of
              (Some deadline, Some n) \<Rightarrow> if deadline - n \<le> 0 then revoke Expired_code m else m
            | _ \<Rightarrow> revoke Expired_code m))"

definition create_monitor ::
  "host_lib \<Rightarrow> int option \<Rightarrow> authority_grant \<Rightarrow> authority_renewal option \<Rightarrow> authority_error + monitor" where
  "create_monitor L now grant current_lease =
     (case parse_grant L grant of
        Inl e \<Rightarrow> Inl e
      | Inr g \<Rightarrow>
         (case (case current_lease of None \<Rightarrow> Inr (gr_lease_expires_at g)
                | Some r \<Rightarrow> advance_runtime_authority_lease L g (gr_lease_expires_at g) r) of
            Inl e \<Rightarrow> Inl e
          | Inr expiry \<Rightarrow> Inr (arm_expiry L now
              \<lparr>mo_grant = g, mo_lease_expires_at = expiry, mo_revoked = None\<rparr>)))"

text \<open>A denial leaves the monitor behind as it is then.\<close>

type_synonym 'a decision = "(authority_error + 'a) \<times> monitor"

definition assert_live :: "host_lib \<Rightarrow> int option \<Rightarrow> monitor \<Rightarrow> unit decision" where
  "assert_live L now m =
     (case mo_revoked m of
        Some code \<Rightarrow> (Inl (Denied code), m)
      | None \<Rightarrow>
          if now = None \<or> num_le (date_parse L (mo_lease_expires_at m)) now
             \<or> num_le (date_parse L (gr_hard_expires_at (mo_grant m))) now
          then (Inl (Denied Expired_code), revoke Expired_code m)
          else (Inr (), m))"

definition monitor_renew :: "host_lib \<Rightarrow> int option \<Rightarrow> authority_renewal \<Rightarrow> monitor \<Rightarrow> unit decision" where
  "monitor_renew L now r m =
     (case assert_live L now m of
        (Inl e, m) \<Rightarrow> (Inl e, m)
      | (Inr _, m) \<Rightarrow>
         (case advance_runtime_authority_lease L (mo_grant m) (mo_lease_expires_at m) r of
            Inl e \<Rightarrow> (Inl e, m)
          | Inr next_expiry \<Rightarrow>
             (case (date_parse L next_expiry, date_parse L (mo_lease_expires_at m)) of
                (Some a, Some b) \<Rightarrow> if a = b then (Inr (), m)
                  else (Inr (), arm_expiry L now (m\<lparr>mo_lease_expires_at := next_expiry\<rparr>))
              | _ \<Rightarrow> (Inr (), arm_expiry L now (m\<lparr>mo_lease_expires_at := next_expiry\<rparr>)))))"

section \<open>Decisions\<close>

definition deny_if :: "bool \<Rightarrow> deny_code \<Rightarrow> authority_error + unit \<Rightarrow> authority_error + unit" where
  "deny_if b code continue = (if b then Inl (Denied code) else continue)"

definition assert_scope :: "authority_grant \<Rightarrow> authority_request \<Rightarrow> authority_error + unit" where
  "assert_scope g r =
     deny_if (sc_grant_id r \<noteq> sc_grant_id g) Wrong_grant
     (deny_if (sc_agent_id r \<noteq> sc_agent_id g) Wrong_agent
     (deny_if (sc_node_id r \<noteq> sc_node_id g) Wrong_node
     (deny_if (sc_workspace_binding_id r \<noteq> sc_workspace_binding_id g
        \<or> sc_workspace_alias r \<noteq> sc_workspace_alias g) Wrong_workspace
     (deny_if (sc_workspace_resource_sha256 r \<noteq> sc_workspace_resource_sha256 g) Wrong_resource
     (deny_if (sc_mission_id r \<noteq> sc_mission_id g) Wrong_mission
     (deny_if (sc_delivery_id r \<noteq> sc_delivery_id g) Wrong_delivery
     (deny_if (sc_execution_attempt r \<noteq> sc_execution_attempt g) Wrong_attempt
     (deny_if (sc_lease_id r \<noteq> sc_lease_id g) Wrong_lease
     (deny_if (sc_fencing_token r \<noteq> sc_fencing_token g) Stale_fence
     (deny_if (sc_policy_profile r \<noteq> sc_policy_profile g
        \<or> sc_policy_grant_sha256 r \<noteq> sc_policy_grant_sha256 g) Policy_changed
     (Inr ())))))))))))"

definition or_zero :: "int option \<Rightarrow> int" where
  "or_zero v = (case v of None \<Rightarrow> 0 | Some n \<Rightarrow> n)"

definition assert_measurement :: "authority_grant \<Rightarrow> authority_request \<Rightarrow> authority_error + unit" where
  "assert_measurement g r =
     (let m = rq_measurement r; action = cap_action (rq_capability r);
          missing = (\<lambda>f. (case m of None \<Rightarrow> True | Some x \<Rightarrow> f x)) in
      deny_if (action = Usage_report \<and> missing (\<lambda>x. ms_reported_tokens x = None)) Invalid_request
      (deny_if (action = Artifact_publish \<and> missing (\<lambda>x. ms_artifact_count x = None
          \<or> ms_artifact_bytes x = None \<or> ms_artifact_type x = None)) Invalid_request
      (deny_if (action = Outbound_publish \<and> missing (\<lambda>x. ms_output_bytes x = None)) Invalid_request
      (case m of
         None \<Rightarrow> Inr ()
       | Some x \<Rightarrow>
          (let limits = gr_effective_limits g in
           deny_if (action \<noteq> Usage_report \<and> action \<noteq> Artifact_publish \<and> action \<noteq> Outbound_publish)
             Invalid_request
           (deny_if (or_zero (ms_reported_tokens x) > lim_reported_tokens limits
               \<or> or_zero (ms_output_bytes x) > lim_output_bytes limits
               \<or> or_zero (ms_artifact_count x) > lim_artifact_count limits
               \<or> or_zero (ms_artifact_bytes x) > lim_artifact_bytes limits
               \<or> (case ms_artifact_type x of None \<Rightarrow> False | Some t \<Rightarrow> t \<notin> set (lim_artifact_types limits)))
             Budget_exceeded (Inr ())))))))"

definition decide :: "host_lib \<Rightarrow> authority_grant \<Rightarrow> authority_request option \<Rightarrow> authority_error + unit" where
  "decide L g request =
     (case request of
        None \<Rightarrow> Inl (Denied Invalid_request)
      | Some r \<Rightarrow>
          if \<not> request_ok L r then Inl (Denied Invalid_request)
          else (case assert_scope g r of
                  Inl e \<Rightarrow> Inl e
                | Inr _ \<Rightarrow>
                   deny_if (cap_resource (rq_capability r) \<noteq> expected_runtime_resource (cap_action (rq_capability r)))
                     Wrong_resource
                   (deny_if (is_product_denied_action (cap_action (rq_capability r))) Product_denied
                   (deny_if (\<not> list_ex (\<lambda>c. same_runtime_capability c (rq_capability r)) (gr_capabilities g))
                     Capability_missing
                   (assert_measurement g r)))))"

definition monitor_assert ::
  "host_lib \<Rightarrow> int option \<Rightarrow> authority_request option \<Rightarrow> monitor \<Rightarrow> unit decision" where
  "monitor_assert L now request m =
     (case assert_live L now m of
        (Inl e, m) \<Rightarrow> (Inl e, m)
      | (Inr _, m) \<Rightarrow> (decide L (mo_grant m) request, m))"

section \<open>Performing an effect\<close>

text \<open>What the evidence of a decision says beyond the grant's own fields.\<close>

record evidence_entry =
  ee_capability :: "capability option"
  ee_verdict :: "deny_code option"

definition evidence_of :: "host_lib \<Rightarrow> authority_request option \<Rightarrow> deny_code option \<Rightarrow> evidence_entry" where
  "evidence_of L request verdict =
     \<lparr>ee_capability = (case request of None \<Rightarrow> None
        | Some r \<Rightarrow> if request_ok L r then Some (rq_capability r) else None),
      ee_verdict = verdict\<rparr>"

text \<open>The world answers of one \<open>perform\<close>: the clock at the two checks, and whether the evidence could be
  built and stored.\<close>

record world =
  w_before :: "int option"
  w_stored :: bool
  w_after :: "int option"

text \<open>\<open>perform\<close> up to the effect, which runs exactly when the result is \<open>Inr\<close>; the second component is the
  evidence handed to a sink that stored it.\<close>

definition monitor_perform ::
  "host_lib \<Rightarrow> world \<Rightarrow> authority_request option \<Rightarrow> monitor
    \<Rightarrow> (authority_error + unit) \<times> evidence_entry list \<times> monitor" where
  "monitor_perform L w request m =
     (case monitor_assert L (w_before w) request m of
        (Inl (Denied code), m) \<Rightarrow>
          (Inl (Denied code), (if w_stored w then [evidence_of L request (Some code)] else []), m)
      | (Inl e, m) \<Rightarrow> (Inl e, [], m)
      | (Inr _, m) \<Rightarrow>
          if \<not> w_stored w then (Inl Evidence_failed, [], m)
          else (case monitor_assert L (w_after w) request m of
                  (r, m) \<Rightarrow> (r, [evidence_of L request None], m)))"

section \<open>Laws of limits\<close>

lemma foldl_filter_types:
  "set (foldl (\<lambda>current source. filter (\<lambda>t. t \<in> set source) current) acc sources)
     = set acc \<inter> (\<Inter>s \<in> set sources. set s)"
  by (induction sources arbitrary: acc) auto

text \<open>The order on limits: smaller numbers, fewer artifact types.\<close>

definition limits_le :: "authority_limits \<Rightarrow> authority_limits \<Rightarrow> bool" where
  "limits_le a b \<longleftrightarrow> lim_turn_ms a \<le> lim_turn_ms b \<and> lim_reported_tokens a \<le> lim_reported_tokens b
     \<and> lim_output_bytes a \<le> lim_output_bytes b \<and> lim_artifact_count a \<le> lim_artifact_count b
     \<and> lim_artifact_bytes a \<le> lim_artifact_bytes b
     \<and> set (lim_artifact_types a) \<subseteq> set (lim_artifact_types b)"

lemma intersect_le_sources:
  assumes "l \<in> {src_product s, src_local s, src_mission s, src_runtime s}"
  shows "limits_le (intersect_limits s) l"
  using assms
  by (auto simp: limits_le_def intersect_limits_def Let_def common_artifact_types_def foldl_filter_types)

lemma intersect_greatest:
  assumes "limits_le l (src_product s)" and "limits_le l (src_local s)" and "limits_le l (src_mission s)"
    and "limits_le l (src_runtime s)"
  shows "limits_le l (intersect_limits s)"
  using assms
  by (auto simp: limits_le_def intersect_limits_def Let_def common_artifact_types_def foldl_filter_types)

lemma foldl_filter_length:
  "length (foldl (\<lambda>current source. filter (\<lambda>t. t \<in> set source) current) acc sources) \<le> length acc"
  by (induction sources arbitrary: acc) (auto intro: le_trans [OF _ length_filter_le])

lemma intersect_limits_ok:
  assumes ok: "sources_ok s"
  shows "limits_ok (intersect_limits s)"
proof -
  let ?types = "common_artifact_types [src_product s, src_local s, src_mission s, src_runtime s]"
  have sub: "set ?types \<subseteq> set (lim_artifact_types (src_product s))"
    "length ?types \<le> length (lim_artifact_types (src_product s))"
    unfolding common_artifact_types_def by (simp_all add: foldl_filter_types foldl_filter_length)
  have "length (remdups ?types) \<le> 32"
    using sub(2) length_remdups_leq [of ?types] ok unfolding sources_ok_def limits_ok_def by linarith
  moreover have "list_all artifact_type_ok (remdups ?types)"
    using sub(1) ok by (auto simp: sources_ok_def limits_ok_def list_all_iff)
  moreover have "lim_artifact_types (intersect_limits s) = sort (remdups ?types)"
    by (simp add: intersect_limits_def Let_def)
  ultimately have "list_all artifact_type_ok (lim_artifact_types (intersect_limits s))"
    "length (lim_artifact_types (intersect_limits s)) \<le> 32"
    by (simp_all add: list_all_iff)
  then show ?thesis
    using ok by (auto simp: sources_ok_def limits_ok_def positive_limit_ok_def intersect_limits_def Let_def)
qed

end
