(* ===== verification/Monitor_Laws.thy ===== *)
theory Monitor_Laws
  imports Reference_Monitor Samples
begin

text \<open>
  The laws of the reference monitor: what an allowed effect implies, that revocation is final, that a
  lease is only ever extended, and that the effective limits are the greatest ones all four policy
  sources admit.
\<close>

section \<open>Decisions\<close>

lemma deny_if_Inr [simp]: "deny_if b code continue = Inr u \<longleftrightarrow> \<not> b \<and> continue = Inr u"
  by (simp add: deny_if_def)

lemma assert_scope_Inr: "assert_scope g r = Inr u \<longleftrightarrow> scope_of r = scope_of g"
  by (auto simp: assert_scope_def scope_of_def authority_scope.truncate_def)

text \<open>The measurements an action reports are there, and within the limits.\<close>

definition measured_within :: "authority_limits \<Rightarrow> authority_request \<Rightarrow> bool" where
  "measured_within l r \<longleftrightarrow> (case rq_measurement r of
     None \<Rightarrow> cap_action (rq_capability r) \<notin> {Usage_report, Artifact_publish, Outbound_publish}
   | Some x \<Rightarrow>
       cap_action (rq_capability r) \<in> {Usage_report, Artifact_publish, Outbound_publish}
       \<and> or_zero (ms_reported_tokens x) \<le> lim_reported_tokens l
       \<and> or_zero (ms_output_bytes x) \<le> lim_output_bytes l
       \<and> or_zero (ms_artifact_count x) \<le> lim_artifact_count l
       \<and> or_zero (ms_artifact_bytes x) \<le> lim_artifact_bytes l
       \<and> (\<forall>t. ms_artifact_type x = Some t \<longrightarrow> t \<in> set (lim_artifact_types l)))"

lemma assert_measurement_Inr:
  "assert_measurement g r = Inr u \<Longrightarrow> measured_within (gr_effective_limits g) r"
  by (auto simp: assert_measurement_def measured_within_def Let_def split: option.splits)

lemma measured_within_mono: "measured_within a r \<Longrightarrow> limits_le a b \<Longrightarrow> measured_within b r"
  by (auto simp: measured_within_def limits_le_def split: option.splits)

definition permitted :: "host_lib \<Rightarrow> authority_grant \<Rightarrow> authority_request \<Rightarrow> bool" where
  "permitted L g r \<longleftrightarrow> request_ok L r \<and> scope_of r = scope_of g
     \<and> \<not> is_product_denied_action (cap_action (rq_capability r))
     \<and> rq_capability r \<in> set (gr_capabilities g) \<and> measured_within (gr_effective_limits g) r"

lemma same_runtime_capability_eq: "same_runtime_capability a b \<longleftrightarrow> a = b"
  by (cases a; cases b) (auto simp: same_runtime_capability_def)

lemma decide_Inr: "decide L g request = Inr u \<Longrightarrow> \<exists>r. request = Some r \<and> permitted L g r"
  by (auto simp: decide_def permitted_def assert_scope_Inr list_ex_iff same_runtime_capability_eq
      dest: assert_measurement_Inr split: option.splits if_splits)

section \<open>Liveness\<close>

definition live_at :: "host_lib \<Rightarrow> monitor \<Rightarrow> int option \<Rightarrow> bool" where
  "live_at L m now \<longleftrightarrow> mo_revoked m = None \<and> now \<noteq> None
     \<and> \<not> num_le (date_parse L (mo_lease_expires_at m)) now
     \<and> \<not> num_le (date_parse L (gr_hard_expires_at (mo_grant m))) now"

lemma assert_live_eq:
  "assert_live L now m = (if live_at L m now then (Inr (), m)
     else (Inl (Denied (case mo_revoked m of Some c \<Rightarrow> c | None \<Rightarrow> Expired_code)), revoke Expired_code m))"
  by (auto simp: assert_live_def live_at_def revoke_def split: option.splits)

lemma monitor_assert_eq:
  "monitor_assert L now request m = (if live_at L m now then (decide L (mo_grant m) request, m)
     else (Inl (Denied (case mo_revoked m of Some c \<Rightarrow> c | None \<Rightarrow> Expired_code)), revoke Expired_code m))"
  by (simp add: monitor_assert_def assert_live_eq)

lemma monitor_perform_Inr:
  assumes "monitor_perform L w request m = (Inr u, log, m')"
  shows "live_at L m (w_before w) \<and> live_at L m (w_after w) \<and> w_stored w \<and> m' = m
    \<and> decide L (mo_grant m) request = Inr () \<and> log = [evidence_of L request None]"
  using assms
  by (auto simp: monitor_perform_def monitor_assert_eq split: if_splits sum.splits authority_error.splits)

section \<open>The monitor as a machine\<close>

datatype monitor_op =
  Do_renew "int option" authority_renewal
| Do_revoke deny_code
| Do_perform world "authority_request option"
| Do_tick "int option"

fun monitor_after :: "host_lib \<Rightarrow> monitor \<Rightarrow> monitor_op \<Rightarrow> monitor" where
  "monitor_after L m (Do_renew now r) = snd (monitor_renew L now r m)"
| "monitor_after L m (Do_revoke code) = revoke code m"
| "monitor_after L m (Do_perform w request) = snd (snd (monitor_perform L w request m))"
| "monitor_after L m (Do_tick now) = arm_expiry L now m"

definition monitor_step :: "host_lib \<Rightarrow> monitor \<Rightarrow> monitor_op \<Rightarrow> unit + monitor" where
  "monitor_step L m op = Inr (monitor_after L m op)"

definition monitor_inv :: "host_lib \<Rightarrow> monitor \<Rightarrow> bool" where
  "monitor_inv L m \<longleftrightarrow> grant_ok L (mo_grant m)
     \<and> (mo_revoked m = None \<longrightarrow> date_parse L (mo_lease_expires_at m) \<noteq> None
          \<and> date_parse L (gr_hard_expires_at (mo_grant m)) \<noteq> None)"

text \<open>A later state of the same monitor: revocations stay with their reason, and the lease of a live
  monitor ends no earlier than before.\<close>

definition monitor_le :: "host_lib \<Rightarrow> monitor \<Rightarrow> monitor \<Rightarrow> bool" where
  "monitor_le L m m' \<longleftrightarrow> mo_grant m' = mo_grant m
     \<and> (mo_revoked m \<noteq> None \<longrightarrow> m' = m)
     \<and> (mo_revoked m' = None \<longrightarrow>
          m' = m \<or> num_le (date_parse L (mo_lease_expires_at m)) (date_parse L (mo_lease_expires_at m')))"

lemma num_le_trans: "num_le a b \<Longrightarrow> num_le b c \<Longrightarrow> num_le a c"
  by (auto simp: num_le_Some)

lemma revoke_cases: "revoke c m = m \<or> mo_revoked m = None \<and> revoke c m = m\<lparr>mo_revoked := Some c\<rparr>"
  by (auto simp: revoke_def)

lemma arm_expiry_cases:
  "arm_expiry L now m = m \<and> (mo_revoked m = None \<longrightarrow> date_parse L (mo_lease_expires_at m) \<noteq> None
     \<and> date_parse L (gr_hard_expires_at (mo_grant m)) \<noteq> None)
   \<or> mo_revoked m = None \<and> arm_expiry L now m = m\<lparr>mo_revoked := Some Expired_code\<rparr>"
  by (cases "date_parse L (mo_lease_expires_at m)"; cases "date_parse L (gr_hard_expires_at (mo_grant m))")
     (auto simp: arm_expiry_def revoke_def split: option.split)

lemma perform_state: "snd (snd (monitor_perform L w request m)) \<in> {m, revoke Expired_code m}"
  by (auto simp: monitor_perform_def monitor_assert_eq split: sum.splits authority_error.splits if_splits)

lemma advance_Inr:
  "advance_runtime_authority_lease L g current r = Inr e \<Longrightarrow>
     e = rn_lease_expires_at r \<and> \<not> num_lt (date_parse L e) (date_parse L current)"
  by (auto simp: advance_runtime_authority_lease_def split: if_splits)

lemma monitor_renew_cases:
  "snd (monitor_renew L now r m) \<in> {m, revoke Expired_code m}
   \<or> (\<exists>e. mo_revoked m = None \<and> \<not> num_lt (date_parse L e) (date_parse L (mo_lease_expires_at m))
        \<and> snd (monitor_renew L now r m) = arm_expiry L now (m\<lparr>mo_lease_expires_at := e\<rparr>))"
proof (cases "live_at L m now")
  case False
  then show ?thesis by (simp add: monitor_renew_def assert_live_eq)
next
  case True
  then have "mo_revoked m = None" by (simp add: live_at_def)
  show ?thesis
  proof (cases "advance_runtime_authority_lease L (mo_grant m) (mo_lease_expires_at m) r")
    case (Inl e)
    with True show ?thesis by (simp add: monitor_renew_def assert_live_eq)
  next
    case (Inr e)
    with True have "snd (monitor_renew L now r m) \<in> {m, arm_expiry L now (m\<lparr>mo_lease_expires_at := e\<rparr>)}"
      by (simp add: monitor_renew_def assert_live_eq split: option.split)
    with \<open>mo_revoked m = None\<close> advance_Inr [OF Inr] show ?thesis by blast
  qed
qed

lemma monitor_after_cases:
  assumes "monitor_inv L m"
  shows "monitor_after L m op = m
    \<or> mo_revoked m = None \<and> mo_revoked (monitor_after L m op) \<noteq> None
       \<and> mo_grant (monitor_after L m op) = mo_grant m
    \<or> mo_revoked m = None \<and> (\<exists>e. monitor_after L m op = m\<lparr>mo_lease_expires_at := e\<rparr>
         \<and> num_le (date_parse L (mo_lease_expires_at m)) (date_parse L e))"
proof (cases op)
  case (Do_renew now r)
  consider "snd (monitor_renew L now r m) \<in> {m, revoke Expired_code m}"
    | e where "mo_revoked m = None" "\<not> num_lt (date_parse L e) (date_parse L (mo_lease_expires_at m))"
        "snd (monitor_renew L now r m) = arm_expiry L now (m\<lparr>mo_lease_expires_at := e\<rparr>)"
    using monitor_renew_cases by blast
  then show ?thesis
  proof cases
    case 1
    with Do_renew revoke_cases [of Expired_code m] show ?thesis by auto
  next
    case 2
    have "date_parse L (mo_lease_expires_at m) \<noteq> None" using assms 2(1) by (simp add: monitor_inv_def)
    with 2 Do_renew arm_expiry_cases [of L now "m\<lparr>mo_lease_expires_at := e\<rparr>"] show ?thesis
      by (cases "date_parse L e") (auto simp: not_less)
  qed
next
  case (Do_revoke c)
  then show ?thesis using revoke_cases [of c m] by auto
next
  case (Do_perform w request)
  then show ?thesis using perform_state [of L w request m] revoke_cases [of Expired_code m] by auto
next
  case (Do_tick now)
  then show ?thesis using arm_expiry_cases [of L now m] by auto
qed

interpretation monitor: advancing_machine "monitor_step L" "monitor_inv L" "monitor_le L" for L
proof unfold_locales
  fix s t u :: monitor and op
  show "monitor_le L s s" by (simp add: monitor_le_def)
  show "monitor_le L s t \<Longrightarrow> monitor_le L t u \<Longrightarrow> monitor_le L s u"
    by (auto simp: monitor_le_def dest: num_le_trans)
  assume inv: "monitor_inv L s" and step: "monitor_step L s op = Inr t"
  then have t: "t = monitor_after L s op" by (simp add: monitor_step_def)
  show "monitor_inv L t"
    using monitor_after_cases [OF inv, of op] inv unfolding t
    by (auto simp: monitor_inv_def num_le_Some)
  show "monitor_le L s t"
    using monitor_after_cases [OF inv, of op] unfolding t by (auto simp: monitor_le_def)
qed

lemma create_monitor_inv:
  assumes "create_monitor L now g lease = Inr m"
  shows "monitor_inv L m"
proof -
  from assms obtain expiry where g: "grant_ok L g"
    and m: "m = arm_expiry L now \<lparr>mo_grant = g, mo_lease_expires_at = expiry, mo_revoked = None\<rparr>"
    by (auto simp: create_monitor_def parse_grant_def split: if_splits option.splits)
  show ?thesis
    using arm_expiry_cases [of L now "\<lparr>mo_grant = g, mo_lease_expires_at = expiry, mo_revoked = None\<rparr>"] g
    unfolding m by (auto simp: monitor_inv_def)
qed

section \<open>Properties\<close>

text \<open>C9. An effect runs only under authority: when the monitor lets one through, the request is for exactly
  the grant's agent, workspace, Mission, delivery, attempt, lease and fencing token, its action is granted
  and not denied by the product, its measurements are within all four policy sources, the monitor was live
  at both checks, and the decision was stored as evidence first.\<close>

theorem effect_only_with_authority:
  assumes "monitor_inv L m" and "monitor_perform L w request m = (Inr (), log, m')"
    and "l \<in> {src_product (gr_limit_sources (mo_grant m)), src_local (gr_limit_sources (mo_grant m)),
              src_mission (gr_limit_sources (mo_grant m)), src_runtime (gr_limit_sources (mo_grant m))}"
  shows "\<exists>r. request = Some r \<and> scope_of r = scope_of (mo_grant m)
    \<and> rq_capability r \<in> set (gr_capabilities (mo_grant m))
    \<and> \<not> is_product_denied_action (cap_action (rq_capability r))
    \<and> measured_within l r
    \<and> live_at L m (w_before w) \<and> live_at L m (w_after w)
    \<and> log = [\<lparr>ee_capability = Some (rq_capability r), ee_verdict = None\<rparr>]"
proof -
  note p = monitor_perform_Inr [OF assms(2)]
  then obtain r where r: "request = Some r" "permitted L (mo_grant m) r" using decide_Inr by blast
  have "gr_effective_limits (mo_grant m) = intersect_limits (gr_limit_sources (mo_grant m))"
    using assms(1) by (simp add: monitor_inv_def grant_ok_def)
  then have "limits_le (gr_effective_limits (mo_grant m)) l" using intersect_le_sources [OF assms(3)] by simp
  then have "measured_within l r" using r(2) measured_within_mono by (auto simp: permitted_def)
  then show ?thesis using p r by (auto simp: permitted_def evidence_of_def)
qed

text \<open>C31. Revocation is final: once a monitor is revoked, whatever renewals, revocations, requests and timer
  ticks follow, it stays revoked with the first reason, and every request is denied for that reason.\<close>

theorem revocation_is_final:
  assumes "monitor_inv L m" and "mo_revoked m = Some code"
  shows "serve_all (monitor_step L) m ops = m
    \<and> fst (monitor_perform L w request (serve_all (monitor_step L) m ops)) = Inl (Denied code)
    \<and> fst (monitor_renew L now r (serve_all (monitor_step L) m ops)) = Inl (Denied code)"
proof -
  have same: "serve_all (monitor_step L) m ops = m"
    using monitor.serve_all_le [OF assms(1), of ops] assms(2) by (simp add: monitor_le_def)
  have "\<not> live_at L m now" for now using assms(2) by (simp add: live_at_def)
  then show ?thesis
    using assms(2) by (simp add: same monitor_perform_def monitor_assert_eq monitor_renew_def assert_live_eq)
qed

text \<open>A monitor keeps its grant for life, and while it is live its lease is only ever extended: after any
  operations the lease deadline is the one it had or a later one.\<close>

theorem lease_only_extended:
  assumes "create_monitor L now g lease = Inr m" and "mo_revoked (serve_all (monitor_step L) m ops) = None"
  shows "mo_grant (serve_all (monitor_step L) m ops) = mo_grant m
    \<and> num_le (date_parse L (mo_lease_expires_at m))
        (date_parse L (mo_lease_expires_at (serve_all (monitor_step L) m ops)))"
proof -
  let ?t = "serve_all (monitor_step L) m ops"
  have inv: "monitor_inv L m" by (rule create_monitor_inv [OF assms(1)])
  have le: "monitor_le L m ?t" by (rule monitor.serve_all_le [OF inv])
  have "monitor_inv L ?t" by (rule monitor.serve_all_inv [OF inv])
  then have "date_parse L (mo_lease_expires_at ?t) \<noteq> None" using assms(2) by (simp add: monitor_inv_def)
  with le assms(2) show ?thesis by (auto simp: monitor_le_def num_le_Some)
qed

text \<open>A grant compiled from valid input always parses, and its effective limits are the greatest that
  the product, local, Mission and runtime limits all admit.\<close>

theorem compiled_grant_limits:
  assumes "grant_input_ok L input"
  shows "\<exists>g. compile_runtime_authority_grant L input = Inr g \<and> grant_ok L g
    \<and> (\<forall>l. limits_le l (gr_effective_limits g) \<longleftrightarrow>
         limits_le l (src_product (gr_limit_sources input)) \<and> limits_le l (src_local (gr_limit_sources input))
         \<and> limits_le l (src_mission (gr_limit_sources input)) \<and> limits_le l (src_runtime (gr_limit_sources input)))"
proof -
  let ?g = "grant_input.extend input \<lparr>gr_effective_limits = intersect_limits (gr_limit_sources input)\<rparr>"
  have fields: "grant_input_ok L ?g" "gr_limit_sources ?g = gr_limit_sources input"
    "gr_effective_limits ?g = intersect_limits (gr_limit_sources input)"
    using assms by (simp_all add: grant_input_ok_def scope_ok_def grant_input.extend_def)
  have "sources_ok (gr_limit_sources input)" using assms by (simp add: grant_input_ok_def)
  then have ok: "grant_ok L ?g" using fields intersect_limits_ok by (simp add: grant_ok_def)
  have trans: "limits_le a b \<Longrightarrow> limits_le b c \<Longrightarrow> limits_le a c" for a b c by (auto simp: limits_le_def)
  have glb: "limits_le l (intersect_limits (gr_limit_sources input)) \<longleftrightarrow>
      limits_le l (src_product (gr_limit_sources input)) \<and> limits_le l (src_local (gr_limit_sources input))
      \<and> limits_le l (src_mission (gr_limit_sources input)) \<and> limits_le l (src_runtime (gr_limit_sources input))" for l
    using intersect_greatest intersect_le_sources trans by blast
  show ?thesis
    using ok assms fields(3) glb
    by (intro exI [of _ ?g]) (simp add: compile_runtime_authority_grant_def parse_grant_def)
qed

section \<open>Witnesses\<close>

definition sample_limits :: "int \<Rightarrow> string list \<Rightarrow> authority_limits" where
  "sample_limits n types = \<lparr>lim_turn_ms = n, lim_reported_tokens = n, lim_output_bytes = n,
     lim_artifact_count = n, lim_artifact_bytes = n, lim_artifact_types = types\<rparr>"

definition sample_grant_input :: grant_input where
  "sample_grant_input = \<lparr>sc_grant_id = uid ''01'', sc_agent_id = uid ''a1'', sc_node_id = uid ''90'',
     sc_workspace_binding_id = uid ''41'', sc_workspace_alias = ''main'',
     sc_workspace_resource_sha256 = replicate 64 (CHR ''0''), sc_mission_id = uid ''80'',
     sc_delivery_id = uid ''21'', sc_execution_attempt = 1, sc_lease_id = uid ''11'',
     sc_fencing_token = ''1'', sc_policy_profile = text_of ''default'',
     sc_policy_grant_sha256 = replicate 64 (CHR ''1''),
     gr_lease_expires_at = ''2026-01-01T00:05:00Z'', gr_hard_expires_at = ''2026-01-01T01:00:00Z'',
     gr_capabilities = [\<lparr>cap_action = Runtime_start, cap_resource = Res_runtime\<rparr>,
       \<lparr>cap_action = Outbound_publish, cap_resource = Res_relay\<rparr>],
     gr_limit_sources = \<lparr>src_product = sample_limits 900 [''contract'', ''patch''],
       src_local = sample_limits 800 [''patch'', ''contract''], src_mission = sample_limits 700 [''contract''],
       src_runtime = sample_limits 1000 [''contract'', ''patch'']\<rparr>\<rparr>"

definition sample_grant :: authority_grant where
  "sample_grant = grant_input.extend sample_grant_input
     \<lparr>gr_effective_limits = sample_limits 700 [''contract'']\<rparr>"

definition sample_request :: authority_request where
  "sample_request = authority_scope.extend (scope_of sample_grant)
     \<lparr>rq_capability = \<lparr>cap_action = Outbound_publish, cap_resource = Res_relay\<rparr>,
      rq_measurement = Some \<lparr>ms_reported_tokens = None, ms_output_bytes = Some 600, ms_artifact_count = None,
        ms_artifact_bytes = None, ms_artifact_type = None\<rparr>\<rparr>"

definition sample_now :: "int option" where
  "sample_now = utc_millis ''2026-01-01T00:00:00Z''"

definition sample_monitor :: monitor where
  "sample_monitor = \<lparr>mo_grant = sample_grant, mo_lease_expires_at = ''2026-01-01T00:05:00Z'', mo_revoked = None\<rparr>"

lemma sample_monitor_created: "create_monitor sample_lib sample_now sample_grant None = Inr sample_monitor"
  by code_simp

lemma sample_monitor_inv: "monitor_inv sample_lib sample_monitor"
  by (rule create_monitor_inv [OF sample_monitor_created])

lemma sample_performed:
  "monitor_perform sample_lib \<lparr>w_before = sample_now, w_stored = True, w_after = sample_now\<rparr>
     (Some sample_request) sample_monitor
   = (Inr (), [\<lparr>ee_capability = Some (rq_capability sample_request), ee_verdict = None\<rparr>], sample_monitor)"
  by code_simp

theorem effect_only_with_authority_witness:
  "measured_within (src_mission (gr_limit_sources (mo_grant sample_monitor))) sample_request"
  using effect_only_with_authority [OF sample_monitor_inv sample_performed,
      of "src_mission (gr_limit_sources (mo_grant sample_monitor))"] by blast

theorem revocation_is_final_witness:
  "fst (monitor_perform sample_lib \<lparr>w_before = sample_now, w_stored = True, w_after = sample_now\<rparr>
     (Some sample_request) (serve_all (monitor_step sample_lib) (revoke Revoked_code sample_monitor)
       [Do_tick sample_now, Do_revoke Wrong_grant])) = Inl (Denied Revoked_code)"
proof -
  have "monitor_inv sample_lib (revoke Revoked_code sample_monitor)"
    "mo_revoked (revoke Revoked_code sample_monitor) = Some Revoked_code"
    using sample_monitor_inv by (auto simp: monitor_inv_def revoke_def sample_monitor_def)
  from revocation_is_final [OF this] show ?thesis by blast
qed

theorem lease_only_extended_witness:
  "num_le (utc_millis ''2026-01-01T00:05:00Z'')
     (date_parse sample_lib (mo_lease_expires_at (serve_all (monitor_step sample_lib) sample_monitor [])))"
  using lease_only_extended [OF sample_monitor_created, of "[]"]
  by (simp add: sample_monitor_def sample_lib_def)

theorem compiled_grant_limits_witness:
  "\<exists>g. compile_runtime_authority_grant sample_lib sample_grant_input = Inr g \<and> grant_ok sample_lib g"
proof -
  have "grant_input_ok sample_lib sample_grant_input" by code_simp
  from compiled_grant_limits [OF this] show ?thesis by blast
qed

end
