(* ===== verification/Event_Objects.thy ===== *)
theory Event_Objects
  imports Coordinator "HOL-Library.AList"
begin

text \<open>
  Mission events as the JavaScript objects that the relay spreads, deletes keys from and parses
  (\<open>eventPayload\<close> and \<open>eventFromRow\<close> of \<^verbatim>\<open>relay/src/services/mission-ledger.ts\<close>, against the strict schemas
  of \<^verbatim>\<open>protocol/src/mission-coordinator.ts\<close>).  An object is an association list of its own keys, of which only the
  lookups matter (\<open>parse_spread\<close>), so a store like \<open>jsonb\<close> that forgets the order of keys is covered.  The values
  below a key are left as they are by all of these operations.
\<close>

section \<open>Objects\<close>

datatype field_value =
  Text_field string
| Number_field int
| Texts_field "string list"
| Artifact_field artifact_ref
| Disposition_field turn_disposition
| Message_field message
| Revision_field contract_revision
| Evidence_field verification_evidence
| Null_field

type_synonym event_object = "(string \<times> field_value) list"

text \<open>\<open>delete payload[field]\<close> for each of the fields, and \<open>{ ...base, key: value, ... }\<close>.\<close>

definition delete_fields :: "string list \<Rightarrow> event_object \<Rightarrow> event_object" where
  "delete_fields names o1 = filter (\<lambda>(k, v). k \<notin> set names) o1"

fun spread :: "event_object \<Rightarrow> event_object \<Rightarrow> event_object" where
  "spread base [] = base"
| "spread base ((k, v) # kvs) = spread (AList.update k v base) kvs"

section \<open>Events\<close>

fun body_type :: "event_body \<Rightarrow> string" where
  "body_type (Participants_accepted ids contract) = ''participants_accepted''"
| "body_type (Turn_completed p d v disposition msg revision) = ''turn_completed''"
| "body_type (Contract_acknowledged p d r v a) = ''contract_acknowledged''"
| "body_type (Verification_recorded p d v n evidence) = ''verification_recorded''"
| "body_type (Mission_terminal status reason trigger) = ''mission_terminal''"

fun nullable_field :: "('a \<Rightarrow> field_value) \<Rightarrow> 'a option \<Rightarrow> field_value" where
  "nullable_field f None = Null_field"
| "nullable_field f (Some x) = f x"

fun body_fields :: "event_body \<Rightarrow> event_object" where
  "body_fields (Participants_accepted ids contract) =
     [(''participant_agent_ids'', Texts_field ids), (''contract'', Artifact_field contract)]"
| "body_fields (Turn_completed p d v disposition msg revision) =
     [(''participant_agent_id'', Text_field p), (''delivery_id'', Text_field d),
      (''contract_version'', Number_field v), (''disposition'', Disposition_field disposition),
      (''message'', nullable_field Message_field msg), (''revision'', nullable_field Revision_field revision)]"
| "body_fields (Contract_acknowledged p d r v a) =
     [(''participant_agent_id'', Text_field p), (''delivery_id'', Text_field d), (''revision_id'', Text_field r),
      (''contract_version'', Number_field v), (''artifact'', Artifact_field a)]"
| "body_fields (Verification_recorded p d v n evidence) =
     [(''participant_agent_id'', Text_field p), (''delivery_id'', Text_field d), (''contract_version'', Number_field v),
      (''verification_round'', Number_field n), (''evidence'', Evidence_field evidence)]"
| "body_fields (Mission_terminal status reason trigger) =
     [(''terminal_status'', Text_field (terminal_kind_text status)), (''reason'', Text_field (terminal_reason_text reason)),
      (''triggering_delivery_id'', nullable_field Text_field trigger)]"

definition event_object :: "coordinator_event \<Rightarrow> event_object" where
  "event_object e =
     [(''event_id'', Text_field (ev_event_id e)), (''idempotency_key'', Text_field (ev_idempotency_key e)),
      (''mission_id'', Text_field (ev_mission_id e)), (''sequence_no'', Number_field (ev_sequence_no e)),
      (''created_at'', Text_field (ev_created_at e)), (''type'', Text_field (body_type (ev_body e)))]
     @ body_fields (ev_body e)"

section \<open>Parsing\<close>

definition text_at :: "event_object \<Rightarrow> string \<Rightarrow> string option" where
  "text_at o1 k = (case map_of o1 k of Some (Text_field t) \<Rightarrow> Some t | _ \<Rightarrow> None)"

definition number_at :: "event_object \<Rightarrow> string \<Rightarrow> int option" where
  "number_at o1 k = (case map_of o1 k of Some (Number_field n) \<Rightarrow> Some n | _ \<Rightarrow> None)"

definition nullable_text_at :: "event_object \<Rightarrow> string \<Rightarrow> string option option" where
  "nullable_text_at o1 k = (case map_of o1 k of
     Some Null_field \<Rightarrow> Some None | Some (Text_field t) \<Rightarrow> Some (Some t) | _ \<Rightarrow> None)"

text \<open>A strict object has no other keys.\<close>

definition only_keys :: "string list \<Rightarrow> event_object \<Rightarrow> bool" where
  "only_keys names o1 \<longleftrightarrow> list_all (\<lambda>(k, v). k \<in> set names) o1"

definition envelope_keys :: "string list" where
  "envelope_keys = [''event_id'', ''idempotency_key'', ''mission_id'', ''sequence_no'', ''created_at'', ''type'']"

definition parse_participants_accepted :: "event_object \<Rightarrow> event_body option" where
  "parse_participants_accepted o1 =
     (if \<not> only_keys (envelope_keys @ [''participant_agent_ids'', ''contract'']) o1 then None
      else case (map_of o1 ''participant_agent_ids'', map_of o1 ''contract'') of
        (Some (Texts_field ids), Some (Artifact_field a)) \<Rightarrow> Some (Participants_accepted ids a)
      | _ \<Rightarrow> None)"

definition message_at :: "event_object \<Rightarrow> string \<Rightarrow> message option option" where
  "message_at o1 k = (case map_of o1 k of
     Some Null_field \<Rightarrow> Some None | Some (Message_field m) \<Rightarrow> Some (Some m) | _ \<Rightarrow> None)"

definition revision_at :: "event_object \<Rightarrow> string \<Rightarrow> contract_revision option option" where
  "revision_at o1 k = (case map_of o1 k of
     Some Null_field \<Rightarrow> Some None | Some (Revision_field r) \<Rightarrow> Some (Some r) | _ \<Rightarrow> None)"

definition parse_turn_completed :: "event_object \<Rightarrow> event_body option" where
  "parse_turn_completed o1 =
     (if \<not> only_keys (envelope_keys @ [''participant_agent_id'', ''delivery_id'', ''contract_version'', ''disposition'',
           ''message'', ''revision'']) o1 then None
      else case (text_at o1 ''participant_agent_id'', text_at o1 ''delivery_id'', number_at o1 ''contract_version'',
             map_of o1 ''disposition'', message_at o1 ''message'', revision_at o1 ''revision'') of
        (Some p, Some d, Some v, Some (Disposition_field t), Some m, Some r) \<Rightarrow> Some (Turn_completed p d v t m r)
      | _ \<Rightarrow> None)"

definition parse_contract_acknowledged :: "event_object \<Rightarrow> event_body option" where
  "parse_contract_acknowledged o1 =
     (if \<not> only_keys (envelope_keys @ [''participant_agent_id'', ''delivery_id'', ''revision_id'', ''contract_version'',
           ''artifact'']) o1 then None
      else case (text_at o1 ''participant_agent_id'', text_at o1 ''delivery_id'', text_at o1 ''revision_id'',
             number_at o1 ''contract_version'', map_of o1 ''artifact'') of
        (Some p, Some d, Some r, Some v, Some (Artifact_field a)) \<Rightarrow> Some (Contract_acknowledged p d r v a)
      | _ \<Rightarrow> None)"

definition parse_verification_recorded :: "event_object \<Rightarrow> event_body option" where
  "parse_verification_recorded o1 =
     (if \<not> only_keys (envelope_keys @ [''participant_agent_id'', ''delivery_id'', ''contract_version'',
           ''verification_round'', ''evidence'']) o1 then None
      else case (text_at o1 ''participant_agent_id'', text_at o1 ''delivery_id'', number_at o1 ''contract_version'',
             number_at o1 ''verification_round'', map_of o1 ''evidence'') of
        (Some p, Some d, Some v, Some n, Some (Evidence_field e)) \<Rightarrow> Some (Verification_recorded p d v n e)
      | _ \<Rightarrow> None)"

definition terminal_kind_of :: "string \<Rightarrow> terminal_kind option" where
  "terminal_kind_of t = (if t = ''expired'' then Some Terminal_expired
     else if t = ''failed'' then Some Terminal_failed else None)"

definition terminal_reason_of :: "string \<Rightarrow> terminal_reason option" where
  "terminal_reason_of t = (if t = ''deadline_exceeded'' then Some Deadline_exceeded
     else if t = ''delivery_dead_lettered'' then Some Delivery_dead_lettered else None)"

definition parse_mission_terminal :: "event_object \<Rightarrow> event_body option" where
  "parse_mission_terminal o1 =
     (if \<not> only_keys (envelope_keys @ [''terminal_status'', ''reason'', ''triggering_delivery_id'']) o1 then None
      else case (Option.bind (text_at o1 ''terminal_status'') terminal_kind_of,
             Option.bind (text_at o1 ''reason'') terminal_reason_of, nullable_text_at o1 ''triggering_delivery_id'') of
        (Some status, Some reason, Some trigger) \<Rightarrow> Some (Mission_terminal status reason trigger)
      | _ \<Rightarrow> None)"

text \<open>The union, discriminated by the type.\<close>

definition parse_body :: "string \<Rightarrow> event_object \<Rightarrow> event_body option" where
  "parse_body type o1 =
     (if type = ''participants_accepted'' then parse_participants_accepted o1
      else if type = ''turn_completed'' then parse_turn_completed o1
      else if type = ''contract_acknowledged'' then parse_contract_acknowledged o1
      else if type = ''verification_recorded'' then parse_verification_recorded o1
      else if type = ''mission_terminal'' then parse_mission_terminal o1 else None)"

definition parse_event :: "event_object \<Rightarrow> coordinator_event option" where
  "parse_event o1 =
     (case (text_at o1 ''event_id'', text_at o1 ''idempotency_key'', text_at o1 ''mission_id'', number_at o1 ''sequence_no'',
        text_at o1 ''created_at'', Option.bind (text_at o1 ''type'') (\<lambda>t. parse_body t o1)) of
        (Some i, Some k, Some m, Some n, Some t, Some b) \<Rightarrow>
          Some \<lparr>ev_event_id = i, ev_idempotency_key = k, ev_mission_id = m, ev_sequence_no = n, ev_created_at = t,
            ev_body = b\<rparr>
      | _ \<Rightarrow> None)"

section \<open>Laws\<close>

lemma spread_keeps:
  "k \<notin> fst ` set over \<Longrightarrow> map_of (spread base over) k = map_of base k"
  by (induction base over rule: spread.induct) (auto simp: update_conv')

lemma spread_sets:
  "distinct (map fst over) \<Longrightarrow> (k, v) \<in> set over \<Longrightarrow> map_of (spread base over) k = Some v"
  by (induction base over rule: spread.induct) (auto simp: spread_keeps update_conv')

lemma spread_keys: "fst ` set (spread base over) = fst ` set base \<union> fst ` set over"
  by (induction base over rule: spread.induct) (auto simp: dom_update)

lemma only_keys_iff: "only_keys names o1 \<longleftrightarrow> fst ` set o1 \<subseteq> set names"
  by (auto simp: only_keys_def list_all_iff)

lemma terminal_texts [simp]:
  "terminal_kind_of (terminal_kind_text status) = Some status"
  "terminal_reason_of (terminal_reason_text reason) = Some reason"
  by (cases status; simp add: terminal_kind_of_def) (cases reason; simp add: terminal_reason_of_def)

text \<open>An object with the keys of an event, and the values of its body, is parsed as the event.\<close>

lemma body_keys_apart: "fst ` set (body_fields b) \<inter> set envelope_keys = {}"
  by (cases b) (simp_all add: envelope_keys_def)

lemma parse_body_fields:
  assumes "\<And>k. k \<in> fst ` set (body_fields b) \<Longrightarrow> map_of o1 k = map_of (body_fields b) k"
    and "fst ` set o1 \<subseteq> set envelope_keys \<union> fst ` set (body_fields b)"
  shows "parse_body (body_type b) o1 = Some b"
proof -
  have keys: "only_keys (envelope_keys @ map fst (body_fields b)) o1"
    using assms(2) by (simp add: only_keys_iff)
  show ?thesis
  proof (cases b)
    case (Participants_accepted ids contract)
    with assms(1) [of "''participant_agent_ids''"] assms(1) [of "''contract''"] keys show ?thesis
      by (simp add: parse_body_def parse_participants_accepted_def)
  next
    case (Turn_completed p d v disposition msg revision)
    have "message_at o1 ''message'' = Some msg"
      using Turn_completed assms(1) [of "''message''"] by (cases msg) (simp_all add: message_at_def)
    moreover have "revision_at o1 ''revision'' = Some revision"
      using Turn_completed assms(1) [of "''revision''"] by (cases revision) (simp_all add: revision_at_def)
    moreover note Turn_completed assms(1) [of "''participant_agent_id''"] assms(1) [of "''delivery_id''"]
      assms(1) [of "''contract_version''"] assms(1) [of "''disposition''"] keys
    ultimately show ?thesis
      by (simp add: parse_body_def parse_turn_completed_def text_at_def number_at_def)
  next
    case (Contract_acknowledged p d r v a)
    with assms(1) [of "''participant_agent_id''"] assms(1) [of "''delivery_id''"] assms(1) [of "''revision_id''"]
      assms(1) [of "''contract_version''"] assms(1) [of "''artifact''"] keys show ?thesis
      by (simp add: parse_body_def parse_contract_acknowledged_def text_at_def number_at_def)
  next
    case (Verification_recorded p d v n evidence)
    with assms(1) [of "''participant_agent_id''"] assms(1) [of "''delivery_id''"] assms(1) [of "''contract_version''"]
      assms(1) [of "''verification_round''"] assms(1) [of "''evidence''"] keys show ?thesis
      by (simp add: parse_body_def parse_verification_recorded_def text_at_def number_at_def)
  next
    case (Mission_terminal status reason trigger)
    then have "nullable_text_at o1 ''triggering_delivery_id'' = Some trigger"
      using assms(1) [of "''triggering_delivery_id''"] by (cases trigger) (simp_all add: nullable_text_at_def)
    with Mission_terminal assms(1) [of "''terminal_status''"] assms(1) [of "''reason''"] keys show ?thesis
      by (simp add: parse_body_def parse_mission_terminal_def text_at_def)
  qed
qed

lemma parse_event_at:
  "parse_event o1 = Some e \<Longrightarrow> text_at o1 ''event_id'' = Some (ev_event_id e)
     \<and> text_at o1 ''mission_id'' = Some (ev_mission_id e) \<and> number_at o1 ''sequence_no'' = Some (ev_sequence_no e)"
  by (auto simp: parse_event_def split: option.splits)

text \<open>What the six columns of the envelope add to a body is parsed as the event.\<close>

lemma parse_spread:
  assumes base: "map_of base = map_of (body_fields b)"
    and over: "over = [(''event_id'', Text_field i), (''idempotency_key'', Text_field key), (''mission_id'', Text_field m),
      (''sequence_no'', Number_field n), (''created_at'', Text_field t), (''type'', Text_field (body_type b))]"
  shows "parse_event (spread base over) =
    Some \<lparr>ev_event_id = i, ev_idempotency_key = key, ev_mission_id = m, ev_sequence_no = n, ev_created_at = t, ev_body = b\<rparr>"
proof -
  let ?o = "spread base over"
  have base_keys: "fst ` set base = fst ` set (body_fields b)"
    using base by (metis dom_map_of_conv_image_fst)
  have dist: "distinct (map fst over)" and keys: "fst ` set over = set envelope_keys"
    by (simp_all add: over envelope_keys_def insert_commute)
  have "parse_body (body_type b) ?o = Some b"
  proof (rule parse_body_fields)
    fix k assume "k \<in> fst ` set (body_fields b)"
    then have "k \<notin> fst ` set over" using body_keys_apart [of b] keys by auto
    then show "map_of ?o k = map_of (body_fields b) k" by (simp add: spread_keeps base)
  qed (auto simp: spread_keys keys base_keys)
  moreover have "map_of ?o k = Some v" if "(k, v) \<in> set over" for k v
    using spread_sets [OF dist that] .
  ultimately show ?thesis
    by (simp add: parse_event_def text_at_def number_at_def over)
qed

end
