(* ===== verification/Relay_Store.thy ===== *)
theory Relay_Store
  imports Delivery_Operations Event_Objects
begin

text \<open>
  The tables of \<^verbatim>\<open>relay/src/db/schema.ts\<close> that the Mission and delivery services read and write, as
  lists of rows, with the check constraints of the delivery table, and the error codes of
  \<^verbatim>\<open>relay/src/errors.ts\<close>.  A \<open>Date\<close> is its number of milliseconds.  A \<open>jsonb\<close> column holds the value that
  was stored.  A transaction is a function from the tables to an error (and then nothing changes) or a
  result with the new tables; row and advisory locks make transactions that touch the same rows run
  one after the other.  A trigger overwrites the \<open>updated_at\<close> that an update statement sets with a later
  reading of the clock; the rows here keep the time of the statement, and no property reads the column.
\<close>

section \<open>Errors\<close>

datatype error_symbol =
  Parse_error | Invalid_request | Method_not_found | Invalid_params | Unauthenticated | Forbidden
| Rate_limited | Recipient_not_found | Not_a_participant | Thread_not_found | Thread_terminal
| Invalid_transition_code | Not_authorized_transition | State_changed | Duplicate_idempotency_key
| Invalid_intent_payload | Teammate_blocked | Node_not_found | Workspace_not_found | Mission_not_found
| Delivery_not_found | Internal

text \<open>What a service can throw: a \<open>RelayError\<close>, a zod error, an error of the coordinator that is not
  translated, or a violated constraint of a table.\<close>

datatype relay_error =
  Relay_err error_symbol | Relay_zod | Coordinator_failed coordinator_error | Unique_violation

section \<open>Dates\<close>

text \<open>\<open>Date.prototype.toISOString\<close>.  The date of a day number: eras of 400 years, centuries, groups of four years
  and years that start in March.\<close>

definition civil_from_days :: "int \<Rightarrow> int \<times> int \<times> int" where
  "civil_from_days z0 =
     (let z = z0 + 719468; era = z div 146097; doe = z mod 146097;
          century = min 3 (doe div 36524); doc = doe - 36524 * century;
          four = doc div 1461; dof = doc - 1461 * four;
          year = min 3 (dof div 365); doy = dof - 365 * year;
          mp = (5 * doy + 2) div 153; d = doy - (153 * mp + 2) div 5 + 1;
          m = (if mp < 10 then mp + 3 else mp - 9);
          y = 100 * century + 4 * four + year + era * 400 + (if m \<le> 2 then 1 else 0)
      in (y, m, d))"

definition pad :: "nat \<Rightarrow> int \<Rightarrow> string" where
  "pad width n = (let s = string_of_int n in replicate (width - length s) (CHR ''0'') @ s)"

definition iso_year :: "int \<Rightarrow> string" where
  "iso_year y = (if 0 \<le> y \<and> y \<le> 9999 then pad 4 y
     else if y < 0 then CHR ''-'' # pad 6 (- y) else CHR ''+'' # pad 6 y)"

definition to_iso_string :: "int \<Rightarrow> timestamp" where
  "to_iso_string t =
     (let (y, m, d) = civil_from_days (t div 86400000); ms = t mod 86400000 in
      iso_year y @ ''-'' @ pad 2 m @ ''-'' @ pad 2 d @ ''T'' @ pad 2 (ms div 3600000) @ '':''
        @ pad 2 (ms div 60000 mod 60) @ '':'' @ pad 2 (ms div 1000 mod 60) @ ''.''
        @ pad 3 (ms mod 1000) @ ''Z'')"

text \<open>A date that the schema accepts and \<open>Date.parse\<close> reads back.\<close>

definition readable :: "host_lib \<Rightarrow> int \<Rightarrow> bool" where
  "readable L t \<longleftrightarrow> iso_timestamp_ok L (to_iso_string t) \<and> date_parse L (to_iso_string t) = Some t"

section \<open>Rows\<close>

record agent_row =
  ag_id :: uuid
  ag_active :: bool

record node_row =
  no_id :: uuid
  no_agent_id :: uuid
  no_name :: string
  no_active :: bool
  no_capabilities :: "string list"
  no_last_seen_at :: "int option"
  no_revoked_at :: "int option"
  no_created_at :: int
  no_updated_at :: int

record credential_row =
  cd_id :: uuid
  cd_node_id :: uuid
  cd_revoked :: bool

record workspace_row =
  ws_id :: uuid
  ws_node_id :: uuid
  ws_alias :: string
  ws_repository_url :: jstext
  ws_allowed_base_refs :: "string list"
  ws_active :: bool
  ws_revoked_at :: "int option"
  ws_created_at :: int
  ws_updated_at :: int

record mission_row =
  mr_id :: uuid
  mr_created_by_agent_id :: uuid
  mr_coordinator_config :: coordinator_config
  mr_state :: coordinator_state
  mr_status :: mission_status
  mr_last_event_sequence :: int
  mr_contract_version :: int
  mr_expires_at :: int
  mr_created_at :: int

record participant_row =
  pt_mission_id :: uuid
  pt_agent_id :: uuid
  pt_node_id :: uuid
  pt_workspace_binding_id :: uuid
  pt_role :: string
  pt_status :: acceptance_status
  pt_accepted_at :: "int option"
  pt_acceptance_key :: "string option"
  pt_acceptance_receipt :: "acceptance_input option"

text \<open>The actor of an event is an agent, or the system (\<^const>\<open>None\<close>).  The payload column holds the object of the
  event without the keys that have a column of their own.\<close>

record event_row =
  er_id :: uuid
  er_mission_id :: uuid
  er_sequence_no :: int
  er_actor_agent_id :: "uuid option"
  er_idempotency_key :: string
  er_source_delivery_id :: "uuid option"
  er_causal_parent_event_id :: "uuid option"
  er_type :: string
  er_payload :: event_object
  er_created_at :: int

record delivery_row =
  dr_id :: uuid
  dr_node_id :: uuid
  dr_mission_id :: uuid
  dr_mission_event_id :: uuid
  dr_kind :: delivery_kind
  dr_cursor :: int
  dr_status :: delivery_status
  dr_attempt_count :: int
  dr_max_attempts :: int
  dr_last_fencing_token :: string
  dr_active_lease_id :: "uuid option"
  dr_lease_expires_at :: "int option"
  dr_contract_version :: int
  dr_verification_round :: "int option"
  dr_idempotency_key :: string
  dr_causal_parent_delivery_id :: "uuid option"
  dr_settled_by_event_id :: "uuid option"
  dr_settled_at :: "int option"
  dr_available_at :: int
  dr_acknowledged_at :: "int option"
  dr_cancelled_at :: "int option"
  dr_cancellation_reason :: "cancellation_reason option"
  dr_dead_lettered_at :: "int option"
  dr_created_at :: int
  dr_updated_at :: int

text \<open>The columns \<open>input\<close> and \<open>output\<close> of a receipt.\<close>

datatype stored_input =
  In_claim uuid claim_input
| In_lease uuid lease_operation_input
| In_complete uuid complete_input
| In_release uuid release_input
| In_relay

datatype stored_output =
  Out_claim claim_result
| Out_operation operation_result
| Out_complete complete_result
| Out_relay

datatype stored_operation = Node_operation delivery_operation | Lease_expired_operation

record receipt_row =
  rr_id :: uuid
  rr_from_node :: bool
  rr_node_id :: uuid
  rr_mission_id :: uuid
  rr_delivery_id :: uuid
  rr_operation :: stored_operation
  rr_idempotency_key :: string
  rr_credential_id :: "uuid option"
  rr_attempt_count :: int
  rr_lease_id :: "uuid option"
  rr_fencing_token :: "string option"
  rr_lease_expires_at :: "int option"
  rr_status_before :: delivery_status
  rr_status_after :: delivery_status
  rr_cancellation_reason :: "cancellation_reason option"
  rr_input :: stored_input
  rr_output :: stored_output
  rr_recorded_at :: int

text \<open>An audit entry: actor (none for the system), action, resource.\<close>

type_synonym audit_row = "uuid option \<times> string \<times> uuid"

record relay_db =
  db_agents :: "agent_row list"
  db_nodes :: "node_row list"
  db_credentials :: "credential_row list"
  db_workspaces :: "workspace_row list"
  db_blocks :: "(uuid \<times> uuid) list"
  db_missions :: "mission_row list"
  db_participants :: "participant_row list"
  db_events :: "event_row list"
  db_deliveries :: "delivery_row list"
  db_receipts :: "receipt_row list"
  db_audit :: "audit_row list"
  db_last_cursor :: int

section \<open>Check constraints of \<open>node_deliveries\<close>\<close>

definition delivery_row_ok :: "delivery_row \<Rightarrow> bool" where
  "delivery_row_ok r \<longleftrightarrow>
     (dr_kind r = K_verification) = (dr_verification_round r \<noteq> None)
     \<and> nullable (\<lambda>v. 0 < v) (dr_verification_round r)
     \<and> 0 \<le> dr_attempt_count r \<and> 1 \<le> dr_max_attempts r \<and> dr_max_attempts r \<le> 100
     \<and> dr_attempt_count r \<le> dr_max_attempts r
     \<and> dr_last_fencing_token r = string_of_int (dr_attempt_count r)
     \<and> (dr_status r = D_stored \<longrightarrow> dr_settled_by_event_id r \<noteq> None \<or> dr_attempt_count r < dr_max_attempts r)
     \<and> active_lease_status (dr_status r) = (dr_active_lease_id r \<noteq> None)
     \<and> active_lease_status (dr_status r) = (dr_lease_expires_at r \<noteq> None)
     \<and> (active_lease_status (dr_status r) \<longrightarrow> 0 < dr_attempt_count r)
     \<and> (dr_status r = D_acknowledged) = (dr_acknowledged_at r \<noteq> None)
     \<and> (dr_status r = D_acknowledged \<longrightarrow> 0 < dr_attempt_count r \<and> dr_settled_by_event_id r \<noteq> None)
     \<and> (dr_status r = D_cancelled) = (dr_cancelled_at r \<noteq> None)
     \<and> (dr_status r = D_cancelled) = (dr_cancellation_reason r \<noteq> None)
     \<and> (dr_status r = D_dead_lettered) = (dr_dead_lettered_at r \<noteq> None)
     \<and> (dr_settled_by_event_id r \<noteq> None) = (dr_settled_at r \<noteq> None)"

section \<open>Queries and updates\<close>

definition find_mission :: "relay_db \<Rightarrow> uuid \<Rightarrow> mission_row option" where
  "find_mission db i = find (\<lambda>m. mr_id m = i) (db_missions db)"

definition update_mission :: "uuid \<Rightarrow> (mission_row \<Rightarrow> mission_row) \<Rightarrow> relay_db \<Rightarrow> relay_db" where
  "update_mission i f db = db\<lparr>db_missions := map (\<lambda>m. if mr_id m = i then f m else m) (db_missions db)\<rparr>"

definition participants_of :: "relay_db \<Rightarrow> uuid \<Rightarrow> participant_row list" where
  "participants_of db i = filter (\<lambda>p. pt_mission_id p = i) (db_participants db)"

text \<open>\<open>ORDER BY sequence_no\<close>\<close>

definition events_of :: "relay_db \<Rightarrow> uuid \<Rightarrow> event_row list" where
  "events_of db i = sort_key er_sequence_no (filter (\<lambda>e. er_mission_id e = i) (db_events db))"

text \<open>\<open>ORDER BY cursor\<close>\<close>

definition deliveries_where :: "relay_db \<Rightarrow> (delivery_row \<Rightarrow> bool) \<Rightarrow> delivery_row list" where
  "deliveries_where db P = sort_key dr_cursor (filter P (db_deliveries db))"

definition update_deliveries ::
  "(delivery_row \<Rightarrow> bool) \<Rightarrow> (delivery_row \<Rightarrow> delivery_row) \<Rightarrow> relay_db \<Rightarrow> relay_db" where
  "update_deliveries P f db = db\<lparr>db_deliveries := map (\<lambda>d. if P d then f d else d) (db_deliveries db)\<rparr>"

text \<open>Inserting an event or a receipt respects the unique indexes.\<close>

definition insert_event :: "event_row \<Rightarrow> relay_db \<Rightarrow> relay_error + relay_db" where
  "insert_event e db =
     (if list_ex (\<lambda>x. er_id x = er_id e
          \<or> er_mission_id x = er_mission_id e \<and> (er_sequence_no x = er_sequence_no e
              \<or> er_idempotency_key x = er_idempotency_key e)) (db_events db)
      then Inl Unique_violation
      else Inr (db\<lparr>db_events := db_events db @ [e]\<rparr>))"

definition insert_delivery :: "delivery_row \<Rightarrow> relay_db \<Rightarrow> relay_error + relay_db" where
  "insert_delivery d db =
     (if list_ex (\<lambda>x. dr_id x = dr_id d
          \<or> dr_node_id x = dr_node_id d \<and> (dr_mission_event_id x = dr_mission_event_id d \<and> dr_kind x = dr_kind d
              \<or> dr_idempotency_key x = dr_idempotency_key d)) (db_deliveries db)
      then Inl Unique_violation
      else Inr (db\<lparr>db_deliveries := db_deliveries db @ [d\<lparr>dr_cursor := db_last_cursor db + 1\<rparr>],
        db_last_cursor := db_last_cursor db + 1\<rparr>))"

definition insert_receipt :: "receipt_row \<Rightarrow> relay_db \<Rightarrow> relay_error + relay_db" where
  "insert_receipt r db =
     (let claim = (\<lambda>x. rr_operation x = Node_operation Op_claim) in
      if list_ex (\<lambda>x. rr_id x = rr_id r
          \<or> rr_from_node x = rr_from_node r \<and> rr_node_id x = rr_node_id r
              \<and> rr_idempotency_key x = rr_idempotency_key r
          \<or> claim x \<and> claim r \<and> rr_status_after x = D_leased \<and> rr_status_after r = D_leased
              \<and> rr_delivery_id x = rr_delivery_id r \<and> rr_attempt_count x = rr_attempt_count r
          \<or> claim x \<and> claim r \<and> rr_lease_id r \<noteq> None \<and> rr_lease_id x = rr_lease_id r) (db_receipts db)
      then Inl Unique_violation
      else Inr (db\<lparr>db_receipts := db_receipts db @ [r]\<rparr>))"

definition write_audit :: "uuid option \<Rightarrow> string \<Rightarrow> uuid \<Rightarrow> relay_db \<Rightarrow> relay_db" where
  "write_audit actor action resource db = db\<lparr>db_audit := db_audit db @ [(actor, action, resource)]\<rparr>"

section \<open>Rows as protocol values\<close>

text \<open>\<open>{ ...row.payload, event_id: row.id, ... }\<close>\<close>

definition event_object_of_row :: "event_row \<Rightarrow> event_object" where
  "event_object_of_row r = spread (er_payload r)
     [(''event_id'', Text_field (er_id r)), (''idempotency_key'', Text_field (er_idempotency_key r)),
      (''mission_id'', Text_field (er_mission_id r)), (''sequence_no'', Number_field (er_sequence_no r)),
      (''created_at'', Text_field (to_iso_string (er_created_at r))), (''type'', Text_field (er_type r))]"

definition event_of_row :: "event_row \<Rightarrow> coordinator_event option" where
  "event_of_row r = parse_event (event_object_of_row r)"

definition event_from_row :: "host_lib \<Rightarrow> event_row \<Rightarrow> relay_error + coordinator_event" where
  "event_from_row L r = (case event_of_row r of
     None \<Rightarrow> Inl Relay_zod
   | Some e \<Rightarrow> if coordinator_event_ok L e then Inr e else Inl Relay_zod)"

definition lease_of_row :: "delivery_row \<Rightarrow> delivery_lease option" where
  "lease_of_row r = (case (dr_active_lease_id r, dr_lease_expires_at r) of
      (Some l, Some t) \<Rightarrow> Some \<lparr>dl_lease_id = l, dl_fencing_token = dr_last_fencing_token r,
        dl_expires_at = to_iso_string t\<rparr>
    | _ \<Rightarrow> None)"

definition settlement_of_row :: "delivery_row \<Rightarrow> logical_settlement option" where
  "settlement_of_row r = (case (dr_settled_by_event_id r, dr_settled_at r) of
      (Some e, Some t) \<Rightarrow> Some \<lparr>ls_settled_by_event_id = e, ls_settled_at = to_iso_string t\<rparr>
    | _ \<Rightarrow> None)"

definition delivery_of_row :: "delivery_row \<Rightarrow> delivery" where
  "delivery_of_row r = \<lparr>d_delivery_id = dr_id r, d_node_id = dr_node_id r, d_mission_id = dr_mission_id r,
     d_mission_event_id = dr_mission_event_id r, d_kind = dr_kind r, d_cursor = string_of_int (dr_cursor r),
     d_status = dr_status r, d_attempt_count = dr_attempt_count r, d_max_attempts = dr_max_attempts r,
     d_last_fencing_token = dr_last_fencing_token r, d_contract_version = dr_contract_version r,
     d_verification_round = dr_verification_round r, d_lease = lease_of_row r,
     d_logical_settlement = settlement_of_row r, d_idempotency_key = dr_idempotency_key r,
     d_causal_parent_delivery_id = dr_causal_parent_delivery_id r,
     d_available_at = to_iso_string (dr_available_at r), d_created_at = to_iso_string (dr_created_at r),
     d_updated_at = to_iso_string (dr_updated_at r),
     d_acknowledged_at = map_option to_iso_string (dr_acknowledged_at r),
     d_cancelled_at = map_option to_iso_string (dr_cancelled_at r),
     d_cancellation_reason = dr_cancellation_reason r,
     d_dead_lettered_at = map_option to_iso_string (dr_dead_lettered_at r)\<rparr>"

definition delivery_from_row :: "host_lib \<Rightarrow> delivery_row \<Rightarrow> relay_error + delivery" where
  "delivery_from_row L r =
     (if delivery_ok L (delivery_of_row r) then Inr (delivery_of_row r) else Inl Relay_zod)"

definition mission_delivery_item_from_rows ::
  "host_lib \<Rightarrow> delivery_row \<Rightarrow> event_row \<Rightarrow> relay_error + mission_delivery_item" where
  "mission_delivery_item_from_rows L d e =
     (case er_actor_agent_id e of
        None \<Rightarrow> Inl (Relay_err Internal)
      | Some actor \<Rightarrow>
         (case delivery_from_row L d of
            Inl err \<Rightarrow> Inl err
          | Inr dv \<Rightarrow>
             (case event_from_row L e of
                Inl err \<Rightarrow> Inl err
              | Inr ev \<Rightarrow> Inr \<lparr>mdi_delivery = dv, mdi_event = ev, mdi_actor_agent_id = actor,
                  mdi_source_delivery_id = er_source_delivery_id e,
                  mdi_causal_parent_event_id = er_causal_parent_event_id e\<rparr>)))"

section \<open>Clock, trust and credentials\<close>

text \<open>The reading of the database clock; \<^const>\<open>None\<close> when it is not available or not a date.\<close>

definition read_database_clock :: "int option \<Rightarrow> relay_error + int" where
  "read_database_clock clock = (case clock of None \<Rightarrow> Inl (Relay_err Internal) | Some t \<Rightarrow> Inr t)"

definition assert_mission_trust_boundary :: "relay_db \<Rightarrow> uuid list \<Rightarrow> relay_error + unit" where
  "assert_mission_trust_boundary db principals =
     (let ids = remdups principals in
      if length ids < 2 then Inr ()
      else if list_ex (\<lambda>(blocker, blocked). blocker \<in> set ids \<and> blocked \<in> set ids) (db_blocks db)
      then Inl (Relay_err Teammate_blocked) else Inr ())"

record node_auth =
  na_node_id :: uuid
  na_agent_id :: uuid
  na_credential_id :: uuid

definition assert_active_node_credential :: "relay_db \<Rightarrow> node_auth \<Rightarrow> relay_error + unit" where
  "assert_active_node_credential db auth =
     (if list_ex (\<lambda>c. cd_id c = na_credential_id auth \<and> cd_node_id c = na_node_id auth \<and> \<not> cd_revoked c
           \<and> list_ex (\<lambda>n. no_id n = cd_node_id c \<and> no_agent_id n = na_agent_id auth \<and> no_active n
                \<and> list_ex (\<lambda>a. ag_id a = no_agent_id n \<and> ag_active a) (db_agents db)) (db_nodes db))
         (db_credentials db)
      then Inr () else Inl (Relay_err Unauthenticated))"

end
