(* ===== verification/Iso_Dates.thy ===== *)
theory Iso_Dates
  imports Relay_Store Samples
begin

text \<open>
  The ISO strings of dates read back: an instance of the outside functions that reads what
  \<open>to_iso_string\<close> writes, for every date it accepts.
\<close>

section \<open>The calendar\<close>

lemma quotient_bounds: "0 < (b::int) \<Longrightarrow> b * (a div b) \<le> a \<and> a < b * (a div b) + b"
  using mult_div_mod_eq [of b a] pos_mod_bound [of b a] pos_mod_sign [of b a] by linarith

lemma month_of_day:
  fixes doy :: int
  assumes "0 \<le> doy" and "doy \<le> 365"
  defines "mp \<equiv> (5 * doy + 2) div 153"
  shows "0 \<le> mp" "mp \<le> 11" "1 \<le> doy - (153 * mp + 2) div 5 + 1" "doy - (153 * mp + 2) div 5 + 1 \<le> 31"
  using assms(1,2) quotient_bounds [of 153 "5 * doy + 2"] quotient_bounds [of 5 "153 * mp + 2"]
  unfolding mp_def by linarith+

lemma year_parts:
  fixes c q y :: int
  assumes "0 \<le> c" "c \<le> 3" "0 \<le> q" "q \<le> 24" "0 \<le> y" "y \<le> 3"
  shows "(100 * c + 4 * q + y) div 4 = 25 * c + q" "(100 * c + 4 * q + y) div 100 = c"
    "0 \<le> 100 * c + 4 * q + y" "100 * c + 4 * q + y \<le> 399"
  using assms quotient_bounds [of 4 "100 * c + 4 * q + y"] quotient_bounds [of 100 "100 * c + 4 * q + y"]
  by linarith+

lemma civil_round_trip:
  assumes "civil_from_days z0 = (y, m, d)"
  shows "days_from_civil y m d = z0" and "1 \<le> m" and "m \<le> 12" and "1 \<le> d" and "d \<le> 31"
proof -
  define z where "z = z0 + 719468"
  define era where "era = z div 146097"
  define doe where "doe = z mod 146097"
  define c where "c = min 3 (doe div 36524)"
  define doc where "doc = doe - 36524 * c"
  define q where "q = doc div 1461"
  define dof where "dof = doc - 1461 * q"
  define yr where "yr = min 3 (dof div 365)"
  define doy where "doy = dof - 365 * yr"
  define mp where "mp = (5 * doy + 2) div 153"
  have doe: "0 \<le> doe" "doe \<le> 146096" by (auto simp: doe_def)
  have c: "0 \<le> c" "c \<le> 3" "0 \<le> doc" "doc \<le> 36524" 
    using doe quotient_bounds [of 36524 doe] unfolding c_def doc_def min_def by auto
  have q: "0 \<le> q" "q \<le> 24" "0 \<le> dof" "dof \<le> 1460" 
    using c quotient_bounds [of 1461 doc] unfolding q_def dof_def by linarith+
  have yr: "0 \<le> yr" "yr \<le> 3" "0 \<le> doy" "doy \<le> 365" 
    using q quotient_bounds [of 365 dof] unfolding yr_def doy_def min_def by auto
  note parts = year_parts [OF c(1,2) q(1,2) yr(1,2)]
  note mon = month_of_day [OF yr(3,4), folded mp_def]
  have "civil_from_days z0 = (100 * c + 4 * q + yr + era * 400 + (if (if mp < 10 then mp + 3 else mp - 9) \<le> 2 then 1 else 0),
      (if mp < 10 then mp + 3 else mp - 9), doy - (153 * mp + 2) div 5 + 1)"
    unfolding civil_from_days_def Let_def mp_def doy_def yr_def dof_def q_def doc_def c_def doe_def era_def z_def
    by (rule refl)
  note parts_of_date = trans [OF this [symmetric] assms, unfolded prod.inject]
  note month = parts_of_date [THEN conjunct2, THEN conjunct1]
  note date = month [symmetric] parts_of_date [THEN conjunct2, THEN conjunct2, symmetric]
    parts_of_date [THEN conjunct1, unfolded month, symmetric]
  show "1 \<le> m" "m \<le> 12" "1 \<le> d" "d \<le> 31" using date mon by (auto split: if_splits)
  define yoe where "yoe = 100 * c + 4 * q + yr"
  have y': "(if m \<le> 2 then y - 1 else y) = yoe + era * 400" using date(3) by (simp add: yoe_def)
  have era': "(yoe + era * 400) div 400 = era" using parts(3,4) by (simp add: yoe_def)
  have mp': "(if m > 2 then m - 3 else m + 9) = mp" using date(1) mon(1,2) by auto
  have "days_from_civil y m d = era * 146097 + (yoe * 365 + yoe div 4 - yoe div 100 + doy) - 719468"
    unfolding days_from_civil_def Let_def y' era' mp' using date(2) by simp
  also have "yoe * 365 + yoe div 4 - yoe div 100 + doy = doe"
    unfolding yoe_def parts(1,2) by (simp add: doy_def dof_def doc_def)
  also have "era * 146097 + doe = z" by (simp add: era_def doe_def)
  finally show "days_from_civil y m d = z0" by (simp add: z_def)
qed

section \<open>Padded numbers\<close>

lemma int_value_decimal: "list_all is_digit s \<Longrightarrow> int_value s = int (decimal_value s)"
proof (induction s rule: rev_induct)
  case (snoc c s)
  then have "(48::nat) \<le> of_char c" by (simp add: is_digit_of_char)
  then have "(of_char c :: int) - 48 = int (digit_val c)"
    by (simp add: digit_val_def of_nat_diff of_nat_of_char)
  with snoc show ?case by (simp add: int_value_def)
qed (simp add: int_value_def decimal_value_def)

lemma nat_digits_bound: "n < 10 ^ w \<Longrightarrow> 0 < w \<Longrightarrow> length (nat_digits n) \<le> w"
proof (induction w arbitrary: n)
  case (Suc w)
  show ?case
  proof (cases "n < 10")
    case False
    then have "0 < w" using Suc.prems by (cases w) auto
    moreover have "n div 10 < 10 ^ w" using Suc.prems by (simp add: less_mult_imp_div_less mult.commute)
    ultimately show ?thesis using Suc.IH [of "n div 10"] False by (subst nat_digits.simps) simp
  qed (subst nat_digits.simps, simp)
qed simp

lemma zeros_value: "decimal_value (replicate k (CHR ''0'') @ s) = decimal_value s"
proof (induction s rule: rev_induct)
  case Nil
  have [simp]: "decimal_value [] = 0" by (simp add: decimal_value_def)
  have "decimal_value (replicate k (CHR ''0'')) = 0"
    by (induction k) (simp_all add: digit_val_def replicate_append_same [symmetric])
  then show ?case by simp
next
  case (snoc c s)
  then show ?case by (simp flip: append_assoc)
qed

lemma pad_number:
  assumes "0 \<le> n" and "n < 10 ^ w" and "0 < w"
  shows "length (pad w n) = w" and "list_all is_digit (pad w n)" and "int_value (pad w n) = n"
proof -
  have s: "string_of_int n = nat_digits (nat n)" using assms(1) by (simp add: string_of_int_def)
  have "nat n < 10 ^ w" using assms(1,2) by (simp add: nat_less_iff)
  then have "length (nat_digits (nat n)) \<le> w" using nat_digits_bound assms(3) by blast
  then show "length (pad w n) = w" by (simp add: pad_def s Let_def)
  show digits: "list_all is_digit (pad w n)"
    using nat_digits_digits by (auto simp: pad_def s Let_def is_digit_of_char list_all_iff)
  show "int_value (pad w n) = n"
    unfolding int_value_decimal [OF digits] using assms(1) by (simp add: pad_def s Let_def zeros_value)
qed

section \<open>Reading an ISO string\<close>

definition iso_format :: "string \<Rightarrow> bool" where
  "iso_format s \<longleftrightarrow> length s = 24
     \<and> list_all (\<lambda>i. is_digit (s ! i)) [0, 1, 2, 3, 5, 6, 8, 9, 11, 12, 14, 15, 17, 18, 20, 21, 22]
     \<and> s ! 4 = CHR ''-'' \<and> s ! 7 = CHR ''-'' \<and> s ! 10 = CHR ''T'' \<and> s ! 13 = CHR '':''
     \<and> s ! 16 = CHR '':'' \<and> s ! 19 = CHR ''.'' \<and> s ! 23 = CHR ''Z''"

definition iso_millis :: "string \<Rightarrow> int" where
  "iso_millis s = (((days_from_civil (field 0 4 s) (field 5 2 s) (field 8 2 s) * 24 + field 11 2 s) * 60
     + field 14 2 s) * 60 + field 17 2 s) * 1000 + field 20 3 s"

text \<open>The sample functions with ISO strings as dates beside the short form.\<close>

definition iso_lib :: host_lib where
  "iso_lib = sample_lib\<lparr>datetime_format := (\<lambda>s. iso_format s \<or> utc_format s),
     date_parse := (\<lambda>s. if iso_format s then Some (iso_millis s) else utc_millis s)\<rparr>"

lemma field_between: "field (length a) (length b) (a @ b @ c) = int_value b"
  by (simp add: field_def)

lemma iso_year_length: "length (iso_year y) = 4 \<Longrightarrow> 0 \<le> y \<and> y \<le> 9999"
  by (auto simp: iso_year_def pad_def Let_def split: if_splits)

text \<open>Taking a written string apart: the parts of known length before the one that is read.\<close>

lemma fields_between:
  assumes "length y = 4" "length mo = 2" "length d = 2" "length h = 2" "length mi = 2" "length se = 2" "length ms = 3"
    and "s = y @ ''-'' @ mo @ ''-'' @ d @ ''T'' @ h @ '':'' @ mi @ '':'' @ se @ ''.'' @ ms @ ''Z''"
  shows "field 0 4 s = int_value y" "field 5 2 s = int_value mo" "field 8 2 s = int_value d"
    "field 11 2 s = int_value h" "field 14 2 s = int_value mi" "field 17 2 s = int_value se"
    "field 20 3 s = int_value ms"
  using assms by (simp_all add: field_def)

lemma assembled:
  fixes t :: int
  assumes "60 * h + mi = a" "60 * a + se = b" "1000 * b + r = ms" "86400000 * d + ms = t"
  shows "(((d * 24 + h) * 60 + mi) * 60 + se) * 1000 + r = t"
  unfolding assms [symmetric] by (simp add: algebra_simps)

lemma day_millis:
  fixes t :: int
  defines "ms \<equiv> t mod 86400000"
  shows "(((t div 86400000 * 24 + ms div 3600000) * 60 + ms div 60000 mod 60) * 60 + ms div 1000 mod 60) * 1000
      + ms mod 1000 = t"
    and "0 \<le> ms div 3600000" "ms div 3600000 \<le> 23"
proof -
  have ms: "0 \<le> ms" "ms \<le> 86399999" by (auto simp: ms_def)
  have "ms div 60000 div 60 = ms div 3600000" "ms div 1000 div 60 = ms div 60000" by (simp_all add: div_mult2_eq [symmetric])
  then show "(((t div 86400000 * 24 + ms div 3600000) * 60 + ms div 60000 mod 60) * 60 + ms div 1000 mod 60) * 1000
      + ms mod 1000 = t"
    using mult_div_mod_eq [of 60 "ms div 60000"] mult_div_mod_eq [of 60 "ms div 1000"]
    by (intro assembled [of _ _ "ms div 60000" _ "ms div 1000" _ ms])
      (simp_all only: mult_div_mod_eq ms_def)
  show "0 \<le> ms div 3600000" "ms div 3600000 \<le> 23" using ms quotient_bounds [of 3600000 ms] by linarith+
qed

theorem iso_round_trip:
  assumes "iso_format (to_iso_string t)"
  shows "iso_millis (to_iso_string t) = t"
proof -
  obtain y m d where civil: "civil_from_days (t div 86400000) = (y, m, d)" by (cases "civil_from_days (t div 86400000)")
  define ms where "ms = t mod 86400000"
  note day = civil_round_trip [OF civil]
  note time = day_millis [of t, folded ms_def]
  have two: "length (pad 2 n) = 2" "int_value (pad 2 n) = n" if "0 \<le> n" "n \<le> 99" for n
    using that pad_number [of n 2] by simp_all
  have three: "length (pad 3 (ms mod 1000)) = 3" "int_value (pad 3 (ms mod 1000)) = ms mod 1000"
    using pad_number [of "ms mod 1000" 3] pos_mod_bound [of 1000 ms] by simp_all
  have ranges: "0 \<le> ms div 60000 mod 60" "ms div 60000 mod 60 \<le> 99"
      "0 \<le> ms div 1000 mod 60" "ms div 1000 mod 60 \<le> 99" "0 \<le> m" "m \<le> 99" "0 \<le> d" "d \<le> 99"
      "0 \<le> ms div 3600000" "ms div 3600000 \<le> 99"
    using pos_mod_bound [of 60 "ms div 60000"] pos_mod_bound [of 60 "ms div 1000"] day(2-5) time(2,3)
      pos_mod_sign [of 60 "ms div 60000"] pos_mod_sign [of 60 "ms div 1000"] by linarith+
  have s: "to_iso_string t = iso_year y @ ''-'' @ pad 2 m @ ''-'' @ pad 2 d @ ''T'' @ pad 2 (ms div 3600000) @ '':''
        @ pad 2 (ms div 60000 mod 60) @ '':'' @ pad 2 (ms div 1000 mod 60) @ ''.'' @ pad 3 (ms mod 1000) @ ''Z''"
    by (simp only: to_iso_string_def civil ms_def Let_def prod.case)
  have lens: "length (pad 2 m) = 2" "length (pad 2 d) = 2" "length (pad 2 (ms div 3600000)) = 2"
      "length (pad 2 (ms div 60000 mod 60)) = 2" "length (pad 2 (ms div 1000 mod 60)) = 2"
    by (rule two; rule ranges)+
  have "length (to_iso_string t) = 24" using assms by (simp add: iso_format_def)
  then have year: "length (iso_year y) = 4" using lens three by (simp add: s)
  then have "0 \<le> y" "y \<le> 9999" using iso_year_length by auto
  then have "int_value (iso_year y) = y" using pad_number(3) [of y 4] by (simp add: iso_year_def)
  moreover have "int_value (pad 2 m) = m" "int_value (pad 2 d) = d"
      "int_value (pad 2 (ms div 3600000)) = ms div 3600000"
      "int_value (pad 2 (ms div 60000 mod 60)) = ms div 60000 mod 60"
      "int_value (pad 2 (ms div 1000 mod 60)) = ms div 1000 mod 60"
    by (rule two; rule ranges)+
  ultimately show ?thesis
    unfolding iso_millis_def fields_between [OF year lens three(1) s] three(2) using day(1) time(1) by simp
qed

lemma pad_length: "w \<le> length (pad w n)"
  by (simp add: pad_def Let_def)

lemma iso_year_at_least: "4 \<le> length (iso_year y)"
  using pad_length [of 4 y] pad_length [of 6 y] pad_length [of 6 "- y"] unfolding iso_year_def by simp

lemma seven_parts:
  fixes a b c d e f g :: nat
  assumes "4 \<le> a" "2 \<le> b" "2 \<le> c" "2 \<le> d" "2 \<le> e" "2 \<le> f" "3 \<le> g"
  shows "13 < a + (b + (c + (d + (e + (f + g)))))"
  using assms by linarith

lemma iso_not_short: "\<not> utc_format (to_iso_string t)"
proof -
  have "20 < length (to_iso_string t)"
    by (simp add: to_iso_string_def Let_def split_beta pad_length iso_year_at_least seven_parts)
  then show ?thesis by (simp add: utc_format_def)
qed

theorem iso_dates: "datetime_format iso_lib (to_iso_string t) \<Longrightarrow> date_parse iso_lib (to_iso_string t) = Some t"
  using iso_not_short [of t] by (auto simp: iso_lib_def iso_round_trip)

end
