(* ===== verification/Mission_Ledger.thy ===== *)
theory Mission_Ledger
  imports Relay_Store
begin

text \<open>
  \<^verbatim>\<open>relay/src/services/mission-ledger.ts\<close>: the creation of a Mission, the acceptance of its participants and
  the append of an event, which replays the stored events, reduces the new one, settles its source
  delivery, derives the next deliveries and stores the projection, all in one transaction.  The random
  UUIDs of a transaction are drawn from a function that its caller gives it.
\<close>

section \<open>Reading the stored Mission\<close>

definition config_participant_ids :: "coordinator_config \<Rightarrow> uuid list" where
  "config_participant_ids c = manifest_participant_ids (mc_manifest (cfg_mission_context c))"

text \<open>\<open>isDeepStrictEqual\<close> of configurations and of states: the order of the keys of the command object
  does not count.\<close>

definition same_config :: "coordinator_config \<Rightarrow> coordinator_config \<Rightarrow> bool" where
  "same_config a b \<longleftrightarrow> cfg_mission_context a = cfg_mission_context b
     \<and> same_commands (cfg_required_verification_commands a) (cfg_required_verification_commands b)"

definition same_state :: "coordinator_state \<Rightarrow> coordinator_state \<Rightarrow> bool" where
  "same_state a b \<longleftrightarrow> a\<lparr>cs_required_verification_commands := []\<rparr> = b\<lparr>cs_required_verification_commands := []\<rparr>
     \<and> same_commands (cs_required_verification_commands a) (cs_required_verification_commands b)"

definition mission_state_from_row :: "host_lib \<Rightarrow> mission_row \<Rightarrow> relay_error + coordinator_state" where
  "mission_state_from_row L m =
     (if \<not> config_ok L (mr_coordinator_config m) then Inl Relay_zod
      else if \<not> coordinator_state_ok L (mr_state m)
        \<or> mf_mission_id (cs_manifest (mr_state m))
            \<noteq> mf_mission_id (mc_manifest (cfg_mission_context (mr_coordinator_config m)))
      then Inl (Relay_err Internal) else Inr (mr_state m))"

definition replay_rows ::
  "host_lib \<Rightarrow> coordinator_config \<Rightarrow> event_row list \<Rightarrow> relay_error + coordinator_state" where
  "replay_rows L config rows =
     (case traverse (event_from_row L) rows of
        Inl e \<Rightarrow> Inl e
      | Inr events \<Rightarrow>
         (case replay_coordinator_events L config events of
            Inl e \<Rightarrow> Inl (Coordinator_failed e) | Inr s \<Rightarrow> Inr s))"

section \<open>Deriving and settling work\<close>

record delivery_target =
  tg_agent_id :: uuid
  tg_kind :: delivery_kind
  tg_contract_version :: int
  tg_verification_round :: "int option"

fun proposes :: "event_body \<Rightarrow> bool" where
  "proposes (Turn_completed p d v disposition msg revision) = is_proposal disposition"
| "proposes _ = False"

definition derive_delivery_targets ::
  "coordinator_state \<Rightarrow> coordinator_state \<Rightarrow> coordinator_event \<Rightarrow> relay_error + delivery_target list" where
  "derive_delivery_targets previous next event =
     (if proposes (ev_body event)
      then (case cs_pending_revision next of
              None \<Rightarrow> if cs_status next = M_failed then Inr [] else Inl (Relay_err Internal)
            | Some r \<Rightarrow> Inr (map (\<lambda>p. \<lparr>tg_agent_id = p, tg_kind = K_contract_acknowledgement,
                tg_contract_version = r_version r, tg_verification_round = None\<rparr>)
                (mission_participant_ids next)))
      else if cs_status previous \<noteq> M_verifying \<and> cs_status next = M_verifying
      then Inr (map (\<lambda>p. \<lparr>tg_agent_id = p, tg_kind = K_verification,
             tg_contract_version = cs_contract_version next,
             tg_verification_round = Some (cs_verification_round next)\<rparr>) (mission_participant_ids next))
      else (case cs_current_participant next of
              Some p \<Rightarrow> if cs_status next = M_active
                then Inr [\<lparr>tg_agent_id = p, tg_kind = K_turn, tg_contract_version = cs_contract_version next,
                  tg_verification_round = None\<rparr>]
                else Inr []
            | None \<Rightarrow> Inr []))"

definition should_settle_source_delivery :: "coordinator_state \<Rightarrow> coordinator_event \<Rightarrow> bool" where
  "should_settle_source_delivery next event =
     (case ev_body event of
        Verification_recorded p d v round evidence \<Rightarrow>
          if cs_status next \<noteq> M_verifying then True
          else if e_outcome evidence = Failed then False
          else list_all (\<lambda>command_id. list_ex (\<lambda>r. vr_participant_agent_id r = p
                 \<and> vr_contract_version r = v \<and> vr_verification_round r = round
                 \<and> e_command_id (vr_evidence r) = command_id \<and> e_outcome (vr_evidence r) = Passed)
                 (cs_verification_records next))
               (case map_of (cs_required_verification_commands next) p of None \<Rightarrow> [] | Some cs \<Rightarrow> cs)
      | Participants_accepted ids contract \<Rightarrow> False
      | _ \<Rightarrow> True)"

fun source_delivery_id :: "event_body \<Rightarrow> uuid option" where
  "source_delivery_id (Turn_completed p d v disposition msg revision) = Some d"
| "source_delivery_id (Contract_acknowledged p d r v artifact) = Some d"
| "source_delivery_id (Verification_recorded p d v round evidence) = Some d"
| "source_delivery_id _ = None"

text \<open>The participant of an input that a Node can cause.\<close>

fun input_participant :: "event_body \<Rightarrow> uuid option" where
  "input_participant (Turn_completed p d v disposition msg revision) = Some p"
| "input_participant (Contract_acknowledged p d r v artifact) = Some p"
| "input_participant (Verification_recorded p d v round evidence) = Some p"
| "input_participant _ = None"

definition assert_authorized_actor :: "uuid \<Rightarrow> event_body \<Rightarrow> relay_error + unit" where
  "assert_authorized_actor actor body =
     (case input_participant body of
        None \<Rightarrow> Inr ()
      | Some p \<Rightarrow> if p \<noteq> actor then Inl (Relay_err Not_authorized_transition) else Inr ())"

section \<open>Authority of the source delivery\<close>

record source_authorization =
  sa_executing :: bool
  sa_node_id :: "uuid option"
  sa_lease_id :: "uuid option"
  sa_fencing_token :: "string option"

definition or_absent :: "'a option \<Rightarrow> 'a option \<Rightarrow> bool" where
  "or_absent expected actual \<longleftrightarrow> expected = None \<or> actual = expected"

text \<open>The join of a delivery with the participant of its Mission and Node.\<close>

definition source_rows :: "relay_db \<Rightarrow> uuid \<Rightarrow> uuid \<Rightarrow> uuid \<Rightarrow> (delivery_row \<times> participant_row) list" where
  "source_rows db mission_id actor delivery_id =
     concat (map (\<lambda>d. map (\<lambda>p. (d, p)) (filter (\<lambda>p. pt_mission_id p = dr_mission_id d
           \<and> pt_node_id p = dr_node_id d \<and> pt_agent_id p = actor) (db_participants db)))
       (filter (\<lambda>d. dr_id d = delivery_id \<and> dr_mission_id d = mission_id) (db_deliveries db)))"

definition assert_source_delivery ::
  "relay_db \<Rightarrow> uuid \<Rightarrow> uuid \<Rightarrow> event_body \<Rightarrow> source_authorization \<Rightarrow> relay_error + unit" where
  "assert_source_delivery db mission_id actor body auth =
     (if sa_executing auth \<and> (sa_node_id auth = None \<or> sa_lease_id auth = None \<or> sa_fencing_token auth = None)
      then Inl (Relay_err Internal)
      else (case source_rows db mission_id actor (body_delivery_id body) of
              [] \<Rightarrow> Inl (Relay_err Not_authorized_transition)
            | (d, p) # _ \<Rightarrow>
                if pt_status p \<noteq> Accepted then Inl (Relay_err Not_authorized_transition)
                else if dr_status d \<noteq> (if sa_executing auth then D_executing else D_stored)
                  \<or> dr_settled_by_event_id d \<noteq> None
                  \<or> expected_event_kind (dr_kind d) \<noteq> event_kind body
                  \<or> dr_contract_version d \<noteq> body_version body
                  \<or> \<not> or_absent (sa_node_id auth) (Some (dr_node_id d))
                  \<or> \<not> or_absent (sa_lease_id auth) (dr_active_lease_id d)
                  \<or> \<not> or_absent (sa_fencing_token auth) (Some (dr_last_fencing_token d))
                  \<or> (event_kind body = Verification_recorded_kind
                      \<and> dr_verification_round d \<noteq> Some (body_round body))
                then Inl (Relay_err Invalid_transition_code) else Inr ()))"

definition is_accepted :: "participant_row \<Rightarrow> bool" where
  "is_accepted p \<longleftrightarrow> pt_status p = Accepted \<and> pt_accepted_at p \<noteq> None
     \<and> pt_acceptance_key p \<noteq> None \<and> pt_acceptance_receipt p \<noteq> None"

definition acceptance_input_from_participant ::
  "host_lib \<Rightarrow> participant_row \<Rightarrow> relay_error + acceptance_input" where
  "acceptance_input_from_participant L p =
     (case pt_acceptance_receipt p of
        None \<Rightarrow> Inl (Relay_err Internal)
      | Some a \<Rightarrow> if acceptance_input_ok L a then Inr a else Inl Relay_zod)"

fun check_each :: "('a \<Rightarrow> 'e + unit) \<Rightarrow> 'a list \<Rightarrow> 'e + unit" where
  "check_each f [] = Inr ()"
| "check_each f (x # xs) = (case f x of Inl e \<Rightarrow> Inl e | Inr u \<Rightarrow> check_each f xs)"

lemma check_each_Inr [simp]: "check_each f xs = Inr u \<longleftrightarrow> (\<forall>x \<in> set xs. f x = Inr ())"
  by (induction xs) auto

definition assert_exact_participant_acceptances ::
  "host_lib \<Rightarrow> relay_db \<Rightarrow> mission_row \<Rightarrow> artifact_ref \<Rightarrow> relay_error + unit" where
  "assert_exact_participant_acceptances L db m contract =
     (let config = mr_coordinator_config m; manifest = mc_manifest (cfg_mission_context config);
          participants = participants_of db (mr_id m) in
      if \<not> config_ok L config then Inl Relay_zod
      else if length participants \<noteq> length (mf_participants manifest) \<or> \<not> list_all is_accepted participants
      then Inl (Relay_err Not_authorized_transition)
      else if contract \<noteq> mf_shared_contract manifest then Inl (Relay_err Internal)
      else check_each (\<lambda>mp.
             (case find (\<lambda>c. pt_agent_id c = p_agent_id mp) participants of
                None \<Rightarrow> Inl (Relay_err Internal)
              | Some participant \<Rightarrow>
                 (case acceptance_input_from_participant L participant of
                    Inl e \<Rightarrow> Inl e
                  | Inr a \<Rightarrow>
                     if pa_contract a \<noteq> mf_shared_contract manifest
                       \<or> pg_profile_name (pa_local_policy_grant a) \<noteq> p_requested_local_policy_profile mp
                     then Inl (Relay_err Internal) else Inr ())))
             (mf_participants manifest))"

section \<open>Appending an event\<close>

record append_request =
  ap_actor_agent_id :: uuid
  ap_input :: coordinator_append_input
  ap_allow_derived_acceptance :: bool
  ap_source_authorization :: "source_authorization option"
  ap_recorded_at :: "int option"

record append_result =
  ar_event :: coordinator_event
  ar_delivery_ids :: "uuid list"
  ar_state :: coordinator_state
  ar_replayed :: bool

definition append_input_of_event :: "coordinator_event \<Rightarrow> coordinator_append_input" where
  "append_input_of_event e = \<lparr>ai_idempotency_key = ev_idempotency_key e, ai_body = ev_body e\<rparr>"

definition append_replay ::
  "host_lib \<Rightarrow> relay_db \<Rightarrow> mission_row \<Rightarrow> append_request \<Rightarrow> event_row \<Rightarrow> relay_error + append_result" where
  "append_replay L db m request row =
     (case event_from_row L row of
        Inl e \<Rightarrow> Inl e
      | Inr event \<Rightarrow>
          if er_actor_agent_id row \<noteq> Some (ap_actor_agent_id request)
            \<or> er_source_delivery_id row \<noteq> source_delivery_id (ai_body (ap_input request))
          then Inl (Relay_err Duplicate_idempotency_key)
          else if \<not> append_input_ok L (append_input_of_event event) then Inl Relay_zod
          else if append_input_of_event event \<noteq> ap_input request
          then Inl (Relay_err Duplicate_idempotency_key)
          else if \<not> config_ok L (mr_coordinator_config m) then Inl Relay_zod
          else (case replay_rows L (mr_coordinator_config m)
                  (filter (\<lambda>r. er_sequence_no r \<le> er_sequence_no row) (events_of db (mr_id m))) of
                  Inl e \<Rightarrow> Inl e
                | Inr s \<Rightarrow> Inr \<lparr>ar_event = event,
                    ar_delivery_ids = map dr_id (deliveries_where db (\<lambda>d. dr_mission_event_id d = er_id row)),
                    ar_state = s, ar_replayed = True\<rparr>))"

text \<open>The stored projection has to be what the stored events say.\<close>

definition load_current_state :: "host_lib \<Rightarrow> relay_db \<Rightarrow> mission_row \<Rightarrow> relay_error + coordinator_state" where
  "load_current_state L db m =
     (case replay_rows L (mr_coordinator_config m) (events_of db (mr_id m)) of
        Inl e \<Rightarrow> Inl e
      | Inr current \<Rightarrow>
          if cs_sequence_no current \<noteq> mr_last_event_sequence m then Inl (Relay_err Internal)
          else (case mission_state_from_row L m of
                  Inl e \<Rightarrow> Inl e
                | Inr stored \<Rightarrow> if \<not> same_state current stored then Inl (Relay_err Internal) else Inr current))"

text \<open>Only \<open>InvalidMissionCoordinatorEventError\<close> is turned into a relay error.\<close>

definition reduce_for_append ::
  "host_lib \<Rightarrow> coordinator_state \<Rightarrow> coordinator_event \<Rightarrow> relay_error + coordinator_state" where
  "reduce_for_append L current event =
     (case reduce_coordinator_event L current event of
        Inl (Invalid_event reason) \<Rightarrow> Inl (Relay_err Invalid_transition_code)
      | Inl e \<Rightarrow> Inl (Coordinator_failed e)
      | Inr next \<Rightarrow> Inr next)"

text \<open>The rows that the event settles: the source, or the whole verification round when it is over.\<close>

definition settlement_condition ::
  "uuid \<Rightarrow> uuid \<Rightarrow> coordinator_state \<Rightarrow> coordinator_event \<Rightarrow> delivery_row \<Rightarrow> bool" where
  "settlement_condition mission_id source next event d =
     (if event_kind (ev_body event) = Verification_recorded_kind
         \<and> (cs_status next = M_active \<or> cs_status next = M_failed)
      then dr_mission_id d = mission_id \<and> dr_kind d = K_verification
        \<and> dr_contract_version d = body_version (ev_body event)
        \<and> dr_verification_round d = Some (body_round (ev_body event)) \<and> dr_settled_by_event_id d = None
      else dr_id d = source \<and> dr_mission_id d = mission_id \<and> dr_settled_by_event_id d = None)"

definition settle_source_delivery ::
  "host_lib \<Rightarrow> uuid \<Rightarrow> coordinator_state \<Rightarrow> coordinator_event \<Rightarrow> relay_db \<Rightarrow> relay_error + relay_db" where
  "settle_source_delivery L mission_id next event db =
     (case source_delivery_id (ev_body event) of
        None \<Rightarrow> Inr db
      | Some source \<Rightarrow>
          if \<not> should_settle_source_delivery next event then Inr db
          else (case date_parse L (ev_created_at event) of
                  None \<Rightarrow> Inl (Relay_err Internal)
                | Some at \<Rightarrow>
                    if \<not> list_ex (\<lambda>d. settlement_condition mission_id source next event d \<and> dr_id d = source)
                         (db_deliveries db)
                    then Inl (Relay_err Invalid_transition_code)
                    else Inr (update_deliveries (settlement_condition mission_id source next event)
                      (\<lambda>d. d\<lparr>dr_settled_by_event_id := Some (ev_event_id event),
                         dr_settled_at := Some at, dr_updated_at := at\<rparr>) db)))"

fun delivery_kind_name :: "delivery_kind \<Rightarrow> string" where
  "delivery_kind_name K_turn = ''turn''"
| "delivery_kind_name K_verification = ''verification''"
| "delivery_kind_name K_contract_acknowledgement = ''contract_acknowledgement''"

definition new_delivery_row ::
  "uuid \<Rightarrow> uuid \<Rightarrow> uuid \<Rightarrow> uuid \<Rightarrow> delivery_target \<Rightarrow> uuid option \<Rightarrow> int \<Rightarrow> delivery_row" where
  "new_delivery_row i node_id mission_id event_id target parent now =
     \<lparr>dr_id = i, dr_node_id = node_id, dr_mission_id = mission_id, dr_mission_event_id = event_id,
      dr_kind = tg_kind target, dr_cursor = 0, dr_status = D_stored, dr_attempt_count = 0,
      dr_max_attempts = 5, dr_last_fencing_token = ''0'', dr_active_lease_id = None,
      dr_lease_expires_at = None, dr_contract_version = tg_contract_version target,
      dr_verification_round = tg_verification_round target,
      dr_idempotency_key = ''event:'' @ event_id @ '':'' @ delivery_kind_name (tg_kind target) @ '':'' @ node_id,
      dr_causal_parent_delivery_id = parent, dr_settled_by_event_id = None, dr_settled_at = None,
      dr_available_at = now, dr_acknowledged_at = None, dr_cancelled_at = None,
      dr_cancellation_reason = None, dr_dead_lettered_at = None, dr_created_at = now, dr_updated_at = now\<rparr>"

text \<open>The loop over the targets, with the ids still to be drawn; \<open>now\<close> is the transaction's \<open>now()\<close>, the
  default of the time columns.\<close>

fun create_deliveries ::
  "uuid \<Rightarrow> uuid \<Rightarrow> int \<Rightarrow> (nat \<Rightarrow> uuid) \<Rightarrow> delivery_target list \<Rightarrow> relay_db \<Rightarrow> relay_error + uuid list \<times> relay_db" where
  "create_deliveries mission_id event_id now fresh [] db = Inr ([], db)"
| "create_deliveries mission_id event_id now fresh (t # ts) db =
     (case find (\<lambda>p. pt_agent_id p = tg_agent_id t) (participants_of db mission_id) of
        None \<Rightarrow> Inl (Relay_err Internal)
      | Some participant \<Rightarrow>
         (let parent = map_option dr_id (last_option
                (deliveries_where db (\<lambda>d. dr_mission_id d = mission_id \<and> dr_node_id d = pt_node_id participant)))
          in case insert_delivery
                (new_delivery_row (fresh 0) (pt_node_id participant) mission_id event_id t parent now) db of
               Inl e \<Rightarrow> Inl e
             | Inr db \<Rightarrow>
                (case create_deliveries mission_id event_id now (fresh \<circ> Suc) ts db of
                   Inl e \<Rightarrow> Inl e
                 | Inr (ids, db) \<Rightarrow> Inr (fresh 0 # ids, db))))"

definition project_mission :: "coordinator_state \<Rightarrow> mission_row \<Rightarrow> mission_row" where
  "project_mission next m = m\<lparr>mr_state := next, mr_status := cs_status next,
     mr_last_event_sequence := cs_sequence_no next, mr_contract_version := cs_contract_version next\<rparr>"

text \<open>The new event of the request, as the relay completes it.\<close>

definition event_of_input ::
  "coordinator_append_input \<Rightarrow> uuid \<Rightarrow> uuid \<Rightarrow> int \<Rightarrow> int \<Rightarrow> coordinator_event" where
  "event_of_input i event_id mission_id sequence_no now =
     \<lparr>ev_event_id = event_id, ev_idempotency_key = ai_idempotency_key i, ev_mission_id = mission_id,
      ev_sequence_no = sequence_no, ev_created_at = to_iso_string now, ev_body = ai_body i\<rparr>"

text \<open>\<open>eventPayload\<close>: a copy of the event's object without the keys that the row has as columns.\<close>

definition event_payload :: "coordinator_event \<Rightarrow> event_object" where
  "event_payload e = delete_fields
     [''event_id'', ''idempotency_key'', ''mission_id'', ''sequence_no'', ''created_at'', ''type''] (event_object e)"

definition event_row_of ::
  "host_lib \<Rightarrow> coordinator_event \<Rightarrow> uuid option \<Rightarrow> uuid option \<Rightarrow> uuid option \<Rightarrow> relay_error + event_row" where
  "event_row_of L event actor source parent =
     (case date_parse L (ev_created_at event) of
        None \<Rightarrow> Inl (Relay_err Internal)
      | Some at \<Rightarrow> Inr \<lparr>er_id = ev_event_id event, er_mission_id = ev_mission_id event,
          er_sequence_no = ev_sequence_no event, er_actor_agent_id = actor,
          er_idempotency_key = ev_idempotency_key event, er_source_delivery_id = source,
          er_causal_parent_event_id = parent, er_type = body_type (ev_body event),
          er_payload = event_payload event, er_created_at = at\<rparr>)"

text \<open>The checks before the event is built.\<close>

definition authorize_append ::
  "host_lib \<Rightarrow> relay_db \<Rightarrow> mission_row \<Rightarrow> append_request \<Rightarrow> int \<Rightarrow> relay_error + unit" where
  "authorize_append L db m request now =
     (let body = ai_body (ap_input request); config = mr_coordinator_config m in
      if now \<ge> mr_expires_at m then Inl (Relay_err Invalid_transition_code)
      else if \<not> config_ok L config then Inl Relay_zod
      else (case assert_mission_trust_boundary db (mr_created_by_agent_id m # config_participant_ids config) of
              Inl e \<Rightarrow> Inl e
            | Inr _ \<Rightarrow>
                (case body of
                   Participants_accepted ids contract \<Rightarrow>
                     if \<not> ap_allow_derived_acceptance request
                     then Inl (Relay_err Not_authorized_transition)
                     else assert_exact_participant_acceptances L db m contract
                 | _ \<Rightarrow> assert_authorized_actor (ap_actor_agent_id request) body)))"

definition authorize_source ::
  "relay_db \<Rightarrow> mission_row \<Rightarrow> append_request \<Rightarrow> relay_error + unit" where
  "authorize_source db m request =
     (case ai_body (ap_input request) of
        Participants_accepted ids contract \<Rightarrow> Inr ()
      | body \<Rightarrow>
         (case ap_source_authorization request of
            None \<Rightarrow> Inl (Relay_err Internal)
          | Some auth \<Rightarrow> assert_source_delivery db (mr_id m) (ap_actor_agent_id request) body auth))"

text \<open>The writes: the event, the settlement of its source, the derived deliveries, the projection.\<close>

definition store_event ::
  "host_lib \<Rightarrow> (nat \<Rightarrow> uuid) \<Rightarrow> int \<Rightarrow> relay_db \<Rightarrow> mission_row \<Rightarrow> append_request \<Rightarrow> coordinator_state
    \<Rightarrow> coordinator_event \<Rightarrow> coordinator_state \<Rightarrow> relay_error + append_result \<times> relay_db" where
  "store_event L fresh tx_now db m request current event next =
     (let actor = ap_actor_agent_id request;
          parent = map_option er_id (last_option (events_of db (mr_id m))) in
      case event_row_of L event (Some actor) (source_delivery_id (ev_body event)) parent of
        Inl e \<Rightarrow> Inl e
      | Inr row \<Rightarrow>
         (case insert_event row db of
            Inl e \<Rightarrow> Inl e
          | Inr db \<Rightarrow>
             (case settle_source_delivery L (mr_id m) next event db of
                Inl e \<Rightarrow> Inl e
              | Inr db \<Rightarrow>
                 (case derive_delivery_targets current next event of
                    Inl e \<Rightarrow> Inl e
                  | Inr targets \<Rightarrow>
                     (case create_deliveries (mr_id m) (ev_event_id event) tx_now fresh targets db of
                        Inl e \<Rightarrow> Inl e
                      | Inr (ids, db) \<Rightarrow>
                          Inr (\<lparr>ar_event = event, ar_delivery_ids = ids, ar_state = next, ar_replayed = False\<rparr>,
                            write_audit (Some actor) ''mission.event.append'' (ev_event_id event)
                              (update_mission (mr_id m) (project_mission next) db)))))))"

text \<open>\<open>clock\<close> is read only when the request brings no time of its own.\<close>

definition append_mission_event_in_transaction ::
  "host_lib \<Rightarrow> (nat \<Rightarrow> uuid) \<Rightarrow> int option \<Rightarrow> int \<Rightarrow> relay_db \<Rightarrow> mission_row \<Rightarrow> append_request
    \<Rightarrow> relay_error + append_result \<times> relay_db" where
  "append_mission_event_in_transaction L fresh clock tx_now db m request =
     (case find (\<lambda>r. er_mission_id r = mr_id m
              \<and> er_idempotency_key r = ai_idempotency_key (ap_input request)) (db_events db) of
        Some row \<Rightarrow>
          (case append_replay L db m request row of Inl e \<Rightarrow> Inl e | Inr result \<Rightarrow> Inr (result, db))
      | None \<Rightarrow>
         (case (case ap_recorded_at request of Some t \<Rightarrow> Inr t | None \<Rightarrow> read_database_clock clock) of
            Inl e \<Rightarrow> Inl e
          | Inr now \<Rightarrow>
             (case authorize_append L db m request now of
                Inl e \<Rightarrow> Inl e
              | Inr _ \<Rightarrow>
                 (case load_current_state L db m of
                    Inl e \<Rightarrow> Inl e
                  | Inr current \<Rightarrow>
                     (case authorize_source db m request of
                        Inl e \<Rightarrow> Inl e
                      | Inr _ \<Rightarrow>
                         (let event = event_of_input (ap_input request) (fresh 0) (mr_id m)
                                (cs_sequence_no current + 1) now in
                          if \<not> coordinator_event_ok L event then Inl Relay_zod
                          else (case reduce_for_append L current event of
                                  Inl e \<Rightarrow> Inl e
                                | Inr next \<Rightarrow>
                                    store_event L (fresh \<circ> Suc) tx_now db m request current event next)))))))"

text \<open>The public append of a result for a stored delivery.\<close>

definition append_mission_event ::
  "host_lib \<Rightarrow> (nat \<Rightarrow> uuid) \<Rightarrow> int option \<Rightarrow> int \<Rightarrow> relay_db \<Rightarrow> uuid \<Rightarrow> uuid \<Rightarrow> coordinator_append_input
    \<Rightarrow> relay_error + append_result \<times> relay_db" where
  "append_mission_event L fresh clock tx_now db mission_id actor i =
     (if \<not> append_input_ok L i then Inl Relay_zod
      else (case ai_body i of
              Participants_accepted ids contract \<Rightarrow> Inl (Relay_err Not_authorized_transition)
            | _ \<Rightarrow>
               (case find_mission db mission_id of
                  None \<Rightarrow> Inl (Relay_err Invalid_params)
                | Some m \<Rightarrow>
                    append_mission_event_in_transaction L fresh clock tx_now db m
                      \<lparr>ap_actor_agent_id = actor, ap_input = i, ap_allow_derived_acceptance = False,
                       ap_source_authorization = Some \<lparr>sa_executing = False, sa_node_id = None,
                         sa_lease_id = None, sa_fencing_token = None\<rparr>,
                       ap_recorded_at = None\<rparr>)))"

section \<open>Accepting a Mission\<close>

text \<open>The participant row of the agent (on the authenticated Node, when there is one) whose Node and workspace
  are active.\<close>

definition active_binding :: "relay_db \<Rightarrow> participant_row \<Rightarrow> bool" where
  "active_binding db p \<longleftrightarrow> list_ex (\<lambda>n. no_id n = pt_node_id p \<and> no_active n) (db_nodes db)
     \<and> list_ex (\<lambda>w. ws_id w = pt_workspace_binding_id p \<and> ws_node_id w = pt_node_id p \<and> ws_active w)
         (db_workspaces db)"

definition active_agent :: "relay_db \<Rightarrow> uuid \<Rightarrow> bool" where
  "active_agent db i \<longleftrightarrow> list_ex (\<lambda>a. ag_id a = i \<and> ag_active a) (db_agents db)"

definition acceptance_receipt_from_participant ::
  "participant_row \<Rightarrow> acceptance_input \<Rightarrow> relay_error + acceptance_receipt" where
  "acceptance_receipt_from_participant p a =
     (case pt_accepted_at p of
        None \<Rightarrow> Inl (Relay_err Internal)
      | Some t \<Rightarrow> Inr \<lparr>ar_mission_id = pt_mission_id p, ar_participant_agent_id = pt_agent_id p,
          ar_idempotency_key = pa_idempotency_key a, ar_contract = pa_contract a,
          ar_local_policy_grant = pa_local_policy_grant a, ar_accepted_at = to_iso_string t\<rparr>)"

definition acceptance_result_of ::
  "host_lib \<Rightarrow> participant_row \<Rightarrow> acceptance_input \<Rightarrow> bool \<Rightarrow> relay_error + acceptance_result" where
  "acceptance_result_of L p a replayed =
     (case acceptance_receipt_from_participant p a of
        Inl e \<Rightarrow> Inl e
      | Inr receipt \<Rightarrow>
          let result = \<lparr>ax_receipt = receipt, ax_replayed = replayed\<rparr> in
          if acceptance_result_ok L result then Inr result else Inl Relay_zod)"

definition replay_acceptance ::
  "host_lib \<Rightarrow> participant_row \<Rightarrow> acceptance_input \<Rightarrow> relay_error + acceptance_result" where
  "replay_acceptance L p acceptance =
     (case acceptance_input_from_participant L p of
        Inl e \<Rightarrow> Inl e
      | Inr stored \<Rightarrow>
          if pt_acceptance_key p \<noteq> Some (pa_idempotency_key acceptance) \<or> stored \<noteq> acceptance
          then Inl (Relay_err Duplicate_idempotency_key)
          else acceptance_result_of L p stored True)"

text \<open>The checks of a first acceptance, down to the time at which it is accepted.\<close>

definition authorize_acceptance ::
  "host_lib \<Rightarrow> int option \<Rightarrow> relay_db \<Rightarrow> mission_row \<Rightarrow> uuid \<Rightarrow> acceptance_input \<Rightarrow> relay_error + int" where
  "authorize_acceptance L clock db m agent_id acceptance =
     (let config = mr_coordinator_config m; manifest = mc_manifest (cfg_mission_context config) in
      if \<not> config_ok L config then Inl Relay_zod
      else (case assert_mission_trust_boundary db (mr_created_by_agent_id m # config_participant_ids config) of
              Inl e \<Rightarrow> Inl e
            | Inr _ \<Rightarrow>
               (case read_database_clock clock of
                  Inl e \<Rightarrow> Inl e
                | Inr now \<Rightarrow>
                    if now \<ge> mr_expires_at m then Inl (Relay_err Invalid_transition_code)
                    else (case find (\<lambda>p. p_agent_id p = agent_id) (mf_participants manifest) of
                            None \<Rightarrow> Inl (Relay_err Internal)
                          | Some mp \<Rightarrow>
                              if pa_contract acceptance \<noteq> mf_shared_contract manifest
                              then Inl (Relay_err Invalid_params)
                              else if pg_profile_name (pa_local_policy_grant acceptance)
                                \<noteq> p_requested_local_policy_profile mp
                              then Inl (Relay_err Invalid_params)
                              else if list_ex (\<lambda>p. pt_acceptance_key p = Some (pa_idempotency_key acceptance))
                                (participants_of db (mr_id m))
                              then Inl (Relay_err Duplicate_idempotency_key)
                              else Inr now))))"

definition record_acceptance :: "acceptance_input \<Rightarrow> int \<Rightarrow> participant_row \<Rightarrow> participant_row" where
  "record_acceptance a now p = p\<lparr>pt_status := Accepted, pt_accepted_at := Some now,
     pt_acceptance_key := Some (pa_idempotency_key a), pt_acceptance_receipt := Some a\<rparr>"

definition update_participants ::
  "(participant_row \<Rightarrow> bool) \<Rightarrow> (participant_row \<Rightarrow> participant_row) \<Rightarrow> relay_db \<Rightarrow> relay_db" where
  "update_participants P f db =
     db\<lparr>db_participants := map (\<lambda>p. if P p then f p else p) (db_participants db)\<rparr>"

text \<open>When the last receipt is in, the Mission starts.\<close>

definition start_when_all_accepted ::
  "host_lib \<Rightarrow> (nat \<Rightarrow> uuid) \<Rightarrow> int option \<Rightarrow> int \<Rightarrow> int \<Rightarrow> mission_row \<Rightarrow> uuid \<Rightarrow> relay_db \<Rightarrow> relay_error + relay_db" where
  "start_when_all_accepted L fresh clock tx_now now m agent_id db =
     (let manifest = mc_manifest (cfg_mission_context (mr_coordinator_config m));
          participants = participants_of db (mr_id m);
          aggregate = \<lparr>ai_idempotency_key = ''mission:'' @ mr_id m @ '':participants-accepted'',
            ai_body = Participants_accepted (map p_agent_id (mf_participants manifest))
              (mf_shared_contract manifest)\<rparr> in
      if \<not> (length participants = length (mf_participants manifest) \<and> list_all is_accepted participants)
      then Inr db
      else if length (filter (\<lambda>p. active_binding db p \<and> active_agent db (pt_agent_id p)) participants)
        \<noteq> length (mf_participants manifest)
      then Inl (Relay_err Invalid_transition_code)
      else if \<not> append_input_ok L aggregate then Inl Relay_zod
      else (case append_mission_event_in_transaction L fresh clock tx_now db m
              \<lparr>ap_actor_agent_id = agent_id, ap_input = aggregate, ap_allow_derived_acceptance = True,
               ap_source_authorization = None, ap_recorded_at = Some now\<rparr> of
              Inl e \<Rightarrow> Inl e
            | Inr (result, db) \<Rightarrow> Inr db))"

definition accept_mission_participant ::
  "host_lib \<Rightarrow> (nat \<Rightarrow> uuid) \<Rightarrow> int option \<Rightarrow> int \<Rightarrow> relay_db \<Rightarrow> uuid \<Rightarrow> uuid \<Rightarrow> acceptance_input
    \<Rightarrow> node_auth option \<Rightarrow> relay_error + acceptance_result \<times> relay_db" where
  "accept_mission_participant L fresh clock tx_now db mission_id agent_id acceptance node_auth =
     (if \<not> acceptance_input_ok L acceptance then Inl Relay_zod
      else if (case node_auth of None \<Rightarrow> False | Some auth \<Rightarrow> na_agent_id auth \<noteq> agent_id)
      then Inl (Relay_err Not_authorized_transition)
      else (case (case node_auth of None \<Rightarrow> Inr () | Some auth \<Rightarrow> assert_active_node_credential db auth) of
              Inl e \<Rightarrow> Inl e
            | Inr _ \<Rightarrow>
               (case find_mission db mission_id of
                  None \<Rightarrow> Inl (Relay_err Invalid_params)
                | Some m \<Rightarrow>
                   (case find (\<lambda>p. pt_agent_id p = agent_id \<and> or_absent (map_option na_node_id node_auth) (Some (pt_node_id p))
                             \<and> active_binding db p) (participants_of db mission_id) of
                      None \<Rightarrow> Inl (Relay_err Not_authorized_transition)
                    | Some p \<Rightarrow>
                        if pt_status p = Accepted
                        then (case replay_acceptance L p acceptance of Inl e \<Rightarrow> Inl e | Inr r \<Rightarrow> Inr (r, db))
                        else (case authorize_acceptance L clock db m agent_id acceptance of
                                Inl e \<Rightarrow> Inl e
                              | Inr now \<Rightarrow>
                                 (let db = write_audit (Some agent_id) ''mission.participant.accept'' mission_id
                                        (update_participants (\<lambda>p. pt_mission_id p = mission_id
                                            \<and> pt_agent_id p = agent_id \<and> pt_status p = Pending)
                                          (record_acceptance acceptance now) db) in
                                  case start_when_all_accepted L fresh clock tx_now now m agent_id db of
                                    Inl e \<Rightarrow> Inl e
                                  | Inr db \<Rightarrow>
                                     (case acceptance_result_of L (record_acceptance acceptance now p) acceptance False of
                                        Inl e \<Rightarrow> Inl e
                                      | Inr r \<Rightarrow> Inr (r, db))))))))"

section \<open>Creating a Mission\<close>

record mission_binding =
  mb_agent_id :: uuid
  mb_node_id :: uuid
  mb_workspace_binding_id :: uuid

text \<open>The join of active workspaces and Nodes for one participant has to be a single row.\<close>

definition resolve_active_participant_binding ::
  "relay_db \<Rightarrow> participant \<Rightarrow> relay_error + mission_binding" where
  "resolve_active_participant_binding db p =
     (case concat (map (\<lambda>w. map (\<lambda>n. \<lparr>mb_agent_id = p_agent_id p, mb_node_id = no_id n,
                mb_workspace_binding_id = ws_id w\<rparr>)
              (filter (\<lambda>n. no_id n = ws_node_id w \<and> no_agent_id n = p_agent_id p \<and> no_active n) (db_nodes db)))
            (filter (\<lambda>w. ws_active w \<and> ws_alias w = p_workspace_alias p
                \<and> ws_repository_url w = p_repository_url p) (db_workspaces db))) of
        [b] \<Rightarrow> Inr b
      | _ \<Rightarrow> Inl (Relay_err Invalid_params))"

definition load_participant_bindings ::
  "relay_db \<Rightarrow> uuid \<Rightarrow> uuid list \<Rightarrow> relay_error + mission_binding list" where
  "load_participant_bindings db mission_id ids =
     traverse (\<lambda>i. case find (\<lambda>p. pt_agent_id p = i) (participants_of db mission_id) of
         None \<Rightarrow> Inl (Relay_err Internal)
       | Some p \<Rightarrow> Inr \<lparr>mb_agent_id = pt_agent_id p, mb_node_id = pt_node_id p,
           mb_workspace_binding_id = pt_workspace_binding_id p\<rparr>) ids"

record ledger_creation =
  lc_mission_id :: uuid
  lc_state :: coordinator_state
  lc_participant_bindings :: "mission_binding list"
  lc_replayed :: bool

definition new_participant_row :: "uuid \<Rightarrow> participant \<Rightarrow> mission_binding \<Rightarrow> participant_row" where
  "new_participant_row mission_id p b =
     \<lparr>pt_mission_id = mission_id, pt_agent_id = p_agent_id p, pt_node_id = mb_node_id b,
      pt_workspace_binding_id = mb_workspace_binding_id b, pt_role = p_role p, pt_status = Pending,
      pt_accepted_at = None, pt_acceptance_key = None, pt_acceptance_receipt = None\<rparr>"

definition new_mission_row ::
  "uuid \<Rightarrow> uuid \<Rightarrow> coordinator_config \<Rightarrow> coordinator_state \<Rightarrow> int \<Rightarrow> int \<Rightarrow> mission_row" where
  "new_mission_row mission_id creator config s expires_at tx_now =
     \<lparr>mr_id = mission_id, mr_created_by_agent_id = creator, mr_coordinator_config = config, mr_state = s,
      mr_status = cs_status s, mr_last_event_sequence = cs_sequence_no s,
      mr_contract_version = cs_contract_version s, mr_expires_at = expires_at,
      mr_created_at = tx_now\<rparr>"

definition replay_creation ::
  "host_lib \<Rightarrow> relay_db \<Rightarrow> mission_row \<Rightarrow> uuid \<Rightarrow> coordinator_config \<Rightarrow> relay_error + ledger_creation" where
  "replay_creation L db existing creator config =
     (let existing_config = mr_coordinator_config existing in
      if \<not> config_ok L existing_config then Inl Relay_zod
      else if mr_created_by_agent_id existing \<noteq> creator \<or> \<not> same_config existing_config config
      then Inl (Relay_err Duplicate_idempotency_key)
      else (case mission_state_from_row L existing of
              Inl e \<Rightarrow> Inl e
            | Inr s \<Rightarrow>
               (case load_participant_bindings db (mr_id existing) (config_participant_ids existing_config) of
                  Inl e \<Rightarrow> Inl e
                | Inr bindings \<Rightarrow> Inr \<lparr>lc_mission_id = mr_id existing, lc_state = s,
                    lc_participant_bindings = bindings, lc_replayed = True\<rparr>)))"

text \<open>The insertion of the participants; the unique index on Mission and Node rejects two participants on one
  Node.\<close>

definition insert_mission ::
  "mission_row \<Rightarrow> participant_row list \<Rightarrow> relay_db \<Rightarrow> relay_error + relay_db" where
  "insert_mission m ps db =
     (if list_ex (\<lambda>x. mr_id x = mr_id m) (db_missions db) \<or> \<not> distinct (map pt_node_id ps)
         \<or> \<not> distinct (map pt_agent_id ps)
      then Inl Unique_violation
      else Inr (db\<lparr>db_missions := db_missions db @ [m], db_participants := db_participants db @ ps\<rparr>))"

definition create_mission_ledger ::
  "host_lib \<Rightarrow> int option \<Rightarrow> int \<Rightarrow> relay_db \<Rightarrow> uuid \<Rightarrow> coordinator_config
    \<Rightarrow> relay_error + ledger_creation \<times> relay_db" where
  "create_mission_ledger L clock tx_now db creator config =
     (let ctx = cfg_mission_context config; manifest = mc_manifest ctx; mission_id = mf_mission_id manifest;
          agents = remdups (map p_agent_id (mf_participants manifest) @ [creator]) in
      if \<not> config_ok L config then Inl Relay_zod
      else if mc_created_by ctx \<noteq> \<lparr>principal_id = creator, actor_ref_kind = A_agent\<rparr>
      then Inl (Relay_err Not_authorized_transition)
      else if creator \<notin> set (map p_agent_id (mf_participants manifest))
      then Inl (Relay_err Not_authorized_transition)
      else (case find_mission db mission_id of
              Some existing \<Rightarrow>
                (case replay_creation L db existing creator config of
                   Inl e \<Rightarrow> Inl e | Inr r \<Rightarrow> Inr (r, db))
            | None \<Rightarrow>
               (case traverse (resolve_active_participant_binding db) (mf_participants manifest) of
                  Inl e \<Rightarrow> Inl e
                | Inr bindings \<Rightarrow>
                    if \<not> list_all (active_agent db) agents then Inl (Relay_err Invalid_params)
                    else (case assert_mission_trust_boundary db (creator # map p_agent_id (mf_participants manifest)) of
                            Inl e \<Rightarrow> Inl e
                          | Inr _ \<Rightarrow>
                             (case read_database_clock clock of
                                Inl e \<Rightarrow> Inl e
                              | Inr now \<Rightarrow>
                                 (case date_parse L (mf_expires_at manifest) of
                                    None \<Rightarrow> Inl (Relay_err Internal)
                                  | Some expires_at \<Rightarrow>
                                      if expires_at \<le> now then Inl (Relay_err Invalid_transition_code)
                                      else (case create_coordinator_state L config of
                                              Inl e \<Rightarrow> Inl (Coordinator_failed e)
                                            | Inr s \<Rightarrow>
                                               (case insert_mission (new_mission_row mission_id creator config s expires_at tx_now)
                                                  (map2 (new_participant_row mission_id) (mf_participants manifest) bindings) db of
                                                  Inl e \<Rightarrow> Inl e
                                                | Inr db \<Rightarrow>
                                                    Inr (\<lparr>lc_mission_id = mission_id, lc_state = s,
                                                        lc_participant_bindings = bindings, lc_replayed = False\<rparr>,
                                                      write_audit (Some creator) ''mission.create'' mission_id db)))))))))"

end
