(* ===== verification/Owed_Work.thy ===== *)
theory Owed_Work
  imports Mission_Ledger Coordinator_Laws "HOL-Library.Multiset"
begin

text \<open>
  What a Mission's state owes: the turns, acknowledgements and verifications that have to be out as
  deliveries.  One accepted event takes away what it settles and adds what the ledger derives from it;
  nothing is lost and nothing is asked for twice.
\<close>

section \<open>The work a state owes\<close>

definition turn_target :: "coordinator_state \<Rightarrow> uuid \<Rightarrow> delivery_target" where
  "turn_target s p = \<lparr>tg_agent_id = p, tg_kind = K_turn, tg_contract_version = cs_contract_version s,
     tg_verification_round = None\<rparr>"

definition acknowledgement_target :: "contract_revision \<Rightarrow> uuid \<Rightarrow> delivery_target" where
  "acknowledgement_target r p = \<lparr>tg_agent_id = p, tg_kind = K_contract_acknowledgement,
     tg_contract_version = r_version r, tg_verification_round = None\<rparr>"

definition verification_target :: "coordinator_state \<Rightarrow> uuid \<Rightarrow> delivery_target" where
  "verification_target s p = \<lparr>tg_agent_id = p, tg_kind = K_verification,
     tg_contract_version = cs_contract_version s, tg_verification_round = Some (cs_verification_round s)\<rparr>"

lemmas target_defs = turn_target_def acknowledgement_target_def verification_target_def

definition owed_work :: "coordinator_state \<Rightarrow> delivery_target list" where
  "owed_work s = (case cs_status s of
      M_active \<Rightarrow>
        (case cs_pending_revision s of
           Some r \<Rightarrow> map (acknowledgement_target r)
             (filter (\<lambda>p. p \<notin> set (r_acknowledged_by_agent_ids r)) (mission_participant_ids s))
         | None \<Rightarrow> (case cs_current_participant s of None \<Rightarrow> [] | Some p \<Rightarrow> [turn_target s p]))
    | M_verifying \<Rightarrow> map (verification_target s)
        (filter (\<lambda>p. \<not> passed_by s (cs_verification_records s) p) (mission_participant_ids s))
    | _ \<Rightarrow> [])"

text \<open>The work an event reports on, and what it settles at the level of targets.\<close>

fun reported_work :: "event_body \<Rightarrow> delivery_target option" where
  "reported_work (Turn_completed p d v disposition msg revision) =
     Some \<lparr>tg_agent_id = p, tg_kind = K_turn, tg_contract_version = v, tg_verification_round = None\<rparr>"
| "reported_work (Contract_acknowledged p d r v artifact) =
     Some \<lparr>tg_agent_id = p, tg_kind = K_contract_acknowledgement, tg_contract_version = v,
       tg_verification_round = None\<rparr>"
| "reported_work (Verification_recorded p d v round evidence) =
     Some \<lparr>tg_agent_id = p, tg_kind = K_verification, tg_contract_version = v,
       tg_verification_round = Some round\<rparr>"
| "reported_work _ = None"

definition settles :: "coordinator_state \<Rightarrow> coordinator_event \<Rightarrow> delivery_target \<Rightarrow> bool" where
  "settles next e x \<longleftrightarrow> reported_work (ev_body e) \<noteq> None \<and> should_settle_source_delivery next e
     \<and> (if event_kind (ev_body e) = Verification_recorded_kind
            \<and> (cs_status next = M_active \<or> cs_status next = M_failed)
        then tg_kind x = K_verification \<and> tg_contract_version x = body_version (ev_body e)
          \<and> tg_verification_round x = Some (body_round (ev_body e))
        else reported_work (ev_body e) = Some x)"

lemma acknowledged_version:
  assumes "reduce_fresh_event L s e = Inr t" and "ev_body e = Contract_acknowledged p d rid v a"
    and "cs_pending_revision s = Some r"
  shows "v = r_version r"
  using assms
  by (auto simp: reduce_fresh_event_Inr apply_event_def apply_contract_acknowledged_def split: if_splits)

lemma turn_version:
  assumes "reduce_fresh_event L s e = Inr t" and "ev_body e = Turn_completed p d v disposition msg revision"
  shows "turn_scheduled s p" and "v = cs_contract_version s"
  using assms
  by (auto simp: reduce_fresh_event_Inr apply_event_def apply_turn_completed_def turn_scheduled_def
      split: if_splits)

text \<open>What the states owe, by phase.\<close>

lemma owed_scheduled: "turn_scheduled s p \<Longrightarrow> owed_work s = [turn_target s p]"
  by (simp add: turn_scheduled_def owed_work_def)

lemma owed_verifying:
  "cs_status s = M_verifying \<Longrightarrow> owed_work s = map (verification_target s)
     (filter (\<lambda>p. \<not> passed_by s (cs_verification_records s) p) (mission_participant_ids s))"
  by (simp add: owed_work_def)

lemma owed_pending:
  "cs_status s = M_active \<Longrightarrow> cs_pending_revision s = Some r \<Longrightarrow> owed_work s = map (acknowledgement_target r)
     (filter (\<lambda>p. p \<notin> set (r_acknowledged_by_agent_ids r)) (mission_participant_ids s))"
  by (simp add: owed_work_def)

lemma owed_idle: "cs_status s \<noteq> M_active \<Longrightarrow> cs_status s \<noteq> M_verifying \<Longrightarrow> owed_work s = []"
  by (cases "cs_status s") (simp_all add: owed_work_def)

lemma target_inject [simp]:
  "turn_target s p = turn_target s q \<longleftrightarrow> p = q"
  "acknowledgement_target r p = acknowledgement_target r q \<longleftrightarrow> p = q"
  "verification_target s p = verification_target s q \<longleftrightarrow> p = q"
  by (simp_all add: target_defs)

lemma owed_distinct:
  assumes "setup_inv s"
  shows "distinct (map tg_agent_id (owed_work s))"
proof -
  have "distinct (mission_participant_ids s)" using assms by (auto simp: setup_inv_def)
  then show ?thesis
    by (auto simp: owed_work_def target_defs comp_def distinct_map inj_on_def split: mission_status.split option.split)
qed

lemma owed_participants: "setup_inv s \<Longrightarrow> phase_inv s \<Longrightarrow> x \<in> set (owed_work s)
    \<Longrightarrow> tg_agent_id x \<in> set (mission_participant_ids s)"
  by (auto simp: owed_work_def target_defs phase_inv_def split: mission_status.splits option.splits)

section \<open>One event\<close>

text \<open>The derived work, by kind of event.\<close>

lemma derive_proposal:
  assumes "proposes (ev_body e)" and "cs_pending_revision t = Some r"
  shows "derive_delivery_targets s t e = Inr (map (acknowledgement_target r) (mission_participant_ids t))"
  using assms by (simp add: derive_delivery_targets_def acknowledgement_target_def)

lemma derive_verification:
  assumes "\<not> proposes (ev_body e)" and "cs_status s \<noteq> M_verifying" and "cs_status t = M_verifying"
  shows "derive_delivery_targets s t e = Inr (map (verification_target t) (mission_participant_ids t))"
  using assms by (simp add: derive_delivery_targets_def verification_target_def)

lemma derive_turn:
  assumes "\<not> proposes (ev_body e)" and "cs_status t = M_active" and "cs_current_participant t = Some p"
  shows "derive_delivery_targets s t e = Inr [turn_target t p]"
  using assms by (simp add: derive_delivery_targets_def turn_target_def)

lemma derive_nothing:
  assumes "\<not> proposes (ev_body e) \<or> cs_pending_revision t = None \<and> cs_status t = M_failed"
    and "cs_current_participant t = None \<or> cs_status t \<noteq> M_active"
    and "cs_status s = M_verifying \<or> cs_status t \<noteq> M_verifying"
  shows "derive_delivery_targets s t e = Inr []"
  using assms by (auto simp: derive_delivery_targets_def split: option.split)

lemma stopped_owes_nothing [simp]:
  "owed_work (logged e (stopped M_failed v)) = []" "owed_work (logged e (stopped M_expired v)) = []"
  "derive_delivery_targets s (logged e (stopped M_failed v)) e = Inr []"
  by (simp_all add: owed_idle derive_delivery_targets_def)

lemma after_turn_cases: "after_turn v = v \<or> after_turn v = stopped M_failed v"
  by (simp add: after_turn_def)

lemma disposition_kinds [simp]:
  "is_reply d \<Longrightarrow> \<not> is_proposal d" "is_ready d \<Longrightarrow> \<not> is_proposal d"
  by (cases d; simp)+

definition owed_after :: "coordinator_state \<Rightarrow> coordinator_state \<Rightarrow> coordinator_event \<Rightarrow> bool" where
  "owed_after s t e \<longleftrightarrow> (\<exists>ts. derive_delivery_targets s t e = Inr ts
     \<and> mset (owed_work t) = mset (filter (\<lambda>x. \<not> settles t e x) (owed_work s)) + mset ts)"

lemma owed_after_turn:
  assumes step: "reduce_fresh_event L s e = Inr t"
    and turn: "ev_body e = Turn_completed p d v disposition msg revision"
    and effect: "apply_turn_completed s mid p v disposition msg revision = Inr u" "t = logged e u"
    and inv: "setup_inv s"
  shows "owed_after s t e"
proof -
  have sched: "turn_scheduled s p" "v = cs_contract_version s" using turn_version [OF step turn] .
  have settled: "settles t e x \<longleftrightarrow> x = turn_target s p" for x
    using turn sched(2) by (auto simp: settles_def should_settle_source_delivery_def turn_target_def)
  have none: "filter (\<lambda>x. \<not> settles t e x) (owed_work s) = []"
    by (simp add: owed_scheduled [OF sched(1)] settled)
  have active: "cs_status s = M_active" "cs_pending_revision s = None"
    using sched(1) by (simp_all add: turn_scheduled_def)
  have kept: "\<exists>ts. derive_delivery_targets s t e = Inr ts \<and> owed_work t = ts"
    if "u = after_turn w"
      and "derive_delivery_targets s (logged e w) e = Inr (owed_work (logged e w))" for w
    using that after_turn_cases [of w] effect(2) by auto
  from effect(1) have "\<exists>ts. derive_delivery_targets s t e = Inr ts \<and> owed_work t = ts"
  proof (cases rule: turn_effect_cases)
    case (reply m other)
    with turn active show ?thesis by (intro kept [OF reply(6)]) (simp add: derive_turn owed_work_def)
  next
    case (propose r)
    with turn active show ?thesis
      by (intro kept [OF propose(5)]) (simp add: derive_proposal owed_work_def proposal_fits_def mission_participant_ids_def)
  next
    case (ready other)
    with turn active show ?thesis by (intro kept [OF ready(5)]) (simp add: derive_turn owed_work_def)
  next
    case verify
    have "\<not> passed_by t [] q" if "q \<in> set (mission_participant_ids t)" for q
      using commands_of_participant(3) [of s q] inv that verify effect(2)
      by (cases "commands_of s q") (auto simp: passed_by_def commands_of_def mission_participant_ids_def)
    with verify effect(2) turn active show ?thesis by (simp add: derive_verification owed_verifying)
  qed
  then show ?thesis by (auto simp: owed_after_def none)
qed

lemma acknowledgement_target_acknowledge [simp]:
  "acknowledgement_target (acknowledge q r) = acknowledgement_target r"
  by (simp add: acknowledgement_target_def acknowledge_def fun_eq_iff)

lemma settles_acknowledgement:
  assumes "ev_body e = Contract_acknowledged p d rid v a" and "v = r_version r"
  shows "settles t e x \<longleftrightarrow> x = acknowledgement_target r p"
  using assms by (auto simp: settles_def should_settle_source_delivery_def acknowledgement_target_def)

lemma owed_after_acknowledgement:
  assumes step: "reduce_fresh_event L s e = Inr t"
    and ack: "ev_body e = Contract_acknowledged p d rid v a"
    and inv: "setup_inv s" "contract_inv s"
  shows "owed_after s t e"
  using step
proof (cases rule: fresh_event_cases)
  case (ack p d rid v a r)
  note sett = settles_acknowledgement [OF ack(1) acknowledged_version [OF step ack(1,2)]]
  have "owed_work t = filter (\<lambda>x. \<not> settles t e x) (owed_work s)"
    using ack by (simp add: owed_pending sett filter_map comp_def mission_participant_ids_def)
      (auto simp: acknowledge_def intro!: arg_cong [of _ _ "map (acknowledgement_target r)"] filter_cong)
  moreover have "derive_delivery_targets s t e = Inr []" using ack by (intro derive_nothing) auto
  ultimately show ?thesis by (simp add: owed_after_def)
next
  case (agree p d rid v a r other)
  note sett = settles_acknowledgement [OF agree(1) acknowledged_version [OF step agree(1,2)]]
  have "filter (\<lambda>x. \<not> settles t e x) (owed_work s) = []"
    using agree(2,3,7) by (auto simp: owed_pending sett filter_empty_conv same_string_set_iff)
  moreover have "derive_delivery_targets s t e = Inr (owed_work t)"
    using agree by (simp add: derive_turn owed_work_def)
  ultimately show ?thesis by (simp add: owed_after_def)
qed (use ack in auto)

text \<open>A verification result: the record of one participant says nothing about the other.\<close>

lemma passed_by_frame:
  assumes "cs_required_verification_commands t = cs_required_verification_commands s"
    and "cs_contract_version t = cs_contract_version s"
    and "cs_verification_round t = cs_verification_round s"
  shows "passed_by t = passed_by s"
  using assms by (simp add: passed_by_def commands_of_def fun_eq_iff)

lemma verification_target_frame:
  assumes "cs_contract_version t = cs_contract_version s"
    and "cs_verification_round t = cs_verification_round s"
  shows "verification_target t = verification_target s"
  using assms by (simp add: verification_target_def fun_eq_iff)

lemma passed_by_other:
  "q \<noteq> p \<Longrightarrow> passed_by s (rs @ [new_record s i p evidence]) q \<longleftrightarrow> passed_by s rs q"
  by (auto simp: passed_by_def new_record_def)

lemma fresh_not_passed:
  assumes "fresh_result s p required evidence" and "setup_inv s"
  shows "\<not> passed_by s (cs_verification_records s) p"
  using assms fresh_participant [OF assms] by (auto simp: fresh_result_def passed_by_def)

lemma failed_not_passed:
  assumes "fresh_result s p required evidence" and "setup_inv s" and "e_outcome evidence = Failed"
  shows "\<not> passed_by s (cs_verification_records s @ [new_record s i p evidence]) p"
  using assms fresh_participant [OF assms(1,2)] by (auto simp: fresh_result_def passed_by_def new_record_def)

lemma settle_while_verifying:
  assumes "ev_body e = Verification_recorded p d v round evidence" and "cs_status t = M_verifying"
    and "v = cs_contract_version t" and "round = cs_verification_round t"
    and "e_outcome evidence = Failed \<Longrightarrow> \<not> passed_by t (cs_verification_records t) p"
  shows "settles t e x \<longleftrightarrow> passed_by t (cs_verification_records t) p \<and> x = verification_target t p"
  using assms
  by (auto simp: settles_def should_settle_source_delivery_def passed_by_def commands_of_def
      verification_target_def list_all_iff list_ex_iff split: option.splits)

lemma settle_round:
  assumes "ev_body e = Verification_recorded p d v round evidence"
    and "cs_status t = M_active \<or> cs_status t = M_failed"
    and "v = cs_contract_version s" and "round = cs_verification_round s"
  shows "settles t e (verification_target s q)"
  using assms by (auto simp: settles_def should_settle_source_delivery_def verification_target_def)

lemma owed_after_check:
  assumes check: "ev_body e = Verification_recorded p d v round evidence" "cs_status s = M_verifying"
      "cs_pending_revision s = None"
      "fresh_result s p required evidence"
      "conclude_verification s p required
        (cs_verification_records s @ [new_record s (ev_event_id e) p evidence]) = Inr u"
      "t = logged e u" "v = cs_contract_version s" "round = cs_verification_round s"
    and inv: "setup_inv s"
  shows "owed_after s t e"
proof -
  let ?records = "cs_verification_records s @ [new_record s (ev_event_id e) p evidence]"
  note new = fresh_participant [OF check(4) inv] and old = fresh_not_passed [OF check(4) inv]
  note owed = owed_verifying [OF check(2)]
  from check(5,2) show ?thesis
  proof (cases rule: conclude_verification_cases)
    case wait
    have fields: "cs_status t = M_verifying" "cs_verification_records t = ?records"
      "mission_participant_ids t = mission_participant_ids s"
      "v = cs_contract_version t" "round = cs_verification_round t"
      using check(2,6-8) wait(2) by (simp_all add: mission_participant_ids_def)
    have same: "passed_by t = passed_by s" "verification_target t = verification_target s"
      using check(6) wait(2) by (auto intro!: passed_by_frame verification_target_frame)
    have settled: "settles t e x \<longleftrightarrow> passed_by s ?records p \<and> x = verification_target s p" for x
      using settle_while_verifying [OF check(1) fields(1,4,5), of x] failed_not_passed [OF check(4) inv]
      by (simp add: fields(2) same)
    have eq: "\<not> passed_by s ?records q \<longleftrightarrow>
        \<not> passed_by s (cs_verification_records s) q \<and> \<not> (passed_by s ?records p \<and> q = p)" for q
      using old passed_by_other [of q p s "cs_verification_records s" "ev_event_id e" evidence]
      by (cases "q = p") auto
    have "filter (\<lambda>q. \<not> passed_by s ?records q) (mission_participant_ids s)
        = filter (\<lambda>q. \<not> (passed_by s ?records p \<and> q = p))
            (filter (\<lambda>q. \<not> passed_by s (cs_verification_records s) q) (mission_participant_ids s))"
      unfolding filter_filter by (rule filter_cong [OF refl eq])
    moreover have "owed_work t = map (verification_target s)
        (filter (\<lambda>q. \<not> passed_by s ?records q) (mission_participant_ids s))"
      by (simp only: owed_verifying [OF fields(1)] same fields(2,3))
    ultimately have "owed_work t = filter (\<lambda>x. \<not> settles t e x) (owed_work s)"
      by (simp add: owed settled filter_map comp_def)
    moreover have "derive_delivery_targets s t e = Inr []"
      using check(1,2,3,6) wait(2) by (intro derive_nothing) auto
    ultimately show ?thesis by (simp add: owed_after_def)
  next
    case retry
    have "filter (\<lambda>x. \<not> settles t e x) (owed_work s) = []"
      using settle_round [OF check(1) _ check(7,8), of t] retry check(6) by (auto simp: owed filter_empty_conv)
    moreover have "derive_delivery_targets s t e = Inr (owed_work t)"
      using check retry by (simp add: derive_turn owed_work_def)
    ultimately show ?thesis by (simp add: owed_after_def)
  next
    case give_up
    have "filter (\<lambda>x. \<not> settles t e x) (owed_work s) = []"
      using settle_round [OF check(1) _ check(7,8), of t] give_up check(6) by (auto simp: owed filter_empty_conv)
    moreover have "derive_delivery_targets s t e = Inr []" "owed_work t = []"
      using check give_up by (auto intro!: derive_nothing owed_idle)
    ultimately show ?thesis by (simp add: owed_after_def)
  next
    case pass
    have passed: "passed_by s (cs_verification_records s) q"
      if "q \<noteq> p" "q \<in> set (mission_participant_ids s)" for q
      using pass(1) that passed_by_other [OF that(1)] by (auto simp: all_passed_iff [OF inv])
    have "settles t e (verification_target s p)"
      using check pass(2) by (simp add: settles_def should_settle_source_delivery_def verification_target_def)
    moreover have "q = p" if "q \<in> set (mission_participant_ids s)"
      "\<not> passed_by s (cs_verification_records s) q" for q
      using passed that by blast
    ultimately have "filter (\<lambda>x. \<not> settles t e x) (owed_work s) = []"
      by (auto simp: owed filter_empty_conv)
    moreover have "derive_delivery_targets s t e = Inr []" "owed_work t = []"
      using check pass by (auto intro!: derive_nothing owed_idle)
    ultimately show ?thesis by (simp add: owed_after_def)
  qed
qed

lemma owed_after_step:
  assumes step: "reduce_fresh_event L s e = Inr t"
    and inv: "setup_inv s" "contract_inv s" "phase_inv s" and agent: "appendable (ev_body e)"
  shows "owed_after s t e"
  using step
proof (cases rule: fresh_event_cases)
  case (accept ids contract)
  then have "settles t e x \<longleftrightarrow> False" for x by (simp add: settles_def)
  moreover obtain p where "cs_current_participant t = Some p" "cs_status t = M_active"
    "cs_pending_revision t = None"
    using accept inv by (auto simp: setup_inv_def phase_inv_def)
  ultimately show ?thesis
    using accept by (simp add: owed_after_def derive_turn owed_work_def)
next
  case (turn p d v disposition msg revision u)
  show ?thesis by (rule owed_after_turn [OF step turn(1,3,4) inv(1)])
next
  case (ack p d rid v a r)
  show ?thesis by (rule owed_after_acknowledgement [OF step ack(1) inv(1,2)])
next
  case (agree p d rid v a r other)
  show ?thesis by (rule owed_after_acknowledgement [OF step agree(1) inv(1,2)])
next
  case (check p d v round evidence required u)
  show ?thesis by (rule owed_after_check [OF check(1-3,5-9) inv(1)])
next
  case (terminate k reason trigger)
  with agent show ?thesis by simp
qed

end
