(* ===== verification/Mission_Reconciliation.thy ===== *)
theory Mission_Reconciliation
  imports Mission_Ledger
begin

text \<open>
  \<^verbatim>\<open>relay/src/services/mission-reconciliation.ts\<close>: a Mission whose deadline has passed expires, one with a
  dead-lettered delivery that nothing settled fails; the terminal event is appended by the relay
  itself and all work that is still open is cancelled in the same transaction.
\<close>

datatype terminal_cause = Cause_deadline | Cause_dead_lettered uuid

definition open_status :: "delivery_status \<Rightarrow> bool" where
  "open_status s \<longleftrightarrow> s = D_stored \<or> s = D_leased \<or> s = D_executing"

definition terminal_cause :: "relay_db \<Rightarrow> uuid \<Rightarrow> int \<Rightarrow> int \<Rightarrow> terminal_cause option" where
  "terminal_cause db mission_id expires_at now =
     (if expires_at \<le> now then Some Cause_deadline
      else (case deliveries_where db (\<lambda>d. dr_mission_id d = mission_id \<and> dr_status d = D_dead_lettered
                \<and> dr_settled_by_event_id d = None) of
              [] \<Rightarrow> None | d # _ \<Rightarrow> Some (Cause_dead_lettered (dr_id d))))"

fun terminal_body :: "terminal_cause \<Rightarrow> event_body" where
  "terminal_body Cause_deadline = Mission_terminal Terminal_expired Deadline_exceeded None"
| "terminal_body (Cause_dead_lettered d) = Mission_terminal Terminal_failed Delivery_dead_lettered (Some d)"

fun terminal_key :: "terminal_cause \<Rightarrow> string" where
  "terminal_key Cause_deadline = ''relay:mission-terminal:deadline''"
| "terminal_key (Cause_dead_lettered d) = ''relay:mission-terminal:delivery:'' @ d"

fun cause_delivery :: "terminal_cause \<Rightarrow> uuid option" where
  "cause_delivery Cause_deadline = None"
| "cause_delivery (Cause_dead_lettered d) = Some d"

fun cause_cancellation :: "terminal_cause \<Rightarrow> cancellation_reason" where
  "cause_cancellation Cause_deadline = Mission_expired"
| "cause_cancellation (Cause_dead_lettered d) = Mission_failed"

definition cancel_terminal_row :: "uuid \<Rightarrow> int \<Rightarrow> cancellation_reason \<Rightarrow> delivery_row \<Rightarrow> delivery_row" where
  "cancel_terminal_row event_id now reason d =
     d\<lparr>dr_status := D_cancelled, dr_active_lease_id := None, dr_lease_expires_at := None,
       dr_settled_by_event_id := (case dr_settled_by_event_id d of None \<Rightarrow> Some event_id | Some e \<Rightarrow> Some e),
       dr_settled_at := (case dr_settled_at d of None \<Rightarrow> Some now | Some t \<Rightarrow> Some t),
       dr_cancelled_at := Some now, dr_cancellation_reason := Some reason, dr_updated_at := now\<rparr>"

text \<open>The receipt that the relay writes when it cancels a delivery.\<close>

definition cancel_receipt ::
  "uuid \<Rightarrow> string \<Rightarrow> cancellation_reason \<Rightarrow> int \<Rightarrow> delivery_row \<Rightarrow> receipt_row" where
  "cancel_receipt i key reason now d =
     \<lparr>rr_id = i, rr_from_node = False, rr_node_id = dr_node_id d, rr_mission_id = dr_mission_id d,
      rr_delivery_id = dr_id d, rr_operation = Node_operation Op_cancel, rr_idempotency_key = key,
      rr_credential_id = None, rr_attempt_count = dr_attempt_count d, rr_lease_id = dr_active_lease_id d,
      rr_fencing_token = (if dr_active_lease_id d = None then None else Some (dr_last_fencing_token d)),
      rr_lease_expires_at = dr_lease_expires_at d, rr_status_before = dr_status d,
      rr_status_after = D_cancelled, rr_cancellation_reason = Some reason, rr_input = In_relay,
      rr_output = Out_relay, rr_recorded_at = now\<rparr>"

text \<open>The loop over deliveries to cancel: a check of the row (whose cancelled form the source may parse),
  update, receipt, audit.\<close>

fun cancel_each ::
  "(nat \<Rightarrow> uuid) \<Rightarrow> (delivery_row \<Rightarrow> string) \<Rightarrow> (delivery_row \<Rightarrow> relay_error + unit)
    \<Rightarrow> (delivery_row \<Rightarrow> delivery_row) \<Rightarrow> cancellation_reason \<Rightarrow> int \<Rightarrow> uuid option \<Rightarrow> delivery_row list
    \<Rightarrow> relay_db \<Rightarrow> relay_error + relay_db" where
  "cancel_each fresh key check f reason now actor [] db = Inr db"
| "cancel_each fresh key check f reason now actor (d # ds) db =
     (case check d of
        Inl e \<Rightarrow> Inl e
      | Inr _ \<Rightarrow>
         (case insert_receipt (cancel_receipt (fresh 0) (key d) reason now d)
              (update_deliveries (\<lambda>x. dr_id x = dr_id d) f db) of
            Inl e \<Rightarrow> Inl e
          | Inr db \<Rightarrow>
              cancel_each (fresh \<circ> Suc) key check f reason now actor ds
                (write_audit actor ''delivery.cancel'' (dr_id d) db)))"

definition check_cancelled :: "host_lib \<Rightarrow> (delivery_row \<Rightarrow> delivery_row) \<Rightarrow> delivery_row \<Rightarrow> relay_error + unit" where
  "check_cancelled L f d = (if delivery_ok L (delivery_of_row (f d)) then Inr () else Inl Relay_zod)"

record reconciliation_result =
  rn_reconciled :: bool
  rn_status :: mission_status
  rn_event :: "coordinator_event option"
  rn_checked_at :: int

text \<open>The payload that is written out: the three fields of a terminal event, its only kind here.\<close>

fun terminal_event_payload :: "event_body \<Rightarrow> event_object" where
  "terminal_event_payload (Mission_terminal status reason trigger) =
     [(''terminal_status'', Text_field (terminal_kind_text status)), (''reason'', Text_field (terminal_reason_text reason)),
      (''triggering_delivery_id'', nullable_field Text_field trigger)]"
| "terminal_event_payload body = []"

definition terminate_mission ::
  "host_lib \<Rightarrow> (nat \<Rightarrow> uuid) \<Rightarrow> int \<Rightarrow> relay_db \<Rightarrow> mission_row \<Rightarrow> terminal_cause
    \<Rightarrow> relay_error + reconciliation_result \<times> relay_db" where
  "terminate_mission L fresh now db m cause =
     (if \<not> config_ok L (mr_coordinator_config m) then Inl Relay_zod
      else (case replay_rows L (mr_coordinator_config m) (events_of db (mr_id m)) of
        Inl e \<Rightarrow> Inl e
      | Inr current \<Rightarrow>
          if \<not> coordinator_state_ok L (mr_state m) then Inl Relay_zod
          else if cs_sequence_no current \<noteq> mr_last_event_sequence m \<or> \<not> same_state current (mr_state m)
          then Inl (Relay_err Internal)
          else
           (let event = \<lparr>ev_event_id = fresh 0, ev_idempotency_key = terminal_key cause,
                  ev_mission_id = mr_id m, ev_sequence_no = cs_sequence_no current + 1,
                  ev_created_at = to_iso_string now, ev_body = terminal_body cause\<rparr> in
            if \<not> coordinator_event_ok L event then Inl Relay_zod
            else (case reduce_coordinator_event L current event of
                    Inl e \<Rightarrow> Inl (Coordinator_failed e)
                  | Inr next \<Rightarrow>
                     (case insert_event \<lparr>er_id = ev_event_id event, er_mission_id = mr_id m,
                          er_sequence_no = ev_sequence_no event, er_actor_agent_id = None,
                          er_idempotency_key = ev_idempotency_key event,
                          er_source_delivery_id = cause_delivery cause,
                          er_causal_parent_event_id = map_option er_id (last_option (events_of db (mr_id m))),
                          er_type = body_type (ev_body event), er_payload = terminal_event_payload (ev_body event),
                          er_created_at = now\<rparr> db of
                        Inl e \<Rightarrow> Inl e
                      | Inr db \<Rightarrow>
                         (case cancel_each (fresh \<circ> Suc)
                            (\<lambda>d. ''relay:mission-terminal:'' @ mr_id m @ '':'' @ dr_id d)
                            (check_cancelled L (cancel_terminal_row (ev_event_id event) now (cause_cancellation cause)))
                            (cancel_terminal_row (ev_event_id event) now (cause_cancellation cause))
                            (cause_cancellation cause) now None
                            (deliveries_where db (\<lambda>d. dr_mission_id d = mr_id m
                               \<and> open_status (dr_status d) \<and> dr_settled_by_event_id d = None)) db of
                            Inl e \<Rightarrow> Inl e
                          | Inr db \<Rightarrow>
                              Inr (\<lparr>rn_reconciled = True, rn_status = cs_status next,
                                  rn_event = Some event, rn_checked_at = now\<rparr>,
                                write_audit None ''mission.terminal'' (ev_event_id event)
                                  (update_mission (mr_id m) (project_mission next) db))))))))"

definition reconcile_mission_in_transaction ::
  "host_lib \<Rightarrow> (nat \<Rightarrow> uuid) \<Rightarrow> int option \<Rightarrow> relay_db \<Rightarrow> uuid
    \<Rightarrow> relay_error + reconciliation_result \<times> relay_db" where
  "reconcile_mission_in_transaction L fresh clock db mission_id =
     (case find_mission db mission_id of
        None \<Rightarrow> Inl (Relay_err Internal)
      | Some m \<Rightarrow>
         (case read_database_clock clock of
            Inl e \<Rightarrow> Inl e
          | Inr now \<Rightarrow>
             (let unchanged = Inr (\<lparr>rn_reconciled = False, rn_status = mr_status m, rn_event = None,
                    rn_checked_at = now\<rparr>, db) in
              if mr_status m \<noteq> M_active \<and> mr_status m \<noteq> M_verifying then unchanged
              else (case terminal_cause db mission_id (mr_expires_at m) now of
                      None \<Rightarrow> unchanged
                    | Some cause \<Rightarrow> terminate_mission L fresh now db m cause))))"

text \<open>The Missions of a Node that have reached their deadline or hold an unsettled dead letter, each
  reconciled in a transaction of its own.\<close>

definition reconciliation_candidates :: "relay_db \<Rightarrow> uuid \<Rightarrow> int \<Rightarrow> uuid list" where
  "reconciliation_candidates db node_id now =
     map mr_id (filter (\<lambda>m. list_ex (\<lambda>p. pt_mission_id p = mr_id m \<and> pt_node_id p = node_id) (db_participants db)
       \<and> (mr_status m = M_active \<or> mr_status m = M_verifying)
       \<and> (mr_expires_at m \<le> now
          \<or> list_ex (\<lambda>d. dr_mission_id d = mr_id m \<and> dr_status d = D_dead_lettered
                \<and> dr_settled_by_event_id d = None) (db_deliveries db))) (db_missions db))"

fun reconcile_missions ::
  "host_lib \<Rightarrow> (nat \<Rightarrow> nat \<Rightarrow> uuid) \<Rightarrow> int option \<Rightarrow> uuid list \<Rightarrow> relay_db \<Rightarrow> relay_error option \<times> relay_db" where
  "reconcile_missions L fresh clock [] db = (None, db)"
| "reconcile_missions L fresh clock (i # is) db =
     (case reconcile_mission_in_transaction L (fresh 0) clock db i of
        Inl e \<Rightarrow> (Some e, db)
      | Inr (r, db) \<Rightarrow> reconcile_missions L (fresh \<circ> Suc) clock is db)"

end
