(* ===== verification/Delivery_Ledger.thy ===== *)
theory Delivery_Ledger
  imports Mission_Reconciliation
begin

text \<open>
  \<^verbatim>\<open>relay/src/services/delivery-ledger.ts\<close>: claiming, starting, renewing, completing and releasing a delivery
  under a lease.  Every operation first reconciles the Mission; when that ends the Mission, the operation
  is refused but the reconciliation stays.
\<close>

section \<open>Guards\<close>

abbreviation "lease_duration_ms \<equiv> (60000 :: int)"
abbreviation "max_retry_backoff_ms \<equiv> (60000 :: int)"

definition bounded_lease_expiry :: "int \<Rightarrow> int \<Rightarrow> relay_error + int" where
  "bounded_lease_expiry now mission_expires_at =
     (let expiry = min (now + lease_duration_ms) mission_expires_at in
      if expiry \<le> now then Inl (Relay_err Invalid_transition_code) else Inr expiry)"

definition retry_backoff_ms :: "int \<Rightarrow> int" where
  "retry_backoff_ms attempt_count = min max_retry_backoff_ms (1000 * 2 ^ nat (max 0 (attempt_count - 1)))"

record locked_delivery =
  lk_delivery :: delivery_row
  lk_mission :: mission_row
  lk_participant_status :: acceptance_status
  lk_workspace_active :: bool
  lk_now :: int
  lk_reconciled_status :: "mission_status option"

definition assert_runnable_context :: "locked_delivery \<Rightarrow> relay_error + unit" where
  "assert_runnable_context k =
     (if lk_participant_status k \<noteq> Accepted \<or> \<not> lk_workspace_active k
      then Inl (Relay_err Not_authorized_transition)
      else if mr_expires_at (lk_mission k) \<le> lk_now k then Inl (Relay_err Invalid_transition_code)
      else if mr_status (lk_mission k) \<noteq> M_active \<and> mr_status (lk_mission k) \<noteq> M_verifying
      then Inl (Relay_err Invalid_transition_code) else Inr ())"

definition assert_replayable_delivery :: "delivery_row \<Rightarrow> relay_error + unit" where
  "assert_replayable_delivery d =
     (if dr_status d = D_cancelled then Inl (Relay_err Not_authorized_transition) else Inr ())"

definition assert_active_lease_status :: "delivery_row \<Rightarrow> relay_error + unit" where
  "assert_active_lease_status d =
     (if dr_status d \<noteq> D_leased \<and> dr_status d \<noteq> D_executing
      then Inl (Relay_err Invalid_transition_code) else Inr ())"

definition assert_lease_authority ::
  "delivery_row \<Rightarrow> 'a lease_operation_input_scheme \<Rightarrow> int \<Rightarrow> relay_error + unit" where
  "assert_lease_authority d i now =
     (if dr_active_lease_id d \<noteq> Some (lo_lease_id i) \<or> dr_last_fencing_token d \<noteq> lo_fencing_token i
      then Inl (Relay_err State_changed)
      else (case dr_lease_expires_at d of
              None \<Rightarrow> Inl (Relay_err Invalid_transition_code)
            | Some t \<Rightarrow> if t \<le> now then Inl (Relay_err Invalid_transition_code) else Inr ()))"

definition assert_delivery_mission_trust :: "host_lib \<Rightarrow> relay_db \<Rightarrow> mission_row \<Rightarrow> relay_error + unit" where
  "assert_delivery_mission_trust L db m =
     (if \<not> config_ok L (mr_coordinator_config m) then Inl Relay_zod
      else assert_mission_trust_boundary db
             (mr_created_by_agent_id m # config_participant_ids (mr_coordinator_config m)))"

text \<open>The join of participants, agents, Nodes and workspaces of a Mission.\<close>

definition mission_routes ::
  "relay_db \<Rightarrow> uuid \<Rightarrow> (participant_row \<times> agent_row \<times> node_row \<times> workspace_row) list" where
  "mission_routes db mission_id =
     concat (map (\<lambda>p. concat (map (\<lambda>a. concat (map (\<lambda>n. map (\<lambda>w. (p, a, n, w))
         (filter (\<lambda>w. ws_id w = pt_workspace_binding_id p \<and> ws_node_id w = pt_node_id p) (db_workspaces db)))
         (filter (\<lambda>n. no_id n = pt_node_id p \<and> no_agent_id n = pt_agent_id p) (db_nodes db))))
         (filter (\<lambda>a. ag_id a = pt_agent_id p) (db_agents db))))
       (participants_of db mission_id))"

definition assert_mission_routing_authority :: "host_lib \<Rightarrow> relay_db \<Rightarrow> mission_row \<Rightarrow> relay_error + unit" where
  "assert_mission_routing_authority L db m =
     (let manifest = mc_manifest (cfg_mission_context (mr_coordinator_config m));
          expected = map (\<lambda>p. (p_agent_id p, p)) (mf_participants manifest);
          routes = mission_routes db (mr_id m) in
      if \<not> config_ok L (mr_coordinator_config m) then Inl Relay_zod
      else if length routes = length (remdups (map fst expected))
        \<and> list_all (\<lambda>(p, a, n, w). (case map_of (rev expected) (pt_agent_id p) of
              None \<Rightarrow> False
            | Some e \<Rightarrow> pt_status p = Accepted \<and> ag_active a \<and> no_active n \<and> ws_active w
                \<and> ws_node_id w = pt_node_id p \<and> ws_alias w = p_workspace_alias e
                \<and> ws_repository_url w = p_repository_url e)) routes
      then Inr () else Inl (Relay_err Not_authorized_transition))"

section \<open>Replay\<close>

definition load_replay ::
  "relay_db \<Rightarrow> uuid \<Rightarrow> uuid \<Rightarrow> delivery_operation \<Rightarrow> string \<Rightarrow> stored_input \<Rightarrow> relay_error + receipt_row option" where
  "load_replay db node_id delivery_id operation key i =
     (case find (\<lambda>r. rr_from_node r \<and> rr_node_id r = node_id \<and> rr_idempotency_key r = key) (db_receipts db) of
        None \<Rightarrow> Inr None
      | Some r \<Rightarrow>
          if rr_delivery_id r \<noteq> delivery_id \<or> rr_operation r \<noteq> Node_operation operation \<or> rr_input r \<noteq> i
          then Inl (Relay_err Duplicate_idempotency_key) else Inr (Some r))"

fun mark_replayed :: "claim_result \<Rightarrow> claim_result" where
  "mark_replayed (Claimed_result i r b) = Claimed_result i r True"
| "mark_replayed (Dead_lettered_result d r b) = Dead_lettered_result d r True"

definition replayed_claim :: "host_lib \<Rightarrow> stored_output \<Rightarrow> relay_error + claim_result" where
  "replayed_claim L out = (case out of
      Out_claim r \<Rightarrow> if claim_result_ok L (mark_replayed r) then Inr (mark_replayed r) else Inl Relay_zod
    | _ \<Rightarrow> Inl Relay_zod)"

definition replayed_operation ::
  "host_lib \<Rightarrow> delivery_operation \<Rightarrow> stored_output \<Rightarrow> relay_error + operation_result" where
  "replayed_operation L op out = (case out of
      Out_operation r \<Rightarrow> if result_of_ok L op (r\<lparr>ors_replayed := True\<rparr>) then Inr (r\<lparr>ors_replayed := True\<rparr>)
        else Inl Relay_zod
    | _ \<Rightarrow> Inl Relay_zod)"

definition replayed_completion :: "host_lib \<Rightarrow> stored_output \<Rightarrow> relay_error + complete_result" where
  "replayed_completion L out = (case out of
      Out_complete r \<Rightarrow> if complete_result_ok L (r\<lparr>ors_replayed := True\<rparr>) then Inr (r\<lparr>ors_replayed := True\<rparr>)
        else Inl Relay_zod
    | _ \<Rightarrow> Inl Relay_zod)"

section \<open>Receipts\<close>

text \<open>\<open>operationReceipt\<close>: what the relay records about an operation on the updated row.\<close>

definition operation_receipt_of ::
  "uuid \<Rightarrow> delivery_operation \<Rightarrow> string \<Rightarrow> uuid \<Rightarrow> delivery_row \<Rightarrow> delivery_status
    \<Rightarrow> lease_authority option \<Rightarrow> int option \<Rightarrow> claim_outcome option \<Rightarrow> release_details option \<Rightarrow> int
    \<Rightarrow> operation_receipt" where
  "operation_receipt_of i op key node_id d before lease expires outcome release now =
     \<lparr>or_receipt_id = i, or_operation = op, or_idempotency_key = key, or_node_id = node_id,
      or_delivery_id = dr_id d, or_attempt_count = dr_attempt_count d, or_lease = lease,
      or_lease_expires_at = map_option to_iso_string expires, or_status_before = before,
      or_status_after = dr_status d, or_logical_settlement = settlement_of_row d,
      or_claim_outcome = outcome, or_release = release,
      or_cancellation_reason = dr_cancellation_reason d, or_recorded_at = to_iso_string now\<rparr>"

definition persist_node_receipt ::
  "host_lib \<Rightarrow> node_auth \<Rightarrow> delivery_row \<Rightarrow> operation_receipt \<Rightarrow> stored_input \<Rightarrow> stored_output \<Rightarrow> relay_db
    \<Rightarrow> relay_error + relay_db" where
  "persist_node_receipt L auth d r i out db =
     (case (date_parse L (or_recorded_at r), map_option (date_parse L) (or_lease_expires_at r)) of
        (None, _) \<Rightarrow> Inl (Relay_err Internal)
      | (_, Some None) \<Rightarrow> Inl (Relay_err Internal)
      | (Some recorded, expires) \<Rightarrow> insert_receipt
          \<lparr>rr_id = or_receipt_id r, rr_from_node = True, rr_node_id = na_node_id auth,
           rr_mission_id = dr_mission_id d, rr_delivery_id = dr_id d,
           rr_operation = Node_operation (or_operation r), rr_idempotency_key = or_idempotency_key r,
           rr_credential_id = Some (na_credential_id auth), rr_attempt_count = or_attempt_count r,
           rr_lease_id = map_option la_lease_id (or_lease r),
           rr_fencing_token = map_option la_fencing_token (or_lease r),
           rr_lease_expires_at = (case expires of None \<Rightarrow> None | Some t \<Rightarrow> t),
           rr_status_before = or_status_before r, rr_status_after = or_status_after r,
           rr_cancellation_reason = or_cancellation_reason r, rr_input = i, rr_output = out,
           rr_recorded_at = recorded\<rparr> db)"

fun operation_name :: "delivery_operation \<Rightarrow> string" where
  "operation_name Op_claim = ''claim''"
| "operation_name Op_start = ''start''"
| "operation_name Op_renew = ''renew''"
| "operation_name Op_complete = ''complete''"
| "operation_name Op_release = ''release''"
| "operation_name Op_cancel = ''cancel''"

text \<open>\<open>persistNodeReceipt\<close> and \<open>auditNodeOperation\<close>, which always follow each other.\<close>

definition record_operation ::
  "host_lib \<Rightarrow> node_auth \<Rightarrow> delivery_row \<Rightarrow> operation_receipt \<Rightarrow> stored_input \<Rightarrow> stored_output \<Rightarrow> relay_db
    \<Rightarrow> relay_error + relay_db" where
  "record_operation L auth d r i out db =
     (case persist_node_receipt L auth d r i out db of
        Inl e \<Rightarrow> Inl e
      | Inr db \<Rightarrow> Inr (write_audit (Some (na_agent_id auth)) (''delivery.'' @ operation_name (or_operation r))
          (dr_id d) db))"

section \<open>Locking\<close>

definition find_delivery :: "relay_db \<Rightarrow> uuid \<Rightarrow> uuid \<Rightarrow> relay_error + delivery_row" where
  "find_delivery db node_id delivery_id =
     (case find (\<lambda>d. dr_node_id d = node_id \<and> dr_id d = delivery_id) (db_deliveries db) of
        None \<Rightarrow> Inl (Relay_err Delivery_not_found) | Some d \<Rightarrow> Inr d)"

definition lock_delivery_context ::
  "relay_db \<Rightarrow> node_auth \<Rightarrow> uuid \<Rightarrow> mission_row \<Rightarrow> int \<Rightarrow> mission_status option \<Rightarrow> relay_error + locked_delivery" where
  "lock_delivery_context db auth delivery_id m now reconciled =
     (case find_delivery db (na_node_id auth) delivery_id of
        Inl e \<Rightarrow> Inl e
      | Inr d \<Rightarrow>
         (case concat (map (\<lambda>p. map (\<lambda>w. (p, w)) (filter (\<lambda>w. ws_id w = pt_workspace_binding_id p) (db_workspaces db)))
                (filter (\<lambda>p. pt_node_id p = na_node_id auth \<and> pt_agent_id p = na_agent_id auth)
                  (participants_of db (mr_id m)))) of
            [] \<Rightarrow> Inl (Relay_err Delivery_not_found)
          | (p, w) # _ \<Rightarrow> Inr \<lparr>lk_delivery = d, lk_mission = m, lk_participant_status = pt_status p,
              lk_workspace_active = ws_active w, lk_now = now, lk_reconciled_status = reconciled\<rparr>))"

definition reconcile_and_lock_delivery_context ::
  "host_lib \<Rightarrow> (nat \<Rightarrow> uuid) \<Rightarrow> int option \<Rightarrow> relay_db \<Rightarrow> node_auth \<Rightarrow> uuid
    \<Rightarrow> relay_error + locked_delivery \<times> relay_db" where
  "reconcile_and_lock_delivery_context L fresh clock db auth delivery_id =
     (case find_delivery db (na_node_id auth) delivery_id of
        Inl e \<Rightarrow> Inl e
      | Inr d \<Rightarrow>
         (case reconcile_mission_in_transaction L fresh clock db (dr_mission_id d) of
            Inl e \<Rightarrow> Inl e
          | Inr (r, db) \<Rightarrow>
             (case find_mission db (dr_mission_id d) of
                None \<Rightarrow> Inl (Relay_err Internal)
              | Some m \<Rightarrow>
                 (case lock_delivery_context db auth delivery_id m (rn_checked_at r)
                    (if rn_reconciled r then Some (rn_status r) else None) of
                    Inl e \<Rightarrow> Inl e | Inr k \<Rightarrow> Inr (k, db)))))"

text \<open>The random ids of a transaction, split between its parts, its clock readings (a first, a later one, the one
  that an update statement takes itself) and the time at which it started.\<close>

record transaction_world =
  tw_fresh :: "nat \<Rightarrow> nat \<Rightarrow> uuid"
  tw_now :: "int option"
  tw_later :: "int option"
  tw_started :: int
  tw_at :: int

text \<open>\<open>runLockedDeliveryOperation\<close> with the transaction around it: a rejected operation changes nothing, unless
  the Mission was reconciled, which is committed.\<close>

definition run_locked_delivery_operation ::
  "host_lib \<Rightarrow> transaction_world \<Rightarrow> relay_db \<Rightarrow> node_auth \<Rightarrow> uuid
    \<Rightarrow> (relay_db \<Rightarrow> locked_delivery \<Rightarrow> relay_error + 'r \<times> relay_db) \<Rightarrow> (relay_error + 'r) \<times> relay_db" where
  "run_locked_delivery_operation L w db auth delivery_id operation =
     (case assert_active_node_credential db auth of
        Inl e \<Rightarrow> (Inl e, db)
      | Inr _ \<Rightarrow>
         (case reconcile_and_lock_delivery_context L (tw_fresh w 0) (tw_now w) db auth delivery_id of
            Inl e \<Rightarrow> (Inl e, db)
          | Inr (k, reconciled_db) \<Rightarrow>
             (case operation reconciled_db k of
                Inr (r, db) \<Rightarrow> (Inr r, db)
              | Inl e \<Rightarrow> (Inl e, if lk_reconciled_status k \<noteq> None then reconciled_db else db))))"

section \<open>Claim\<close>

definition set_delivery :: "delivery_row \<Rightarrow> relay_db \<Rightarrow> relay_db" where
  "set_delivery d = update_deliveries (\<lambda>x. dr_id x = dr_id d) (\<lambda>x. d)"

text \<open>Taking a lease respects the unique index on active leases.\<close>

definition take_lease :: "delivery_row \<Rightarrow> relay_db \<Rightarrow> relay_error + relay_db" where
  "take_lease d db =
     (if list_ex (\<lambda>x. dr_id x \<noteq> dr_id d \<and> dr_active_lease_id x = dr_active_lease_id d) (db_deliveries db)
      then Inl Unique_violation else Inr (set_delivery d db))"

definition close_lease :: "delivery_status \<Rightarrow> int \<Rightarrow> delivery_row \<Rightarrow> delivery_row" where
  "close_lease status now d =
     d\<lparr>dr_status := status, dr_active_lease_id := None, dr_lease_expires_at := None, dr_updated_at := now\<rparr>"

definition dead_letter_row :: "int \<Rightarrow> delivery_row \<Rightarrow> delivery_row" where
  "dead_letter_row now d = (close_lease D_dead_lettered now d)\<lparr>dr_dead_lettered_at := Some now\<rparr>"

definition retry_row :: "int \<Rightarrow> int \<Rightarrow> delivery_row \<Rightarrow> delivery_row" where
  "retry_row available now d = (close_lease D_stored now d)\<lparr>dr_available_at := available\<rparr>"

definition dead_letter_expired_final_claim ::
  "host_lib \<Rightarrow> transaction_world \<Rightarrow> node_auth \<Rightarrow> locked_delivery \<Rightarrow> claim_input \<Rightarrow> relay_db
    \<Rightarrow> relay_error + claim_result \<times> relay_db" where
  "dead_letter_expired_final_claim L w auth k i db =
     (let d = lk_delivery k; now = lk_now k; dead = dead_letter_row now d;
          receipt = operation_receipt_of (tw_fresh w 1 0) Op_claim (ci_idempotency_key i) (na_node_id auth)
            dead (dr_status d) None None (Some Claim_dead_lettered) None now in
      if dr_status d \<noteq> D_leased \<and> dr_status d \<noteq> D_executing then Inl (Relay_err Internal)
      else if \<not> operation_receipt_ok L receipt then Inl Relay_zod
      else (case delivery_from_row L dead of
              Inl e \<Rightarrow> Inl e
            | Inr delivery \<Rightarrow>
               (let result = Dead_lettered_result delivery receipt False in
                if \<not> claim_result_ok L result then Inl Relay_zod
                else (case record_operation L auth dead receipt (In_claim (dr_id d) i) (Out_claim result)
                        (set_delivery dead db) of
                        Inl e \<Rightarrow> Inl e
                      | Inr db \<Rightarrow>
                         (case reconcile_mission_in_transaction L (tw_fresh w 2) (tw_later w) db (dr_mission_id d) of
                            Inl e \<Rightarrow> Inl e | Inr (r, db) \<Rightarrow> Inr (result, db))))))"

definition expire_lease_for_retry ::
  "host_lib \<Rightarrow> uuid \<Rightarrow> node_auth \<Rightarrow> delivery_row \<Rightarrow> int \<Rightarrow> relay_db \<Rightarrow> relay_error + relay_db" where
  "expire_lease_for_retry L receipt_id auth d now db =
     (if (dr_status d \<noteq> D_leased \<and> dr_status d \<noteq> D_executing) \<or> dr_active_lease_id d = None
         \<or> dr_lease_expires_at d = None
      then Inl (Relay_err Internal)
      else (case delivery_from_row L (retry_row now now d) of
              Inl e \<Rightarrow> Inl e
            | Inr stored \<Rightarrow>
               (case insert_receipt \<lparr>rr_id = receipt_id, rr_from_node = False, rr_node_id = dr_node_id d,
                    rr_mission_id = dr_mission_id d, rr_delivery_id = dr_id d,
                    rr_operation = Lease_expired_operation,
                    rr_idempotency_key = ''lease-expired:'' @ dr_id d @ '':'' @ string_of_int (dr_attempt_count d),
                    rr_credential_id = None, rr_attempt_count = dr_attempt_count d,
                    rr_lease_id = dr_active_lease_id d, rr_fencing_token = Some (dr_last_fencing_token d),
                    rr_lease_expires_at = dr_lease_expires_at d, rr_status_before = dr_status d,
                    rr_status_after = D_stored, rr_cancellation_reason = None, rr_input = In_relay,
                    rr_output = Out_relay, rr_recorded_at = now\<rparr> (set_delivery (retry_row now now d) db) of
                  Inl e \<Rightarrow> Inl e
                | Inr db \<Rightarrow> Inr (write_audit (Some (na_agent_id auth)) ''delivery.lease_expired'' (dr_id d) db))))"

definition leased_row :: "uuid \<Rightarrow> int \<Rightarrow> int \<Rightarrow> delivery_row \<Rightarrow> delivery_row" where
  "leased_row lease_id expires now d =
     d\<lparr>dr_status := D_leased, dr_attempt_count := dr_attempt_count d + 1,
       dr_last_fencing_token := string_of_int (dr_attempt_count d + 1), dr_active_lease_id := Some lease_id,
       dr_lease_expires_at := Some expires, dr_updated_at := now\<rparr>"

text \<open>A new lease on a stored delivery.\<close>

definition grant_lease ::
  "host_lib \<Rightarrow> transaction_world \<Rightarrow> node_auth \<Rightarrow> locked_delivery \<Rightarrow> claim_input \<Rightarrow> delivery_row \<Rightarrow> relay_db
    \<Rightarrow> relay_error + claim_result \<times> relay_db" where
  "grant_lease L w auth k i d db =
     (let now = lk_now k; lease_id = tw_fresh w 1 2 in
      if dr_status d \<noteq> D_stored \<or> dr_settled_by_event_id d \<noteq> None \<or> dr_attempt_count d \<ge> dr_max_attempts d
      then Inl (Relay_err Invalid_transition_code)
      else if dr_available_at d > now then Inl (Relay_err State_changed)
      else (case bounded_lease_expiry now (mr_expires_at (lk_mission k)) of
              Inl e \<Rightarrow> Inl e
            | Inr expires \<Rightarrow>
               (let claimed = leased_row lease_id expires now d in
                case take_lease claimed db of
                  Inl e \<Rightarrow> Inl e
                | Inr db \<Rightarrow>
                   (case find (\<lambda>e. er_id e = dr_mission_event_id claimed) (db_events db) of
                      None \<Rightarrow> Inl (Relay_err Internal)
                    | Some event \<Rightarrow>
                       (let receipt = operation_receipt_of (tw_fresh w 1 3) Op_claim (ci_idempotency_key i)
                              (na_node_id auth) claimed D_stored
                              (Some \<lparr>la_lease_id = lease_id,
                                la_fencing_token = string_of_int (dr_attempt_count d + 1)\<rparr>)
                              (Some expires) (Some Claimed) None now in
                        if \<not> operation_receipt_ok L receipt then Inl Relay_zod
                        else (case mission_delivery_item_from_rows L claimed event of
                                Inl e \<Rightarrow> Inl e
                              | Inr item \<Rightarrow>
                                 (let result = Claimed_result item receipt False in
                                  if \<not> claim_result_ok L result then Inl Relay_zod
                                  else (case record_operation L auth claimed receipt (In_claim (dr_id d) i)
                                          (Out_claim result) db of
                                          Inl e \<Rightarrow> Inl e | Inr db \<Rightarrow> Inr (result, db)))))))))"

text \<open>An expired lease is first closed: dead-lettered when it was the last attempt, made available again
  otherwise.\<close>

definition claim_stored_or_expired ::
  "host_lib \<Rightarrow> transaction_world \<Rightarrow> node_auth \<Rightarrow> locked_delivery \<Rightarrow> claim_input \<Rightarrow> relay_db
    \<Rightarrow> relay_error + claim_result \<times> relay_db" where
  "claim_stored_or_expired L w auth k i db =
     (let d = lk_delivery k in
      if dr_status d = D_leased \<or> dr_status d = D_executing
      then (case dr_lease_expires_at d of
              None \<Rightarrow> Inl (Relay_err Internal)
            | Some t \<Rightarrow>
                if t > lk_now k then Inl (Relay_err State_changed)
                else if dr_attempt_count d \<ge> dr_max_attempts d
                then dead_letter_expired_final_claim L w auth k i db
                else (case expire_lease_for_retry L (tw_fresh w 1 1) auth d (lk_now k) db of
                        Inl e \<Rightarrow> Inl e
                      | Inr db \<Rightarrow>
                         (case find_delivery db (na_node_id auth) (dr_id d) of
                            Inl e \<Rightarrow> Inl e | Inr d \<Rightarrow> grant_lease L w auth k i d db)))
      else grant_lease L w auth k i d db)"

definition claim_locked ::
  "host_lib \<Rightarrow> transaction_world \<Rightarrow> node_auth \<Rightarrow> uuid \<Rightarrow> claim_input \<Rightarrow> relay_db \<Rightarrow> locked_delivery
    \<Rightarrow> relay_error + claim_result \<times> relay_db" where
  "claim_locked L w auth delivery_id i db k =
     (case assert_mission_routing_authority L db (lk_mission k) of
        Inl e \<Rightarrow> Inl e
      | Inr _ \<Rightarrow>
         (case load_replay db (na_node_id auth) delivery_id Op_claim (ci_idempotency_key i) (In_claim delivery_id i) of
            Inl e \<Rightarrow> Inl e
          | Inr (Some r) \<Rightarrow>
             (case replayed_claim L (rr_output r) of
                Inl e \<Rightarrow> Inl e
              | Inr result \<Rightarrow>
                 (case assert_delivery_mission_trust L db (lk_mission k) of
                    Inl e \<Rightarrow> Inl e
                  | Inr _ \<Rightarrow>
                     (case assert_replayable_delivery (lk_delivery k) of
                        Inl e \<Rightarrow> Inl e | Inr _ \<Rightarrow> Inr (result, db))))
          | Inr None \<Rightarrow>
              if lk_reconciled_status k \<noteq> None then Inl (Relay_err Invalid_transition_code)
              else (case assert_delivery_mission_trust L db (lk_mission k) of
                      Inl e \<Rightarrow> Inl e
                    | Inr _ \<Rightarrow>
                       (case assert_runnable_context k of
                          Inl e \<Rightarrow> Inl e | Inr _ \<Rightarrow> claim_stored_or_expired L w auth k i db))))"

definition claim_delivery ::
  "host_lib \<Rightarrow> transaction_world \<Rightarrow> relay_db \<Rightarrow> node_auth \<Rightarrow> uuid \<Rightarrow> claim_input
    \<Rightarrow> (relay_error + claim_result) \<times> relay_db" where
  "claim_delivery L w db auth delivery_id i =
     (if \<not> claim_input_ok i then (Inl Relay_zod, db)
      else run_locked_delivery_operation L w db auth delivery_id (claim_locked L w auth delivery_id i))"

section \<open>Start, renew and release\<close>

text \<open>\<open>mutateLeaseDelivery\<close>: the frame around the change \<open>mutate\<close>, which gives the new row and its receipt.\<close>

definition mutate_lease_delivery ::
  "host_lib \<Rightarrow> transaction_world \<Rightarrow> node_auth \<Rightarrow> uuid \<Rightarrow> delivery_operation \<Rightarrow> string \<Rightarrow> stored_input
    \<Rightarrow> (locked_delivery \<Rightarrow> relay_error + delivery_row \<times> operation_receipt) \<Rightarrow> relay_db \<Rightarrow> locked_delivery
    \<Rightarrow> relay_error + operation_result \<times> relay_db" where
  "mutate_lease_delivery L w auth delivery_id op key stored mutate db k =
     (case assert_mission_routing_authority L db (lk_mission k) of
        Inl e \<Rightarrow> Inl e
      | Inr _ \<Rightarrow>
         (case load_replay db (na_node_id auth) delivery_id op key stored of
            Inl e \<Rightarrow> Inl e
          | Inr (Some r) \<Rightarrow>
             (case replayed_operation L op (rr_output r) of
                Inl e \<Rightarrow> Inl e
              | Inr result \<Rightarrow>
                 (case (if op \<noteq> Op_release then assert_delivery_mission_trust L db (lk_mission k) else Inr ()) of
                    Inl e \<Rightarrow> Inl e
                  | Inr _ \<Rightarrow>
                     (case assert_replayable_delivery (lk_delivery k) of
                        Inl e \<Rightarrow> Inl e | Inr _ \<Rightarrow> Inr (result, db))))
          | Inr None \<Rightarrow>
              if lk_reconciled_status k \<noteq> None then Inl (Relay_err Invalid_transition_code)
              else (case assert_delivery_mission_trust L db (lk_mission k) of
                      Inl e \<Rightarrow> Inl e
                    | Inr _ \<Rightarrow>
                       (case assert_runnable_context k of
                          Inl e \<Rightarrow> Inl e
                        | Inr _ \<Rightarrow>
                           (case mutate k of
                              Inl e \<Rightarrow> Inl e
                            | Inr (d, receipt) \<Rightarrow>
                                if \<not> operation_receipt_ok L receipt then Inl Relay_zod
                                else (case delivery_from_row L d of
                                        Inl e \<Rightarrow> Inl e
                                      | Inr delivery \<Rightarrow>
                                         (let result = \<lparr>ors_delivery = delivery, ors_receipt = receipt, ors_replayed = False\<rparr> in
                                          if \<not> result_of_ok L op result then Inl Relay_zod
                                          else (case record_operation L auth (lk_delivery k) receipt stored (Out_operation result)
                                                  (set_delivery d db) of
                                                  Inl e \<Rightarrow> Inl e
                                                | Inr db \<Rightarrow>
                                                    if or_status_after receipt = D_dead_lettered
                                                    then (case reconcile_mission_in_transaction L (tw_fresh w 2) (tw_later w) db
                                                            (dr_mission_id (lk_delivery k)) of
                                                            Inl e \<Rightarrow> Inl e | Inr (r, db) \<Rightarrow> Inr (result, db))
                                                    else Inr (result, db)))))))))"

definition presented_lease :: "'a lease_operation_input_scheme \<Rightarrow> lease_authority option" where
  "presented_lease i = Some \<lparr>la_lease_id = lo_lease_id i, la_fencing_token = lo_fencing_token i\<rparr>"

definition start_row :: "int \<Rightarrow> delivery_row \<Rightarrow> delivery_row" where
  "start_row now d = d\<lparr>dr_status := D_executing, dr_updated_at := now\<rparr>"

definition start_change ::
  "uuid \<Rightarrow> node_auth \<Rightarrow> lease_operation_input \<Rightarrow> locked_delivery \<Rightarrow> relay_error + delivery_row \<times> operation_receipt" where
  "start_change receipt_id auth i k =
     (let d = lk_delivery k; now = lk_now k; started = start_row now d in
      if dr_status d \<noteq> D_leased then Inl (Relay_err Invalid_transition_code)
      else (case assert_lease_authority d i now of
              Inl e \<Rightarrow> Inl e
            | Inr _ \<Rightarrow> Inr (started, operation_receipt_of receipt_id Op_start (lo_idempotency_key i)
                (na_node_id auth) started D_leased (presented_lease i) (dr_lease_expires_at started) None None now)))"

definition start_delivery ::
  "host_lib \<Rightarrow> transaction_world \<Rightarrow> relay_db \<Rightarrow> node_auth \<Rightarrow> uuid \<Rightarrow> lease_operation_input
    \<Rightarrow> (relay_error + operation_result) \<times> relay_db" where
  "start_delivery L w db auth delivery_id i =
     (if \<not> lease_operation_input_ok L i then (Inl Relay_zod, db)
      else run_locked_delivery_operation L w db auth delivery_id
        (mutate_lease_delivery L w auth delivery_id Op_start (lo_idempotency_key i) (In_lease delivery_id i)
          (start_change (tw_fresh w 1 0) auth i)))"

definition renew_row :: "int \<Rightarrow> int \<Rightarrow> delivery_row \<Rightarrow> delivery_row" where
  "renew_row expires now d = d\<lparr>dr_lease_expires_at := Some expires, dr_updated_at := now\<rparr>"

definition renew_change ::
  "uuid \<Rightarrow> node_auth \<Rightarrow> lease_operation_input \<Rightarrow> locked_delivery \<Rightarrow> relay_error + delivery_row \<times> operation_receipt" where
  "renew_change receipt_id auth i k =
     (let d = lk_delivery k; now = lk_now k in
      case assert_active_lease_status d of
        Inl e \<Rightarrow> Inl e
      | Inr _ \<Rightarrow>
         (case assert_lease_authority d i now of
            Inl e \<Rightarrow> Inl e
          | Inr _ \<Rightarrow>
             (case bounded_lease_expiry now (mr_expires_at (lk_mission k)) of
                Inl e \<Rightarrow> Inl e
              | Inr expires \<Rightarrow>
                  if (case dr_lease_expires_at d of None \<Rightarrow> True | Some t \<Rightarrow> expires < t)
                  then Inl (Relay_err Invalid_transition_code)
                  else Inr (renew_row expires now d, operation_receipt_of receipt_id Op_renew
                    (lo_idempotency_key i) (na_node_id auth) (renew_row expires now d) (dr_status d)
                    (presented_lease i) (Some expires) None None now))))"

definition renew_delivery ::
  "host_lib \<Rightarrow> transaction_world \<Rightarrow> relay_db \<Rightarrow> node_auth \<Rightarrow> uuid \<Rightarrow> lease_operation_input
    \<Rightarrow> (relay_error + operation_result) \<times> relay_db" where
  "renew_delivery L w db auth delivery_id i =
     (if \<not> lease_operation_input_ok L i then (Inl Relay_zod, db)
      else run_locked_delivery_operation L w db auth delivery_id
        (mutate_lease_delivery L w auth delivery_id Op_renew (lo_idempotency_key i) (In_lease delivery_id i)
          (renew_change (tw_fresh w 1 0) auth i)))"

definition release_change ::
  "uuid \<Rightarrow> node_auth \<Rightarrow> release_input \<Rightarrow> locked_delivery \<Rightarrow> relay_error + delivery_row \<times> operation_receipt" where
  "release_change receipt_id auth i k =
     (let d = lk_delivery k; now = lk_now k in
      case assert_active_lease_status d of
        Inl e \<Rightarrow> Inl e
      | Inr _ \<Rightarrow>
         (case assert_lease_authority d i now of
            Inl e \<Rightarrow> Inl e
          | Inr _ \<Rightarrow>
             (let retry_at = now + retry_backoff_ms (dr_attempt_count d);
                  dead_letter = (re_classification i \<noteq> R_transient \<or> dr_attempt_count d \<ge> dr_max_attempts d
                    \<or> retry_at \<ge> mr_expires_at (lk_mission k));
                  released = (if dead_letter then dead_letter_row now d else retry_row retry_at now d)
              in Inr (released, operation_receipt_of receipt_id Op_release (lo_idempotency_key i)
                   (na_node_id auth) released (dr_status d) (presented_lease i) (dr_lease_expires_at d) None
                   (Some \<lparr>rd_classification = re_classification i, rd_summary = re_summary i\<rparr>) now))))"

definition release_delivery ::
  "host_lib \<Rightarrow> transaction_world \<Rightarrow> relay_db \<Rightarrow> node_auth \<Rightarrow> uuid \<Rightarrow> release_input
    \<Rightarrow> (relay_error + operation_result) \<times> relay_db" where
  "release_delivery L w db auth delivery_id i =
     (if \<not> release_input_ok L i then (Inl Relay_zod, db)
      else run_locked_delivery_operation L w db auth delivery_id
        (mutate_lease_delivery L w auth delivery_id Op_release (lo_idempotency_key i) (In_release delivery_id i)
          (release_change (tw_fresh w 1 0) auth i)))"

section \<open>Complete\<close>

fun result_kind :: "node_delivery_result \<Rightarrow> coordinator_event_kind" where
  "result_kind (Result_turn_completed disposition) = Turn_completed_kind"
| "result_kind Result_contract_acknowledged = Contract_acknowledged_kind"
| "result_kind (Result_verification_recorded evidence) = Verification_recorded_kind"

text \<open>The companions of a turn; \<open>fresh 0\<close> and \<open>fresh 1\<close> are their id and the random part of their key.\<close>

fun turn_message_of ::
  "(nat \<Rightarrow> uuid) \<Rightarrow> delivery_row \<Rightarrow> uuid \<Rightarrow> coordinator_state \<Rightarrow> int \<Rightarrow> turn_disposition \<Rightarrow> message option" where
  "turn_message_of fresh d agent_id s now (Reply message_type body artifacts) = Some
     \<lparr>m_message_id = fresh 0, m_mission_id = dr_mission_id d, m_sequence_no = int (length (cs_messages s)) + 1,
      m_author_agent_id = agent_id, m_type = message_type, m_body = body,
      m_artifacts = (case artifacts of None \<Rightarrow> [] | Some as \<Rightarrow> as),
      m_contract_version = dr_contract_version d, m_idempotency_key = ''message:'' @ fresh 1,
      m_causal_parent_message_id = map_option m_message_id (last_option (cs_messages s)),
      m_created_at = to_iso_string now\<rparr>"
| "turn_message_of fresh d agent_id s now _ = None"

fun turn_revision_of ::
  "(nat \<Rightarrow> uuid) \<Rightarrow> delivery_row \<Rightarrow> uuid \<Rightarrow> int \<Rightarrow> turn_disposition \<Rightarrow> contract_revision option" where
  "turn_revision_of fresh d agent_id now (Propose_contract artifact) = Some
     \<lparr>r_revision_id = fresh 0, r_mission_id = dr_mission_id d, r_previous_version = dr_contract_version d,
      r_version = dr_contract_version d + 1, r_artifact = artifact, r_proposed_by_agent_id = agent_id,
      r_acknowledged_by_agent_ids = [], r_idempotency_key = ''revision:'' @ fresh 1,
      r_created_at = to_iso_string now\<rparr>"
| "turn_revision_of fresh d agent_id now _ = None"

definition parse_completion_append_input ::
  "host_lib \<Rightarrow> string \<Rightarrow> event_body \<Rightarrow> relay_error + coordinator_append_input" where
  "parse_completion_append_input L key body =
     (let i = \<lparr>ai_idempotency_key = key, ai_body = body\<rparr> in
      if append_input_ok L i then Inr i else Inl (Relay_err Invalid_params))"

text \<open>A \<open>Map\<close> from command ids to evidence: the last entry of a key counts.\<close>

definition evidence_by_command :: "verification_evidence list \<Rightarrow> (string \<times> verification_evidence) list" where
  "evidence_by_command evidence = rev (map (\<lambda>e. (e_command_id e, e)) evidence)"

definition build_completion_events ::
  "host_lib \<Rightarrow> (nat \<Rightarrow> uuid) \<Rightarrow> locked_delivery \<Rightarrow> node_auth \<Rightarrow> complete_input
    \<Rightarrow> relay_error + coordinator_append_input list" where
  "build_completion_events L fresh k auth i =
     (let d = lk_delivery k; s = mr_state (lk_mission k); agent_id = na_agent_id auth; key = ''event:'' @ fresh 2 in
      if \<not> coordinator_state_ok L s then Inl Relay_zod
      else if result_kind (co_result i) \<noteq> expected_event_kind (dr_kind d) then Inl (Relay_err Invalid_params)
      else (case co_result i of
              Result_turn_completed disposition \<Rightarrow>
                (case parse_completion_append_input L key
                    (Turn_completed agent_id (dr_id d) (dr_contract_version d) disposition
                      (turn_message_of fresh d agent_id s (lk_now k) disposition)
                      (turn_revision_of fresh d agent_id (lk_now k) disposition)) of
                   Inl e \<Rightarrow> Inl e | Inr a \<Rightarrow> Inr [a])
            | Result_contract_acknowledged \<Rightarrow>
                (case cs_pending_revision s of
                   None \<Rightarrow> Inl (Relay_err Invalid_transition_code)
                 | Some pending \<Rightarrow>
                    (case parse_completion_append_input L key
                        (Contract_acknowledged agent_id (dr_id d) (r_revision_id pending) (dr_contract_version d)
                          (r_artifact pending)) of
                       Inl e \<Rightarrow> Inl e | Inr a \<Rightarrow> Inr [a]))
            | Result_verification_recorded evidence \<Rightarrow>
                (case (dr_verification_round d, map_of (cs_required_verification_commands s) agent_id) of
                   (Some round, Some required) \<Rightarrow>
                     (let by_command = evidence_by_command evidence in
                      if length (remdups (map fst by_command)) \<noteq> length required
                        \<or> list_ex (\<lambda>c. map_of by_command c = None) required
                      then Inl (Relay_err Invalid_params)
                      else traverse (\<lambda>(n, c). parse_completion_append_input L (''event:'' @ fresh (2 + n))
                             (Verification_recorded agent_id (dr_id d) (dr_contract_version d) round
                               (the (map_of by_command c)))) (enumerate 0 required))
                 | _ \<Rightarrow> Inl (Relay_err Invalid_transition_code))))"

text \<open>The loop that appends the events one after the other, each on the Mission row that the one before it
  stored.\<close>

fun append_each ::
  "host_lib \<Rightarrow> (nat \<Rightarrow> nat \<Rightarrow> uuid) \<Rightarrow> int \<Rightarrow> int \<Rightarrow> node_auth \<Rightarrow> source_authorization \<Rightarrow> relay_db \<Rightarrow> mission_row
    \<Rightarrow> coordinator_append_input list \<Rightarrow> relay_error + append_result list \<times> relay_db" where
  "append_each L fresh now tx_now auth source db m [] = Inr ([], db)"
| "append_each L fresh now tx_now auth source db m (i # is) =
     (case append_mission_event_in_transaction L (fresh 0) None tx_now db m
        \<lparr>ap_actor_agent_id = na_agent_id auth, ap_input = i, ap_allow_derived_acceptance = False,
         ap_source_authorization = Some source, ap_recorded_at = Some now\<rparr> of
        Inl e \<Rightarrow> Inl e
      | Inr (appended, db) \<Rightarrow>
         (case find_mission db (mr_id m) of
            None \<Rightarrow> Inl (Relay_err Internal)
          | Some m \<Rightarrow>
             (case append_each L (fresh \<circ> Suc) now tx_now auth source db m is of
                Inl e \<Rightarrow> Inl e | Inr (rest, db) \<Rightarrow> Inr (appended # rest, db))))"

definition acknowledged_row :: "int \<Rightarrow> delivery_row \<Rightarrow> delivery_row" where
  "acknowledged_row now d = (close_lease D_acknowledged now d)\<lparr>dr_acknowledged_at := Some now\<rparr>"

definition superseded_row :: "int \<Rightarrow> delivery_row \<Rightarrow> delivery_row" where
  "superseded_row now d = (close_lease D_cancelled now d)\<lparr>dr_cancelled_at := Some now,
     dr_cancellation_reason := Some Work_superseded\<rparr>"

definition cancel_superseded_siblings ::
  "host_lib \<Rightarrow> (nat \<Rightarrow> uuid) \<Rightarrow> node_auth \<Rightarrow> delivery_row \<Rightarrow> uuid \<Rightarrow> int \<Rightarrow> relay_db \<Rightarrow> relay_error + relay_db" where
  "cancel_superseded_siblings L fresh auth source event_id now db =
     cancel_each fresh (\<lambda>d. ''cancel:'' @ dr_id d @ '':'' @ event_id) (check_cancelled L (superseded_row now))
       (superseded_row now) Work_superseded now (Some (na_agent_id auth))
       (deliveries_where db (\<lambda>d. dr_mission_id d = dr_mission_id source
          \<and> dr_settled_by_event_id d = Some event_id \<and> dr_id d \<noteq> dr_id source \<and> open_status (dr_status d))) db"

text \<open>The update of the source is conditional on everything the completion relied on.\<close>

definition acknowledge_source ::
  "node_auth \<Rightarrow> uuid \<Rightarrow> complete_input \<Rightarrow> uuid \<Rightarrow> int \<Rightarrow> relay_db \<Rightarrow> relay_error + delivery_row \<times> relay_db" where
  "acknowledge_source auth delivery_id i event_id now db =
     (case find (\<lambda>d. dr_id d = delivery_id \<and> dr_node_id d = na_node_id auth \<and> dr_status d = D_executing
            \<and> dr_active_lease_id d = Some (lo_lease_id i) \<and> dr_last_fencing_token d = lo_fencing_token i
            \<and> dr_settled_by_event_id d = Some event_id
            \<and> (case dr_lease_expires_at d of None \<Rightarrow> False | Some t \<Rightarrow> t > now)) (db_deliveries db) of
        None \<Rightarrow> Inl (Relay_err Invalid_transition_code)
      | Some d \<Rightarrow> Inr (acknowledged_row now d, set_delivery (acknowledged_row now d) db))"

definition finish_completion ::
  "host_lib \<Rightarrow> transaction_world \<Rightarrow> node_auth \<Rightarrow> uuid \<Rightarrow> complete_input \<Rightarrow> locked_delivery \<Rightarrow> append_result list
    \<Rightarrow> relay_db \<Rightarrow> relay_error + complete_result \<times> relay_db" where
  "finish_completion L w auth delivery_id i k appended db =
     (let now = lk_now k in
      case last_option (map ar_event appended) of
        None \<Rightarrow> Inl (Relay_err Internal)
      | Some final \<Rightarrow>
         (case acknowledge_source auth delivery_id i (ev_event_id final) now db of
            Inl e \<Rightarrow> Inl e
          | Inr (acknowledged, db) \<Rightarrow>
             (case cancel_superseded_siblings L (tw_fresh w 2) auth acknowledged (ev_event_id final) now db of
                Inl e \<Rightarrow> Inl e
              | Inr db \<Rightarrow>
                 (let receipt = operation_receipt_of (tw_fresh w 1 0) Op_complete (lo_idempotency_key i)
                        (na_node_id auth) acknowledged D_executing (presented_lease i)
                        (dr_lease_expires_at (lk_delivery k)) None None now in
                  if \<not> operation_receipt_ok L receipt then Inl Relay_zod
                  else (case delivery_from_row L acknowledged of
                          Inl e \<Rightarrow> Inl e
                        | Inr delivery \<Rightarrow>
                           (let result = \<lparr>ors_delivery = delivery, ors_receipt = receipt, ors_replayed = False,
                                  cmr_events = map ar_event appended,
                                  cmr_derived_delivery_ids = remdups (concat (map ar_delivery_ids appended))\<rparr> in
                            if \<not> complete_result_ok L result then Inl Relay_zod
                            else (case record_operation L auth acknowledged receipt (In_complete delivery_id i)
                                    (Out_complete result) db of
                                    Inl e \<Rightarrow> Inl e | Inr db \<Rightarrow> Inr (result, db))))))))"

definition complete_locked ::
  "host_lib \<Rightarrow> transaction_world \<Rightarrow> node_auth \<Rightarrow> uuid \<Rightarrow> complete_input \<Rightarrow> relay_db \<Rightarrow> locked_delivery
    \<Rightarrow> relay_error + complete_result \<times> relay_db" where
  "complete_locked L w auth delivery_id i db k =
     (case assert_mission_routing_authority L db (lk_mission k) of
        Inl e \<Rightarrow> Inl e
      | Inr _ \<Rightarrow>
         (case load_replay db (na_node_id auth) delivery_id Op_complete (lo_idempotency_key i)
                 (In_complete delivery_id i) of
            Inl e \<Rightarrow> Inl e
          | Inr (Some r) \<Rightarrow>
             (case replayed_completion L (rr_output r) of
                Inl e \<Rightarrow> Inl e
              | Inr result \<Rightarrow>
                 (case assert_replayable_delivery (lk_delivery k) of
                    Inl e \<Rightarrow> Inl e | Inr _ \<Rightarrow> Inr (result, db)))
          | Inr None \<Rightarrow>
              if lk_reconciled_status k \<noteq> None then Inl (Relay_err Invalid_transition_code)
              else (case assert_delivery_mission_trust L db (lk_mission k) of
                      Inl e \<Rightarrow> Inl e
                    | Inr _ \<Rightarrow>
                       (case assert_runnable_context k of
                          Inl e \<Rightarrow> Inl e
                        | Inr _ \<Rightarrow>
                            if dr_status (lk_delivery k) \<noteq> D_executing \<or> dr_settled_by_event_id (lk_delivery k) \<noteq> None
                            then Inl (Relay_err Invalid_transition_code)
                            else (case assert_lease_authority (lk_delivery k) i (lk_now k) of
                                    Inl e \<Rightarrow> Inl e
                                  | Inr _ \<Rightarrow>
                                     (case build_completion_events L (tw_fresh w 3) k auth i of
                                        Inl e \<Rightarrow> Inl e
                                      | Inr inputs \<Rightarrow>
                                         (case append_each L (\<lambda>n. tw_fresh w (4 + n)) (lk_now k) (tw_started w) auth
                                                 \<lparr>sa_executing = True, sa_node_id = Some (na_node_id auth),
                                                  sa_lease_id = Some (lo_lease_id i),
                                                  sa_fencing_token = Some (lo_fencing_token i)\<rparr>
                                                 db (lk_mission k) inputs of
                                            Inl e \<Rightarrow> Inl e
                                          | Inr (appended, db) \<Rightarrow>
                                              finish_completion L w auth delivery_id i k appended db)))))))"

definition complete_delivery ::
  "host_lib \<Rightarrow> transaction_world \<Rightarrow> relay_db \<Rightarrow> node_auth \<Rightarrow> uuid \<Rightarrow> complete_input
    \<Rightarrow> (relay_error + complete_result) \<times> relay_db" where
  "complete_delivery L w db auth delivery_id i =
     (if \<not> complete_input_ok L i then (Inl Relay_zod, db)
      else run_locked_delivery_operation L w db auth delivery_id (complete_locked L w auth delivery_id i))"

section \<open>Recovery\<close>

text \<open>What a Node finds after a restart: its open leases, and retries that are due.\<close>

definition recoverable_row :: "relay_db \<Rightarrow> uuid \<Rightarrow> int \<Rightarrow> delivery_row \<Rightarrow> bool" where
  "recoverable_row db node_id as_of d \<longleftrightarrow> dr_node_id d = node_id \<and> dr_settled_by_event_id d = None
     \<and> list_ex (\<lambda>m. mr_id m = dr_mission_id d \<and> (mr_status m = M_active \<or> mr_status m = M_verifying)
          \<and> mr_expires_at m > as_of) (db_missions db)
     \<and> (dr_status d = D_stored \<and> dr_attempt_count d > 0 \<and> dr_available_at d \<le> as_of
        \<or> dr_status d = D_leased \<or> dr_status d = D_executing)"

definition delivery_items ::
  "host_lib \<Rightarrow> relay_db \<Rightarrow> delivery_row list \<Rightarrow> relay_error + mission_delivery_item list" where
  "delivery_items L db rows = traverse (\<lambda>(d, e). mission_delivery_item_from_rows L d e)
     (concat (map (\<lambda>d. map (\<lambda>e. (d, e)) (filter (\<lambda>e. er_id e = dr_mission_event_id d) (db_events db))) rows))"

definition list_recoverable_delivery_events ::
  "host_lib \<Rightarrow> (nat \<Rightarrow> nat \<Rightarrow> uuid) \<Rightarrow> int option \<Rightarrow> int option \<Rightarrow> relay_db \<Rightarrow> uuid \<Rightarrow> int
    \<Rightarrow> (relay_error + recoverable_page) \<times> relay_db" where
  "list_recoverable_delivery_events L fresh clock later db node_id limit =
     (if \<not> recovery_request_ok limit then (Inl Relay_zod, db)
      else (case (case clock of None \<Rightarrow> (None, db)
                   | Some now \<Rightarrow> reconcile_missions L fresh clock (reconciliation_candidates db node_id now) db) of
              (Some e, db) \<Rightarrow> (Inl e, db)
            | (None, db) \<Rightarrow>
               (case read_database_clock later of
                  Inl e \<Rightarrow> (Inl e, db)
                | Inr as_of \<Rightarrow>
                   (case delivery_items L db (take (nat limit) (deliveries_where db (recoverable_row db node_id as_of))) of
                      Inl e \<Rightarrow> (Inl e, db)
                    | Inr items \<Rightarrow>
                       (let page = \<lparr>rp_items = items, rp_as_of = to_iso_string as_of\<rparr> in
                        if recoverable_page_ok L page then (Inr page, db) else (Inl Relay_zod, db))))))"

end
