(* ===== verification/Ledger_Invariant.thy ===== *)
theory Ledger_Invariant
  imports Owed_Work Delivery_Ledger
begin

text \<open>
  The invariant of the Relay's tables: each stored Mission is the replay of its events, each delivery row
  satisfies the table's constraints, and the deliveries of a Mission that nothing settled are exactly the
  work its state owes.  First the frames of the table primitives, then one lemma per service.
\<close>

section \<open>Frames\<close>

lemma update_deliveries_fields [simp]:
  "db_missions (update_deliveries P f db) = db_missions db"
  "db_events (update_deliveries P f db) = db_events db"
  "db_participants (update_deliveries P f db) = db_participants db"
  "db_receipts (update_deliveries P f db) = db_receipts db"
  "db_deliveries (update_deliveries P f db) = map (\<lambda>d. if P d then f d else d) (db_deliveries db)"
  by (simp_all add: update_deliveries_def)

lemma update_mission_fields [simp]:
  "db_missions (update_mission i f db) = map (\<lambda>m. if mr_id m = i then f m else m) (db_missions db)"
  "db_events (update_mission i f db) = db_events db"
  "db_participants (update_mission i f db) = db_participants db"
  "db_receipts (update_mission i f db) = db_receipts db"
  "db_deliveries (update_mission i f db) = db_deliveries db"
  by (simp_all add: update_mission_def)

lemma write_audit_fields [simp]:
  "db_missions (write_audit a x r db) = db_missions db"
  "db_events (write_audit a x r db) = db_events db"
  "db_participants (write_audit a x r db) = db_participants db"
  "db_receipts (write_audit a x r db) = db_receipts db"
  "db_deliveries (write_audit a x r db) = db_deliveries db"
  by (simp_all add: write_audit_def)

lemma insert_event_Inr:
  "insert_event e db = Inr db' \<longleftrightarrow>
     (\<forall>x \<in> set (db_events db). er_id x \<noteq> er_id e \<and> (er_mission_id x = er_mission_id e \<longrightarrow>
        er_sequence_no x \<noteq> er_sequence_no e \<and> er_idempotency_key x \<noteq> er_idempotency_key e))
     \<and> db' = db\<lparr>db_events := db_events db @ [e]\<rparr>"
  by (auto simp: insert_event_def list_ex_iff)

lemma insert_receipt_frame:
  assumes "insert_receipt r db = Inr db'"
  shows "db' = db\<lparr>db_receipts := db_receipts db @ [r]\<rparr>"
    and "\<forall>x \<in> set (db_receipts db). rr_from_node x = rr_from_node r \<and> rr_node_id x = rr_node_id r
      \<longrightarrow> rr_idempotency_key x \<noteq> rr_idempotency_key r"
  using assms by (auto simp: insert_receipt_def list_ex_iff split: if_splits)

lemma record_operation_frame:
  assumes "record_operation L auth d r i out db = Inr db'"
  obtains row where "db_receipts db' = db_receipts db @ [row]"
    "db_missions db' = db_missions db" "db_events db' = db_events db"
    "db_participants db' = db_participants db" "db_deliveries db' = db_deliveries db"
    "rr_from_node row" "rr_node_id row = na_node_id auth" "rr_delivery_id row = dr_id d"
    "rr_operation row = Node_operation (or_operation r)" "rr_idempotency_key row = or_idempotency_key r"
    "rr_input row = i" "rr_output row = out"
    "\<forall>x \<in> set (db_receipts db). rr_from_node x \<and> rr_node_id x = na_node_id auth
      \<longrightarrow> rr_idempotency_key x \<noteq> or_idempotency_key r"
proof -
  obtain mid where mid: "persist_node_receipt L auth d r i out db = Inr mid"
    and db': "db' = write_audit (Some (na_agent_id auth)) (''delivery.'' @ operation_name (or_operation r)) (dr_id d) mid"
    using assms by (auto simp: record_operation_def split: sum.splits)
  then obtain row where row: "insert_receipt row db = Inr mid" "rr_from_node row"
      "rr_node_id row = na_node_id auth" "rr_delivery_id row = dr_id d"
      "rr_operation row = Node_operation (or_operation r)" "rr_idempotency_key row = or_idempotency_key r"
      "rr_input row = i" "rr_output row = out"
    unfolding persist_node_receipt_def by (auto split: option.splits)
  from insert_receipt_frame [OF row(1)] show thesis
    by (intro that [of row]) (auto simp: db' row)
qed

section \<open>The events of a Mission\<close>

lemma insort_key_snoc:
  "f a \<le> f x \<Longrightarrow> insort_key f a (ys @ [x]) = insort_key f a ys @ [x]"
  by (induction ys) auto

lemma sort_key_snoc:
  assumes "\<forall>y \<in> set xs. f y \<le> f x"
  shows "sort_key f (xs @ [x]) = sort_key f xs @ [x]"
  using assms by (induction xs) (auto simp: insort_key_snoc)

lemma events_of_append:
  assumes "\<forall>x \<in> set (events_of db (er_mission_id e)). er_sequence_no x \<le> er_sequence_no e"
    and "db_events db' = db_events db @ [e]"
  shows "events_of db' i = (if i = er_mission_id e then events_of db i @ [e] else events_of db i)"
  using assms by (auto simp: events_of_def intro!: sort_key_snoc)

lemma events_of_same: "db_events db' = db_events db \<Longrightarrow> events_of db' = events_of db"
  by (simp add: events_of_def fun_eq_iff)

lemma event_from_row_Inr:
  "event_from_row L r = Inr e \<longleftrightarrow> event_of_row r = Some e \<and> coordinator_event_ok L e"
  by (auto simp: event_from_row_def split: option.splits)

lemma event_of_row_columns:
  assumes "event_of_row r = Some e"
  shows "ev_sequence_no e = er_sequence_no r"
proof -
  have "map_of (event_object_of_row r) ''sequence_no'' = Some (Number_field (er_sequence_no r))"
    unfolding event_object_of_row_def by (rule spread_sets) simp_all
  then show ?thesis
    using parse_event_at [of "event_object_of_row r" e] assms by (simp add: event_of_row_def number_at_def)
qed

text \<open>A row with the columns and the fields of an event is read as that event.\<close>

lemma event_of_row_body:
  "er_type r = body_type b \<Longrightarrow> map_of (er_payload r) = map_of (body_fields b) \<Longrightarrow>
   event_of_row r = Some \<lparr>ev_event_id = er_id r, ev_idempotency_key = er_idempotency_key r,
     ev_mission_id = er_mission_id r, ev_sequence_no = er_sequence_no r,
     ev_created_at = to_iso_string (er_created_at r), ev_body = b\<rparr>"
  unfolding event_of_row_def event_object_of_row_def by (simp add: parse_spread [OF _ refl] del: spread.simps)

lemma event_payload_fields: "event_payload e = body_fields (ev_body e)"
proof -
  have "filter (\<lambda>(k, v). k \<notin> set envelope_keys) (body_fields b) = body_fields b" for b
    using body_keys_apart [of b] by (force simp: filter_id_conv)
  then show ?thesis
    by (simp add: event_payload_def delete_fields_def event_object_def envelope_keys_def)
qed

lemma replay_rows_Inr:
  "replay_rows L config rows = Inr s \<longleftrightarrow>
     (\<exists>es. map event_of_row rows = map Some es \<and> list_all (coordinator_event_ok L) es
        \<and> replay_coordinator_events L config es = Inr s)"
proof -
  have "traverse (event_from_row L) rows = Inr es
      \<longleftrightarrow> map event_of_row rows = map Some es \<and> list_all (coordinator_event_ok L) es" for es
    unfolding traverse_Inr event_from_row_Inr
    by (auto simp: list_all2_conv_all_nth list_eq_iff_nth_eq list_all_length)
  moreover have "replay_rows L config rows = Inr s \<longleftrightarrow>
      (\<exists>es. traverse (event_from_row L) rows = Inr es \<and> replay_coordinator_events L config es = Inr s)"
    by (cases "traverse (event_from_row L) rows") (auto simp: replay_rows_def split: sum.splits)
  ultimately show ?thesis by blast
qed

lemma replay_rows_snoc:
  assumes "replay_rows L config rows = Inr s" and "event_of_row row = Some e" and "coordinator_event_ok L e"
    and "reduce_coordinator_event L s e = Inr t"
  shows "replay_rows L config (rows @ [row]) = Inr t"
proof -
  from assms(1) obtain es where es: "map event_of_row rows = map Some es" "list_all (coordinator_event_ok L) es"
    "replay_coordinator_events L config es = Inr s" by (auto simp: replay_rows_Inr)
  have "map event_of_row (rows @ [row]) = map Some (es @ [e])" "list_all (coordinator_event_ok L) (es @ [e])"
    "replay_coordinator_events L config (es @ [e]) = Inr t"
    using es assms(2-) by (auto simp: replay_coordinator_events_def run_steps_append split: sum.splits)
  then show ?thesis unfolding replay_rows_Inr by blast
qed

lemma replayed_sequence:
  assumes "replay_rows L config rows = Inr s" and "r \<in> set rows"
  shows "er_sequence_no r \<le> cs_sequence_no s" and "0 < er_sequence_no r"
proof -
  from assms(1) obtain es where es: "map event_of_row rows = map Some es"
    and replay: "replay_coordinator_events L config es = Inr s"
    by (auto simp: replay_rows_Inr)
  from assms(2) have "event_of_row r \<in> set (map Some es)" using es by (metis imageI list.set_map)
  then obtain e where e: "e \<in> set es" "event_of_row r = Some e" by auto
  then have "e \<in> set (cs_applied_events s)"
    using replay_log_set [OF replay] by simp
  then obtain i where "i < length (cs_applied_events s)" "e = cs_applied_events s ! i"
    by (auto simp: in_set_conv_nth)
  moreover have "log_inv s" using replay_inv [OF replay] by (simp add: coordinator_inv_def)
  moreover note event_of_row_columns [OF e(2)]
  ultimately show "er_sequence_no r \<le> cs_sequence_no s" "0 < er_sequence_no r"
    by (auto simp: log_inv_def)
qed

section \<open>The invariant\<close>

definition node_agent :: "relay_db \<Rightarrow> uuid \<Rightarrow> uuid \<Rightarrow> uuid option" where
  "node_agent db mission_id node_id =
     map_option pt_agent_id (find (\<lambda>p. pt_node_id p = node_id) (participants_of db mission_id))"

definition row_work :: "relay_db \<Rightarrow> delivery_row \<Rightarrow> uuid option \<times> delivery_kind \<times> int \<times> int option" where
  "row_work db d = (node_agent db (dr_mission_id d) (dr_node_id d), dr_kind d, dr_contract_version d,
     dr_verification_round d)"

definition target_work :: "delivery_target \<Rightarrow> uuid option \<times> delivery_kind \<times> int \<times> int option" where
  "target_work t = (Some (tg_agent_id t), tg_kind t, tg_contract_version t, tg_verification_round t)"

definition unsettled :: "relay_db \<Rightarrow> uuid \<Rightarrow> delivery_row list" where
  "unsettled db mission_id = filter (\<lambda>d. dr_mission_id d = mission_id \<and> dr_settled_by_event_id d = None)
     (db_deliveries db)"

definition work_inv :: "relay_db \<Rightarrow> mission_row \<Rightarrow> bool" where
  "work_inv db m \<longleftrightarrow>
     (if is_terminal (cs_status (mr_state m))
      then \<forall>d \<in> set (unsettled db (mr_id m)). \<not> open_status (dr_status d)
      else mset (map (row_work db) (unsettled db (mr_id m))) = mset (map target_work (owed_work (mr_state m))))"

definition mission_row_inv :: "host_lib \<Rightarrow> relay_db \<Rightarrow> mission_row \<Rightarrow> bool" where
  "mission_row_inv L db m \<longleftrightarrow>
     config_ok L (mr_coordinator_config m)
     \<and> mf_mission_id (mc_manifest (cfg_mission_context (mr_coordinator_config m))) = mr_id m
     \<and> replay_rows L (mr_coordinator_config m) (events_of db (mr_id m)) = Inr (mr_state m)
     \<and> mr_status m = cs_status (mr_state m)
     \<and> mr_last_event_sequence m = cs_sequence_no (mr_state m)
     \<and> mr_contract_version m = cs_contract_version (mr_state m)
     \<and> map pt_agent_id (participants_of db (mr_id m)) = config_participant_ids (mr_coordinator_config m)
     \<and> distinct (map pt_node_id (participants_of db (mr_id m)))
     \<and> work_inv db m"

definition ledger_inv :: "host_lib \<Rightarrow> relay_db \<Rightarrow> bool" where
  "ledger_inv L db \<longleftrightarrow>
     distinct (map mr_id (db_missions db)) \<and> distinct (map dr_id (db_deliveries db))
     \<and> (\<forall>m \<in> set (db_missions db). mission_row_inv L db m)
     \<and> (\<forall>d \<in> set (db_deliveries db). delivery_row_ok d)
     \<and> er_mission_id ` set (db_events db) \<subseteq> mr_id ` set (db_missions db)
     \<and> dr_mission_id ` set (db_deliveries db) \<subseteq> mr_id ` set (db_missions db)
     \<and> pt_mission_id ` set (db_participants db) \<subseteq> mr_id ` set (db_missions db)"

lemma target_work_inject [simp]: "target_work x = target_work y \<longleftrightarrow> x = y"
  by (cases x; cases y) (auto simp: target_work_def)

lemma find_mission_Some:
  "find_mission db i = Some m \<Longrightarrow> m \<in> set (db_missions db) \<and> mr_id m = i"
  by (auto simp: find_mission_def find_Some_iff)

lemma distinct_key: "distinct (map f xs) \<Longrightarrow> x \<in> set xs \<Longrightarrow> y \<in> set xs \<Longrightarrow> f x = f y \<Longrightarrow> x = y"
  by (auto simp: distinct_map inj_on_def)

lemma mission_state_inv:
  assumes "mission_row_inv L db m"
  shows "coordinator_inv L (mr_state m)"
  using assms by (auto simp: mission_row_inv_def replay_rows_Inr intro: replay_inv)

end
