(* ===== verification/Ledger_Order.thy ===== *)
theory Ledger_Order
  imports Ledger_Invariant
begin

text \<open>
  How the tables may change: rows are added, never removed; an event and a receipt stay as they are; a
  Mission only extends its history; an acceptance is final; the attempts of a delivery never go down, its
  settlement is final and a closed delivery stays closed.
\<close>

section \<open>Tables that only grow\<close>

text \<open>A translated error, beside \<open>bind_Inr\<close>.\<close>

lemma bind_translated_Inr [simp]:
  "(case r of Inl e \<Rightarrow> Inl (g e) | Inr x \<Rightarrow> f x) = Inr y \<longleftrightarrow> (\<exists>x. r = Inr x \<and> f x = Inr y)"
  by (cases r) auto

definition rows_le :: "('a \<Rightarrow> 'a \<Rightarrow> bool) \<Rightarrow> 'a list \<Rightarrow> 'a list \<Rightarrow> bool" where
  "rows_le R xs ys \<longleftrightarrow> length xs \<le> length ys \<and> list_all2 R xs (take (length xs) ys)"

lemma rows_le_refl: "(\<And>x. R x x) \<Longrightarrow> rows_le R xs xs"
  by (simp add: rows_le_def list_all2_refl)

lemma rows_le_all2: "list_all2 R xs ys \<Longrightarrow> rows_le R xs ys"
  by (simp add: rows_le_def list_all2_lengthD)

lemma rows_le_map: "(\<And>x. x \<in> set xs \<Longrightarrow> R x (f x)) \<Longrightarrow> rows_le R xs (map f xs)"
  by (auto simp: rows_le_def list_all2_conv_all_nth)

lemma rows_le_append: "rows_le R xs ys \<Longrightarrow> rows_le R xs (ys @ zs)"
  by (simp add: rows_le_def)

lemma rows_le_nth:
  "rows_le R xs ys \<longleftrightarrow> length xs \<le> length ys \<and> (\<forall>i < length xs. R (xs ! i) (ys ! i))"
  by (auto simp: rows_le_def list_all2_conv_all_nth)

lemma rows_le_trans:
  assumes "\<And>x y z. R x y \<Longrightarrow> R y z \<Longrightarrow> R x z" and "rows_le R xs ys" and "rows_le R ys zs"
  shows "rows_le R xs zs"
  unfolding rows_le_nth
proof (intro conjI allI impI)
  show "length xs \<le> length zs" using assms(2,3) by (simp add: rows_le_nth)
  fix i
  assume "i < length xs"
  then show "R (xs ! i) (zs ! i)"
    using assms by (meson order_less_le_trans rows_le_nth)
qed

lemma rows_le_mem: "rows_le R xs ys \<Longrightarrow> x \<in> set xs \<Longrightarrow> \<exists>y \<in> set ys. R x y"
  unfolding rows_le_nth in_set_conv_nth by (metis nth_mem order_less_le_trans)

lemma rows_le_eq_mem: "rows_le (=) xs ys \<Longrightarrow> set xs \<subseteq> set ys"
  by (auto dest: rows_le_mem)

section \<open>The order\<close>

definition same_identity :: "delivery_row \<Rightarrow> delivery_row \<Rightarrow> bool" where
  "same_identity d d' \<longleftrightarrow> dr_id d' = dr_id d \<and> dr_node_id d' = dr_node_id d
     \<and> dr_mission_id d' = dr_mission_id d \<and> dr_mission_event_id d' = dr_mission_event_id d
     \<and> dr_kind d' = dr_kind d \<and> dr_cursor d' = dr_cursor d \<and> dr_contract_version d' = dr_contract_version d
     \<and> dr_verification_round d' = dr_verification_round d \<and> dr_max_attempts d' = dr_max_attempts d"

definition delivery_le :: "delivery_row \<Rightarrow> delivery_row \<Rightarrow> bool" where
  "delivery_le d d' \<longleftrightarrow> same_identity d d' \<and> dr_attempt_count d \<le> dr_attempt_count d'
     \<and> (\<forall>e. dr_settled_by_event_id d = Some e \<longrightarrow> dr_settled_by_event_id d' = Some e)
     \<and> (\<not> open_status (dr_status d) \<longrightarrow> dr_status d' = dr_status d)"

definition mission_le :: "mission_row \<Rightarrow> mission_row \<Rightarrow> bool" where
  "mission_le m m' \<longleftrightarrow> mr_id m' = mr_id m \<and> mr_created_by_agent_id m' = mr_created_by_agent_id m
     \<and> mr_coordinator_config m' = mr_coordinator_config m \<and> mr_expires_at m' = mr_expires_at m
     \<and> extends (mr_state m) (mr_state m') \<and> (is_terminal (mr_status m) \<longrightarrow> m' = m)"

definition participant_le :: "participant_row \<Rightarrow> participant_row \<Rightarrow> bool" where
  "participant_le p p' \<longleftrightarrow> pt_mission_id p' = pt_mission_id p \<and> pt_agent_id p' = pt_agent_id p
     \<and> pt_node_id p' = pt_node_id p \<and> pt_workspace_binding_id p' = pt_workspace_binding_id p
     \<and> (pt_status p = Accepted \<longrightarrow> p' = p)"

definition ledger_le :: "relay_db \<Rightarrow> relay_db \<Rightarrow> bool" where
  "ledger_le db db' \<longleftrightarrow> rows_le (=) (db_events db) (db_events db')
     \<and> rows_le (=) (db_receipts db) (db_receipts db')
     \<and> rows_le mission_le (db_missions db) (db_missions db')
     \<and> rows_le participant_le (db_participants db) (db_participants db')
     \<and> rows_le delivery_le (db_deliveries db) (db_deliveries db')"

lemma delivery_le_refl [simp]: "delivery_le d d"
  by (simp add: delivery_le_def same_identity_def)

lemma delivery_le_trans: "delivery_le d e \<Longrightarrow> delivery_le e f \<Longrightarrow> delivery_le d f"
  by (auto simp: delivery_le_def same_identity_def)

lemma mission_le_refl [simp]: "mission_le m m"
  by (simp add: mission_le_def extends_refl)

lemma mission_le_trans: "mission_le m n \<Longrightarrow> mission_le n k \<Longrightarrow> mission_le m k"
  by (auto simp: mission_le_def intro: extends_trans)

lemma participant_le_refl [simp]: "participant_le p p"
  by (simp add: participant_le_def)

lemma participant_le_trans: "participant_le p q \<Longrightarrow> participant_le q r \<Longrightarrow> participant_le p r"
  by (auto simp: participant_le_def)

lemma ledger_le_refl [simp]: "ledger_le db db"
  by (simp add: ledger_le_def rows_le_refl)

lemma ledger_le_trans:
  assumes "ledger_le db db'" and "ledger_le db' db''"
  shows "ledger_le db db''"
  using assms unfolding ledger_le_def
  by (elim conjE, intro conjI)
     (erule (1) rows_le_trans [rotated],
      auto intro: mission_le_trans participant_le_trans delivery_le_trans)+

section \<open>Operations on single rows\<close>

text \<open>One row under an operation of its Node or a cancellation: who it is for, what it is for and what settled
  it stay; the constraints of the table hold again.\<close>

definition row_step :: "delivery_row \<Rightarrow> delivery_row \<Rightarrow> bool" where
  "row_step d d' \<longleftrightarrow> delivery_le d d' \<and> dr_settled_by_event_id d' = dr_settled_by_event_id d
     \<and> (delivery_row_ok d \<longrightarrow> delivery_row_ok d')"

definition rows_step :: "relay_db \<Rightarrow> relay_db \<Rightarrow> bool" where
  "rows_step db db' \<longleftrightarrow> db_missions db' = db_missions db \<and> db_events db' = db_events db
     \<and> db_participants db' = db_participants db \<and> rows_le (=) (db_receipts db) (db_receipts db')
     \<and> list_all2 row_step (db_deliveries db) (db_deliveries db')"

lemma row_step_refl [simp]: "row_step d d"
  by (simp add: row_step_def)

lemma row_step_trans: "row_step d e \<Longrightarrow> row_step e f \<Longrightarrow> row_step d f"
  by (auto simp: row_step_def intro: delivery_le_trans)

lemma rows_step_refl [simp]: "rows_step db db"
  by (simp add: rows_step_def list_all2_refl rows_le_refl)

lemma rows_step_trans: "rows_step db db' \<Longrightarrow> rows_step db' db'' \<Longrightarrow> rows_step db db''"
  unfolding rows_step_def
  by (auto intro: rows_le_trans [of "(=)"] list_all2_trans [OF row_step_trans])

lemma rows_step_le: "rows_step db db' \<Longrightarrow> ledger_le db db'"
  unfolding rows_step_def ledger_le_def
  by (auto intro: rows_le_refl rows_le_all2 [OF list_all2_mono] simp: row_step_def)

text \<open>Such operations keep the invariant.\<close>

lemma row_step_unsettled:
  "list_all2 row_step ds ds' \<Longrightarrow>
    list_all2 row_step (filter (\<lambda>d. dr_mission_id d = i \<and> dr_settled_by_event_id d = None) ds)
      (filter (\<lambda>d. dr_mission_id d = i \<and> dr_settled_by_event_id d = None) ds')"
  by (induction rule: list_all2_induct) (auto simp: row_step_def delivery_le_def same_identity_def)

lemma row_step_maps:
  assumes "list_all2 row_step ds ds'"
  shows "map dr_id ds' = map dr_id ds" and "map dr_mission_id ds' = map dr_mission_id ds"
    and "map (row_work db) ds' = map (row_work db) ds"
    and "(\<forall>d \<in> set ds. delivery_row_ok d) \<Longrightarrow> \<forall>d \<in> set ds'. delivery_row_ok d"
    and "(\<forall>d \<in> set ds. \<not> open_status (dr_status d)) \<Longrightarrow> \<forall>d \<in> set ds'. \<not> open_status (dr_status d)"
  using assms
  by (induction rule: list_all2_induct) (auto simp: row_step_def delivery_le_def same_identity_def row_work_def)

lemma row_work_cong:
  "db_participants db' = db_participants db \<Longrightarrow> row_work db' = row_work db"
  by (simp add: row_work_def node_agent_def participants_of_def fun_eq_iff)

lemma participants_of_cong: "db_participants db' = db_participants db \<Longrightarrow> participants_of db' = participants_of db"
  by (simp add: participants_of_def fun_eq_iff)

lemma rows_step_work:
  assumes "rows_step db db'" and "work_inv db m"
  shows "work_inv db' m"
proof -
  have "list_all2 row_step (unsettled db (mr_id m)) (unsettled db' (mr_id m))"
    using assms(1) row_step_unsettled by (auto simp: rows_step_def unsettled_def)
  note same = row_step_maps [OF this]
  have "row_work db' = row_work db"
    using assms(1) by (intro row_work_cong) (simp add: rows_step_def)
  with same(3,5) assms(2) show ?thesis
    by (auto simp: work_inv_def simp flip: mset_map split: if_splits)
qed

lemma rows_step_inv:
  assumes "ledger_inv L db" and "rows_step db db'"
  shows "ledger_inv L db'"
proof -
  have frame: "db_missions db' = db_missions db" "db_events db' = db_events db"
      "db_participants db' = db_participants db" "list_all2 row_step (db_deliveries db) (db_deliveries db')"
    using assms(2) by (auto simp: rows_step_def)
  have "mission_row_inv L db' m" if "mission_row_inv L db m" for m
    using that frame(1-3) events_of_same [of db' db] participants_of_cong [of db' db] rows_step_work [OF assms(2)]
    by (simp add: mission_row_inv_def)
  moreover have "dr_mission_id ` set (db_deliveries db') = dr_mission_id ` set (db_deliveries db)"
    using row_step_maps(2) [OF frame(4)] by (metis list.set_map)
  ultimately show ?thesis
    using assms(1) frame(1-3) row_step_maps(1,4) [OF frame(4)] by (simp add: ledger_inv_def)
qed

text \<open>Changing one row by its id.\<close>

lemma set_delivery_step:
  assumes "distinct (map dr_id (db_deliveries db))" and "d \<in> set (db_deliveries db)" and "row_step d d'"
    and "dr_id d' = dr_id d"
  shows "rows_step db (set_delivery d' db)"
proof -
  have "row_step x (if dr_id x = dr_id d' then d' else x)" if "x \<in> set (db_deliveries db)" for x
    using distinct_key [OF assms(1) that assms(2)] assms(3,4) by auto
  then show ?thesis
    by (auto simp: rows_step_def set_delivery_def rows_le_refl list_all2_conv_all_nth)
qed

lemma rows_step_write:
  "rows_step db db' \<Longrightarrow> rows_step db (write_audit a x r db')"
  by (simp add: rows_step_def)

lemma insert_receipt_step: "insert_receipt r db = Inr db' \<Longrightarrow> rows_step db db'"
  by (auto dest!: insert_receipt_frame(1) simp: rows_step_def list_all2_refl intro!: rows_le_append rows_le_refl)

lemma record_operation_step: "record_operation L auth d r i out db = Inr db' \<Longrightarrow> rows_step db db'"
  by (auto elim!: record_operation_frame simp: rows_step_def list_all2_refl intro!: rows_le_append rows_le_refl)

end
