(* ===== verification/Append_Laws.thy ===== *)
theory Append_Laws
  imports Ledger_Order
begin

text \<open>
  The append of an event and the end of a Mission keep the invariant of the tables.  The work that the
  event settles is found by matching rows with the work that the state owes, which is one to one.
\<close>

section \<open>Matching rows and work\<close>

lemma mset_image_filter:
  assumes "mset (map f xs) = mset (map g ys)"
    and "\<And>x y. x \<in> set xs \<Longrightarrow> y \<in> set ys \<Longrightarrow> f x = g y \<Longrightarrow> P x = Q y"
  shows "mset (map f (filter P xs)) = mset (map g (filter Q ys))"
proof -
  define R where "R v \<longleftrightarrow> (\<exists>x \<in> set xs. f x = v \<and> P x)" for v
  have sets: "f ` set xs = g ` set ys" using arg_cong [OF assms(1), of set_mset] by simp
  have "P x = R (f x)" if "x \<in> set xs" for x
  proof -
    obtain y where "y \<in> set ys" "f x = g y" using sets \<open>x \<in> set xs\<close> by force
    then show ?thesis using assms(2) that by (metis R_def)
  qed
  moreover have "Q y = R (g y)" if "y \<in> set ys" for y
  proof -
    obtain x where "x \<in> set xs" "f x = g y" using sets \<open>y \<in> set ys\<close> by (metis (full_types) image_iff)
    then show ?thesis using assms(2) that by (metis R_def)
  qed
  moreover have "mset (map h (filter (\<lambda>x. R (h x)) zs)) = filter_mset R (mset (map h zs))" for h :: "'z \<Rightarrow> _" and zs
    by (induction zs) auto
  ultimately have "mset (map f (filter P xs)) = filter_mset R (mset (map f xs))"
    and "mset (map g (filter Q ys)) = filter_mset R (mset (map g ys))"
    by (metis (mono_tags, lifting) filter_cong)+
  with assms(1) show ?thesis by simp
qed

lemma distinct_image:
  assumes "mset (map f xs) = mset (map g ys)" and "distinct (map g ys)"
    and "x \<in> set xs" and "y \<in> set xs" and "f x = f y"
  shows "x = y"
  using distinct_key [of f xs x y] assms mset_eq_imp_distinct_iff [OF assms(1)] by simp

lemma node_agent_participant:
  assumes "distinct (map pt_node_id (participants_of db i))" and "p \<in> set (participants_of db i)"
  shows "node_agent db i (pt_node_id p) = Some (pt_agent_id p)"
proof -
  obtain q where "find (\<lambda>q. pt_node_id q = pt_node_id p) (participants_of db i) = Some q"
    using assms(2) by (cases "find (\<lambda>q. pt_node_id q = pt_node_id p) (participants_of db i)") (auto simp: find_None_iff)
  moreover from this have "q = p"
    using assms distinct_key [of pt_node_id "participants_of db i" q p]
    by (auto simp: find_Some_iff)
  ultimately show ?thesis by (simp add: node_agent_def)
qed

section \<open>The source of a result\<close>

lemma source_row:
  assumes "assert_source_delivery db i actor body auth = Inr u"
  obtains d p where "d \<in> set (db_deliveries db)" "dr_id d = body_delivery_id body" "dr_mission_id d = i"
    "p \<in> set (participants_of db i)" "pt_node_id p = dr_node_id d" "pt_agent_id p = actor"
    "dr_settled_by_event_id d = None" "expected_event_kind (dr_kind d) = event_kind body"
    "dr_contract_version d = body_version body"
    "event_kind body = Verification_recorded_kind \<Longrightarrow> dr_verification_round d = Some (body_round body)"
    "dr_status d = (if sa_executing auth then D_executing else D_stored)"
    "or_absent (sa_node_id auth) (Some (dr_node_id d))" "or_absent (sa_lease_id auth) (dr_active_lease_id d)"
    "or_absent (sa_fencing_token auth) (Some (dr_last_fencing_token d))"
proof -
  from assms obtain d p rest where row: "source_rows db i actor (body_delivery_id body) = (d, p) # rest"
    and ok: "dr_status d = (if sa_executing auth then D_executing else D_stored)"
      "dr_settled_by_event_id d = None" "expected_event_kind (dr_kind d) = event_kind body"
      "dr_contract_version d = body_version body"
      "event_kind body = Verification_recorded_kind \<longrightarrow> dr_verification_round d = Some (body_round body)"
      "or_absent (sa_node_id auth) (Some (dr_node_id d))" "or_absent (sa_lease_id auth) (dr_active_lease_id d)"
      "or_absent (sa_fencing_token auth) (Some (dr_last_fencing_token d))"
    unfolding assert_source_delivery_def by (auto split: if_split_asm list.splits)
  have "(d, p) \<in> set (source_rows db i actor (body_delivery_id body))" using row by simp
  then show thesis
    using ok by (intro that [of d p]) (auto simp: source_rows_def participants_of_def)
qed

text \<open>The work that a row stands for is the work that its result reports.\<close>

lemma source_row_work:
  assumes "assert_source_delivery db i actor body auth = Inr u" and "input_participant body = Some actor"
    and "distinct (map pt_node_id (participants_of db i))" and "\<forall>d \<in> set (db_deliveries db). delivery_row_ok d"
  obtains d w where "d \<in> set (unsettled db i)" "dr_id d = body_delivery_id body"
    "reported_work body = Some w" "row_work db d = target_work w"
proof -
  from assms(1) obtain d p where d: "d \<in> set (db_deliveries db)" "dr_id d = body_delivery_id body"
      "dr_mission_id d = i" "dr_settled_by_event_id d = None" "expected_event_kind (dr_kind d) = event_kind body"
      "dr_contract_version d = body_version body"
      "event_kind body = Verification_recorded_kind \<Longrightarrow> dr_verification_round d = Some (body_round body)"
    and p: "p \<in> set (participants_of db i)" "pt_node_id p = dr_node_id d" "pt_agent_id p = actor"
    by (rule source_row) blast
  have agent: "node_agent db (dr_mission_id d) (dr_node_id d) = Some actor"
    using node_agent_participant [OF assms(3) p(1)] p d(3) by simp
  have round: "(dr_kind d = K_verification) = (dr_verification_round d \<noteq> None)"
    using assms(4) d(1) by (auto simp: delivery_row_ok_def)
  have "\<exists>w. reported_work body = Some w \<and> row_work db d = target_work w"
    using assms(2) d round agent
    by (cases body; cases "dr_kind d") (auto simp: row_work_def target_work_def)
  with d show thesis by (auto intro: that simp: unsettled_def)
qed

section \<open>The constraints by status\<close>

lemma delivery_row_ok_status:
  "delivery_row_ok r \<longleftrightarrow>
     (dr_kind r = K_verification) = (dr_verification_round r \<noteq> None) \<and> nullable (\<lambda>v. 0 < v) (dr_verification_round r)
     \<and> 0 \<le> dr_attempt_count r \<and> 1 \<le> dr_max_attempts r \<and> dr_max_attempts r \<le> 100
     \<and> dr_attempt_count r \<le> dr_max_attempts r \<and> dr_last_fencing_token r = string_of_int (dr_attempt_count r)
     \<and> (dr_settled_by_event_id r \<noteq> None) = (dr_settled_at r \<noteq> None)
     \<and> (if active_lease_status (dr_status r)
        then dr_active_lease_id r \<noteq> None \<and> dr_lease_expires_at r \<noteq> None \<and> 0 < dr_attempt_count r
        else dr_active_lease_id r = None \<and> dr_lease_expires_at r = None)
     \<and> (dr_status r = D_stored \<longrightarrow> dr_settled_by_event_id r \<noteq> None \<or> dr_attempt_count r < dr_max_attempts r)
     \<and> (if dr_status r = D_acknowledged
        then dr_acknowledged_at r \<noteq> None \<and> 0 < dr_attempt_count r \<and> dr_settled_by_event_id r \<noteq> None
        else dr_acknowledged_at r = None)
     \<and> (if dr_status r = D_cancelled then dr_cancelled_at r \<noteq> None \<and> dr_cancellation_reason r \<noteq> None
        else dr_cancelled_at r = None \<and> dr_cancellation_reason r = None)
     \<and> (if dr_status r = D_dead_lettered then dr_dead_lettered_at r \<noteq> None else dr_dead_lettered_at r = None)"
  unfolding delivery_row_ok_def by (cases "dr_status r") (simp_all add: active_lease_status_def conj_ac)

section \<open>Settling\<close>

lemma settlement_matches:
  assumes work: "mset (map (row_work db) (unsettled db i)) = mset (map target_work (owed_work s))"
    and inv: "setup_inv s" and ids: "distinct (map dr_id (db_deliveries db))"
    and source: "d0 \<in> set (unsettled db i)" "dr_id d0 = source" "reported_work (ev_body e) = Some w"
      "row_work db d0 = target_work w"
    and settled: "should_settle_source_delivery t e"
    and match: "d \<in> set (unsettled db i)" "x \<in> set (owed_work s)" "row_work db d = target_work x"
  shows "settlement_condition i source t e d = settles t e x"
proof (cases "event_kind (ev_body e) = Verification_recorded_kind \<and> (cs_status t = M_active \<or> cs_status t = M_failed)")
  case True
  then show ?thesis
    using match settled source(3)
    by (auto simp: settlement_condition_def settles_def row_work_def target_work_def unsettled_def)
next
  case False
  have "distinct (map target_work (owed_work s))"
    using owed_distinct [OF inv] by (auto simp: distinct_map inj_on_def)
  then have "row_work db d = row_work db d0 \<Longrightarrow> d = d0"
    using distinct_image [OF work] match(1) source(1) by blast
  moreover have "dr_id d = source \<Longrightarrow> d = d0"
    using distinct_key [OF ids, of d d0] match(1) source(1,2) by (auto simp: unsettled_def)
  ultimately have "dr_id d = source \<longleftrightarrow> x = w"
    using match(3) source by auto
  with False show ?thesis
    using match settled source(3)
    by (auto simp: settlement_condition_def settles_def unsettled_def)
qed

definition settle_row :: "coordinator_event \<Rightarrow> int \<Rightarrow> delivery_row \<Rightarrow> delivery_row" where
  "settle_row e at d = d\<lparr>dr_settled_by_event_id := Some (ev_event_id e), dr_settled_at := Some at, dr_updated_at := at\<rparr>"

lemma settle_row_fields [simp]:
  "dr_id (settle_row e at d) = dr_id d" "dr_mission_id (settle_row e at d) = dr_mission_id d"
  "dr_settled_by_event_id (settle_row e at d) = Some (ev_event_id e)"
  by (simp_all add: settle_row_def)

lemma settle_row_ok [simp]: "delivery_row_ok d \<Longrightarrow> delivery_row_ok (settle_row e at d)"
  by (cases "dr_status d") (simp_all add: delivery_row_ok_status settle_row_def)

lemma settle_source_cases:
  assumes "settle_source_delivery L i t e db = Inr db'"
  obtains (unsettling) "db' = db" "source_delivery_id (ev_body e) = None \<or> \<not> should_settle_source_delivery t e"
  | (settled) source at where "source_delivery_id (ev_body e) = Some source" "should_settle_source_delivery t e"
      "db' = update_deliveries (settlement_condition i source t e) (settle_row e at) db"
  using assms unfolding settle_source_delivery_def settle_row_def
  by (auto split: option.splits if_splits intro: unsettling settled)

lemma unsettled_cong:
  "db_deliveries db' = db_deliveries db \<Longrightarrow> unsettled db' = unsettled db"
  by (simp add: unsettled_def fun_eq_iff)

lemma unsettled_settle:
  "unsettled (update_deliveries P (settle_row e at) db) i = filter (\<lambda>d. \<not> P d) (unsettled db i)"
proof -
  have "filter (\<lambda>d. dr_mission_id d = i \<and> dr_settled_by_event_id d = None)
      (map (\<lambda>d. if P d then settle_row e at d else d) ds)
    = filter (\<lambda>d. \<not> P d) (filter (\<lambda>d. dr_mission_id d = i \<and> dr_settled_by_event_id d = None) ds)" for ds
    by (induction ds) auto
  then show ?thesis by (simp add: unsettled_def)
qed

lemma reported_source: "reported_work body = None \<longleftrightarrow> source_delivery_id body = None"
  by (cases body) auto

lemma settled_work:
  assumes settle: "settle_source_delivery L i t e db = Inr db'"
    and work: "mset (map (row_work db) (unsettled db i)) = mset (map target_work (owed_work s))"
    and inv: "setup_inv s" and ids: "distinct (map dr_id (db_deliveries db))"
    and source: "\<And>source. source_delivery_id (ev_body e) = Some source \<Longrightarrow>
      \<exists>d w. d \<in> set (unsettled db i) \<and> dr_id d = source \<and> reported_work (ev_body e) = Some w
        \<and> row_work db d = target_work w"
  shows "mset (map (row_work db') (unsettled db' i))
    = mset (map target_work (filter (\<lambda>x. \<not> settles t e x) (owed_work s)))"
  using settle
proof (cases rule: settle_source_cases)
  case unsettling
  then have "filter (\<lambda>x. \<not> settles t e x) (owed_work s) = owed_work s"
    by (auto simp: settles_def reported_source)
  with unsettling(1) work show ?thesis by simp
next
  case (settled source at)
  obtain d0 w where d0: "d0 \<in> set (unsettled db i)" "dr_id d0 = source" "reported_work (ev_body e) = Some w"
      "row_work db d0 = target_work w"
    using source [OF settled(1)] by blast
  have "mset (map (row_work db) (filter (\<lambda>d. \<not> settlement_condition i source t e d) (unsettled db i)))
      = mset (map target_work (filter (\<lambda>x. \<not> settles t e x) (owed_work s)))"
  proof (rule mset_image_filter [OF work])
    fix d x
    assume "d \<in> set (unsettled db i)" "x \<in> set (owed_work s)" "row_work db d = target_work x"
    then have "settlement_condition i source t e d = settles t e x"
      by (rule settlement_matches [OF work inv ids d0 settled(2)])
    then show "(\<not> settlement_condition i source t e d) = (\<not> settles t e x)" by simp
  qed
  then show ?thesis
    using settled(3) row_work_cong [of db' db] by (simp add: unsettled_settle)
qed

section \<open>Creating\<close>

definition work_target :: "delivery_target \<Rightarrow> bool" where
  "work_target t \<longleftrightarrow> (tg_kind t = K_verification) = (tg_verification_round t \<noteq> None)
     \<and> nullable (\<lambda>v. 0 < v) (tg_verification_round t)"

lemma insert_delivery_frame:
  assumes "insert_delivery d db = Inr db'"
  shows "db' = db\<lparr>db_deliveries := db_deliveries db @ [d\<lparr>dr_cursor := db_last_cursor db + 1\<rparr>],
      db_last_cursor := db_last_cursor db + 1\<rparr>"
    and "dr_id d \<notin> dr_id ` set (db_deliveries db)"
  using assms by (auto simp: insert_delivery_def list_ex_iff split: if_splits)

definition same_but_deliveries :: "relay_db \<Rightarrow> relay_db \<Rightarrow> bool" where
  "same_but_deliveries db db' \<longleftrightarrow> db_missions db' = db_missions db \<and> db_events db' = db_events db
     \<and> db_participants db' = db_participants db \<and> db_receipts db' = db_receipts db"

lemma new_row_fields [simp]:
  "dr_mission_id (new_delivery_row j n i ev x parent now) = i"
  "dr_id (new_delivery_row j n i ev x parent now) = j"
  "dr_settled_by_event_id (new_delivery_row j n i ev x parent now) = None"
  "dr_status (new_delivery_row j n i ev x parent now) = D_stored"
  "dr_attempt_count (new_delivery_row j n i ev x parent now) = 0"
  "dr_last_fencing_token (new_delivery_row j n i ev x parent now) = ''0''"
  "dr_node_id (new_delivery_row j n i ev x parent now) = n"
  by (simp_all add: new_delivery_row_def)

lemma zero_token [simp]: "string_of_int 0 = ''0''"
  by (simp add: string_of_int_def nat_digits.simps digit_char_def) code_simp

lemma new_row_ok:
  "work_target x \<Longrightarrow> delivery_row_ok ((new_delivery_row j n i ev x parent now)\<lparr>dr_cursor := c\<rparr>)"
  by (simp add: delivery_row_ok_def new_delivery_row_def work_target_def active_lease_status_def)

lemma create_deliveries_frame:
  assumes "create_deliveries i ev now fresh ts db = Inr (ids, db')"
    and "distinct (map pt_node_id (participants_of db i))" and "distinct (map dr_id (db_deliveries db))"
    and "list_all work_target ts"
  obtains rows where "same_but_deliveries db db'" "db_deliveries db' = db_deliveries db @ rows"
    "distinct (map dr_id (db_deliveries db'))" "map (row_work db) rows = map target_work ts"
    "\<forall>d \<in> set rows. dr_mission_id d = i \<and> dr_settled_by_event_id d = None \<and> dr_status d = D_stored
      \<and> dr_attempt_count d = 0 \<and> delivery_row_ok d"
    "map dr_id rows = ids"
  using assms
proof (induction ts arbitrary: fresh db ids thesis)
  case Nil
  then show ?case by (auto simp: same_but_deliveries_def)
next
  case (Cons x ts)
  from Cons.prems(2) obtain p parent db1 ids' where p: "find (\<lambda>p. pt_agent_id p = tg_agent_id x) (participants_of db i) = Some p"
    and ins: "insert_delivery (new_delivery_row (fresh 0) (pt_node_id p) i ev x parent now) db = Inr db1"
    and rest: "create_deliveries i ev now (fresh \<circ> Suc) ts db1 = Inr (ids', db')" and ids: "ids = fresh 0 # ids'"
    by (auto simp: Let_def split: option.splits sum.splits)
  define row where "row = (new_delivery_row (fresh 0) (pt_node_id p) i ev x parent now)\<lparr>dr_cursor := db_last_cursor db + 1\<rparr>"
  note frame = insert_delivery_frame [OF ins, folded row_def]
  have parts: "participants_of db1 i = participants_of db i" "row_work db1 = row_work db"
    using frame(1) by (auto simp: participants_of_def intro!: row_work_cong)
  have distinct1: "distinct (map dr_id (db_deliveries db1))"
    using frame Cons.prems(4) by (auto simp: row_def)
  from p have pin: "p \<in> set (participants_of db i)" "pt_agent_id p = tg_agent_id x"
    by (auto simp: find_Some_iff)
  have work: "row_work db row = target_work x"
    using node_agent_participant [OF Cons.prems(3) pin(1)] pin(2)
    by (simp add: row_work_def target_work_def row_def new_delivery_row_def)
  have row: "delivery_row_ok row" "dr_mission_id row = i" "dr_settled_by_event_id row = None"
      "dr_status row = D_stored" "dr_attempt_count row = 0" "dr_id row = fresh 0"
    using Cons.prems(5) new_row_ok by (simp_all add: row_def)
  from Cons.IH [OF _ rest] Cons.prems(3,5) distinct1 parts obtain rows where
    "same_but_deliveries db1 db'" "db_deliveries db' = db_deliveries db1 @ rows"
    "distinct (map dr_id (db_deliveries db'))" "map (row_work db) rows = map target_work ts"
    "\<forall>d \<in> set rows. dr_mission_id d = i \<and> dr_settled_by_event_id d = None \<and> dr_status d = D_stored
      \<and> dr_attempt_count d = 0 \<and> delivery_row_ok d" "map dr_id rows = ids'"
    by auto
  then show ?case
    using frame(1) work row ids
    by (intro Cons.prems(1) [of "row # rows"]) (auto simp: same_but_deliveries_def)
qed

section \<open>The next event\<close>

lemma next_event_fresh:
  assumes "coordinator_inv L s" and "reduce_coordinator_event L s e = Inr t"
    and "ev_sequence_no e = cs_sequence_no s + 1"
  shows "reduce_fresh_event L s e = Inr t" and "coordinator_event_ok L e"
proof -
  have "e \<notin> set (cs_applied_events s)"
    using assms(1,3) by (auto simp: coordinator_inv_def log_inv_def in_set_conv_nth)
  then show "reduce_fresh_event L s e = Inr t" "coordinator_event_ok L e"
    using assms(2) by (auto simp: reduce_coordinator_event_Inr dest: find_replay_Some)
qed

lemma verification_starts:
  assumes "reduce_fresh_event L s e = Inr t" and "phase_inv s"
    and "cs_status s \<noteq> M_verifying" and "cs_status t = M_verifying"
  shows "0 < cs_verification_round t"
  using assms(1)
proof (cases rule: fresh_event_cases)
  case (turn p d v disposition msg revision u)
  from turn(3) show ?thesis
    by (cases rule: turn_effect_cases)
       (use turn(4) assms(2,4) in \<open>auto simp: after_turn_def turn_scheduled_def phase_inv_def split: if_splits\<close>)
qed (use assms(3,4) in \<open>auto split: if_splits\<close>)

lemma derived_work_targets:
  assumes "reduce_fresh_event L s e = Inr t" and "phase_inv s" and "derive_delivery_targets s t e = Inr ts"
  shows "list_all work_target ts"
  using assms(3) verification_starts [OF assms(1,2)]
  by (auto simp: derive_delivery_targets_def work_target_def list_all_iff split: if_splits option.splits)

lemma fresh_not_terminal: "reduce_fresh_event L s e = Inr t \<Longrightarrow> \<not> is_terminal (cs_status s)"
  by (auto simp: reduce_fresh_event_Inr)

section \<open>Moving a Mission forward\<close>

lemma work_inv_same:
  assumes "unsettled db' (mr_id m) = unsettled db (mr_id m)" and "db_participants db' = db_participants db"
  shows "work_inv db' m = work_inv db m"
  using assms row_work_cong [of db' db] by (simp add: work_inv_def)

lemma node_agent_cong:
  assumes "map (\<lambda>p. (pt_node_id p, pt_agent_id p)) (participants_of db' i)
    = map (\<lambda>p. (pt_node_id p, pt_agent_id p)) (participants_of db i)"
  shows "node_agent db' i = node_agent db i"
proof -
  have lookup: "map_option pt_agent_id (find (\<lambda>p. pt_node_id p = n) xs)
      = map_of (map (\<lambda>p. (pt_node_id p, pt_agent_id p)) xs) n" for n xs
    by (induction xs) auto
  show ?thesis
    unfolding node_agent_def lookup assms by simp
qed

lemma project_fields [simp]:
  "mr_id (project_mission t m) = mr_id m" "mr_state (project_mission t m) = t"
  "mr_status (project_mission t m) = cs_status t"
  "mr_last_event_sequence (project_mission t m) = cs_sequence_no t"
  "mr_contract_version (project_mission t m) = cs_contract_version t"
  "mr_coordinator_config (project_mission t m) = mr_coordinator_config m"
  "mr_expires_at (project_mission t m) = mr_expires_at m"
  by (simp_all add: project_mission_def)

lemma ledger_inv_cong:
  assumes "ledger_inv L db" and "db_missions db' = db_missions db" and "db_events db' = db_events db"
    and "db_participants db' = db_participants db" and "db_deliveries db' = db_deliveries db"
  shows "ledger_inv L db'"
proof -
  have "mission_row_inv L db' m = mission_row_inv L db m" for m
    using assms(2-) events_of_same [of db' db] participants_of_cong [of db' db]
      work_inv_same [of db' m db] unsettled_cong [of db' db]
    by (simp add: mission_row_inv_def)
  with assms show ?thesis by (simp add: ledger_inv_def)
qed

lemma advance_mission:
  assumes inv: "ledger_inv L db" and m: "m \<in> set (db_missions db)"
    and row: "er_mission_id row = mr_id m" "event_of_row row = Some e"
    and step: "reduce_coordinator_event L (mr_state m) e = Inr t" "ev_sequence_no e = cs_sequence_no (mr_state m) + 1"
    and frame: "db_missions db' = db_missions db" "db_events db' = db_events db @ [row]"
      "db_participants db' = db_participants db"
    and rows: "distinct (map dr_id (db_deliveries db'))" "\<forall>d \<in> set (db_deliveries db'). delivery_row_ok d"
      "dr_mission_id ` set (db_deliveries db') \<subseteq> mr_id ` set (db_missions db)"
    and work: "work_inv db' (project_mission t m)"
      "\<And>x. x \<in> set (db_missions db) \<Longrightarrow> mr_id x \<noteq> mr_id m \<Longrightarrow> work_inv db' x"
  shows "ledger_inv L (update_mission (mr_id m) (project_mission t) db')"
proof -
  let ?db = "update_mission (mr_id m) (project_mission t) db'"
  have minv: "mission_row_inv L db m" and keys: "distinct (map mr_id (db_missions db))"
    using inv m by (auto simp: ledger_inv_def)
  have ok: "coordinator_event_ok L e" by (rule next_event_fresh [OF mission_state_inv [OF minv] step])
  have replay: "replay_rows L (mr_coordinator_config m) (events_of db (mr_id m)) = Inr (mr_state m)"
    using minv by (simp add: mission_row_inv_def)
  have seq: "er_sequence_no row = cs_sequence_no (mr_state m) + 1"
    using event_of_row_columns [OF row(2)] step(2) by simp
  have "\<forall>x \<in> set (events_of db (er_mission_id row)). er_sequence_no x \<le> er_sequence_no row"
    using replayed_sequence(1) [OF replay] row(1) seq by force
  note events = events_of_append [OF this frame(2)]
  have others: "events_of ?db i = (if i = mr_id m then events_of db i @ [row] else events_of db i)" for i
    using events row(1) events_of_same [of ?db db'] by simp
  have parts: "participants_of ?db = participants_of db"
    using frame(3) by (auto intro: participants_of_cong)
  have work': "work_inv ?db x = work_inv db' x" for x
    using unsettled_cong [of ?db db'] by (intro work_inv_same) simp_all
  have "mission_row_inv L ?db (project_mission t m)"
    using minv replay_rows_snoc [OF replay row(2) ok step(1)] row(1) work(1) work' parts others
    by (simp add: mission_row_inv_def)
  moreover have "mission_row_inv L ?db x" if "x \<in> set (db_missions db)" "mr_id x \<noteq> mr_id m" for x
    using inv that work(2) [OF that] others work' parts by (auto simp: ledger_inv_def mission_row_inv_def)
  moreover have "x = m" if "x \<in> set (db_missions db)" "mr_id x = mr_id m" for x
    using distinct_key [OF keys that(1) m that(2)] .
  ultimately have all: "\<forall>x \<in> set (db_missions ?db). mission_row_inv L ?db x"
    using frame(1) by auto
  have same: "map mr_id (db_missions ?db) = map mr_id (db_missions db)"
    using frame(1) by (auto simp: comp_def)
  then have ids: "mr_id ` set (db_missions ?db) = mr_id ` set (db_missions db)"
    by (metis list.set_map)
  from same have "distinct (map mr_id (db_missions ?db))"
    using keys by (simp only:)
  moreover have "er_mission_id ` set (db_events ?db) \<subseteq> mr_id ` set (db_missions db)"
    "dr_mission_id ` set (db_deliveries ?db) \<subseteq> mr_id ` set (db_missions db)"
    "pt_mission_id ` set (db_participants ?db) \<subseteq> mr_id ` set (db_missions db)"
    using inv rows(3) frame row(1) m by (auto simp: ledger_inv_def)
  moreover have "distinct (map dr_id (db_deliveries ?db))" "\<forall>d \<in> set (db_deliveries ?db). delivery_row_ok d"
    using rows(1,2) by simp_all
  ultimately show ?thesis
    using all unfolding ledger_inv_def ids by (intro conjI)
qed

section \<open>Storing an event\<close>

text \<open>What the code relies on in \<open>Date\<close>: a date that it printed and that the schema accepts is read back as
  the same date.\<close>

definition date_law :: "host_lib \<Rightarrow> bool" where
  "date_law L \<longleftrightarrow> (\<forall>t. iso_timestamp_ok L (to_iso_string t) \<longrightarrow> date_parse L (to_iso_string t) = Some t)"

lemma event_row_read_back:
  assumes "date_law L" and "coordinator_event_ok L e" and "ev_created_at e = to_iso_string now"
    and "event_row_of L e actor source parent = Inr row"
  shows "event_of_row row = Some e" and "er_mission_id row = ev_mission_id e" and "er_created_at row = now"
    and "er_id row = ev_event_id e" and "er_actor_agent_id row = actor" and "er_source_delivery_id row = source"
    and "map_of payload = map_of (er_payload row) \<Longrightarrow> event_of_row (row\<lparr>er_payload := payload\<rparr>) = Some e"
proof -
  have "iso_timestamp_ok L (to_iso_string now)"
    using assms(2,3) by (simp add: coordinator_event_ok_def event_envelope_ok_def event_envelope.defs)
  then have "date_parse L (to_iso_string now) = Some now" using assms(1) by (simp add: date_law_def)
  moreover from this assms(4) have columns: "er_type row = body_type (ev_body e)" "er_payload row = body_fields (ev_body e)"
    by (auto simp: event_row_of_def event_payload_fields assms(3))
  moreover note event_of_row_body [OF columns(1), unfolded columns(2), OF refl]
    event_of_row_body [of "row\<lparr>er_payload := payload\<rparr>" "ev_body e", simplified columns event_row.simps]
  ultimately show "event_of_row row = Some e" "er_mission_id row = ev_mission_id e" "er_created_at row = now"
    "er_id row = ev_event_id e" "er_actor_agent_id row = actor" "er_source_delivery_id row = source"
    "map_of payload = map_of (er_payload row) \<Longrightarrow> event_of_row (row\<lparr>er_payload := payload\<rparr>) = Some e"
    using assms(3,4) by (auto simp: event_row_of_def)
qed

lemma settle_source_update:
  assumes "settle_source_delivery L i t e db = Inr db'"
  obtains P at where "db' = update_deliveries P (settle_row e at) db"
    "\<And>d. P d \<Longrightarrow> dr_mission_id d = i \<and> dr_settled_by_event_id d = None"
  using assms
proof (cases rule: settle_source_cases)
  case unsettling
  then show ?thesis by (intro that [of "\<lambda>d. False" 0]) (simp_all add: update_deliveries_def)
next
  case (settled source at)
  then show ?thesis by (intro that [OF settled(3)]) (auto simp: settlement_condition_def split: if_splits)
qed

lemma settle_source_rows:
  assumes "settle_source_delivery L i t e db = Inr db'"
  shows "same_but_deliveries db db'" and "map dr_id (db_deliveries db') = map dr_id (db_deliveries db)"
    and "map dr_mission_id (db_deliveries db') = map dr_mission_id (db_deliveries db)"
    and "(\<forall>d \<in> set (db_deliveries db). delivery_row_ok d) \<Longrightarrow> \<forall>d \<in> set (db_deliveries db'). delivery_row_ok d"
    and "list_all2 delivery_le (db_deliveries db) (db_deliveries db')"
    and "j \<noteq> i \<Longrightarrow> unsettled db' j = unsettled db j"
    and "set (unsettled db' j) \<subseteq> set (unsettled db j)"
proof -
  obtain P at where db': "db' = update_deliveries P (settle_row e at) db"
    and cond: "\<And>d. P d \<Longrightarrow> dr_mission_id d = i \<and> dr_settled_by_event_id d = None"
    using settle_source_update [OF assms] by metis
  have le: "delivery_le d (if P d then settle_row e at d else d)" for d
    using cond [of d] by (auto simp: delivery_le_def same_identity_def settle_row_def)
  show "same_but_deliveries db db'" "map dr_id (db_deliveries db') = map dr_id (db_deliveries db)"
    "map dr_mission_id (db_deliveries db') = map dr_mission_id (db_deliveries db)"
    "(\<forall>d \<in> set (db_deliveries db). delivery_row_ok d) \<Longrightarrow> \<forall>d \<in> set (db_deliveries db'). delivery_row_ok d"
    "list_all2 delivery_le (db_deliveries db) (db_deliveries db')"
    unfolding db' using le by (auto simp: same_but_deliveries_def list_all2_conv_all_nth)
  show "set (unsettled db' j) \<subseteq> set (unsettled db j)"
    unfolding db' unsettled_settle by auto
  show "unsettled db' j = unsettled db j" if "j \<noteq> i"
    unfolding db' unsettled_settle filter_id_conv using cond that by (auto simp: unsettled_def)
qed

lemma unsettled_append:
  assumes "db_deliveries db' = db_deliveries db @ rows"
    and "\<forall>d \<in> set rows. dr_mission_id d = i \<and> dr_settled_by_event_id d = None"
  shows "unsettled db' j = unsettled db j @ (if j = i then rows else [])"
  using assms by (auto simp: unsettled_def filter_id_conv)

text \<open>All the writes of an append, at the level of the tables.\<close>

lemma stored_work:
  assumes inv: "ledger_inv L db" and m: "m \<in> set (db_missions db)"
    and step: "reduce_fresh_event L (mr_state m) e = Inr t" and agent: "appendable (ev_body e)"
    and ins: "db1 = db\<lparr>db_events := evs\<rparr>"
    and settle: "settle_source_delivery L (mr_id m) t e db1 = Inr db2"
    and derive: "derive_delivery_targets (mr_state m) t e = Inr ts"
    and create: "create_deliveries (mr_id m) ev now fresh ts db2 = Inr (ids, db3)"
    and source: "\<forall>source. source_delivery_id (ev_body e) = Some source \<longrightarrow>
      (\<exists>d w. d \<in> set (unsettled db (mr_id m)) \<and> dr_id d = source \<and> reported_work (ev_body e) = Some w
        \<and> row_work db d = target_work w)"
  shows "same_but_deliveries db1 db3" and "distinct (map dr_id (db_deliveries db3))"
    and "\<forall>d \<in> set (db_deliveries db3). delivery_row_ok d"
    and "dr_mission_id ` set (db_deliveries db3) \<subseteq> mr_id ` set (db_missions db)"
    and "rows_le delivery_le (db_deliveries db) (db_deliveries db3)"
    and "work_inv db3 (project_mission t m)"
    and "j \<noteq> mr_id m \<Longrightarrow> unsettled db3 j = unsettled db j"
    and "d \<in> set (unsettled db3 j) \<Longrightarrow> d \<in> set (unsettled db j) \<or> dr_status d = D_stored"
proof -
  let ?i = "mr_id m" and ?s = "mr_state m"
  have minv: "mission_row_inv L db m" and oks: "\<forall>d \<in> set (db_deliveries db). delivery_row_ok d"
    and dist: "distinct (map dr_id (db_deliveries db))"
    and missions: "dr_mission_id ` set (db_deliveries db) \<subseteq> mr_id ` set (db_missions db)"
    using inv m by (auto simp: ledger_inv_def)
  then have cinv: "setup_inv ?s" "contract_inv ?s" "phase_inv ?s"
    using mission_state_inv by (auto simp: coordinator_inv_def)
  have one: "db_deliveries db1 = db_deliveries db" "unsettled db1 = unsettled db" "row_work db1 = row_work db"
      "participants_of db1 = participants_of db"
    using ins by (auto intro: unsettled_cong row_work_cong participants_of_cong)
  have "\<not> is_terminal (cs_status ?s)" using fresh_not_terminal [OF step] .
  then have work: "mset (map (row_work db1) (unsettled db1 ?i)) = mset (map target_work (owed_work ?s))"
    using minv one by (simp add: mission_row_inv_def work_inv_def del: mset_map)
  have after: "owed_after ?s t e" by (rule owed_after_step [OF step cinv agent])
  note two = settle_source_rows [OF settle]
  have same2: "row_work db2 = row_work db1" "participants_of db2 = participants_of db1"
    using two(1) by (auto simp: same_but_deliveries_def intro: row_work_cong participants_of_cong)
  have dist2: "distinct (map dr_id (db_deliveries db2))" using two(2) dist one by simp
  have nodes: "distinct (map pt_node_id (participants_of db2 ?i))"
    using minv same2 one by (simp add: mission_row_inv_def)
  have settled: "mset (map (row_work db2) (unsettled db2 ?i))
      = mset (map target_work (filter (\<lambda>x. \<not> settles t e x) (owed_work ?s)))"
    by (rule settled_work [OF settle work cinv(1)]) (use dist source one in auto)
  obtain rows where three: "same_but_deliveries db2 db3" "db_deliveries db3 = db_deliveries db2 @ rows"
      "distinct (map dr_id (db_deliveries db3))" "map (row_work db2) rows = map target_work ts"
      "\<forall>d \<in> set rows. dr_mission_id d = ?i \<and> dr_settled_by_event_id d = None \<and> dr_status d = D_stored
        \<and> dr_attempt_count d = 0 \<and> delivery_row_ok d"
    by (rule create_deliveries_frame [OF create nodes dist2 derived_work_targets [OF step cinv(3) derive]])
       (rule that)
  have same3: "row_work db3 = row_work db2"
    using three(1) by (auto simp: same_but_deliveries_def intro: row_work_cong)
  have open3: "unsettled db3 j = unsettled db2 j @ (if j = ?i then rows else [])" for j
    using three by (intro unsettled_append) auto
  have "mset (map (row_work db3) (unsettled db3 ?i)) = mset (map target_work (owed_work t))"
    using after derive settled three(4) open3 same3 by (simp add: owed_after_def)
  then show "work_inv db3 (project_mission t m)"
    using owed_idle [of t] by (cases "cs_status t") (simp_all add: work_inv_def is_terminal_def)
  show "same_but_deliveries db1 db3" using two(1) three(1) by (simp add: same_but_deliveries_def)
  show "distinct (map dr_id (db_deliveries db3))" by (rule three(3))
  show "\<forall>d \<in> set (db_deliveries db3). delivery_row_ok d"
    using two(4) oks one three(2,5) by auto
  have "dr_mission_id ` set (db_deliveries db2) = dr_mission_id ` set (db_deliveries db)"
    using two(3) one(1) by (metis list.set_map)
  then show "dr_mission_id ` set (db_deliveries db3) \<subseteq> mr_id ` set (db_missions db)"
    using missions three(2,5) m by (simp add: image_Un) auto
  show "rows_le delivery_le (db_deliveries db) (db_deliveries db3)"
    unfolding three(2) using two(5) one(1) by (intro rows_le_append rows_le_all2) simp
  show "d \<in> set (unsettled db j) \<or> dr_status d = D_stored" if "d \<in> set (unsettled db3 j)"
    using that open3 [of j] three(5) subsetD [OF two(7) [of j]] one by (auto split: if_splits)
  show "unsettled db3 j = unsettled db j" if "j \<noteq> ?i"
    using open3 two(6) [OF that] that one by simp
qed

section \<open>The append\<close>

lemma append_cases:
  assumes "append_mission_event_in_transaction L fresh clock tx_now db m request = Inr (result, db')"
  obtains (replayed) row where "db' = db" "row \<in> set (db_events db)" "er_mission_id row = mr_id m"
      "er_idempotency_key row = ai_idempotency_key (ap_input request)"
      "append_replay L db m request row = Inr result"
  | (stored) now current event t where
      "\<forall>r \<in> set (db_events db). er_mission_id r = mr_id m
        \<longrightarrow> er_idempotency_key r \<noteq> ai_idempotency_key (ap_input request)"
      "authorize_append L db m request now = Inr ()" "load_current_state L db m = Inr current"
      "authorize_source db m request = Inr ()"
      "event = event_of_input (ap_input request) (fresh 0) (mr_id m) (cs_sequence_no current + 1) now"
      "coordinator_event_ok L event" "reduce_coordinator_event L current event = Inr t"
      "store_event L (fresh \<circ> Suc) tx_now db m request current event t = Inr (result, db')"
      "case ap_recorded_at request of Some x \<Rightarrow> now = x | None \<Rightarrow> clock = Some now"
proof (cases "find (\<lambda>r. er_mission_id r = mr_id m
      \<and> er_idempotency_key r = ai_idempotency_key (ap_input request)) (db_events db)")
  case None
  from assms None obtain now current t where
      "(case ap_recorded_at request of Some t \<Rightarrow> Inr t | None \<Rightarrow> read_database_clock clock) = Inr now"
      "authorize_append L db m request now = Inr ()" "load_current_state L db m = Inr current"
      "authorize_source db m request = Inr ()"
    and event: "coordinator_event_ok L (event_of_input (ap_input request) (fresh 0) (mr_id m) (cs_sequence_no current + 1) now)"
      "reduce_for_append L current (event_of_input (ap_input request) (fresh 0) (mr_id m) (cs_sequence_no current + 1) now) = Inr t"
      "store_event L (fresh \<circ> Suc) tx_now db m request current
        (event_of_input (ap_input request) (fresh 0) (mr_id m) (cs_sequence_no current + 1) now) t = Inr (result, db')"
    unfolding append_mission_event_in_transaction_def
    by (auto simp: Let_def split: if_splits)
  moreover from event(2) have "reduce_coordinator_event L current
      (event_of_input (ap_input request) (fresh 0) (mr_id m) (cs_sequence_no current + 1) now) = Inr t"
    by (auto simp: reduce_for_append_def split: sum.splits coordinator_error.splits)
  ultimately show ?thesis
    using None
    by (intro stored [OF _ _ _ _ refl])
       (auto simp: find_None_iff read_database_clock_def split: option.splits)
next
  case (Some row)
  with assms show ?thesis
    by (intro replayed [of row])
       (auto simp: append_mission_event_in_transaction_def find_Some_iff split: sum.splits)
qed

lemma store_event_cases:
  assumes "store_event L fresh tx_now db m request current event t = Inr (result, db')"
  obtains row db1 db2 targets ids db3 where
    "event_row_of L event (Some (ap_actor_agent_id request)) (source_delivery_id (ev_body event))
      (map_option er_id (last_option (events_of db (mr_id m)))) = Inr row"
    "insert_event row db = Inr db1" "settle_source_delivery L (mr_id m) t event db1 = Inr db2"
    "derive_delivery_targets current t event = Inr targets"
    "create_deliveries (mr_id m) (ev_event_id event) tx_now fresh targets db2 = Inr (ids, db3)"
    "result = \<lparr>ar_event = event, ar_delivery_ids = ids, ar_state = t, ar_replayed = False\<rparr>"
    "db' = write_audit (Some (ap_actor_agent_id request)) ''mission.event.append'' (ev_event_id event)
      (update_mission (mr_id m) (project_mission t) db3)"
  using assms unfolding store_event_def Let_def by auto

lemma load_current_state_inv:
  "mission_row_inv L db m \<Longrightarrow> load_current_state L db m = Inr current \<Longrightarrow> current = mr_state m"
  by (auto simp: load_current_state_def mission_row_inv_def split: sum.splits if_splits)

lemma authorized_source:
  assumes "authorize_append L db m request now = Inr ()" and "authorize_source db m request = Inr ()"
  shows "appendable (ai_body (ap_input request))"
    and "\<not> (\<exists>ids contract. ai_body (ap_input request) = Participants_accepted ids contract) \<Longrightarrow>
      \<exists>auth. ap_source_authorization request = Some auth
        \<and> assert_source_delivery db (mr_id m) (ap_actor_agent_id request) (ai_body (ap_input request)) auth = Inr ()
        \<and> input_participant (ai_body (ap_input request)) = Some (ap_actor_agent_id request)"
proof -
  have kinds: "event_kind body \<noteq> Mission_terminal_kind" if "assert_source_delivery db i actor body auth = Inr u" for i actor body auth u
  proof -
    from that show ?thesis
    proof (rule source_row)
      fix d
      assume "expected_event_kind (dr_kind d) = event_kind body"
      then show ?thesis by (cases "dr_kind d") auto
    qed
  qed
  show "appendable (ai_body (ap_input request))"
    using assms(2) kinds
    by (cases "ai_body (ap_input request)") (fastforce simp: authorize_source_def split: option.splits)+
  show "\<exists>auth. ap_source_authorization request = Some auth
        \<and> assert_source_delivery db (mr_id m) (ap_actor_agent_id request) (ai_body (ap_input request)) auth = Inr ()
        \<and> input_participant (ai_body (ap_input request)) = Some (ap_actor_agent_id request)"
    if "\<not> (\<exists>ids contract. ai_body (ap_input request) = Participants_accepted ids contract)"
    using that assms kinds
    by (cases "ai_body (ap_input request)")
       (fastforce simp: authorize_source_def authorize_append_def assert_authorized_actor_def Let_def
         split: option.splits if_splits sum.splits)+
qed

lemma event_of_input_fields [simp]:
  "ev_sequence_no (event_of_input i j m n now) = n" "ev_mission_id (event_of_input i j m n now) = m"
  "ev_created_at (event_of_input i j m n now) = to_iso_string now" "ev_event_id (event_of_input i j m n now) = j"
  "ev_body (event_of_input i j m n now) = ai_body i" "ev_idempotency_key (event_of_input i j m n now) = ai_idempotency_key i"
  by (simp_all add: event_of_input_def)

text \<open>What a stored event did, with the Mission row it was appended to.\<close>

record stored_append =
  sp_event :: coordinator_event
  sp_state :: coordinator_state
  sp_row :: event_row

definition appended :: "host_lib \<Rightarrow> relay_db \<Rightarrow> mission_row \<Rightarrow> append_request \<Rightarrow> stored_append \<Rightarrow> relay_db \<Rightarrow> bool" where
  "appended L db m request a db' \<longleftrightarrow>
     reduce_fresh_event L (mr_state m) (sp_event a) = Inr (sp_state a)
     \<and> ev_body (sp_event a) = ai_body (ap_input request) \<and> event_of_row (sp_row a) = Some (sp_event a)
     \<and> er_actor_agent_id (sp_row a) = Some (ap_actor_agent_id request)
     \<and> er_mission_id (sp_row a) = mr_id m
     \<and> db_events db' = db_events db @ [sp_row a]
     \<and> db_missions db' = map (\<lambda>x. if mr_id x = mr_id m then project_mission (sp_state a) x else x) (db_missions db)
     \<and> db_participants db' = db_participants db \<and> db_receipts db' = db_receipts db"

lemma append_inv:
  assumes append: "append_mission_event_in_transaction L fresh clock tx_now db m request = Inr (result, db')"
    and inv: "ledger_inv L db" and m: "m \<in> set (db_missions db)" and date: "date_law L"
  shows "ledger_inv L db' \<and> ledger_le db db'
    \<and> (\<forall>j. \<forall>d \<in> set (unsettled db' j). d \<in> set (unsettled db j) \<or> dr_status d = D_stored)
    \<and> (db' = db \<and> ar_replayed result
       \<or> (\<exists>a. appended L db m request a db' \<and> ar_event result = sp_event a \<and> ar_state result = sp_state a
          \<and> \<not> ar_replayed result))"
  using append
proof (cases rule: append_cases)
  case (replayed row)
  then have "ar_replayed result"
    by (auto simp: append_replay_def split: if_splits)
  with replayed(1) inv show ?thesis by simp
next
  case (stored now current e t)
  have minv: "mission_row_inv L db m" using inv m by (simp add: ledger_inv_def)
  note current = load_current_state_inv [OF minv stored(3)]
  have seq: "ev_sequence_no e = cs_sequence_no (mr_state m) + 1" and body: "ev_body e = ai_body (ap_input request)"
    and created: "ev_created_at e = to_iso_string now" and mid: "ev_mission_id e = mr_id m"
    using stored(5) current by simp_all
  have step: "reduce_coordinator_event L (mr_state m) e = Inr t" using stored(7) current by simp
  note fresh = next_event_fresh(1) [OF mission_state_inv [OF minv] step seq]
  note auth = authorized_source [OF stored(2,4)]
  obtain row db1 db2 targets ids db3 where
    row: "event_row_of L e (Some (ap_actor_agent_id request)) (source_delivery_id (ev_body e))
        (map_option er_id (last_option (events_of db (mr_id m)))) = Inr row"
    and ins: "insert_event row db = Inr db1" and settle: "settle_source_delivery L (mr_id m) t e db1 = Inr db2"
    and derive: "derive_delivery_targets current t e = Inr targets"
    and create: "create_deliveries (mr_id m) (ev_event_id e) tx_now (fresh \<circ> Suc) targets db2 = Inr (ids, db3)"
    and result: "result = \<lparr>ar_event = e, ar_delivery_ids = ids, ar_state = t, ar_replayed = False\<rparr>"
    and db': "db' = write_audit (Some (ap_actor_agent_id request)) ''mission.event.append'' (ev_event_id e)
      (update_mission (mr_id m) (project_mission t) db3)"
    using stored(8) by (rule store_event_cases)
  note stored_row = event_row_read_back [OF date stored(6) created row]
  have db1: "db1 = db\<lparr>db_events := db_events db @ [row]\<rparr>" using ins by (simp add: insert_event_Inr)
  have source: "\<exists>d w. d \<in> set (unsettled db (mr_id m)) \<and> dr_id d = source \<and> reported_work (ev_body e) = Some w
      \<and> row_work db d = target_work w" if "source_delivery_id (ev_body e) = Some source" for source
  proof -
    from that body have "\<not> (\<exists>ids contract. ai_body (ap_input request) = Participants_accepted ids contract)" by auto
    from auth(2) [OF this] obtain a where
      a: "assert_source_delivery db (mr_id m) (ap_actor_agent_id request) (ev_body e) a = Inr ()"
        "input_participant (ev_body e) = Some (ap_actor_agent_id request)"
      using body by auto
    have "distinct (map pt_node_id (participants_of db (mr_id m)))" "\<forall>d \<in> set (db_deliveries db). delivery_row_ok d"
      using minv inv by (simp_all add: mission_row_inv_def ledger_inv_def)
    from source_row_work [OF a this] obtain d w where "d \<in> set (unsettled db (mr_id m))"
      "dr_id d = body_delivery_id (ev_body e)" "reported_work (ev_body e) = Some w" "row_work db d = target_work w" .
    moreover have "body_delivery_id (ev_body e) = source" using that by (cases "ev_body e") auto
    ultimately show ?thesis by blast
  qed
  have agent: "appendable (ev_body e)" using auth(1) body by simp
  have sources: "\<forall>source. source_delivery_id (ev_body e) = Some source \<longrightarrow>
      (\<exists>d w. d \<in> set (unsettled db (mr_id m)) \<and> dr_id d = source \<and> reported_work (ev_body e) = Some w
        \<and> row_work db d = target_work w)"
    using source by simp
  note work = stored_work [OF inv m fresh agent db1 settle derive [unfolded current] create sources]
  have same: "db_missions db3 = db_missions db" "db_events db3 = db_events db @ [row]"
      "db_participants db3 = db_participants db" "db_receipts db3 = db_receipts db"
    using work(1) db1 by (simp_all add: same_but_deliveries_def)
  have others: "work_inv db3 x" if "x \<in> set (db_missions db)" "mr_id x \<noteq> mr_id m" for x
    using work_inv_same [OF work(7) [OF that(2)] same(3)] inv that(1) by (simp add: ledger_inv_def mission_row_inv_def)
  have "ledger_inv L (update_mission (mr_id m) (project_mission t) db3)"
    by (rule advance_mission [OF inv m _ stored_row(1) step seq same(1-3) work(2-4,6) others])
       (use stored_row(2) mid in simp_all)
  then have "ledger_inv L db'" unfolding db' by (rule ledger_inv_cong) simp_all
  moreover have "ledger_le db db'"
  proof -
    have "mission_le x (project_mission t x)" if "x \<in> set (db_missions db)" "mr_id x = mr_id m" for x
    proof -
      have "x = m" using inv m that distinct_key [of mr_id "db_missions db" x m] by (simp add: ledger_inv_def)
      moreover have "extends (mr_state m) t" "\<not> is_terminal (mr_status m)"
        using fresh_event_extends [OF fresh] mission_state_inv [OF minv] fresh_not_terminal [OF fresh] minv
        by (auto simp: coordinator_inv_def mission_row_inv_def)
      ultimately show ?thesis by (simp add: mission_le_def project_mission_def)
    qed
    then show ?thesis
      using same work(5) unfolding ledger_le_def db'
      by (auto intro!: rows_le_map rows_le_append rows_le_refl)
  qed
  moreover have "d \<in> set (unsettled db j) \<or> dr_status d = D_stored" if "d \<in> set (unsettled db' j)" for d j
    using work(8) [of d j] that unsettled_cong [of db' db3] by (simp add: db')
  moreover have "appended L db m request \<lparr>sp_event = e, sp_state = t, sp_row = row\<rparr> db'"
    using fresh body stored_row mid same by (simp add: appended_def db')
  ultimately show ?thesis using result by (metis stored_append.select_convs(1,2) append_result.select_convs(1,3,4))
qed

end
