(* ===== verification/Reconcile_Laws.thy ===== *)
theory Reconcile_Laws
  imports Append_Laws
begin

text \<open>
  Ending a Mission keeps the invariant of the tables, and leaves nothing open; a Mission that goes on has no
  dead letter among the work it waits for.
\<close>

section \<open>Cancelling a list of deliveries\<close>

lemma cancel_each_frame:
  assumes "cancel_each fresh key check f reason now actor ds db = Inr db'"
    and "distinct (map dr_id ds)" and "\<And>x. dr_id (f x) = dr_id x"
  shows "db_missions db' = db_missions db \<and> db_events db' = db_events db
    \<and> db_participants db' = db_participants db \<and> rows_le (=) (db_receipts db) (db_receipts db')
    \<and> db_deliveries db' = map (\<lambda>x. if dr_id x \<in> dr_id ` set ds then f x else x) (db_deliveries db)"
  using assms(1,2)
proof (induction ds arbitrary: fresh db)
  case Nil
  then show ?case by (simp add: rows_le_refl)
next
  case (Cons d ds)
  from Cons.prems(1) obtain db1 where
    ins: "insert_receipt (cancel_receipt (fresh 0) (key d) reason now d)
        (update_deliveries (\<lambda>x. dr_id x = dr_id d) f db) = Inr db1"
    and rest: "cancel_each (fresh \<circ> Suc) key check f reason now actor ds
        (write_audit actor ''delivery.cancel'' (dr_id d) db1) = Inr db'"
    by (auto split: if_splits)
  note frame = insert_receipt_frame(1) [OF ins]
  have "rows_le (=) (db_receipts db) (db_receipts db1)"
    using frame by (auto intro: rows_le_append rows_le_refl)
  with Cons.IH [OF rest] Cons.prems(2) frame show ?case
    by (auto simp: assms(3) intro: rows_le_trans [of "(=)"])
qed

lemma deliveries_where_set [simp]: "set (deliveries_where db P) = {d \<in> set (db_deliveries db). P d}"
  by (auto simp: deliveries_where_def)

lemma deliveries_where_distinct:
  assumes "distinct (map dr_id (db_deliveries db))"
  shows "distinct (map dr_id (deliveries_where db P))"
proof -
  have "distinct (deliveries_where db P)"
    using assms by (simp add: deliveries_where_def distinct_map)
  moreover have "inj_on dr_id (set (deliveries_where db P))"
    using assms by (auto simp: distinct_map inj_on_def)
  ultimately show ?thesis by (simp add: distinct_map)
qed

lemma cancel_where:
  assumes "cancel_each fresh key check f reason now actor (deliveries_where db P) db1 = Inr db'"
    and "distinct (map dr_id (db_deliveries db))" and "db_deliveries db1 = db_deliveries db"
    and "\<And>x. dr_id (f x) = dr_id x"
  shows "db_missions db' = db_missions db1 \<and> db_events db' = db_events db1
    \<and> db_participants db' = db_participants db1 \<and> rows_le (=) (db_receipts db1) (db_receipts db')
    \<and> db_deliveries db' = map (\<lambda>x. if P x then f x else x) (db_deliveries db)"
proof -
  have "(dr_id x \<in> dr_id ` set (deliveries_where db P)) = P x" if "x \<in> set (db_deliveries db)" for x
    using that distinct_key [OF assms(2)] by auto
  then show ?thesis
    using cancel_each_frame [OF assms(1) deliveries_where_distinct [OF assms(2)] assms(4)] assms(3) by auto
qed

section \<open>Ending a Mission\<close>

lemma cancel_terminal_fields [simp]:
  "dr_id (cancel_terminal_row ev now r d) = dr_id d" "dr_mission_id (cancel_terminal_row ev now r d) = dr_mission_id d"
  "dr_status (cancel_terminal_row ev now r d) = D_cancelled"
  "dr_settled_by_event_id (cancel_terminal_row ev now r d) \<noteq> None"
  by (simp_all add: cancel_terminal_row_def split: option.split)

lemma cancel_terminal_ok:
  "delivery_row_ok d \<Longrightarrow> open_status (dr_status d) \<Longrightarrow> delivery_row_ok (cancel_terminal_row ev now r d)"
  by (auto simp: delivery_row_ok_status cancel_terminal_row_def active_lease_status_def open_status_def
      split: option.split)

lemma cancel_terminal_le:
  "open_status (dr_status d) \<Longrightarrow> delivery_le d (cancel_terminal_row ev now r d)"
  by (auto simp: delivery_le_def same_identity_def cancel_terminal_row_def)

lemma terminal_event_state:
  assumes "reduce_fresh_event L s e = Inr t" and "ev_body e = terminal_body cause"
  shows "is_terminal (cs_status t)"
  using assms(1)
proof (cases rule: fresh_event_cases)
qed (use assms(2) in \<open>cases cause; auto simp: is_terminal_def\<close>)+

lemma terminate_inv:
  assumes run: "terminate_mission L fresh now db m cause = Inr (r, db')"
    and inv: "ledger_inv L db" and m: "m \<in> set (db_missions db)"
  obtains t where "ledger_inv L db'" "ledger_le db db'" "rn_reconciled r" "rn_status r = cs_status t"
    "rn_checked_at r = now" "is_terminal (cs_status t)"
    "db_missions db' = map (\<lambda>x. if mr_id x = mr_id m then project_mission t x else x) (db_missions db)"
    "db_deliveries db' = map (\<lambda>d. if dr_mission_id d = mr_id m \<and> open_status (dr_status d)
          \<and> dr_settled_by_event_id d = None
        then cancel_terminal_row (fresh 0) now (cause_cancellation cause) d else d) (db_deliveries db)"
proof -
  let ?P = "\<lambda>d. dr_mission_id d = mr_id m \<and> open_status (dr_status d) \<and> dr_settled_by_event_id d = None"
  have minv: "mission_row_inv L db m" and dist: "distinct (map dr_id (db_deliveries db))"
    and oks: "\<forall>d \<in> set (db_deliveries db). delivery_row_ok d"
    using inv m by (auto simp: ledger_inv_def)
  then have replay: "replay_rows L (mr_coordinator_config m) (events_of db (mr_id m)) = Inr (mr_state m)"
    by (simp add: mission_row_inv_def)
  have last: "mr_last_event_sequence m = cs_sequence_no (mr_state m)"
    using minv by (simp add: mission_row_inv_def)
  define e where "e = \<lparr>ev_event_id = fresh 0, ev_idempotency_key = terminal_key cause, ev_mission_id = mr_id m,
    ev_sequence_no = cs_sequence_no (mr_state m) + 1, ev_created_at = to_iso_string now,
    ev_body = terminal_body cause\<rparr>"
  define row where "row = \<lparr>er_id = fresh 0, er_mission_id = mr_id m, er_sequence_no = cs_sequence_no (mr_state m) + 1,
    er_actor_agent_id = None, er_idempotency_key = terminal_key cause, er_source_delivery_id = cause_delivery cause,
    er_causal_parent_event_id = map_option er_id (last_option (events_of db (mr_id m))),
    er_type = body_type (terminal_body cause), er_payload = terminal_event_payload (terminal_body cause), er_created_at = now\<rparr>"
  from run obtain t db1 db2 where
    step: "reduce_coordinator_event L (mr_state m) e = Inr t"
    and ins: "insert_event row db = Inr db1"
    and cancel: "cancel_each (fresh \<circ> Suc) (\<lambda>d. ''relay:mission-terminal:'' @ mr_id m @ '':'' @ dr_id d)
        (check_cancelled L (cancel_terminal_row (fresh 0) now (cause_cancellation cause))) (cancel_terminal_row (fresh 0) now (cause_cancellation cause))
        (cause_cancellation cause) now None (deliveries_where db1 ?P) db1 = Inr db2"
    and r: "r = \<lparr>rn_reconciled = True, rn_status = cs_status t, rn_event = Some e, rn_checked_at = now\<rparr>"
    and db': "db' = write_audit None ''mission.terminal'' (fresh 0) (update_mission (mr_id m) (project_mission t) db2)"
    unfolding terminate_mission_def replay
    by (auto simp: Let_def last e_def row_def split: if_split_asm)
  have db1: "db1 = db\<lparr>db_events := db_events db @ [row]\<rparr>" using ins by (simp add: insert_event_Inr)
  have seq: "ev_sequence_no e = cs_sequence_no (mr_state m) + 1" by (simp add: e_def)
  note fresh_step = next_event_fresh(1) [OF mission_state_inv [OF minv] step seq]
  have over: "is_terminal (cs_status t)"
    by (rule terminal_event_state [OF fresh_step, of cause]) (simp add: e_def)
  from cancel_where [OF cancel _ refl] dist db1 have
    same: "db_missions db2 = db_missions db" "db_events db2 = db_events db @ [row]"
      "db_participants db2 = db_participants db" "rows_le (=) (db_receipts db) (db_receipts db2)"
    and rows: "db_deliveries db2 = map (\<lambda>x. if ?P x
        then cancel_terminal_row (fresh 0) now (cause_cancellation cause) x else x) (db_deliveries db)"
    by simp_all
  have "unsettled db2 j = filter (\<lambda>d. \<not> ?P d) (unsettled db j)" for j
  proof -
    have "filter (\<lambda>d. dr_mission_id d = j \<and> dr_settled_by_event_id d = None)
        (map (\<lambda>x. if ?P x then cancel_terminal_row (fresh 0) now (cause_cancellation cause) x else x) ds)
      = filter (\<lambda>d. \<not> ?P d) (filter (\<lambda>d. dr_mission_id d = j \<and> dr_settled_by_event_id d = None) ds)" for ds
      by (induction ds) auto
    then show ?thesis by (simp only: unsettled_def rows)
  qed
  note left = this
  have "\<forall>d \<in> set (unsettled db2 (mr_id m)). \<not> open_status (dr_status d)"
    unfolding left by (auto simp: unsettled_def)
  with over have work: "work_inv db2 (project_mission t m)" by (simp add: work_inv_def)
  have others: "work_inv db2 x" if "x \<in> set (db_missions db)" "mr_id x \<noteq> mr_id m" for x
  proof -
    have "unsettled db2 (mr_id x) = unsettled db (mr_id x)"
      unfolding left filter_id_conv using that(2) by (auto simp: unsettled_def)
    then show ?thesis
      using work_inv_same [OF _ same(3)] inv that(1) by (simp add: ledger_inv_def mission_row_inv_def)
  qed
  have "ledger_inv L (update_mission (mr_id m) (project_mission t) db2)"
  proof (rule advance_mission [OF inv m _ _ step seq same(1-3) _ _ _ work others])
    show "er_mission_id row = mr_id m" by (simp add: row_def)
    have "terminal_event_payload (terminal_body cause) = body_fields (terminal_body cause)"
      by (cases cause) simp_all
    then show "event_of_row row = Some e"
      using event_of_row_body [of row "terminal_body cause"] by (simp add: row_def e_def)
    show "distinct (map dr_id (db_deliveries db2))"
      using dist by (simp add: rows comp_def if_distrib [of dr_id] cong: if_cong)
    show "\<forall>d \<in> set (db_deliveries db2). delivery_row_ok d"
      using oks cancel_terminal_ok by (auto simp: rows)
    show "dr_mission_id ` set (db_deliveries db2) \<subseteq> mr_id ` set (db_missions db)"
      using inv m by (auto simp: rows ledger_inv_def)
  qed
  then have "ledger_inv L db'" unfolding db' by (rule ledger_inv_cong) simp_all
  moreover have "ledger_le db db'"
  proof -
    have "mission_le x (project_mission t x)" if "x \<in> set (db_missions db)" "mr_id x = mr_id m" for x
    proof -
      have "x = m" using inv m that distinct_key [of mr_id "db_missions db" x m] by (simp add: ledger_inv_def)
      moreover have "extends (mr_state m) t" "\<not> is_terminal (mr_status m)"
        using fresh_event_extends [OF fresh_step] mission_state_inv [OF minv] fresh_not_terminal [OF fresh_step] minv
        by (auto simp: coordinator_inv_def mission_row_inv_def)
      ultimately show ?thesis by (simp add: mission_le_def project_mission_def)
    qed
    then show ?thesis
      using same rows cancel_terminal_le unfolding ledger_le_def db'
      by (auto intro!: rows_le_map rows_le_append rows_le_refl)
  qed
  ultimately show thesis using r over same(1) rows by (intro that [of t]) (simp_all add: db')
qed

section \<open>Reconciliation\<close>

lemma reconcile_cases:
  assumes "reconcile_mission_in_transaction L fresh clock db i = Inr (r, db')"
  obtains (unchanged) m now where "find_mission db i = Some m" "clock = Some now" "db' = db"
      "\<not> rn_reconciled r" "rn_checked_at r = now"
      "(mr_status m \<noteq> M_active \<and> mr_status m \<noteq> M_verifying) \<or> terminal_cause db i (mr_expires_at m) now = None"
  | (ended) m now cause where "find_mission db i = Some m" "clock = Some now"
      "mr_status m = M_active \<or> mr_status m = M_verifying" "terminal_cause db i (mr_expires_at m) now = Some cause"
      "terminate_mission L fresh now db m cause = Inr (r, db')"
proof -
  obtain m where m: "find_mission db i = Some m"
    using assms by (auto simp: reconcile_mission_in_transaction_def split: option.splits)
  obtain now where now: "clock = Some now"
    using assms m by (auto simp: reconcile_mission_in_transaction_def read_database_clock_def split: option.splits)
  show thesis
    using assms m now unchanged [OF m now] ended [OF m now]
    by (auto simp: reconcile_mission_in_transaction_def read_database_clock_def Let_def
        split: option.splits if_split_asm)
qed

lemma reconcile_inv:
  assumes "reconcile_mission_in_transaction L fresh clock db i = Inr (r, db')" and "ledger_inv L db"
  shows "ledger_inv L db' \<and> ledger_le db db' \<and> clock = Some (rn_checked_at r)
    \<and> (rn_reconciled r \<longrightarrow> is_terminal (rn_status r)) \<and> (\<not> rn_reconciled r \<longrightarrow> db' = db)
    \<and> i \<in> mr_id ` set (db_missions db)
    \<and> (\<forall>m. rn_reconciled r \<longrightarrow> find_mission db' i = Some m \<longrightarrow> is_terminal (mr_status m))"
  using assms(1)
proof (cases rule: reconcile_cases)
  case (unchanged m now)
  then show ?thesis using assms(2) find_mission_Some [OF unchanged(1)] by auto
next
  case (ended x now cause)
  note x = find_mission_Some [OF ended(1)]
  obtain t where
    all: "ledger_inv L db'" "ledger_le db db'" "rn_reconciled r" "rn_status r = cs_status t" "rn_checked_at r = now"
    and t: "is_terminal (cs_status t)"
      "db_missions db' = map (\<lambda>y. if mr_id y = mr_id x then project_mission t y else y) (db_missions db)"
    by (rule terminate_inv [OF ended(5) assms(2) conjunct1 [OF x]]) (rule that; assumption)
  have "is_terminal (mr_status m)" if "find_mission db' i = Some m" for m
  proof -
    have "m \<in> set (db_missions db')" and same: "mr_id m = mr_id x"
      using find_mission_Some [OF that] x by simp_all
    then obtain y where "m = (if mr_id y = mr_id x then project_mission t y else y)"
      unfolding t(2) set_map by blast
    with same t(1) show ?thesis by (auto split: if_splits)
  qed
  moreover have "i \<in> mr_id ` set (db_missions db)" using x by auto
  ultimately show ?thesis using all t(1) ended(2) by simp
qed

text \<open>A Mission that is still running waits for no dead letter.\<close>

definition no_dead_letters :: "relay_db \<Rightarrow> mission_row \<Rightarrow> bool" where
  "no_dead_letters db m \<longleftrightarrow> is_terminal (mr_status m)
     \<or> (\<forall>d \<in> set (unsettled db (mr_id m)). dr_status d \<noteq> D_dead_lettered)"

definition live_inv :: "relay_db \<Rightarrow> bool" where
  "live_inv db \<longleftrightarrow> (\<forall>m \<in> set (db_missions db). no_dead_letters db m)"

lemma running_status:
  assumes "mission_row_inv L db m" and "\<not> is_terminal (mr_status m)"
  shows "mr_status m = M_awaiting_acceptance \<and> unsettled db (mr_id m) = []
    \<or> mr_status m = M_active \<or> mr_status m = M_verifying"
proof -
  have "phase_inv (mr_state m)" "mr_status m = cs_status (mr_state m)"
    using mission_state_inv [OF assms(1)] assms(1) by (simp_all add: coordinator_inv_def mission_row_inv_def)
  moreover have "work_inv db m" using assms(1) by (simp add: mission_row_inv_def)
  ultimately show ?thesis
    using assms(2)
    by (cases "cs_status (mr_state m)") (auto simp: phase_inv_def is_terminal_def work_inv_def owed_idle)
qed

lemma no_terminal_cause:
  "terminal_cause db i expires_at now = None \<Longrightarrow> d \<in> set (unsettled db i) \<Longrightarrow> dr_status d \<noteq> D_dead_lettered"
proof -
  assume "terminal_cause db i expires_at now = None" and d: "d \<in> set (unsettled db i)"
  then have "deliveries_where db (\<lambda>d. dr_mission_id d = i \<and> dr_status d = D_dead_lettered
      \<and> dr_settled_by_event_id d = None) = []"
    by (auto simp: terminal_cause_def split: if_splits list.splits)
  then have "set (deliveries_where db (\<lambda>d. dr_mission_id d = i \<and> dr_status d = D_dead_lettered
      \<and> dr_settled_by_event_id d = None)) = {}" by simp
  with d show ?thesis by (auto simp: unsettled_def)
qed

lemma unsettled_terminate_other:
  assumes "db_deliveries db' = map (\<lambda>d. if dr_mission_id d = i \<and> open_status (dr_status d)
      \<and> dr_settled_by_event_id d = None then cancel_terminal_row ev now c d else d) (db_deliveries db)"
    and "j \<noteq> i"
  shows "unsettled db' j = unsettled db j"
proof -
  have "filter (\<lambda>d. dr_mission_id d = j \<and> dr_settled_by_event_id d = None)
      (map (\<lambda>d. if dr_mission_id d = i \<and> open_status (dr_status d) \<and> dr_settled_by_event_id d = None
        then cancel_terminal_row ev now c d else d) ds)
    = filter (\<lambda>d. dr_mission_id d = j \<and> dr_settled_by_event_id d = None) ds" for ds
    using assms(2) by (induction ds) auto
  then show ?thesis by (simp only: unsettled_def assms(1))
qed

lemma reconcile_live:
  assumes run: "reconcile_mission_in_transaction L fresh clock db i = Inr (r, db')" and inv: "ledger_inv L db"
    and others: "\<forall>m \<in> set (db_missions db). mr_id m \<noteq> i \<longrightarrow> no_dead_letters db m"
  shows "live_inv db'"
  using run
proof (cases rule: reconcile_cases)
  case (unchanged m now)
  have "no_dead_letters db x" if x: "x \<in> set (db_missions db)" "mr_id x = i" for x
  proof -
    have "x = m"
      using find_mission_Some [OF unchanged(1)] x inv distinct_key [of mr_id "db_missions db" x m]
      by (simp add: ledger_inv_def)
    have xinv: "mission_row_inv L db x" using x inv by (simp add: ledger_inv_def)
    show ?thesis
    proof (cases "mr_status x = M_active \<or> mr_status x = M_verifying")
      case True
      then show ?thesis
        using unchanged(6) \<open>x = m\<close> no_terminal_cause x(2) by (auto simp: no_dead_letters_def)
    next
      case False
      then show ?thesis
        using running_status [OF xinv] by (auto simp: no_dead_letters_def)
    qed
  qed
  with others unchanged(3) show ?thesis by (auto simp: live_inv_def)
next
  case (ended m now cause)
  note m = find_mission_Some [OF ended(1)]
  obtain t where
    t: "is_terminal (cs_status t)"
      "db_missions db' = map (\<lambda>x. if mr_id x = mr_id m then project_mission t x else x) (db_missions db)"
    and rows: "db_deliveries db' = map (\<lambda>d. if dr_mission_id d = mr_id m \<and> open_status (dr_status d)
          \<and> dr_settled_by_event_id d = None
        then cancel_terminal_row (fresh 0) now (cause_cancellation cause) d else d) (db_deliveries db)"
    by (rule terminate_inv [OF ended(5) inv conjunct1 [OF m]]) (rule that; assumption)
  have "no_dead_letters db' x" if "x \<in> set (db_missions db)" "mr_id x \<noteq> mr_id m" for x
    using unsettled_terminate_other [OF rows that(2)] others that m by (simp add: no_dead_letters_def)
  moreover have "no_dead_letters db' (project_mission t x)" for x
    using t(1) by (simp add: no_dead_letters_def)
  ultimately show ?thesis by (auto simp: live_inv_def t(2))
qed

lemma reconcile_keeps_live:
  "reconcile_mission_in_transaction L fresh clock db i = Inr (r, db') \<Longrightarrow> ledger_inv L db \<Longrightarrow> live_inv db
    \<Longrightarrow> live_inv db'"
  by (rule reconcile_live) (auto simp: live_inv_def)

end
