(* ===== verification/Lease_Laws.thy ===== *)
theory Lease_Laws
  imports Reconcile_Laws
begin

text \<open>
  Every delivery operation keeps the invariant of the tables and moves them along the order: each change of a
  row is one of a few row steps, made on the row that was locked, after the Mission was reconciled.
\<close>

section \<open>The changes of one row\<close>

lemmas row_defs = row_step_def delivery_le_def same_identity_def delivery_row_ok_status
  active_lease_status_def open_status_def close_lease_def

lemma start_row_step: "dr_status d = D_leased \<Longrightarrow> row_step d (start_row now d)"
  by (auto simp: row_defs start_row_def)

lemma renew_row_step:
  "dr_status d = D_leased \<or> dr_status d = D_executing \<Longrightarrow> row_step d (renew_row expires now d)"
  by (auto simp: row_defs renew_row_def)

lemma leased_row_step:
  "dr_status d = D_stored \<Longrightarrow> dr_attempt_count d < dr_max_attempts d \<Longrightarrow> row_step d (leased_row l expires now d)"
  by (auto simp: row_defs leased_row_def)

lemma retry_row_step:
  "dr_status d = D_leased \<or> dr_status d = D_executing \<Longrightarrow> dr_attempt_count d < dr_max_attempts d
    \<Longrightarrow> row_step d (retry_row available now d)"
  by (auto simp: row_defs retry_row_def)

lemma dead_letter_row_step:
  "dr_status d = D_leased \<or> dr_status d = D_executing \<Longrightarrow> row_step d (dead_letter_row now d)"
  by (auto simp: row_defs dead_letter_row_def)

lemma acknowledged_row_step:
  "dr_status d = D_executing \<Longrightarrow> dr_settled_by_event_id d \<noteq> None \<Longrightarrow> row_step d (acknowledged_row now d)"
  by (auto simp: row_defs acknowledged_row_def)

lemma superseded_row_step: "open_status (dr_status d) \<Longrightarrow> row_step d (superseded_row now d)"
  by (auto simp: row_defs superseded_row_def)

lemma row_ids [simp]:
  "dr_id (start_row now d) = dr_id d" "dr_id (renew_row x now d) = dr_id d" "dr_id (leased_row l x now d) = dr_id d"
  "dr_id (retry_row x now d) = dr_id d" "dr_id (dead_letter_row now d) = dr_id d"
  "dr_id (acknowledged_row now d) = dr_id d" "dr_id (superseded_row now d) = dr_id d"
  by (simp_all add: start_row_def renew_row_def leased_row_def retry_row_def dead_letter_row_def
      acknowledged_row_def superseded_row_def close_lease_def)

lemma row_statuses [simp]:
  "dr_status (start_row now d) = D_executing" "dr_status (renew_row x now d) = dr_status d"
  "dr_status (leased_row l x now d) = D_leased" "dr_status (retry_row x now d) = D_stored"
  "dr_status (dead_letter_row now d) = D_dead_lettered" "dr_status (acknowledged_row now d) = D_acknowledged"
  "dr_status (superseded_row now d) = D_cancelled"
  by (simp_all add: start_row_def renew_row_def leased_row_def retry_row_def dead_letter_row_def
      acknowledged_row_def superseded_row_def close_lease_def)

section \<open>Good tables\<close>

definition good :: "host_lib \<Rightarrow> relay_db \<Rightarrow> bool" where
  "good L db \<longleftrightarrow> ledger_inv L db \<and> live_inv db"

text \<open>From good tables to good tables, along the order.\<close>

definition goes :: "host_lib \<Rightarrow> relay_db \<Rightarrow> relay_db \<Rightarrow> bool" where
  "goes L db db' \<longleftrightarrow> (good L db \<longrightarrow> good L db') \<and> ledger_le db db'"

lemma goes_refl [simp]: "goes L db db"
  by (simp add: goes_def)

lemma goes_trans: "goes L db db' \<Longrightarrow> goes L db' db'' \<Longrightarrow> goes L db db''"
  by (auto simp: goes_def intro: ledger_le_trans)

text \<open>Operations that only touch receipts, audit entries or tables outside the ledger.\<close>

definition same_ledger :: "relay_db \<Rightarrow> relay_db \<Rightarrow> bool" where
  "same_ledger db db' \<longleftrightarrow> db_missions db' = db_missions db \<and> db_events db' = db_events db
     \<and> db_participants db' = db_participants db \<and> db_deliveries db' = db_deliveries db
     \<and> rows_le (=) (db_receipts db) (db_receipts db')"

lemma same_ledger_goes:
  assumes "same_ledger db db'"
  shows "goes L db db'"
proof -
  have "unsettled db' = unsettled db" using assms by (auto simp: same_ledger_def intro: unsettled_cong)
  then have "live_inv db \<Longrightarrow> live_inv db'"
    using assms by (simp add: live_inv_def no_dead_letters_def same_ledger_def)
  moreover have "ledger_inv L db \<Longrightarrow> ledger_inv L db'"
    using assms by (auto simp: same_ledger_def intro: ledger_inv_cong)
  moreover have "ledger_le db db'"
    using assms by (auto simp: same_ledger_def ledger_le_def intro: rows_le_refl)
  ultimately show ?thesis by (simp add: goes_def good_def)
qed

lemma record_operation_same: "record_operation L auth d r i out db = Inr db' \<Longrightarrow> same_ledger db db'"
  by (auto elim!: record_operation_frame simp: same_ledger_def intro!: rows_le_append rows_le_refl)

lemma insert_receipt_same: "insert_receipt r db = Inr db' \<Longrightarrow> same_ledger db db'"
  by (auto dest!: insert_receipt_frame(1) simp: same_ledger_def intro!: rows_le_append rows_le_refl)

lemma write_audit_same: "same_ledger db (write_audit a x r db)"
  by (simp add: same_ledger_def rows_le_refl)

text \<open>Steps of rows: a Mission is affected only where a row of it is dead-lettered.\<close>

lemma rows_step_live:
  assumes "rows_step db db'" and "no_dead_letters db m"
    and "\<And>d'. d' \<in> set (unsettled db' (mr_id m)) \<Longrightarrow> dr_status d' = D_dead_lettered \<Longrightarrow>
      \<exists>d \<in> set (unsettled db (mr_id m)). dr_status d = D_dead_lettered"
  shows "no_dead_letters db' m"
  using assms(2,3) by (auto simp: no_dead_letters_def)

lemma set_delivery_unsettled:
  assumes "d' \<in> set (unsettled (set_delivery x db) i)"
  shows "d' = x \<or> d' \<in> set (unsettled db i)"
  using assms by (auto simp: unsettled_def set_delivery_def split: if_splits)

lemma set_delivery_good:
  assumes good: "good L db" and d: "d \<in> set (db_deliveries db)" and step: "row_step d x" and ident: "dr_id x = dr_id d"
  shows "ledger_inv L (set_delivery x db)" and "ledger_le db (set_delivery x db)"
    and "m \<in> set (db_missions db) \<Longrightarrow> mr_id m \<noteq> dr_mission_id d \<Longrightarrow> no_dead_letters (set_delivery x db) m"
    and "dr_status x \<noteq> D_dead_lettered \<Longrightarrow> good L (set_delivery x db)"
    and "db_missions (set_delivery x db) = db_missions db"
proof -
  have dist: "distinct (map dr_id (db_deliveries db))" using good by (simp add: good_def ledger_inv_def)
  note rows = set_delivery_step [OF dist d step ident]
  show inv: "ledger_inv L (set_delivery x db)" using good rows_step_inv [OF _ rows] by (simp add: good_def)
  show "ledger_le db (set_delivery x db)" by (rule rows_step_le [OF rows])
  show same: "db_missions (set_delivery x db) = db_missions db" by (simp add: set_delivery_def)
  have mission: "dr_mission_id x = dr_mission_id d" using step by (simp add: row_step_def delivery_le_def same_identity_def)
  show "no_dead_letters (set_delivery x db) m" if "m \<in> set (db_missions db)" "mr_id m \<noteq> dr_mission_id d"
    using that good set_delivery_unsettled [of _ x db "mr_id m"] mission
    by (fastforce simp: good_def live_inv_def no_dead_letters_def unsettled_def)
  show "good L (set_delivery x db)" if "dr_status x \<noteq> D_dead_lettered"
  proof -
    have "no_dead_letters (set_delivery x db) m" if "m \<in> set (db_missions db)" for m
      using that good set_delivery_unsettled [of _ x db "mr_id m"] \<open>dr_status x \<noteq> D_dead_lettered\<close>
      by (fastforce simp: good_def live_inv_def no_dead_letters_def)
    with inv same show ?thesis by (simp add: good_def live_inv_def)
  qed
qed

lemma set_delivery_goes:
  "good L db \<Longrightarrow> d \<in> set (db_deliveries db) \<Longrightarrow> row_step d x \<Longrightarrow> dr_id x = dr_id d
    \<Longrightarrow> dr_status x \<noteq> D_dead_lettered \<Longrightarrow> goes L db (set_delivery x db)"
  by (simp add: goes_def set_delivery_good)

lemma reconcile_goes:
  "reconcile_mission_in_transaction L fresh clock db i = Inr (r, db') \<Longrightarrow> good L db \<Longrightarrow> goes L db db'"
  using reconcile_inv reconcile_keeps_live by (fastforce simp: goes_def good_def)

text \<open>A dead letter is followed by the reconciliation of its Mission.\<close>

lemma dead_letter_goes:
  assumes good: "good L db" and d: "d \<in> set (db_deliveries db)" and step: "row_step d x" and ident: "dr_id x = dr_id d"
    and between: "same_ledger (set_delivery x db) db1"
    and run: "reconcile_mission_in_transaction L fresh clock db1 (dr_mission_id d) = Inr (r, db')"
  shows "goes L db db'"
proof -
  note set = set_delivery_good [OF good d step ident]
  have inv: "ledger_inv L db1" and le: "ledger_le (set_delivery x db) db1" "db_missions db1 = db_missions db"
    using between set(1,5) same_ledger_goes [OF between, of L]
    by (auto simp: goes_def same_ledger_def intro: ledger_inv_cong)
  have "unsettled db1 = unsettled (set_delivery x db)"
    using between by (auto simp: same_ledger_def intro: unsettled_cong)
  then have "\<forall>m \<in> set (db_missions db1). mr_id m \<noteq> dr_mission_id d \<longrightarrow> no_dead_letters db1 m"
    using set(3) le(2) by (simp add: no_dead_letters_def)
  with reconcile_live [OF run inv] reconcile_inv [OF run inv] le(1) set(2)
  show ?thesis by (auto simp: goes_def good_def intro: ledger_le_trans)
qed

section \<open>Locking\<close>

definition locked :: "relay_db \<Rightarrow> node_auth \<Rightarrow> uuid \<Rightarrow> locked_delivery \<Rightarrow> bool" where
  "locked db auth i k \<longleftrightarrow> lk_delivery k \<in> set (db_deliveries db) \<and> dr_id (lk_delivery k) = i
     \<and> dr_node_id (lk_delivery k) = na_node_id auth
     \<and> lk_mission k \<in> set (db_missions db) \<and> mr_id (lk_mission k) = dr_mission_id (lk_delivery k)
     \<and> (lk_reconciled_status k \<noteq> None \<longrightarrow> is_terminal (mr_status (lk_mission k)))"

lemma find_delivery_Inr:
  "find_delivery db n i = Inr d \<Longrightarrow> d \<in> set (db_deliveries db) \<and> dr_node_id d = n \<and> dr_id d = i"
  by (auto simp: find_delivery_def find_Some_iff split: option.splits)

lemma first_pair_Inr:
  "(case xs of [] \<Rightarrow> Inl e | (p, w) # rest \<Rightarrow> Inr (f p w)) = Inr y
    \<longleftrightarrow> (\<exists>p w rest. xs = (p, w) # rest \<and> y = f p w)"
  by (auto split: list.split)

lemma lock_delivery_Inr:
  assumes "lock_delivery_context db auth i m now reconciled = Inr k"
  shows "find_delivery db (na_node_id auth) i = Inr (lk_delivery k) \<and> lk_mission k = m \<and> lk_now k = now
    \<and> lk_reconciled_status k = reconciled"
  using assms unfolding lock_delivery_context_def by (auto simp: first_pair_Inr)

lemma reconcile_and_lock:
  assumes run: "reconcile_and_lock_delivery_context L fresh clock db auth i = Inr (k, db')" and good: "good L db"
  shows "goes L db db' \<and> locked db' auth i k \<and> clock = Some (lk_now k) \<and> (lk_reconciled_status k = None \<longrightarrow> db' = db)"
proof -
  from run obtain d r m where d: "find_delivery db (na_node_id auth) i = Inr d"
    and rec: "reconcile_mission_in_transaction L fresh clock db (dr_mission_id d) = Inr (r, db')"
    and m: "find_mission db' (dr_mission_id d) = Some m"
    and k: "lock_delivery_context db' auth i m (rn_checked_at r)
      (if rn_reconciled r then Some (rn_status r) else None) = Inr k"
    unfolding reconcile_and_lock_delivery_context_def by (auto split: option.splits)
  have inv: "ledger_inv L db" using good by (simp add: good_def)
  note rec_inv = reconcile_inv [OF rec inv] and goes = reconcile_goes [OF rec good]
  note lock = lock_delivery_Inr [OF k] and d = find_delivery_Inr [OF d] and m = find_mission_Some [OF m]
  have kd: "lk_delivery k \<in> set (db_deliveries db')" "dr_id (lk_delivery k) = i" "dr_node_id (lk_delivery k) = na_node_id auth"
    using lock find_delivery_Inr by blast+
  obtain d' where d': "d' \<in> set (db_deliveries db')" "delivery_le d d'"
    using rows_le_mem [of delivery_le "db_deliveries db" "db_deliveries db'" d] d rec_inv by (auto simp: ledger_le_def)
  have "d' = lk_delivery k"
    using distinct_key [of dr_id "db_deliveries db'" d' "lk_delivery k"] d' kd d rec_inv
    by (auto simp: ledger_inv_def delivery_le_def same_identity_def)
  with d'(2) have "dr_mission_id (lk_delivery k) = dr_mission_id d"
    by (auto simp: delivery_le_def same_identity_def)
  moreover have "is_terminal (mr_status m)" if "rn_reconciled r"
    using rec_inv that \<open>find_mission db' (dr_mission_id d) = Some m\<close> by blast
  ultimately show ?thesis
    using goes lock kd m rec_inv by (auto simp: locked_def)
qed

text \<open>The frame around every operation.\<close>

definition safe_operation :: "host_lib \<Rightarrow> node_auth \<Rightarrow> uuid
    \<Rightarrow> (relay_db \<Rightarrow> locked_delivery \<Rightarrow> relay_error + 'r \<times> relay_db) \<Rightarrow> bool" where
  "safe_operation L auth i operation \<longleftrightarrow>
     (\<forall>db k r db'. good L db \<longrightarrow> locked db auth i k \<longrightarrow> operation db k = Inr (r, db') \<longrightarrow> goes L db db')"

lemma run_locked_goes:
  assumes "safe_operation L auth i operation" and "good L db"
  shows "goes L db (snd (run_locked_delivery_operation L w db auth i operation))"
proof -
  have "goes L db (snd (case operation db1 k of Inr (r, db2) \<Rightarrow> (Inr r, db2)
      | Inl e \<Rightarrow> (Inl e, if lk_reconciled_status k \<noteq> None then db1 else db)))"
    if run: "reconcile_and_lock_delivery_context L (tw_fresh w 0) (tw_now w) db auth i = Inr (k, db1)" for k db1
  proof -
    note lock = reconcile_and_lock [OF run assms(2)]
    then have "good L db1" using assms(2) by (simp add: goes_def)
    with lock assms(1) show ?thesis
      unfolding safe_operation_def by (auto split: sum.split intro: goes_trans)
  qed
  then show ?thesis
    by (auto simp: run_locked_delivery_operation_def split: sum.split)
qed

section \<open>Claim\<close>

lemma take_lease_Inr: "take_lease d db = Inr db' \<Longrightarrow> db' = set_delivery d db"
  by (auto simp: take_lease_def split: if_splits)

lemma grant_lease_cases:
  assumes "grant_lease L w auth k i d db = Inr (r, db')"
  obtains expires item receipt where "dr_status d = D_stored" "dr_settled_by_event_id d = None"
    "dr_attempt_count d < dr_max_attempts d" "dr_available_at d \<le> lk_now k"
    "bounded_lease_expiry (lk_now k) (mr_expires_at (lk_mission k)) = Inr expires"
    "r = Claimed_result item receipt False"
    "same_ledger (set_delivery (leased_row (tw_fresh w 1 2) expires (lk_now k) d) db) db'"
    "mdi_delivery item = delivery_of_row (leased_row (tw_fresh w 1 2) expires (lk_now k) d)"
    "receipt = operation_receipt_of (tw_fresh w 1 3) Op_claim (ci_idempotency_key i) (na_node_id auth)
      (leased_row (tw_fresh w 1 2) expires (lk_now k) d) D_stored
      (Some \<lparr>la_lease_id = tw_fresh w 1 2, la_fencing_token = string_of_int (dr_attempt_count d + 1)\<rparr>)
      (Some expires) (Some Claimed) None (lk_now k)"
proof -
  have item: "mdi_delivery item = delivery_of_row x" if "mission_delivery_item_from_rows L x e = Inr item" for x e item
    using that by (auto simp: mission_delivery_item_from_rows_def delivery_from_row_def split: option.splits if_splits)
  show thesis
    using assms that unfolding grant_lease_def Let_def
    by (auto split: if_split_asm option.splits dest!: take_lease_Inr record_operation_same simp: item)
qed

lemma grant_lease_goes:
  assumes "grant_lease L w auth k i d db = Inr (r, db')" and "good L db" and "d \<in> set (db_deliveries db)"
  shows "goes L db db'"
  using assms(1)
proof (rule grant_lease_cases)
  fix expires
  assume "dr_status d = D_stored" "dr_attempt_count d < dr_max_attempts d"
    and same: "same_ledger (set_delivery (leased_row (tw_fresh w 1 2) expires (lk_now k) d) db) db'"
  then have "goes L db (set_delivery (leased_row (tw_fresh w 1 2) expires (lk_now k) d) db)"
    by (intro set_delivery_goes [OF assms(2,3)] leased_row_step) simp_all
  then show ?thesis using same_ledger_goes [OF same] by (rule goes_trans)
qed

lemma expire_lease_cases:
  assumes "expire_lease_for_retry L i auth d now db = Inr db'"
  shows "dr_status d = D_leased \<or> dr_status d = D_executing"
    and "same_ledger (set_delivery (retry_row now now d) db) db'"
proof -
  show "dr_status d = D_leased \<or> dr_status d = D_executing"
    using assms by (auto simp: expire_lease_for_retry_def split: if_split_asm)
  from assms obtain rec db1 where "insert_receipt rec (set_delivery (retry_row now now d) db) = Inr db1"
    "db' = write_audit (Some (na_agent_id auth)) ''delivery.lease_expired'' (dr_id d) db1"
    unfolding expire_lease_for_retry_def by (auto split: if_split_asm)
  then show "same_ledger (set_delivery (retry_row now now d) db) db'"
    using insert_receipt_same [of rec "set_delivery (retry_row now now d) db" db1]
    by (auto simp: same_ledger_def)
qed

lemma dead_letter_claim_cases:
  assumes "dead_letter_expired_final_claim L w auth k i db = Inr (r, db')"
  obtains db1 rr where "dr_status (lk_delivery k) = D_leased \<or> dr_status (lk_delivery k) = D_executing"
    "same_ledger (set_delivery (dead_letter_row (lk_now k) (lk_delivery k)) db) db1"
    "reconcile_mission_in_transaction L (tw_fresh w 2) (tw_later w) db1 (dr_mission_id (lk_delivery k)) = Inr (rr, db')"
    "\<exists>receipt. r = Dead_lettered_result (delivery_of_row (dead_letter_row (lk_now k) (lk_delivery k))) receipt False"
  using assms unfolding dead_letter_expired_final_claim_def Let_def
  by (auto split: if_split_asm simp: delivery_from_row_def dest!: record_operation_same)

lemma claim_stored_or_expired_goes:
  assumes run: "claim_stored_or_expired L w auth k i db = Inr (r, db')" and good: "good L db"
    and lock: "locked db auth n k"
  shows "goes L db db'"
proof -
  let ?d = "lk_delivery k"
  have d: "?d \<in> set (db_deliveries db)" using lock by (simp add: locked_def)
  consider (grant) "grant_lease L w auth k i ?d db = Inr (r, db')"
    | (last) "dead_letter_expired_final_claim L w auth k i db = Inr (r, db')"
    | (again) db1 x where "expire_lease_for_retry L (tw_fresh w 1 1) auth ?d (lk_now k) db = Inr db1"
      "dr_attempt_count ?d < dr_max_attempts ?d"
      "find_delivery db1 (na_node_id auth) (dr_id ?d) = Inr x" "grant_lease L w auth k i x db1 = Inr (r, db')"
    using run unfolding claim_stored_or_expired_def Let_def
    by (auto split: if_split_asm option.splits)
  then show ?thesis
  proof cases
    case grant
    then show ?thesis by (rule grant_lease_goes [OF _ good d])
  next
    case last
    then show ?thesis
    proof (rule dead_letter_claim_cases)
      fix db1 rr
      assume "dr_status ?d = D_leased \<or> dr_status ?d = D_executing"
        and same: "same_ledger (set_delivery (dead_letter_row (lk_now k) ?d) db) db1"
        and rec: "reconcile_mission_in_transaction L (tw_fresh w 2) (tw_later w) db1 (dr_mission_id ?d) = Inr (rr, db')"
      then show ?thesis
        by (intro dead_letter_goes [OF good d dead_letter_row_step _ same rec]) simp_all
    qed
  next
    case again
    note expired = expire_lease_cases [OF again(1)]
    have "goes L db (set_delivery (retry_row (lk_now k) (lk_now k) ?d) db)"
      using expired(1) again(2) by (intro set_delivery_goes [OF good d] retry_row_step) simp_all
    then have one: "goes L db db1" using same_ledger_goes [OF expired(2)] by (rule goes_trans)
    then have "good L db1" using good by (simp add: goes_def)
    then have "goes L db1 db'"
      using grant_lease_goes [OF again(4)] find_delivery_Inr [OF again(3)] by blast
    with one show ?thesis by (rule goes_trans)
  qed
qed

lemma claim_safe: "safe_operation L auth n (claim_locked L w auth n i)"
  unfolding safe_operation_def claim_locked_def
  by (auto split: option.splits if_split_asm intro: claim_stored_or_expired_goes)

section \<open>Start, renew and release\<close>

text \<open>A change is a row step on the locked row; a dead letter is announced by its receipt.\<close>

definition safe_change :: "(locked_delivery \<Rightarrow> relay_error + delivery_row \<times> operation_receipt) \<Rightarrow> bool" where
  "safe_change mutate \<longleftrightarrow> (\<forall>k d receipt. mutate k = Inr (d, receipt) \<longrightarrow>
     row_step (lk_delivery k) d \<and> dr_id d = dr_id (lk_delivery k) \<and> or_status_after receipt = dr_status d)"

lemma mutate_cases:
  assumes "mutate_lease_delivery L w auth i op key stored mutate db k = Inr (r, db')"
  obtains (replayed) receipt where "db' = db" "load_replay db (na_node_id auth) i op key stored = Inr (Some receipt)"
      "replayed_operation L op (rr_output receipt) = Inr r"
  | (changed) d receipt db1 where "load_replay db (na_node_id auth) i op key stored = Inr None"
      "lk_reconciled_status k = None" "assert_runnable_context k = Inr ()" "mutate k = Inr (d, receipt)"
      "r = \<lparr>ors_delivery = delivery_of_row d, ors_receipt = receipt, ors_replayed = False\<rparr>"
      "record_operation L auth (lk_delivery k) receipt stored (Out_operation r) (set_delivery d db) = Inr db1"
      "if or_status_after receipt = D_dead_lettered
       then \<exists>rr. reconcile_mission_in_transaction L (tw_fresh w 2) (tw_later w) db1
         (dr_mission_id (lk_delivery k)) = Inr (rr, db')
       else db' = db1"
proof -
  from assms obtain found where load: "load_replay db (na_node_id auth) i op key stored = Inr found"
    unfolding mutate_lease_delivery_def by (auto split: option.splits)
  show thesis
  proof (cases found)
    case None
    with assms load show ?thesis
      unfolding mutate_lease_delivery_def Let_def
      by (auto simp: delivery_from_row_def split: if_split_asm intro: changed)
  next
    case (Some receipt)
    with assms load show ?thesis
      unfolding mutate_lease_delivery_def Let_def
      by (auto intro: replayed)
  qed
qed

lemma mutate_safe:
  assumes "safe_change mutate"
  shows "safe_operation L auth i (mutate_lease_delivery L w auth i op key stored mutate)"
  unfolding safe_operation_def
proof (intro allI impI)
  fix db k r db'
  assume good: "good L db" and lock: "locked db auth i k"
    and "mutate_lease_delivery L w auth i op key stored mutate db k = Inr (r, db')"
  from this(3) show "goes L db db'"
  proof (cases rule: mutate_cases)
    case (changed d receipt db1)
    have kd: "lk_delivery k \<in> set (db_deliveries db)" using lock by (simp add: locked_def)
    have step: "row_step (lk_delivery k) d" "dr_id d = dr_id (lk_delivery k)" "or_status_after receipt = dr_status d"
      using assms changed(4) by (auto simp: safe_change_def)
    note same = record_operation_same [OF changed(6)]
    show ?thesis
    proof (cases "dr_status d = D_dead_lettered")
      case True
      with changed(7) step(3) show ?thesis
        using dead_letter_goes [OF good kd step(1,2) same] by auto
    next
      case False
      with changed(7) step(3) have "db' = db1" by simp
      with set_delivery_goes [OF good kd step(1,2) False] same_ledger_goes [OF same] show ?thesis
        by (auto intro: goes_trans)
    qed
  qed simp
qed

lemma receipt_fields [simp]:
  "or_status_after (operation_receipt_of j op key n d before lease expires outcome release now) = dr_status d"
  "or_status_before (operation_receipt_of j op key n d before lease expires outcome release now) = before"
  "or_operation (operation_receipt_of j op key n d before lease expires outcome release now) = op"
  "or_attempt_count (operation_receipt_of j op key n d before lease expires outcome release now) = dr_attempt_count d"
  by (simp_all add: operation_receipt_of_def)

lemma start_safe: "safe_change (start_change j auth i)"
  by (auto simp: safe_change_def start_change_def Let_def start_row_step split: if_split_asm)

lemma active_status_Inr:
  "assert_active_lease_status d = Inr u \<longleftrightarrow> dr_status d = D_leased \<or> dr_status d = D_executing"
  by (auto simp: assert_active_lease_status_def)

lemma renew_safe: "safe_change (renew_change j auth i)"
  by (auto simp: safe_change_def renew_change_def Let_def renew_row_step active_status_Inr split: if_split_asm)

lemma release_safe: "safe_change (release_change j auth i)"
  by (auto simp: safe_change_def release_change_def Let_def active_status_Inr
      intro: retry_row_step dead_letter_row_step split: if_split_asm)

section \<open>Complete\<close>

lemma append_good:
  assumes append: "append_mission_event_in_transaction L fresh clock tx_now db m request = Inr (result, db')"
    and good: "good L db" and m: "m \<in> set (db_missions db)" and date: "date_law L"
  shows "goes L db db'"
proof -
  note inv = append_inv [OF append _ m date]
  have led: "ledger_inv L db" using good by (simp add: good_def)
  have rows: "d \<in> set (unsettled db j) \<or> dr_status d = D_stored" if "d \<in> set (unsettled db' j)" for d j
    using inv [OF led] that by blast
  have "no_dead_letters db' x" if x: "x \<in> set (db_missions db')" for x
  proof -
    have "\<exists>y \<in> set (db_missions db). mr_id y = mr_id x \<and> (is_terminal (mr_status y) \<longrightarrow> is_terminal (mr_status x))"
      using inv [OF led]
    proof (elim conjE disjE exE)
      fix a
      assume a: "appended L db m request a db'"
      then obtain y where y: "y \<in> set (db_missions db)"
          "x = (if mr_id y = mr_id m then project_mission (sp_state a) y else y)"
        using x by (auto simp: appended_def)
      have "y = m" if "mr_id y = mr_id m"
        using led m y(1) that distinct_key [of mr_id "db_missions db" y m] by (simp add: ledger_inv_def)
      moreover have "\<not> is_terminal (mr_status m)"
        using a led m fresh_not_terminal by (fastforce simp: appended_def ledger_inv_def mission_row_inv_def)
      ultimately show ?thesis using y by (intro bexI [of _ y]) auto
    qed (use x in auto)
    then show ?thesis
      using good rows by (fastforce simp: good_def live_inv_def no_dead_letters_def)
  qed
  with inv [OF led] show ?thesis by (auto simp: goes_def good_def live_inv_def)
qed

lemma append_each_goes:
  assumes "append_each L fresh now tx_now auth source db m is = Inr (rs, db')"
    and "good L db" and "m \<in> set (db_missions db)" and "date_law L"
  shows "goes L db db'"
  using assms(1-3)
proof (induction "is" arbitrary: fresh db m rs)
  case Nil
  then show ?case by simp
next
  case (Cons i "is")
  from Cons.prems(1) obtain result db1 m1 rest where
    one: "append_mission_event_in_transaction L (fresh 0) None tx_now db m
        \<lparr>ap_actor_agent_id = na_agent_id auth, ap_input = i, ap_allow_derived_acceptance = False,
         ap_source_authorization = Some source, ap_recorded_at = Some now\<rparr> = Inr (result, db1)"
    and m1: "find_mission db1 (mr_id m) = Some m1"
    and rest: "append_each L (fresh \<circ> Suc) now tx_now auth source db1 m1 is = Inr (rest, db')"
    by (auto split: option.splits)
  note goes = append_good [OF one Cons.prems(2,3) assms(4)]
  then have "good L db1" using Cons.prems(2) by (simp add: goes_def)
  with Cons.IH [OF rest] find_mission_Some [OF m1] goes show ?case by (auto intro: goes_trans)
qed

lemma find_member: "find P xs = Some x \<Longrightarrow> x \<in> set xs \<and> P x"
  by (auto simp: find_Some_iff)

lemma acknowledge_source_Inr:
  assumes "acknowledge_source auth i inp ev now db = Inr (a, db')"
  obtains d where "d \<in> set (db_deliveries db)" "dr_id d = i" "dr_node_id d = na_node_id auth"
    "dr_status d = D_executing" "dr_settled_by_event_id d = Some ev" "dr_active_lease_id d = Some (lo_lease_id inp)"
    "dr_last_fencing_token d = lo_fencing_token inp" "a = acknowledged_row now d" "db' = set_delivery a db"
  using assms unfolding acknowledge_source_def
  by (auto split: option.splits dest!: find_member intro: that)

lemma superseded_goes:
  assumes cancel: "cancel_superseded_siblings L fresh auth source ev now db = Inr db'" and good: "good L db"
  shows "goes L db db'"
proof -
  let ?P = "\<lambda>d. dr_mission_id d = dr_mission_id source \<and> dr_settled_by_event_id d = Some ev
    \<and> dr_id d \<noteq> dr_id source \<and> open_status (dr_status d)"
  have dist: "distinct (map dr_id (db_deliveries db))" using good by (simp add: good_def ledger_inv_def)
  from cancel_where [OF cancel [unfolded cancel_superseded_siblings_def] dist refl]
  have frame: "db_missions db' = db_missions db" "db_events db' = db_events db"
      "db_participants db' = db_participants db" "rows_le (=) (db_receipts db) (db_receipts db')"
    and rows: "db_deliveries db' = map (\<lambda>x. if ?P x then superseded_row now x else x) (db_deliveries db)"
    by simp_all
  have step: "rows_step db db'"
    using frame rows superseded_row_step by (auto simp: rows_step_def list_all2_conv_all_nth)
  have "unsettled db' = unsettled db"
  proof
    fix j
    have "filter (\<lambda>d. dr_mission_id d = j \<and> dr_settled_by_event_id d = None)
        (map (\<lambda>x. if ?P x then superseded_row now x else x) ds)
      = filter (\<lambda>d. dr_mission_id d = j \<and> dr_settled_by_event_id d = None) ds" for ds
      by (induction ds) (auto simp: superseded_row_def close_lease_def)
    then show "unsettled db' j = unsettled db j" by (simp only: unsettled_def rows)
  qed
  then have "live_inv db \<Longrightarrow> live_inv db'" using frame(1) by (simp add: live_inv_def no_dead_letters_def)
  with rows_step_inv [OF _ step] rows_step_le [OF step] show ?thesis by (simp add: goes_def good_def)
qed

lemma finish_completion_cases:
  assumes "finish_completion L w auth i inp k rs db = Inr (r, db')"
  obtains final a db1 db2 receipt where "last_option (map ar_event rs) = Some final"
    "acknowledge_source auth i inp (ev_event_id final) (lk_now k) db = Inr (a, db1)"
    "cancel_superseded_siblings L (tw_fresh w 2) auth a (ev_event_id final) (lk_now k) db1 = Inr db2"
    "r = \<lparr>ors_delivery = delivery_of_row a, ors_receipt = receipt, ors_replayed = False,
        cmr_events = map ar_event rs, cmr_derived_delivery_ids = remdups (concat (map ar_delivery_ids rs))\<rparr>"
    "record_operation L auth a receipt (In_complete i inp) (Out_complete r) db2 = Inr db'"
    "or_operation receipt = Op_complete" "or_idempotency_key receipt = lo_idempotency_key inp"
  using assms that unfolding finish_completion_def Let_def
  by (auto simp: delivery_from_row_def operation_receipt_of_def split: option.splits if_split_asm)

lemma finish_goes:
  assumes "finish_completion L w auth i inp k rs db = Inr (r, db')" and good: "good L db"
  shows "goes L db db'"
  using assms(1)
proof (rule finish_completion_cases)
  fix final a db1 db2 receipt
  assume ack: "acknowledge_source auth i inp (ev_event_id final) (lk_now k) db = Inr (a, db1)"
    and cancel: "cancel_superseded_siblings L (tw_fresh w 2) auth a (ev_event_id final) (lk_now k) db1 = Inr db2"
    and stored: "record_operation L auth a receipt (In_complete i inp) (Out_complete r) db2 = Inr db'"
  from ack obtain d where d: "d \<in> set (db_deliveries db)" "dr_status d = D_executing"
      "dr_settled_by_event_id d = Some (ev_event_id final)"
    and a: "a = acknowledged_row (lk_now k) d" "db1 = set_delivery a db"
    by (rule acknowledge_source_Inr)
  have one: "goes L db db1"
    unfolding a by (intro set_delivery_goes [OF good d(1)] acknowledged_row_step) (use d in simp_all)
  then have "good L db1" using good by (simp add: goes_def)
  from superseded_goes [OF cancel this] one same_ledger_goes [OF record_operation_same [OF stored]]
  show ?thesis by (blast intro: goes_trans)
qed

lemma complete_cases:
  assumes "complete_locked L w auth i inp db k = Inr (r, db')"
  obtains (replayed) receipt where "db' = db"
      "load_replay db (na_node_id auth) i Op_complete (lo_idempotency_key inp) (In_complete i inp) = Inr (Some receipt)"
      "replayed_completion L (rr_output receipt) = Inr r"
  | (completed) inputs rs db1 where
      "load_replay db (na_node_id auth) i Op_complete (lo_idempotency_key inp) (In_complete i inp) = Inr None"
      "lk_reconciled_status k = None" "assert_runnable_context k = Inr ()"
      "dr_status (lk_delivery k) = D_executing" "dr_settled_by_event_id (lk_delivery k) = None"
      "assert_lease_authority (lk_delivery k) inp (lk_now k) = Inr ()"
      "build_completion_events L (tw_fresh w 3) k auth inp = Inr inputs"
      "append_each L (\<lambda>n. tw_fresh w (4 + n)) (lk_now k) (tw_started w) auth
        \<lparr>sa_executing = True, sa_node_id = Some (na_node_id auth), sa_lease_id = Some (lo_lease_id inp),
         sa_fencing_token = Some (lo_fencing_token inp)\<rparr> db (lk_mission k) inputs = Inr (rs, db1)"
      "finish_completion L w auth i inp k rs db1 = Inr (r, db')"
proof -
  from assms obtain found where load: "load_replay db (na_node_id auth) i Op_complete (lo_idempotency_key inp)
      (In_complete i inp) = Inr found"
    unfolding complete_locked_def by (auto split: option.splits)
  show thesis
  proof (cases found)
    case None
    with assms load show ?thesis
      unfolding complete_locked_def by (auto split: if_split_asm intro: completed)
  next
    case (Some receipt)
    with assms load show ?thesis
      unfolding complete_locked_def by (auto intro: replayed)
  qed
qed

lemma complete_safe:
  assumes "date_law L"
  shows "safe_operation L auth i (complete_locked L w auth i inp)"
  unfolding safe_operation_def
proof (intro allI impI)
  fix db k r db'
  assume good: "good L db" and lock: "locked db auth i k" and "complete_locked L w auth i inp db k = Inr (r, db')"
  from this(3) show "goes L db db'"
  proof (cases rule: complete_cases)
    case (completed inputs rs db1)
    have "lk_mission k \<in> set (db_missions db)" using lock by (simp add: locked_def)
    from append_each_goes [OF completed(8) good this assms] have one: "goes L db db1" .
    then have "good L db1" using good by (simp add: goes_def)
    from finish_goes [OF completed(9) this] one show ?thesis by (blast intro: goes_trans)
  qed simp
qed

end
