(* ===== verification/Delivery_Revocation.thy ===== *)
theory Delivery_Revocation
  imports Delivery_Ledger
begin

text \<open>
  \<^verbatim>\<open>relay/src/services/delivery-revocation.ts\<close>: the cancellation of all open work of the Missions in which
  a revoked Node or workspace takes part.
\<close>

text \<open>The scope of a revocation: the Node, or one workspace binding of it.\<close>

datatype revocation_scope = Scope_node | Scope_workspace uuid

fun scope_reason :: "revocation_scope \<Rightarrow> cancellation_reason" where
  "scope_reason Scope_node = Node_revoked"
| "scope_reason (Scope_workspace w) = Workspace_revoked"

fun scope_reason_name :: "revocation_scope \<Rightarrow> string" where
  "scope_reason_name Scope_node = ''node_revoked''"
| "scope_reason_name (Scope_workspace w) = ''workspace_revoked''"

text \<open>\<open>priorLeaseEvidence\<close>: a lease is complete or absent.\<close>

definition check_prior_lease :: "delivery_row \<Rightarrow> relay_error + unit" where
  "check_prior_lease d = (if (dr_active_lease_id d = None) \<noteq> (dr_lease_expires_at d = None)
     then Inl (Relay_err Internal) else Inr ())"

definition revoked_row :: "cancellation_reason \<Rightarrow> int \<Rightarrow> delivery_row \<Rightarrow> delivery_row" where
  "revoked_row reason now d = (close_lease D_cancelled now d)\<lparr>dr_cancelled_at := Some now,
     dr_cancellation_reason := Some reason\<rparr>"

definition revocation_targets :: "relay_db \<Rightarrow> uuid list \<Rightarrow> delivery_row list" where
  "revocation_targets db mission_ids = sort_key dr_mission_id (sort_key dr_id
     (filter (\<lambda>d. dr_mission_id d \<in> set mission_ids \<and> open_status (dr_status d)) (db_deliveries db)))"

definition cancel_mission_deliveries ::
  "(nat \<Rightarrow> uuid) \<Rightarrow> int option \<Rightarrow> uuid option \<Rightarrow> revocation_scope \<Rightarrow> uuid list \<Rightarrow> relay_db
    \<Rightarrow> relay_error + uuid list \<times> relay_db" where
  "cancel_mission_deliveries fresh clock actor scope mission_ids db =
     (let deliveries = revocation_targets db mission_ids in
      if mission_ids = [] \<or> deliveries = [] then Inr ([], db)
      else (case read_database_clock clock of
              Inl e \<Rightarrow> Inl e
            | Inr now \<Rightarrow>
               (case cancel_each fresh (\<lambda>d. ''cancel:'' @ scope_reason_name scope @ '':'' @ dr_id d)
                  check_prior_lease (revoked_row (scope_reason scope) now) (scope_reason scope) now actor deliveries db of
                  Inl e \<Rightarrow> Inl e
                | Inr db \<Rightarrow> Inr (map dr_id deliveries, db))))"

definition cancel_deliveries_for_revocation ::
  "(nat \<Rightarrow> uuid) \<Rightarrow> int option \<Rightarrow> uuid \<Rightarrow> revocation_scope \<Rightarrow> uuid \<Rightarrow> relay_db
    \<Rightarrow> relay_error + uuid list \<times> relay_db" where
  "cancel_deliveries_for_revocation fresh clock actor scope node_id db =
     cancel_mission_deliveries fresh clock (Some actor) scope
       (remdups (map pt_mission_id (filter (\<lambda>p. pt_node_id p = node_id
          \<and> (case scope of Scope_node \<Rightarrow> True | Scope_workspace w \<Rightarrow> pt_workspace_binding_id p = w))
          (db_participants db)))) db"

definition cancel_deliveries_for_node_revocations ::
  "(nat \<Rightarrow> uuid) \<Rightarrow> int option \<Rightarrow> uuid option \<Rightarrow> uuid list \<Rightarrow> relay_db \<Rightarrow> relay_error + uuid list \<times> relay_db" where
  "cancel_deliveries_for_node_revocations fresh clock actor node_ids db =
     (if node_ids = [] then Inr ([], db)
      else cancel_mission_deliveries fresh clock actor Scope_node
        (remdups (map pt_mission_id (filter (\<lambda>p. pt_node_id p \<in> set node_ids) (db_participants db)))) db)"

end
