(* ===== verification/Node_Enrollment.thy ===== *)
theory Node_Enrollment
  imports Delivery_Revocation
begin

text \<open>
  \<^verbatim>\<open>relay/src/services/node-enrollment.ts\<close> and the disabling of an agent in
  \<^verbatim>\<open>relay/src/routes/admin.ts\<close>: Nodes, their credentials and their workspaces.  The key that is generated
  for a credential, its hash and its salt are not part of the model; a credential is its id.
\<close>

section \<open>Descriptors\<close>

definition status_of :: "bool \<Rightarrow> active_status" where
  "status_of active = (if active then S_active else S_revoked)"

definition to_node_descriptor :: "host_lib \<Rightarrow> node_row \<Rightarrow> relay_error + node_descriptor" where
  "to_node_descriptor L n =
     (let d = \<lparr>nd_node_id = no_id n, nd_agent_id = no_agent_id n, nd_name = no_name n,
            nd_status = status_of (no_active n), nd_capabilities = no_capabilities n,
            nd_last_seen_at = map_option to_iso_string (no_last_seen_at n),
            nd_created_at = to_iso_string (no_created_at n), nd_updated_at = to_iso_string (no_updated_at n),
            nd_revoked_at = map_option to_iso_string (no_revoked_at n)\<rparr> in
      if node_descriptor_ok L d then Inr d else Inl Relay_zod)"

definition to_workspace_descriptor :: "host_lib \<Rightarrow> workspace_row \<Rightarrow> uuid \<Rightarrow> relay_error + workspace_binding" where
  "to_workspace_descriptor L w agent_id =
     (let d = \<lparr>wb_workspace_binding_id = ws_id w, wb_node_id = ws_node_id w, wb_agent_id = agent_id,
            wb_alias = ws_alias w, wb_repository_url = ws_repository_url w,
            wb_allowed_base_refs = ws_allowed_base_refs w, wb_status = status_of (ws_active w),
            wb_created_at = to_iso_string (ws_created_at w), wb_updated_at = to_iso_string (ws_updated_at w),
            wb_revoked_at = map_option to_iso_string (ws_revoked_at w)\<rparr> in
      if workspace_binding_ok L d then Inr d else Inl Relay_zod)"

section \<open>Nodes and credentials\<close>

text \<open>Both inserts respect the unique indexes.\<close>

definition insert_node :: "node_row \<Rightarrow> relay_db \<Rightarrow> relay_error + relay_db" where
  "insert_node n db =
     (if list_ex (\<lambda>x. no_id x = no_id n \<or> no_agent_id x = no_agent_id n \<and> no_name x = no_name n
           \<and> no_active x \<and> no_active n) (db_nodes db)
      then Inl Unique_violation else Inr (db\<lparr>db_nodes := db_nodes db @ [n]\<rparr>))"

definition insert_credential :: "credential_row \<Rightarrow> relay_db \<Rightarrow> relay_error + relay_db" where
  "insert_credential c db =
     (if list_ex (\<lambda>x. cd_id x = cd_id c \<or> cd_node_id x = cd_node_id c \<and> \<not> cd_revoked x \<and> \<not> cd_revoked c)
         (db_credentials db)
      then Inl Unique_violation else Inr (db\<lparr>db_credentials := db_credentials db @ [c]\<rparr>))"

definition enroll_node ::
  "host_lib \<Rightarrow> (nat \<Rightarrow> uuid) \<Rightarrow> int \<Rightarrow> uuid \<Rightarrow> node_enrollment_input \<Rightarrow> relay_db
    \<Rightarrow> relay_error + (node_descriptor \<times> uuid) \<times> relay_db" where
  "enroll_node L fresh tx_now agent_id i db =
     (let n = \<lparr>no_id = fresh 0, no_agent_id = agent_id, no_name = ne_name i, no_active = True,
            no_capabilities = sort (ne_capabilities i), no_last_seen_at = None, no_revoked_at = None,
            no_created_at = tx_now, no_updated_at = tx_now\<rparr> in
      if \<not> list_ex (\<lambda>a. ag_id a = agent_id \<and> ag_active a) (db_agents db)
      then Inl (Relay_err Unauthenticated)
      else if list_ex (\<lambda>x. no_agent_id x = agent_id \<and> no_name x = ne_name i \<and> no_active x) (db_nodes db)
      then Inl (Relay_err State_changed)
      else (case insert_node n db of
              Inl e \<Rightarrow> Inl e
            | Inr db \<Rightarrow>
               (case insert_credential \<lparr>cd_id = fresh 1, cd_node_id = fresh 0, cd_revoked = False\<rparr> db of
                  Inl e \<Rightarrow> Inl e
                | Inr db \<Rightarrow>
                   (case to_node_descriptor L n of
                      Inl e \<Rightarrow> Inl e
                    | Inr d \<Rightarrow> Inr ((d, fresh 1), write_audit (Some agent_id) ''node.enroll'' (fresh 0) db)))))"

definition owned_node :: "relay_db \<Rightarrow> uuid \<Rightarrow> uuid \<Rightarrow> relay_error + node_row" where
  "owned_node db agent_id node_id =
     (case find (\<lambda>n. no_id n = node_id \<and> no_agent_id n = agent_id) (db_nodes db) of
        None \<Rightarrow> Inl (Relay_err Node_not_found) | Some n \<Rightarrow> Inr n)"

definition get_node :: "host_lib \<Rightarrow> relay_db \<Rightarrow> uuid \<Rightarrow> uuid \<Rightarrow> relay_error + node_descriptor" where
  "get_node L db node_id agent_id =
     (case owned_node db agent_id node_id of Inl e \<Rightarrow> Inl e | Inr n \<Rightarrow> to_node_descriptor L n)"

definition active_credentials :: "relay_db \<Rightarrow> uuid \<Rightarrow> uuid list" where
  "active_credentials db node_id =
     map cd_id (filter (\<lambda>c. cd_node_id c = node_id \<and> \<not> cd_revoked c) (db_credentials db))"

text \<open>The left join of the owner's Nodes with their active credential; two rows of one Node are an error.\<close>

definition list_nodes :: "host_lib \<Rightarrow> relay_db \<Rightarrow> uuid \<Rightarrow> relay_error + (node_descriptor \<times> uuid option) list" where
  "list_nodes L db agent_id =
     (let owned = sort_key no_created_at (sort_key no_id (filter (\<lambda>n. no_agent_id n = agent_id) (db_nodes db)));
          rows = concat (map (\<lambda>n. case active_credentials db (no_id n) of
              [] \<Rightarrow> [(n, None)] | cs \<Rightarrow> map (\<lambda>c. (n, Some c)) cs) owned) in
      if \<not> distinct (map (no_id \<circ> fst) rows) then Inl (Relay_err Internal)
      else traverse (\<lambda>(n, c). case to_node_descriptor L n of Inl e \<Rightarrow> Inl e | Inr d \<Rightarrow> Inr (d, c)) rows)"

definition revoke_credentials :: "(credential_row \<Rightarrow> bool) \<Rightarrow> relay_db \<Rightarrow> relay_db" where
  "revoke_credentials P db = db\<lparr>db_credentials := map (\<lambda>c. if P c \<and> \<not> cd_revoked c
     then c\<lparr>cd_revoked := True\<rparr> else c) (db_credentials db)\<rparr>"

definition rotate_node_credential ::
  "(nat \<Rightarrow> uuid) \<Rightarrow> uuid \<Rightarrow> uuid \<Rightarrow> uuid \<Rightarrow> relay_db \<Rightarrow> relay_error + uuid \<times> relay_db" where
  "rotate_node_credential fresh agent_id node_id expected db =
     (case owned_node db agent_id node_id of
        Inl e \<Rightarrow> Inl e
      | Inr n \<Rightarrow>
          if \<not> no_active n then Inl (Relay_err Invalid_transition_code)
          else if take 2 (active_credentials db node_id) \<noteq> [expected] then Inl (Relay_err State_changed)
          else (case insert_credential \<lparr>cd_id = fresh 0, cd_node_id = node_id, cd_revoked = False\<rparr>
                  (revoke_credentials (\<lambda>c. cd_id c = expected \<and> cd_node_id c = node_id) db) of
                  Inl e \<Rightarrow> Inl e
                | Inr db \<Rightarrow> Inr (fresh 0, write_audit (Some agent_id) ''node.credential.rotate'' node_id db)))"

section \<open>Revoking a Node\<close>

definition revoke_nodes :: "int \<Rightarrow> (node_row \<Rightarrow> bool) \<Rightarrow> relay_db \<Rightarrow> relay_db" where
  "revoke_nodes at P db = db\<lparr>db_nodes := map (\<lambda>n. if P n
     then n\<lparr>no_active := False, no_revoked_at := Some at, no_updated_at := at\<rparr> else n) (db_nodes db)\<rparr>"

definition revoke_workspaces :: "int \<Rightarrow> (workspace_row \<Rightarrow> bool) \<Rightarrow> relay_db \<Rightarrow> relay_db" where
  "revoke_workspaces at P db = db\<lparr>db_workspaces := map (\<lambda>w. if P w
     then w\<lparr>ws_active := False, ws_revoked_at := Some at, ws_updated_at := at\<rparr> else w) (db_workspaces db)\<rparr>"

text \<open>\<open>at\<close> is the clock reading of the updates.\<close>

definition revoke_node ::
  "(nat \<Rightarrow> uuid) \<Rightarrow> int option \<Rightarrow> int \<Rightarrow> uuid \<Rightarrow> uuid \<Rightarrow> relay_db \<Rightarrow> relay_error + relay_db" where
  "revoke_node fresh clock at agent_id node_id db =
     (case owned_node db agent_id node_id of
        Inl e \<Rightarrow> Inl e
      | Inr n \<Rightarrow>
          if \<not> no_active n then Inr db
          else (case cancel_deliveries_for_revocation fresh clock agent_id Scope_node node_id db of
                  Inl e \<Rightarrow> Inl e
                | Inr (ids, db) \<Rightarrow>
                    Inr (write_audit (Some agent_id) ''node.revoke'' node_id
                      (revoke_workspaces at (\<lambda>w. ws_node_id w = node_id \<and> ws_active w)
                        (revoke_credentials (\<lambda>c. cd_node_id c = node_id)
                          (revoke_nodes at (\<lambda>x. no_id x = node_id) db))))))"

text \<open>Disabling an agent revokes all its Nodes.\<close>

definition disable_agent ::
  "(nat \<Rightarrow> uuid) \<Rightarrow> int option \<Rightarrow> int \<Rightarrow> uuid \<Rightarrow> relay_db \<Rightarrow> relay_error + relay_db" where
  "disable_agent fresh clock at agent_id db =
     (let node_ids = sort (map no_id (filter (\<lambda>n. no_agent_id n = agent_id) (db_nodes db)));
          disable = (\<lambda>db. write_audit None ''agent.disable'' agent_id
            (db\<lparr>db_agents := map (\<lambda>a. if ag_id a = agent_id then a\<lparr>ag_active := False\<rparr> else a) (db_agents db)\<rparr>)) in
      if \<not> list_ex (\<lambda>a. ag_id a = agent_id) (db_agents db) then Inl (Relay_err Recipient_not_found)
      else if node_ids = [] then Inr (disable db)
      else (case cancel_deliveries_for_node_revocations fresh clock None node_ids db of
              Inl e \<Rightarrow> Inl e
            | Inr (ids, db) \<Rightarrow>
                Inr (disable
                  (revoke_nodes at (\<lambda>n. no_id n \<in> set node_ids \<and> no_active n)
                    (revoke_workspaces at (\<lambda>w. ws_node_id w \<in> set node_ids \<and> ws_active w)
                      (revoke_credentials (\<lambda>c. cd_node_id c \<in> set node_ids) db))))))"

section \<open>Workspaces\<close>

definition find_workspace :: "relay_db \<Rightarrow> uuid \<Rightarrow> string \<Rightarrow> workspace_row option" where
  "find_workspace db node_id alias =
     (case sort_key ws_created_at (filter (\<lambda>w. ws_node_id w = node_id \<and> ws_alias w = alias) (db_workspaces db)) of
        [] \<Rightarrow> None | w # _ \<Rightarrow> Some w)"

definition register_workspace ::
  "host_lib \<Rightarrow> (nat \<Rightarrow> uuid) \<Rightarrow> int \<Rightarrow> node_auth \<Rightarrow> workspace_registration_input \<Rightarrow> relay_db
    \<Rightarrow> relay_error + (workspace_binding \<times> bool) \<times> relay_db" where
  "register_workspace L fresh tx_now auth i db =
     (let refs = sort (wr_allowed_base_refs i) in
      case assert_active_node_credential db auth of
        Inl e \<Rightarrow> Inl e
      | Inr _ \<Rightarrow>
         (case find_workspace db (na_node_id auth) (wr_alias i) of
            Some w \<Rightarrow>
              if \<not> ws_active w then Inl (Relay_err Invalid_transition_code)
              else if ws_repository_url w \<noteq> wr_repository_url i \<or> ws_allowed_base_refs w \<noteq> refs
              then Inl (Relay_err State_changed)
              else (case to_workspace_descriptor L w (na_agent_id auth) of
                      Inl e \<Rightarrow> Inl e | Inr d \<Rightarrow> Inr ((d, True), db))
          | None \<Rightarrow>
             (let w = \<lparr>ws_id = fresh 0, ws_node_id = na_node_id auth, ws_alias = wr_alias i,
                    ws_repository_url = wr_repository_url i, ws_allowed_base_refs = refs, ws_active = True,
                    ws_revoked_at = None, ws_created_at = tx_now, ws_updated_at = tx_now\<rparr> in
              if list_ex (\<lambda>x. ws_id x = fresh 0) (db_workspaces db) then Inl Unique_violation
              else (case to_workspace_descriptor L w (na_agent_id auth) of
                      Inl e \<Rightarrow> Inl e
                    | Inr d \<Rightarrow> Inr ((d, False), write_audit (Some (na_agent_id auth)) ''workspace.register'' (fresh 0)
                        (db\<lparr>db_workspaces := db_workspaces db @ [w]\<rparr>))))))"

definition list_workspaces :: "host_lib \<Rightarrow> relay_db \<Rightarrow> uuid \<Rightarrow> uuid \<Rightarrow> relay_error + workspace_binding list" where
  "list_workspaces L db node_id agent_id = traverse (\<lambda>w. to_workspace_descriptor L w agent_id)
     (sort_key ws_created_at (sort_key ws_id (filter (\<lambda>w. ws_node_id w = node_id) (db_workspaces db))))"

definition revoke_workspace ::
  "(nat \<Rightarrow> uuid) \<Rightarrow> int option \<Rightarrow> int \<Rightarrow> node_auth \<Rightarrow> string \<Rightarrow> relay_db \<Rightarrow> relay_error + relay_db" where
  "revoke_workspace fresh clock at auth alias db =
     (case assert_active_node_credential db auth of
        Inl e \<Rightarrow> Inl e
      | Inr _ \<Rightarrow>
         (case find_workspace db (na_node_id auth) alias of
            None \<Rightarrow> Inl (Relay_err Workspace_not_found)
          | Some w \<Rightarrow>
              if \<not> ws_active w then Inr db
              else (case cancel_deliveries_for_revocation fresh clock (na_agent_id auth)
                      (Scope_workspace (ws_id w)) (na_node_id auth) db of
                      Inl e \<Rightarrow> Inl e
                    | Inr (ids, db) \<Rightarrow> Inr (write_audit (Some (na_agent_id auth)) ''workspace.revoke'' (ws_id w)
                        (revoke_workspaces at (\<lambda>x. ws_id x = ws_id w) db)))))"

end
