(* ===== verification/Ledger_Laws.thy ===== *)
theory Ledger_Laws
  imports Lease_Laws Node_Enrollment
begin

text \<open>
  The services of the Relay as one machine over its tables: every request, accepted or refused, leaves tables
  that satisfy the invariant and moves them along the order.
\<close>

lemma goes_same: "goes L db db1 \<Longrightarrow> same_ledger db1 db' \<Longrightarrow> goes L db db'"
  by (blast intro: goes_trans same_ledger_goes)

section \<open>Revocation\<close>

lemma quiet_rows_goes:
  assumes "rows_step db db'" and "\<And>d. d \<in> set (db_deliveries db') \<Longrightarrow> dr_status d = D_dead_lettered
    \<Longrightarrow> d \<in> set (db_deliveries db)"
  shows "goes L db db'"
proof -
  have "live_inv db \<Longrightarrow> live_inv db'"
    using assms by (fastforce simp: live_inv_def no_dead_letters_def unsettled_def rows_step_def)
  with rows_step_inv [OF _ assms(1)] rows_step_le [OF assms(1)] show ?thesis by (simp add: goes_def good_def)
qed

lemma revoked_row_step: "open_status (dr_status d) \<Longrightarrow> row_step d (revoked_row r now d)"
  by (auto simp: row_defs revoked_row_def)

lemma revoked_fields [simp]: "dr_id (revoked_row r now d) = dr_id d" "dr_status (revoked_row r now d) = D_cancelled"
  by (simp_all add: revoked_row_def close_lease_def)

lemma revocation_targets_set:
  "set (revocation_targets db ids) = {d \<in> set (db_deliveries db). dr_mission_id d \<in> set ids \<and> open_status (dr_status d)}"
  by (auto simp: revocation_targets_def)

lemma revocation_targets_distinct:
  assumes "distinct (map dr_id (db_deliveries db))"
  shows "distinct (map dr_id (revocation_targets db ids))"
proof -
  have "distinct (revocation_targets db ids)"
    using assms by (simp add: revocation_targets_def distinct_map)
  moreover have "inj_on dr_id (set (revocation_targets db ids))"
    using assms by (auto simp: distinct_map inj_on_def revocation_targets_set)
  ultimately show ?thesis by (simp add: distinct_map)
qed

lemma cancel_mission_deliveries_cases:
  assumes "cancel_mission_deliveries fresh clock actor scope mids db = Inr (ids, db')"
    and dist: "distinct (map dr_id (db_deliveries db))"
  shows "\<exists>now. db_deliveries db' = map (\<lambda>d. if dr_mission_id d \<in> set mids \<and> open_status (dr_status d)
      then revoked_row (scope_reason scope) now d else d) (db_deliveries db)"
    and "goes L db db'"
proof -
  have "\<exists>now. db_deliveries db' = map (\<lambda>d. if dr_mission_id d \<in> set mids \<and> open_status (dr_status d)
      then revoked_row (scope_reason scope) now d else d) (db_deliveries db)
    \<and> db_missions db' = db_missions db \<and> db_events db' = db_events db \<and> db_participants db' = db_participants db
    \<and> rows_le (=) (db_receipts db) (db_receipts db')"
  proof (cases "mids = [] \<or> revocation_targets db mids = []")
    case True
    then have "\<forall>d \<in> set (db_deliveries db). \<not> (dr_mission_id d \<in> set mids \<and> open_status (dr_status d))"
      using revocation_targets_set [of db mids] by auto
    moreover have "db' = db" using assms(1) True by (auto simp: cancel_mission_deliveries_def Let_def)
    ultimately show ?thesis
      by (intro exI [of _ 0]) (auto simp: rows_le_refl intro!: map_idI [symmetric])
  next
    case False
    with assms(1) obtain now key where
      cancel: "cancel_each fresh key check_prior_lease (revoked_row (scope_reason scope) now) (scope_reason scope) now
        actor (revocation_targets db mids) db = Inr db'"
      by (auto simp: cancel_mission_deliveries_def Let_def)
    have "(dr_id d \<in> dr_id ` set (revocation_targets db mids)) = (dr_mission_id d \<in> set mids \<and> open_status (dr_status d))"
      if "d \<in> set (db_deliveries db)" for d
      using that distinct_key [OF dist] by (auto simp: revocation_targets_set)
    then show ?thesis
      using cancel_each_frame [OF cancel revocation_targets_distinct [OF dist]] by auto
  qed
  then obtain now where rows: "db_deliveries db' = map (\<lambda>d. if dr_mission_id d \<in> set mids \<and> open_status (dr_status d)
      then revoked_row (scope_reason scope) now d else d) (db_deliveries db)"
    and frame: "db_missions db' = db_missions db" "db_events db' = db_events db" "db_participants db' = db_participants db"
      "rows_le (=) (db_receipts db) (db_receipts db')"
    by blast
  then show "\<exists>now. db_deliveries db' = map (\<lambda>d. if dr_mission_id d \<in> set mids \<and> open_status (dr_status d)
      then revoked_row (scope_reason scope) now d else d) (db_deliveries db)" by blast
  have "rows_step db db'"
    using rows frame revoked_row_step by (auto simp: rows_step_def list_all2_conv_all_nth)
  then show "goes L db db'"
    by (rule quiet_rows_goes) (auto simp: rows split: if_splits)
qed

lemma revocation_goes:
  assumes "cancel_deliveries_for_revocation fresh clock actor scope n db = Inr (ids, db')" and "good L db"
  shows "goes L db db'"
  using assms unfolding cancel_deliveries_for_revocation_def
  by (intro cancel_mission_deliveries_cases(2)) (auto simp: good_def ledger_inv_def)

lemma node_revocations_goes:
  assumes "cancel_deliveries_for_node_revocations fresh clock actor ns db = Inr (ids, db')" and "good L db"
  shows "goes L db db'"
  using assms cancel_mission_deliveries_cases(2) unfolding cancel_deliveries_for_node_revocations_def
  by (auto simp: good_def ledger_inv_def split: if_split_asm)

section \<open>Nodes and workspaces\<close>

text \<open>These tables are outside the ledger.\<close>

lemma outside_ledger [simp]:
  "same_ledger db (db\<lparr>db_nodes := x\<rparr>)" "same_ledger db (db\<lparr>db_credentials := cs\<rparr>)"
  "same_ledger db (db\<lparr>db_workspaces := ws\<rparr>)" "same_ledger db (db\<lparr>db_agents := as\<rparr>)"
  "same_ledger db db"
  by (simp_all add: same_ledger_def rows_le_refl)

lemma same_ledger_trans: "same_ledger db db' \<Longrightarrow> same_ledger db' db'' \<Longrightarrow> same_ledger db db''"
  by (auto simp: same_ledger_def intro: rows_le_trans [of "(=)"])

lemma outside_updates:
  "same_ledger db (revoke_credentials P db)" "same_ledger db (revoke_nodes at Q db)"
  "same_ledger db (revoke_workspaces at R db)"
  by (simp_all add: revoke_credentials_def revoke_nodes_def revoke_workspaces_def)

lemma enroll_same: "enroll_node L fresh now agent i db = Inr (r, db') \<Longrightarrow> same_ledger db db'"
  by (auto simp: enroll_node_def insert_node_def insert_credential_def Let_def same_ledger_def rows_le_refl
      split: if_split_asm)

lemma rotate_same: "rotate_node_credential fresh agent n expected db = Inr (r, db') \<Longrightarrow> same_ledger db db'"
  by (auto simp: rotate_node_credential_def insert_credential_def revoke_credentials_def same_ledger_def rows_le_refl
      split: if_split_asm)

lemma register_same: "register_workspace L fresh now auth i db = Inr (r, db') \<Longrightarrow> same_ledger db db'"
  by (auto simp: register_workspace_def Let_def same_ledger_def rows_le_refl split: if_split_asm option.splits)

lemma revoke_node_goes:
  assumes "revoke_node fresh clock at agent n db = Inr db'" and "good L db"
  shows "goes L db db'"
proof -
  consider "db' = db" | ids db1 where "cancel_deliveries_for_revocation fresh clock agent Scope_node n db = Inr (ids, db1)"
      "same_ledger db1 db'"
    using assms(1) by (auto simp: revoke_node_def same_ledger_def rows_le_refl revoke_workspaces_def
        revoke_credentials_def revoke_nodes_def split: if_split_asm)
  then show ?thesis
    using revocation_goes [OF _ assms(2)] by cases (simp, blast intro: goes_same)
qed

lemma revoke_workspace_goes:
  assumes "revoke_workspace fresh clock at auth alias db = Inr db'" and "good L db"
  shows "goes L db db'"
proof -
  consider "db' = db" | w ids db1 where "cancel_deliveries_for_revocation fresh clock (na_agent_id auth) w (na_node_id auth) db
        = Inr (ids, db1)" "same_ledger db1 db'"
    using assms(1) by (auto simp: revoke_workspace_def same_ledger_def rows_le_refl revoke_workspaces_def
        split: if_split_asm option.splits)
  then show ?thesis
    using revocation_goes [OF _ assms(2)] by cases (simp, blast intro: goes_same)
qed

lemma disable_agent_goes:
  assumes "disable_agent fresh clock at agent db = Inr db'" and "good L db"
  shows "goes L db db'"
proof -
  consider "same_ledger db db'" | ns ids db1 where "cancel_deliveries_for_node_revocations fresh clock None ns db = Inr (ids, db1)"
      "same_ledger db1 db'"
    using assms(1) by (auto simp: disable_agent_def Let_def same_ledger_def rows_le_refl revoke_workspaces_def
        revoke_credentials_def revoke_nodes_def split: if_split_asm)
  then show ?thesis
    using node_revocations_goes [OF _ assms(2)] by cases (blast intro: goes_same same_ledger_goes)+
qed

section \<open>Appending, creating, accepting\<close>

lemma append_mission_event_goes:
  assumes "append_mission_event L fresh clock tx_now db i actor inp = Inr (r, db')" and "good L db" and "date_law L"
  shows "goes L db db'"
  using assms append_good find_mission_Some
  by (fastforce simp: append_mission_event_def split: if_split_asm event_body.splits option.splits)

lemma find_mission_None: "find_mission db i = None \<Longrightarrow> i \<notin> mr_id ` set (db_missions db)"
  by (auto simp: find_mission_def find_None_iff)

lemma traverse_length: "traverse f xs = Inr ys \<Longrightarrow> length ys = length xs"
  by (simp add: traverse_Inr list_all2_lengthD)

lemma no_rows: "f ` set xs \<subseteq> A \<Longrightarrow> i \<notin> A \<Longrightarrow> filter (\<lambda>x. f x = i) xs = []"
  by (auto simp: filter_empty_conv)

lemma filter_key: "(\<forall>x \<in> set xs. f x = i) \<Longrightarrow> filter (\<lambda>x. f x = j) xs = (if j = i then xs else [])"
  by (induction xs) auto

lemma new_participants:
  assumes "length bs = length ps"
  shows "map pt_agent_id (map2 (new_participant_row i) ps bs) = map p_agent_id ps"
    and "x \<in> set (map2 (new_participant_row i) ps bs) \<Longrightarrow> pt_mission_id x = i"
  using assms by (induction ps bs rule: list_induct2') (auto simp: new_participant_row_def)

lemma bind_Some_Inr [simp]:
  "(case x of None \<Rightarrow> Inl e | Some y \<Rightarrow> f y) = Inr z \<longleftrightarrow> (\<exists>y. x = Some y \<and> f y = Inr z)"
  by (cases x) auto

lemma work_inv_agents:
  assumes "node_agent db' (mr_id m) = node_agent db (mr_id m)" and "unsettled db' = unsettled db"
  shows "work_inv db' m = work_inv db m"
proof -
  have "map (row_work db') (unsettled db (mr_id m)) = map (row_work db) (unsettled db (mr_id m))"
    using assms(1) by (auto simp: row_work_def unsettled_def)
  then show ?thesis unfolding work_inv_def assms(2) by (simp only:)
qed

lemma add_mission_inv:
  assumes inv: "ledger_inv L db" and tables: "db_missions db' = db_missions db @ [m]" "db_events db' = db_events db"
      "db_deliveries db' = db_deliveries db" "db_participants db' = db_participants db @ ps"
    and new: "mr_id m \<notin> mr_id ` set (db_missions db)" and ps: "\<forall>p \<in> set ps. pt_mission_id p = mr_id m"
    and rows: "mission_row_inv L db' m" "\<forall>x \<in> set (db_missions db). mission_row_inv L db' x"
  shows "ledger_inv L db'"
proof -
  have ids: "mr_id ` set (db_missions db') = insert (mr_id m) (mr_id ` set (db_missions db))"
    by (simp add: tables)
  have parts: "pt_mission_id ` set (db_participants db') \<subseteq> insert (mr_id m) (mr_id ` set (db_missions db))"
    using inv ps by (auto simp: tables ledger_inv_def)
  have "distinct (map mr_id (db_missions db'))" "\<forall>x \<in> set (db_missions db'). mission_row_inv L db' x"
    using inv new rows by (simp_all add: tables(1) ledger_inv_def)
  then show ?thesis
    using inv parts unfolding ledger_inv_def ids tables(2,3) by blast
qed

lemma create_cases:
  assumes "create_mission_ledger L clock tx_now db creator config = Inr (r, db')"
  obtains (replayed) "db' = db"
  | (created) s bs expires db1 where
      "find_mission db (mf_mission_id (mc_manifest (cfg_mission_context config))) = None" "config_ok L config"
      "create_coordinator_state L config = Inr s"
      "length bs = length (mf_participants (mc_manifest (cfg_mission_context config)))"
      "insert_mission (new_mission_row (mf_mission_id (mc_manifest (cfg_mission_context config))) creator config s expires tx_now)
        (map2 (new_participant_row (mf_mission_id (mc_manifest (cfg_mission_context config))))
          (mf_participants (mc_manifest (cfg_mission_context config))) bs) db = Inr db1"
      "same_ledger db1 db'"
proof (cases "find_mission db (mf_mission_id (mc_manifest (cfg_mission_context config)))")
  case None
  with assms show ?thesis
    unfolding create_mission_ledger_def Let_def
    by (auto split: if_split_asm dest: traverse_length simp: write_audit_same intro: created)
next
  case (Some m)
  with assms show ?thesis
    unfolding create_mission_ledger_def Let_def
    by (auto split: if_split_asm intro: replayed)
qed

lemma create_goes:
  assumes "create_mission_ledger L clock tx_now db creator config = Inr (r, db')" and good: "good L db"
  shows "goes L db db'"
  using assms(1)
proof (cases rule: create_cases)
  case (created s bs expires db1)
  let ?i = "mf_mission_id (mc_manifest (cfg_mission_context config))"
  let ?m = "new_mission_row ?i creator config s expires tx_now"
  let ?ps = "map2 (new_participant_row ?i) (mf_participants (mc_manifest (cfg_mission_context config))) bs"
  have inv: "ledger_inv L db" and live: "live_inv db" using good by (auto simp: good_def)
  note new = find_mission_None [OF created(1)] and parts = new_participants [OF created(4), where i = ?i]
  have db1: "db1 = db\<lparr>db_missions := db_missions db @ [?m], db_participants := db_participants db @ ?ps\<rparr>"
    and nodes: "distinct (map pt_node_id ?ps)"
    using created(5) by (auto simp: insert_mission_def split: if_split_asm)
  have mid: "mr_id ?m = ?i" by (simp add: new_mission_row_def)
  have events: "events_of db1 = events_of db" unfolding db1 by (rule events_of_same) simp
  have "filter (\<lambda>e. er_mission_id e = ?i) (db_events db) = []"
    by (rule no_rows [OF _ new]) (use inv in \<open>simp add: ledger_inv_def\<close>)
  then have no_events: "events_of db ?i = []" by (simp add: events_of_def)
  have "filter (\<lambda>d. dr_mission_id d = ?i) (db_deliveries db) = []"
    "filter (\<lambda>p. pt_mission_id p = ?i) (db_participants db) = []"
    by (rule no_rows [OF _ new]; use inv in \<open>simp add: ledger_inv_def\<close>)+
  then have none: "participants_of db ?i = []" "unsettled db ?i = []"
    by (auto simp: participants_of_def unsettled_def filter_empty_conv)
  have "filter (\<lambda>p. pt_mission_id p = j) ?ps = (if j = ?i then ?ps else [])" for j
    by (rule filter_key) (use parts(2) in blast)
  then have split: "participants_of db1 j = participants_of db j @ (if j = ?i then ?ps else [])" for j
    by (simp add: db1 participants_of_def)
  have same: "unsettled db1 = unsettled db" unfolding db1 by (rule unsettled_cong) simp
  have replay: "replay_rows L config [] = Inr s"
    using created(3) by (simp add: replay_rows_Inr replay_coordinator_events_def)
  have "cs_status s = M_awaiting_acceptance"
    using created(3) by (rule create_coordinator_state_Inr)
  then have "work_inv db1 ?m"
    using none(2) same mid by (simp add: work_inv_def is_terminal_def owed_idle new_mission_row_def)
  moreover have "events_of db1 ?i = []" "participants_of db1 ?i = ?ps"
    using events no_events none(1) split [of ?i] by simp_all
  ultimately have "mission_row_inv L db1 ?m"
    using created(2) replay nodes parts(1)
    by (simp add: mission_row_inv_def new_mission_row_def config_participant_ids_def manifest_participant_ids_def)
  moreover have "mission_row_inv L db1 x" if x: "x \<in> set (db_missions db)" for x
  proof -
    have "mr_id x \<noteq> ?i" using x new by (metis image_eqI)
    then have "participants_of db1 (mr_id x) = participants_of db (mr_id x)" using split by simp
    moreover from this have "node_agent db1 (mr_id x) = node_agent db (mr_id x)" by (intro ext) (simp add: node_agent_def)
    then have "work_inv db1 x = work_inv db x" using same by (intro work_inv_agents) simp_all
    moreover have "mission_row_inv L db x" using inv x by (simp add: ledger_inv_def)
    ultimately show ?thesis using events by (simp add: mission_row_inv_def)
  qed
  moreover have tables: "db_missions db1 = db_missions db @ [?m]" "db_events db1 = db_events db"
    "db_deliveries db1 = db_deliveries db" "db_participants db1 = db_participants db @ ?ps"
    by (simp_all add: db1)
  moreover have "mr_id ?m \<notin> mr_id ` set (db_missions db)" "\<forall>p \<in> set ?ps. pt_mission_id p = mr_id ?m"
    unfolding mid using new parts(2) by blast+
  ultimately have "ledger_inv L db1"
    by (intro add_mission_inv [OF inv tables]) blast+
  moreover have "live_inv db1"
    using live none mid unfolding live_inv_def no_dead_letters_def same tables(1) by simp
  moreover have "ledger_le db db1"
    by (auto simp: ledger_le_def db1 intro!: rows_le_append rows_le_refl)
  ultimately have "goes L db db1" by (simp add: goes_def good_def)
  then show ?thesis using created(6) by (rule goes_same)
qed simp

lemma accept_fields [simp]:
  "pt_mission_id (record_acceptance a now p) = pt_mission_id p" "pt_agent_id (record_acceptance a now p) = pt_agent_id p"
  "pt_node_id (record_acceptance a now p) = pt_node_id p"
  "pt_workspace_binding_id (record_acceptance a now p) = pt_workspace_binding_id p"
  by (simp_all add: record_acceptance_def)

lemma image_set_map: "map f xs = map f ys \<Longrightarrow> f ` set xs = f ` set ys"
  by (metis list.set_map)

lemma update_participants_goes:
  assumes "\<And>p. P p \<Longrightarrow> pt_status p \<noteq> Accepted"
  shows "goes L db (update_participants P (record_acceptance a now) db)"
proof -
  let ?db = "update_participants P (record_acceptance a now) db"
  let ?f = "\<lambda>p. if P p then record_acceptance a now p else p"
  have same: "db_missions ?db = db_missions db" "db_events ?db = db_events db" "db_deliveries ?db = db_deliveries db"
      "db_receipts ?db = db_receipts db" "db_participants ?db = map ?f (db_participants db)"
    by (simp_all add: update_participants_def)
  have "participants_of ?db i = map ?f (participants_of db i)" for i
  proof -
    have "filter (\<lambda>p. pt_mission_id p = i) (map ?f ps) = map ?f (filter (\<lambda>p. pt_mission_id p = i) ps)" for ps
      by (induction ps) auto
    then show ?thesis by (simp only: participants_of_def same)
  qed
  note parts = this
  have agents: "node_agent ?db i = node_agent db i" for i
    by (rule node_agent_cong) (simp add: parts comp_def if_distrib cong: if_cong)
  have maps: "map pt_agent_id (participants_of ?db i) = map pt_agent_id (participants_of db i)"
      "map pt_node_id (participants_of ?db i) = map pt_node_id (participants_of db i)" for i
    by (simp_all add: parts comp_def if_distrib cong: if_cong)
  have open_same: "unsettled ?db = unsettled db" by (rule unsettled_cong) (rule same)
  have "events_of ?db = events_of db" by (rule events_of_same) (rule same)
  then have "mission_row_inv L ?db m = mission_row_inv L db m" for m
    using maps work_inv_agents [OF agents open_same] by (simp add: mission_row_inv_def)
  moreover have "pt_mission_id ` set (db_participants ?db) = pt_mission_id ` set (db_participants db)"
    by (rule image_set_map) (simp add: same comp_def if_distrib cong: if_cong)
  ultimately have "ledger_inv L db \<Longrightarrow> ledger_inv L ?db"
    unfolding ledger_inv_def by (simp add: same)
  moreover have "live_inv db \<Longrightarrow> live_inv ?db"
    by (simp add: live_inv_def no_dead_letters_def open_same same)
  moreover have "ledger_le db ?db"
    using assms by (auto simp: ledger_le_def same participant_le_def intro!: rows_le_map rows_le_refl)
  ultimately show ?thesis by (simp add: goes_def good_def)
qed

lemma start_goes:
  assumes "start_when_all_accepted L fresh clock tx_now now m agent db = Inr db'"
    and "good L db" and "m \<in> set (db_missions db)" and "date_law L"
  shows "goes L db db'"
  using assms append_good unfolding start_when_all_accepted_def Let_def
  by (fastforce split: if_split_asm)

lemma accept_cases:
  assumes "accept_mission_participant L fresh clock tx_now db i agent a auth = Inr (r, db')"
  obtains (replayed) "db' = db"
  | (accepted) m now where "find_mission db i = Some m"
      "start_when_all_accepted L fresh clock tx_now now m agent
        (write_audit (Some agent) ''mission.participant.accept'' i
          (update_participants (\<lambda>p. pt_mission_id p = i \<and> pt_agent_id p = agent \<and> pt_status p = Pending)
            (record_acceptance a now) db)) = Inr db'"
  using assms unfolding accept_mission_participant_def Let_def
  by (auto split: if_split_asm intro: replayed accepted)

lemma accept_goes:
  assumes "accept_mission_participant L fresh clock tx_now db i agent a auth = Inr (r, db')"
    and good: "good L db" and date: "date_law L"
  shows "goes L db db'"
  using assms(1)
proof (cases rule: accept_cases)
  case (accepted m now)
  let ?P = "\<lambda>p. pt_mission_id p = i \<and> pt_agent_id p = agent \<and> pt_status p = Pending"
  let ?db = "update_participants ?P (record_acceptance a now) db"
  have "goes L db ?db" by (rule update_participants_goes) simp
  then have one: "goes L db (write_audit (Some agent) ''mission.participant.accept'' i ?db)"
    by (rule goes_same) (rule write_audit_same)
  then have "good L (write_audit (Some agent) ''mission.participant.accept'' i ?db)" using good by (simp add: goes_def)
  from start_goes [OF accepted(2) this _ date] find_mission_Some [OF accepted(1)] one
  show ?thesis by (auto simp: update_participants_def intro: goes_trans)
qed simp

section \<open>The Relay as one machine\<close>

text \<open>The requests that change the tables.  Each comes with the random ids, the clock readings and the start
  time of its transaction.\<close>

datatype relay_request =
  Request_create uuid coordinator_config
| Request_accept uuid uuid acceptance_input "node_auth option"
| Request_append uuid uuid coordinator_append_input
| Request_claim node_auth uuid claim_input
| Request_start node_auth uuid lease_operation_input
| Request_renew node_auth uuid lease_operation_input
| Request_release node_auth uuid release_input
| Request_complete node_auth uuid complete_input
| Request_reconcile uuid
| Request_recover uuid int
| Request_enroll uuid node_enrollment_input
| Request_rotate uuid uuid uuid
| Request_revoke_node uuid uuid
| Request_register node_auth workspace_registration_input
| Request_revoke_workspace node_auth string
| Request_disable_agent uuid

datatype relay_answer =
  Answer_created ledger_creation
| Answer_accepted acceptance_result
| Answer_appended append_result
| Answer_claim claim_result
| Answer_operation operation_result
| Answer_complete complete_result
| Answer_reconciled reconciliation_result
| Answer_page recoverable_page
| Answer_node node_descriptor uuid
| Answer_credential uuid
| Answer_workspace workspace_binding bool
| Answer_done

text \<open>A transaction that throws leaves the tables as they were.\<close>

definition transact :: "('r \<Rightarrow> relay_answer) \<Rightarrow> relay_db \<Rightarrow> relay_error + 'r \<times> relay_db
    \<Rightarrow> (relay_error + relay_answer) \<times> relay_db" where
  "transact f db t = (case t of Inl e \<Rightarrow> (Inl e, db) | Inr (r, db') \<Rightarrow> (Inr (f r), db'))"

definition answered :: "('r \<Rightarrow> relay_answer) \<Rightarrow> (relay_error + 'r) \<times> relay_db
    \<Rightarrow> (relay_error + relay_answer) \<times> relay_db" where
  "answered f t = ((case fst t of Inl e \<Rightarrow> Inl e | Inr r \<Rightarrow> Inr (f r)), snd t)"

fun serve_request :: "host_lib \<Rightarrow> relay_db \<Rightarrow> transaction_world \<times> relay_request
    \<Rightarrow> (relay_error + relay_answer) \<times> relay_db" where
  "serve_request L db (w, Request_create agent config) =
     transact Answer_created db (create_mission_ledger L (tw_now w) (tw_started w) db agent config)"
| "serve_request L db (w, Request_accept i agent a auth) =
     transact Answer_accepted db (accept_mission_participant L (tw_fresh w 0) (tw_now w) (tw_started w) db i agent a auth)"
| "serve_request L db (w, Request_append i agent e) =
     transact Answer_appended db (append_mission_event L (tw_fresh w 0) (tw_now w) (tw_started w) db i agent e)"
| "serve_request L db (w, Request_claim auth i c) = answered Answer_claim (claim_delivery L w db auth i c)"
| "serve_request L db (w, Request_start auth i c) = answered Answer_operation (start_delivery L w db auth i c)"
| "serve_request L db (w, Request_renew auth i c) = answered Answer_operation (renew_delivery L w db auth i c)"
| "serve_request L db (w, Request_release auth i c) = answered Answer_operation (release_delivery L w db auth i c)"
| "serve_request L db (w, Request_complete auth i c) = answered Answer_complete (complete_delivery L w db auth i c)"
| "serve_request L db (w, Request_reconcile i) =
     transact Answer_reconciled db (reconcile_mission_in_transaction L (tw_fresh w 0) (tw_now w) db i)"
| "serve_request L db (w, Request_recover n limit) =
     answered Answer_page (list_recoverable_delivery_events L (tw_fresh w) (tw_now w) (tw_later w) db n limit)"
| "serve_request L db (w, Request_enroll agent i) =
     transact (\<lambda>(d, c). Answer_node d c) db (enroll_node L (tw_fresh w 0) (tw_started w) agent i db)"
| "serve_request L db (w, Request_rotate agent n expected) =
     transact Answer_credential db (rotate_node_credential (tw_fresh w 0) agent n expected db)"
| "serve_request L db (w, Request_revoke_node agent n) =
     transact (\<lambda>u. Answer_done) db
       (case revoke_node (tw_fresh w 0) (tw_now w) (tw_at w) agent n db of Inl e \<Rightarrow> Inl e | Inr db' \<Rightarrow> Inr ((), db'))"
| "serve_request L db (w, Request_register auth i) =
     transact (\<lambda>(d, replayed). Answer_workspace d replayed) db
       (register_workspace L (tw_fresh w 0) (tw_started w) auth i db)"
| "serve_request L db (w, Request_revoke_workspace auth alias) =
     transact (\<lambda>u. Answer_done) db
       (case revoke_workspace (tw_fresh w 0) (tw_now w) (tw_at w) auth alias db of Inl e \<Rightarrow> Inl e
        | Inr db' \<Rightarrow> Inr ((), db'))"
| "serve_request L db (w, Request_disable_agent agent) =
     transact (\<lambda>u. Answer_done) db
       (case disable_agent (tw_fresh w 0) (tw_now w) (tw_at w) agent db of Inl e \<Rightarrow> Inl e | Inr db' \<Rightarrow> Inr ((), db'))"

lemma transact_goes:
  assumes "\<And>r db'. t = Inr (r, db') \<Longrightarrow> goes L db db'"
  shows "goes L db (snd (transact f db t))"
  using assms by (auto simp: transact_def split: sum.split)

lemma answered_snd [simp]: "snd (answered f t) = snd t"
  by (simp add: answered_def)

lemma reconcile_missions_goes:
  "good L db \<Longrightarrow> goes L db (snd (reconcile_missions L fresh clock is db))"
proof (induction "is" arbitrary: fresh db)
  case (Cons i "is")
  then show ?case
    using reconcile_goes [of L "fresh 0" clock db i]
    by (auto split: sum.split) (meson goes_def goes_trans)
qed simp

lemma recover_goes:
  assumes "good L db"
  shows "goes L db (snd (list_recoverable_delivery_events L fresh clock later db n limit))"
  using reconcile_missions_goes [OF assms] unfolding list_recoverable_delivery_events_def Let_def
  by (auto split: option.splits sum.splits prod.splits) (metis snd_conv)+

lemma serve_request_goes:
  assumes good: "good L db" and date: "date_law L"
  shows "goes L db (snd (serve_request L db (w, r)))"
proof (cases r)
  case (Request_claim auth i c)
  then show ?thesis using run_locked_goes [OF claim_safe good] by (simp add: claim_delivery_def)
next
  case (Request_start auth i c)
  then show ?thesis using run_locked_goes [OF mutate_safe [OF start_safe] good] by (simp add: start_delivery_def)
next
  case (Request_renew auth i c)
  then show ?thesis using run_locked_goes [OF mutate_safe [OF renew_safe] good] by (simp add: renew_delivery_def)
next
  case (Request_release auth i c)
  then show ?thesis using run_locked_goes [OF mutate_safe [OF release_safe] good] by (simp add: release_delivery_def)
next
  case (Request_complete auth i c)
  then show ?thesis using run_locked_goes [OF complete_safe [OF date] good] by (simp add: complete_delivery_def)
next
  case (Request_recover n limit)
  then show ?thesis using recover_goes [OF good] by simp
qed (use assms in \<open>auto intro!: transact_goes intro: create_goes accept_goes append_mission_event_goes reconcile_goes
  same_ledger_goes enroll_same rotate_same register_same revoke_node_goes revoke_workspace_goes disable_agent_goes\<close>)

text \<open>The machine.  A refused request is a step too: it may have ended a Mission whose time was over.\<close>

definition relay_step :: "host_lib \<Rightarrow> relay_db \<Rightarrow> transaction_world \<times> relay_request \<Rightarrow> relay_error + relay_db" where
  "relay_step L db e = Inr (snd (serve_request L db e))"

interpretation relay: advancing_machine "relay_step L" "\<lambda>db. date_law L \<and> good L db" ledger_le for L
proof unfold_locales
  fix s e s'
  assume "date_law L \<and> good L s" "relay_step L s e = Inr s'"
  then have "goes L s s'" using serve_request_goes by (cases e) (auto simp: relay_step_def)
  then show "ledger_le s s'" and "date_law L \<and> good L s'"
    using \<open>date_law L \<and> good L s\<close> by (auto simp: goes_def)
qed (auto intro: ledger_le_trans)

end
