(* ===== verification/Relay_Samples.thy ===== *)
theory Relay_Samples
  imports Iso_Dates Ledger_Laws Coordinator_Samples
begin

text \<open>
  A Relay with two agents, each with a Node and a workspace, and the requests that start a Mission: it is
  created and accepted by both.
\<close>

section \<open>The law of dates\<close>

lemma iso_lib_date_law: "date_law iso_lib"
  using iso_dates by (simp add: date_law_def iso_timestamp_ok_def)

text \<open>Evaluation of numbers in print, by integers.\<close>

function int_digits :: "int \<Rightarrow> string" where
  "int_digits n = (if n < 10 then [digit_char (nat n)] else int_digits (n div 10) @ [digit_char (nat (n mod 10))])"
  by auto
termination by (relation "measure nat") auto

declare int_digits.simps [simp del]

lemma int_digits_of_nat: "int_digits (int n) = nat_digits n"
proof (induction n rule: nat_digits.induct)
  case (1 n)
  show ?case
  proof (cases "n < 10")
    case True
    then show ?thesis by (subst int_digits.simps, subst nat_digits.simps) simp
  next
    case False
    with 1 have "int_digits (int n div 10) = nat_digits (n div 10)" by (simp add: zdiv_int)
    with False show ?thesis
      by (subst int_digits.simps, subst nat_digits.simps) (simp add: nat_mod_as_int)
  qed
qed

lemma string_of_int_code [code]:
  "string_of_int n = (if n < 0 then CHR ''-'' # int_digits (- n) else int_digits n)"
  using int_digits_of_nat [of "nat n"] int_digits_of_nat [of "nat (- n)"]
  by (cases "n < 0") (simp_all add: string_of_int_def)

definition iso_text :: "int \<Rightarrow> int \<Rightarrow> string" where
  "iso_text ms fraction = pad 2 (ms div 3600000) @ '':'' @ pad 2 (ms div 60000 mod 60) @ '':''
     @ pad 2 (ms div 1000 mod 60) @ ''.'' @ pad 3 fraction @ ''Z''"

definition iso_day :: "int \<times> int \<times> int \<Rightarrow> string" where
  "iso_day ymd = iso_year (fst ymd) @ ''-'' @ pad 2 (fst (snd ymd)) @ ''-'' @ pad 2 (snd (snd ymd)) @ ''T''"

lemma to_iso_string_code [code]:
  "to_iso_string t = iso_day (civil_from_days (t div 86400000)) @ iso_text (t mod 86400000) (t mod 86400000 mod 1000)"
  by (simp add: to_iso_string_def iso_day_def iso_text_def Let_def split_beta)

lemma to_lower_same: "to_lower c = c \<longleftrightarrow> \<not> is_upper c"
proof -
  have "char_of (of_char c + (32::nat)) \<noteq> c" if "is_upper c"
  proof
    assume "char_of (of_char c + (32::nat)) = c"
    then have "of_char c = (of_char c + 32) mod (256::nat)" using of_char_of [of "of_char c + (32::nat)"] by simp
    with that show False by (simp add: is_upper_def less_eq_char_def)
  qed
  then show ?thesis by (auto simp: to_lower_def)
qed

lemma is_lowercase_code [code]: "is_lowercase s \<longleftrightarrow> list_all (\<lambda>c. \<not> is_upper c) s"
proof -
  have "is_lowercase s \<longleftrightarrow> list_all (\<lambda>c. to_lower c = c) s"
    unfolding is_lowercase_def by (induction s) auto
  then show ?thesis by (simp add: to_lower_same)
qed

section \<open>The Relay\<close>

definition node_a :: uuid where "node_a = uid ''a2''"
definition node_b :: uuid where "node_b = uid ''b2''"

definition sample_node :: "uuid \<Rightarrow> uuid \<Rightarrow> string \<Rightarrow> node_row" where
  "sample_node i agent n = \<lparr>no_id = i, no_agent_id = agent, no_name = n, no_active = True, no_capabilities = [],
     no_last_seen_at = None, no_revoked_at = None, no_created_at = 0, no_updated_at = 0\<rparr>"

definition sample_workspace :: "uuid \<Rightarrow> uuid \<Rightarrow> workspace_row" where
  "sample_workspace i node_id = \<lparr>ws_id = i, ws_node_id = node_id, ws_alias = ''main'',
     ws_repository_url = text_of ''https://h/r'', ws_allowed_base_refs = [], ws_active = True,
     ws_revoked_at = None, ws_created_at = 0, ws_updated_at = 0\<rparr>"

definition sample_relay :: relay_db where
  "sample_relay = \<lparr>db_agents = [\<lparr>ag_id = agent_a, ag_active = True\<rparr>, \<lparr>ag_id = agent_b, ag_active = True\<rparr>],
     db_nodes = [sample_node node_a agent_a ''laptop-a'', sample_node node_b agent_b ''laptop-b''],
     db_credentials = [\<lparr>cd_id = uid ''a3'', cd_node_id = node_a, cd_revoked = False\<rparr>,
       \<lparr>cd_id = uid ''b3'', cd_node_id = node_b, cd_revoked = False\<rparr>],
     db_workspaces = [sample_workspace (uid ''a4'') node_a, sample_workspace (uid ''b4'') node_b],
     db_blocks = [], db_missions = [], db_participants = [], db_events = [], db_deliveries = [], db_receipts = [],
     db_audit = [], db_last_cursor = 0\<rparr>"

definition auth_a :: node_auth where
  "auth_a = \<lparr>na_node_id = node_a, na_agent_id = agent_a, na_credential_id = uid ''a3''\<rparr>"

definition auth_b :: node_auth where
  "auth_b = \<lparr>na_node_id = node_b, na_agent_id = agent_b, na_credential_id = uid ''b3''\<rparr>"

text \<open>The n-th transaction: ids made of its number, one second after the one before.\<close>

definition sample_id :: "int \<Rightarrow> nat \<Rightarrow> nat \<Rightarrow> uuid" where
  "sample_id n a b = ''00000000-0000-4000-8000-000000'' @ pad 2 n @ pad 2 (int a) @ pad 2 (int b)"

definition sample_time :: "int \<Rightarrow> int" where
  "sample_time n = 1767225610000 + 1000 * n"

definition sample_world :: "int \<Rightarrow> transaction_world" where
  "sample_world n = \<lparr>tw_fresh = sample_id n, tw_now = Some (sample_time n), tw_later = Some (sample_time n),
     tw_started = sample_time n, tw_at = sample_time n\<rparr>"

section \<open>The requests\<close>

definition relay_config :: coordinator_config where
  "relay_config = (sample_config 20)\<lparr>cfg_mission_context := \<lparr>mc_manifest = sample_manifest 20,
     mc_created_by = \<lparr>principal_id = agent_a, actor_ref_kind = A_agent\<rparr>\<rparr>\<rparr>"

definition sample_acceptance :: "string \<Rightarrow> acceptance_input" where
  "sample_acceptance key = \<lparr>pa_idempotency_key = key, pa_contract = sample_artifact 1,
     pa_local_policy_grant = \<lparr>pg_profile_name = ''default'', pg_grant_sha256 = replicate 64 (CHR ''c'')\<rparr>\<rparr>"

definition sample_requests :: "(transaction_world \<times> relay_request) list" where
  "sample_requests =
     [(sample_world 1, Request_create agent_a relay_config),
      (sample_world 2, Request_accept sample_mission_id agent_a (sample_acceptance ''accept-a'') (Some auth_a)),
      (sample_world 3, Request_accept sample_mission_id agent_b (sample_acceptance ''accept-b'') (Some auth_b))]"

end
