(* ===== verification/Mailbox_Store.thy ===== *)
theory Mailbox_Store
  imports Relay_Store Bounded_Json
begin

text \<open>
  The tables of \<^verbatim>\<open>relay/src/db/schema.ts\<close> behind the mailboxes: agents, cards, blocks, threads (\<open>handoffs\<close>),
  messages, mailbox events, API keys and invites, with their constraints, and the event log of
  \<^verbatim>\<open>relay/src/services/mailbox-events.ts\<close>.
\<close>

section \<open>Values\<close>

text \<open>\<open>isDeepStrictEqual\<close> on JSON: the order of an object's keys does not count.\<close>

fun same_json :: "json \<Rightarrow> json \<Rightarrow> bool" where
  "same_json (J_array xs) (J_array ys) = list_all2 same_json xs ys"
| "same_json (J_object es) (J_object fs) =
     (length es = length fs \<and> list_all (\<lambda>(k, v). list_ex (\<lambda>(l, w). k = l \<and> same_json v w) fs) es)"
| "same_json a b = (a = b)"

definition same_jsons :: "json list \<Rightarrow> json list \<Rightarrow> bool" where
  "same_jsons xs ys \<longleftrightarrow> list_all2 same_json xs ys"

datatype intent = Inform | Ask_question | Propose_action

datatype thread_status = Thread_pending | Thread_accepted | Thread_completed | Thread_cancelled

record proposed_action =
  po_description :: jstext
  po_target_files :: "jstext list"
  po_rationale :: jstext
  po_suggested_diff :: "jstext option"

section \<open>Rows\<close>

record account_row =
  ac_id :: uuid
  ac_handle :: jstext
  ac_email :: jstext
  ac_name :: jstext
  ac_role :: jstext
  ac_active :: bool

record card_row =
  cr_agent_id :: uuid
  cr_skills :: "jstext list"
  cr_repos_owned :: "jstext list"
  cr_webhook :: "jstext option"

record key_row =
  ky_id :: uuid
  ky_agent_id :: uuid
  ky_hash :: string
  ky_revoked_at :: "int option"

record invite_row =
  iv_jti :: uuid
  iv_token_hash :: string
  iv_handle :: jstext
  iv_role :: jstext
  iv_inviter_id :: uuid
  iv_expires_at :: int
  iv_used_at :: "int option"
  iv_used_by :: "uuid option"

record thread_row =
  th_id :: uuid
  th_sender_id :: uuid
  th_recipient_id :: uuid
  th_summary :: jstext
  th_intent :: intent
  th_status :: thread_status
  th_artifacts :: "json list"
  th_proposed_action :: "proposed_action option"
  th_metadata :: json
  th_accepted_by_session :: "jstext option"
  th_accepted_at :: "int option"
  th_completed_at :: "int option"
  th_completed_summary :: "jstext option"
  th_completion_artifacts :: "json list"
  th_cancelled_at :: "int option"
  th_idempotency_key :: "jstext option"
  th_created_at :: int
  th_updated_at :: int

record message_row =
  ms_id :: uuid
  ms_thread_id :: uuid
  ms_author_id :: uuid
  ms_body :: jstext
  ms_payload :: json
  ms_artifacts :: "json list"
  ms_sequence_no :: int
  ms_idempotency_key :: "jstext option"
  ms_created_at :: int

datatype mailbox_event_kind =
  Event_thread_created | Event_message_appended | Event_thread_accepted | Event_thread_completed
| Event_thread_cancelled

record mailbox_event_row =
  mv_id :: uuid
  mv_cursor :: int
  mv_recipient_id :: uuid
  mv_actor_id :: uuid
  mv_thread_id :: uuid
  mv_kind :: mailbox_event_kind
  mv_source_id :: uuid
  mv_created_at :: int

record block_row =
  bk_blocker_id :: uuid
  bk_blocked_id :: uuid
  bk_created_at :: int

record mailbox_db =
  mb_accounts :: "account_row list"
  mb_cards :: "card_row list"
  mb_keys :: "key_row list"
  mb_invites :: "invite_row list"
  mb_blocks :: "block_row list"
  mb_threads :: "thread_row list"
  mb_messages :: "message_row list"
  mb_events :: "mailbox_event_row list"
  mb_last_cursor :: int
  mb_audit :: "audit_row list"

section \<open>Inserts with their constraints\<close>

definition account_exists :: "mailbox_db \<Rightarrow> uuid \<Rightarrow> bool" where
  "account_exists db i \<longleftrightarrow> list_ex (\<lambda>a. ac_id a = i) (mb_accounts db)"

definition thread_exists :: "mailbox_db \<Rightarrow> uuid \<Rightarrow> bool" where
  "thread_exists db i \<longleftrightarrow> list_ex (\<lambda>t. th_id t = i) (mb_threads db)"

text \<open>\<open>Unique_violation\<close> stands for any violated constraint: unique indexes, checks, references, and the range
  of an integer column.\<close>

definition insert_thread :: "thread_row \<Rightarrow> mailbox_db \<Rightarrow> relay_error + mailbox_db" where
  "insert_thread t db =
     (if list_ex (\<lambda>x. th_id x = th_id t
          \<or> th_idempotency_key t \<noteq> None \<and> th_idempotency_key x = th_idempotency_key t) (mb_threads db)
        \<or> th_sender_id t = th_recipient_id t
        \<or> (th_intent t = Propose_action) \<noteq> (th_proposed_action t \<noteq> None)
        \<or> \<not> account_exists db (th_sender_id t) \<or> \<not> account_exists db (th_recipient_id t)
      then Inl Unique_violation
      else Inr (db\<lparr>mb_threads := mb_threads db @ [t]\<rparr>))"

definition insert_message :: "message_row \<Rightarrow> mailbox_db \<Rightarrow> relay_error + mailbox_db" where
  "insert_message m db =
     (if list_ex (\<lambda>x. ms_id x = ms_id m
          \<or> ms_idempotency_key m \<noteq> None \<and> ms_idempotency_key x = ms_idempotency_key m
          \<or> ms_thread_id x = ms_thread_id m \<and> ms_sequence_no x = ms_sequence_no m) (mb_messages db)
        \<or> \<not> thread_exists db (ms_thread_id m) \<or> \<not> account_exists db (ms_author_id m)
        \<or> ms_sequence_no m > max_int32
      then Inl Unique_violation
      else Inr (db\<lparr>mb_messages := mb_messages db @ [m]\<rparr>))"

definition audit_mail :: "uuid \<Rightarrow> string \<Rightarrow> uuid \<Rightarrow> mailbox_db \<Rightarrow> mailbox_db" where
  "audit_mail actor action resource db = db\<lparr>mb_audit := mb_audit db @ [(Some actor, action, resource)]\<rparr>"

text \<open>\<open>appendMailboxEvent\<close>: the sequence behind \<open>cursor\<close> gives the next number.\<close>

definition append_mailbox_event ::
  "uuid \<Rightarrow> int \<Rightarrow> uuid \<Rightarrow> uuid \<Rightarrow> uuid \<Rightarrow> mailbox_event_kind \<Rightarrow> uuid \<Rightarrow> mailbox_db \<Rightarrow> relay_error + mailbox_db" where
  "append_mailbox_event i tx_now recipient actor thread_id kind source db =
     (if list_ex (\<lambda>x. mv_id x = i
          \<or> mv_recipient_id x = recipient \<and> mv_kind x = kind \<and> mv_source_id x = source) (mb_events db)
        \<or> recipient = actor
        \<or> \<not> account_exists db recipient \<or> \<not> account_exists db actor \<or> \<not> thread_exists db thread_id
        \<or> mb_last_cursor db \<ge> 9223372036854775807
      then Inl Unique_violation
      else Inr (db\<lparr>mb_last_cursor := mb_last_cursor db + 1,
        mb_events := mb_events db @ [\<lparr>mv_id = i, mv_cursor = mb_last_cursor db + 1, mv_recipient_id = recipient,
          mv_actor_id = actor, mv_thread_id = thread_id, mv_kind = kind, mv_source_id = source,
          mv_created_at = tx_now\<rparr>]\<rparr>))"

section \<open>Reading a mailbox\<close>

record mailbox_event =
  me_event_id :: uuid
  me_cursor :: string
  me_kind :: mailbox_event_kind
  me_thread_id :: uuid
  me_actor_handle :: jstext
  me_created_at :: timestamp

record mailbox_page =
  mp_events :: "mailbox_event list"
  mp_next_cursor :: "string option"

definition find_account :: "mailbox_db \<Rightarrow> uuid \<Rightarrow> account_row option" where
  "find_account db i = find (\<lambda>a. ac_id a = i) (mb_accounts db)"

definition mailbox_event_of :: "mailbox_event_row \<times> account_row \<Rightarrow> mailbox_event" where
  "mailbox_event_of = (\<lambda>(e, a). \<lparr>me_event_id = mv_id e, me_cursor = string_of_int (mv_cursor e), me_kind = mv_kind e,
     me_thread_id = mv_thread_id e, me_actor_handle = ac_handle a, me_created_at = to_iso_string (mv_created_at e)\<rparr>)"

text \<open>The rows of a recipient after a cursor, joined with their actor, in the order of the cursor.\<close>

definition mailbox_rows :: "mailbox_db \<Rightarrow> uuid \<Rightarrow> int option \<Rightarrow> (mailbox_event_row \<times> account_row) list" where
  "mailbox_rows db recipient after = sort_key (\<lambda>(e, a). mv_cursor e)
     (concat (map (\<lambda>e. map (\<lambda>a. (e, a)) (filter (\<lambda>a. ac_id a = mv_actor_id e) (mb_accounts db)))
       (filter (\<lambda>e. mv_recipient_id e = recipient
          \<and> (case after of None \<Rightarrow> True | Some c \<Rightarrow> mv_cursor e > c)) (mb_events db))))"

definition list_mailbox_events :: "mailbox_db \<Rightarrow> uuid \<Rightarrow> int option \<Rightarrow> nat \<Rightarrow> mailbox_page" where
  "list_mailbox_events db recipient after limit =
     (let events = map mailbox_event_of (take limit (mailbox_rows db recipient after)) in
      \<lparr>mp_events = events,
       mp_next_cursor = (case last_option events of
           Some e \<Rightarrow> Some (me_cursor e) | None \<Rightarrow> map_option string_of_int after)\<rparr>)"

text \<open>\<open>isSenderBlocked\<close>\<close>

definition is_sender_blocked :: "mailbox_db \<Rightarrow> uuid \<Rightarrow> uuid \<Rightarrow> bool" where
  "is_sender_blocked db sender recipient \<longleftrightarrow>
     list_ex (\<lambda>b. bk_blocker_id b = recipient \<and> bk_blocked_id b = sender) (mb_blocks db)"

end
