(* ===== verification/Handoffs.thy ===== *)
theory Handoffs
  imports Mailbox_Store
begin

text \<open>
  \<^verbatim>\<open>relay/src/services/handoff.ts\<close>: threads between two agents.  A sender creates a thread with a first
  message, both append messages, the recipient accepts and completes it, the sender may cancel it while it is
  pending.  Every accepted change is one transaction that also writes the audit entry and the mailbox
  event for the other side.  The arguments \<open>fresh\<close>, \<open>now\<close>, \<open>tx_now\<close> and \<open>updated\<close> are the ids that the database draws,
  the clock of the process, the start of the transaction and the time of an update.
\<close>

section \<open>Inputs\<close>

record create_handoff_input =
  hc_sender_id :: uuid
  hc_recipient_handle :: jstext
  hc_summary :: jstext
  hc_intent :: intent
  hc_artifacts :: "json list"
  hc_initial_payload :: json
  hc_proposed_action :: "proposed_action option"
  hc_metadata :: json
  hc_idempotency_key :: "jstext option"

record append_message_input =
  am_sender_id :: uuid
  am_thread_id :: uuid
  am_body :: jstext
  am_payload :: json
  am_artifacts :: "json list"
  am_idempotency_key :: "jstext option"

text \<open>A key is used when it is neither absent nor empty, as in \<open>if (input.idempotencyKey)\<close>.\<close>

definition key_given :: "jstext option \<Rightarrow> bool" where
  "key_given key \<longleftrightarrow> key \<noteq> None \<and> key \<noteq> Some []"

definition validate_intent_invariant :: "intent \<Rightarrow> proposed_action option \<Rightarrow> relay_error + unit" where
  "validate_intent_invariant i action =
     (if i = Propose_action \<and> action = None then Inl (Relay_err Invalid_intent_payload)
      else if i \<noteq> Propose_action \<and> action \<noteq> None then Inl (Relay_err Invalid_intent_payload)
      else Inr ())"

text \<open>\<open>COALESCE(MAX(sequence_no), 0) + 1\<close>\<close>

definition next_sequence_no :: "mailbox_db \<Rightarrow> uuid \<Rightarrow> int" where
  "next_sequence_no db thread_id =
     foldr max (map ms_sequence_no (filter (\<lambda>m. ms_thread_id m = thread_id) (mb_messages db))) 0 + 1"

definition find_thread :: "mailbox_db \<Rightarrow> uuid \<Rightarrow> thread_row option" where
  "find_thread db i = find (\<lambda>t. th_id t = i) (mb_threads db)"

section \<open>Creating a thread\<close>

record thread_result =
  tc_thread :: thread_row
  tc_replayed :: bool

definition same_creation ::
  "mailbox_db \<Rightarrow> create_handoff_input \<Rightarrow> account_row option \<Rightarrow> thread_row \<Rightarrow> bool" where
  "same_creation db i recipient existing \<longleftrightarrow>
     th_sender_id existing = hc_sender_id i
     \<and> Some (th_recipient_id existing) = map_option ac_id recipient
     \<and> th_summary existing = hc_summary i \<and> th_intent existing = hc_intent i
     \<and> same_jsons (th_artifacts existing) (hc_artifacts i)
     \<and> (case find (\<lambda>m. ms_thread_id m = th_id existing \<and> ms_sequence_no m = 1) (mb_messages db) of
          None \<Rightarrow> False | Some m \<Rightarrow> same_json (ms_payload m) (hc_initial_payload i))
     \<and> th_proposed_action existing = hc_proposed_action i
     \<and> same_json (th_metadata existing) (hc_metadata i)"

definition new_thread_row :: "uuid \<Rightarrow> int \<Rightarrow> uuid \<Rightarrow> create_handoff_input \<Rightarrow> thread_row" where
  "new_thread_row i tx_now recipient c =
     \<lparr>th_id = i, th_sender_id = hc_sender_id c, th_recipient_id = recipient, th_summary = hc_summary c,
      th_intent = hc_intent c, th_status = Thread_pending, th_artifacts = hc_artifacts c,
      th_proposed_action = hc_proposed_action c, th_metadata = hc_metadata c,
      th_accepted_by_session = None, th_accepted_at = None, th_completed_at = None,
      th_completed_summary = None, th_completion_artifacts = [], th_cancelled_at = None,
      th_idempotency_key = hc_idempotency_key c, th_created_at = tx_now, th_updated_at = tx_now\<rparr>"

text \<open>The writes: thread, first message, audit entry, mailbox event.\<close>

definition store_thread ::
  "(nat \<Rightarrow> uuid) \<Rightarrow> int \<Rightarrow> uuid \<Rightarrow> create_handoff_input \<Rightarrow> mailbox_db \<Rightarrow> relay_error + thread_result \<times> mailbox_db" where
  "store_thread fresh tx_now recipient c db =
     (let t = new_thread_row (fresh 0) tx_now recipient c in
      case insert_thread t db of
        Inl e \<Rightarrow> Inl e
      | Inr db \<Rightarrow>
         (case insert_message \<lparr>ms_id = fresh 1, ms_thread_id = th_id t, ms_author_id = hc_sender_id c,
              ms_body = hc_summary c, ms_payload = hc_initial_payload c, ms_artifacts = hc_artifacts c,
              ms_sequence_no = 1, ms_idempotency_key = None, ms_created_at = tx_now\<rparr> db of
            Inl e \<Rightarrow> Inl e
          | Inr db \<Rightarrow>
             (case append_mailbox_event (fresh 2) tx_now recipient (hc_sender_id c) (th_id t)
                 Event_thread_created (th_id t) (audit_mail (hc_sender_id c) ''handoff.create'' (th_id t) db) of
                Inl e \<Rightarrow> Inl e
              | Inr db \<Rightarrow> Inr (\<lparr>tc_thread = t, tc_replayed = False\<rparr>, db))))"

definition create_handoff ::
  "(nat \<Rightarrow> uuid) \<Rightarrow> int \<Rightarrow> create_handoff_input \<Rightarrow> mailbox_db \<Rightarrow> relay_error + thread_result \<times> mailbox_db" where
  "create_handoff fresh tx_now c db =
     (case validate_intent_invariant (hc_intent c) (hc_proposed_action c) of
        Inl e \<Rightarrow> Inl e
      | Inr _ \<Rightarrow>
         (let recipient = find (\<lambda>a. ac_handle a = hc_recipient_handle c) (mb_accounts db);
              existing = (if key_given (hc_idempotency_key c)
                then find (\<lambda>t. th_idempotency_key t = hc_idempotency_key c) (mb_threads db) else None) in
          case existing of
            Some t \<Rightarrow>
              if same_creation db c recipient t then Inr (\<lparr>tc_thread = t, tc_replayed = True\<rparr>, db)
              else Inl (Relay_err Duplicate_idempotency_key)
          | None \<Rightarrow>
             (case recipient of
                None \<Rightarrow> Inl (Relay_err Recipient_not_found)
              | Some a \<Rightarrow>
                  if \<not> ac_active a then Inl (Relay_err Recipient_not_found)
                  else if ac_id a = hc_sender_id c then Inl (Relay_err Invalid_params)
                  else if is_sender_blocked db (hc_sender_id c) (ac_id a) then Inl (Relay_err Teammate_blocked)
                  else store_thread fresh tx_now (ac_id a) c db)))"

section \<open>Appending a message\<close>

record message_result =
  mg_message_id :: uuid
  mg_sequence_no :: int
  mg_created_at :: int
  mg_replayed :: bool

definition same_message :: "append_message_input \<Rightarrow> message_row \<Rightarrow> bool" where
  "same_message i m \<longleftrightarrow> ms_thread_id m = am_thread_id i \<and> ms_author_id m = am_sender_id i
     \<and> ms_body m = am_body i \<and> same_json (ms_payload m) (am_payload i)
     \<and> same_jsons (ms_artifacts m) (am_artifacts i)"

definition is_participant :: "thread_row \<Rightarrow> uuid \<Rightarrow> bool" where
  "is_participant t agent \<longleftrightarrow> th_sender_id t = agent \<or> th_recipient_id t = agent"

definition other_side :: "thread_row \<Rightarrow> uuid \<Rightarrow> uuid" where
  "other_side t agent = (if th_sender_id t = agent then th_recipient_id t else th_sender_id t)"

definition store_message ::
  "(nat \<Rightarrow> uuid) \<Rightarrow> int \<Rightarrow> uuid \<Rightarrow> append_message_input \<Rightarrow> mailbox_db \<Rightarrow> relay_error + message_result \<times> mailbox_db" where
  "store_message fresh tx_now recipient i db =
     (let seq = next_sequence_no db (am_thread_id i) in
      case insert_message \<lparr>ms_id = fresh 0, ms_thread_id = am_thread_id i, ms_author_id = am_sender_id i,
           ms_body = am_body i, ms_payload = am_payload i, ms_artifacts = am_artifacts i,
           ms_sequence_no = seq, ms_idempotency_key = am_idempotency_key i, ms_created_at = tx_now\<rparr> db of
        Inl e \<Rightarrow> Inl e
      | Inr db \<Rightarrow>
         (case append_mailbox_event (fresh 1) tx_now recipient (am_sender_id i) (am_thread_id i)
              Event_message_appended (fresh 0) (audit_mail (am_sender_id i) ''message.append'' (fresh 0) db) of
            Inl e \<Rightarrow> Inl e
          | Inr db \<Rightarrow> Inr (\<lparr>mg_message_id = fresh 0, mg_sequence_no = seq, mg_created_at = tx_now,
              mg_replayed = False\<rparr>, db)))"

definition append_message ::
  "(nat \<Rightarrow> uuid) \<Rightarrow> int \<Rightarrow> append_message_input \<Rightarrow> mailbox_db \<Rightarrow> relay_error + message_result \<times> mailbox_db" where
  "append_message fresh tx_now i db =
     (case find_thread db (am_thread_id i) of
        None \<Rightarrow> Inl (Relay_err Thread_not_found)
      | Some t \<Rightarrow>
          if \<not> is_participant t (am_sender_id i) then Inl (Relay_err Not_a_participant)
          else (case (if key_given (am_idempotency_key i)
                  then find (\<lambda>m. ms_idempotency_key m = am_idempotency_key i) (mb_messages db) else None) of
                  Some m \<Rightarrow>
                    if same_message i m
                    then Inr (\<lparr>mg_message_id = ms_id m, mg_sequence_no = ms_sequence_no m,
                      mg_created_at = ms_created_at m, mg_replayed = True\<rparr>, db)
                    else Inl (Relay_err Duplicate_idempotency_key)
                | None \<Rightarrow>
                    if th_status t = Thread_completed \<or> th_status t = Thread_cancelled
                    then Inl (Relay_err Thread_terminal)
                    else if is_sender_blocked db (am_sender_id i) (other_side t (am_sender_id i))
                    then Inl (Relay_err Teammate_blocked)
                    else store_message fresh tx_now (other_side t (am_sender_id i)) i db))"

section \<open>Transitions\<close>

datatype transition = Accept_thread | Complete_thread | Cancel_thread

record transition_input =
  ti_thread_id :: uuid
  ti_caller_id :: uuid
  ti_transition :: transition
  ti_session_id :: "jstext option"
  ti_result_summary :: "jstext option"
  ti_result_artifacts :: "json list option"

definition accepted_thread :: "int \<Rightarrow> int \<Rightarrow> transition_input \<Rightarrow> thread_row \<Rightarrow> thread_row" where
  "accepted_thread now updated i t = t\<lparr>th_status := Thread_accepted, th_accepted_at := Some now,
     th_accepted_by_session := ti_session_id i, th_updated_at := updated\<rparr>"

definition completed_thread :: "int \<Rightarrow> int \<Rightarrow> transition_input \<Rightarrow> thread_row \<Rightarrow> thread_row" where
  "completed_thread now updated i t = t\<lparr>th_status := Thread_completed, th_completed_at := Some now,
     th_completed_summary := ti_result_summary i,
     th_completion_artifacts := (case ti_result_artifacts i of None \<Rightarrow> [] | Some as \<Rightarrow> as), th_updated_at := updated\<rparr>"

definition cancelled_thread :: "int \<Rightarrow> int \<Rightarrow> thread_row \<Rightarrow> thread_row" where
  "cancelled_thread now updated t = t\<lparr>th_status := Thread_cancelled, th_cancelled_at := Some now, th_updated_at := updated\<rparr>"

text \<open>The update of the locked row with its audit entry and the event for the other side.  The condition on the
  status in the update statement holds, because the row was read under its lock.\<close>

definition store_transition ::
  "uuid \<Rightarrow> int \<Rightarrow> uuid \<Rightarrow> string \<Rightarrow> mailbox_event_kind \<Rightarrow> uuid \<Rightarrow> thread_row \<Rightarrow> mailbox_db
    \<Rightarrow> relay_error + thread_row \<times> mailbox_db" where
  "store_transition event_id tx_now caller action kind recipient t db =
     (case append_mailbox_event event_id tx_now recipient caller (th_id t) kind (th_id t)
          (audit_mail caller action (th_id t)
            (db\<lparr>mb_threads := map (\<lambda>x. if th_id x = th_id t then t else x) (mb_threads db)\<rparr>)) of
        Inl e \<Rightarrow> Inl e | Inr db \<Rightarrow> Inr (t, db))"

definition accept_thread ::
  "uuid \<Rightarrow> int \<Rightarrow> int \<Rightarrow> int \<Rightarrow> transition_input \<Rightarrow> thread_row \<Rightarrow> mailbox_db \<Rightarrow> relay_error + thread_row \<times> mailbox_db" where
  "accept_thread event_id now updated tx_now i t db =
     (if th_recipient_id t \<noteq> ti_caller_id i then Inl (Relay_err Not_authorized_transition)
      else if th_status t = Thread_accepted then Inr (t, db)
      else if th_status t \<noteq> Thread_pending then Inl (Relay_err Invalid_transition_code)
      else if is_sender_blocked db (th_sender_id t) (th_recipient_id t) then Inl (Relay_err Teammate_blocked)
      else store_transition event_id tx_now (ti_caller_id i) ''handoff.accept'' Event_thread_accepted
        (th_sender_id t) (accepted_thread now updated i t) db)"

definition complete_thread ::
  "uuid \<Rightarrow> int \<Rightarrow> int \<Rightarrow> int \<Rightarrow> transition_input \<Rightarrow> thread_row \<Rightarrow> mailbox_db \<Rightarrow> relay_error + thread_row \<times> mailbox_db" where
  "complete_thread event_id now updated tx_now i t db =
     (if th_recipient_id t \<noteq> ti_caller_id i then Inl (Relay_err Not_authorized_transition)
      else if th_status t \<noteq> Thread_accepted then Inl (Relay_err Invalid_transition_code)
      else if is_sender_blocked db (ti_caller_id i) (th_sender_id t) then Inl (Relay_err Teammate_blocked)
      else store_transition event_id tx_now (ti_caller_id i) ''handoff.complete'' Event_thread_completed
        (th_sender_id t) (completed_thread now updated i t) db)"

definition cancel_thread ::
  "uuid \<Rightarrow> int \<Rightarrow> int \<Rightarrow> int \<Rightarrow> transition_input \<Rightarrow> thread_row \<Rightarrow> mailbox_db \<Rightarrow> relay_error + thread_row \<times> mailbox_db" where
  "cancel_thread event_id now updated tx_now i t db =
     (if th_sender_id t \<noteq> ti_caller_id i then Inl (Relay_err Not_authorized_transition)
      else if th_status t \<noteq> Thread_pending then Inl (Relay_err Invalid_transition_code)
      else store_transition event_id tx_now (ti_caller_id i) ''handoff.cancel'' Event_thread_cancelled
        (th_recipient_id t) (cancelled_thread now updated t) db)"

definition transition_handoff ::
  "uuid \<Rightarrow> int \<Rightarrow> int \<Rightarrow> int \<Rightarrow> transition_input \<Rightarrow> mailbox_db \<Rightarrow> relay_error + thread_row \<times> mailbox_db" where
  "transition_handoff event_id now updated tx_now i db =
     (case find_thread db (ti_thread_id i) of
        None \<Rightarrow> Inl (Relay_err Thread_not_found)
      | Some t \<Rightarrow>
          if \<not> is_participant t (ti_caller_id i) then Inl (Relay_err Not_a_participant)
          else (case ti_transition i of
                  Accept_thread \<Rightarrow> accept_thread event_id now updated tx_now i t db
                | Complete_thread \<Rightarrow> complete_thread event_id now updated tx_now i t db
                | Cancel_thread \<Rightarrow> cancel_thread event_id now updated tx_now i t db))"

section \<open>Reading threads\<close>

definition messages_of :: "mailbox_db \<Rightarrow> uuid \<Rightarrow> message_row list" where
  "messages_of db thread_id = sort_key ms_sequence_no (filter (\<lambda>m. ms_thread_id m = thread_id) (mb_messages db))"

definition get_handoff :: "uuid \<Rightarrow> uuid \<Rightarrow> mailbox_db \<Rightarrow> relay_error + thread_row \<times> message_row list" where
  "get_handoff thread_id caller db =
     (case find_thread db thread_id of
        None \<Rightarrow> Inl (Relay_err Thread_not_found)
      | Some t \<Rightarrow> if \<not> is_participant t caller then Inl (Relay_err Not_a_participant)
          else Inr (t, messages_of db (th_id t)))"

record list_filter =
  lf_caller_id :: uuid
  lf_as_recipient :: bool
  lf_statuses :: "thread_status list"
  lf_since :: "int option"
  lf_limit :: nat

text \<open>\<open>ORDER BY created_at DESC LIMIT\<close>\<close>

definition list_handoffs :: "list_filter \<Rightarrow> mailbox_db \<Rightarrow> thread_row list" where
  "list_handoffs f db =
     take (lf_limit f) (sort_key (\<lambda>t. - th_created_at t)
       (filter (\<lambda>t. (if lf_as_recipient f then th_recipient_id t else th_sender_id t) = lf_caller_id f
          \<and> (lf_statuses f = [] \<or> th_status t \<in> set (lf_statuses f))
          \<and> (case lf_since f of None \<Rightarrow> True | Some s \<Rightarrow> th_created_at t \<ge> s)) (mb_threads db)))"

end
