(* ===== verification/Mailbox_Routes.thy ===== *)
theory Mailbox_Routes
  imports Handoffs
begin

text \<open>
  \<^verbatim>\<open>relay/src/routes/a2a.ts\<close> (the JSON-RPC methods of the mailboxes), the error codes of
  \<^verbatim>\<open>relay/src/errors.ts\<close> and the routes of \<^verbatim>\<open>relay/src/routes/agents.ts\<close> on blocks, cards, the roster and the
  mailbox events.  A parameter object has passed the shape check of its zod schema; the \<open>_ok\<close> predicates
  are the value checks.  A handler returns an error, or its reply with the notifications that it hands to
  the dispatcher and the new tables.
\<close>

section \<open>Error codes\<close>

definition rpc_code :: "error_symbol \<Rightarrow> int" where
  "rpc_code s = (case s of
     Parse_error \<Rightarrow> - 32700 | Invalid_request \<Rightarrow> - 32600 | Method_not_found \<Rightarrow> - 32601 | Invalid_params \<Rightarrow> - 32602
   | Unauthenticated \<Rightarrow> - 32001 | Forbidden \<Rightarrow> - 32002 | Rate_limited \<Rightarrow> - 32003 | Recipient_not_found \<Rightarrow> - 32004
   | Not_a_participant \<Rightarrow> - 32005 | Thread_not_found \<Rightarrow> - 32006 | Thread_terminal \<Rightarrow> - 32007
   | Invalid_transition_code \<Rightarrow> - 32008 | Not_authorized_transition \<Rightarrow> - 32009 | State_changed \<Rightarrow> - 32010
   | Duplicate_idempotency_key \<Rightarrow> - 32011 | Invalid_intent_payload \<Rightarrow> - 32012 | Teammate_blocked \<Rightarrow> - 32013
   | Node_not_found \<Rightarrow> - 32014 | Workspace_not_found \<Rightarrow> - 32015 | Mission_not_found \<Rightarrow> - 32016
   | Delivery_not_found \<Rightarrow> - 32017 | Internal \<Rightarrow> - 32099)"

definition http_status :: "error_symbol \<Rightarrow> int" where
  "http_status s = (case s of
     Parse_error \<Rightarrow> 400 | Invalid_request \<Rightarrow> 400 | Method_not_found \<Rightarrow> 404 | Invalid_params \<Rightarrow> 400
   | Unauthenticated \<Rightarrow> 401 | Forbidden \<Rightarrow> 403 | Rate_limited \<Rightarrow> 429 | Recipient_not_found \<Rightarrow> 404
   | Not_a_participant \<Rightarrow> 403 | Thread_not_found \<Rightarrow> 404 | Thread_terminal \<Rightarrow> 409
   | Invalid_transition_code \<Rightarrow> 409 | Not_authorized_transition \<Rightarrow> 403 | State_changed \<Rightarrow> 409
   | Duplicate_idempotency_key \<Rightarrow> 409 | Invalid_intent_payload \<Rightarrow> 400 | Teammate_blocked \<Rightarrow> 403
   | Node_not_found \<Rightarrow> 404 | Workspace_not_found \<Rightarrow> 404 | Mission_not_found \<Rightarrow> 404
   | Delivery_not_found \<Rightarrow> 404 | Internal \<Rightarrow> 500)"

text \<open>The catch clause: anything that is not a \<open>RelayError\<close> becomes an internal error.\<close>

definition caught :: "relay_error \<Rightarrow> error_symbol" where
  "caught e = (case e of Relay_err s \<Rightarrow> s | _ \<Rightarrow> Internal)"

section \<open>Context and notifications\<close>

record dispatch_ctx =
  cx_agent_id :: uuid
  cx_agent_handle :: jstext
  cx_notify :: bool
  cx_public_url :: jstext
  cx_clock :: int

datatype notification_kind = Notify_created | Notify_appended | Notify_completed | Notify_cancelled

record notification_job =
  nj_kind :: notification_kind
  nj_recipient_agent_id :: uuid
  nj_thread_id :: uuid
  nj_sender_handle :: jstext
  nj_sender_name :: jstext
  nj_summary :: jstext
  nj_public_url :: jstext
  nj_enqueued_at :: int

definition emit_notification ::
  "dispatch_ctx \<Rightarrow> notification_kind \<Rightarrow> uuid \<Rightarrow> uuid \<Rightarrow> jstext \<Rightarrow> mailbox_db \<Rightarrow> notification_job list" where
  "emit_notification cx kind thread_id recipient summary db =
     (if \<not> cx_notify cx then []
      else [\<lparr>nj_kind = kind, nj_recipient_agent_id = recipient, nj_thread_id = thread_id,
        nj_sender_handle = cx_agent_handle cx,
        nj_sender_name = (case find_account db (cx_agent_id cx) of Some a \<Rightarrow> ac_name a | None \<Rightarrow> cx_agent_handle cx),
        nj_summary = summary, nj_public_url = cx_public_url cx, nj_enqueued_at = cx_clock cx\<rparr>])"

section \<open>\<open>message/send\<close>\<close>

record send_params =
  sp_task_id :: "uuid option"
  sp_recipient :: "jstext option"
  sp_intent :: "intent option"
  sp_parts :: "jstext list"
  sp_artifacts :: "json list option"
  sp_payload :: "(jstext \<times> json) list option"
  sp_proposed_action :: "proposed_action option"
  sp_metadata :: "(jstext \<times> json) list option"

text \<open>\<open>mailboxArtifactSchema\<close>: an object whose type is a text that is not empty.\<close>

definition artifact_ok :: "json \<Rightarrow> bool" where
  "artifact_ok j = (case j of
     J_object es \<Rightarrow> (case map_of es (text_of ''type'') of Some (J_string t) \<Rightarrow> t \<noteq> [] | _ \<Rightarrow> False)
   | _ \<Rightarrow> False)"

definition proposed_action_ok :: "proposed_action \<Rightarrow> bool" where
  "proposed_action_ok a \<longleftrightarrow> po_description a \<noteq> [] \<and> po_rationale a \<noteq> []"

definition send_params_ok :: "host_lib \<Rightarrow> send_params \<Rightarrow> bool" where
  "send_params_ok L p \<longleftrightarrow>
     (case sp_task_id p of None \<Rightarrow> True | Some i \<Rightarrow> uuid_format L i)
     \<and> sp_recipient p \<noteq> Some [] \<and> sp_parts p \<noteq> []
     \<and> (case sp_artifacts p of None \<Rightarrow> True | Some as \<Rightarrow> list_all artifact_ok as)
     \<and> (case sp_proposed_action p of None \<Rightarrow> True | Some a \<Rightarrow> proposed_action_ok a)"

text \<open>\<open>parts.join("\n")\<close>\<close>

fun join_lines :: "jstext list \<Rightarrow> jstext" where
  "join_lines [] = []"
| "join_lines [t] = t"
| "join_lines (t # ts) = t @ 10 # join_lines ts"

definition client_key :: jstext where
  "client_key = text_of ''client_idempotency_key''"

definition idempotency_key_of :: "(jstext \<times> json) list \<Rightarrow> jstext option" where
  "idempotency_key_of metadata = (case map_of metadata client_key of Some (J_string k) \<Rightarrow> Some k | _ \<Rightarrow> None)"

definition default_to :: "'a \<Rightarrow> 'a option \<Rightarrow> 'a" where
  "default_to d x = (case x of None \<Rightarrow> d | Some v \<Rightarrow> v)"

definition append_input_of :: "dispatch_ctx \<Rightarrow> send_params \<Rightarrow> uuid \<Rightarrow> append_message_input" where
  "append_input_of cx p thread_id =
     (let metadata = default_to [] (sp_metadata p) in
      \<lparr>am_sender_id = cx_agent_id cx, am_thread_id = thread_id, am_body = join_lines (sp_parts p),
       am_payload = J_object (default_to (filter (\<lambda>(k, v). k \<noteq> client_key) metadata) (sp_payload p)),
       am_artifacts = default_to [] (sp_artifacts p), am_idempotency_key = idempotency_key_of metadata\<rparr>)"

definition create_input_of :: "dispatch_ctx \<Rightarrow> send_params \<Rightarrow> jstext \<Rightarrow> create_handoff_input" where
  "create_input_of cx p recipient =
     (let metadata = default_to [] (sp_metadata p) in
      \<lparr>hc_sender_id = cx_agent_id cx, hc_recipient_handle = recipient, hc_summary = join_lines (sp_parts p),
       hc_intent = default_to Inform (sp_intent p), hc_artifacts = default_to [] (sp_artifacts p),
       hc_initial_payload = J_object (default_to [] (sp_payload p)),
       hc_proposed_action = sp_proposed_action p, hc_metadata = J_object metadata,
       hc_idempotency_key = idempotency_key_of metadata\<rparr>)"

datatype send_reply =
  Message_appended uuid uuid int timestamp
| Thread_created uuid thread_status timestamp

definition send_append ::
  "(nat \<Rightarrow> uuid) \<Rightarrow> int \<Rightarrow> dispatch_ctx \<Rightarrow> send_params \<Rightarrow> uuid \<Rightarrow> mailbox_db
    \<Rightarrow> relay_error + send_reply \<times> notification_job list \<times> mailbox_db" where
  "send_append fresh tx_now cx p thread_id db =
     (case append_message fresh tx_now (append_input_of cx p thread_id) db of
        Inl e \<Rightarrow> Inl e
      | Inr (r, db) \<Rightarrow>
          Inr (Message_appended thread_id (mg_message_id r) (mg_sequence_no r) (to_iso_string (mg_created_at r)),
            (if mg_replayed r then []
             else (case find_thread db thread_id of
                     None \<Rightarrow> []
                   | Some t \<Rightarrow> emit_notification cx Notify_appended thread_id
                       (other_side t (cx_agent_id cx)) (join_lines (sp_parts p)) db)),
            db))"

definition send_create ::
  "(nat \<Rightarrow> uuid) \<Rightarrow> int \<Rightarrow> dispatch_ctx \<Rightarrow> send_params \<Rightarrow> jstext \<Rightarrow> mailbox_db
    \<Rightarrow> relay_error + send_reply \<times> notification_job list \<times> mailbox_db" where
  "send_create fresh tx_now cx p recipient db =
     (case create_handoff fresh tx_now (create_input_of cx p recipient) db of
        Inl e \<Rightarrow> Inl e
      | Inr (r, db) \<Rightarrow>
          (let t = tc_thread r in
           Inr (Thread_created (th_id t) (th_status t) (to_iso_string (th_created_at t)),
             (if tc_replayed r then []
              else emit_notification cx Notify_created (th_id t) (th_recipient_id t) (th_summary t) db),
             db)))"

definition handle_message_send ::
  "host_lib \<Rightarrow> (nat \<Rightarrow> uuid) \<Rightarrow> int \<Rightarrow> dispatch_ctx \<Rightarrow> send_params \<Rightarrow> mailbox_db
    \<Rightarrow> relay_error + send_reply \<times> notification_job list \<times> mailbox_db" where
  "handle_message_send L fresh tx_now cx p db =
     (if \<not> send_params_ok L p then Inl (Relay_err Invalid_params)
      else case sp_task_id p of
        Some thread_id \<Rightarrow> send_append fresh tx_now cx p thread_id db
      | None \<Rightarrow>
          (case sp_recipient p of
             None \<Rightarrow> Inl (Relay_err Invalid_params)
           | Some recipient \<Rightarrow> send_create fresh tx_now cx p recipient db))"

section \<open>\<open>tasks/update\<close> and \<open>tasks/cancel\<close>\<close>

record update_params =
  up_task_id :: uuid
  up_transition :: transition
  up_session_id :: "jstext option"
  up_result_summary :: "jstext option"
  up_artifacts :: "json list option"

definition update_params_ok :: "host_lib \<Rightarrow> update_params \<Rightarrow> bool" where
  "update_params_ok L p \<longleftrightarrow> uuid_format L (up_task_id p)
     \<and> (case up_artifacts p of None \<Rightarrow> True | Some as \<Rightarrow> list_all artifact_ok as \<and> up_transition p = Complete_thread)"

definition fire_transition_notification ::
  "dispatch_ctx \<Rightarrow> thread_row \<Rightarrow> transition \<Rightarrow> mailbox_db \<Rightarrow> notification_job list" where
  "fire_transition_notification cx t tr db = (case tr of
     Complete_thread \<Rightarrow> emit_notification cx Notify_completed (th_id t) (th_sender_id t) (th_summary t) db
   | Cancel_thread \<Rightarrow> (if th_accepted_at t \<noteq> None
       then emit_notification cx Notify_cancelled (th_id t) (th_recipient_id t) (th_summary t) db else [])
   | Accept_thread \<Rightarrow> [])"

record update_reply =
  ur_thread_id :: uuid
  ur_state :: thread_status
  ur_accepted_at :: "timestamp option"
  ur_completed_at :: "timestamp option"
  ur_completion_artifacts :: "json list"
  ur_cancelled_at :: "timestamp option"
  ur_updated_at :: timestamp

definition update_reply_of :: "thread_row \<Rightarrow> update_reply" where
  "update_reply_of t = \<lparr>ur_thread_id = th_id t, ur_state = th_status t,
     ur_accepted_at = map_option to_iso_string (th_accepted_at t),
     ur_completed_at = map_option to_iso_string (th_completed_at t),
     ur_completion_artifacts = th_completion_artifacts t,
     ur_cancelled_at = map_option to_iso_string (th_cancelled_at t),
     ur_updated_at = to_iso_string (th_updated_at t)\<rparr>"

definition handle_tasks_update ::
  "host_lib \<Rightarrow> uuid \<Rightarrow> int \<Rightarrow> int \<Rightarrow> int \<Rightarrow> dispatch_ctx \<Rightarrow> update_params \<Rightarrow> mailbox_db
    \<Rightarrow> relay_error + update_reply \<times> notification_job list \<times> mailbox_db" where
  "handle_tasks_update L event_id now updated tx_now cx p db =
     (if \<not> update_params_ok L p then Inl (Relay_err Invalid_params)
      else case transition_handoff event_id now updated tx_now
          \<lparr>ti_thread_id = up_task_id p, ti_caller_id = cx_agent_id cx, ti_transition = up_transition p,
           ti_session_id = up_session_id p, ti_result_summary = up_result_summary p,
           ti_result_artifacts = Some (default_to [] (up_artifacts p))\<rparr> db of
        Inl e \<Rightarrow> Inl e
      | Inr (t, db) \<Rightarrow> Inr (update_reply_of t, fire_transition_notification cx t (up_transition p) db, db))"

definition handle_tasks_cancel ::
  "host_lib \<Rightarrow> uuid \<Rightarrow> int \<Rightarrow> int \<Rightarrow> int \<Rightarrow> dispatch_ctx \<Rightarrow> uuid \<Rightarrow> mailbox_db
    \<Rightarrow> relay_error + (uuid \<times> thread_status \<times> timestamp) \<times> notification_job list \<times> mailbox_db" where
  "handle_tasks_cancel L event_id now updated tx_now cx thread_id db =
     (if \<not> uuid_format L thread_id then Inl (Relay_err Invalid_params)
      else case transition_handoff event_id now updated tx_now
          \<lparr>ti_thread_id = thread_id, ti_caller_id = cx_agent_id cx, ti_transition = Cancel_thread,
           ti_session_id = None, ti_result_summary = None, ti_result_artifacts = None\<rparr> db of
        Inl e \<Rightarrow> Inl e
      | Inr (t, db) \<Rightarrow> Inr ((th_id t, th_status t, to_iso_string (th_updated_at t)),
          fire_transition_notification cx t Cancel_thread db, db))"

end
