(* ===== verification/Mailbox_Views.thy ===== *)
theory Mailbox_Views
  imports Mailbox_Routes
begin

text \<open>
  The reads and the trust list: \<open>tasks/get\<close>, \<open>tasks/list\<close> and \<open>agents/list\<close> of
  \<^verbatim>\<open>relay/src/routes/a2a.ts\<close>, and the roster, cards, blocks and the mailbox query of
  \<^verbatim>\<open>relay/src/routes/agents.ts\<close>.
\<close>

section \<open>People\<close>

record sender_info =
  si_handle :: jstext
  si_name :: jstext
  si_role :: jstext

text \<open>\<open>loadSenders\<close> and the fallback of a missing row.\<close>

definition load_sender :: "mailbox_db \<Rightarrow> uuid \<Rightarrow> sender_info" where
  "load_sender db i = (case find_account db i of
     Some a \<Rightarrow> \<lparr>si_handle = ac_handle a, si_name = ac_name a, si_role = ac_role a\<rparr>
   | None \<Rightarrow> \<lparr>si_handle = text_of i, si_name = [], si_role = []\<rparr>)"

section \<open>\<open>tasks/get\<close>\<close>

record message_view =
  vm_id :: uuid
  vm_sequence_no :: int
  vm_author_id :: uuid
  vm_from :: jstext
  vm_body :: jstext
  vm_payload :: json
  vm_artifacts :: "json list"
  vm_created_at :: timestamp

record thread_view =
  vt_thread_id :: uuid
  vt_state :: thread_status
  vt_sender_id :: uuid
  vt_sender :: sender_info
  vt_recipient_id :: uuid
  vt_recipient :: sender_info
  vt_messages :: "message_view list"
  vt_summary :: jstext
  vt_intent :: intent
  vt_artifacts :: "json list"
  vt_proposed_action :: "proposed_action option"
  vt_metadata :: json
  vt_accepted_at :: "timestamp option"
  vt_completed_at :: "timestamp option"
  vt_completed_summary :: "jstext option"
  vt_completion_artifacts :: "json list"
  vt_cancelled_at :: "timestamp option"
  vt_created_at :: timestamp

definition message_view_of :: "mailbox_db \<Rightarrow> message_row \<Rightarrow> message_view" where
  "message_view_of db m = \<lparr>vm_id = ms_id m, vm_sequence_no = ms_sequence_no m, vm_author_id = ms_author_id m,
     vm_from = si_handle (load_sender db (ms_author_id m)), vm_body = ms_body m, vm_payload = ms_payload m,
     vm_artifacts = ms_artifacts m, vm_created_at = to_iso_string (ms_created_at m)\<rparr>"

definition thread_view_of :: "mailbox_db \<Rightarrow> thread_row \<Rightarrow> message_row list \<Rightarrow> thread_view" where
  "thread_view_of db t msgs = \<lparr>vt_thread_id = th_id t, vt_state = th_status t, vt_sender_id = th_sender_id t,
     vt_sender = load_sender db (th_sender_id t), vt_recipient_id = th_recipient_id t,
     vt_recipient = load_sender db (th_recipient_id t), vt_messages = map (message_view_of db) msgs,
     vt_summary = th_summary t, vt_intent = th_intent t, vt_artifacts = th_artifacts t,
     vt_proposed_action = th_proposed_action t, vt_metadata = th_metadata t,
     vt_accepted_at = map_option to_iso_string (th_accepted_at t),
     vt_completed_at = map_option to_iso_string (th_completed_at t),
     vt_completed_summary = th_completed_summary t, vt_completion_artifacts = th_completion_artifacts t,
     vt_cancelled_at = map_option to_iso_string (th_cancelled_at t), vt_created_at = to_iso_string (th_created_at t)\<rparr>"

definition handle_tasks_get :: "host_lib \<Rightarrow> dispatch_ctx \<Rightarrow> uuid \<Rightarrow> mailbox_db \<Rightarrow> relay_error + thread_view" where
  "handle_tasks_get L cx thread_id db =
     (if \<not> uuid_format L thread_id then Inl (Relay_err Invalid_params)
      else case get_handoff thread_id (cx_agent_id cx) db of
        Inl e \<Rightarrow> Inl e | Inr (t, msgs) \<Rightarrow> Inr (thread_view_of db t msgs))"

section \<open>\<open>tasks/list\<close>\<close>

text \<open>\<open>datetime_ok\<close> is zod's \<open>z.string().datetime()\<close>.  A date that does not parse makes the query throw.\<close>

record list_params =
  lp_as_recipient :: "bool option"
  lp_status :: "thread_status list option"
  lp_since :: "timestamp option"
  lp_limit :: "int option"

definition list_params_ok :: "(timestamp \<Rightarrow> bool) \<Rightarrow> list_params \<Rightarrow> bool" where
  "list_params_ok datetime_ok p \<longleftrightarrow> (case lp_since p of None \<Rightarrow> True | Some s \<Rightarrow> datetime_ok s)
     \<and> (case lp_limit p of None \<Rightarrow> True | Some n \<Rightarrow> 0 < n \<and> n \<le> 200)"

record list_item =
  li_thread_id :: uuid
  li_state :: thread_status
  li_sender_id :: uuid
  li_sender :: sender_info
  li_unread_messages :: nat
  li_recipient_id :: uuid
  li_summary_preview :: jstext
  li_intent :: intent
  li_created_at :: timestamp
  li_updated_at :: timestamp

definition list_item_of :: "mailbox_db \<Rightarrow> thread_row \<Rightarrow> list_item" where
  "list_item_of db t = \<lparr>li_thread_id = th_id t, li_state = th_status t, li_sender_id = th_sender_id t,
     li_sender = load_sender db (th_sender_id t), li_unread_messages = 0, li_recipient_id = th_recipient_id t,
     li_summary_preview = take 240 (th_summary t), li_intent = th_intent t,
     li_created_at = to_iso_string (th_created_at t), li_updated_at = to_iso_string (th_updated_at t)\<rparr>"

definition handle_tasks_list ::
  "host_lib \<Rightarrow> (timestamp \<Rightarrow> bool) \<Rightarrow> dispatch_ctx \<Rightarrow> list_params \<Rightarrow> mailbox_db \<Rightarrow> relay_error + list_item list" where
  "handle_tasks_list L datetime_ok cx p db =
     (if \<not> list_params_ok datetime_ok p then Inl (Relay_err Invalid_params)
      else let query = (\<lambda>since. map (list_item_of db) (list_handoffs
          \<lparr>lf_caller_id = cx_agent_id cx, lf_as_recipient = default_to True (lp_as_recipient p),
           lf_statuses = default_to [] (lp_status p), lf_since = since,
           lf_limit = nat (default_to 50 (lp_limit p))\<rparr> db)) in
        case lp_since p of
          None \<Rightarrow> Inr (query None)
        | Some s \<Rightarrow> (case date_parse L s of None \<Rightarrow> Inl (Relay_err Internal) | Some t \<Rightarrow> Inr (query (Some t))))"

section \<open>The roster\<close>

record teammate =
  tm_handle :: jstext
  tm_name :: jstext
  tm_role :: jstext
  tm_skills :: "jstext list"
  tm_repos_owned :: "jstext list"

definition find_card :: "mailbox_db \<Rightarrow> uuid \<Rightarrow> card_row option" where
  "find_card db i = find (\<lambda>c. cr_agent_id c = i) (mb_cards db)"

definition skills_of :: "mailbox_db \<Rightarrow> account_row \<Rightarrow> jstext list" where
  "skills_of db a = (case find_card db (ac_id a) of None \<Rightarrow> [] | Some c \<Rightarrow> cr_skills c)"

definition repos_of :: "mailbox_db \<Rightarrow> account_row \<Rightarrow> jstext list" where
  "repos_of db a = (case find_card db (ac_id a) of None \<Rightarrow> [] | Some c \<Rightarrow> cr_repos_owned c)"

definition teammate_of :: "mailbox_db \<Rightarrow> account_row \<Rightarrow> teammate" where
  "teammate_of db a = \<lparr>tm_handle = ac_handle a, tm_name = ac_name a, tm_role = ac_role a,
     tm_skills = skills_of db a, tm_repos_owned = repos_of db a\<rparr>"

text \<open>\<open>GET /agents\<close>\<close>

definition roster :: "mailbox_db \<Rightarrow> teammate list" where
  "roster db = map (teammate_of db) (filter ac_active (mb_accounts db))"

section \<open>\<open>agents/list\<close>\<close>

text \<open>The filters are trimmed before their length is checked.  The order of handles is the collation of the
  database; \<open>collate\<close> gives the sort key of a text.\<close>

record roster_params =
  rp_role :: "jstext option"
  rp_skill :: "jstext option"
  rp_repo :: "jstext option"
  rp_page :: "(int option \<times> jstext option) option"

definition trimmed_ok :: "nat \<Rightarrow> jstext option \<Rightarrow> bool" where
  "trimmed_ok longest t = (case map_option js_trim t of
     None \<Rightarrow> True | Some u \<Rightarrow> 1 \<le> length u \<and> length u \<le> longest)"

definition ascii_class :: "(char \<Rightarrow> bool) \<Rightarrow> 16 word \<Rightarrow> bool" where
  "ascii_class P u \<longleftrightarrow> u < 128 \<and> P (char_of (unat u))"

text \<open>\<open>/^[a-z0-9._-]+@[a-z0-9.-]+$/\<close>\<close>

definition handle_ok :: "jstext \<Rightarrow> bool" where
  "handle_ok t \<longleftrightarrow>
     (let name = takeWhile (\<lambda>u. u \<noteq> 64) t; team = drop (length name + 1) t in
      name \<noteq> [] \<and> team \<noteq> []
      \<and> list_all (ascii_class (\<lambda>c. is_lower c \<or> is_digit c \<or> c \<in> set ''._-'')) name
      \<and> list_all (ascii_class (\<lambda>c. is_lower c \<or> is_digit c \<or> c \<in> set ''.-'')) team)"

definition roster_params_ok :: "roster_params \<Rightarrow> bool" where
  "roster_params_ok p \<longleftrightarrow> trimmed_ok 60 (rp_role p) \<and> trimmed_ok 60 (rp_skill p) \<and> trimmed_ok 200 (rp_repo p)
     \<and> (case rp_page p of None \<Rightarrow> True
        | Some (limit, after) \<Rightarrow>
            (case limit of None \<Rightarrow> True | Some n \<Rightarrow> 1 \<le> n \<and> n \<le> 200)
            \<and> (case after of None \<Rightarrow> True | Some h \<Rightarrow> 1 \<le> length h \<and> length h \<le> 120 \<and> handle_ok h))"

definition roster_match :: "mailbox_db \<Rightarrow> roster_params \<Rightarrow> account_row \<Rightarrow> bool" where
  "roster_match db p a \<longleftrightarrow> ac_active a
     \<and> (case rp_role p of None \<Rightarrow> True | Some r \<Rightarrow> ac_role a = js_trim r)
     \<and> (case rp_skill p of None \<Rightarrow> True | Some s \<Rightarrow> js_trim s \<in> set (skills_of db a))
     \<and> (case rp_repo p of None \<Rightarrow> True | Some r \<Rightarrow> js_trim r \<in> set (repos_of db a))"

definition roster_rows ::
  "(jstext \<Rightarrow> nat list) \<Rightarrow> mailbox_db \<Rightarrow> roster_params \<Rightarrow> jstext option \<Rightarrow> account_row list" where
  "roster_rows collate db p after = sort_key (\<lambda>a. collate (ac_handle a))
     (filter (\<lambda>a. roster_match db p a
        \<and> (case after of None \<Rightarrow> True | Some h \<Rightarrow> collate (ac_handle a) > collate h)) (mb_accounts db))"

text \<open>The reply has a next cursor when a page was asked for; one row more than the page shows whether there is
  another page.\<close>

definition handle_agents_list ::
  "(jstext \<Rightarrow> nat list) \<Rightarrow> mailbox_db \<Rightarrow> roster_params \<Rightarrow> relay_error + teammate list \<times> jstext option option" where
  "handle_agents_list collate db p =
     (if \<not> roster_params_ok p then Inl (Relay_err Invalid_params)
      else case rp_page p of
        None \<Rightarrow> Inr (map (teammate_of db) (roster_rows collate db p None), None)
      | Some (limit, after) \<Rightarrow>
         (let n = nat (default_to 50 limit);
              rows = take (n + 1) (roster_rows collate db p after);
              page = take n rows in
          Inr (map (teammate_of db) page,
            Some (if length rows > n then map_option ac_handle (last_option page) else None))))"

section \<open>Cards\<close>

record card_update =
  cu_skills :: "jstext list option"
  cu_repos_owned :: "jstext list option"
  cu_role :: "jstext option"
  cu_webhook :: "jstext option option"

definition length_between :: "nat \<Rightarrow> nat \<Rightarrow> 'a list \<Rightarrow> bool" where
  "length_between lo hi xs \<longleftrightarrow> lo \<le> length xs \<and> length xs \<le> hi"

definition card_update_ok :: "(jstext \<Rightarrow> bool) \<Rightarrow> card_update \<Rightarrow> bool" where
  "card_update_ok slack_url u \<longleftrightarrow>
     (case cu_skills u of None \<Rightarrow> True | Some ss \<Rightarrow> length ss \<le> 50 \<and> list_all (length_between 1 60) ss)
     \<and> (case cu_repos_owned u of None \<Rightarrow> True | Some rs \<Rightarrow> length rs \<le> 100 \<and> list_all (length_between 1 200) rs)
     \<and> (case cu_role u of None \<Rightarrow> True | Some r \<Rightarrow> length_between 1 60 r)
     \<and> (case cu_webhook u of Some (Some w) \<Rightarrow> slack_url w | _ \<Rightarrow> True)"

text \<open>\<open>slack_url\<close> is the check of the webhook with the platform's URL parser, \<open>encrypt\<close> the encryption at rest.\<close>

definition put_card :: "card_row \<Rightarrow> mailbox_db \<Rightarrow> mailbox_db" where
  "put_card c db = db\<lparr>mb_cards :=
     (if list_ex (\<lambda>x. cr_agent_id x = cr_agent_id c) (mb_cards db)
      then map (\<lambda>x. if cr_agent_id x = cr_agent_id c then c else x) (mb_cards db) else mb_cards db @ [c])\<rparr>"

definition update_card ::
  "(jstext \<Rightarrow> bool) \<Rightarrow> (jstext \<Rightarrow> jstext) \<Rightarrow> uuid \<Rightarrow> card_update \<Rightarrow> mailbox_db \<Rightarrow> relay_error + mailbox_db" where
  "update_card slack_url encrypt agent u db =
     (if \<not> card_update_ok slack_url u then Inl (Relay_err Invalid_params)
      else let webhook = map_option (map_option encrypt) (cu_webhook u);
          db = (case cu_role u of None \<Rightarrow> db
            | Some r \<Rightarrow> db\<lparr>mb_accounts := map (\<lambda>a. if ac_id a = agent then a\<lparr>ac_role := r\<rparr> else a) (mb_accounts db)\<rparr>);
          old = default_to \<lparr>cr_agent_id = agent, cr_skills = [], cr_repos_owned = [], cr_webhook = None\<rparr> (find_card db agent) in
        if cu_skills u = None \<and> cu_repos_owned u = None \<and> webhook = None then Inr db
        else Inr (put_card (old\<lparr>cr_skills := default_to (cr_skills old) (cu_skills u),
               cr_repos_owned := default_to (cr_repos_owned old) (cu_repos_owned u),
               cr_webhook := default_to (cr_webhook old) webhook\<rparr>) db))"

section \<open>Blocks\<close>

definition find_handle :: "mailbox_db \<Rightarrow> jstext \<Rightarrow> account_row option" where
  "find_handle db h = find (\<lambda>a. ac_handle a = h) (mb_accounts db)"

definition block_agent ::
  "int \<Rightarrow> uuid \<Rightarrow> jstext \<Rightarrow> jstext \<Rightarrow> jstext option \<Rightarrow> mailbox_db \<Rightarrow> relay_error + mailbox_db" where
  "block_agent tx_now me me_handle target reason db =
     (if \<not> length_between 1 120 target \<or> (case reason of None \<Rightarrow> False | Some r \<Rightarrow> length r > 500)
      then Inl (Relay_err Invalid_params)
      else if target = me_handle then Inl (Relay_err Invalid_params)
      else case find_handle db target of
        None \<Rightarrow> Inl (Relay_err Recipient_not_found)
      | Some a \<Rightarrow>
          if ac_id a = me then Inl Unique_violation
          else if is_sender_blocked db (ac_id a) me then Inr db
          else Inr (audit_mail me ''agent.block'' (ac_id a)
            (db\<lparr>mb_blocks := mb_blocks db @ [\<lparr>bk_blocker_id = me, bk_blocked_id = ac_id a, bk_created_at = tx_now\<rparr>]\<rparr>)))"

definition unblock_agent :: "uuid \<Rightarrow> jstext \<Rightarrow> mailbox_db \<Rightarrow> relay_error + mailbox_db" where
  "unblock_agent me target db =
     (if target = [] then Inl (Relay_err Invalid_params)
      else case find_handle db target of
        None \<Rightarrow> Inr db
      | Some a \<Rightarrow>
          if \<not> is_sender_blocked db (ac_id a) me then Inr db
          else Inr (audit_mail me ''agent.unblock'' (ac_id a)
            (db\<lparr>mb_blocks := filter (\<lambda>b. \<not> (bk_blocker_id b = me \<and> bk_blocked_id b = ac_id a)) (mb_blocks db)\<rparr>)))"

definition list_blocks :: "uuid \<Rightarrow> mailbox_db \<Rightarrow> (jstext \<times> jstext \<times> jstext \<times> timestamp) list" where
  "list_blocks me db = concat (map (\<lambda>b.
     map (\<lambda>a. (ac_handle a, ac_name a, ac_role a, to_iso_string (bk_created_at b)))
       (filter (\<lambda>a. ac_id a = bk_blocked_id b) (mb_accounts db)))
     (filter (\<lambda>b. bk_blocker_id b = me) (mb_blocks db)))"

section \<open>The mailbox query\<close>

text \<open>\<open>cursor.length < MAX.length || cursor <= MAX\<close>, where strings compare as text.\<close>

definition mailbox_cursor_ok :: "string \<Rightarrow> bool" where
  "mailbox_cursor_ok s \<longleftrightarrow> head_tail (\<lambda>c. is_digit c \<and> c \<noteq> CHR ''0'') is_digit s \<and> length s \<le> 19
     \<and> (length s < 19 \<or> s \<le> ''9223372036854775807'')"

definition get_mailbox_events ::
  "uuid \<Rightarrow> string option \<Rightarrow> int option \<Rightarrow> mailbox_db \<Rightarrow> relay_error + mailbox_page" where
  "get_mailbox_events me after limit db =
     (if (case after of None \<Rightarrow> False | Some s \<Rightarrow> \<not> mailbox_cursor_ok s)
        \<or> (case limit of None \<Rightarrow> False | Some n \<Rightarrow> n \<le> 0 \<or> 200 < n)
      then Inl (Relay_err Invalid_params)
      else Inr (list_mailbox_events db me (map_option (\<lambda>s. int (decimal_value s)) after) (nat (default_to 50 limit))))"

end
