(* ===== verification/Accounts.thy ===== *)
theory Accounts
  imports Mailbox_Views
begin

text \<open>
  API keys (\<^verbatim>\<open>relay/src/auth/keys.ts\<close>, \<^verbatim>\<open>relay/src/auth/middleware.ts\<close>), registration
  (\<^verbatim>\<open>relay/src/services/agent-registration.ts\<close>), key rotation (\<^verbatim>\<open>relay/src/routes/agents.ts\<close>,
  \<^verbatim>\<open>relay/src/routes/admin.ts\<close>) and invites (\<^verbatim>\<open>relay/src/services/invite.ts\<close>,
  \<^verbatim>\<open>relay/src/routes/invites.ts\<close>).  Hashes are arguments: \<open>key_hash\<close> is the SHA-256 of pepper and key.
\<close>

section \<open>Keys\<close>

definition base32_alphabet :: string where
  "base32_alphabet = ''abcdefghijklmnopqrstuvwxyz234567''"

text \<open>The inner loop of \<open>base32\<close>: digits of five bits, as long as five bits are there.  The accumulator is a
  32-bit integer whose high bits fall out.\<close>

fun base32_drain :: "nat \<Rightarrow> 32 word \<Rightarrow> string \<times> nat" where
  "base32_drain bits value =
     (if bits \<ge> 5
      then let (out, rest) = base32_drain (bits - 5) value in
        (base32_alphabet ! unat (and (drop_bit (bits - 5) value) 31) # out, rest)
      else ([], bits))"

declare base32_drain.simps [simp del]

fun base32_loop :: "nat \<Rightarrow> 32 word \<Rightarrow> 8 word list \<Rightarrow> string" where
  "base32_loop bits value [] =
     (if bits > 0 then [base32_alphabet ! unat (and (push_bit (5 - bits) value) 31)] else [])"
| "base32_loop bits value (b # bs) =
     (let value = or (push_bit 8 value) (ucast b);
          (out, bits) = base32_drain (bits + 8) value in
      out @ base32_loop bits value bs)"

definition base32 :: "8 word list \<Rightarrow> string" where
  "base32 bytes = base32_loop 0 0 bytes"

datatype key_environment = Live | Test

definition key_prefix :: "key_environment \<Rightarrow> string" where
  "key_prefix env = (case env of Live \<Rightarrow> ''ah_live_'' | Test \<Rightarrow> ''ah_test_'')"

definition node_key_prefix :: "key_environment \<Rightarrow> string" where
  "node_key_prefix env = (case env of Live \<Rightarrow> ''ar_node_live_'' | Test \<Rightarrow> ''ar_node_test_'')"

definition generate_key :: "key_environment \<Rightarrow> 8 word list \<Rightarrow> string" where
  "generate_key env bytes = key_prefix env @ base32 bytes"

definition generate_node_key :: "key_environment \<Rightarrow> 8 word list \<Rightarrow> string" where
  "generate_node_key env bytes = node_key_prefix env @ base32 bytes"

text \<open>\<open>/^ah_(live|test)_[a-z2-7]{32}$/\<close>\<close>

definition key_body_ok :: "string \<Rightarrow> bool" where
  "key_body_ok s \<longleftrightarrow> length s = 32 \<and> list_all (\<lambda>c. is_lower c \<or> c \<in> set ''234567'') s"

definition prefixed_body :: "string \<Rightarrow> string \<Rightarrow> bool" where
  "prefixed_body p s \<longleftrightarrow> take (length p) s = p \<and> key_body_ok (drop (length p) s)"

definition is_well_formed_key :: "string \<Rightarrow> bool" where
  "is_well_formed_key s \<longleftrightarrow> prefixed_body ''ah_live_'' s \<or> prefixed_body ''ah_test_'' s"

definition is_well_formed_node_key :: "string \<Rightarrow> bool" where
  "is_well_formed_node_key s \<longleftrightarrow> prefixed_body ''ar_node_live_'' s \<or> prefixed_body ''ar_node_test_'' s"

section \<open>Bearer authentication\<close>

definition is_space_char :: "char \<Rightarrow> bool" where
  "is_space_char c \<longleftrightarrow> is_js_space (of_char c)"

definition trim_string :: "string \<Rightarrow> string" where
  "trim_string s = rev (dropWhile is_space_char (rev (dropWhile is_space_char s)))"

text \<open>\<open>/^Bearer\s+(.+)$/i\<close> on a header value, which is one line.\<close>

definition extract_bearer :: "string option \<Rightarrow> string option" where
  "extract_bearer header = (case header of None \<Rightarrow> None
   | Some s \<Rightarrow>
       if length s \<ge> 8 \<and> map to_lower (take 6 s) = ''bearer'' \<and> is_space_char (s ! 6)
       then Some (trim_string (drop 7 s)) else None)"

record auth_agent =
  aa_id :: uuid
  aa_handle :: jstext
  aa_email :: jstext
  aa_role :: jstext
  aa_api_key_id :: uuid

definition active_key :: "mailbox_db \<Rightarrow> string \<Rightarrow> (key_row \<times> account_row) option" where
  "active_key db h = (case find (\<lambda>k. ky_hash k = h \<and> ky_revoked_at k = None) (mb_keys db) of
     None \<Rightarrow> None | Some k \<Rightarrow> map_option (\<lambda>a. (k, a)) (find_account db (ky_agent_id k)))"

definition bearer_auth :: "(string \<Rightarrow> string) \<Rightarrow> string option \<Rightarrow> mailbox_db \<Rightarrow> relay_error + auth_agent" where
  "bearer_auth key_hash header db = (case extract_bearer header of
     None \<Rightarrow> Inl (Relay_err Unauthenticated)
   | Some raw \<Rightarrow>
       if raw = [] \<or> \<not> is_well_formed_key raw then Inl (Relay_err Unauthenticated)
       else case active_key db (key_hash raw) of
         None \<Rightarrow> Inl (Relay_err Unauthenticated)
       | Some (k, a) \<Rightarrow>
           if \<not> ac_active a then Inl (Relay_err Forbidden)
           else Inr \<lparr>aa_id = ac_id a, aa_handle = ac_handle a, aa_email = ac_email a, aa_role = ac_role a,
             aa_api_key_id = ky_id k\<rparr>)"

text \<open>\<open>credentialRemainsActive\<close> of the event stream.\<close>

definition credential_remains_active :: "mailbox_db \<Rightarrow> uuid \<Rightarrow> uuid \<Rightarrow> bool" where
  "credential_remains_active db key_id agent_id \<longleftrightarrow>
     list_ex (\<lambda>k. ky_id k = key_id \<and> ky_agent_id k = agent_id \<and> ky_revoked_at k = None
       \<and> list_ex (\<lambda>a. ac_id a = agent_id \<and> ac_active a) (mb_accounts db)) (mb_keys db)"

section \<open>Registration and rotation\<close>

text \<open>The email column compares without case; \<open>fold_case\<close> is the folding of the database.\<close>

definition insert_account :: "(jstext \<Rightarrow> jstext) \<Rightarrow> account_row \<Rightarrow> mailbox_db \<Rightarrow> relay_error + mailbox_db" where
  "insert_account fold_case a db =
     (if list_ex (\<lambda>x. ac_id x = ac_id a \<or> ac_handle x = ac_handle a
          \<or> fold_case (ac_email x) = fold_case (ac_email a)) (mb_accounts db)
      then Inl Unique_violation else Inr (db\<lparr>mb_accounts := mb_accounts db @ [a]\<rparr>))"

definition insert_key :: "key_row \<Rightarrow> mailbox_db \<Rightarrow> relay_error + mailbox_db" where
  "insert_key k db =
     (if list_ex (\<lambda>x. ky_id x = ky_id k
          \<or> ky_hash x = ky_hash k \<and> ky_revoked_at x = None \<and> ky_revoked_at k = None) (mb_keys db)
      then Inl Unique_violation else Inr (db\<lparr>mb_keys := mb_keys db @ [k]\<rparr>))"

record register_input =
  ri_handle :: jstext
  ri_email :: "jstext option"
  ri_display_name :: "jstext option"
  ri_role :: jstext

text \<open>\<open>raw\<close> is the key that was generated.\<close>

definition register_agent ::
  "(jstext \<Rightarrow> jstext) \<Rightarrow> (string \<Rightarrow> string) \<Rightarrow> (nat \<Rightarrow> uuid) \<Rightarrow> string \<Rightarrow> register_input \<Rightarrow> mailbox_db
    \<Rightarrow> relay_error + account_row \<times> mailbox_db" where
  "register_agent fold_case key_hash fresh raw i db =
     (if find_handle db (ri_handle i) \<noteq> None then Inl (Relay_err Invalid_params)
      else let a = \<lparr>ac_id = fresh 0, ac_handle = ri_handle i, ac_email = default_to (ri_handle i) (ri_email i),
             ac_name = default_to (ri_handle i) (ri_display_name i), ac_role = ri_role i, ac_active = True\<rparr> in
        case insert_account fold_case a db of
          Inl e \<Rightarrow> Inl e
        | Inr db \<Rightarrow>
           (case insert_key \<lparr>ky_id = fresh 1, ky_agent_id = fresh 0, ky_hash = key_hash raw, ky_revoked_at = None\<rparr> db of
              Inl e \<Rightarrow> Inl e | Inr db \<Rightarrow> Inr (a, db)))"

text \<open>Both rotations set the revocation time of every key of the agent, again on those already revoked.\<close>

definition revoke_all_keys :: "int \<Rightarrow> uuid \<Rightarrow> mailbox_db \<Rightarrow> mailbox_db" where
  "revoke_all_keys now agent db =
     db\<lparr>mb_keys := map (\<lambda>k. if ky_agent_id k = agent then k\<lparr>ky_revoked_at := Some now\<rparr> else k) (mb_keys db)\<rparr>"

definition issue_key ::
  "(string \<Rightarrow> string) \<Rightarrow> uuid \<Rightarrow> int \<Rightarrow> string \<Rightarrow> uuid \<Rightarrow> mailbox_db \<Rightarrow> relay_error + uuid \<times> mailbox_db" where
  "issue_key key_hash fresh_id now raw agent db =
     (case insert_key \<lparr>ky_id = fresh_id, ky_agent_id = agent, ky_hash = key_hash raw, ky_revoked_at = None\<rparr>
        (revoke_all_keys now agent db) of
        Inl e \<Rightarrow> Inl e | Inr db \<Rightarrow> Inr (fresh_id, db))"

definition rotate_own_key ::
  "(string \<Rightarrow> string) \<Rightarrow> uuid \<Rightarrow> int \<Rightarrow> string \<Rightarrow> uuid \<Rightarrow> mailbox_db \<Rightarrow> relay_error + uuid \<times> mailbox_db" where
  "rotate_own_key key_hash fresh_id now raw agent db =
     (if \<not> list_ex (\<lambda>a. ac_id a = agent \<and> ac_active a) (mb_accounts db) then Inl (Relay_err Unauthenticated)
      else issue_key key_hash fresh_id now raw agent db)"

definition admin_rotate_key ::
  "host_lib \<Rightarrow> (string \<Rightarrow> string) \<Rightarrow> uuid \<Rightarrow> int \<Rightarrow> string \<Rightarrow> uuid \<Rightarrow> mailbox_db \<Rightarrow> relay_error + uuid \<times> mailbox_db" where
  "admin_rotate_key L key_hash fresh_id now raw agent db =
     (if \<not> uuid_format L agent then Inl (Relay_err Invalid_params)
      else case find_account db agent of
        None \<Rightarrow> Inl (Relay_err Recipient_not_found)
      | Some a \<Rightarrow>
          if \<not> ac_active a then Inl (Relay_err Invalid_transition_code)
          else issue_key key_hash fresh_id now raw agent db)"

text \<open>The part of the disabling of an agent that concerns its account and its keys.\<close>

definition disable_account :: "int \<Rightarrow> uuid \<Rightarrow> mailbox_db \<Rightarrow> relay_error + mailbox_db" where
  "disable_account clock agent db =
     (case find_account db agent of
        None \<Rightarrow> Inl (Relay_err Recipient_not_found)
      | Some _ \<Rightarrow> Inr (db\<lparr>
          mb_accounts := map (\<lambda>a. if ac_id a = agent then a\<lparr>ac_active := False\<rparr> else a) (mb_accounts db),
          mb_keys := map (\<lambda>k. if ky_agent_id k = agent \<and> ky_revoked_at k = None
            then k\<lparr>ky_revoked_at := Some clock\<rparr> else k) (mb_keys db),
          mb_audit := mb_audit db @ [(None, ''agent.disable'', agent)]\<rparr>))"

section \<open>Base64url\<close>

definition base64_alphabet :: string where
  "base64_alphabet = ''ABCDEFGHIJKLMNOPQRSTUVWXYZabcdefghijklmnopqrstuvwxyz0123456789-_''"

definition base64_digit :: "nat \<Rightarrow> char" where
  "base64_digit n = base64_alphabet ! n"

definition base64_value :: "char \<Rightarrow> nat" where
  "base64_value c = length (takeWhile (\<lambda>x. x \<noteq> c) base64_alphabet)"

text \<open>The codec of the platform: three bytes are four digits; two or one bytes at the end three or two.\<close>

fun encode_base64url :: "8 word list \<Rightarrow> string" where
  "encode_base64url (a # b # c # bs) =
     (let n = unat a * 65536 + unat b * 256 + unat c in
      base64_digit (n div 262144) # base64_digit (n div 4096 mod 64) # base64_digit (n div 64 mod 64)
        # base64_digit (n mod 64) # encode_base64url bs)"
| "encode_base64url [a, b] =
     (let n = unat a * 1024 + unat b * 4 in
      [base64_digit (n div 4096), base64_digit (n div 64 mod 64), base64_digit (n mod 64)])"
| "encode_base64url [a] = (let n = unat a * 16 in [base64_digit (n div 64), base64_digit (n mod 64)])"
| "encode_base64url [] = []"

fun decode_base64url :: "string \<Rightarrow> 8 word list" where
  "decode_base64url (p # q # r # s # cs) =
     (let n = base64_value p * 262144 + base64_value q * 4096 + base64_value r * 64 + base64_value s in
      of_nat (n div 65536) # of_nat (n div 256 mod 256) # of_nat (n mod 256) # decode_base64url cs)"
| "decode_base64url [p, q, r] =
     (let n = (base64_value p * 4096 + base64_value q * 64 + base64_value r) div 4 in
      [of_nat (n div 256), of_nat (n mod 256)])"
| "decode_base64url [p, q] = [of_nat ((base64_value p * 64 + base64_value q) div 16)]"
| "decode_base64url _ = []"

definition is_base64_char :: "char \<Rightarrow> bool" where
  "is_base64_char c \<longleftrightarrow> is_alnum c \<or> c = CHR ''_'' \<or> c = CHR ''-''"

text \<open>\<open>normalizeBase64Url\<close>: digits and at most two padding signs, which are dropped.\<close>

definition normalize_base64url :: "string \<Rightarrow> string option" where
  "normalize_base64url s =
     (let digits = takeWhile (\<lambda>c. c \<noteq> CHR ''='') s; padding = drop (length digits) s in
      if digits = [] \<or> \<not> list_all is_base64_char digits \<or> \<not> list_all (\<lambda>c. c = CHR ''='') padding
        \<or> length padding > 2 \<or> length digits mod 4 = 1
      then None else Some digits)"

section \<open>Invite tokens\<close>

record invite_payload =
  ip_relay_url :: jstext
  ip_handle :: jstext
  ip_role :: jstext
  ip_inviter_handle :: jstext
  ip_jti :: uuid
  ip_exp :: int

definition invite_payload_ok :: "host_lib \<Rightarrow> invite_payload \<Rightarrow> bool" where
  "invite_payload_ok L p \<longleftrightarrow> url_format L (ip_relay_url p) \<and> ip_handle p \<noteq> [] \<and> ip_role p \<noteq> []
     \<and> ip_inviter_handle p \<noteq> [] \<and> uuid_format L (ip_jti p) \<and> 0 < ip_exp p"

text \<open>Functions of the platform: HMAC-SHA256 under the secret, the UTF-8 bytes of \<open>JSON.stringify\<close>, and
  \<open>JSON.parse\<close> of bytes, which gives nothing, a value of another shape, or a payload.\<close>

record token_lib =
  tl_sign :: "string \<Rightarrow> 8 word list"
  tl_stringify :: "invite_payload \<Rightarrow> 8 word list"
  tl_parse :: "8 word list \<Rightarrow> invite_payload option option"

definition mint_invite_token :: "host_lib \<Rightarrow> token_lib \<Rightarrow> invite_payload \<Rightarrow> relay_error + string" where
  "mint_invite_token L T p =
     (if \<not> invite_payload_ok L p then Inl Relay_zod
      else let encoded = encode_base64url (tl_stringify T p) in
        Inr (''v1.'' @ encoded @ ''.'' @ encode_base64url (tl_sign T encoded)))"

fun split_dots :: "string \<Rightarrow> string list" where
  "split_dots [] = [[]]"
| "split_dots (c # cs) = (case split_dots cs of
     [] \<Rightarrow> [[c]]
   | part # parts \<Rightarrow> if c = CHR ''.'' then [] # part # parts else (c # part) # parts)"

datatype token_failure =
  Malformed_token | Unsupported_version | Malformed_payload | Malformed_signature | Invalid_signature
| Invalid_payload_json | Invalid_payload

definition verify_payload :: "host_lib \<Rightarrow> token_lib \<Rightarrow> string \<Rightarrow> token_failure + invite_payload" where
  "verify_payload L T encoded = (case tl_parse T (decode_base64url encoded) of
     None \<Rightarrow> Inl Invalid_payload_json
   | Some None \<Rightarrow> Inl Invalid_payload
   | Some (Some p) \<Rightarrow> if invite_payload_ok L p then Inr p else Inl Invalid_payload)"

definition verify_invite_token :: "host_lib \<Rightarrow> token_lib \<Rightarrow> string \<Rightarrow> token_failure + invite_payload" where
  "verify_invite_token L T token = (case split_dots token of
     [version, payload, signature] \<Rightarrow>
       if version \<noteq> ''v1'' then Inl Unsupported_version
       else (case normalize_base64url payload of
               None \<Rightarrow> Inl Malformed_payload
             | Some encoded \<Rightarrow>
                (case normalize_base64url signature of
                   None \<Rightarrow> Inl Malformed_signature
                 | Some sig \<Rightarrow>
                     if decode_base64url sig \<noteq> tl_sign T encoded then Inl Invalid_signature
                     else verify_payload L T encoded))
   | _ \<Rightarrow> Inl Malformed_token)"

section \<open>Invites\<close>

record mint_input =
  mi_inviter_handle :: jstext
  mi_handle :: jstext
  mi_role :: jstext
  mi_expires_in_seconds :: int

definition mint_invite ::
  "host_lib \<Rightarrow> token_lib \<Rightarrow> jstext \<Rightarrow> uuid \<Rightarrow> int \<Rightarrow> mint_input \<Rightarrow> mailbox_db \<Rightarrow> relay_error + string \<times> mailbox_db" where
  "mint_invite L T public_url jti now i db =
     (if mi_inviter_handle i = [] \<or> mi_handle i = [] \<or> mi_role i = [] \<or> mi_expires_in_seconds i \<le> 0
      then Inl (Relay_err Invalid_params)
      else let expires = now div 1000 + mi_expires_in_seconds i in
        case mint_invite_token L T \<lparr>ip_relay_url = public_url, ip_handle = mi_handle i, ip_role = mi_role i,
            ip_inviter_handle = mi_inviter_handle i, ip_jti = jti, ip_exp = expires\<rparr> of
          Inl e \<Rightarrow> Inl e
        | Inr token \<Rightarrow>
           (case find_handle db (mi_inviter_handle i) of
              None \<Rightarrow> Inl (Relay_err Recipient_not_found)
            | Some inviter \<Rightarrow>
                if list_ex (\<lambda>x. iv_jti x = jti \<or> iv_token_hash x = sha256_hex L (text_of token)) (mb_invites db)
                then Inl Unique_violation
                else Inr (token, audit_mail (ac_id inviter) ''invite.minted'' jti
                  (db\<lparr>mb_invites := mb_invites db @ [\<lparr>iv_jti = jti, iv_token_hash = sha256_hex L (text_of token),
                     iv_handle = mi_handle i, iv_role = mi_role i, iv_inviter_id = ac_id inviter,
                     iv_expires_at = expires * 1000, iv_used_at = None, iv_used_by = None\<rparr>]\<rparr>))))"

text \<open>A refused redemption is a reply with its status; the transaction ends without a change.\<close>

datatype redeem_failure =
  Invalid_token token_failure | Jti_mismatch | Token_expired | Token_mismatch | Already_used
| Invite_expired | Invite_not_found

definition redeem_status :: "redeem_failure \<Rightarrow> int" where
  "redeem_status f = (case f of Invalid_token _ \<Rightarrow> 401 | Jti_mismatch \<Rightarrow> 401 | Token_expired \<Rightarrow> 410
     | Token_mismatch \<Rightarrow> 401 | Already_used \<Rightarrow> 410 | Invite_expired \<Rightarrow> 410 | Invite_not_found \<Rightarrow> 404)"

definition validate_redeem_token :: "host_lib \<Rightarrow> token_lib \<Rightarrow> int \<Rightarrow> string \<Rightarrow> uuid \<Rightarrow> redeem_failure option" where
  "validate_redeem_token L T clock token jti = (case verify_invite_token L T token of
     Inl f \<Rightarrow> Some (Invalid_token f)
   | Inr p \<Rightarrow> if ip_jti p \<noteq> jti then Some Jti_mismatch
       else if ip_exp p * 1000 < clock then Some Token_expired else None)"

definition validate_invite_row :: "invite_row \<Rightarrow> string \<Rightarrow> int \<Rightarrow> redeem_failure option" where
  "validate_invite_row iv token_hash now =
     (if iv_token_hash iv \<noteq> token_hash then Some Token_mismatch
      else if iv_used_at iv \<noteq> None then Some Already_used
      else if iv_expires_at iv \<le> now then Some Invite_expired else None)"

definition redeem_invite ::
  "host_lib \<Rightarrow> token_lib \<Rightarrow> (jstext \<Rightarrow> jstext) \<Rightarrow> (string \<Rightarrow> string) \<Rightarrow> (nat \<Rightarrow> uuid) \<Rightarrow> int \<Rightarrow> int \<Rightarrow> string
    \<Rightarrow> uuid \<Rightarrow> string \<Rightarrow> mailbox_db \<Rightarrow> relay_error + (redeem_failure + account_row) \<times> mailbox_db" where
  "redeem_invite L T fold_case key_hash fresh clock now raw jti token db =
     (if \<not> uuid_format L jti \<or> token = [] then Inl (Relay_err Invalid_params)
      else case validate_redeem_token L T clock token jti of
        Some f \<Rightarrow> Inr (Inl f, db)
      | None \<Rightarrow>
         (case find (\<lambda>x. iv_jti x = jti) (mb_invites db) of
            None \<Rightarrow> Inr (Inl Invite_not_found, db)
          | Some iv \<Rightarrow>
             (case validate_invite_row iv (sha256_hex L (text_of token)) now of
                Some f \<Rightarrow> Inr (Inl f, db)
              | None \<Rightarrow>
                 (case register_agent fold_case key_hash fresh raw
                     \<lparr>ri_handle = iv_handle iv, ri_email = None, ri_display_name = None, ri_role = iv_role iv\<rparr> db of
                    Inl e \<Rightarrow> Inl e
                  | Inr (a, db) \<Rightarrow> Inr (Inr a, audit_mail (ac_id a) ''invite.redeemed'' jti
                      (db\<lparr>mb_invites := map (\<lambda>x. if iv_jti x = jti
                         then x\<lparr>iv_used_at := Some now, iv_used_by := Some (ac_id a)\<rparr> else x) (mb_invites db)\<rparr>))))))"

end
