(* ===== verification/Mailbox_Machine.thy ===== *)
theory Mailbox_Machine
  imports Accounts
begin

text \<open>
  The mailbox requests of the Relay as one step function.  A request carries the values that the platform
  draws for it: fresh ids, the clock, the start of the transaction, a generated key.  A refused request leaves
  the tables as they are.
\<close>

section \<open>Requests\<close>

record mailbox_env =
  en_lib :: host_lib
  en_tokens :: token_lib
  en_fold_case :: "jstext \<Rightarrow> jstext"
  en_key_hash :: "string \<Rightarrow> string"
  en_slack_url :: "jstext \<Rightarrow> bool"
  en_encrypt :: "jstext \<Rightarrow> jstext"
  en_public_url :: jstext

datatype mailbox_request =
  Q_send "nat \<Rightarrow> uuid" int dispatch_ctx send_params
| Q_update uuid int int int dispatch_ctx update_params
| Q_cancel uuid int int int dispatch_ctx uuid
| Q_block int uuid jstext jstext "jstext option"
| Q_unblock uuid jstext
| Q_card uuid card_update
| Q_register "nat \<Rightarrow> uuid" string register_input
| Q_rotate uuid int string uuid
| Q_admin_rotate uuid int string uuid
| Q_disable int uuid
| Q_mint uuid int mint_input
| Q_redeem "nat \<Rightarrow> uuid" int int string uuid string

definition state_of :: "relay_error + 'a \<times> mailbox_db \<Rightarrow> relay_error + mailbox_db" where
  "state_of r = (case r of Inl e \<Rightarrow> Inl e | Inr (_, db) \<Rightarrow> Inr db)"

definition state_of_handler :: "relay_error + 'a \<times> 'b \<times> mailbox_db \<Rightarrow> relay_error + mailbox_db" where
  "state_of_handler r = (case r of Inl e \<Rightarrow> Inl e | Inr (_, _, db) \<Rightarrow> Inr db)"

definition mailbox_step :: "mailbox_env \<Rightarrow> mailbox_db \<Rightarrow> mailbox_request \<Rightarrow> relay_error + mailbox_db" where
  "mailbox_step env db q = (case q of
     Q_send fresh tx_now cx p \<Rightarrow> state_of_handler (handle_message_send (en_lib env) fresh tx_now cx p db)
   | Q_update event_id now updated tx_now cx p \<Rightarrow>
       state_of_handler (handle_tasks_update (en_lib env) event_id now updated tx_now cx p db)
   | Q_cancel event_id now updated tx_now cx i \<Rightarrow>
       state_of_handler (handle_tasks_cancel (en_lib env) event_id now updated tx_now cx i db)
   | Q_block tx_now me me_handle target reason \<Rightarrow> block_agent tx_now me me_handle target reason db
   | Q_unblock me target \<Rightarrow> unblock_agent me target db
   | Q_card me u \<Rightarrow> update_card (en_slack_url env) (en_encrypt env) me u db
   | Q_register fresh raw i \<Rightarrow> state_of (register_agent (en_fold_case env) (en_key_hash env) fresh raw i db)
   | Q_rotate fresh_id now raw me \<Rightarrow> state_of (rotate_own_key (en_key_hash env) fresh_id now raw me db)
   | Q_admin_rotate fresh_id now raw i \<Rightarrow>
       state_of (admin_rotate_key (en_lib env) (en_key_hash env) fresh_id now raw i db)
   | Q_disable clock i \<Rightarrow> disable_account clock i db
   | Q_mint jti now i \<Rightarrow> state_of (mint_invite (en_lib env) (en_tokens env) (en_public_url env) jti now i db)
   | Q_redeem fresh clock now raw jti token \<Rightarrow> state_of (redeem_invite (en_lib env) (en_tokens env)
       (en_fold_case env) (en_key_hash env) fresh clock now raw jti token db))"

definition empty_mailboxes :: mailbox_db where
  "empty_mailboxes = \<lparr>mb_accounts = [], mb_cards = [], mb_keys = [], mb_invites = [], mb_blocks = [],
     mb_threads = [], mb_messages = [], mb_events = [], mb_last_cursor = 0, mb_audit = []\<rparr>"

section \<open>What a step writes\<close>

text \<open>The tables of the threads: everything the laws of this file are about.\<close>

definition same_threads :: "mailbox_db \<Rightarrow> mailbox_db \<Rightarrow> bool" where
  "same_threads db db' \<longleftrightarrow> mb_threads db' = mb_threads db \<and> mb_messages db' = mb_messages db
     \<and> mb_events db' = mb_events db \<and> mb_last_cursor db' = mb_last_cursor db"

lemma state_of_Inr: "state_of r = Inr db \<longleftrightarrow> (\<exists>x. r = Inr (x, db))"
  by (auto simp: state_of_def split: sum.splits)

lemma state_of_handler_Inr: "state_of_handler r = Inr db \<longleftrightarrow> (\<exists>x y. r = Inr (x, y, db))"
  by (auto simp: state_of_handler_def split: sum.splits)

lemma insert_thread_Inr:
  "insert_thread t db = Inr db' \<longleftrightarrow>
     db' = db\<lparr>mb_threads := mb_threads db @ [t]\<rparr>
     \<and> (\<forall>x \<in> set (mb_threads db). th_id x \<noteq> th_id t
          \<and> (th_idempotency_key t \<noteq> None \<longrightarrow> th_idempotency_key x \<noteq> th_idempotency_key t))
     \<and> th_sender_id t \<noteq> th_recipient_id t \<and> (th_intent t = Propose_action) = (th_proposed_action t \<noteq> None)
     \<and> account_exists db (th_sender_id t) \<and> account_exists db (th_recipient_id t)"
  by (auto simp: insert_thread_def list_ex_iff)

lemma insert_message_Inr:
  "insert_message m db = Inr db' \<longleftrightarrow>
     db' = db\<lparr>mb_messages := mb_messages db @ [m]\<rparr>
     \<and> (\<forall>x \<in> set (mb_messages db). ms_id x \<noteq> ms_id m
          \<and> (ms_idempotency_key m \<noteq> None \<longrightarrow> ms_idempotency_key x \<noteq> ms_idempotency_key m))
     \<and> (\<forall>x \<in> set (mb_messages db). ms_thread_id x = ms_thread_id m \<longrightarrow> ms_sequence_no x \<noteq> ms_sequence_no m)
     \<and> thread_exists db (ms_thread_id m) \<and> account_exists db (ms_author_id m) \<and> ms_sequence_no m \<le> max_int32"
  by (auto simp: insert_message_def list_ex_iff)

text \<open>The event that a call of \<open>appendMailboxEvent\<close> adds.\<close>

definition new_event ::
  "uuid \<Rightarrow> int \<Rightarrow> uuid \<Rightarrow> uuid \<Rightarrow> uuid \<Rightarrow> mailbox_event_kind \<Rightarrow> uuid \<Rightarrow> mailbox_db \<Rightarrow> mailbox_event_row" where
  "new_event i tx_now recipient actor thread_id kind source db =
     \<lparr>mv_id = i, mv_cursor = mb_last_cursor db + 1, mv_recipient_id = recipient, mv_actor_id = actor,
      mv_thread_id = thread_id, mv_kind = kind, mv_source_id = source, mv_created_at = tx_now\<rparr>"

definition log_event :: "mailbox_event_row \<Rightarrow> mailbox_db \<Rightarrow> mailbox_db" where
  "log_event e db = db\<lparr>mb_last_cursor := mb_last_cursor db + 1, mb_events := mb_events db @ [e]\<rparr>"

lemma append_mailbox_event_Inr:
  "append_mailbox_event i tx_now recipient actor thread_id kind source db = Inr db' \<longleftrightarrow>
     db' = log_event (new_event i tx_now recipient actor thread_id kind source db) db
     \<and> (\<forall>x \<in> set (mb_events db). mv_id x \<noteq> i
          \<and> \<not> (mv_recipient_id x = recipient \<and> mv_kind x = kind \<and> mv_source_id x = source))
     \<and> recipient \<noteq> actor \<and> account_exists db recipient \<and> account_exists db actor \<and> thread_exists db thread_id
     \<and> mb_last_cursor db < 9223372036854775807"
  by (auto simp: append_mailbox_event_def log_event_def new_event_def list_ex_iff)

lemma log_event_sel [simp]:
  "mb_accounts (log_event e db) = mb_accounts db" "mb_threads (log_event e db) = mb_threads db"
  "mb_messages (log_event e db) = mb_messages db" "mb_events (log_event e db) = mb_events db @ [e]"
  "mb_last_cursor (log_event e db) = mb_last_cursor db + 1" "mb_blocks (log_event e db) = mb_blocks db"
  "mb_keys (log_event e db) = mb_keys db" "mb_invites (log_event e db) = mb_invites db"
  by (simp_all add: log_event_def)

lemma new_event_sel [simp]:
  "mv_id (new_event i tx r a th k s db) = i" "mv_cursor (new_event i tx r a th k s db) = mb_last_cursor db + 1"
  "mv_recipient_id (new_event i tx r a th k s db) = r" "mv_actor_id (new_event i tx r a th k s db) = a"
  "mv_thread_id (new_event i tx r a th k s db) = th" "mv_kind (new_event i tx r a th k s db) = k"
  "mv_source_id (new_event i tx r a th k s db) = s"
  by (simp_all add: new_event_def)

lemma audit_mail_sel [simp]:
  "mb_accounts (audit_mail a x r db) = mb_accounts db" "mb_threads (audit_mail a x r db) = mb_threads db"
  "mb_messages (audit_mail a x r db) = mb_messages db" "mb_events (audit_mail a x r db) = mb_events db"
  "mb_last_cursor (audit_mail a x r db) = mb_last_cursor db" "mb_blocks (audit_mail a x r db) = mb_blocks db"
  "mb_keys (audit_mail a x r db) = mb_keys db" "mb_invites (audit_mail a x r db) = mb_invites db"
  by (simp_all add: audit_mail_def)

lemma account_exists_iff: "account_exists db i \<longleftrightarrow> i \<in> ac_id ` set (mb_accounts db)"
  by (auto simp: account_exists_def list_ex_iff)

lemma thread_exists_iff: "thread_exists db i \<longleftrightarrow> i \<in> th_id ` set (mb_threads db)"
  by (auto simp: thread_exists_def list_ex_iff)

end
