(* ===== verification/Mailbox_Protocol.thy ===== *)
theory Mailbox_Protocol
  imports Mailbox_Machine
begin

text \<open>
  The protocol of the mailboxes, stated apart from the services: a thread is opened by its sender, a
  participant appends to it, its recipient or its sender moves it along.  Every accepted request is a step of
  this protocol, and the invariant of the tables is an invariant of the protocol.
\<close>

section \<open>The protocol\<close>

text \<open>Who may move a thread, from which status to which, and what the move is called.\<close>

fun move_allowed :: "thread_row \<Rightarrow> uuid \<Rightarrow> thread_status \<Rightarrow> mailbox_event_kind \<Rightarrow> bool" where
  "move_allowed t actor Thread_accepted kind \<longleftrightarrow> actor = th_recipient_id t \<and> th_status t = Thread_pending
     \<and> kind = Event_thread_accepted"
| "move_allowed t actor Thread_completed kind \<longleftrightarrow> actor = th_recipient_id t \<and> th_status t = Thread_accepted
     \<and> kind = Event_thread_completed"
| "move_allowed t actor Thread_cancelled kind \<longleftrightarrow> actor = th_sender_id t \<and> th_status t = Thread_pending
     \<and> kind = Event_thread_cancelled"
| "move_allowed t actor Thread_pending kind \<longleftrightarrow> False"

text \<open>The columns that no request changes.\<close>

definition same_identity :: "thread_row \<Rightarrow> thread_row \<Rightarrow> bool" where
  "same_identity t u \<longleftrightarrow> th_id u = th_id t \<and> th_sender_id u = th_sender_id t
     \<and> th_recipient_id u = th_recipient_id t \<and> th_summary u = th_summary t \<and> th_intent u = th_intent t
     \<and> th_artifacts u = th_artifacts t \<and> th_proposed_action u = th_proposed_action t
     \<and> th_metadata u = th_metadata t \<and> th_idempotency_key u = th_idempotency_key t
     \<and> th_created_at u = th_created_at t"

text \<open>The timestamps of a thread agree with its status.\<close>

definition thread_ok :: "thread_row \<Rightarrow> bool" where
  "thread_ok t \<longleftrightarrow> th_sender_id t \<noteq> th_recipient_id t
     \<and> (th_accepted_at t = None \<longleftrightarrow> th_status t = Thread_pending \<or> th_status t = Thread_cancelled)
     \<and> (th_completed_at t = None \<longleftrightarrow> th_status t \<noteq> Thread_completed)
     \<and> (th_cancelled_at t = None \<longleftrightarrow> th_status t \<noteq> Thread_cancelled)"

definition replace_thread :: "thread_row \<Rightarrow> thread_row list \<Rightarrow> thread_row list" where
  "replace_thread t ts = map (\<lambda>x. if th_id x = th_id t then t else x) ts"

text \<open>The event of a step: it goes to the other side of the thread.\<close>

definition event_for ::
  "mailbox_db \<Rightarrow> thread_row \<Rightarrow> uuid \<Rightarrow> mailbox_event_kind \<Rightarrow> mailbox_event_row \<Rightarrow> bool" where
  "event_for db t actor kind e \<longleftrightarrow> mv_cursor e = mb_last_cursor db + 1 \<and> mv_thread_id e = th_id t
     \<and> mv_actor_id e = actor \<and> mv_recipient_id e = other_side t actor \<and> mv_kind e = kind
     \<and> account_exists db actor \<and> (\<forall>x \<in> set (mb_events db). mv_id x \<noteq> mv_id e)"

definition logged :: "mailbox_db \<Rightarrow> mailbox_event_row \<Rightarrow> mailbox_db \<Rightarrow> bool" where
  "logged db e db' \<longleftrightarrow> mb_events db' = mb_events db @ [e] \<and> mb_last_cursor db' = mb_last_cursor db + 1
     \<and> mb_accounts db' = mb_accounts db \<and> mb_blocks db' = mb_blocks db"

definition fresh_message :: "mailbox_db \<Rightarrow> message_row \<Rightarrow> bool" where
  "fresh_message db m \<longleftrightarrow> (\<forall>x \<in> set (mb_messages db). ms_id x \<noteq> ms_id m
     \<and> (ms_idempotency_key m \<noteq> None \<longrightarrow> ms_idempotency_key x \<noteq> ms_idempotency_key m))"

inductive mail_effect :: "mailbox_db \<Rightarrow> mailbox_db \<Rightarrow> bool" where
  Quiet: "same_threads db db' \<Longrightarrow> ac_id ` set (mb_accounts db) \<subseteq> ac_id ` set (mb_accounts db')
    \<Longrightarrow> (distinct (map ac_id (mb_accounts db)) \<Longrightarrow> distinct (map ac_id (mb_accounts db')))
    \<Longrightarrow> mail_effect db db'"
| Opened: "thread_ok t \<Longrightarrow> th_status t = Thread_pending \<Longrightarrow> \<not> thread_exists db (th_id t)
    \<Longrightarrow> (\<And>x. x \<in> set (mb_threads db) \<Longrightarrow> th_idempotency_key t \<noteq> None \<Longrightarrow> th_idempotency_key x \<noteq> th_idempotency_key t)
    \<Longrightarrow> \<not> is_sender_blocked db (th_sender_id t) (th_recipient_id t)
    \<Longrightarrow> ms_thread_id m = th_id t \<Longrightarrow> ms_author_id m = th_sender_id t \<Longrightarrow> ms_sequence_no m = next_sequence_no db (th_id t)
    \<Longrightarrow> fresh_message db m \<Longrightarrow> event_for db t (th_sender_id t) Event_thread_created e \<Longrightarrow> logged db e db'
    \<Longrightarrow> mb_threads db' = mb_threads db @ [t] \<Longrightarrow> mb_messages db' = mb_messages db @ [m] \<Longrightarrow> mail_effect db db'"
| Appended: "t \<in> set (mb_threads db) \<Longrightarrow> th_status t = Thread_pending \<or> th_status t = Thread_accepted
    \<Longrightarrow> is_participant t (ms_author_id m) \<Longrightarrow> ms_thread_id m = th_id t
    \<Longrightarrow> \<not> is_sender_blocked db (ms_author_id m) (other_side t (ms_author_id m))
    \<Longrightarrow> ms_sequence_no m = next_sequence_no db (th_id t)
    \<Longrightarrow> fresh_message db m \<Longrightarrow> event_for db t (ms_author_id m) Event_message_appended e \<Longrightarrow> logged db e db'
    \<Longrightarrow> mb_threads db' = mb_threads db \<Longrightarrow> mb_messages db' = mb_messages db @ [m] \<Longrightarrow> mail_effect db db'"
| Moved: "t \<in> set (mb_threads db) \<Longrightarrow> move_allowed t actor (th_status u) kind \<Longrightarrow> same_identity t u
    \<Longrightarrow> (thread_ok t \<Longrightarrow> thread_ok u)
    \<Longrightarrow> (kind = Event_thread_completed \<Longrightarrow> \<not> is_sender_blocked db actor (other_side t actor))
    \<Longrightarrow> event_for db t actor kind e \<Longrightarrow> logged db e db'
    \<Longrightarrow> mb_threads db' = replace_thread u (mb_threads db) \<Longrightarrow> mb_messages db' = mb_messages db \<Longrightarrow> mail_effect db db'"

inductive_cases mail_effectE: "mail_effect db db'"

section \<open>The services are steps of the protocol\<close>

lemma mail_effect_refl: "mail_effect db db"
  by (rule Quiet) (auto simp: same_threads_def)

lemma find_thread_Some: "find_thread db i = Some t \<Longrightarrow> t \<in> set (mb_threads db) \<and> th_id t = i"
  by (auto simp: find_thread_def find_Some_iff)

lemma other_side_sender [simp]: "other_side t (th_sender_id t) = th_recipient_id t"
  by (simp add: other_side_def)

lemma other_side_recipient [simp]:
  "th_sender_id t \<noteq> th_recipient_id t \<Longrightarrow> other_side t (th_recipient_id t) = th_sender_id t"
  by (simp add: other_side_def)

lemma is_sender_blocked_more [simp]:
  "is_sender_blocked (db\<lparr>mb_threads := ts\<rparr>) a b = is_sender_blocked db a b"
  "is_sender_blocked (db\<lparr>mb_messages := ms\<rparr>) a b = is_sender_blocked db a b"
  by (simp_all add: is_sender_blocked_def)

lemma account_exists_more [simp]:
  "account_exists (db\<lparr>mb_threads := ts\<rparr>) i = account_exists db i"
  "account_exists (db\<lparr>mb_messages := ms\<rparr>) i = account_exists db i"
  "account_exists (audit_mail a x r db) i = account_exists db i"
  by (simp_all add: account_exists_def)

lemma next_sequence_no_fresh:
  "(\<And>m. m \<in> set (mb_messages db) \<Longrightarrow> ms_thread_id m \<noteq> i) \<Longrightarrow> next_sequence_no db i = 1"
proof -
  assume "\<And>m. m \<in> set (mb_messages db) \<Longrightarrow> ms_thread_id m \<noteq> i"
  then have "filter (\<lambda>m. ms_thread_id m = i) (mb_messages db) = []"
    by (simp add: filter_empty_conv)
  then show ?thesis by (simp add: next_sequence_no_def)
qed

lemma store_thread_effect:
  assumes "store_thread fresh tx_now recipient c db = Inr (r, db')"
    and "\<not> is_sender_blocked db (hc_sender_id c) recipient"
    and orphans: "\<And>m. m \<in> set (mb_messages db) \<Longrightarrow> thread_exists db (ms_thread_id m)"
  shows "mail_effect db db'"
proof -
  let ?t = "new_thread_row (fresh 0) tx_now recipient c"
  let ?m = "\<lparr>ms_id = fresh 1, ms_thread_id = th_id ?t, ms_author_id = hc_sender_id c,
      ms_body = hc_summary c, ms_payload = hc_initial_payload c, ms_artifacts = hc_artifacts c,
      ms_sequence_no = 1, ms_idempotency_key = None, ms_created_at = tx_now\<rparr>"
  let ?d = "audit_mail (hc_sender_id c) ''handoff.create'' (th_id ?t)
      (db\<lparr>mb_threads := mb_threads db @ [?t]\<rparr>\<lparr>mb_messages := mb_messages db @ [?m]\<rparr>)"
  let ?e = "new_event (fresh 2) tx_now recipient (hc_sender_id c) (th_id ?t) Event_thread_created (th_id ?t) ?d"
  from assms(1) have t: "insert_thread ?t db = Inr (db\<lparr>mb_threads := mb_threads db @ [?t]\<rparr>)"
    and m: "insert_message ?m (db\<lparr>mb_threads := mb_threads db @ [?t]\<rparr>)
      = Inr (db\<lparr>mb_threads := mb_threads db @ [?t]\<rparr>\<lparr>mb_messages := mb_messages db @ [?m]\<rparr>)"
    and e: "append_mailbox_event (fresh 2) tx_now recipient (hc_sender_id c) (th_id ?t) Event_thread_created
      (th_id ?t) ?d = Inr db'"
    by (auto simp: store_thread_def Let_def insert_thread_Inr insert_message_Inr)
  have new: "\<not> thread_exists db (th_id ?t)"
    using t by (auto simp: insert_thread_Inr thread_exists_iff)
  then have seq: "next_sequence_no db (th_id ?t) = 1"
    using orphans by (intro next_sequence_no_fresh) metis
  show ?thesis
  proof (rule mail_effect.Opened [where t = ?t and m = ?m and e = ?e])
    show "event_for db ?t (th_sender_id ?t) Event_thread_created ?e"
      using e t by (auto simp: event_for_def append_mailbox_event_Inr insert_thread_Inr new_thread_row_def other_side_def)
    show "logged db ?e db'"
      using e by (simp add: logged_def append_mailbox_event_Inr)
    show "mb_threads db' = mb_threads db @ [?t]" "mb_messages db' = mb_messages db @ [?m]"
      using e by (simp_all add: append_mailbox_event_Inr)
    show "fresh_message db ?m"
      using m by (auto simp: fresh_message_def insert_message_Inr)
  qed (use t new seq assms(2) in \<open>auto simp: insert_thread_Inr new_thread_row_def thread_ok_def\<close>)
qed

lemma create_handoff_effect:
  assumes "create_handoff fresh tx_now c db = Inr (r, db')"
    and "\<And>m. m \<in> set (mb_messages db) \<Longrightarrow> thread_exists db (ms_thread_id m)"
  shows "mail_effect db db'"
  using assms
  by (auto simp: create_handoff_def Let_def mail_effect_refl
      split: sum.splits option.splits if_splits intro: store_thread_effect)

lemma store_message_effect:
  assumes "store_message fresh tx_now recipient i db = Inr (r, db')"
    and t: "t \<in> set (mb_threads db)" "th_id t = am_thread_id i" "is_participant t (am_sender_id i)"
      "th_status t = Thread_pending \<or> th_status t = Thread_accepted"
    and recipient: "recipient = other_side t (am_sender_id i)"
    and "\<not> is_sender_blocked db (am_sender_id i) recipient"
  shows "mail_effect db db'"
proof -
  let ?m = "\<lparr>ms_id = fresh 0, ms_thread_id = am_thread_id i, ms_author_id = am_sender_id i,
      ms_body = am_body i, ms_payload = am_payload i, ms_artifacts = am_artifacts i,
      ms_sequence_no = next_sequence_no db (am_thread_id i), ms_idempotency_key = am_idempotency_key i,
      ms_created_at = tx_now\<rparr>"
  let ?d = "audit_mail (am_sender_id i) ''message.append'' (fresh 0) (db\<lparr>mb_messages := mb_messages db @ [?m]\<rparr>)"
  let ?e = "new_event (fresh 1) tx_now recipient (am_sender_id i) (am_thread_id i) Event_message_appended (fresh 0) ?d"
  from assms(1) have m: "insert_message ?m db = Inr (db\<lparr>mb_messages := mb_messages db @ [?m]\<rparr>)"
    and e: "append_mailbox_event (fresh 1) tx_now recipient (am_sender_id i) (am_thread_id i)
      Event_message_appended (fresh 0) ?d = Inr db'"
    by (auto simp: store_message_def Let_def insert_message_Inr)
  show ?thesis
  proof (rule Appended [where t = t and m = ?m and e = ?e])
    show "event_for db t (ms_author_id ?m) Event_message_appended ?e"
      using e t recipient by (auto simp: event_for_def append_mailbox_event_Inr)
    show "logged db ?e db'"
      using e by (simp add: logged_def append_mailbox_event_Inr)
    show "mb_threads db' = mb_threads db" "mb_messages db' = mb_messages db @ [?m]"
      using e by (simp_all add: append_mailbox_event_Inr)
    show "fresh_message db ?m"
      using m by (auto simp: fresh_message_def insert_message_Inr)
  qed (use t recipient assms(7) in auto)
qed

lemma append_message_effect:
  assumes "append_message fresh tx_now i db = Inr (r, db')"
  shows "mail_effect db db'"
proof -
  from assms obtain t where t: "find_thread db (am_thread_id i) = Some t" "is_participant t (am_sender_id i)"
    by (auto simp: append_message_def split: option.splits if_splits)
  then have mem: "t \<in> set (mb_threads db)" "th_id t = am_thread_id i"
    by (auto dest: find_thread_Some)
  from assms t consider "db' = db"
    | "th_status t \<noteq> Thread_completed" "th_status t \<noteq> Thread_cancelled"
      "\<not> is_sender_blocked db (am_sender_id i) (other_side t (am_sender_id i))"
      "store_message fresh tx_now (other_side t (am_sender_id i)) i db = Inr (r, db')"
    by (auto simp: append_message_def split: option.splits if_splits)
  then show ?thesis
  proof cases
    case 1
    then show ?thesis by (simp add: mail_effect_refl)
  next
    case 2
    then show ?thesis
      using store_message_effect [OF 2(4) mem t(2) _ refl] by (cases "th_status t") auto
  qed
qed

lemma store_transition_effect:
  assumes "store_transition event_id tx_now caller action kind recipient u db = Inr (r, db')"
    and "t \<in> set (mb_threads db)" and "move_allowed t caller (th_status u) kind" and "same_identity t u"
    and "thread_ok t \<Longrightarrow> thread_ok u" and "recipient = other_side t caller"
    and "kind = Event_thread_completed \<Longrightarrow> \<not> is_sender_blocked db caller (other_side t caller)"
  shows "mail_effect db db'"
proof -
  let ?d = "audit_mail caller action (th_id u) (db\<lparr>mb_threads := replace_thread u (mb_threads db)\<rparr>)"
  let ?e = "new_event event_id tx_now recipient caller (th_id u) kind (th_id u) ?d"
  from assms(1) have e: "append_mailbox_event event_id tx_now recipient caller (th_id u) kind (th_id u) ?d = Inr db'"
    by (auto simp: store_transition_def replace_thread_def split: sum.splits)
  show ?thesis
  proof (rule Moved [where t = t and u = u and actor = caller and kind = kind and e = ?e])
    show "event_for db t caller kind ?e"
      using e assms(4,6) by (auto simp: event_for_def append_mailbox_event_Inr same_identity_def)
    show "logged db ?e db'"
      using e by (simp add: logged_def append_mailbox_event_Inr)
    show "mb_threads db' = replace_thread u (mb_threads db)" "mb_messages db' = mb_messages db"
      using e by (simp_all add: append_mailbox_event_Inr)
  qed (use assms in auto)
qed

lemma accept_thread_effect:
  "accept_thread event_id now updated tx_now i t db = Inr (r, db') \<Longrightarrow> t \<in> set (mb_threads db)
   \<Longrightarrow> thread_ok t \<Longrightarrow> mail_effect db db'"
  by (auto simp: accept_thread_def mail_effect_refl same_identity_def thread_ok_def accepted_thread_def
      other_side_def split: if_splits intro: store_transition_effect)

lemma complete_thread_effect:
  "complete_thread event_id now updated tx_now i t db = Inr (r, db') \<Longrightarrow> t \<in> set (mb_threads db)
   \<Longrightarrow> thread_ok t \<Longrightarrow> mail_effect db db'"
  by (auto simp: complete_thread_def same_identity_def thread_ok_def completed_thread_def
      other_side_def split: if_splits intro!: store_transition_effect)

lemma cancel_thread_effect:
  "cancel_thread event_id now updated tx_now i t db = Inr (r, db') \<Longrightarrow> t \<in> set (mb_threads db)
   \<Longrightarrow> thread_ok t \<Longrightarrow> mail_effect db db'"
  by (auto simp: cancel_thread_def same_identity_def thread_ok_def cancelled_thread_def
      other_side_def split: if_splits intro!: store_transition_effect)

lemma transition_effect:
  assumes "transition_handoff event_id now updated tx_now i db = Inr (r, db')"
    and "\<And>t. t \<in> set (mb_threads db) \<Longrightarrow> thread_ok t"
  shows "mail_effect db db'"
  using assms
  by (auto simp: transition_handoff_def dest!: find_thread_Some split: option.splits if_splits transition.splits
      intro: accept_thread_effect complete_thread_effect cancel_thread_effect)

text \<open>The requests that do not touch a thread keep the ids of the accounts.\<close>

lemma quietI:
  "same_threads db db' \<Longrightarrow> map ac_id (mb_accounts db') = map ac_id (mb_accounts db) \<Longrightarrow> mail_effect db db'"
  by (rule Quiet) (simp_all flip: set_map)

lemma map_same_ids [simp]:
  "(\<And>a. ac_id (f a) = ac_id a) \<Longrightarrow> map (\<lambda>a. ac_id (if P a then f a else a)) xs = map ac_id xs"
  by (induction xs) auto

lemma block_agent_effect: "block_agent tx me h target reason db = Inr db' \<Longrightarrow> mail_effect db db'"
  by (rule quietI)
    (auto simp: block_agent_def same_threads_def split: if_splits option.splits)

lemma unblock_agent_effect: "unblock_agent me target db = Inr db' \<Longrightarrow> mail_effect db db'"
  by (rule quietI) (auto simp: unblock_agent_def same_threads_def split: if_splits option.splits)

lemma put_card_sel [simp]:
  "mb_accounts (put_card c db) = mb_accounts db" "mb_threads (put_card c db) = mb_threads db"
  "mb_messages (put_card c db) = mb_messages db" "mb_events (put_card c db) = mb_events db"
  "mb_last_cursor (put_card c db) = mb_last_cursor db" "mb_blocks (put_card c db) = mb_blocks db"
  "mb_keys (put_card c db) = mb_keys db" "mb_invites (put_card c db) = mb_invites db"
  by (simp_all add: put_card_def)

lemma update_card_effect: "update_card slack_url encrypt me u db = Inr db' \<Longrightarrow> mail_effect db db'"
  by (rule quietI)
    (auto simp: update_card_def Let_def same_threads_def comp_def split: if_splits option.splits)

definition new_key :: "uuid \<Rightarrow> uuid \<Rightarrow> string \<Rightarrow> key_row" where
  "new_key i agent h = \<lparr>ky_id = i, ky_agent_id = agent, ky_hash = h, ky_revoked_at = None\<rparr>"

lemma register_agent_Inr:
  "register_agent fold_case key_hash fresh raw i db = Inr (a, db') \<longleftrightarrow>
     a = \<lparr>ac_id = fresh 0, ac_handle = ri_handle i, ac_email = default_to (ri_handle i) (ri_email i),
         ac_name = default_to (ri_handle i) (ri_display_name i), ac_role = ri_role i, ac_active = True\<rparr>
     \<and> db' = db\<lparr>mb_accounts := mb_accounts db @ [a],
         mb_keys := mb_keys db @ [new_key (fresh 1) (fresh 0) (key_hash raw)]\<rparr>
     \<and> find_handle db (ri_handle i) = None
     \<and> list_all (\<lambda>x. ac_id x \<noteq> fresh 0 \<and> ac_handle x \<noteq> ri_handle i
          \<and> fold_case (ac_email x) \<noteq> fold_case (ac_email a)) (mb_accounts db)
     \<and> list_all (\<lambda>x. ky_id x \<noteq> fresh 1 \<and> (ky_hash x = key_hash raw \<longrightarrow> ky_revoked_at x \<noteq> None)) (mb_keys db)"
  by (auto simp: register_agent_def Let_def insert_account_def insert_key_def new_key_def list_ex_iff list_all_iff
      split: if_splits sum.splits)

lemma register_agent_effect:
  "register_agent fold_case key_hash fresh raw i db = Inr (a, db') \<Longrightarrow> mail_effect db db'"
  by (rule Quiet) (auto simp: register_agent_Inr same_threads_def list_all_iff)

lemma issue_key_Inr:
  "issue_key key_hash fresh_id now raw agent db = Inr (r, db') \<Longrightarrow>
     \<exists>ks. db' = db\<lparr>mb_keys := ks\<rparr>"
  by (auto simp: issue_key_def insert_key_def revoke_all_keys_def split: if_splits)

lemma issue_key_effect: "issue_key key_hash fresh_id now raw agent db = Inr (r, db') \<Longrightarrow> mail_effect db db'"
  by (drule issue_key_Inr) (auto intro!: quietI simp: same_threads_def)

lemma rotate_own_key_effect:
  "rotate_own_key key_hash fresh_id now raw agent db = Inr (r, db') \<Longrightarrow> mail_effect db db'"
  by (auto simp: rotate_own_key_def split: if_splits intro: issue_key_effect)

lemma admin_rotate_key_effect:
  "admin_rotate_key L key_hash fresh_id now raw agent db = Inr (r, db') \<Longrightarrow> mail_effect db db'"
  by (auto simp: admin_rotate_key_def split: if_splits option.splits intro: issue_key_effect)

lemma disable_account_effect: "disable_account clock agent db = Inr db' \<Longrightarrow> mail_effect db db'"
  by (rule quietI) (auto simp: disable_account_def same_threads_def comp_def split: option.splits)

lemma mint_invite_effect: "mint_invite L T url jti now i db = Inr (token, db') \<Longrightarrow> mail_effect db db'"
  by (rule quietI) (auto simp: mint_invite_def Let_def same_threads_def split: if_splits option.splits sum.splits)

text \<open>A redemption that goes through.\<close>

lemma redeem_invite_cases:
  assumes "redeem_invite L T fold_case key_hash fresh clock now raw jti token db = Inr (r, db')"
  obtains (refused) f where "r = Inl f" and "db' = db"
  | (joined) iv a db1 where "r = Inr a" and "find (\<lambda>x. iv_jti x = jti) (mb_invites db) = Some iv"
    and "validate_redeem_token L T clock token jti = None"
    and "validate_invite_row iv (sha256_hex L (text_of token)) now = None"
    and "register_agent fold_case key_hash fresh raw
      \<lparr>ri_handle = iv_handle iv, ri_email = None, ri_display_name = None, ri_role = iv_role iv\<rparr> db = Inr (a, db1)"
    and "db' = audit_mail (ac_id a) ''invite.redeemed'' jti
      (db1\<lparr>mb_invites := map (\<lambda>x. if iv_jti x = jti
         then x\<lparr>iv_used_at := Some now, iv_used_by := Some (ac_id a)\<rparr> else x) (mb_invites db1)\<rparr>)"
  using assms by (auto simp: redeem_invite_def split: if_splits option.splits)

lemma redeem_invite_effect:
  "redeem_invite L T fold_case key_hash fresh clock now raw jti token db = Inr (r, db') \<Longrightarrow> mail_effect db db'"
proof (erule redeem_invite_cases, goal_cases)
  case 1
  then show ?case by (simp add: mail_effect_refl)
next
  case (2 iv a db1)
  then show ?case
    by (intro Quiet) (auto simp: register_agent_Inr same_threads_def list_all_iff)
qed

lemma send_effect:
  assumes "handle_message_send L fresh tx_now cx p db = Inr (r, ns, db')"
    and "\<And>m. m \<in> set (mb_messages db) \<Longrightarrow> thread_exists db (ms_thread_id m)"
  shows "mail_effect db db'"
  using assms
  by (auto simp: handle_message_send_def send_append_def send_create_def Let_def
      split: if_splits option.splits sum.splits intro: append_message_effect create_handoff_effect)

lemma update_effect:
  "handle_tasks_update L event_id now updated tx_now cx p db = Inr (r, ns, db')
   \<Longrightarrow> (\<And>t. t \<in> set (mb_threads db) \<Longrightarrow> thread_ok t) \<Longrightarrow> mail_effect db db'"
  by (auto simp: handle_tasks_update_def split: if_splits sum.splits intro: transition_effect)

lemma cancel_effect:
  "handle_tasks_cancel L event_id now updated tx_now cx i db = Inr (r, ns, db')
   \<Longrightarrow> (\<And>t. t \<in> set (mb_threads db) \<Longrightarrow> thread_ok t) \<Longrightarrow> mail_effect db db'"
  by (auto simp: handle_tasks_cancel_def split: if_splits sum.splits intro: transition_effect)

theorem step_is_effect:
  assumes "mailbox_step env db q = Inr db'"
    and "\<And>m. m \<in> set (mb_messages db) \<Longrightarrow> thread_exists db (ms_thread_id m)"
    and "\<And>t. t \<in> set (mb_threads db) \<Longrightarrow> thread_ok t"
  shows "mail_effect db db'"
  using assms
  by (cases q)
    (auto simp: mailbox_step_def state_of_Inr state_of_handler_Inr
      intro: send_effect update_effect cancel_effect block_agent_effect unblock_agent_effect update_card_effect
        register_agent_effect rotate_own_key_effect admin_rotate_key_effect disable_account_effect
        mint_invite_effect redeem_invite_effect)

end
