(* ===== verification/Mailbox_Laws.thy ===== *)
theory Mailbox_Laws
  imports Mailbox_Protocol
begin

text \<open>
  The invariant of the mailbox tables and the order in which they grow, both proved for the protocol and so
  for every run of requests.
\<close>

section \<open>The invariant\<close>

definition thread_messages :: "mailbox_db \<Rightarrow> uuid \<Rightarrow> message_row list" where
  "thread_messages db i = filter (\<lambda>m. ms_thread_id m = i) (mb_messages db)"

definition keys_unique :: "'k option list \<Rightarrow> bool" where
  "keys_unique ks \<longleftrightarrow> distinct (filter (\<lambda>k. k \<noteq> None) ks)"

definition messages_numbered :: "mailbox_db \<Rightarrow> bool" where
  "messages_numbered db \<longleftrightarrow> (\<forall>i. map ms_sequence_no (thread_messages db i)
     = map int [1..<Suc (length (thread_messages db i))])"

definition authored_in_thread :: "thread_row list \<Rightarrow> message_row \<Rightarrow> bool" where
  "authored_in_thread ts m \<longleftrightarrow> list_ex (\<lambda>t. th_id t = ms_thread_id m \<and> is_participant t (ms_author_id m)) ts"

definition events_ordered :: "mailbox_db \<Rightarrow> bool" where
  "events_ordered db \<longleftrightarrow> sorted_wrt (<) (map mv_cursor (mb_events db)) \<and> 0 \<le> mb_last_cursor db
     \<and> (\<forall>e \<in> set (mb_events db). 0 < mv_cursor e \<and> mv_cursor e \<le> mb_last_cursor db
          \<and> account_exists db (mv_actor_id e))"

definition mailbox_inv :: "mailbox_db \<Rightarrow> bool" where
  "mailbox_inv db \<longleftrightarrow> distinct (map ac_id (mb_accounts db)) \<and> distinct (map th_id (mb_threads db))
     \<and> distinct (map ms_id (mb_messages db))
     \<and> keys_unique (map th_idempotency_key (mb_threads db)) \<and> keys_unique (map ms_idempotency_key (mb_messages db))
     \<and> list_all thread_ok (mb_threads db) \<and> list_all (authored_in_thread (mb_threads db)) (mb_messages db)
     \<and> list_all (\<lambda>t. thread_messages db (th_id t) \<noteq> []) (mb_threads db)
     \<and> messages_numbered db \<and> events_ordered db"

lemma mailbox_inv_empty: "mailbox_inv empty_mailboxes"
  by (simp add: mailbox_inv_def empty_mailboxes_def keys_unique_def messages_numbered_def thread_messages_def
      events_ordered_def)

lemma keys_unique_snoc:
  assumes "keys_unique (map f xs)" and "\<And>x. x \<in> set xs \<Longrightarrow> f y \<noteq> None \<Longrightarrow> f x \<noteq> f y"
  shows "keys_unique (map f (xs @ [y]))"
proof -
  have "f y \<noteq> None \<Longrightarrow> f y \<notin> f ` set xs"
    using assms(2) by force
  with assms(1) show ?thesis by (auto simp: keys_unique_def)
qed

lemma thread_messages_snoc:
  "mb_messages db' = mb_messages db @ [m] \<Longrightarrow>
   thread_messages db' i = thread_messages db i @ (if ms_thread_id m = i then [m] else [])"
  by (simp add: thread_messages_def)

text \<open>The next number is one more than the messages there are.\<close>

lemma foldr_max_numbers: "foldr max (map int [1..<Suc n]) 0 = int n"
proof -
  have "foldr max (map int [a..<Suc n]) 0 = (if a \<le> n then int n else 0)" for a
  proof (induction "Suc n - a" arbitrary: a)
    case 0
    then show ?case by simp
  next
    case (Suc k)
    then have "a < Suc n" "k = Suc n - Suc a" by simp_all
    then show ?case
      using Suc.hyps(1) [of "Suc a"] by (simp add: upt_rec [of a] del: upt_Suc)
  qed
  from this [of 1] show ?thesis by simp
qed

lemma next_sequence_no_numbered:
  "messages_numbered db \<Longrightarrow> next_sequence_no db i = int (Suc (length (thread_messages db i)))"
  using foldr_max_numbers [of "length (thread_messages db i)"]
  by (simp add: next_sequence_no_def messages_numbered_def thread_messages_def del: upt_Suc)

lemma messages_numbered_snoc:
  assumes "messages_numbered db" and "mb_messages db' = mb_messages db @ [m]"
    and "ms_sequence_no m = next_sequence_no db (ms_thread_id m)"
  shows "messages_numbered db'"
  unfolding messages_numbered_def
proof
  fix i
  show "map ms_sequence_no (thread_messages db' i) = map int [1..<Suc (length (thread_messages db' i))]"
    using assms next_sequence_no_numbered [OF assms(1), of i]
    by (simp add: thread_messages_snoc [OF assms(2)] messages_numbered_def)
qed

lemma messages_numbered_same:
  "mb_messages db' = mb_messages db \<Longrightarrow> messages_numbered db' = messages_numbered db"
  by (simp add: messages_numbered_def thread_messages_def)

lemma authored_in_thread_snoc:
  "authored_in_thread ts m \<Longrightarrow> authored_in_thread (ts @ [t]) m"
  by (auto simp: authored_in_thread_def)

lemma authored_in_thread_replace:
  assumes "authored_in_thread ts m" and "same_identity t u" and "t \<in> set ts" and "distinct (map th_id ts)"
  shows "authored_in_thread (replace_thread u ts) m"
proof -
  from assms(1) obtain x where x: "x \<in> set ts" "th_id x = ms_thread_id m" "is_participant x (ms_author_id m)"
    by (auto simp: authored_in_thread_def list_ex_iff)
  let ?y = "if th_id x = th_id u then u else x"
  have "?y \<in> set (replace_thread u ts)"
    using x(1) by (auto simp: replace_thread_def)
  moreover have "x = t" if "th_id x = th_id u"
    using that assms(2-4) x(1) by (auto simp: same_identity_def distinct_map inj_on_def)
  then have "th_id ?y = ms_thread_id m" "is_participant ?y (ms_author_id m)"
    using x assms(2) by (auto simp: same_identity_def is_participant_def)
  ultimately show ?thesis by (auto simp: authored_in_thread_def list_ex_iff)
qed

lemma map_replace_thread:
  assumes "\<And>x. x \<in> set ts \<Longrightarrow> th_id x = th_id u \<Longrightarrow> f x = f u"
  shows "map f (replace_thread u ts) = map f ts"
  using assms by (auto simp: replace_thread_def)

lemma events_ordered_log:
  "events_ordered db \<Longrightarrow> logged db e db' \<Longrightarrow> event_for db t actor kind e \<Longrightarrow> events_ordered db'"
  by (auto simp: events_ordered_def logged_def event_for_def sorted_wrt_append account_exists_def)

lemma events_ordered_quiet:
  "events_ordered db \<Longrightarrow> same_threads db db' \<Longrightarrow> ac_id ` set (mb_accounts db) \<subseteq> ac_id ` set (mb_accounts db')
   \<Longrightarrow> events_ordered db'"
  by (auto simp: events_ordered_def same_threads_def account_exists_iff)

section \<open>Every step keeps it\<close>

lemma inv_quiet:
  "mailbox_inv db \<Longrightarrow> same_threads db db' \<Longrightarrow> ac_id ` set (mb_accounts db) \<subseteq> ac_id ` set (mb_accounts db')
   \<Longrightarrow> distinct (map ac_id (mb_accounts db')) \<Longrightarrow> mailbox_inv db'"
  using events_ordered_quiet
  by (auto simp: mailbox_inv_def same_threads_def messages_numbered_def thread_messages_def)

lemma inv_message:
  assumes "mailbox_inv db" and "fresh_message db m" and "mb_messages db' = mb_messages db @ [m]"
    and "ms_sequence_no m = next_sequence_no db (ms_thread_id m)"
  shows "distinct (map ms_id (mb_messages db'))" and "keys_unique (map ms_idempotency_key (mb_messages db'))"
    and "messages_numbered db'"
proof -
  show "distinct (map ms_id (mb_messages db'))" "messages_numbered db'"
    using assms messages_numbered_snoc [OF _ assms(3,4)] by (auto simp: mailbox_inv_def fresh_message_def)
  show "keys_unique (map ms_idempotency_key (mb_messages db'))"
    unfolding assms(3)
    by (rule keys_unique_snoc) (use assms(1,2) in \<open>auto simp: mailbox_inv_def fresh_message_def\<close>)
qed

theorem effect_keeps_inv:
  assumes "mail_effect db db'" and inv: "mailbox_inv db"
  shows "mailbox_inv db'"
  using assms(1)
proof cases
  case Quiet
  with inv show ?thesis
    by (intro inv_quiet [OF inv]) (auto simp: mailbox_inv_def)
next
  case (Opened t m e)
  have t: "distinct (map th_id (mb_threads db'))"
    using inv Opened(3,12) by (auto simp: mailbox_inv_def thread_exists_iff)
  have "keys_unique (map th_idempotency_key (mb_threads db'))"
    unfolding Opened(12) by (rule keys_unique_snoc) (use inv Opened(4) in \<open>auto simp: mailbox_inv_def\<close>)
  note t = t this
  have m: "authored_in_thread (mb_threads db') m"
    using Opened by (auto simp: authored_in_thread_def is_participant_def)
  have "ms_sequence_no m = next_sequence_no db (ms_thread_id m)"
    using Opened by simp
  note msg = inv_message [OF inv \<open>fresh_message db m\<close> \<open>mb_messages db' = mb_messages db @ [m]\<close> this]
  have "events_ordered db'"
    using inv Opened by (auto simp: mailbox_inv_def intro: events_ordered_log)
  with inv t m msg Opened show ?thesis
    by (auto simp: mailbox_inv_def logged_def list_all_iff thread_messages_snoc intro: authored_in_thread_snoc)
next
  case (Appended t m e)
  have seq: "ms_sequence_no m = next_sequence_no db (ms_thread_id m)"
    using Appended by simp
  note msg = inv_message [OF inv \<open>fresh_message db m\<close> \<open>mb_messages db' = mb_messages db @ [m]\<close> this]
  have "events_ordered db'"
    using inv Appended by (auto simp: mailbox_inv_def intro: events_ordered_log)
  moreover have "authored_in_thread (mb_threads db) m"
    using Appended by (auto simp: authored_in_thread_def list_ex_iff)
  ultimately show ?thesis
    using inv msg Appended by (auto simp: mailbox_inv_def logged_def list_all_iff thread_messages_snoc)
next
  case (Moved t actor u kind e)
  have dist: "distinct (map th_id (mb_threads db))" using inv by (simp add: mailbox_inv_def)
  have only: "x = t" if "x \<in> set (mb_threads db)" "th_id x = th_id u" for x
    using that dist Moved(1,3) by (auto simp: same_identity_def distinct_map inj_on_def)
  have maps: "map th_id (mb_threads db') = map th_id (mb_threads db)"
    "map th_idempotency_key (mb_threads db') = map th_idempotency_key (mb_threads db)"
    unfolding Moved(8) by (rule map_replace_thread; use Moved(3) only in \<open>force simp: same_identity_def\<close>)+
  have "list_all thread_ok (mb_threads db)" using inv by (simp add: mailbox_inv_def)
  moreover from this have "thread_ok u" using Moved(1,4) by (simp add: list_all_iff)
  ultimately have "list_all thread_ok (mb_threads db')"
    unfolding Moved(8) by (auto simp: list_all_iff replace_thread_def)
  moreover have "list_all (authored_in_thread (mb_threads db)) (mb_messages db)"
    using inv by (simp add: mailbox_inv_def)
  then have "list_all (authored_in_thread (mb_threads db')) (mb_messages db')"
    unfolding Moved(8,9) using authored_in_thread_replace [OF _ Moved(3,1) dist] by (simp add: list_all_iff)
  moreover have "list_all (\<lambda>t. thread_messages db' (th_id t) \<noteq> []) (mb_threads db')"
  proof -
    have "list_all (\<lambda>i. thread_messages db i \<noteq> []) (map th_id (mb_threads db))"
      using inv by (simp add: mailbox_inv_def list_all_iff)
    then have "list_all (\<lambda>i. thread_messages db' i \<noteq> []) (map th_id (mb_threads db'))"
      using maps Moved by (simp add: thread_messages_def)
    then show ?thesis by (simp add: list_all_iff)
  qed
  moreover have "events_ordered db'"
    using inv Moved(6,7) by (auto simp: mailbox_inv_def intro: events_ordered_log)
  moreover have "mb_accounts db' = mb_accounts db" using Moved(7) by (simp add: logged_def)
  ultimately show ?thesis
    using inv maps Moved(9) by (simp add: mailbox_inv_def messages_numbered_same [OF Moved(9)])
qed

lemma inv_premises:
  assumes "mailbox_inv db"
  shows "m \<in> set (mb_messages db) \<Longrightarrow> thread_exists db (ms_thread_id m)"
    and "t \<in> set (mb_threads db) \<Longrightarrow> thread_ok t"
  using assms by (auto simp: mailbox_inv_def list_all_iff authored_in_thread_def list_ex_iff thread_exists_def)

lemma step_effect: "mailbox_inv db \<Longrightarrow> mailbox_step env db q = Inr db' \<Longrightarrow> mail_effect db db'"
  using step_is_effect inv_premises by blast

section \<open>How the tables grow\<close>

fun status_before :: "thread_status \<Rightarrow> thread_status \<Rightarrow> bool" where
  "status_before Thread_pending s \<longleftrightarrow> s \<noteq> Thread_pending"
| "status_before Thread_accepted s \<longleftrightarrow> s = Thread_completed"
| "status_before _ s \<longleftrightarrow> False"

definition thread_le :: "thread_row \<Rightarrow> thread_row \<Rightarrow> bool" where
  "thread_le t u \<longleftrightarrow> u = t \<or> same_identity t u \<and> status_before (th_status t) (th_status u)"

definition mailbox_le :: "mailbox_db \<Rightarrow> mailbox_db \<Rightarrow> bool" where
  "mailbox_le db db' \<longleftrightarrow> prefix (mb_messages db) (mb_messages db') \<and> prefix (mb_events db) (mb_events db')
     \<and> (\<exists>us vs. mb_threads db' = us @ vs \<and> list_all2 thread_le (mb_threads db) us)"

lemma thread_le_refl [simp]: "thread_le t t"
  by (simp add: thread_le_def)

lemma status_before_trans: "status_before a b \<Longrightarrow> status_before b c \<Longrightarrow> status_before a c"
  by (cases a; cases b; cases c) auto

lemma thread_le_trans: "thread_le t u \<Longrightarrow> thread_le u v \<Longrightarrow> thread_le t v"
  unfolding thread_le_def same_identity_def by (auto intro: status_before_trans)

lemma threads_le_refl: "list_all2 thread_le ts ts"
  by (simp add: list_all2_refl)

lemma mailbox_le_refl: "mailbox_le db db"
  unfolding mailbox_le_def using threads_le_refl by auto

lemma mailbox_le_trans:
  assumes "mailbox_le a b" and "mailbox_le b c"
  shows "mailbox_le a c"
proof -
  from assms obtain us vs us' vs' where
    b: "mb_threads b = us @ vs" "list_all2 thread_le (mb_threads a) us"
    and c: "mb_threads c = us' @ vs'" "list_all2 thread_le (us @ vs) us'"
    unfolding mailbox_le_def by auto
  from c(2) obtain xs ys where "us' = xs @ ys" "list_all2 thread_le us xs"
    by (auto simp: list_all2_append1)
  moreover from b(2) this(2) have "list_all2 thread_le (mb_threads a) xs"
    by (rule list_all2_trans [rotated]) (rule thread_le_trans)
  ultimately show ?thesis
    using assms c(1) unfolding mailbox_le_def by (auto intro: prefix_order.trans)
qed

lemma move_allowed_before: "move_allowed t actor s kind \<Longrightarrow> status_before (th_status t) s"
  by (cases s; cases "th_status t") auto

lemma replace_thread_le:
  assumes "t \<in> set ts" and "distinct (map th_id ts)" and "same_identity t u" and "thread_le t u"
  shows "list_all2 thread_le ts (replace_thread u ts)"
proof -
  have "thread_le x (if th_id x = th_id u then u else x)" if "x \<in> set ts" for x
  proof (cases "th_id x = th_id u")
    case True
    then have "x = t" using assms(1-3) that by (auto simp: same_identity_def distinct_map inj_on_def)
    with True assms(4) show ?thesis by simp
  qed simp
  then show ?thesis by (auto simp: replace_thread_def list_all2_conv_all_nth)
qed

lemma effect_le:
  assumes "mail_effect db db'" and "mailbox_inv db"
  shows "mailbox_le db db'"
  using assms(1)
proof cases
  case Quiet
  then show ?thesis
    using threads_le_refl by (auto simp: mailbox_le_def same_threads_def)
next
  case Opened
  then show ?thesis
    using threads_le_refl by (auto simp: mailbox_le_def logged_def)
next
  case Appended
  then show ?thesis
    using threads_le_refl by (auto simp: mailbox_le_def logged_def)
next
  case (Moved t actor u kind e)
  have "thread_le t u"
    using Moved(2,3) move_allowed_before by (auto simp: thread_le_def)
  then have "list_all2 thread_le (mb_threads db) (mb_threads db')"
    unfolding Moved(8) using assms(2) Moved(1,3) by (intro replace_thread_le) (auto simp: mailbox_inv_def)
  then show ?thesis
    using Moved by (auto simp: mailbox_le_def logged_def intro: exI [of _ "[]"])
qed

interpretation mailboxes: advancing_machine "mailbox_step env" mailbox_inv mailbox_le
proof
  show "mailbox_inv db \<Longrightarrow> mailbox_step env db q = Inr db' \<Longrightarrow> mailbox_inv db'" for db q db'
    using step_effect effect_keeps_inv by blast
  show "mailbox_inv db \<Longrightarrow> mailbox_step env db q = Inr db' \<Longrightarrow> mailbox_le db db'" for db q db'
    using step_effect effect_le by blast
qed (auto simp: mailbox_le_refl intro: mailbox_le_trans)

lemma thread_kept:
  assumes "mailbox_le db db'" and "find_thread db i = Some t" and "mailbox_inv db'"
  obtains u where "find_thread db' i = Some u" and "thread_le t u"
proof -
  from assms(1) obtain us vs where us: "mb_threads db' = us @ vs" "list_all2 thread_le (mb_threads db) us"
    by (auto simp: mailbox_le_def)
  have t: "t \<in> set (mb_threads db)" "th_id t = i"
    using assms(2) by (auto dest: find_thread_Some)
  then obtain k where "k < length (mb_threads db)" "mb_threads db ! k = t" by (auto simp: in_set_conv_nth)
  with us(2) have "us ! k \<in> set us" "thread_le t (us ! k)" by (auto simp: list_all2_conv_all_nth)
  then obtain u where u: "u \<in> set us" "thread_le t u" by blast
  then have "th_id u = i" using t(2) by (auto simp: thread_le_def same_identity_def)
  with u us(1) have "list_ex (\<lambda>t. th_id t = i) (mb_threads db')" by (auto simp: list_ex_iff)
  then obtain v where v: "find_thread db' i = Some v"
    by (cases "find_thread db' i") (auto simp: find_thread_def find_None_iff list_ex_iff)
  then have "v \<in> set (mb_threads db')" "th_id v = i" by (auto dest: find_thread_Some)
  moreover have "u \<in> set (mb_threads db')" using u(1) us(1) by simp
  moreover have "distinct (map th_id (mb_threads db'))" using assms(3) by (simp add: mailbox_inv_def)
  ultimately have "v = u" using \<open>th_id u = i\<close> by (metis distinct_map inj_onD)
  with v u show ?thesis using that by blast
qed

section \<open>Blocked senders\<close>

definition content_free :: "mailbox_event_kind \<Rightarrow> bool" where
  "content_free k \<longleftrightarrow> k = Event_thread_accepted \<or> k = Event_thread_cancelled"

definition crosses :: "uuid \<Rightarrow> uuid \<Rightarrow> mailbox_event_row \<Rightarrow> bool" where
  "crosses sender recipient e \<longleftrightarrow> mv_actor_id e = sender \<and> mv_recipient_id e = recipient \<and> \<not> content_free (mv_kind e)"

lemma effect_blocked:
  assumes "mail_effect db db'" and "is_sender_blocked db s b"
  shows "filter (crosses s b) (mb_events db') = filter (crosses s b) (mb_events db)"
  using assms(1)
proof cases
  case (Moved t actor u kind e)
  have "kind = Event_thread_accepted \<or> kind = Event_thread_completed \<or> kind = Event_thread_cancelled"
    using Moved(2) by (cases "th_status u") auto
  with Moved(5,6,7) assms(2) show ?thesis
    by (auto simp: logged_def event_for_def crosses_def content_free_def)
qed (use assms(2) in \<open>auto simp: same_threads_def logged_def event_for_def crosses_def\<close>)

fun unblocks :: "uuid \<Rightarrow> mailbox_request \<Rightarrow> bool" where
  "unblocks b (Q_unblock me target) \<longleftrightarrow> me = b"
| "unblocks b _ \<longleftrightarrow> False"

lemma services_keep:
  "create_handoff fresh tx c db = Inr (r, db') \<Longrightarrow> mb_blocks db' = mb_blocks db \<and> mb_invites db' = mb_invites db"
  "append_message fresh tx i db = Inr (r', db') \<Longrightarrow> mb_blocks db' = mb_blocks db \<and> mb_invites db' = mb_invites db"
  "transition_handoff event_id now updated tx ti db = Inr (t, db')
     \<Longrightarrow> mb_blocks db' = mb_blocks db \<and> mb_invites db' = mb_invites db"
  by (auto simp: create_handoff_def store_thread_def append_message_def store_message_def transition_handoff_def
      accept_thread_def complete_thread_def cancel_thread_def store_transition_def Let_def insert_thread_Inr
      insert_message_Inr append_mailbox_event_Inr split: sum.splits option.splits if_splits transition.splits)

lemma handlers_keep:
  "handle_message_send L fresh tx cx p db = Inr (r, ns, db') \<Longrightarrow> mb_blocks db' = mb_blocks db \<and> mb_invites db' = mb_invites db"
  "handle_tasks_update L event_id now updated tx cx up db = Inr (ur, ns, db')
     \<Longrightarrow> mb_blocks db' = mb_blocks db \<and> mb_invites db' = mb_invites db"
  "handle_tasks_cancel L event_id now updated tx cx i db = Inr (cr, ns, db')
     \<Longrightarrow> mb_blocks db' = mb_blocks db \<and> mb_invites db' = mb_invites db"
  by (auto simp: handle_message_send_def send_append_def send_create_def handle_tasks_update_def
      handle_tasks_cancel_def Let_def services_keep split: if_splits option.splits sum.splits)

lemma accounts_keep:
  "update_card slack_url encrypt me u db = Inr db' \<Longrightarrow> mb_blocks db' = mb_blocks db \<and> mb_invites db' = mb_invites db"
  "issue_key key_hash fresh_id now raw agent db = Inr (i, db') \<Longrightarrow> mb_blocks db' = mb_blocks db \<and> mb_invites db' = mb_invites db"
  "disable_account clock agent db = Inr db' \<Longrightarrow> mb_blocks db' = mb_blocks db \<and> mb_invites db' = mb_invites db"
  "register_agent fold_case key_hash fresh raw ri db = Inr (a, db') \<Longrightarrow> mb_blocks db' = mb_blocks db \<and> mb_invites db' = mb_invites db"
  "rotate_own_key key_hash fresh_id now raw agent db = Inr (i, db') \<Longrightarrow> mb_blocks db' = mb_blocks db \<and> mb_invites db' = mb_invites db"
  "admin_rotate_key L key_hash fresh_id now raw agent db = Inr (i, db') \<Longrightarrow> mb_blocks db' = mb_blocks db \<and> mb_invites db' = mb_invites db"
  by (auto simp: update_card_def issue_key_def insert_key_def revoke_all_keys_def disable_account_def
      rotate_own_key_def admin_rotate_key_def Let_def register_agent_Inr
      split: sum.splits option.splits if_splits)

lemma trust_keeps:
  "mint_invite L T url jti now mi db = Inr (token, db') \<Longrightarrow> mb_blocks db' = mb_blocks db"
  "redeem_invite L T fold_case key_hash fresh clock now raw jti tok db = Inr (r, db') \<Longrightarrow> mb_blocks db' = mb_blocks db"
  "block_agent tx me h target reason db = Inr db' \<Longrightarrow> mb_invites db' = mb_invites db"
  "unblock_agent me target db = Inr db' \<Longrightarrow> mb_invites db' = mb_invites db"
  by (auto simp: mint_invite_def block_agent_def unblock_agent_def Let_def register_agent_Inr elim!: redeem_invite_cases
      split: sum.splits option.splits if_splits)

lemmas keeps = handlers_keep accounts_keep trust_keeps

lemma step_keeps_block:
  assumes "mailbox_step env db q = Inr db'" and "is_sender_blocked db s b" and "\<not> unblocks b q"
  shows "is_sender_blocked db' s b"
proof -
  have same: "mb_blocks db' = mb_blocks db \<Longrightarrow> ?thesis"
    using assms(2) by (simp add: is_sender_blocked_def)
  show ?thesis
  proof (cases q)
    case (Q_block tx me h target reason)
    with assms(1,2) show ?thesis
      by (auto simp: mailbox_step_def block_agent_def is_sender_blocked_def audit_mail_def split: if_splits option.splits)
  next
    case (Q_unblock me target)
    with assms show ?thesis
      by (auto simp: mailbox_step_def unblock_agent_def is_sender_blocked_def audit_mail_def list_ex_iff
          split: if_splits option.splits)
  qed (use assms(1) in \<open>auto intro!: same simp: mailbox_step_def state_of_Inr state_of_handler_Inr keeps\<close>)
qed

text \<open>Events cross the block again only when the recipient lifts it.\<close>

lemma blocked_run:
  "mailbox_inv db \<Longrightarrow> is_sender_blocked db s b \<Longrightarrow> list_all (\<lambda>q. \<not> unblocks b q) qs
   \<Longrightarrow> filter (crosses s b) (mb_events (serve_all (mailbox_step env) db qs)) = filter (crosses s b) (mb_events db)
     \<and> is_sender_blocked (serve_all (mailbox_step env) db qs) s b"
proof (induction qs arbitrary: db)
  case Nil
  then show ?case by simp
next
  case (Cons q qs)
  let ?d = "serve (mailbox_step env) db q"
  have "filter (crosses s b) (mb_events ?d) = filter (crosses s b) (mb_events db)" "is_sender_blocked ?d s b"
    using Cons.prems step_effect effect_blocked step_keeps_block
    by (auto simp: serve_def split: sum.splits) 
  with Cons.IH [of ?d] Cons.prems mailboxes.serve_inv show ?case by auto
qed

end
