(* ===== verification/Account_Laws.thy ===== *)
theory Account_Laws
  imports Mailbox_Laws
begin

text \<open>
  The codecs of \<^verbatim>\<open>relay/src/auth/keys.ts\<close> and \<^verbatim>\<open>relay/src/services/invite.ts\<close> against their reference
  definitions, and the life of a key and of an invite.
\<close>

unbundle bit_operations_syntax

section \<open>Base32\<close>

text \<open>RFC 4648: the bits of the bytes from the most significant on, in groups of five, the last one filled up
  with zeros.\<close>

definition low_bits :: "nat \<Rightarrow> 'a::len word \<Rightarrow> bool list" where
  "low_bits n w = rev (map (bit w) [0..<n])"

definition bits_value :: "bool list \<Rightarrow> nat" where
  "bits_value bs = horner_sum of_bool 2 (rev bs)"

fun group_bits :: "bool list \<Rightarrow> string" where
  "group_bits (a # b # c # d # e # bs) = base32_alphabet ! bits_value [a, b, c, d, e] # group_bits bs"
| "group_bits [] = []"
| "group_bits bs = [base32_alphabet ! bits_value (bs @ replicate (5 - length bs) False)]"

definition base32_reference :: "8 word list \<Rightarrow> string" where
  "base32_reference bytes = group_bits (concat (map (low_bits 8) bytes))"

lemma length_low_bits [simp]: "length (low_bits n w) = n"
  by (simp add: low_bits_def)

lemma low_bits_0 [simp]: "low_bits 0 w = []"
  by (simp add: low_bits_def)

lemma low_bits_Suc: "low_bits (Suc n) w = bit w n # low_bits n w"
  by (simp add: low_bits_def)

lemma low_bits_five:
  "low_bits (5 + n) w = [bit w (n + 4), bit w (n + 3), bit w (n + 2), bit w (n + 1), bit w n] @ low_bits n w"
  by (simp add: low_bits_Suc add.commute numeral_eq_Suc)

lemma group_bits_five: "length xs = 5 \<Longrightarrow> group_bits (xs @ ys) = base32_alphabet ! bits_value xs # group_bits ys"
  by (auto simp: numeral_eq_Suc length_Suc_conv)

lemma five_bits:
  fixes w :: "32 word"
  shows "unat (w AND 31) = bits_value (low_bits 5 w)"
proof -
  have "w AND 31 = take_bit 5 w" by (simp add: take_bit_eq_mask mask_eq_decr_exp)
  then have "unat (w AND 31) = take_bit 5 (unat w)" by (simp add: unsigned_take_bit_eq)
  also have "\<dots> = horner_sum of_bool 2 (map (bit (unat w)) [0..<5])" by (simp add: horner_sum_bit_eq_take_bit)
  also have "map (bit (unat w)) [0..<5] = map (bit w) [0..<5]" by (simp add: bit_unsigned_iff)
  finally show ?thesis by (simp add: bits_value_def low_bits_def)
qed

lemma low_bits_drop:
  fixes w :: "32 word"
  shows "low_bits 5 (drop_bit n w) = map (\<lambda>k. bit w (n + k)) [4, 3, 2, 1, 0]"
  by (simp add: low_bits_Suc numeral_eq_Suc bit_drop_bit_eq)

lemma drain_groups:
  "base32_drain bits acc = (out, rest) \<Longrightarrow>
     rest < 5 \<and> group_bits (low_bits bits acc @ later) = out @ group_bits (low_bits rest acc @ later)"
proof (induction bits acc arbitrary: out rest rule: base32_drain.induct)
  case (1 bits acc)
  show ?case
  proof (cases "bits \<ge> 5")
    case False
    with "1.prems" show ?thesis by (simp add: base32_drain.simps [of bits])
  next
    case True
    define n where "n = bits - 5"
    have bits: "bits = 5 + n" using True by (simp add: n_def)
    obtain out' rest' where d: "base32_drain n acc = (out', rest')" by fastforce
    from "1.prems" True d have out: "out = base32_alphabet ! unat (drop_bit n acc AND 31) # out'" "rest = rest'"
      by (auto simp: base32_drain.simps [of bits] n_def)
    have "low_bits bits acc = low_bits 5 (drop_bit n acc) @ low_bits n acc"
      unfolding bits low_bits_drop by (simp add: low_bits_five)
    then have "group_bits (low_bits bits acc @ later)
        = base32_alphabet ! bits_value (low_bits 5 (drop_bit n acc)) # group_bits (low_bits n acc @ later)"
      by (simp add: group_bits_five)
    with "1.IH" [OF True, of out' rest'] d out show ?thesis by (simp add: five_bits n_def)
  qed
qed

lemma low_bits_push:
  fixes b :: "8 word" and w :: "32 word"
  assumes "n \<le> 24"
  shows "low_bits (n + 8) (push_bit 8 w OR ucast b) = low_bits n w @ low_bits 8 b"
proof -
  have "map (bit (push_bit 8 w OR ucast b)) [0..<n + 8] = map (bit b) [0..<8] @ map (bit w) [0..<n]"
  proof (rule nth_equalityI)
    fix i
    assume "i < length (map (bit (push_bit 8 w OR ucast b)) [0..<n + 8])"
    with assms show "map (bit (push_bit 8 w OR ucast b)) [0..<n + 8] ! i = (map (bit b) [0..<8] @ map (bit w) [0..<n]) ! i"
      by (auto simp: nth_append bit_or_iff bit_push_bit_iff bit_unsigned_iff bit_imp_le_length dest: bit_imp_le_length)
  qed simp
  then show ?thesis by (simp add: low_bits_def)
qed

lemma last_group:
  fixes w :: "32 word"
  assumes "0 < n" and "n < 5"
  shows "group_bits (low_bits n w) = [base32_alphabet ! unat (push_bit (5 - n) w AND 31)]"
proof -
  have "n \<in> {1, 2, 3, 4}" using assms by auto
  then show ?thesis
    by (auto simp: five_bits low_bits_Suc numeral_eq_Suc bit_push_bit_iff)
qed

lemma loop_groups: "bits < 5 \<Longrightarrow> base32_loop bits acc bs = group_bits (low_bits bits acc @ concat (map (low_bits 8) bs))"
proof (induction bs arbitrary: bits acc)
  case Nil
  then show ?case by (auto simp: last_group)
next
  case (Cons b bs)
  let ?v = "push_bit 8 acc OR ucast b"
  obtain out rest where d: "base32_drain (bits + 8) ?v = (out, rest)" by fastforce
  note g = drain_groups [OF d, of "concat (map (low_bits 8) bs)"]
  have "low_bits (bits + 8) ?v = low_bits bits acc @ low_bits 8 b"
    using Cons.prems by (intro low_bits_push) simp
  with g d Cons.IH [of rest ?v] show ?case by simp
qed

lemma base32_is_reference: "base32 bytes = base32_reference bytes"
  by (simp add: base32_def base32_reference_def loop_groups)

lemma bits_value_five: "length bs = 5 \<Longrightarrow> bits_value bs < 32"
  by (auto simp: numeral_eq_Suc length_Suc_conv bits_value_def)

lemma alphabet_chars: "n < 32 \<Longrightarrow> is_lower (base32_alphabet ! n) \<or> base32_alphabet ! n \<in> set ''234567''"
proof -
  have "list_all (\<lambda>n. is_lower (base32_alphabet ! n) \<or> base32_alphabet ! n \<in> set ''234567'') [0..<32]"
    by code_simp
  then show "n < 32 \<Longrightarrow> ?thesis" by (simp add: list_all_iff)
qed

lemma group_bits_chars: "list_all (\<lambda>c. is_lower c \<or> c \<in> set ''234567'') (group_bits bs)"
proof (induction bs rule: group_bits.induct)
  case (1 a b c d e bs)
  then show ?case using alphabet_chars [OF bits_value_five, of "[a, b, c, d, e]"] by simp
qed (use alphabet_chars [OF bits_value_five] in \<open>auto simp del: set_simps\<close>)

lemma length_group_bits: "length (group_bits bs) = (length bs + 4) div 5"
  by (induction bs rule: group_bits.induct) auto

lemma key_body_generated: "length bytes = 20 \<Longrightarrow> key_body_ok (base32 bytes)"
proof -
  assume "length bytes = 20"
  then have "sum_list (map (length \<circ> low_bits 8) bytes) = 160"
    by (simp add: comp_def sum_list_triv)
  then show ?thesis
    using group_bits_chars
    by (simp add: key_body_ok_def base32_is_reference base32_reference_def length_group_bits length_concat comp_def)
qed

text \<open>A generated key has the form that the middleware asks for, and a key of one kind is none of the other.\<close>

lemma generated_keys_well_formed:
  assumes "length bytes = 20"
  shows "is_well_formed_key (generate_key env bytes)" and "is_well_formed_node_key (generate_node_key env bytes)"
    and "\<not> is_well_formed_node_key (generate_key env bytes)" and "\<not> is_well_formed_key (generate_node_key env bytes)"
  using key_body_generated [OF assms]
  by (cases env; simp add: is_well_formed_key_def is_well_formed_node_key_def prefixed_body_def generate_key_def
      generate_node_key_def key_prefix_def node_key_prefix_def)+

section \<open>Base64url\<close>

lemma base64_value_digit: "n < 64 \<Longrightarrow> base64_value (base64_digit n) = n"
proof -
  have "list_all (\<lambda>n. base64_value (base64_digit n) = n) [0..<64]" by code_simp
  then show "n < 64 \<Longrightarrow> ?thesis" by (simp add: list_all_iff)
qed

lemma base64_digit_char: "n < 64 \<Longrightarrow> is_base64_char (base64_digit n) \<and> base64_digit n \<noteq> CHR ''='' \<and> base64_digit n \<noteq> CHR ''.''"
proof -
  have "list_all (\<lambda>n. is_base64_char (base64_digit n) \<and> base64_digit n \<noteq> CHR ''='' \<and> base64_digit n \<noteq> CHR ''.'') [0..<64]"
    by code_simp
  then show "n < 64 \<Longrightarrow> ?thesis" by (simp add: list_all_iff)
qed

lemma byte_below: "unat (a :: 8 word) < 256"
  using unsigned_less [of a, where ?'a = nat] by simp

lemma split_digit: "c < k \<Longrightarrow> (q * k + c) div k = q" "c < k \<Longrightarrow> (q * k + c) mod k = c" for c k q :: nat
  by (auto simp: div_mult_self3)

lemma digits64:
  "(n :: nat) div 262144 * 262144 + n div 4096 mod 64 * 4096 + n div 64 mod 64 * 64 + n mod 64 = n"
  "(n :: nat) div 4096 * 4096 + n div 64 mod 64 * 64 + n mod 64 = n"
  "(n :: nat) div 64 * 64 + n mod 64 = n"
proof -
  have d: "n div 4096 = n div 64 div 64" "n div 262144 = n div 64 div 64 div 64" by (simp_all flip: div_mult2_eq)
  have "n div 64 * 64 + n mod 64 = n" by simp
  moreover have "n div 64 div 64 * 64 + n div 64 mod 64 = n div 64" by simp
  moreover have "n div 64 div 64 div 64 * 64 + n div 64 div 64 mod 64 = n div 64 div 64" by simp
  ultimately show "n div 262144 * 262144 + n div 4096 mod 64 * 4096 + n div 64 mod 64 * 64 + n mod 64 = n"
    "n div 4096 * 4096 + n div 64 mod 64 * 64 + n mod 64 = n" "n div 64 * 64 + n mod 64 = n"
    unfolding d by linarith+
qed

lemma three_bytes:
  assumes "a < 256" and "b < 256" and "c < (256 :: nat)"
  defines "n \<equiv> a * 65536 + b * 256 + c"
  shows "n div 262144 < 64" "n div 65536 = a" "n div 256 mod 256 = b" "n mod 256 = c"
proof -
  have n: "n = (a * 256 + b) * 256 + c" by (simp add: n_def)
  have q: "n div 256 = a * 256 + b" "n mod 256 = c" unfolding n using assms(3) by (rule split_digit)+
  have "n div 65536 = n div 256 div 256" by (simp flip: div_mult2_eq)
  also have "\<dots> = a" unfolding q using assms(2) by (rule split_digit)
  finally have a: "n div 65536 = a" .
  have "n div 262144 = n div 65536 div 4" by (simp flip: div_mult2_eq)
  then show "n div 262144 < 64" using a assms(1) by simp
  show "n div 65536 = a" "n mod 256 = c" by (fact a) (fact q)
  show "n div 256 mod 256 = b" unfolding q using assms(2) by (rule split_digit)
qed

lemma decode_encode: "decode_base64url (encode_base64url bs) = bs"
proof (induction bs rule: encode_base64url.induct)
  case (1 a b c bs)
  note n = three_bytes [OF byte_below [of a] byte_below [of b] byte_below [of c]]
  show ?case
    using 1 n by (simp add: Let_def base64_value_digit digits64)
next
  case (2 a b)
  define n where "n = unat a * 1024 + unat b * 4"
  have "n div 4 = unat a * 256 + unat b" by (simp add: n_def div_add)
  then have "n div 4 div 256 = unat a" "n div 4 mod 256 = unat b"
    using split_digit [OF byte_below [of b]] by simp_all
  moreover have "n div 4096 = n div 4 div 256 div 4" by (simp flip: div_mult2_eq)
  then have "n div 4096 < 64" using calculation byte_below [of a] by simp
  ultimately show ?case by (simp add: Let_def base64_value_digit digits64 flip: n_def)
next
  case (3 a)
  define n where "n = unat a * 16"
  have "n div 64 < 64" "n div 16 = unat a"
    using byte_below [of a] by (simp_all add: n_def)
  then show ?case by (simp add: Let_def base64_value_digit digits64 flip: n_def)
qed simp

section \<open>Tokens\<close>

lemma encode_chars: "list_all (\<lambda>c. is_base64_char c \<and> c \<noteq> CHR ''='' \<and> c \<noteq> CHR ''.'') (encode_base64url bs)"
proof (induction bs rule: encode_base64url.induct)
  case (1 a b c bs)
  note n = three_bytes [OF byte_below [of a] byte_below [of b] byte_below [of c]]
  show ?case using 1 n(1) base64_digit_char by (simp add: Let_def)
next
  case (2 a b)
  have "(unat a * 1024 + unat b * 4) div 4096 < 64" using byte_below [of a] byte_below [of b] by simp
  then show ?case using base64_digit_char by (simp add: Let_def)
next
  case (3 a)
  have "unat a * 16 div 64 < 64" using byte_below [of a] by simp
  then show ?case using base64_digit_char by (simp add: Let_def)
qed simp

lemma length_encode_mod: "length (encode_base64url bs) mod 4 \<noteq> 1"
  by (induction bs rule: encode_base64url.induct) (auto simp: Let_def)

lemma encode_Nil [simp]: "encode_base64url bs = [] \<longleftrightarrow> bs = []"
  by (cases bs rule: encode_base64url.cases) (auto simp: Let_def)

lemma normalize_encode: "bs \<noteq> [] \<Longrightarrow> normalize_base64url (encode_base64url bs) = Some (encode_base64url bs)"
proof -
  assume "bs \<noteq> []"
  moreover have "takeWhile (\<lambda>c. c \<noteq> CHR ''='') (encode_base64url bs) = encode_base64url bs"
    using encode_chars [of bs] by (simp add: takeWhile_eq_all_conv list_all_iff)
  moreover have "list_all is_base64_char (encode_base64url bs)"
    using encode_chars [of bs] by (simp add: list_all_iff)
  ultimately show ?thesis
    using length_encode_mod [of bs] by (simp add: normalize_base64url_def Let_def del: takeWhile_eq_all_conv)
qed

lemma split_dots_not_Nil [simp]: "split_dots s \<noteq> []"
  by (cases s) (auto split: list.splits)

lemma split_dots_none: "CHR ''.'' \<notin> set s \<Longrightarrow> split_dots s = [s]"
  by (induction s) (auto split: list.splits)

lemma split_dots_part: "CHR ''.'' \<notin> set s \<Longrightarrow> split_dots (s @ CHR ''.'' # cs) = s # split_dots cs"
proof (induction s)
  case Nil
  then show ?case by (cases "split_dots cs") auto
next
  case (Cons c s)
  then have "c \<noteq> CHR ''.''" by auto
  with Cons show ?case by simp
qed

lemma encode_no_dot: "CHR ''.'' \<notin> set (encode_base64url bs)"
  using encode_chars [of bs] by (auto simp: list_all_iff)

text \<open>A minted token verifies to the payload it was minted for.\<close>

lemma mint_verify:
  assumes "mint_invite_token L T p = Inr token" and "tl_parse T (tl_stringify T p) = Some (Some p)"
    and "tl_stringify T p \<noteq> []" and "tl_sign T (encode_base64url (tl_stringify T p)) \<noteq> []"
  shows "verify_invite_token L T token = Inr p"
proof -
  let ?payload = "encode_base64url (tl_stringify T p)"
  let ?sig = "encode_base64url (tl_sign T ?payload)"
  from assms(1) have ok: "invite_payload_ok L p" and token: "token = ''v1.'' @ ?payload @ ''.'' @ ?sig"
    by (auto simp: mint_invite_token_def Let_def split: if_splits)
  have "split_dots token = [''v1'', ?payload, ?sig]"
    unfolding token using split_dots_part [of "''v1''"] split_dots_part [OF encode_no_dot] split_dots_none [OF encode_no_dot]
    by simp
  then show ?thesis
    using assms(2-4) ok by (simp add: verify_invite_token_def normalize_encode decode_encode verify_payload_def)
qed

section \<open>Invites\<close>

definition invite_spent :: "mailbox_db \<Rightarrow> uuid \<Rightarrow> bool" where
  "invite_spent db jti \<longleftrightarrow> list_ex (\<lambda>x. iv_jti x = jti) (mb_invites db)
     \<and> list_all (\<lambda>x. iv_jti x = jti \<longrightarrow> iv_used_at x \<noteq> None) (mb_invites db)"

lemma mark_used:
  "list_ex (\<lambda>x. iv_jti x = jti) ivs \<Longrightarrow>
   list_ex (\<lambda>x. iv_jti x = jti) (map (\<lambda>x. if iv_jti x = jti then x\<lparr>iv_used_at := Some now, iv_used_by := by\<rparr> else x) ivs)"
  "list_all (\<lambda>x. iv_jti x = jti \<longrightarrow> iv_used_at x \<noteq> None)
     (map (\<lambda>x. if iv_jti x = jti then x\<lparr>iv_used_at := Some now, iv_used_by := by\<rparr> else x) ivs)"
  by (induction ivs) auto

lemma mark_other:
  "list_ex (\<lambda>x. iv_jti x = jti) (map (\<lambda>x. if iv_jti x = j then x\<lparr>iv_used_at := Some now, iv_used_by := by\<rparr> else x) ivs)
     = list_ex (\<lambda>x. iv_jti x = jti) ivs"
  "list_all (\<lambda>x. iv_jti x = jti \<longrightarrow> iv_used_at x \<noteq> None) ivs \<Longrightarrow> list_all (\<lambda>x. iv_jti x = jti \<longrightarrow> iv_used_at x \<noteq> None)
     (map (\<lambda>x. if iv_jti x = j then x\<lparr>iv_used_at := Some now, iv_used_by := by\<rparr> else x) ivs)"
  by (induction ivs) auto

lemma spent_by_redemption:
  assumes "redeem_invite L T fold_case key_hash fresh clock now raw jti token db = Inr (Inr a, db')"
  shows "invite_spent db' jti"
  using assms
proof (rule redeem_invite_cases)
  fix iv b db1
  assume "find (\<lambda>x. iv_jti x = jti) (mb_invites db) = Some iv"
    and "register_agent fold_case key_hash fresh raw
      \<lparr>ri_handle = iv_handle iv, ri_email = None, ri_display_name = None, ri_role = iv_role iv\<rparr> db = Inr (b, db1)"
    and db': "db' = audit_mail (ac_id b) ''invite.redeemed'' jti
      (db1\<lparr>mb_invites := map (\<lambda>x. if iv_jti x = jti
         then x\<lparr>iv_used_at := Some now, iv_used_by := Some (ac_id b)\<rparr> else x) (mb_invites db1)\<rparr>)"
  then have "list_ex (\<lambda>x. iv_jti x = jti) (mb_invites db1)"
    by (auto simp: register_agent_Inr find_Some_iff list_ex_iff)
  then show ?thesis
    unfolding db' invite_spent_def by (auto intro: mark_used simp del: not_None_eq)
qed auto

lemma spent_refused:
  assumes "invite_spent db jti"
  shows "redeem_invite L T fold_case key_hash fresh clock now raw jti token db = Inr (r, db') \<Longrightarrow> \<exists>f. r = Inl f \<and> db' = db"
proof (erule redeem_invite_cases, goal_cases)
  case (2 iv a db1)
  then have "iv \<in> set (mb_invites db)" "iv_jti iv = jti" by (auto simp: find_Some_iff)
  with assms have "iv_used_at iv \<noteq> None" by (auto simp: invite_spent_def list_all_iff)
  with 2 show ?case by (auto simp: validate_invite_row_def split: if_splits)
qed auto

lemma spent_kept:
  assumes "mailbox_step env db q = Inr db'" and "invite_spent db jti"
  shows "invite_spent db' jti"
proof -
  have same: "mb_invites db' = mb_invites db \<Longrightarrow> ?thesis"
    using assms(2) by (simp add: invite_spent_def)
  show ?thesis
  proof (cases q)
    case (Q_mint j now i)
    with assms(1) obtain iv where "mb_invites db' = mb_invites db @ [iv]" "iv_jti iv = j"
      "\<not> list_ex (\<lambda>x. iv_jti x = j) (mb_invites db)"
      by (auto simp: mailbox_step_def state_of_Inr mint_invite_def Let_def list_ex_iff
          split: if_splits option.splits sum.splits)
    with assms(2) show ?thesis by (auto simp: invite_spent_def)
  next
    case (Q_redeem fresh clock now raw j token)
    with assms(1) obtain r where "redeem_invite (en_lib env) (en_tokens env) (en_fold_case env) (en_key_hash env)
        fresh clock now raw j token db = Inr (r, db')"
      by (auto simp: mailbox_step_def state_of_Inr)
    then show ?thesis
    proof (rule redeem_invite_cases)
      fix iv b db1
      assume "register_agent (en_fold_case env) (en_key_hash env) fresh raw
          \<lparr>ri_handle = iv_handle iv, ri_email = None, ri_display_name = None, ri_role = iv_role iv\<rparr> db = Inr (b, db1)"
        and db': "db' = audit_mail (ac_id b) ''invite.redeemed'' j
          (db1\<lparr>mb_invites := map (\<lambda>x. if iv_jti x = j
             then x\<lparr>iv_used_at := Some now, iv_used_by := Some (ac_id b)\<rparr> else x) (mb_invites db1)\<rparr>)"
      then have "mb_invites db1 = mb_invites db" by (simp add: register_agent_Inr)
      with assms(2) show ?thesis
        by (auto simp: db' invite_spent_def mark_other(1) intro: mark_other(2) simp del: not_None_eq)
    qed (use assms(2) in simp)
  qed (use assms(1) in \<open>auto intro!: same simp: mailbox_step_def state_of_Inr state_of_handler_Inr keeps\<close>)
qed

end
