(* ===== verification/Notifications.thy ===== *)
theory Notifications
  imports Mailbox_Views
begin

text \<open>
  \<^verbatim>\<open>relay/src/notifications/dispatcher.ts\<close>: the bounded queue of notification jobs and the delivery of one
  job with its retries.  The outcome of the \<open>n\<close>-th post of a job is the argument \<open>posts n\<close>; decryption and the
  URL check of the stored webhook are arguments too.
\<close>

section \<open>Queue\<close>

record metrics =
  mt_enqueued :: nat
  mt_dispatched :: nat
  mt_succeeded :: nat
  mt_failed :: nat
  mt_retries :: nat
  mt_dropped :: nat

record dispatcher =
  dp_queue :: "notification_job list"
  dp_metrics :: metrics

definition enqueue_job :: "nat \<Rightarrow> notification_job \<Rightarrow> dispatcher \<Rightarrow> dispatcher" where
  "enqueue_job max_depth job d =
     (if length (dp_queue d) \<ge> max_depth
      then d\<lparr>dp_metrics := (dp_metrics d)\<lparr>mt_dropped := mt_dropped (dp_metrics d) + 1\<rparr>\<rparr>
      else d\<lparr>dp_queue := dp_queue d @ [job],
             dp_metrics := (dp_metrics d)\<lparr>mt_enqueued := mt_enqueued (dp_metrics d) + 1\<rparr>\<rparr>)"

section \<open>One job\<close>

text \<open>A post is answered with a status, whether it is a success, and the \<open>Retry-After\<close> seconds, or it fails.\<close>

datatype post_outcome = Answered int bool "int option" | Post_error

record dispatch_outcome =
  do_ok :: bool
  do_attempts :: nat
  do_status :: "int option"
  do_reason :: "string option"

definition succeed_metric :: "metrics \<Rightarrow> metrics" where
  "succeed_metric m = m\<lparr>mt_succeeded := mt_succeeded m + 1\<rparr>"

definition fail_metric :: "metrics \<Rightarrow> metrics" where
  "fail_metric m = m\<lparr>mt_failed := mt_failed m + 1\<rparr>"

definition retry_metric :: "metrics \<Rightarrow> metrics" where
  "retry_metric m = m\<lparr>mt_retries := mt_retries m + 1\<rparr>"

definition gave_up :: "nat \<Rightarrow> int option \<Rightarrow> metrics \<Rightarrow> dispatch_outcome \<times> metrics \<times> int list" where
  "gave_up attempt status m =
     (\<lparr>do_ok = False, do_attempts = attempt, do_status = status, do_reason = Some ''max_attempts''\<rparr>, fail_metric m, [])"

definition after_wait ::
  "int \<Rightarrow> dispatch_outcome \<times> metrics \<times> int list \<Rightarrow> dispatch_outcome \<times> metrics \<times> int list" where
  "after_wait wait r = (case r of (out, m, waits) \<Rightarrow> (out, m, wait # waits))"

text \<open>The loop \<open>while (attempt < maxAttempts)\<close>.  The result holds the waits in their order.\<close>

function post_loop ::
  "int list \<Rightarrow> (nat \<Rightarrow> post_outcome) \<Rightarrow> nat \<Rightarrow> int option \<Rightarrow> bool \<Rightarrow> metrics
    \<Rightarrow> dispatch_outcome \<times> metrics \<times> int list" where
  "post_loop backoff posts attempt status rate_limited m =
     (if attempt \<ge> length backoff + 1 then gave_up attempt status m
      else (let n = attempt + 1 in
        case posts n of
          Answered code good retry_after \<Rightarrow>
            if good
            then (\<lparr>do_ok = True, do_attempts = n, do_status = Some code, do_reason = None\<rparr>, succeed_metric m, [])
            else if code = 429
            then (if rate_limited then gave_up n (Some code) m
                  else after_wait (default_to 1 retry_after * 1000)
                    (post_loop backoff posts n (Some code) True (retry_metric m)))
            else if 400 \<le> code \<and> code < 500 then gave_up n (Some code) m
            else if n \<le> length backoff
            then after_wait (backoff ! attempt) (post_loop backoff posts n (Some code) rate_limited (retry_metric m))
            else gave_up n (Some code) m
        | Post_error \<Rightarrow>
            if n \<le> length backoff
            then after_wait (backoff ! attempt) (post_loop backoff posts n status rate_limited (retry_metric m))
            else gave_up n status m))"
  by pat_completeness auto

termination
  by (relation "measure (\<lambda>(backoff, posts, attempt, rest). length backoff + 1 - attempt)") auto

declare post_loop.simps [simp del]

definition no_post :: "bool \<Rightarrow> string \<Rightarrow> metrics \<Rightarrow> dispatch_outcome \<times> metrics \<times> int list" where
  "no_post good reason m =
     (\<lparr>do_ok = good, do_attempts = 0, do_status = None, do_reason = Some reason\<rparr>,
      (if good then m else fail_metric m), [])"

definition dispatch_one ::
  "(jstext \<Rightarrow> jstext option) \<Rightarrow> (jstext \<Rightarrow> bool) \<Rightarrow> int list \<Rightarrow> (nat \<Rightarrow> post_outcome) \<Rightarrow> mailbox_db
    \<Rightarrow> notification_job \<Rightarrow> metrics \<Rightarrow> dispatch_outcome \<times> metrics \<times> int list" where
  "dispatch_one decrypt slack_url backoff posts db job m =
     (case find_card db (nj_recipient_agent_id job) of
        None \<Rightarrow> no_post True ''no_webhook'' m
      | Some c \<Rightarrow>
         (case cr_webhook c of
            None \<Rightarrow> no_post True ''no_webhook'' m
          | Some stored \<Rightarrow>
              if stored = [] then no_post True ''no_webhook'' m
              else (case decrypt stored of
                      None \<Rightarrow> no_post False ''decrypt_failed'' m
                    | Some url \<Rightarrow>
                        if \<not> slack_url url then no_post False ''invalid_webhook'' m
                        else post_loop backoff posts 0 None False m)))"

text \<open>One turn of the worker: the first job of the queue is taken and dispatched.\<close>

definition work_once ::
  "(jstext \<Rightarrow> jstext option) \<Rightarrow> (jstext \<Rightarrow> bool) \<Rightarrow> int list \<Rightarrow> (nat \<Rightarrow> post_outcome) \<Rightarrow> mailbox_db
    \<Rightarrow> dispatcher \<Rightarrow> dispatcher" where
  "work_once decrypt slack_url backoff posts db d =
     (case dp_queue d of
        [] \<Rightarrow> d
      | job # jobs \<Rightarrow>
          (let m = dp_metrics d; m = m\<lparr>mt_dispatched := mt_dispatched m + 1\<rparr> in
           d\<lparr>dp_queue := jobs, dp_metrics := fst (snd (dispatch_one decrypt slack_url backoff posts db job m))\<rparr>))"

section \<open>Laws\<close>

text \<open>What a run of the loop from \<open>attempt\<close> posts on leaves: one success or one failure, the retries it waited for,
  and no more posts than the schedule allows.\<close>

definition loop_accounts :: "int list \<Rightarrow> nat \<Rightarrow> metrics \<Rightarrow> dispatch_outcome \<times> metrics \<times> int list \<Rightarrow> bool" where
  "loop_accounts backoff attempt m r = (case r of (out, m', waits) \<Rightarrow>
     attempt \<le> do_attempts out \<and> do_attempts out \<le> length backoff + 1
     \<and> mt_succeeded m' = mt_succeeded m + (if do_ok out then 1 else 0)
     \<and> mt_failed m' = mt_failed m + (if do_ok out then 0 else 1)
     \<and> mt_retries m' = mt_retries m + length waits
     \<and> mt_enqueued m' = mt_enqueued m \<and> mt_dispatched m' = mt_dispatched m \<and> mt_dropped m' = mt_dropped m
     \<and> attempt + length waits \<le> do_attempts out)"

lemma gave_up_accounts:
  "attempt \<le> n \<Longrightarrow> n \<le> length backoff + 1 \<Longrightarrow> loop_accounts backoff attempt m (gave_up n status m)"
  by (simp add: loop_accounts_def gave_up_def fail_metric_def)

lemma success_accounts:
  "attempt \<le> do_attempts out \<Longrightarrow> do_attempts out \<le> length backoff + 1 \<Longrightarrow> do_ok out
   \<Longrightarrow> loop_accounts backoff attempt m (out, succeed_metric m, [])"
  by (simp add: loop_accounts_def succeed_metric_def)

lemma wait_accounts:
  "loop_accounts backoff (attempt + 1) (retry_metric m) r \<Longrightarrow> loop_accounts backoff attempt m (after_wait w r)"
  by (cases r) (auto simp: loop_accounts_def after_wait_def retry_metric_def)

lemma post_loop_accounts:
  "attempt \<le> length backoff + 1
   \<Longrightarrow> loop_accounts backoff attempt m (post_loop backoff posts attempt status rl m)"
proof (induction backoff posts attempt status rl m rule: post_loop.induct)
  case (1 backoff posts attempt status rl m)
  note IH = "1.IH"
  show ?case
  proof (cases "attempt \<ge> length backoff + 1")
    case True
    then show ?thesis
      using "1.prems" by (simp add: post_loop.simps gave_up_accounts)
  next
    case False
    then show ?thesis
      using "1.prems" IH [OF False refl]
      by (subst post_loop.simps)
        (simp add: Let_def gave_up_accounts success_accounts wait_accounts split: post_outcome.split)
  qed
qed

text \<open>The waits of a job stay within the schedule, except when its last post is answered with the first rate limit:
  that retry is waited for and counted, and then there is no attempt left for it.\<close>

definition rate_limit_at :: "(nat \<Rightarrow> post_outcome) \<Rightarrow> nat \<Rightarrow> bool" where
  "rate_limit_at posts n = (case posts n of Answered code good retry_after \<Rightarrow> code = 429 \<and> \<not> good | Post_error \<Rightarrow> False)"

definition waits_within :: "int list \<Rightarrow> (nat \<Rightarrow> post_outcome) \<Rightarrow> nat \<Rightarrow> dispatch_outcome \<times> metrics \<times> int list \<Rightarrow> bool" where
  "waits_within backoff posts attempt r = (case r of (out, m, waits) \<Rightarrow>
     attempt + length waits \<le> length backoff
     \<or> attempt + length waits = length backoff + 1 \<and> do_attempts out = length backoff + 1
       \<and> do_ok out = False \<and> rate_limit_at posts (length backoff + 1))"

lemma waits_after_wait: "waits_within backoff posts (attempt + 1) r \<Longrightarrow> waits_within backoff posts attempt (after_wait w r)"
  by (cases r) (auto simp: waits_within_def after_wait_def)

lemma waits_gave_up: "attempt \<le> length backoff \<Longrightarrow> waits_within backoff posts attempt (gave_up n status m)"
  by (simp add: waits_within_def gave_up_def)

lemma post_loop_waits:
  "attempt \<le> length backoff \<or> attempt = length backoff + 1 \<and> rate_limit_at posts attempt
   \<Longrightarrow> waits_within backoff posts attempt (post_loop backoff posts attempt status rl m)"
proof (induction backoff posts attempt status rl m rule: post_loop.induct)
  case (1 backoff posts attempt status rl m)
  note IH = "1.IH"
  show ?case
  proof (cases "attempt \<ge> length backoff + 1")
    case True
    then show ?thesis
      using "1.prems" by (auto simp: post_loop.simps waits_within_def gave_up_def)
  next
    case False
    then have here: "attempt \<le> length backoff" by simp
    show ?thesis
    proof (cases "posts (attempt + 1)")
      case Post_error
      then show ?thesis using IH(3) [OF False refl Post_error] here
        by (subst post_loop.simps) (simp add: Let_def waits_gave_up waits_after_wait)
    next
      case (Answered code good retry_after)
      have "good \<Longrightarrow> waits_within backoff posts attempt (\<lparr>do_ok = True, do_attempts = attempt + 1, do_status = Some code, do_reason = None\<rparr>, succeed_metric m, [])"
        using here by (simp add: waits_within_def)
      moreover have "waits_within backoff posts (attempt + 1) (post_loop backoff posts (attempt + 1) (Some code) True (retry_metric m))"
        if "\<not> good" "code = 429" "\<not> rl"
      proof -
        have "rate_limit_at posts (attempt + 1)" using that Answered by (simp add: rate_limit_at_def)
        moreover have "attempt + 1 \<le> length backoff \<or> attempt + 1 = length backoff + 1" using here by linarith
        ultimately show ?thesis using IH(1) [OF False refl Answered that] by blast
      qed
      ultimately show ?thesis using IH(2) [OF False refl Answered] here Answered
        by (subst post_loop.simps) (simp add: Let_def waits_gave_up waits_after_wait)
    qed
  qed
qed

section \<open>The worker\<close>

record dispatcher_config =
  dc_max_depth :: nat
  dc_backoff :: "int list"
  dc_decrypt :: "jstext \<Rightarrow> jstext option"
  dc_slack_url :: "jstext \<Rightarrow> bool"

text \<open>What happens to a dispatcher: a job is handed over, or the worker takes the next one.  With it come the
  outcomes of the posts and the tables of that moment.\<close>

datatype dispatcher_event = Job_enqueued notification_job | Worker_turn "nat \<Rightarrow> post_outcome" mailbox_db

definition dispatcher_step ::
  "dispatcher_config \<Rightarrow> dispatcher \<Rightarrow> dispatcher_event \<Rightarrow> relay_error + dispatcher" where
  "dispatcher_step cfg d ev = Inr (case ev of
     Job_enqueued job \<Rightarrow> enqueue_job (dc_max_depth cfg) job d
   | Worker_turn posts db \<Rightarrow> work_once (dc_decrypt cfg) (dc_slack_url cfg) (dc_backoff cfg) posts db d)"

definition new_dispatcher :: dispatcher where
  "new_dispatcher = \<lparr>dp_queue = [], dp_metrics = \<lparr>mt_enqueued = 0, mt_dispatched = 0, mt_succeeded = 0,
     mt_failed = 0, mt_retries = 0, mt_dropped = 0\<rparr>\<rparr>"

text \<open>No job is lost without being counted: a job taken over is in the queue or dispatched, a dispatched job is
  counted at most once as a success or a failure, and the retries counted are at most the posts allowed: one more
  per job than the schedule has waits.\<close>

definition dispatcher_ok :: "dispatcher_config \<Rightarrow> dispatcher \<Rightarrow> bool" where
  "dispatcher_ok cfg d \<longleftrightarrow> (let m = dp_metrics d in
     length (dp_queue d) \<le> dc_max_depth cfg
     \<and> mt_enqueued m = mt_dispatched m + length (dp_queue d)
     \<and> mt_succeeded m + mt_failed m \<le> mt_dispatched m
     \<and> mt_retries m \<le> mt_dispatched m * (length (dc_backoff cfg) + 1))"

lemma no_post_metrics:
  "no_post good reason m = (out, m', waits) \<Longrightarrow> mt_enqueued m' = mt_enqueued m \<and> mt_dispatched m' = mt_dispatched m
     \<and> mt_succeeded m' = mt_succeeded m \<and> mt_failed m' \<le> mt_failed m + 1 \<and> mt_retries m' = mt_retries m"
  by (auto simp: no_post_def fail_metric_def split: if_splits)

lemma dispatch_one_metrics:
  assumes "dispatch_one decrypt slack_url backoff posts db job m = (out, m', waits)"
  shows "mt_enqueued m' = mt_enqueued m \<and> mt_dispatched m' = mt_dispatched m
     \<and> mt_succeeded m' + mt_failed m' \<le> mt_succeeded m + mt_failed m + 1
     \<and> mt_retries m' \<le> mt_retries m + (length backoff + 1)"
proof (cases "\<exists>good reason. dispatch_one decrypt slack_url backoff posts db job m = no_post good reason m")
  case True
  then obtain good reason where "no_post good reason m = (out, m', waits)" using assms by metis
  from no_post_metrics [OF this] show ?thesis by auto
next
  case False
  then have "dispatch_one decrypt slack_url backoff posts db job m = post_loop backoff posts 0 None False m"
    by (auto simp: dispatch_one_def split: option.splits if_splits)
  then show ?thesis
    using post_loop_accounts [of 0 backoff m posts None False] assms
    by (auto simp: loop_accounts_def split: if_splits)
qed

text \<open>The account of one job.\<close>

definition job_accounted ::
  "int list \<Rightarrow> (nat \<Rightarrow> post_outcome) \<Rightarrow> metrics \<Rightarrow> dispatch_outcome \<times> metrics \<times> int list \<Rightarrow> bool" where
  "job_accounted backoff posts m r = (case r of (out, m', waits) \<Rightarrow>
     do_attempts out \<le> length backoff + 1 \<and> length waits \<le> do_attempts out
     \<and> mt_retries m' = mt_retries m + length waits
     \<and> (length waits \<le> length backoff
        \<or> length waits = length backoff + 1 \<and> do_attempts out = length backoff + 1
          \<and> do_ok out = False \<and> rate_limit_at posts (length backoff + 1)))"

lemma dispatched_job_accounted:
  "job_accounted backoff posts m (dispatch_one decrypt slack_url backoff posts db job m)"
proof (cases "\<exists>good reason. dispatch_one decrypt slack_url backoff posts db job m = no_post good reason m")
  case True
  then show ?thesis by (auto simp: job_accounted_def no_post_def fail_metric_def)
next
  case False
  then have loop: "dispatch_one decrypt slack_url backoff posts db job m = post_loop backoff posts 0 None False m"
    by (auto simp: dispatch_one_def split: option.splits if_splits)
  have "loop_accounts backoff 0 m (post_loop backoff posts 0 None False m)"
    and "waits_within backoff posts 0 (post_loop backoff posts 0 None False m)"
    by (simp_all add: post_loop_accounts post_loop_waits)
  then show ?thesis unfolding loop
    by (auto simp: job_accounted_def loop_accounts_def waits_within_def)
qed

lemma dispatcher_step_ok: "dispatcher_ok cfg d \<Longrightarrow> dispatcher_step cfg d ev = Inr d' \<Longrightarrow> dispatcher_ok cfg d'"
proof (cases ev)
  case (Job_enqueued job)
  assume "dispatcher_ok cfg d" "dispatcher_step cfg d ev = Inr d'"
  with Job_enqueued show ?thesis
    by (auto simp: dispatcher_step_def dispatcher_ok_def enqueue_job_def Let_def)
next
  case (Worker_turn posts db)
  assume ok: "dispatcher_ok cfg d" and step: "dispatcher_step cfg d ev = Inr d'"
  show ?thesis
  proof (cases "dp_queue d")
    case Nil
    with ok step Worker_turn show ?thesis by (auto simp: dispatcher_step_def work_once_def)
  next
    case (Cons job jobs)
    let ?m = "(dp_metrics d)\<lparr>mt_dispatched := mt_dispatched (dp_metrics d) + 1\<rparr>"
    obtain out m' waits where r: "dispatch_one (dc_decrypt cfg) (dc_slack_url cfg) (dc_backoff cfg) posts db job ?m = (out, m', waits)"
      by (metis prod_cases3)
    have "d' = d\<lparr>dp_queue := jobs, dp_metrics := m'\<rparr>"
      using step Worker_turn Cons r by (simp add: dispatcher_step_def work_once_def Let_def)
    with dispatch_one_metrics [OF r] ok Cons show ?thesis
      by (auto simp: dispatcher_ok_def Let_def)
  qed
qed

interpretation notifications: step_machine "dispatcher_step cfg" "dispatcher_ok cfg" for cfg
  by unfold_locales (rule dispatcher_step_ok)

text \<open>A rate limit on the last attempt is counted and waited for as a retry, but no post follows.\<close>

lemma retry_without_post:
  "post_loop [1000, 4000, 16000] (\<lambda>n. if n = 4 then Answered 429 False None else Answered 500 False None) 0 None False
     (dp_metrics new_dispatcher)
   = (\<lparr>do_ok = False, do_attempts = 4, do_status = Some 429, do_reason = Some ''max_attempts''\<rparr>,
      (dp_metrics new_dispatcher)\<lparr>mt_retries := 4, mt_failed := 1\<rparr>, [1000, 4000, 16000, 1000])"
  by code_simp

end
