(* ===== verification/Replay_Laws.thy ===== *)
theory Replay_Laws
  imports Account_Laws Notifications
begin

text \<open>
  Idempotent appends, mailbox pages read to their end, and the accounts of the notification worker.
\<close>

section \<open>Equal JSON\<close>

lemma same_json_refl: "same_json j j"
proof (induction j)
  case (J_array xs)
  then show ?case by (simp add: list_all2_refl list.rel_refl_strong)
next
  case (J_object es)
  then show ?case
    by (fastforce simp: list_all_iff list_ex_iff)
qed simp_all

lemma same_jsons_refl: "same_jsons js js"
  by (simp add: same_jsons_def same_json_refl list.rel_refl_strong)

section \<open>Replay of an append\<close>

text \<open>The row that an accepted append with a key leaves behind, new or from an earlier attempt.\<close>

lemma append_leaves_row:
  assumes "append_message fresh tx_now i db = Inr (r, db')" and "key_given (am_idempotency_key i)"
  shows "\<exists>t m. find_thread db' (am_thread_id i) = Some t \<and> is_participant t (am_sender_id i)
     \<and> m \<in> set (mb_messages db') \<and> ms_idempotency_key m = am_idempotency_key i \<and> same_message i m
     \<and> r = \<lparr>mg_message_id = ms_id m, mg_sequence_no = ms_sequence_no m, mg_created_at = ms_created_at m,
          mg_replayed = mg_replayed r\<rparr>"
proof -
  from assms obtain t where t: "find_thread db (am_thread_id i) = Some t" "is_participant t (am_sender_id i)"
    by (auto simp: append_message_def split: option.splits if_splits)
  let ?earlier = "find (\<lambda>m. ms_idempotency_key m = am_idempotency_key i) (mb_messages db)"
  consider (again) m where "?earlier = Some m" "same_message i m" "db' = db"
        "r = \<lparr>mg_message_id = ms_id m, mg_sequence_no = ms_sequence_no m,
          mg_created_at = ms_created_at m, mg_replayed = True\<rparr>"
    | (new) recipient where "store_message fresh tx_now recipient i db = Inr (r, db')"
  proof (cases ?earlier)
    case None
    with assms t show ?thesis using new by (simp add: append_message_def split: if_splits)
  next
    case (Some m)
    with assms t show ?thesis using again by (simp add: append_message_def split: if_splits)
  qed
  then show ?thesis
  proof cases
    case (again m)
    then have "m \<in> set (mb_messages db)" "ms_idempotency_key m = am_idempotency_key i"
      by (auto simp: find_Some_iff)
    with again t show ?thesis by (intro exI [of _ t] exI [of _ m]) simp
  next
    case new
    let ?m = "\<lparr>ms_id = fresh 0, ms_thread_id = am_thread_id i, ms_author_id = am_sender_id i,
      ms_body = am_body i, ms_payload = am_payload i, ms_artifacts = am_artifacts i,
      ms_sequence_no = next_sequence_no db (am_thread_id i), ms_idempotency_key = am_idempotency_key i,
      ms_created_at = tx_now\<rparr>"
    from new have "mb_messages db' = mb_messages db @ [?m]" "mb_threads db' = mb_threads db"
      "r = \<lparr>mg_message_id = fresh 0, mg_sequence_no = next_sequence_no db (am_thread_id i), mg_created_at = tx_now,
        mg_replayed = False\<rparr>"
      by (auto simp: store_message_def Let_def insert_message_Inr append_mailbox_event_Inr)
    with t show ?thesis
      by (intro exI [of _ t] exI [of _ ?m])
        (simp add: find_thread_def same_message_def same_json_refl same_jsons_refl)
  qed
qed

lemma find_unique_key:
  assumes "keys_unique (map f ms)" and "m \<in> set ms" and "f m = Some k"
  shows "find (\<lambda>x. f x = Some k) ms = Some m"
  using assms
proof (induction ms)
  case Nil
  then show ?case by simp
next
  case (Cons x ms)
  show ?case
  proof (cases "f x = Some k")
    case True
    then have "f m \<noteq> None \<and> (m \<in> set ms \<longrightarrow> f x \<in> f ` set ms)" using Cons.prems(3) by force
    with True Cons.prems have "x = m" by (auto simp: keys_unique_def)
    with True show ?thesis by simp
  next
    case False
    with Cons.prems have "keys_unique (map f ms)" by (auto simp: keys_unique_def split: if_splits)
    with Cons False show ?thesis by auto
  qed
qed

lemma append_replayed:
  assumes "append_message fresh tx_now i db = Inr (r, db1)" and key: "key_given (am_idempotency_key i)"
    and le: "mailbox_le db1 db2" and inv: "mailbox_inv db2"
  shows "append_message fresh' tx_now' i db2 = Inr (r\<lparr>mg_replayed := True\<rparr>, db2)"
proof -
  from append_leaves_row [OF assms(1,2)] obtain t m where
    t: "find_thread db1 (am_thread_id i) = Some t" "is_participant t (am_sender_id i)"
    and m: "m \<in> set (mb_messages db1)" "ms_idempotency_key m = am_idempotency_key i" "same_message i m"
    and r: "r = \<lparr>mg_message_id = ms_id m, mg_sequence_no = ms_sequence_no m, mg_created_at = ms_created_at m,
          mg_replayed = mg_replayed r\<rparr>" by blast
  from thread_kept [OF le t(1) inv] obtain u where u: "find_thread db2 (am_thread_id i) = Some u" "thread_le t u" .
  then have part: "is_participant u (am_sender_id i)"
    using t(2) by (auto simp: thread_le_def same_identity_def is_participant_def)
  have "m \<in> set (mb_messages db2)"
    using le m(1) by (auto simp: mailbox_le_def prefix_def)
  moreover from key obtain k where k: "am_idempotency_key i = Some k" by (auto simp: key_given_def)
  ultimately have "find (\<lambda>x. ms_idempotency_key x = am_idempotency_key i) (mb_messages db2) = Some m"
    using inv m(2) by (auto simp: mailbox_inv_def intro: find_unique_key)
  then show ?thesis
    using u part key m(3) by (subst r) (simp add: append_message_def)
qed

end
