(* ===== verification/Trust_Policy.thy ===== *)
theory Trust_Policy
  imports Bounded_Json
begin

text \<open>
  The local trust policy of an agent: \<^verbatim>\<open>mcp-server/src/trust.ts\<close> (the decision for a sender),
  \<^verbatim>\<open>mcp-server/src/cli/trust-mutate.ts\<close> (the changes of the command line),
  \<^verbatim>\<open>mcp-server/src/connector/pickup.ts\<close> and the consent check of \<^verbatim>\<open>mcp-server/src/live/command.ts\<close>.
\<close>

section \<open>Plain objects\<close>

text \<open>A lookup in a plain JavaScript object also finds what the object inherits.  The names that
  \<open>Object.prototype\<close> defines give a value that is no entry of the program and is truthy.\<close>

definition object_prototype_names :: "jstext list" where
  "object_prototype_names = map text_of
     [''constructor'', ''__defineGetter__'', ''__defineSetter__'', ''hasOwnProperty'', ''__lookupGetter__'',
      ''__lookupSetter__'', ''isPrototypeOf'', ''propertyIsEnumerable'', ''toString'', ''valueOf'', ''__proto__'',
      ''toLocaleString'']"

datatype 'v property_value = Own 'v | Inherited | Absent

definition get_property :: "(jstext \<times> 'v) list \<Rightarrow> jstext \<Rightarrow> 'v property_value" where
  "get_property obj k = (case map_of obj k of
     Some v \<Rightarrow> Own v | None \<Rightarrow> if k \<in> set object_prototype_names then Inherited else Absent)"

section \<open>The policy file\<close>

record trust_entry =
  te_auto_pickup :: "bool option"
  te_auto_read :: "bool option"
  te_auto_test :: "bool option"
  te_auto_write_paths :: "jstext list option"
  te_require_approval :: "jstext list option"

datatype unknown_policy = Reject_unknown | Allow_with_default_trust

record trust_file =
  tf_teammates :: "(jstext \<times> trust_entry) list"
  tf_unknown :: unknown_policy
  tf_blocked :: "jstext list"
  tf_defaults :: trust_entry

record trust_overlay =
  ov_auto_pickup :: bool
  ov_auto_read :: bool
  ov_auto_test :: bool
  ov_auto_write_paths :: "jstext list"
  ov_require_approval :: "jstext list"

datatype reject_reason = Sender_blocked | Unknown_rejected
datatype overlay_source = Listed | From_defaults
datatype overlay_decision = Reject reject_reason | Allow trust_overlay overlay_source

definition safe_overlay :: trust_overlay where
  "safe_overlay = \<lparr>ov_auto_pickup = False, ov_auto_read = False, ov_auto_test = False, ov_auto_write_paths = [],
     ov_require_approval = map text_of [''Edit'', ''Write'', ''Bash'']\<rparr>"

definition empty_entry :: trust_entry where
  "empty_entry = \<lparr>te_auto_pickup = None, te_auto_read = None, te_auto_test = None, te_auto_write_paths = None,
     te_require_approval = None\<rparr>"

text \<open>The policy without a file: unknown teammates are rejected, every tool needs approval.\<close>

definition fallback_trust :: trust_file where
  "fallback_trust = \<lparr>tf_teammates = [], tf_unknown = Reject_unknown, tf_blocked = [],
     tf_defaults = \<lparr>te_auto_pickup = None, te_auto_read = Some False, te_auto_test = Some False,
       te_auto_write_paths = Some [], te_require_approval = Some (map text_of [''Edit'', ''Write'', ''Bash''])\<rparr>\<rparr>"

section \<open>The decision\<close>

text \<open>\<open>pickBool\<close> and \<open>pickArr\<close>: the first candidate that is there.\<close>

fun pick_first :: "'a option list \<Rightarrow> 'a \<Rightarrow> 'a" where
  "pick_first [] d = d"
| "pick_first (Some x # cs) d = x"
| "pick_first (None # cs) d = pick_first cs d"

definition merge_entries :: "trust_entry option \<Rightarrow> trust_entry \<Rightarrow> bool \<Rightarrow> trust_overlay" where
  "merge_entries base over auto_pickup =
     \<lparr>ov_auto_pickup = auto_pickup,
      ov_auto_read = pick_first [te_auto_read over, Option.bind base te_auto_read] (ov_auto_read safe_overlay),
      ov_auto_test = pick_first [te_auto_test over, Option.bind base te_auto_test] (ov_auto_test safe_overlay),
      ov_auto_write_paths = pick_first [te_auto_write_paths over, Option.bind base te_auto_write_paths]
        (ov_auto_write_paths safe_overlay),
      ov_require_approval = pick_first [te_require_approval over, Option.bind base te_require_approval]
        (ov_require_approval safe_overlay)\<rparr>"

definition compute_overlay :: "trust_file \<Rightarrow> jstext \<Rightarrow> overlay_decision" where
  "compute_overlay t sender =
     (if sender \<in> set (tf_blocked t) then Reject Sender_blocked
      else case get_property (tf_teammates t) sender of
        Own entry \<Rightarrow> Allow (merge_entries (Some (tf_defaults t)) entry (te_auto_pickup entry = Some True)) Listed
      | Inherited \<Rightarrow> Allow (merge_entries (Some (tf_defaults t)) empty_entry False) Listed
      | Absent \<Rightarrow>
          if tf_unknown t = Reject_unknown then Reject Unknown_rejected
          else Allow (merge_entries None (tf_defaults t) False) From_defaults)"

text \<open>\<open>isPathAutoWritable\<close>\<close>

definition slash :: "16 word" where
  "slash = 47"

definition strip_leading_slash :: "jstext \<Rightarrow> jstext" where
  "strip_leading_slash s = (case s of [] \<Rightarrow> [] | c # cs \<Rightarrow> if c = slash then cs else s)"

definition is_path_auto_writable :: "trust_overlay \<Rightarrow> jstext \<Rightarrow> bool" where
  "is_path_auto_writable o1 path =
     (let normalized = strip_leading_slash path in
      list_ex (\<lambda>pattern. let p = strip_leading_slash pattern in
        if p \<noteq> [] \<and> last p = slash then normalized = butlast p \<or> prefix p normalized else normalized = p)
        (ov_auto_write_paths o1))"

section \<open>Consent\<close>

record attention_request =
  ar_event_id :: string
  ar_thread_id :: string

definition plan_auto_pickup :: "trust_file \<Rightarrow> string \<Rightarrow> string \<Rightarrow> jstext \<Rightarrow> attention_request option" where
  "plan_auto_pickup t event_id thread_id sender =
     (case get_property (tf_teammates t) sender of
        Own entry \<Rightarrow>
          if te_auto_pickup entry \<noteq> Some True then None
          else (case compute_overlay t sender of
                  Reject r \<Rightarrow> None
                | Allow ov source \<Rightarrow>
                    if ov_auto_pickup ov then Some \<lparr>ar_event_id = event_id, ar_thread_id = thread_id\<rparr> else None)
      | _ \<Rightarrow> None)"

text \<open>\<open>assertLiveConsent\<close>\<close>

definition live_consent :: "trust_file option \<Rightarrow> jstext \<Rightarrow> bool" where
  "live_consent loaded peer = (case loaded of None \<Rightarrow> False
   | Some t \<Rightarrow> (case compute_overlay t peer of
        Allow ov Listed \<Rightarrow> ov_auto_pickup ov \<and> ov_auto_read ov | _ \<Rightarrow> False))"

section \<open>Changes\<close>

text \<open>\<open>sort()\<close> orders strings by their code units.  An assignment to \<open>__proto__\<close> makes no entry.\<close>

definition block_teammate :: "trust_file \<Rightarrow> jstext \<Rightarrow> trust_file \<times> bool" where
  "block_teammate t h =
     (if h \<in> set (tf_blocked t) then (t, False)
      else (t\<lparr>tf_blocked := sort_key (map unat) (tf_blocked t @ [h])\<rparr>, True))"

definition unblock_teammate :: "trust_file \<Rightarrow> jstext \<Rightarrow> trust_file \<times> bool" where
  "unblock_teammate t h =
     (if h \<notin> set (tf_blocked t) then (t, False)
      else (t\<lparr>tf_blocked := filter (\<lambda>x. x \<noteq> h) (tf_blocked t)\<rparr>, True))"

definition or_else :: "'a option \<Rightarrow> 'a option \<Rightarrow> 'a option" where
  "or_else a b = (case a of None \<Rightarrow> b | Some x \<Rightarrow> Some x)"

definition set_teammate :: "trust_file \<Rightarrow> jstext \<Rightarrow> trust_entry \<Rightarrow> trust_file" where
  "set_teammate t h u =
     (let existing = (case get_property (tf_teammates t) h of Own e \<Rightarrow> e | _ \<Rightarrow> empty_entry) in
      if h = text_of ''__proto__'' then t
      else t\<lparr>tf_teammates := AList.update h
        \<lparr>te_auto_pickup = or_else (te_auto_pickup u) (te_auto_pickup existing),
         te_auto_read = or_else (te_auto_read u) (te_auto_read existing),
         te_auto_test = or_else (te_auto_test u) (te_auto_test existing),
         te_auto_write_paths = or_else (te_auto_write_paths u) (te_auto_write_paths existing),
         te_require_approval = or_else (te_require_approval u) (te_require_approval existing)\<rparr> (tf_teammates t)\<rparr>)"

definition reset_teammate :: "trust_file \<Rightarrow> jstext \<Rightarrow> trust_file \<times> bool" where
  "reset_teammate t h =
     (case get_property (tf_teammates t) h of
        Own e \<Rightarrow> (t\<lparr>tf_teammates := AList.delete h (tf_teammates t)\<rparr>, True)
      | Inherited \<Rightarrow> (t, True)
      | Absent \<Rightarrow> (t, False))"

section \<open>Laws\<close>

lemma blocked_rejected: "sender \<in> set (tf_blocked t) \<Longrightarrow> compute_overlay t sender = Reject Sender_blocked"
  by (simp add: compute_overlay_def)

lemma block_teammate_rejects: "compute_overlay (fst (block_teammate t h)) h = Reject Sender_blocked"
  by (simp add: compute_overlay_def block_teammate_def)

text \<open>Pickup needs the entry of exactly this sender: defaults and the policy for unknown senders give none.\<close>

lemma plan_auto_pickup_Some:
  "plan_auto_pickup t event_id thread_id sender = Some r \<longleftrightarrow>
     sender \<notin> set (tf_blocked t) \<and> (\<exists>e. map_of (tf_teammates t) sender = Some e \<and> te_auto_pickup e = Some True)
     \<and> r = \<lparr>ar_event_id = event_id, ar_thread_id = thread_id\<rparr>"
  by (auto simp: plan_auto_pickup_def get_property_def compute_overlay_def merge_entries_def
      split: option.splits if_splits)

lemma live_consent_iff:
  "live_consent (Some t) peer \<longleftrightarrow> sender_ok t peer"
  if "sender_ok = (\<lambda>t p. p \<notin> set (tf_blocked t)
     \<and> (\<exists>e. map_of (tf_teammates t) p = Some e \<and> te_auto_pickup e = Some True
          \<and> pick_first [te_auto_read e, te_auto_read (tf_defaults t)] False))"
  unfolding that
  by (auto simp: live_consent_def compute_overlay_def get_property_def merge_entries_def safe_overlay_def
      split: option.splits if_splits)

text \<open>A sender that the policy does not list is still let through when its handle is the name of a property
  that every object inherits.\<close>

lemma inherited_name_allowed:
  "compute_overlay fallback_trust (text_of ''constructor'') = Allow safe_overlay Listed"
  by code_simp

lemma unlisted_rejected:
  "compute_overlay t sender \<noteq> Reject Unknown_rejected \<Longrightarrow> tf_unknown t = Reject_unknown
   \<Longrightarrow> sender \<in> set (tf_blocked t) \<or> sender \<in> fst ` set (tf_teammates t) \<or> sender \<in> set object_prototype_names"
  by (auto simp: compute_overlay_def get_property_def map_of_eq_None_iff split: option.splits if_splits)
    (metis domI domIff image_eqI fst_conv map_of_SomeD)

end
