(* ===== verification/Connector.thy ===== *)
theory Connector
  imports Mailbox_Laws Trust_Policy
begin

text \<open>
  The connector that watches a mailbox for a local runtime: \<^verbatim>\<open>mcp-server/src/connector/state.ts\<close> (the saved
  cursor and the pickups), \<^verbatim>\<open>mcp-server/src/connector/event-client.ts\<close> (a replay page) and
  \<^verbatim>\<open>mcp-server/src/connector/watch.ts\<close> (the handling of an event and the draining of the mailbox).
\<close>

section \<open>Saved state\<close>

text \<open>Streams and pickups are keyed by hashes of the relay, the agent, the sender and the thread.\<close>

record pickup_state =
  pu_last_event_id :: uuid
  pu_last_queued_at :: timestamp

record connector_state =
  cn_streams :: "(string \<times> string) list"
  cn_pickups :: "(string \<times> pickup_state) list"

record watch_config =
  wc_lib :: host_lib
  wc_coalesce_ms :: int
  wc_stream_key :: string
  wc_pickup_key :: "jstext \<Rightarrow> uuid \<Rightarrow> string"

datatype pickup_decision = Queue_pickup | Duplicate_pickup | Coalesced_pickup

datatype watch_error =
  Trust_unavailable | Target_changed | Enqueue_failed | Persist_failed | Not_cursor_ordered | Bad_reference | Page_refused

definition connector_cursor :: "watch_config \<Rightarrow> connector_state \<Rightarrow> string option" where
  "connector_cursor cfg st = map_of (cn_streams st) (wc_stream_key cfg)"

definition reference_ok :: "watch_config \<Rightarrow> mailbox_event \<Rightarrow> bool" where
  "reference_ok cfg e \<longleftrightarrow> me_actor_handle e \<noteq> [] \<and> uuid_format (wc_lib cfg) (me_thread_id e)
     \<and> uuid_format (wc_lib cfg) (me_event_id e)"

text \<open>\<open>connectorPickupDecision\<close>; an unreadable date makes the elapsed time NaN, which is not below the limit.\<close>

definition pickup_decision_of :: "watch_config \<Rightarrow> int \<Rightarrow> connector_state \<Rightarrow> mailbox_event \<Rightarrow> watch_error + pickup_decision" where
  "pickup_decision_of cfg now st e =
     (if \<not> reference_ok cfg e then Inl Bad_reference
      else Inr (case map_of (cn_pickups st) (wc_pickup_key cfg (me_actor_handle e) (me_thread_id e)) of
        None \<Rightarrow> Queue_pickup
      | Some p \<Rightarrow>
          if pu_last_event_id p = me_event_id e then Duplicate_pickup
          else (case date_parse (wc_lib cfg) (pu_last_queued_at p) of
                  None \<Rightarrow> Queue_pickup
                | Some t \<Rightarrow> if now - t < wc_coalesce_ms cfg then Coalesced_pickup else Queue_pickup)))"

text \<open>\<open>persistConnectorProgress\<close>: the cursor and, after an enqueue, the pickup.\<close>

definition saved_progress :: "watch_config \<Rightarrow> int \<Rightarrow> bool \<Rightarrow> mailbox_event \<Rightarrow> connector_state \<Rightarrow> connector_state" where
  "saved_progress cfg now queued e st =
     \<lparr>cn_streams = AList.update (wc_stream_key cfg) (me_cursor e) (cn_streams st),
      cn_pickups = (if queued
        then AList.update (wc_pickup_key cfg (me_actor_handle e) (me_thread_id e))
          \<lparr>pu_last_event_id = me_event_id e, pu_last_queued_at = to_iso_string now\<rparr> (cn_pickups st)
        else cn_pickups st)\<rparr>"

section \<open>One event\<close>

text \<open>What the process meets while it handles an event: the trust file (none if it cannot be read), whether the
  bound target is still valid, whether the runtime takes the request, whether the state can be written, the clock.\<close>

record event_world =
  ew_trust :: "trust_file option"
  ew_target_ok :: bool
  ew_enqueue_ok :: bool
  ew_persist_ok :: bool
  ew_now :: int

record watch_state =
  wa_saved :: connector_state
  wa_cursor :: "string option"
  wa_queued :: "attention_request list"

definition persist_cursor ::
  "watch_config \<Rightarrow> event_world \<Rightarrow> bool \<Rightarrow> mailbox_event \<Rightarrow> watch_state \<Rightarrow> watch_state \<times> watch_error option" where
  "persist_cursor cfg w queued e st =
     (if \<not> mailbox_cursor_ok (me_cursor e) \<or> \<not> ew_persist_ok w then (st, Some Persist_failed)
      else (st\<lparr>wa_saved := saved_progress cfg (ew_now w) queued e (wa_saved st), wa_cursor := Some (me_cursor e)\<rparr>, None))"

definition activation_kind :: "mailbox_event_kind \<Rightarrow> bool" where
  "activation_kind k \<longleftrightarrow> k = Event_thread_created \<or> k = Event_message_appended"

definition queue_attention ::
  "watch_config \<Rightarrow> event_world \<Rightarrow> attention_request \<Rightarrow> mailbox_event \<Rightarrow> watch_state \<Rightarrow> watch_state \<times> watch_error option" where
  "queue_attention cfg w request e st =
     (if \<not> ew_target_ok w then (st, Some Target_changed)
      else case pickup_decision_of cfg (ew_now w) (wa_saved st) e of
        Inl err \<Rightarrow> (st, Some err)
      | Inr Queue_pickup \<Rightarrow>
          if \<not> ew_enqueue_ok w then (st, Some Enqueue_failed)
          else persist_cursor cfg w True e (st\<lparr>wa_queued := wa_queued st @ [request]\<rparr>)
      | Inr _ \<Rightarrow> persist_cursor cfg w False e st)"

definition already_seen :: "watch_state \<Rightarrow> mailbox_event \<Rightarrow> bool" where
  "already_seen st e \<longleftrightarrow> (case wa_cursor st of
     None \<Rightarrow> False | Some c \<Rightarrow> decimal_value (me_cursor e) \<le> decimal_value c)"

definition process_event ::
  "watch_config \<Rightarrow> event_world \<Rightarrow> mailbox_event \<Rightarrow> watch_state \<Rightarrow> watch_state \<times> watch_error option" where
  "process_event cfg w e st =
     (if already_seen st e then (st, None)
      else if \<not> activation_kind (me_kind e) then persist_cursor cfg w False e st
      else case ew_trust w of
        None \<Rightarrow> (st, Some Trust_unavailable)
      | Some trust \<Rightarrow>
         (case plan_auto_pickup trust (me_event_id e) (me_thread_id e) (me_actor_handle e) of
            None \<Rightarrow> persist_cursor cfg w False e st
          | Some request \<Rightarrow> queue_attention cfg w request e st))"

section \<open>Draining\<close>

text \<open>\<open>client.list\<close>: the page of the Relay, which the client's schema checks.  The formats of ids and dates are
  those of the database.\<close>

definition client_list :: "mailbox_db \<Rightarrow> uuid \<Rightarrow> string option \<Rightarrow> nat \<Rightarrow> mailbox_event list option" where
  "client_list db me after limit =
     (case get_mailbox_events me after (Some (int limit)) db of
        Inl e \<Rightarrow> None
      | Inr page \<Rightarrow>
          if list_all (\<lambda>e. length_between 1 120 (me_actor_handle e)) (mp_events page) then Some (mp_events page) else None)"

text \<open>\<open>world\<close> gives for each event what its handling meets.\<close>

fun process_page ::
  "watch_config \<Rightarrow> (mailbox_event \<Rightarrow> event_world) \<Rightarrow> nat \<Rightarrow> mailbox_event list \<Rightarrow> watch_state
    \<Rightarrow> watch_state \<times> watch_error option" where
  "process_page cfg world previous [] st = (st, None)"
| "process_page cfg world previous (e # es) st =
     (if decimal_value (me_cursor e) \<le> previous then (st, Some Not_cursor_ordered)
      else case process_event cfg (world e) e st of
        (st', Some err) \<Rightarrow> (st', Some err)
      | (st', None) \<Rightarrow> process_page cfg world (decimal_value (me_cursor e)) es st')"

definition page_start :: "watch_state \<Rightarrow> nat" where
  "page_start st = (case wa_cursor st of None \<Rightarrow> 0 | Some c \<Rightarrow> decimal_value c)"

text \<open>The loop of \<open>drain\<close>; the first argument bounds its turns.\<close>

fun drain ::
  "nat \<Rightarrow> watch_config \<Rightarrow> (mailbox_event \<Rightarrow> event_world) \<Rightarrow> mailbox_db \<Rightarrow> uuid \<Rightarrow> watch_state
    \<Rightarrow> (watch_state \<times> watch_error option) option" where
  "drain 0 cfg world db me st = None"
| "drain (Suc fuel) cfg world db me st =
     (case client_list db me (wa_cursor st) 100 of
        None \<Rightarrow> Some (st, Some Page_refused)
      | Some events \<Rightarrow>
          if events = [] then Some (st, None)
          else (case process_page cfg world (page_start st) events st of
                  (st', Some err) \<Rightarrow> Some (st', Some err)
                | (st', None) \<Rightarrow> if length events < 100 then Some (st', None) else drain fuel cfg world db me st'))"

text \<open>The specification: the events one after the other, until one fails.\<close>

fun process_events ::
  "watch_config \<Rightarrow> (mailbox_event \<Rightarrow> event_world) \<Rightarrow> mailbox_event list \<Rightarrow> watch_state \<Rightarrow> watch_state \<times> watch_error option" where
  "process_events cfg world [] st = (st, None)"
| "process_events cfg world (e # es) st =
     (case process_event cfg (world e) e st of
        (st', Some err) \<Rightarrow> (st', Some err) | (st', None) \<Rightarrow> process_events cfg world es st')"

section \<open>The loop of the watch\<close>

text \<open>\<open>isPermanentClientError\<close> and the wait before the next connection.\<close>

definition is_permanent_client_error :: "int \<Rightarrow> bool" where
  "is_permanent_client_error status \<longleftrightarrow> 400 \<le> status \<and> status < 500 \<and> status \<noteq> 408 \<and> status \<noteq> 429"

definition next_retry_ms :: "int \<Rightarrow> int" where
  "next_retry_ms retry = min (retry * 2) 10000"

end
