(* ===== verification/Connector_Laws.thy ===== *)
theory Connector_Laws
  imports Connector Cursors
begin

text \<open>
  Draining a mailbox page by page is one pass over the events that the Relay holds after the saved cursor, and
  it ends; attention is queued for consenting senders only.
\<close>

section \<open>The log of a recipient\<close>

definition log_after :: "mailbox_db \<Rightarrow> uuid \<Rightarrow> string option \<Rightarrow> mailbox_event list" where
  "log_after db me after =
     map mailbox_event_of (mailbox_rows db me (map_option (\<lambda>s. int (decimal_value s)) after))"

definition rows_of :: "mailbox_db \<Rightarrow> uuid \<Rightarrow> int option \<Rightarrow> mailbox_event_row list" where
  "rows_of db me after = filter (\<lambda>e. mv_recipient_id e = me
     \<and> (case after of None \<Rightarrow> True | Some c \<Rightarrow> mv_cursor e > c)) (mb_events db)"

lemma one_account:
  assumes "distinct (map ac_id accounts)" and "a \<in> set accounts"
  shows "filter (\<lambda>x. ac_id x = ac_id a) accounts = [a]"
  using assms
proof (induction accounts)
  case (Cons x xs)
  then show ?case by (cases "x = a") (auto simp: filter_empty_conv rev_image_eqI)
qed simp

lemma find_of_filter: "filter P xs = [a] \<Longrightarrow> find P xs = Some a"
  by (induction xs) (auto split: if_splits)

lemma account_of_actor:
  assumes "mailbox_inv db" and "e \<in> set (mb_events db)"
  shows "filter (\<lambda>a. ac_id a = mv_actor_id e) (mb_accounts db) = [the (find_account db (mv_actor_id e))]"
proof -
  from assms obtain a where a: "a \<in> set (mb_accounts db)" "ac_id a = mv_actor_id e"
    by (auto simp: mailbox_inv_def events_ordered_def account_exists_iff)
  with assms(1) have f: "filter (\<lambda>x. ac_id x = mv_actor_id e) (mb_accounts db) = [a]"
    using one_account [of "mb_accounts db" a] by (simp add: mailbox_inv_def)
  then have "find_account db (mv_actor_id e) = Some a"
    unfolding find_account_def by (rule find_of_filter)
  with f show ?thesis by simp
qed

lemma mailbox_rows_inv:
  assumes "mailbox_inv db"
  shows "mailbox_rows db me after = map (\<lambda>e. (e, the (find_account db (mv_actor_id e)))) (rows_of db me after)"
proof -
  have sorted: "sorted_wrt (<) (map mv_cursor (rows_of db me after))"
    using assms unfolding rows_of_def mailbox_inv_def events_ordered_def
    by (simp add: sorted_wrt_map sorted_wrt_filter)
  have "concat (map (\<lambda>e. map (\<lambda>a. (e, a)) (filter (\<lambda>a. ac_id a = mv_actor_id e) (mb_accounts db))) (rows_of db me after))
      = concat (map (\<lambda>e. [(e, the (find_account db (mv_actor_id e)))]) (rows_of db me after))"
    using account_of_actor [OF assms] by (intro arg_cong [where f = concat] map_cong) (auto simp: rows_of_def)
  then have joined: "concat (map (\<lambda>e. map (\<lambda>a. (e, a)) (filter (\<lambda>a. ac_id a = mv_actor_id e) (mb_accounts db)))
      (rows_of db me after)) = map (\<lambda>e. (e, the (find_account db (mv_actor_id e)))) (rows_of db me after)"
    by simp
  have "sorted (map (\<lambda>(e, a). mv_cursor e) (map (\<lambda>e. (e, the (find_account db (mv_actor_id e)))) (rows_of db me after)))"
    using sorted by (simp add: comp_def strict_sorted_imp_sorted)
  then show ?thesis
    using joined unfolding mailbox_rows_def rows_of_def by (simp add: sort_key_id_if_sorted)
qed

lemma log_after_inv:
  assumes "mailbox_inv db"
  shows "log_after db me after = map (\<lambda>e. mailbox_event_of (e, the (find_account db (mv_actor_id e))))
    (rows_of db me (map_option (\<lambda>s. int (decimal_value s)) after))"
  by (simp add: log_after_def mailbox_rows_inv [OF assms])

lemma me_cursor_of [simp]: "me_cursor (mailbox_event_of (e, a)) = string_of_int (mv_cursor e)"
  by (simp add: mailbox_event_of_def)

lemma event_cursor_value:
  assumes "mailbox_inv db" and "e \<in> set (mb_events db)"
  shows "int (decimal_value (string_of_int (mv_cursor e))) = mv_cursor e"
  using assms by (auto simp: mailbox_inv_def events_ordered_def)

lemma log_increasing:
  assumes "mailbox_inv db"
  shows "sorted_wrt (<) (map (\<lambda>e. decimal_value (me_cursor e)) (log_after db me after))"
proof -
  have "sorted_wrt (<) (map mv_cursor (rows_of db me c))" for c
    using assms unfolding rows_of_def mailbox_inv_def events_ordered_def
    by (simp add: sorted_wrt_map sorted_wrt_filter)
  moreover have "map (\<lambda>e. int (decimal_value (string_of_int (mv_cursor e)))) (rows_of db me c) = map mv_cursor (rows_of db me c)" for c
    using event_cursor_value [OF assms] by (auto simp: rows_of_def)
  ultimately have "sorted_wrt (<) (map (\<lambda>e. int (decimal_value (string_of_int (mv_cursor e)))) (rows_of db me c))" for c
    by (simp only:)
  then show ?thesis
    by (simp add: log_after_inv [OF assms] sorted_wrt_map)
qed

text \<open>After the last event of a page come the events that the page did not reach.\<close>

lemma filter_beyond:
  fixes f :: "'a \<Rightarrow> 'b::linorder"
  assumes "sorted_wrt (<) (map f xs)" and "n < length xs"
  shows "filter (\<lambda>x. f (xs ! n) < f x) xs = drop (Suc n) xs"
proof -
  have "xs = take (Suc n) xs @ drop (Suc n) xs" by simp
  moreover have "filter (\<lambda>x. f (xs ! n) < f x) (take (Suc n) xs) = []"
  proof -
    have "\<not> f (xs ! n) < f x" if "x \<in> set (take (Suc n) xs)" for x
    proof -
      from that obtain k where "k \<le> n" "xs ! k = x" by (auto simp: in_set_conv_nth less_Suc_eq_le)
      then show ?thesis
        using assms by (cases "k = n") (auto simp: sorted_wrt_iff_nth_less not_less less_imp_le)
    qed
    then show ?thesis by (simp add: filter_empty_conv)
  qed
  moreover have "filter (\<lambda>x. f (xs ! n) < f x) (drop (Suc n) xs) = drop (Suc n) xs"
  proof -
    have "f (xs ! n) < f x" if "x \<in> set (drop (Suc n) xs)" for x
    proof -
      from that obtain k where "k < length xs - Suc n" "xs ! (Suc n + k) = x"
        by (auto simp: in_set_conv_nth)
      then have k: "Suc n + k < length xs" "xs ! (Suc n + k) = x" by simp_all
      then have "map f xs ! n < map f xs ! (Suc n + k)" by (intro sorted_wrt_nth_less [OF assms(1)]) simp_all
      with k show ?thesis by simp
    qed
    then show ?thesis by (simp add: filter_id_conv)
  qed
  ultimately show ?thesis by (metis append_Nil filter_append)
qed

lemma log_after_drop:
  assumes inv: "mailbox_inv db" and "n < length (log_after db me after)"
  shows "log_after db me (Some (me_cursor (log_after db me after ! n))) = drop (Suc n) (log_after db me after)"
proof -
  let ?c = "map_option (\<lambda>s. int (decimal_value s)) after"
  let ?rows = "rows_of db me ?c"
  let ?view = "\<lambda>e. mailbox_event_of (e, the (find_account db (mv_actor_id e)))"
  have n: "n < length ?rows" using assms(2) by (simp add: log_after_inv [OF inv])
  then have mem: "?rows ! n \<in> set (mb_events db)" using nth_mem [OF n] by (simp add: rows_of_def)
  have sorted: "sorted_wrt (<) (map mv_cursor ?rows)"
    using inv unfolding rows_of_def mailbox_inv_def events_ordered_def
    by (simp add: sorted_wrt_map sorted_wrt_filter)
  have "case c of None \<Rightarrow> True | Some v \<Rightarrow> v < mv_cursor x" if "x \<in> set (rows_of db me c)" for x c
    using that by (simp add: rows_of_def)
  from this [OF nth_mem [OF n]] have after_c: "case ?c of None \<Rightarrow> True | Some c \<Rightarrow> c < mv_cursor (?rows ! n)" .
  have "rows_of db me (Some (mv_cursor (?rows ! n))) = filter (\<lambda>e. mv_cursor (?rows ! n) < mv_cursor e) ?rows"
    using after_c by (auto simp: rows_of_def intro!: filter_cong split: option.splits)
  also have "\<dots> = drop (Suc n) ?rows" using sorted n by (rule filter_beyond)
  finally show ?thesis
    using n event_cursor_value [OF inv mem] by (simp add: log_after_inv [OF inv] drop_map)
qed

section \<open>One event\<close>

lemma persist_None:
  "persist_cursor cfg w queued e st = (st', None) \<Longrightarrow> wa_cursor st' = Some (me_cursor e) \<and> mailbox_cursor_ok (me_cursor e)"
  by (auto simp: persist_cursor_def split: if_splits)

lemma process_event_None:
  "process_event cfg w e st = (st', None) \<Longrightarrow> \<not> already_seen st e
   \<Longrightarrow> wa_cursor st' = Some (me_cursor e) \<and> mailbox_cursor_ok (me_cursor e)"
  by (auto simp: process_event_def queue_attention_def dest: persist_None
      split: if_splits option.splits sum.splits pickup_decision.splits)

lemma not_seen: "page_start st < decimal_value (me_cursor e) \<Longrightarrow> \<not> already_seen st e"
  by (auto simp: page_start_def already_seen_def split: option.splits)

section \<open>One page\<close>

lemma page_is_pass:
  assumes "sorted_wrt (<) (map (\<lambda>e. decimal_value (me_cursor e)) es)"
    and "\<And>e. e \<in> set es \<Longrightarrow> page_start st < decimal_value (me_cursor e)"
  shows "process_page cfg world (page_start st) es st = process_events cfg world es st"
    and "process_events cfg world es st = (st', None) \<Longrightarrow> es \<noteq> [] \<Longrightarrow> wa_cursor st' = Some (me_cursor (last es)) \<and> mailbox_cursor_ok (me_cursor (last es))"
proof -
  have "process_page cfg world (page_start st) es st = process_events cfg world es st
    \<and> (\<forall>st'. process_events cfg world es st = (st', None) \<longrightarrow> es \<noteq> [] \<longrightarrow> wa_cursor st' = Some (me_cursor (last es)) \<and> mailbox_cursor_ok (me_cursor (last es)))"
    using assms
  proof (induction es arbitrary: st)
    case Nil
    then show ?case by simp
  next
    case (Cons e es)
    obtain st1 r where r: "process_event cfg (world e) e st = (st1, r)" by fastforce
    have seen: "\<not> already_seen st e" and pos: "\<not> decimal_value (me_cursor e) \<le> page_start st"
      using Cons.prems(2) [of e] not_seen by auto
    show ?case
    proof (cases r)
      case (Some err)
      with r pos show ?thesis by simp
    next
      case None
      with r seen have c: "wa_cursor st1 = Some (me_cursor e)" "mailbox_cursor_ok (me_cursor e)" by (auto dest: process_event_None)
      then have start: "page_start st1 = decimal_value (me_cursor e)" by (simp add: page_start_def)
      then have "\<And>x. x \<in> set es \<Longrightarrow> page_start st1 < decimal_value (me_cursor x)"
        using Cons.prems(1) by auto
      note IH = Cons.IH [of st1, OF _ this]
      show ?thesis
        using IH Cons.prems(1) r None pos c start by (cases "es = []") auto
    qed
  qed
  then show "process_page cfg world (page_start st) es st = process_events cfg world es st"
    and "process_events cfg world es st = (st', None) \<Longrightarrow> es \<noteq> [] \<Longrightarrow> wa_cursor st' = Some (me_cursor (last es)) \<and> mailbox_cursor_ok (me_cursor (last es))"
    by auto
qed

lemma process_events_append:
  "process_events cfg world (xs @ ys) st =
     (case process_events cfg world xs st of
        (st', Some err) \<Rightarrow> (st', Some err) | (st', None) \<Rightarrow> process_events cfg world ys st')"
  by (induction xs arbitrary: st) (auto split: prod.splits option.splits)

section \<open>Draining\<close>

definition cursor_usable :: "watch_state \<Rightarrow> bool" where
  "cursor_usable st \<longleftrightarrow> (case wa_cursor st of None \<Rightarrow> True | Some c \<Rightarrow> mailbox_cursor_ok c)"

text \<open>The client's schema bounds the handle of an event; the Relay does not, so a page can be refused.\<close>

abbreviation readable_event :: "mailbox_event \<Rightarrow> bool" where
  "readable_event e \<equiv> length_between 1 120 (me_actor_handle e)"

lemma client_list_log:
  assumes "case after of None \<Rightarrow> True | Some c \<Rightarrow> mailbox_cursor_ok c"
  shows "client_list db me after 100 =
    (if list_all readable_event (take 100 (log_after db me after)) then Some (take 100 (log_after db me after)) else None)"
  using assms
  by (auto simp: client_list_def get_mailbox_events_def list_mailbox_events_def log_after_def take_map Let_def
      default_to_def split: option.splits)

text \<open>The events before the first page of a hundred that the client refuses.\<close>

function readable_pages :: "mailbox_event list \<Rightarrow> mailbox_event list" where
  "readable_pages es =
     (if es = [] \<or> \<not> list_all readable_event (take 100 es) then []
      else take 100 es @ readable_pages (drop 100 es))"
  by pat_completeness auto

termination
  by (relation "measure length") auto

declare readable_pages.simps [simp del]

lemma readable_pages_prefix: "\<exists>rest. es = readable_pages es @ rest"
proof (induction es rule: readable_pages.induct)
  case (1 es)
  show ?case
  proof (cases "es = [] \<or> \<not> list_all readable_event (take 100 es)")
    case True
    then have "readable_pages es = []" by (simp add: readable_pages.simps)
    then show ?thesis by simp
  next
    case False
    then obtain rest where "drop 100 es = readable_pages (drop 100 es) @ rest" using "1.IH" by blast
    then have "es = take 100 es @ readable_pages (drop 100 es) @ rest" by (metis append_take_drop_id)
    moreover have "readable_pages es = take 100 es @ readable_pages (drop 100 es)"
      using False by (subst readable_pages.simps) simp
    ultimately show ?thesis by (metis append.assoc)
  qed
qed

lemma readable_pages_all: "list_all readable_event es \<Longrightarrow> readable_pages es = es"
proof (induction es rule: readable_pages.induct)
  case (1 es)
  have page: "list_all readable_event (take 100 es)" "list_all readable_event (drop 100 es)"
    using "1.prems" by (auto simp: list_all_iff dest: in_set_takeD in_set_dropD)
  show ?case
  proof (cases "es = []")
    case False
    with page "1.IH" have "readable_pages (drop 100 es) = drop 100 es" by blast
    then show ?thesis using False page(1) by (subst readable_pages.simps) simp
  qed (simp add: readable_pages.simps)
qed

lemma readable_pages_stop:
  "readable_pages es = es \<or> \<not> list_all readable_event (take 100 (drop (length (readable_pages es)) es))"
proof (induction es rule: readable_pages.induct)
  case (1 es)
  show ?case
  proof (cases "es = [] \<or> \<not> list_all readable_event (take 100 es)")
    case True
    then show ?thesis by (auto simp: readable_pages.simps)
  next
    case False
    then have pages: "readable_pages es = take 100 es @ readable_pages (drop 100 es)"
      by (subst readable_pages.simps) simp
    from "1.IH" [OF False] show ?thesis
    proof
      assume "readable_pages (drop 100 es) = drop 100 es"
      then show ?thesis using pages by simp
    next
      assume stop: "\<not> list_all readable_event (take 100 (drop (length (readable_pages (drop 100 es))) (drop 100 es)))"
      then have "100 < length es" by (cases "100 < length es") auto
      with stop pages show ?thesis by (simp add: add.commute)
    qed
  qed
qed

definition drain_result ::
  "watch_config \<Rightarrow> (mailbox_event \<Rightarrow> event_world) \<Rightarrow> mailbox_event list \<Rightarrow> watch_state \<Rightarrow> watch_state \<times> watch_error option" where
  "drain_result cfg world es st =
     (case process_events cfg world (readable_pages es) st of
        (st', Some err) \<Rightarrow> (st', Some err)
      | (st', None) \<Rightarrow> (st', if readable_pages es = es then None else Some Page_refused))"

lemma log_beyond_cursor:
  assumes "mailbox_inv db" and "e \<in> set (log_after db me (wa_cursor st))"
  shows "page_start st < decimal_value (me_cursor e)"
proof -
  from assms obtain x a where x: "x \<in> set (rows_of db me (map_option (\<lambda>s. int (decimal_value s)) (wa_cursor st)))"
      "e = mailbox_event_of (x, a)"
    by (auto simp: log_after_inv)
  then have mem: "x \<in> set (mb_events db)" by (simp add: rows_of_def)
  from x(1) have "int (page_start st) < mv_cursor x"
    using assms(1) by (auto simp: rows_of_def page_start_def mailbox_inv_def events_ordered_def split: option.splits)
  with x(2) event_cursor_value [OF assms(1) mem] show ?thesis by simp
qed

lemma drain_one_pass:
  assumes inv: "mailbox_inv db"
  shows "cursor_usable st \<Longrightarrow> length (log_after db me (wa_cursor st)) < 100 * fuel
    \<Longrightarrow> drain fuel cfg world db me st = Some (drain_result cfg world (log_after db me (wa_cursor st)) st)"
proof (induction fuel arbitrary: st)
  case 0
  then show ?case by simp
next
  case (Suc fuel)
  let ?log = "log_after db me (wa_cursor st)"
  let ?page = "take 100 ?log"
  have list: "client_list db me (wa_cursor st) 100 = (if list_all readable_event ?page then Some ?page else None)"
    using Suc.prems(1) by (intro client_list_log) (simp add: cursor_usable_def)
  show ?case
  proof (cases "?log = [] \<or> \<not> list_all readable_event ?page")
    case True
    then have "readable_pages ?log = []" by (simp add: readable_pages.simps)
    with True list show ?thesis by (auto simp: drain_result_def)
  next
    case False
    then have list: "client_list db me (wa_cursor st) 100 = Some ?page" and page: "?page \<noteq> []"
      and pages: "readable_pages ?log = ?page @ readable_pages (drop 100 ?log)"
      using list by (simp, simp, subst readable_pages.simps, simp)
    have "sorted_wrt (<) (map (\<lambda>e. decimal_value (me_cursor e)) ?page)"
      using log_increasing [OF inv] by (simp add: sorted_wrt_take flip: take_map)
    moreover have "\<And>e. e \<in> set ?page \<Longrightarrow> page_start st < decimal_value (me_cursor e)"
      using log_beyond_cursor [OF inv] by (blast dest: in_set_takeD)
    ultimately have pass: "process_page cfg world (page_start st) ?page st = process_events cfg world ?page st"
      and after: "\<And>st'. process_events cfg world ?page st = (st', None) \<Longrightarrow> ?page \<noteq> []
        \<Longrightarrow> wa_cursor st' = Some (me_cursor (last ?page)) \<and> mailbox_cursor_ok (me_cursor (last ?page))"
      using page_is_pass [where world = world and cfg = cfg] by blast+
    obtain st' r where r: "process_events cfg world ?page st = (st', r)" by fastforce
    have same: "?page @ readable_pages (drop 100 ?log) = ?log \<longleftrightarrow> readable_pages (drop 100 ?log) = drop 100 ?log"
      by (metis append_take_drop_id same_append_eq)
    have result: "drain_result cfg world ?log st = (case r of
        Some err \<Rightarrow> (st', Some err) | None \<Rightarrow> drain_result cfg world (drop 100 ?log) st')"
      using pages r same by (simp add: drain_result_def process_events_append split: option.split)
    show ?thesis
    proof (cases "r = None \<and> 100 \<le> length ?log")
      case True
      then have len: "99 < length ?log" by auto
      have "last ?page = ?log ! 99" using len last_conv_nth [OF page] by (simp add: min_absorb2)
      with after [of st'] r True page have c: "wa_cursor st' = Some (me_cursor (?log ! 99))" "cursor_usable st'"
        by (auto simp: cursor_usable_def)
      have next_log: "log_after db me (wa_cursor st') = drop 100 ?log"
        using log_after_drop [OF inv len] c by simp
      have "drain fuel cfg world db me st' = Some (drain_result cfg world (drop 100 ?log) st')"
      proof -
        have "length (drop 100 ?log) < 100 * fuel" using Suc.prems(2) len by (auto simp: less_diff_conv2)
        then show ?thesis using Suc.IH [OF c(2)] next_log by simp
      qed
      with list pass page r True result show ?thesis by (simp add: min_def)
    next
      case False
      then have "r = None \<Longrightarrow> drain_result cfg world (drop 100 ?log) st' = (st', None)"
        by (simp add: drain_result_def readable_pages.simps)
      with list pass r page result False show ?thesis
        by (cases r) (auto simp: min_def)
    qed
  qed
qed

section \<open>Attention\<close>

text \<open>Whatever is queued was an activation of a sender whom the policy of that moment lists with pickup consent.\<close>

definition consented :: "(mailbox_event \<Rightarrow> event_world) \<Rightarrow> mailbox_event list \<Rightarrow> attention_request \<Rightarrow> bool" where
  "consented world es r \<longleftrightarrow> list_ex (\<lambda>e. activation_kind (me_kind e)
     \<and> (case ew_trust (world e) of None \<Rightarrow> False
        | Some t \<Rightarrow> plan_auto_pickup t (me_event_id e) (me_thread_id e) (me_actor_handle e) = Some r)) es"

lemma process_event_queued:
  "process_event cfg w e st = (st', r) \<Longrightarrow>
     wa_queued st' = wa_queued st \<or> (\<exists>t q. ew_trust w = Some t \<and> activation_kind (me_kind e)
       \<and> plan_auto_pickup t (me_event_id e) (me_thread_id e) (me_actor_handle e) = Some q \<and> wa_queued st' = wa_queued st @ [q])"
  by (auto simp: process_event_def queue_attention_def persist_cursor_def
      split: if_splits option.splits sum.splits pickup_decision.splits)

lemma process_events_queued:
  "process_events cfg world es st = (st', r) \<Longrightarrow>
     \<exists>qs. wa_queued st' = wa_queued st @ qs \<and> list_all (consented world es) qs \<and> length qs \<le> length es"
proof (induction es arbitrary: st)
  case Nil
  then show ?case by auto
next
  case (Cons e es)
  obtain st1 r1 where e: "process_event cfg (world e) e st = (st1, r1)" by fastforce
  from process_event_queued [OF e] obtain q1 where q1: "wa_queued st1 = wa_queued st @ q1" "length q1 \<le> 1"
    "list_all (consented world (e # es)) q1"
    by (auto simp: consented_def)
  show ?case
  proof (cases r1)
    case (Some err)
    with e Cons.prems q1 show ?thesis by (intro exI [of _ q1]) auto
  next
    case None
    with e Cons.prems obtain q2 where "wa_queued st' = wa_queued st1 @ q2" "list_all (consented world es) q2"
      "length q2 \<le> length es" using Cons.IH [of st1] by auto
    with q1 show ?thesis
      by (intro exI [of _ "q1 @ q2"]) (auto simp: consented_def list_all_iff)
  qed
qed

lemma drain_result_queued:
  "\<exists>qs. wa_queued (fst (drain_result cfg world es st)) = wa_queued st @ qs \<and> list_all (consented world es) qs"
proof -
  obtain st' r where r: "process_events cfg world (readable_pages es) st = (st', r)" by fastforce
  from process_events_queued [OF r] obtain qs where qs: "wa_queued st' = wa_queued st @ qs"
    "list_all (consented world (readable_pages es)) qs" by blast
  obtain rest where es: "es = readable_pages es @ rest" using readable_pages_prefix by blast
  have "consented world (readable_pages es) q \<Longrightarrow> consented world es q" for q
    by (subst es) (auto simp: consented_def list_ex_append)
  with qs have "list_all (consented world es) qs" by (auto simp: list_all_iff)
  with qs(1) r show ?thesis by (auto simp: drain_result_def split: option.split)
qed

end
