(* ===== verification/Live_Bridge.thy ===== *)
theory Live_Bridge
  imports Trust_Policy Schemas
begin

text \<open>
  The live bridge, which answers a peer's messages with model turns: the journal of
  \<^verbatim>\<open>mcp-server/src/live/contracts.ts\<close>, its store (\<^verbatim>\<open>mcp-server/src/live/store.ts\<close>), the checks of
  \<^verbatim>\<open>mcp-server/src/live/mailbox.ts\<close> and the replay of \<^verbatim>\<open>mcp-server/src/live/bridge.ts\<close>.
\<close>

section \<open>Journal\<close>

record live_scope =
  sc_relay_url :: jstext
  sc_agent_id :: uuid
  sc_local_handle :: jstext
  sc_peer_handle :: jstext
  sc_thread_id :: uuid

record host_receipt =
  hr_thread_id :: jstext
  hr_turn_id :: jstext

datatype pending_phase = Running | Reply_ready "jstext option" host_receipt

record pending_turn =
  pn_message_id :: uuid
  pn_sequence :: int
  pn_idempotency_key :: uuid
  pn_input_digest :: string
  pn_phase :: pending_phase

record live_receipt =
  lr_message_id :: uuid
  lr_sequence :: int
  lr_replied :: bool
  lr_reply_message_id :: "uuid option"
  lr_host :: host_receipt

record live_journal =
  lj_scope :: live_scope
  lj_max_turns :: int
  lj_expires_at :: int
  lj_last_sequence :: int
  lj_turns_started :: int
  lj_pending :: "pending_turn option"
  lj_receipts :: "live_receipt list"

definition in_length :: "int \<Rightarrow> int \<Rightarrow> 'a list \<Rightarrow> bool" where
  "in_length lo hi xs \<longleftrightarrow> lo \<le> int (length xs) \<and> int (length xs) \<le> hi"

definition live_scope_ok :: "host_lib \<Rightarrow> live_scope \<Rightarrow> bool" where
  "live_scope_ok L s \<longleftrightarrow> url_format L (sc_relay_url s) \<and> uuid_format L (sc_agent_id s)
     \<and> in_length 1 120 (sc_local_handle s) \<and> in_length 1 120 (sc_peer_handle s) \<and> uuid_format L (sc_thread_id s)
     \<and> sc_local_handle s \<noteq> sc_peer_handle s"

definition host_receipt_ok :: "host_receipt \<Rightarrow> bool" where
  "host_receipt_ok h \<longleftrightarrow> in_length 1 200 (hr_thread_id h) \<and> in_length 1 200 (hr_turn_id h)"

text \<open>\<open>z.string().trim().min(1).max(4000).nullable()\<close>; what is stored is the trimmed text.\<close>

definition live_reply_ok :: "jstext option \<Rightarrow> bool" where
  "live_reply_ok r = (case r of None \<Rightarrow> True | Some t \<Rightarrow> in_length 1 4000 (js_trim t))"

definition phase_ok :: "pending_phase \<Rightarrow> bool" where
  "phase_ok p = (case p of Running \<Rightarrow> True | Reply_ready reply host \<Rightarrow> live_reply_ok reply \<and> host_receipt_ok host)"

definition pending_ok :: "host_lib \<Rightarrow> pending_turn \<Rightarrow> bool" where
  "pending_ok L p \<longleftrightarrow> uuid_format L (pn_message_id p) \<and> 0 < pn_sequence p \<and> uuid_format L (pn_idempotency_key p)
     \<and> sha256_ok (pn_input_digest p) \<and> phase_ok (pn_phase p)"

definition live_receipt_ok :: "host_lib \<Rightarrow> live_receipt \<Rightarrow> bool" where
  "live_receipt_ok L r \<longleftrightarrow> uuid_format L (lr_message_id r) \<and> 0 < lr_sequence r
     \<and> (case lr_reply_message_id r of None \<Rightarrow> True | Some i \<Rightarrow> uuid_format L i) \<and> host_receipt_ok (lr_host r)"

definition pending_count :: "live_journal \<Rightarrow> int" where
  "pending_count j = (if lj_pending j = None then 0 else 1)"

definition live_journal_ok :: "host_lib \<Rightarrow> live_journal \<Rightarrow> bool" where
  "live_journal_ok L j \<longleftrightarrow> live_scope_ok L (lj_scope j) \<and> 1 \<le> lj_max_turns j \<and> lj_max_turns j \<le> 12
     \<and> 0 < lj_expires_at j \<and> 0 \<le> lj_last_sequence j \<and> 0 \<le> lj_turns_started j \<and> lj_turns_started j \<le> 12
     \<and> (case lj_pending j of None \<Rightarrow> True | Some p \<Rightarrow> pending_ok L p)
     \<and> length (lj_receipts j) \<le> 12 \<and> list_all (live_receipt_ok L) (lj_receipts j)
     \<and> lj_turns_started j \<le> lj_max_turns j
     \<and> lj_turns_started j = int (length (lj_receipts j)) + pending_count j
     \<and> (case lj_pending j of None \<Rightarrow> True | Some p \<Rightarrow> lj_last_sequence j < pn_sequence p)"

section \<open>Store\<close>

datatype live_error =
  Scope_changed | Journal_conflict | Journal_invalid | Write_failed | Not_authorized | Wrong_thread | Thread_closed
| Invalid_history | Input_limit | Uncertain_turn | Source_changed | Read_failed | Prepare_failed | Turn_failed
| Invalid_reply | Reply_failed

definition initial_journal :: "live_scope \<Rightarrow> int \<Rightarrow> int \<Rightarrow> live_journal" where
  "initial_journal scope max_turns expires_at =
     \<lparr>lj_scope = scope, lj_max_turns = max_turns, lj_expires_at = expires_at, lj_last_sequence = 0,
      lj_turns_started = 0, lj_pending = None, lj_receipts = []\<rparr>"

text \<open>\<open>openLiveStore\<close> with the journal that was read from the file, if there is one.\<close>

definition open_live_store ::
  "host_lib \<Rightarrow> live_journal option \<Rightarrow> live_scope \<Rightarrow> int \<Rightarrow> int \<Rightarrow> live_error + live_journal" where
  "open_live_store L stored scope max_turns expires_at =
     (if \<not> live_scope_ok L scope then Inl Journal_invalid
      else case stored of
        Some j \<Rightarrow> if lj_scope j \<noteq> scope \<or> lj_max_turns j \<noteq> max_turns then Inl Scope_changed else Inr j
      | None \<Rightarrow> if live_journal_ok L (initial_journal scope max_turns expires_at)
          then Inr (initial_journal scope max_turns expires_at) else Inl Journal_invalid)"

text \<open>\<open>save\<close>; \<open>write_ok\<close> says whether the file could be written.\<close>

definition save_journal :: "host_lib \<Rightarrow> bool \<Rightarrow> live_journal \<Rightarrow> live_journal \<Rightarrow> live_error + live_journal" where
  "save_journal L write_ok current new =
     (if \<not> live_journal_ok L new then Inl Journal_invalid
      else if lj_scope new \<noteq> lj_scope current \<or> lj_expires_at new \<noteq> lj_expires_at current
        \<or> lj_max_turns new \<noteq> lj_max_turns current \<or> lj_last_sequence new < lj_last_sequence current
        \<or> lj_turns_started new < lj_turns_started current
      then Inl Journal_conflict
      else if \<not> write_ok then Inl Write_failed else Inr new)"

section \<open>The thread as the mailbox shows it\<close>

datatype lifecycle_field = Field_missing | Field_null | Field_set

record live_message =
  lm_id :: uuid
  lm_sequence_no :: int
  lm_from :: jstext
  lm_body :: jstext

record live_thread =
  lt_thread_id :: uuid
  lt_sender_handle :: jstext
  lt_recipient_handle :: "jstext option"
  lt_completed_at :: lifecycle_field
  lt_cancelled_at :: lifecycle_field
  lt_messages :: "live_message list"

definition live_handles :: "live_thread \<Rightarrow> jstext option list" where
  "live_handles t = [Some (lt_sender_handle t), lt_recipient_handle t]"

text \<open>The loop over the messages: sequence numbers rise, ids differ, authors take part.\<close>

fun history_ok :: "host_lib \<Rightarrow> jstext option list \<Rightarrow> int \<Rightarrow> uuid list \<Rightarrow> live_message list \<Rightarrow> bool" where
  "history_ok L handles previous ids [] = True"
| "history_ok L handles previous ids (m # ms) \<longleftrightarrow> uuid_format L (lm_id m) \<and> previous < lm_sequence_no m
     \<and> lm_id m \<notin> set ids \<and> Some (lm_from m) \<in> set handles
     \<and> history_ok L handles (lm_sequence_no m) (lm_id m # ids) ms"

definition assert_live_thread :: "host_lib \<Rightarrow> live_scope \<Rightarrow> live_thread \<Rightarrow> live_error option" where
  "assert_live_thread L scope t =
     (if lt_thread_id t \<noteq> sc_thread_id scope \<or> Some (sc_local_handle scope) \<notin> set (live_handles t)
        \<or> Some (sc_peer_handle scope) \<notin> set (live_handles t)
      then Some Wrong_thread
      else if lt_completed_at t \<noteq> Field_null \<or> lt_cancelled_at t \<noteq> Field_null then Some Thread_closed
      else if \<not> history_ok L (live_handles t) 0 [] (lt_messages t) then Some Invalid_history else None)"

text \<open>\<open>messages.filter(...).slice(-12)\<close>\<close>

definition turn_messages :: "live_thread \<Rightarrow> int \<Rightarrow> live_message list" where
  "turn_messages t sequence =
     (let ms = filter (\<lambda>m. lm_sequence_no m \<le> sequence) (lt_messages t) in drop (length ms - 12) ms)"

text \<open>\<open>stringify\<close> gives the JSON of the thread's fields with these messages.\<close>

definition live_turn_content ::
  "(live_thread \<Rightarrow> live_message list \<Rightarrow> jstext) \<Rightarrow> live_thread \<Rightarrow> int \<Rightarrow> jstext option" where
  "live_turn_content stringify t sequence =
     (let content = stringify t (turn_messages t sequence) in
      if int (utf8_length content) > 32768 then None else Some content)"

section \<open>The bridge\<close>

text \<open>Every await can fail.  \<open>lw_ok\<close> says for each of them, and the message that is handled, whether it succeeds;
  \<open>lw_thread\<close> and \<open>lw_reread\<close> are what the mailbox shows; \<open>lw_turn\<close> is the outcome of a model turn; \<open>lw_key\<close> the
  key that is drawn; \<open>lw_reply_id\<close> the id that the Relay gives to a reply.\<close>

datatype live_point =
  At_drain | At_read | At_message | At_own_saved | At_prepare | At_prepared | At_running_saved | At_running | At_turn
| At_reply_saved | At_publish | At_publish_read | At_published_read | At_reply | At_receipt_saved

record live_world =
  lw_ok :: "live_point \<Rightarrow> uuid \<Rightarrow> bool"
  lw_thread :: live_thread
  lw_reread :: "uuid \<Rightarrow> live_thread"
  lw_turn :: "uuid \<Rightarrow> jstext option \<times> host_receipt"
  lw_key :: "uuid \<Rightarrow> uuid"
  lw_reply_id :: "uuid \<Rightarrow> uuid"

text \<open>The state of the bridge: the journal, the replies it posted and the turns it started, by the number of their
  message.\<close>

record posted_reply =
  po_sequence :: int
  po_key :: uuid
  po_body :: jstext

record bridge_state =
  bs_journal :: live_journal
  bs_posts :: "posted_reply list"
  bs_turns :: "int list"

type_synonym bridge_result = "bridge_state \<times> live_error option"

definition save_bridge :: "host_lib \<Rightarrow> bool \<Rightarrow> live_journal \<Rightarrow> bridge_state \<Rightarrow> bridge_result" where
  "save_bridge L write_ok new st = (case save_journal L write_ok (bs_journal st) new of
     Inl e \<Rightarrow> (st, Some e) | Inr j \<Rightarrow> (st\<lparr>bs_journal := j\<rparr>, None))"

definition receipt_for :: "pending_turn \<Rightarrow> host_receipt \<Rightarrow> uuid option \<Rightarrow> live_receipt" where
  "receipt_for p host reply_id = \<lparr>lr_message_id = pn_message_id p, lr_sequence = pn_sequence p,
     lr_replied = (reply_id \<noteq> None), lr_reply_message_id = reply_id, lr_host = host\<rparr>"

text \<open>The saved reply still belongs to its input.\<close>

definition source_ok ::
  "host_lib \<Rightarrow> (live_thread \<Rightarrow> live_message list \<Rightarrow> jstext) \<Rightarrow> live_scope \<Rightarrow> pending_turn \<Rightarrow> live_thread \<Rightarrow> live_error option" where
  "source_ok L stringify scope p t =
     (case find (\<lambda>m. lm_id m = pn_message_id p) (lt_messages t) of
        None \<Rightarrow> Some Source_changed
      | Some m \<Rightarrow>
          if lm_sequence_no m \<noteq> pn_sequence p \<or> lm_from m \<noteq> sc_peer_handle scope then Some Source_changed
          else (case live_turn_content stringify t (pn_sequence p) of
                  None \<Rightarrow> Some Input_limit
                | Some content \<Rightarrow> if sha256_hex L content \<noteq> pn_input_digest p then Some Source_changed else None))"

definition finish_publish ::
  "host_lib \<Rightarrow> live_world \<Rightarrow> pending_turn \<Rightarrow> jstext option \<Rightarrow> host_receipt \<Rightarrow> bridge_state \<Rightarrow> bridge_result" where
  "finish_publish L w p reply host st =
     (let i = pn_message_id p;
          st = (case reply of None \<Rightarrow> st
            | Some body \<Rightarrow> st\<lparr>bs_posts := bs_posts st @ [\<lparr>po_sequence = pn_sequence p, po_key = pn_idempotency_key p, po_body = body\<rparr>]\<rparr>);
          reply_id = map_option (\<lambda>_. lw_reply_id w i) reply; j = bs_journal st in
      if reply \<noteq> None \<and> \<not> lw_ok w At_reply i then (st, Some Reply_failed)
      else save_bridge L (lw_ok w At_receipt_saved i)
        (j\<lparr>lj_last_sequence := pn_sequence p, lj_pending := None,
           lj_receipts := lj_receipts j @ [receipt_for p host reply_id]\<rparr>) st)"

definition publish_pending ::
  "host_lib \<Rightarrow> (live_thread \<Rightarrow> live_message list \<Rightarrow> jstext) \<Rightarrow> live_world \<Rightarrow> bridge_state \<Rightarrow> bridge_result" where
  "publish_pending L stringify w st = (case lj_pending (bs_journal st) of
     None \<Rightarrow> (st, None)
   | Some p \<Rightarrow>
      (case pn_phase p of
         Running \<Rightarrow> (st, Some Uncertain_turn)
       | Reply_ready reply host \<Rightarrow>
          (let i = pn_message_id p; scope = lj_scope (bs_journal st) in
           if \<not> lw_ok w At_publish i then (st, Some Not_authorized)
           else if \<not> lw_ok w At_publish_read i then (st, Some Read_failed)
           else case assert_live_thread L scope (lw_reread w i) of
             Some e \<Rightarrow> (st, Some e)
           | None \<Rightarrow>
              (case source_ok L stringify scope p (lw_reread w i) of
                 Some e \<Rightarrow> (st, Some e)
               | None \<Rightarrow>
                   if \<not> lw_ok w At_published_read i then (st, Some Not_authorized)
                   else finish_publish L w p reply host st))))"

text \<open>A peer's message: prepare, save the turn as running, run it, save its reply, publish it.\<close>

definition pending_for :: "host_lib \<Rightarrow> live_world \<Rightarrow> live_message \<Rightarrow> jstext \<Rightarrow> pending_turn" where
  "pending_for L w m content = \<lparr>pn_message_id = lm_id m, pn_sequence = lm_sequence_no m,
     pn_idempotency_key = lw_key w (lm_id m), pn_input_digest = sha256_hex L content, pn_phase = Running\<rparr>"

definition run_turn ::
  "host_lib \<Rightarrow> (live_thread \<Rightarrow> live_message list \<Rightarrow> jstext) \<Rightarrow> live_world \<Rightarrow> pending_turn \<Rightarrow> bridge_state \<Rightarrow> bridge_result" where
  "run_turn L stringify w p st =
     (let i = pn_message_id p in
      if \<not> lw_ok w At_running i then (st, Some Not_authorized)
      else let st = st\<lparr>bs_turns := bs_turns st @ [pn_sequence p]\<rparr>; (reply, host) = lw_turn w i; j = bs_journal st in
        if \<not> lw_ok w At_turn i then (st, Some Turn_failed)
        else if \<not> live_reply_ok reply \<or> \<not> host_receipt_ok host then (st, Some Invalid_reply)
        else case save_bridge L (lw_ok w At_reply_saved i)
            (j\<lparr>lj_pending := Some (p\<lparr>pn_phase := Reply_ready (map_option js_trim reply) host\<rparr>)\<rparr>) st of
          (st, Some e) \<Rightarrow> (st, Some e)
        | (st, None) \<Rightarrow> publish_pending L stringify w st)"

definition answer_message ::
  "host_lib \<Rightarrow> (live_thread \<Rightarrow> live_message list \<Rightarrow> jstext) \<Rightarrow> live_world \<Rightarrow> live_message \<Rightarrow> bridge_state \<Rightarrow> bridge_result" where
  "answer_message L stringify w m st =
     (let i = lm_id m; j = bs_journal st in
      case live_turn_content stringify (lw_thread w) (lm_sequence_no m) of
        None \<Rightarrow> (st, Some Input_limit)
      | Some content \<Rightarrow>
          if \<not> lw_ok w At_prepare i then (st, Some Prepare_failed)
          else if \<not> lw_ok w At_prepared i then (st, Some Not_authorized)
          else case save_bridge L (lw_ok w At_running_saved i)
              (j\<lparr>lj_pending := Some (pending_for L w m content), lj_turns_started := lj_turns_started j + 1\<rparr>) st of
            (st, Some e) \<Rightarrow> (st, Some e)
          | (st, None) \<Rightarrow> run_turn L stringify w (pending_for L w m content) st)"

text \<open>The loop over the messages of the thread.\<close>

fun drain_messages ::
  "host_lib \<Rightarrow> (live_thread \<Rightarrow> live_message list \<Rightarrow> jstext) \<Rightarrow> live_world \<Rightarrow> live_message list \<Rightarrow> bridge_state \<Rightarrow> bridge_result" where
  "drain_messages L stringify w [] st = (st, None)"
| "drain_messages L stringify w (m # ms) st =
     (let j = bs_journal st in
      if lm_sequence_no m \<le> lj_last_sequence j then drain_messages L stringify w ms st
      else if \<not> lw_ok w At_message (lm_id m) then (st, Some Not_authorized)
      else if lm_from m = sc_local_handle (lj_scope j)
      then (case save_bridge L (lw_ok w At_own_saved (lm_id m)) (j\<lparr>lj_last_sequence := lm_sequence_no m\<rparr>) st of
              (st, Some e) \<Rightarrow> (st, Some e) | (st, None) \<Rightarrow> drain_messages L stringify w ms st)
      else if lj_turns_started j \<ge> lj_max_turns j then (st, None)
      else case answer_message L stringify w m st of
        (st, Some e) \<Rightarrow> (st, Some e) | (st, None) \<Rightarrow> drain_messages L stringify w ms st)"

definition live_drain ::
  "host_lib \<Rightarrow> (live_thread \<Rightarrow> live_message list \<Rightarrow> jstext) \<Rightarrow> live_world \<Rightarrow> bridge_state \<Rightarrow> bridge_result" where
  "live_drain L stringify w st =
     (let i = sc_thread_id (lj_scope (bs_journal st)) in
      if \<not> lw_ok w At_drain i then (st, Some Not_authorized)
      else case publish_pending L stringify w st of
        (st, Some e) \<Rightarrow> (st, Some e)
      | (st, None) \<Rightarrow>
          if \<not> lw_ok w At_read i then (st, Some Read_failed)
          else case assert_live_thread L (lj_scope (bs_journal st)) (lw_thread w) of
            Some e \<Rightarrow> (st, Some e)
          | None \<Rightarrow> drain_messages L stringify w (lt_messages (lw_thread w)) st)"

definition exhausted :: "live_journal \<Rightarrow> bool" where
  "exhausted j \<longleftrightarrow> lj_turns_started j \<ge> lj_max_turns j \<and> lj_pending j = None"

text \<open>The bridge is run again and again, in whatever world it finds; what it saved and what it did stays.\<close>

definition live_run ::
  "host_lib \<Rightarrow> (live_thread \<Rightarrow> live_message list \<Rightarrow> jstext) \<Rightarrow> live_world list \<Rightarrow> bridge_state \<Rightarrow> bridge_state" where
  "live_run L stringify ws st = foldl (\<lambda>st w. fst (live_drain L stringify w st)) st ws"

end
