(* ===== verification/Live_Laws.thy ===== *)
theory Live_Laws
  imports Live_Bridge
begin

text \<open>
  Whatever fails and however often the bridge is started: a message gets at most one model turn, the number of
  turns stays within the consent, and every post of a reply carries the same text under the same key.
\<close>

section \<open>The invariant\<close>

definition horizon :: "live_journal \<Rightarrow> int" where
  "horizon j = (case lj_pending j of None \<Rightarrow> lj_last_sequence j | Some p \<Rightarrow> pn_sequence p)"

definition turns_ok :: "bridge_state \<Rightarrow> bool" where
  "turns_ok st \<longleftrightarrow> sorted_wrt (<) (bs_turns st) \<and> list_all (\<lambda>s. s \<le> horizon (bs_journal st)) (bs_turns st)
     \<and> int (length (bs_turns st)) \<le> lj_turns_started (bs_journal st)"

text \<open>A reply that the journal still holds as pending.\<close>

definition post_of_pending :: "pending_turn \<Rightarrow> posted_reply \<Rightarrow> bool" where
  "post_of_pending p r \<longleftrightarrow> po_sequence r = pn_sequence p \<and> po_key r = pn_idempotency_key p
     \<and> (case pn_phase p of Running \<Rightarrow> False | Reply_ready reply host \<Rightarrow> reply = Some (po_body r))"

definition post_placed :: "live_journal \<Rightarrow> posted_reply \<Rightarrow> bool" where
  "post_placed j r \<longleftrightarrow> po_sequence r \<le> lj_last_sequence j
     \<or> (case lj_pending j of None \<Rightarrow> False | Some p \<Rightarrow> post_of_pending p r)"

definition posts_agree :: "posted_reply list \<Rightarrow> bool" where
  "posts_agree ps \<longleftrightarrow> list_all (\<lambda>r. list_all (\<lambda>s. po_sequence r = po_sequence s \<longrightarrow> r = s) ps) ps"

definition live_inv :: "host_lib \<Rightarrow> bridge_state \<Rightarrow> bool" where
  "live_inv L st \<longleftrightarrow> live_journal_ok L (bs_journal st) \<and> turns_ok st
     \<and> list_all (post_placed (bs_journal st)) (bs_posts st) \<and> posts_agree (bs_posts st)"

section \<open>Saving\<close>

lemma save_journal_Inr:
  "save_journal L ok j j' = Inr r \<Longrightarrow> r = j' \<and> live_journal_ok L j' \<and> lj_scope j' = lj_scope j
     \<and> lj_expires_at j' = lj_expires_at j \<and> lj_max_turns j' = lj_max_turns j
     \<and> lj_last_sequence j \<le> lj_last_sequence j' \<and> lj_turns_started j \<le> lj_turns_started j'"
  by (auto simp: save_journal_def split: if_splits)

lemma save_bridge_cases:
  assumes "save_bridge L ok j' st = (st', r)"
  obtains (saved) "r = None" "st' = st\<lparr>bs_journal := j'\<rparr>" "live_journal_ok L j'"
      "lj_last_sequence (bs_journal st) \<le> lj_last_sequence j'" "lj_turns_started (bs_journal st) \<le> lj_turns_started j'"
  | (failed) e where "r = Some e" "st' = st"
  using assms by (auto simp: save_bridge_def dest!: save_journal_Inr split: sum.splits)

lemma pending_beyond: "live_journal_ok L j \<Longrightarrow> lj_pending j = Some p \<Longrightarrow> lj_last_sequence j < pn_sequence p"
  by (simp add: live_journal_ok_def)

section \<open>Publishing\<close>

lemma add_post:
  assumes "live_inv L st" and "lj_pending (bs_journal st) = Some p" and "pn_phase p = Reply_ready (Some body) host"
  shows "live_inv L (st\<lparr>bs_posts := bs_posts st @ [\<lparr>po_sequence = pn_sequence p, po_key = pn_idempotency_key p,
    po_body = body\<rparr>]\<rparr>)"
proof -
  let ?r = "\<lparr>po_sequence = pn_sequence p, po_key = pn_idempotency_key p, po_body = body\<rparr>"
  have beyond: "lj_last_sequence (bs_journal st) < pn_sequence p"
    using assms pending_beyond by (auto simp: live_inv_def)
  have "r = ?r" if "r \<in> set (bs_posts st)" "po_sequence r = pn_sequence p" for r
  proof -
    have "post_placed (bs_journal st) r" using assms(1) that(1) by (auto simp: live_inv_def list_all_iff)
    with that(2) beyond assms(2,3) show ?thesis by (auto simp: post_placed_def post_of_pending_def)
  qed
  then have "posts_agree (bs_posts st @ [?r])"
    using assms(1) by (auto simp: live_inv_def posts_agree_def list_all_iff)
  moreover have "post_placed (bs_journal st) ?r"
    using assms(2,3) by (simp add: post_placed_def post_of_pending_def)
  ultimately show ?thesis using assms(1) by (simp add: live_inv_def turns_ok_def)
qed

text \<open>Once a turn is over the pending sequence is the last sequence.\<close>

lemma close_turn:
  assumes "live_inv L st" and "lj_pending (bs_journal st) = Some p"
    and "live_journal_ok L j'" and "lj_last_sequence j' = pn_sequence p" and "lj_pending j' = None"
    and "lj_turns_started (bs_journal st) \<le> lj_turns_started j'"
  shows "live_inv L (st\<lparr>bs_journal := j'\<rparr>)"
proof -
  have "lj_last_sequence (bs_journal st) < pn_sequence p"
    using assms(1,2) pending_beyond by (auto simp: live_inv_def)
  with assms show ?thesis
    by (auto simp: live_inv_def turns_ok_def horizon_def list_all_iff post_placed_def post_of_pending_def)
qed

lemma finish_publish_inv:
  assumes inv: "live_inv L st" and pending: "lj_pending (bs_journal st) = Some p" "pn_phase p = Reply_ready reply host"
    and result: "finish_publish L w p reply host st = (st', r)"
  shows "live_inv L st'" and "r = None \<Longrightarrow> lj_pending (bs_journal st') = None"
proof -
  define st1 where "st1 = (case reply of None \<Rightarrow> st | Some body \<Rightarrow> st\<lparr>bs_posts := bs_posts st @
    [\<lparr>po_sequence = pn_sequence p, po_key = pn_idempotency_key p, po_body = body\<rparr>]\<rparr>)"
  have inv1: "live_inv L st1"
    using add_post [OF inv pending(1)] pending(2) inv by (cases reply) (simp_all add: st1_def)
  have j1: "bs_journal st1 = bs_journal st" by (cases reply) (simp_all add: st1_def)
  show "live_inv L st'" and "r = None \<Longrightarrow> lj_pending (bs_journal st') = None"
    using result inv1
    by (auto simp: finish_publish_def Let_def j1 pending(1) split: if_splits elim!: save_bridge_cases
        intro!: close_turn simp flip: st1_def)
qed

lemma publish_pending_inv:
  "publish_pending L stringify w st = (st', r) \<Longrightarrow> live_inv L st
   \<Longrightarrow> live_inv L st' \<and> (r = None \<longrightarrow> lj_pending (bs_journal st') = None)"
  by (auto simp: publish_pending_def Let_def split: option.splits pending_phase.splits if_splits
      dest: finish_publish_inv) (metis option.discI)+

section \<open>Turns\<close>

lemma start_turn:
  assumes "live_inv L st" and "lj_pending (bs_journal st) = None"
    and "live_journal_ok L j'" and "lj_pending j' = Some p" and "lj_last_sequence j' = lj_last_sequence (bs_journal st)"
    and "lj_turns_started j' = lj_turns_started (bs_journal st) + 1"
  shows "live_inv L (st\<lparr>bs_journal := j'\<rparr>)"
    and "list_all (\<lambda>s. s < pn_sequence p) (bs_turns st)"
    and "int (length (bs_turns st)) < lj_turns_started j'"
  using assms pending_beyond [OF assms(3,4)]
  by (auto simp: live_inv_def turns_ok_def horizon_def list_all_iff post_placed_def)

text \<open>A turn starts for the pending message, which is beyond all that had one.\<close>

lemma run_turn_inv:
  assumes inv: "live_inv L st" and pending: "lj_pending (bs_journal st) = Some p"
    and new: "list_all (\<lambda>s. s < pn_sequence p) (bs_turns st)"
      "int (length (bs_turns st)) < lj_turns_started (bs_journal st)"
    and unposted: "pn_phase p = Running"
    and result: "run_turn L stringify w p st = (st', r)"
  shows "live_inv L st'" and "r = None \<Longrightarrow> lj_pending (bs_journal st') = None"
proof -
  define st1 where "st1 = st\<lparr>bs_turns := bs_turns st @ [pn_sequence p]\<rparr>"
  have inv1: "live_inv L st1"
    using inv pending new by (auto simp: st1_def live_inv_def turns_ok_def horizon_def sorted_wrt_append list_all_iff)
  have saved: "live_inv L (st1\<lparr>bs_journal := j'\<rparr>)"
    if "live_journal_ok L j'" and "j' = (bs_journal st1)\<lparr>lj_pending := Some (p\<lparr>pn_phase := ph\<rparr>)\<rparr>" for j' ph
    using inv1 that pending unposted
    by (auto simp: st1_def live_inv_def turns_ok_def horizon_def list_all_iff post_placed_def post_of_pending_def)
  show "live_inv L st'" and "r = None \<Longrightarrow> lj_pending (bs_journal st') = None"
    using result inv inv1
    by (auto simp: run_turn_def Let_def simp flip: st1_def split: if_splits prod.splits option.splits
        elim!: save_bridge_cases dest!: publish_pending_inv intro: saved)
qed

lemma answer_message_inv:
  assumes inv: "live_inv L st" and idle: "lj_pending (bs_journal st) = None"
    and result: "answer_message L stringify w m st = (st', r)"
  shows "live_inv L st' \<and> (r = None \<longrightarrow> lj_pending (bs_journal st') = None)"
proof (cases "live_turn_content stringify (lw_thread w) (lm_sequence_no m)")
  case None
  with inv idle result show ?thesis by (auto simp: answer_message_def)
next
  case (Some content)
  let ?p = "pending_for L w m content"
  let ?j = "(bs_journal st)\<lparr>lj_pending := Some ?p, lj_turns_started := lj_turns_started (bs_journal st) + 1\<rparr>"
  have run: "live_inv L st' \<and> (r = None \<longrightarrow> lj_pending (bs_journal st') = None)"
    if "live_journal_ok L ?j" and "run_turn L stringify w ?p (st\<lparr>bs_journal := ?j\<rparr>) = (st', r)"
  proof -
    note start = start_turn [OF inv idle that(1), of ?p]
    have "pn_phase ?p = Running" by (simp add: pending_for_def)
    with run_turn_inv [of L "st\<lparr>bs_journal := ?j\<rparr>" ?p stringify w st' r] start that(2) show ?thesis by simp
  qed
  from result Some show ?thesis
    using inv idle run
    by (auto simp: answer_message_def Let_def split: if_splits prod.splits option.splits elim!: save_bridge_cases)
qed

lemma own_message_inv:
  "live_inv L st \<Longrightarrow> lj_pending (bs_journal st) = None \<Longrightarrow> lj_last_sequence (bs_journal st) \<le> s
   \<Longrightarrow> live_journal_ok L ((bs_journal st)\<lparr>lj_last_sequence := s\<rparr>)
   \<Longrightarrow> live_inv L (st\<lparr>bs_journal := (bs_journal st)\<lparr>lj_last_sequence := s\<rparr>\<rparr>)"
  by (auto simp: live_inv_def turns_ok_def horizon_def list_all_iff post_placed_def)

lemma drain_messages_inv:
  "live_inv L st \<Longrightarrow> lj_pending (bs_journal st) = None \<Longrightarrow> live_inv L (fst (drain_messages L stringify w ms st))"
proof (induction ms arbitrary: st)
  case Nil
  then show ?case by simp
next
  case (Cons m ms)
  let ?j = "(bs_journal st)\<lparr>lj_last_sequence := lm_sequence_no m\<rparr>"
  obtain s1 r1 where sv: "save_bridge L (lw_ok w At_own_saved (lm_id m)) ?j st = (s1, r1)" by fastforce
  obtain s2 r2 where an: "answer_message L stringify w m st = (s2, r2)" by fastforce
  have own: "live_inv L s1 \<and> (r1 = None \<longrightarrow> lj_pending (bs_journal s1) = None)"
    using sv by (rule save_bridge_cases) (use Cons.prems own_message_inv in auto)
  note answered = answer_message_inv [OF Cons.prems an]
  show ?case
    using Cons.prems Cons.IH [of st] Cons.IH [of s1] Cons.IH [of s2] sv an own answered
    by (cases r1; cases r2) (simp_all add: Let_def)
qed

lemma live_drain_inv: "live_inv L st \<Longrightarrow> live_inv L (fst (live_drain L stringify w st))"
  using drain_messages_inv
  by (auto simp: live_drain_def Let_def split: prod.splits option.splits dest: publish_pending_inv)

lemma live_run_inv: "live_inv L st \<Longrightarrow> live_inv L (live_run L stringify ws st)"
  unfolding live_run_def by (induction ws arbitrary: st) (simp_all add: live_drain_inv)

lemma live_inv_initial:
  "live_journal_ok L j \<Longrightarrow> live_inv L \<lparr>bs_journal = j, bs_posts = [], bs_turns = []\<rparr>"
  by (simp add: live_inv_def turns_ok_def posts_agree_def live_journal_ok_def)

text \<open>The consent does not change.\<close>

lemma drain_scope:
  "lj_scope (bs_journal (fst (live_drain L stringify w st))) = lj_scope (bs_journal st)
   \<and> lj_max_turns (bs_journal (fst (live_drain L stringify w st))) = lj_max_turns (bs_journal st)"
proof -
  have save: "lj_scope (bs_journal st') = lj_scope (bs_journal st) \<and> lj_max_turns (bs_journal st') = lj_max_turns (bs_journal st)"
    if "save_bridge L ok j' st = (st', r)" for ok j' st st' r
    using that by (auto simp: save_bridge_def dest!: save_journal_Inr split: sum.splits)
  have publish: "lj_scope (bs_journal st') = lj_scope (bs_journal st) \<and> lj_max_turns (bs_journal st') = lj_max_turns (bs_journal st)"
    if "publish_pending L stringify w st = (st', r)" for st st' r
    using that by (auto simp: publish_pending_def finish_publish_def Let_def dest!: save
        split: option.splits pending_phase.splits if_splits)
  have run: "lj_scope (bs_journal st') = lj_scope (bs_journal st) \<and> lj_max_turns (bs_journal st') = lj_max_turns (bs_journal st)"
    if "run_turn L stringify w p st = (st', r)" for p st st' r
    using that by (auto simp: run_turn_def Let_def dest!: save publish split: prod.splits option.splits if_splits)
  have answer: "lj_scope (bs_journal st') = lj_scope (bs_journal st) \<and> lj_max_turns (bs_journal st') = lj_max_turns (bs_journal st)"
    if "answer_message L stringify w m st = (st', r)" for m st st' r
    using that by (auto simp: answer_message_def Let_def dest!: save run split: prod.splits option.splits if_splits)
  have messages: "lj_scope (bs_journal (fst (drain_messages L stringify w ms st))) = lj_scope (bs_journal st)
      \<and> lj_max_turns (bs_journal (fst (drain_messages L stringify w ms st))) = lj_max_turns (bs_journal st)" for ms st
    by (induction ms arbitrary: st) (auto simp: Let_def dest!: save answer split: prod.splits option.splits)
  show ?thesis
    using messages by (auto simp: live_drain_def Let_def dest!: publish split: prod.splits option.splits)
qed

lemma run_scope: "lj_max_turns (bs_journal (live_run L stringify ws st)) = lj_max_turns (bs_journal st)"
  unfolding live_run_def by (induction ws arbitrary: st) (simp_all add: drain_scope)

end
