(* ===== verification/Mailbox_Properties.thy ===== *)
theory Mailbox_Properties
  imports Relay_Samples Replay_Laws Connector_Laws Live_Laws
begin

text \<open>
  What holds of the mailboxes after any sequence of requests, accepted or refused, from empty tables, and of the
  programs that read them: the connector, the live bridge and the notification worker.
\<close>

section \<open>Served requests\<close>

abbreviation mail_served :: "mailbox_env \<Rightarrow> mailbox_request list \<Rightarrow> mailbox_db" where
  "mail_served env qs \<equiv> serve_all (mailbox_step env) empty_mailboxes qs"

lemma served_inv: "mailbox_inv (mail_served env qs)"
  by (rule mailboxes.serve_all_inv [OF mailbox_inv_empty])

lemma served_after: "mailbox_le (mail_served env qs) (mail_served env (qs @ rs))"
  unfolding serve_all_append by (rule mailboxes.serve_all_le [OF served_inv])

text \<open>The tables after an accepted request and any requests that follow.\<close>

lemma accepted_then_served:
  assumes "mailbox_step env (mail_served env qs) q = Inr db"
  shows "serve_all (mailbox_step env) db rs = mail_served env (qs @ q # rs)"
  using assms by (simp add: serve_all_append serve_def)

section \<open>A sample\<close>

definition sample_payload :: invite_payload where
  "sample_payload = \<lparr>ip_relay_url = text_of ''https://relay'', ip_handle = text_of ''c@team'', ip_role = text_of ''dev'',
     ip_inviter_handle = text_of ''a@team'', ip_jti = uid ''c1'', ip_exp = 1003600\<rparr>"

definition sample_tokens :: token_lib where
  "sample_tokens = \<lparr>tl_sign = (\<lambda>s. [of_nat (length s), 7]), tl_stringify = (\<lambda>p. [1, 2, 3, 4]),
     tl_parse = (\<lambda>bs. Some (Some sample_payload))\<rparr>"

definition sample_env :: mailbox_env where
  "sample_env = \<lparr>en_lib = sample_lib, en_tokens = sample_tokens, en_fold_case = id, en_key_hash = id,
     en_slack_url = (\<lambda>u. True), en_encrypt = id, en_public_url = text_of ''https://relay''\<rparr>"

definition ids :: "nat \<Rightarrow> nat \<Rightarrow> uuid" where
  "ids n k = uid [char_of (97 + n), char_of (48 + k)]"

definition join_as :: "nat \<Rightarrow> string \<Rightarrow> mailbox_request" where
  "join_as n handle = Q_register (ids n) (''key-'' @ handle) \<lparr>ri_handle = text_of handle, ri_email = None,
     ri_display_name = None, ri_role = text_of ''dev''\<rparr>"

definition context_of :: "nat \<Rightarrow> string \<Rightarrow> dispatch_ctx" where
  "context_of n handle = \<lparr>cx_agent_id = ids n 0, cx_agent_handle = text_of handle, cx_notify = True,
     cx_public_url = text_of ''https://relay'', cx_clock = 1000\<rparr>"

definition say :: "string \<Rightarrow> send_params" where
  "say body = \<lparr>sp_task_id = None, sp_recipient = None, sp_intent = None, sp_parts = [text_of body], sp_artifacts = None,
     sp_payload = None, sp_proposed_action = None, sp_metadata = None\<rparr>"

definition keyed :: "string \<Rightarrow> send_params \<Rightarrow> send_params" where
  "keyed key p = p\<lparr>sp_metadata := Some [(client_key, J_string (text_of key))]\<rparr>"

definition two_members :: "mailbox_request list" where
  "two_members = [join_as 0 ''a@team'', join_as 1 ''b@team'']"

text \<open>Evaluation of the base64url codec, by integers.\<close>

lemma int_digits_nat:
  "nat (int n div numeral k) = n div numeral k" "nat (int n div numeral k mod numeral j) = n div numeral k mod numeral j"
  "nat (int n mod numeral k) = n mod numeral k"
  by (metis nat_int of_nat_div of_nat_mod of_nat_numeral)+

lemma int_digits_word:
  "word_of_int (int n div numeral k) = (of_nat (n div numeral k) :: 8 word)"
  "word_of_int (int n div numeral k mod numeral j) = (of_nat (n div numeral k mod numeral j) :: 8 word)"
  "word_of_int (int n mod numeral k) = (of_nat (n mod numeral k) :: 8 word)"
  by (metis of_int_of_nat_eq of_nat_div of_nat_mod of_nat_numeral)+

lemma encode_base64url_code [code]:
  "encode_base64url (a # b # c # bs) =
     (let n = int (unat a) * 65536 + int (unat b) * 256 + int (unat c) in
      base64_digit (nat (n div 262144)) # base64_digit (nat (n div 4096 mod 64)) # base64_digit (nat (n div 64 mod 64))
        # base64_digit (nat (n mod 64)) # encode_base64url bs)"
  "encode_base64url [a, b] =
     (let n = int (unat a) * 1024 + int (unat b) * 4 in
      [base64_digit (nat (n div 4096)), base64_digit (nat (n div 64 mod 64)), base64_digit (nat (n mod 64))])"
  "encode_base64url [a] = (let n = int (unat a) * 16 in [base64_digit (nat (n div 64)), base64_digit (nat (n mod 64))])"
  "encode_base64url [] = []"
proof -
  have 1: "int (unat a) * 65536 + int (unat b) * 256 + int (unat c) = int (unat a * 65536 + unat b * 256 + unat c)" by simp
  have 2: "int (unat a) * 1024 + int (unat b) * 4 = int (unat a * 1024 + unat b * 4)" by simp
  have 3: "int (unat a) * 16 = int (unat a * 16)" by simp
  show "encode_base64url (a # b # c # bs) =
     (let n = int (unat a) * 65536 + int (unat b) * 256 + int (unat c) in
      base64_digit (nat (n div 262144)) # base64_digit (nat (n div 4096 mod 64)) # base64_digit (nat (n div 64 mod 64))
        # base64_digit (nat (n mod 64)) # encode_base64url bs)"
    unfolding 1 Let_def int_digits_nat encode_base64url.simps ..
  show "encode_base64url [a, b] =
     (let n = int (unat a) * 1024 + int (unat b) * 4 in
      [base64_digit (nat (n div 4096)), base64_digit (nat (n div 64 mod 64)), base64_digit (nat (n mod 64))])"
    unfolding 2 Let_def int_digits_nat encode_base64url.simps ..
  show "encode_base64url [a] = (let n = int (unat a) * 16 in [base64_digit (nat (n div 64)), base64_digit (nat (n mod 64))])"
    unfolding 3 Let_def int_digits_nat encode_base64url.simps ..
qed simp

lemma decode_base64url_code [code]:
  "decode_base64url (p # q # r # s # cs) =
     (let n = int (base64_value p) * 262144 + int (base64_value q) * 4096 + int (base64_value r) * 64 + int (base64_value s) in
      word_of_int (n div 65536) # word_of_int (n div 256 mod 256) # word_of_int (n mod 256) # decode_base64url cs)"
  "decode_base64url [p, q, r] =
     (let n = (int (base64_value p) * 4096 + int (base64_value q) * 64 + int (base64_value r)) div 4 in
      [word_of_int (n div 256), word_of_int (n mod 256)])"
  "decode_base64url [p, q] = [word_of_int ((int (base64_value p) * 64 + int (base64_value q)) div 16)]"
  "decode_base64url [p] = []" "decode_base64url [] = []"
proof -
  have 1: "int (base64_value p) * 262144 + int (base64_value q) * 4096 + int (base64_value r) * 64 + int (base64_value s)
    = int (base64_value p * 262144 + base64_value q * 4096 + base64_value r * 64 + base64_value s)" by simp
  have 2: "(int (base64_value p) * 4096 + int (base64_value q) * 64 + int (base64_value r)) div 4
    = int ((base64_value p * 4096 + base64_value q * 64 + base64_value r) div 4)" by (simp add: zdiv_int)
  have 3: "int (base64_value p) * 64 + int (base64_value q) = int (base64_value p * 64 + base64_value q)" by simp
  show "decode_base64url (p # q # r # s # cs) =
     (let n = int (base64_value p) * 262144 + int (base64_value q) * 4096 + int (base64_value r) * 64 + int (base64_value s) in
      word_of_int (n div 65536) # word_of_int (n div 256 mod 256) # word_of_int (n mod 256) # decode_base64url cs)"
    unfolding 1 Let_def int_digits_word decode_base64url.simps ..
  show "decode_base64url [p, q, r] =
     (let n = (int (base64_value p) * 4096 + int (base64_value q) * 64 + int (base64_value r)) div 4 in
      [word_of_int (n div 256), word_of_int (n mod 256)])"
    unfolding 2 Let_def int_digits_word decode_base64url.simps ..
  show "decode_base64url [p, q] = [word_of_int ((int (base64_value p) * 64 + int (base64_value q)) div 16)]"
    unfolding 3 int_digits_word decode_base64url.simps ..
qed simp_all

text \<open>A opens a thread to B; the thread is \<open>ids 2 0\<close>.\<close>

definition opened_thread :: "mailbox_request list" where
  "opened_thread = two_members @ [Q_send (ids 2) 1000 (context_of 0 ''a@team'') ((say ''hello'')\<lparr>sp_recipient := Some (text_of ''b@team'')\<rparr>)]"

definition reply_params :: send_params where
  "reply_params = keyed ''r1'' ((say ''reply'')\<lparr>sp_task_id := Some (ids 2 0)\<rparr>)"

lemma sample_opened:
  "map th_status (mb_threads (mail_served sample_env opened_thread)) = [Thread_pending]
   \<and> map ms_sequence_no (mb_messages (mail_served sample_env opened_thread)) = [1]"
  by code_simp

section \<open>Threads\<close>

definition thread_log_ok :: "mailbox_db \<Rightarrow> thread_row \<Rightarrow> bool" where
  "thread_log_ok db t \<longleftrightarrow> thread_ok t
     \<and> map ms_sequence_no (messages_of db (th_id t)) = map int [1..<Suc (length (messages_of db (th_id t)))]
     \<and> list_all (\<lambda>m. is_participant t (ms_author_id m)) (messages_of db (th_id t))"

lemma messages_of_inv: "mailbox_inv db \<Longrightarrow> messages_of db i = thread_messages db i"
proof -
  assume "mailbox_inv db"
  then have "map ms_sequence_no (thread_messages db i) = map int [1..<Suc (length (thread_messages db i))]"
    by (simp add: mailbox_inv_def messages_numbered_def)
  moreover have "sorted (map int [1..<n])" for n
    unfolding sorted_map by (rule sorted_wrt_mono_rel [OF _ sorted_upt]) simp
  ultimately have "sorted (map ms_sequence_no (thread_messages db i))" by (simp del: upt_Suc)
  then show ?thesis by (simp add: messages_of_def thread_messages_def sort_key_id_if_sorted)
qed

lemma author_participates:
  assumes "mailbox_inv db" and "t \<in> set (mb_threads db)" and "m \<in> set (thread_messages db (th_id t))"
  shows "is_participant t (ms_author_id m)"
proof -
  from assms obtain x where "x \<in> set (mb_threads db)" "th_id x = th_id t" "is_participant x (ms_author_id m)"
    by (auto simp: mailbox_inv_def thread_messages_def list_all_iff authored_in_thread_def list_ex_iff)
  moreover from this assms have "x = t" by (auto simp: mailbox_inv_def distinct_map inj_on_def)
  ultimately show ?thesis by simp
qed

lemma inv_thread_log: "mailbox_inv db \<Longrightarrow> t \<in> set (mb_threads db) \<Longrightarrow> thread_log_ok db t"
  using author_participates
  by (auto simp: thread_log_ok_def messages_of_inv list_all_iff mailbox_inv_def messages_numbered_def)

text \<open>C19. After any requests every thread is what its two members made of it: its timestamps fit its status, its
  messages are numbered 1, 2, 3 without a gap and written by its members, the cursors of the mailbox events
  rise, and no idempotency key names two threads or two messages.\<close>

theorem mailbox_threads_well_formed:
  "list_all (thread_log_ok (mail_served env qs)) (mb_threads (mail_served env qs))
   \<and> sorted_wrt (<) (map mv_cursor (mb_events (mail_served env qs)))
   \<and> keys_unique (map th_idempotency_key (mb_threads (mail_served env qs)))
   \<and> keys_unique (map ms_idempotency_key (mb_messages (mail_served env qs)))"
  using served_inv [of env qs] inv_thread_log [OF served_inv]
  by (auto simp: list_all_iff mailbox_inv_def events_ordered_def)

text \<open>C20. History is kept: whatever requests follow, the stored messages and mailbox events are a beginning of the
  later ones, and every thread keeps its place, its members and its content, moves only forward through its
  statuses, and once completed or cancelled never changes again.\<close>

theorem mailbox_history_kept:
  "prefix (mb_messages (mail_served env qs)) (mb_messages (mail_served env (qs @ rs)))
   \<and> prefix (mb_events (mail_served env qs)) (mb_events (mail_served env (qs @ rs)))
   \<and> list_all2 thread_le (mb_threads (mail_served env qs))
       (take (length (mb_threads (mail_served env qs))) (mb_threads (mail_served env (qs @ rs))))"
proof -
  from served_after [of env qs rs] obtain us vs where "mb_threads (mail_served env (qs @ rs)) = us @ vs"
    and le: "list_all2 thread_le (mb_threads (mail_served env qs)) us"
    by (auto simp: mailbox_le_def)
  then show ?thesis
    using served_after [of env qs rs] list_all2_lengthD [OF le] by (simp add: mailbox_le_def)
qed

text \<open>C18. The services implement the protocol of the mailboxes: an accepted request is exactly one step of it, opening
  a thread, appending a message, moving a thread along by the member who may, or leaving the threads alone.\<close>

theorem mailbox_step_refines_protocol:
  "case mailbox_step env (mail_served env qs) q of
     Inl e \<Rightarrow> serve (mailbox_step env) (mail_served env qs) q = mail_served env qs
   | Inr db \<Rightarrow> mail_effect (mail_served env qs) db"
  using step_effect [OF served_inv] by (auto simp: serve_def split: sum.split)

section \<open>Blocks\<close>

definition silent :: "uuid \<Rightarrow> mailbox_request list \<Rightarrow> bool" where
  "silent b qs \<longleftrightarrow> list_all (\<lambda>q. \<not> unblocks b q) qs"

text \<open>C17. A block holds: from the moment one agent has blocked another, whatever anybody requests, no new thread, message
  or completion of the blocked agent reaches the mailbox of the one who blocked it, until that agent unblocks.\<close>

theorem blocked_sender_is_silent:
  assumes "is_sender_blocked (mail_served env qs) s b" and "silent b rs"
  shows "filter (crosses s b) (mb_events (mail_served env (qs @ rs))) = filter (crosses s b) (mb_events (mail_served env qs))"
  using blocked_run [OF served_inv assms(1), of rs] assms(2) by (simp add: silent_def serve_all_append)

definition b_blocks_a :: "mailbox_request list" where
  "b_blocks_a = opened_thread @ [Q_block 2000 (ids 1 0) (text_of ''b@team'') (text_of ''a@team'') None]"

definition a_insists :: "mailbox_request list" where
  "a_insists = [Q_send (ids 3) 3000 (context_of 0 ''a@team'') ((say ''again'')\<lparr>sp_task_id := Some (ids 2 0)\<rparr>)]"

lemma sample_blocked:
  "is_sender_blocked (mail_served sample_env b_blocks_a) (ids 0 0) (ids 1 0) \<and> silent (ids 1 0) a_insists
   \<and> length (filter (crosses (ids 0 0) (ids 1 0)) (mb_events (mail_served sample_env b_blocks_a))) = 1"
  by code_simp

theorem blocked_sender_is_silent_witness:
  "length (filter (crosses (ids 0 0) (ids 1 0)) (mb_events (mail_served sample_env (b_blocks_a @ a_insists)))) = 1"
  using blocked_sender_is_silent [of sample_env b_blocks_a "ids 0 0" "ids 1 0" a_insists] sample_blocked by simp

section \<open>Replay\<close>

text \<open>C13. Retrying is safe: when a message with an idempotency key was accepted, the same request sent again at any
  later time gives the same reply, changes no table and notifies nobody, even after the thread was closed or the
  sender blocked.\<close>

theorem retried_message_is_replayed:
  assumes sent: "handle_message_send (en_lib env) fresh tx cx p (mail_served env qs)
      = Inr (Message_appended thread_id message_id n t, jobs, db)"
    and key: "key_given (idempotency_key_of (default_to [] (sp_metadata p)))"
  shows "handle_message_send (en_lib env) fresh' tx' cx p (serve_all (mailbox_step env) db rs)
    = Inr (Message_appended thread_id message_id n t, [], serve_all (mailbox_step env) db rs)"
proof -
  let ?later = "serve_all (mailbox_step env) db rs"
  have step: "mailbox_step env (mail_served env qs) (Q_send fresh tx cx p) = Inr db"
    using sent by (simp add: mailbox_step_def state_of_handler_def)
  have inv: "mailbox_inv db" using step_effect [OF served_inv step] served_inv effect_keeps_inv by blast
  from sent obtain r where p: "send_params_ok (en_lib env) p" "sp_task_id p = Some thread_id"
    and append: "append_message fresh tx (append_input_of cx p thread_id) (mail_served env qs) = Inr (r, db)"
    and r: "message_id = mg_message_id r" "n = mg_sequence_no r" "t = to_iso_string (mg_created_at r)"
    by (auto simp: handle_message_send_def send_append_def send_create_def Let_def split: if_splits option.splits sum.splits)
  have "append_message fresh' tx' (append_input_of cx p thread_id) ?later = Inr (r\<lparr>mg_replayed := True\<rparr>, ?later)"
    using key by (intro append_replayed [OF append] mailboxes.serve_all_le mailboxes.serve_all_inv inv)
      (simp add: append_input_of_def Let_def)
  then show ?thesis using p r by (simp add: handle_message_send_def send_append_def)
qed

definition closing :: "mailbox_request list" where
  "closing = [Q_cancel (ids 5 0) 5000 5000 5000 (context_of 0 ''a@team'') (ids 2 0)]"

definition first_reply :: "relay_error + send_reply \<times> notification_job list \<times> mailbox_db" where
  "first_reply = handle_message_send (en_lib sample_env) (ids 4) 4000 (context_of 1 ''b@team'') reply_params
     (mail_served sample_env opened_thread)"

lemma sample_first_reply:
  "(case first_reply of Inr (Message_appended i m n t, jobs, db) \<Rightarrow> i = ids 2 0 \<and> m = ids 4 0 \<and> n = 2 \<and> length jobs = 1
      \<and> map th_status (mb_threads (serve_all (mailbox_step sample_env) db closing)) = [Thread_cancelled] | _ \<Rightarrow> False)
   \<and> key_given (idempotency_key_of (default_to [] (sp_metadata reply_params)))"
  by code_simp

theorem retried_message_is_replayed_witness:
  "\<exists>t jobs db. first_reply = Inr (Message_appended (ids 2 0) (ids 4 0) 2 t, jobs, db)
     \<and> handle_message_send (en_lib sample_env) (ids 6) 6000 (context_of 1 ''b@team'') reply_params
         (serve_all (mailbox_step sample_env) db closing)
       = Inr (Message_appended (ids 2 0) (ids 4 0) 2 t, [], serve_all (mailbox_step sample_env) db closing)"
proof -
  from sample_first_reply obtain t jobs db where
    first: "first_reply = Inr (Message_appended (ids 2 0) (ids 4 0) 2 t, jobs, db)"
    by (auto split: sum.splits prod.splits send_reply.splits)
  from retried_message_is_replayed [OF first [unfolded first_reply_def], of "ids 6" 6000 closing] first sample_first_reply
  show ?thesis by blast
qed

section \<open>Invites\<close>

text \<open>C27. An invite is redeemed at most once: after an accepted redemption, whatever requests follow, every further
  redemption of the same invite, with this token or another, is refused and changes nothing.\<close>

theorem invite_redeemed_once:
  assumes first: "redeem_invite L T fold_case key_hash fresh clock now raw jti token (mail_served env qs) = Inr (Inr a, db)"
    and again: "redeem_invite L' T' fold_case' key_hash' fresh' clock' now' raw' jti token'
      (serve_all (mailbox_step env) db rs) = Inr (r, db')"
  shows "\<exists>f. r = Inl f \<and> db' = serve_all (mailbox_step env) db rs"
proof -
  have "invite_spent (serve_all (mailbox_step env) d rs) jti" if "invite_spent d jti" for d
    using that by (induction rs arbitrary: d) (auto simp: serve_def spent_kept split: sum.splits)
  with spent_by_redemption [OF first] again show ?thesis using spent_refused by blast
qed

definition invited :: "mailbox_request list" where
  "invited = two_members @ [Q_mint (uid ''c1'') 1000000000 \<lparr>mi_inviter_handle = text_of ''a@team'',
     mi_handle = text_of ''c@team'', mi_role = text_of ''dev'', mi_expires_in_seconds = 3600\<rparr>]"

definition sample_token :: string where
  "sample_token = ''v1.AQIDBA.Bgc''"

definition redeem_sample ::
  "nat \<Rightarrow> string \<Rightarrow> mailbox_db \<Rightarrow> relay_error + (redeem_failure + account_row) \<times> mailbox_db" where
  "redeem_sample n raw = redeem_invite sample_lib sample_tokens id id (ids n) 1000001000 1000001000 raw (uid ''c1'') sample_token"

lemma sample_redeemed:
  "(case redeem_sample 7 ''key-c'' (mail_served sample_env invited) of
     Inr (Inr a, db) \<Rightarrow> ac_handle a = text_of ''c@team''
       \<and> (case redeem_sample 8 ''key-d'' (serve_all (mailbox_step sample_env) db []) of
            Inr (Inl f, db') \<Rightarrow> f = Already_used | _ \<Rightarrow> False)
   | _ \<Rightarrow> False)"
  by code_simp

lemma redeemed_Inr: "(case r of Inr (Inr a, db) \<Rightarrow> P a db | _ \<Rightarrow> False) \<Longrightarrow> \<exists>a db. r = Inr (Inr a, db) \<and> P a db"
proof -
  assume P: "case r of Inr (Inr a, db) \<Rightarrow> P a db | _ \<Rightarrow> False"
  then obtain x db where r: "r = Inr (x, db)" by (cases r) auto
  with P obtain a where "x = Inr a" by (cases x) auto
  with P r show ?thesis by simp
qed

lemma redeemed_Inl: "(case r of Inr (Inl f, db) \<Rightarrow> Q f | _ \<Rightarrow> False) \<Longrightarrow> \<exists>f db. r = Inr (Inl f, db) \<and> Q f"
proof -
  assume Q: "case r of Inr (Inl f, db) \<Rightarrow> Q f | _ \<Rightarrow> False"
  then obtain x db where r: "r = Inr (x, db)" by (cases r) auto
  with Q obtain f where "x = Inl f" by (cases x) auto
  with Q r show ?thesis by simp
qed

theorem invite_redeemed_once_witness:
  "\<exists>a db. redeem_sample 7 ''key-c'' (mail_served sample_env invited) = Inr (Inr a, db)
     \<and> redeem_sample 8 ''key-d'' db = Inr (Inl Already_used, db)"
proof -
  from redeemed_Inr [OF sample_redeemed] obtain a db where
    first: "redeem_sample 7 ''key-c'' (mail_served sample_env invited) = Inr (Inr a, db)"
    and "case redeem_sample 8 ''key-d'' (serve_all (mailbox_step sample_env) db []) of
      Inr (Inl f, db') \<Rightarrow> f = Already_used | _ \<Rightarrow> False" by blast
  from redeemed_Inl [OF this(2)] obtain db' where
    again: "redeem_sample 8 ''key-d'' (serve_all (mailbox_step sample_env) db []) = Inr (Inl Already_used, db')" by blast
  from invite_redeemed_once [OF first [unfolded redeem_sample_def] again [unfolded redeem_sample_def]] first again
  show ?thesis by auto
qed

text \<open>C28. A token that the relay mints verifies, whatever the keys of the signature, to exactly the payload of its invite;
  its text survives the base64url encoding, the splitting at the dots and the stripping of padding.  The laws of
  the platform used are that the JSON text of the payload reads back and that neither it nor the signature is
  empty.\<close>

theorem minted_token_verifies:
  assumes "mint_invite L T url jti now i db = Inr (token, db')"
    and "p = \<lparr>ip_relay_url = url, ip_handle = mi_handle i, ip_role = mi_role i, ip_inviter_handle = mi_inviter_handle i,
      ip_jti = jti, ip_exp = now div 1000 + mi_expires_in_seconds i\<rparr>"
    and "tl_parse T (tl_stringify T p) = Some (Some p)" and "tl_stringify T p \<noteq> []"
    and "tl_sign T (encode_base64url (tl_stringify T p)) \<noteq> []"
  shows "verify_invite_token L T token = Inr p"
proof -
  have "mint_invite_token L T p = Inr token"
    using assms(1) by (auto simp: mint_invite_def assms(2) Let_def split: if_splits sum.splits option.splits)
  then show ?thesis using assms(3-5) by (rule mint_verify)
qed

lemma sample_minted:
  "case mint_invite sample_lib sample_tokens (text_of ''https://relay'') (uid ''c1'') 1000000000
       \<lparr>mi_inviter_handle = text_of ''a@team'', mi_handle = text_of ''c@team'', mi_role = text_of ''dev'',
        mi_expires_in_seconds = 3600\<rparr> (mail_served sample_env two_members) of
     Inr (token, db) \<Rightarrow> token = sample_token | Inl e \<Rightarrow> False"
  by code_simp

theorem minted_token_verifies_witness: "verify_invite_token sample_lib sample_tokens sample_token = Inr sample_payload"
proof -
  from sample_minted obtain db where
    "mint_invite sample_lib sample_tokens (text_of ''https://relay'') (uid ''c1'') 1000000000
       \<lparr>mi_inviter_handle = text_of ''a@team'', mi_handle = text_of ''c@team'', mi_role = text_of ''dev'',
        mi_expires_in_seconds = 3600\<rparr> (mail_served sample_env two_members) = Inr (sample_token, db)"
    by (auto split: sum.splits)
  then show ?thesis
    by (rule minted_token_verifies) (simp_all add: sample_payload_def sample_tokens_def)
qed

section \<open>Keys\<close>

text \<open>The streaming encoder of API keys, with its 32-bit accumulator whose high bits fall out, writes the same
  text as the reference: all bits in a row, cut into groups of five, the last one padded with zeros.\<close>

theorem key_text_is_reference:
  "generate_key env bytes = key_prefix env @ base32_reference bytes
   \<and> generate_node_key env bytes = node_key_prefix env @ base32_reference bytes"
  by (simp add: generate_key_def generate_node_key_def base32_is_reference)

section \<open>The connector\<close>

text \<open>C26. The connector skips nothing and invents nothing: draining the mailbox page by page ends, and has the same
  result as handling every event after the saved cursor once, in order, until one fails or until the first page of a
  hundred which the client refuses because a handle in it is empty or longer than its schema allows; a page is refused
  for no other reason, and without one the whole log is handled.  A local runtime is asked for attention only by
  a new message or thread whose sender the trust file of that moment allows.\<close>

theorem connector_drain_is_one_pass:
  assumes "cursor_usable st" and "es = log_after (mail_served env qs) me (wa_cursor st)" and "length es < 100 * fuel"
  shows "drain fuel cfg world (mail_served env qs) me st = Some (drain_result cfg world es st)
    \<and> (\<exists>rest. es = readable_pages es @ rest \<and> (rest = [] \<or> \<not> list_all readable_event (take 100 rest)))
    \<and> (\<exists>asked. wa_queued (fst (drain_result cfg world es st)) = wa_queued st @ asked \<and> list_all (consented world es) asked)"
proof -
  obtain rest where rest: "es = readable_pages es @ rest" using readable_pages_prefix by blast
  have "rest = [] \<or> \<not> list_all readable_event (take 100 rest)"
    using readable_pages_stop [of es] rest by (metis append_eq_conv_conj append_self_conv)
  with rest have "\<exists>rest. es = readable_pages es @ rest \<and> (rest = [] \<or> \<not> list_all readable_event (take 100 rest))" by blast
  with drain_one_pass [OF served_inv, of st env qs me fuel] drain_result_queued [of cfg world es st] assms
  show ?thesis by auto
qed

definition trusting_b :: trust_file where
  "trusting_b = fallback_trust\<lparr>tf_teammates := [(text_of ''a@team'', empty_entry\<lparr>te_auto_pickup := Some True\<rparr>)]\<rparr>"

definition calm_world :: "mailbox_event \<Rightarrow> event_world" where
  "calm_world e = \<lparr>ew_trust = Some trusting_b, ew_target_ok = True, ew_enqueue_ok = True, ew_persist_ok = True, ew_now = 9000\<rparr>"

definition sample_watch :: watch_config where
  "sample_watch = \<lparr>wc_lib = sample_lib, wc_coalesce_ms = 1000, wc_stream_key = ''b'', wc_pickup_key = (\<lambda>h t. t)\<rparr>"

definition fresh_watch :: watch_state where
  "fresh_watch = \<lparr>wa_saved = \<lparr>cn_streams = [], cn_pickups = []\<rparr>, wa_cursor = None, wa_queued = []\<rparr>"

lemma sample_drain:
  "cursor_usable fresh_watch
   \<and> length (log_after (mail_served sample_env opened_thread) (ids 1 0) (wa_cursor fresh_watch)) < 100 * 1
   \<and> map ar_thread_id (wa_queued (fst (drain_result sample_watch calm_world
        (log_after (mail_served sample_env opened_thread) (ids 1 0) (wa_cursor fresh_watch)) fresh_watch))) = [ids 2 0]"
  by code_simp

theorem connector_drain_is_one_pass_witness:
  "map_option (map ar_thread_id \<circ> wa_queued \<circ> fst)
     (drain 1 sample_watch calm_world (mail_served sample_env opened_thread) (ids 1 0) fresh_watch) = Some [ids 2 0]"
proof -
  let ?es = "log_after (mail_served sample_env opened_thread) (ids 1 0) (wa_cursor fresh_watch)"
  have "drain 1 sample_watch calm_world (mail_served sample_env opened_thread) (ids 1 0) fresh_watch
      = Some (drain_result sample_watch calm_world ?es fresh_watch)"
    using sample_drain by (intro connector_drain_is_one_pass [THEN conjunct1]) (blast intro: refl)+
  then show ?thesis using sample_drain by (simp only: option.map o_def)
qed

section \<open>The live bridge\<close>

text \<open>C21. The live bridge is at most once: however often it is restarted, whatever the mailbox shows, and wherever a
  write or a call fails, it starts at most one model turn per message of the peer, in order and never more than
  the consent allows, and all posts for one message are the same text under the same idempotency key, so that the
  Relay stores one.\<close>

theorem live_bridge_at_most_once:
  assumes "open_live_store L None scope max_turns expires_at = Inr j"
    and "st = live_run L stringify worlds \<lparr>bs_journal = j, bs_posts = [], bs_turns = []\<rparr>"
  shows "sorted_wrt (<) (bs_turns st) \<and> int (length (bs_turns st)) \<le> max_turns \<and> posts_agree (bs_posts st)
    \<and> live_journal_ok L (bs_journal st)"
proof -
  let ?start = "\<lparr>bs_journal = j, bs_posts = [], bs_turns = []\<rparr>"
  from assms(1) have j: "live_journal_ok L j" "j = initial_journal scope max_turns expires_at"
    by (auto simp: open_live_store_def split: if_splits)
  have inv: "live_inv L st" unfolding assms(2) by (intro live_run_inv live_inv_initial j(1))
  moreover have "lj_max_turns (bs_journal st) = max_turns"
    unfolding assms(2) run_scope by (simp add: j(2) initial_journal_def)
  ultimately show ?thesis by (auto simp: live_inv_def turns_ok_def live_journal_ok_def)
qed

definition sample_scope :: live_scope where
  "sample_scope = \<lparr>sc_relay_url = text_of ''https://relay'', sc_agent_id = uid ''b0'', sc_local_handle = text_of ''b@team'',
     sc_peer_handle = text_of ''a@team'', sc_thread_id = uid ''c0''\<rparr>"

definition sample_live_thread :: live_thread where
  "sample_live_thread = \<lparr>lt_thread_id = uid ''c0'', lt_sender_handle = text_of ''a@team'',
     lt_recipient_handle = Some (text_of ''b@team''), lt_completed_at = Field_null, lt_cancelled_at = Field_null,
     lt_messages = [\<lparr>lm_id = uid ''d1'', lm_sequence_no = 1, lm_from = text_of ''a@team'', lm_body = text_of ''hello''\<rparr>]\<rparr>"

definition live_world_with :: "(live_point \<Rightarrow> bool) \<Rightarrow> live_world" where
  "live_world_with works = \<lparr>lw_ok = (\<lambda>point i. works point), lw_thread = sample_live_thread, lw_reread = (\<lambda>i. sample_live_thread),
     lw_turn = (\<lambda>i. (Some (text_of ''hi''), \<lparr>hr_thread_id = text_of ''h'', hr_turn_id = text_of ''t''\<rparr>)),
     lw_key = (\<lambda>i. uid ''e1''), lw_reply_id = (\<lambda>i. uid ''f1'')\<rparr>"

text \<open>The reply is posted, its receipt cannot be saved, the bridge is restarted and posts it again.\<close>

definition crash_worlds :: "live_world list" where
  "crash_worlds = [live_world_with (\<lambda>point. point \<noteq> At_receipt_saved), live_world_with (\<lambda>point. True)]"

definition sample_bridge :: bridge_state where
  "sample_bridge = live_run sample_lib (\<lambda>t ms. text_of ''{}'') crash_worlds
     \<lparr>bs_journal = initial_journal sample_scope 3 10000, bs_posts = [], bs_turns = []\<rparr>"

lemma sample_live:
  "open_live_store sample_lib None sample_scope 3 10000 = Inr (initial_journal sample_scope 3 10000)"
  "bs_turns sample_bridge = [1] \<and> map po_sequence (bs_posts sample_bridge) = [1, 1]"
  by code_simp+

theorem live_bridge_at_most_once_witness:
  "bs_turns sample_bridge = [1] \<and> length (bs_posts sample_bridge) = 2 \<and> posts_agree (bs_posts sample_bridge)"
  using live_bridge_at_most_once [OF sample_live(1) sample_bridge_def] sample_live(2)
  by (metis length_map list.size(3,4) numeral_2_eq_2 One_nat_def add_0 plus_1_eq_Suc)

section \<open>The notification worker\<close>

text \<open>C38. No notification is lost without a trace: whatever is enqueued and however the posts end, the queue keeps its
  bound, every job that was taken over is waiting or was dispatched, and a dispatched job counts at most once as a
  success or a failure.  A job is posted at most once more than the schedule has waits, and every counted retry is a
  wait after a post; the waits stay within the schedule, except that a job whose last allowed post is answered with a rate
  limit counts and waits for one retry more, for which there is no post.\<close>

theorem notifications_accounted:
  "dispatcher_ok cfg (serve_all (dispatcher_step cfg) new_dispatcher evs)
   \<and> job_accounted backoff posts m (dispatch_one decrypt slack_url backoff posts db job m)"
proof
  show "dispatcher_ok cfg (serve_all (dispatcher_step cfg) new_dispatcher evs)"
    by (rule notifications.serve_all_inv) (simp add: dispatcher_ok_def new_dispatcher_def)
qed (rule dispatched_job_accounted)

end
