(* ===== verification/Relay_Client.thy ===== *)
theory Relay_Client
  imports Mailbox_Machine
begin

text \<open>
  \<^verbatim>\<open>mcp-server/src/a2a-client.ts\<close>: the parameters and the retries of a JSON-RPC call, the tool calls that are
  built on it (\<^verbatim>\<open>mcp-server/src/tools\<close>), and the envelope that the Relay checks before it dispatches
  (\<^verbatim>\<open>relay/src/routes/a2a.ts\<close>).
\<close>

section \<open>Parameters\<close>

definition metadata_key :: jstext where
  "metadata_key = text_of ''metadata''"

text \<open>\<open>mergeMetadata\<close>: the metadata that the call brings, if it is an object, with the key added when it has none.\<close>

definition merge_metadata :: "json option \<Rightarrow> jstext \<Rightarrow> (jstext \<times> json) list" where
  "merge_metadata existing key =
     (let base = (case existing of Some (J_object es) \<Rightarrow> es | _ \<Rightarrow> []) in
      if client_key \<in> fst ` set base then base else base @ [(client_key, J_string key)])"

text \<open>\<open>{ ...params, metadata }\<close>\<close>

definition final_params :: "(jstext \<times> json) list \<Rightarrow> jstext \<Rightarrow> (jstext \<times> json) list" where
  "final_params params key =
     AList.update metadata_key (J_object (merge_metadata (map_of params metadata_key) key)) params"

section \<open>Retries\<close>

text \<open>What one attempt meets: a status of 500 or more, another status that is not a success, a reply with an error
  object, a reply with a result, or a failure of the network or of reading the reply.\<close>

datatype 'r attempt_outcome = Http_failure int | Rpc_failure error_symbol | Rpc_result 'r | Network_failure

datatype 'r call_result = Call_result 'r | Call_http int | Call_rpc error_symbol | Call_network

definition retried :: "'r attempt_outcome \<Rightarrow> bool" where
  "retried o1 = (case o1 of Http_failure status \<Rightarrow> status \<ge> 500 | Network_failure \<Rightarrow> True | _ \<Rightarrow> False)"

fun call_result_of :: "'r attempt_outcome \<Rightarrow> 'r call_result" where
  "call_result_of (Http_failure status) = Call_http status"
| "call_result_of (Rpc_failure e) = Call_rpc e"
| "call_result_of (Rpc_result r) = Call_result r"
| "call_result_of Network_failure = Call_network"

text \<open>The loop over the attempts, from attempt \<open>n\<close> with \<open>left\<close> attempts after it; the result is the outcome with
  the waits before the retries.\<close>

fun attempts_from :: "int \<Rightarrow> (nat \<Rightarrow> 'r attempt_outcome) \<Rightarrow> nat \<Rightarrow> nat \<Rightarrow> 'r call_result \<times> int list" where
  "attempts_from backoff outcome n 0 = (call_result_of (outcome n), [])"
| "attempts_from backoff outcome n (Suc left) =
     (if retried (outcome n)
      then (case attempts_from backoff outcome (n + 1) left of
              (r, waits) \<Rightarrow> (r, backoff * 4 ^ (n - 1) # waits))
      else (call_result_of (outcome n), []))"

definition client_request :: "int \<Rightarrow> nat \<Rightarrow> (nat \<Rightarrow> 'r attempt_outcome) \<Rightarrow> 'r call_result \<times> int list" where
  "client_request backoff max_attempts outcome = attempts_from backoff outcome 1 (max_attempts - 1)"

section \<open>\<open>agents/list\<close> on the wire\<close>

text \<open>A zod object: \<open>strict\<close> rejects a key that the schema does not name.\<close>

definition strict_keys :: "string list \<Rightarrow> (jstext \<times> json) list \<Rightarrow> bool" where
  "strict_keys names es \<longleftrightarrow> list_all (\<lambda>(k, v). k \<in> text_of ` set names) es"

text \<open>An optional string field: absent, a string, or not of the shape.\<close>

definition optional_text :: "(jstext \<times> json) list \<Rightarrow> string \<Rightarrow> jstext option option" where
  "optional_text es name = (case map_of es (text_of name) of
     None \<Rightarrow> Some None | Some (J_string t) \<Rightarrow> Some (Some t) | Some _ \<Rightarrow> None)"

definition parse_cursor :: "json option \<Rightarrow> jstext option option" where
  "parse_cursor j = (case j of
     None \<Rightarrow> Some None | Some J_null \<Rightarrow> Some None
   | Some (J_object es) \<Rightarrow>
       if strict_keys [''after_handle''] es
       then (case map_of es (text_of ''after_handle'') of Some (J_string t) \<Rightarrow> Some (Some t) | _ \<Rightarrow> None) else None
   | Some _ \<Rightarrow> None)"

definition parse_limit :: "json option \<Rightarrow> int option option" where
  "parse_limit j = (case j of None \<Rightarrow> Some None
   | Some (J_number q) \<Rightarrow> if of_int \<lfloor>q\<rfloor> = q then Some (Some \<lfloor>q\<rfloor>) else None | Some _ \<Rightarrow> None)"

definition parse_page :: "json option \<Rightarrow> (int option \<times> jstext option) option option" where
  "parse_page j = (case j of
     None \<Rightarrow> Some None
   | Some (J_object es) \<Rightarrow>
       if strict_keys [''limit'', ''cursor''] es
       then (case (parse_limit (map_of es (text_of ''limit'')), parse_cursor (map_of es (text_of ''cursor''))) of
               (Some limit, Some cursor) \<Rightarrow> Some (Some (limit, cursor)) | _ \<Rightarrow> None)
       else None
   | Some _ \<Rightarrow> None)"

definition parse_roster_params :: "(jstext \<times> json) list \<Rightarrow> roster_params option" where
  "parse_roster_params es =
     (if \<not> strict_keys [''role'', ''skill'', ''repo'', ''page''] es then None
      else case (optional_text es ''role'', optional_text es ''skill'', optional_text es ''repo'',
                 parse_page (map_of es (text_of ''page''))) of
        (Some role, Some skill, Some repo, Some page) \<Rightarrow>
          Some \<lparr>rp_role = role, rp_skill = skill, rp_repo = repo, rp_page = page\<rparr>
      | _ \<Rightarrow> None)"

text \<open>The Relay's side of the call.\<close>

definition dispatch_agents_list ::
  "(jstext \<Rightarrow> nat list) \<Rightarrow> mailbox_db \<Rightarrow> (jstext \<times> json) list \<Rightarrow> relay_error + teammate list \<times> jstext option option" where
  "dispatch_agents_list collate db es = (case parse_roster_params es of
     None \<Rightarrow> Inl (Relay_err Invalid_params) | Some p \<Rightarrow> handle_agents_list collate db p)"

text \<open>\<open>list_teammates\<close>: the tool sends its input as it is.\<close>

definition list_teammates ::
  "(jstext \<Rightarrow> nat list) \<Rightarrow> mailbox_db \<Rightarrow> (jstext \<times> json) list \<Rightarrow> jstext
    \<Rightarrow> relay_error + teammate list \<times> jstext option option" where
  "list_teammates collate db input key = dispatch_agents_list collate db (final_params input key)"

section \<open>Laws\<close>

lemma map_of_update: "map_of (AList.update k v es) k = Some v"
  by (simp add: update_conv')

lemma final_params_metadata: "\<exists>m. (metadata_key, m) \<in> set (final_params params key)"
proof
  show "(metadata_key, J_object (merge_metadata (map_of params metadata_key) key)) \<in> set (final_params params key)"
    unfolding final_params_def by (rule map_of_SomeD [OF map_of_update])
qed

lemma client_sends_metadata: "parse_roster_params (final_params params key) = None"
proof -
  have "metadata_key \<notin> text_of ` set [''role'', ''skill'', ''repo'', ''page'']"
    by code_simp
  then have "\<not> strict_keys [''role'', ''skill'', ''repo'', ''page''] (final_params params key)"
    using final_params_metadata [of params key] by (auto simp: strict_keys_def list_all_iff)
  then show ?thesis by (simp add: parse_roster_params_def)
qed

text \<open>Every call of the tool is refused: the client adds metadata to the parameters of each method, and the
  schema of this one is strict.\<close>

lemma list_teammates_refused: "list_teammates collate db input key = Inl (Relay_err Invalid_params)"
  by (simp add: list_teammates_def dispatch_agents_list_def client_sends_metadata)

text \<open>Without the client's metadata the call would go through.\<close>

lemma roster_call_without_metadata:
  "dispatch_agents_list collate db [] = handle_agents_list collate db
     \<lparr>rp_role = None, rp_skill = None, rp_repo = None, rp_page = None\<rparr>"
  by (simp add: dispatch_agents_list_def parse_roster_params_def strict_keys_def optional_text_def parse_page_def)

lemma attempts_bounded: "length (snd (attempts_from backoff outcome n left)) \<le> left"
  by (induction left arbitrary: n) (auto split: prod.splits simp: Let_def, metis snd_conv)

text \<open>A retry follows only a failure of the server or the network; anything else is final.\<close>

lemma attempts_result:
  "fst (attempts_from backoff outcome n left) = call_result_of (outcome (n + length (snd (attempts_from backoff outcome n left))))"
  by (induction left arbitrary: n) (auto split: prod.splits, metis add_Suc_right add_Suc_shift fst_conv snd_conv)

end
