(* ===== verification/Relay_Properties.thy ===== *)
theory Relay_Properties
  imports Relay_Samples
begin

text \<open>
  What holds of the Relay's tables after any sequence of requests, accepted or refused, from tables without
  Missions; and what an accepted operation of a Node has shown.
\<close>

section \<open>Served requests\<close>

definition fresh_ledger :: "relay_db \<Rightarrow> bool" where
  "fresh_ledger db \<longleftrightarrow> db_missions db = [] \<and> db_participants db = [] \<and> db_events db = [] \<and> db_deliveries db = []
     \<and> db_receipts db = []"

abbreviation served :: "host_lib \<Rightarrow> relay_db \<Rightarrow> (transaction_world \<times> relay_request) list \<Rightarrow> relay_db" where
  "served L db es \<equiv> serve_all (relay_step L) db es"

lemma fresh_good: "fresh_ledger db \<Longrightarrow> good L db"
  by (simp add: fresh_ledger_def good_def ledger_inv_def live_inv_def)

lemma served_good: "date_law L \<Longrightarrow> fresh_ledger db \<Longrightarrow> good L (served L db es)"
  using relay.serve_all_inv [of L db es] fresh_good by blast

lemma served_le: "date_law L \<Longrightarrow> good L db \<Longrightarrow> ledger_le db (served L db es)"
  using relay.serve_all_le [of L db es] by blast

lemma served_rows:
  assumes "date_law L" and "fresh_ledger db"
  shows "m \<in> set (db_missions (served L db es)) \<Longrightarrow> mission_row_inv L (served L db es) m \<and> no_dead_letters (served L db es) m"
    and "d \<in> set (db_deliveries (served L db es)) \<Longrightarrow> delivery_row_ok d"
    and "distinct (map dr_id (db_deliveries (served L db es)))"
  using served_good [OF assms, of es] by (auto simp: good_def ledger_inv_def live_inv_def)

section \<open>The tables\<close>

text \<open>C1. A stored Mission is always the replay of its stored events: the projection (state, status, sequence
  number, contract version) that every request reads and writes never drifts from the event log.\<close>

theorem stored_mission_is_replay:
  assumes "date_law L" and "fresh_ledger db"
  shows "list_all (\<lambda>m. replay_rows L (mr_coordinator_config m) (events_of (served L db es) (mr_id m)) = Inr (mr_state m)
      \<and> mr_status m = cs_status (mr_state m) \<and> mr_last_event_sequence m = cs_sequence_no (mr_state m)
      \<and> mr_contract_version m = cs_contract_version (mr_state m)) (db_missions (served L db es))"
  using served_rows(1) [OF assms] by (simp add: list_all_iff mission_row_inv_def)

text \<open>A Mission that both participants have accepted: one event, one delivery.\<close>

lemma sample_served:
  "(let db = served iso_lib sample_relay sample_requests
    in map mr_status (db_missions db) = [M_active] \<and> length (db_events db) = 1
      \<and> map dr_status (db_deliveries db) = [D_stored])"
  by code_simp

lemma sample_fresh: "fresh_ledger sample_relay"
  by (simp add: fresh_ledger_def sample_relay_def)

theorem stored_mission_is_replay_witness:
  "list_all (\<lambda>m. replay_rows iso_lib (mr_coordinator_config m)
        (events_of (served iso_lib sample_relay sample_requests) (mr_id m)) = Inr (mr_state m))
      (db_missions (served iso_lib sample_relay sample_requests))
   \<and> length (db_missions (served iso_lib sample_relay sample_requests)) = 1"
proof -
  have "length (db_missions (served iso_lib sample_relay sample_requests)) = 1"
    using sample_served unfolding Let_def by (metis length_map list.size(3,4) One_nat_def add.commute plus_1_eq_Suc)
  with stored_mission_is_replay [OF iso_lib_date_law sample_fresh, of sample_requests] show ?thesis
    by (simp add: list_all_iff)
qed

definition owed_exactly :: "relay_db \<Rightarrow> mission_row \<Rightarrow> bool" where
  "owed_exactly db m \<longleftrightarrow> (if is_terminal (mr_status m)
     then list_all (\<lambda>d. \<not> open_status (dr_status d)) (unsettled db (mr_id m))
     else mset (map (row_work db) (unsettled db (mr_id m))) = mset (map target_work (owed_work (mr_state m)))
       \<and> list_all (\<lambda>d. dr_status d \<noteq> D_dead_lettered) (unsettled db (mr_id m)))"

lemma owed_exactly: "mission_row_inv L db m \<and> no_dead_letters db m \<Longrightarrow> owed_exactly db m"
  by (auto simp: owed_exactly_def mission_row_inv_def work_inv_def no_dead_letters_def list_all_iff simp del: mset_map)

text \<open>C2. Nobody is forgotten and nothing is duplicated: the deliveries of a running Mission that no event has
  settled are exactly the work that its coordinator state owes, each on the Node of the participant who owes it,
  and none of them is dead-lettered; an ended Mission has no open delivery that is not settled.\<close>

theorem unsettled_deliveries_are_owed_work:
  assumes "date_law L" and "fresh_ledger db"
  shows "list_all (owed_exactly (served L db es)) (db_missions (served L db es))"
  unfolding list_all_iff using served_rows(1) [OF assms] owed_exactly by blast

theorem unsettled_deliveries_are_owed_work_witness:
  "list_all (owed_exactly (served iso_lib sample_relay sample_requests))
     (db_missions (served iso_lib sample_relay sample_requests))
   \<and> map mr_status (db_missions (served iso_lib sample_relay sample_requests)) = [M_active]"
  using unsettled_deliveries_are_owed_work [OF iso_lib_date_law sample_fresh, of sample_requests] sample_served
  unfolding Let_def by blast

text \<open>C22. Every stored delivery satisfies the check constraints of its table (a lease exactly when it is leased or
  executing, the fencing token equal to the number of attempts, at most the allowed attempts, an acknowledgement
  only of a settled delivery), and the ids stay unique.\<close>

theorem stored_deliveries_well_formed:
  assumes "date_law L" and "fresh_ledger db"
  shows "list_all delivery_row_ok (db_deliveries (served L db es))
    \<and> distinct (map dr_id (db_deliveries (served L db es)))"
  using served_rows(2,3) [OF assms] by (auto simp: list_all_iff)

theorem stored_deliveries_well_formed_witness:
  "list_all delivery_row_ok (db_deliveries (served iso_lib sample_relay sample_requests))
   \<and> map dr_status (db_deliveries (served iso_lib sample_relay sample_requests)) = [D_stored]"
  using stored_deliveries_well_formed [OF iso_lib_date_law sample_fresh, of sample_requests] sample_served
  unfolding Let_def by blast

definition later_row :: "('a \<Rightarrow> 'a \<Rightarrow> bool) \<Rightarrow> 'a list \<Rightarrow> 'a list \<Rightarrow> bool" where
  "later_row R rows later \<longleftrightarrow> list_all (\<lambda>x. list_ex (R x) later) rows"

lemma rows_le_later: "rows_le R xs ys \<Longrightarrow> later_row R xs ys"
  using rows_le_mem [of R xs ys] by (auto simp: later_row_def list_all_iff list_ex_iff)

text \<open>C11. History is final: whatever requests follow, a stored event and a stored receipt stay as they are; a
  Mission only extends its history, and one that has ended does not change at all; an acceptance stays; a
  delivery keeps its identity, its attempts never go down, what settled it never changes, and once closed it
  stays closed as it was.\<close>

theorem stored_history_is_final:
  assumes "date_law L" and "fresh_ledger db"
  shows "set (db_events (served L db es)) \<subseteq> set (db_events (served L db (es @ fs)))
    \<and> set (db_receipts (served L db es)) \<subseteq> set (db_receipts (served L db (es @ fs)))
    \<and> later_row mission_le (db_missions (served L db es)) (db_missions (served L db (es @ fs)))
    \<and> later_row participant_le (db_participants (served L db es)) (db_participants (served L db (es @ fs)))
    \<and> later_row delivery_le (db_deliveries (served L db es)) (db_deliveries (served L db (es @ fs)))"
proof -
  have "ledger_le (served L db es) (served L db (es @ fs))"
    unfolding serve_all_append by (rule served_le [OF assms(1) served_good [OF assms]])
  then show ?thesis
    by (simp add: ledger_le_def rows_le_eq_mem rows_le_later)
qed

theorem stored_history_is_final_witness:
  "later_row mission_le (db_missions (served iso_lib sample_relay (take 2 sample_requests)))
     (db_missions (served iso_lib sample_relay (take 2 sample_requests @ drop 2 sample_requests)))
   \<and> later_row delivery_le (db_deliveries (served iso_lib sample_relay (take 2 sample_requests)))
     (db_deliveries (served iso_lib sample_relay (take 2 sample_requests @ drop 2 sample_requests)))"
  using stored_history_is_final [OF iso_lib_date_law sample_fresh, of "take 2 sample_requests" "drop 2 sample_requests"]
  by blast

text \<open>C24. An event that the relay stores is read back as the event that it was: the payload column is the event's
  object without the keys that have a column (none of them is left in it), and the columns spread over the payload, which
  the database may return with its keys in any order, are parsed by the strict schema of the event's type as the same
  event.\<close>

theorem stored_event_round_trip:
  assumes "date_law L" and "coordinator_event_ok L e" and "ev_created_at e = to_iso_string now"
    and "event_row_of L e actor source parent = Inr row"
  shows "event_from_row L row = Inr e
    \<and> fst ` set (er_payload row) \<inter> set [''event_id'', ''idempotency_key'', ''mission_id'', ''sequence_no'', ''created_at'', ''type''] = {}
    \<and> (\<forall>payload. map_of payload = map_of (er_payload row) \<longrightarrow> event_from_row L (row\<lparr>er_payload := payload\<rparr>) = Inr e)"
proof -
  have "er_payload row = body_fields (ev_body e)"
    using assms(4) by (auto simp: event_row_of_def event_payload_fields split: option.splits)
  then show ?thesis
    using event_row_read_back(1,7) [OF assms] assms(2) body_keys_apart [of "ev_body e"]
    by (simp add: event_from_row_Inr envelope_keys_def)
qed

definition sample_stored_event :: coordinator_event where
  "sample_stored_event = (sample_event ''07'' 7 (Turn_completed agent_b (uid ''26'') 2 (Ready []) None None))
     \<lparr>ev_created_at := to_iso_string (sample_time 7)\<rparr>"

lemma sample_stored_event_ok:
  "coordinator_event_ok iso_lib sample_stored_event
   \<and> (case event_row_of iso_lib sample_stored_event (Some agent_b) (Some (uid ''26'')) None of
        Inl err \<Rightarrow> False | Inr row \<Rightarrow> er_created_at row = sample_time 7)"
  by code_simp

lemma sample_payload_distinct:
  "case event_row_of iso_lib sample_stored_event (Some agent_b) (Some (uid ''26'')) None of
     Inl err \<Rightarrow> False | Inr row \<Rightarrow> distinct (map fst (er_payload row))"
  by code_simp

theorem stored_event_round_trip_witness:
  "\<exists>row. event_row_of iso_lib sample_stored_event (Some agent_b) (Some (uid ''26'')) None = Inr row
     \<and> event_from_row iso_lib (row\<lparr>er_payload := rev (er_payload row)\<rparr>) = Inr sample_stored_event"
proof (cases "event_row_of iso_lib sample_stored_event (Some agent_b) (Some (uid ''26'')) None")
  case (Inr row)
  have "ev_created_at sample_stored_event = to_iso_string (sample_time 7)" by (simp add: sample_stored_event_def)
  with stored_event_round_trip [OF iso_lib_date_law _ this Inr] sample_stored_event_ok Inr
  have "\<forall>payload. map_of payload = map_of (er_payload row) \<longrightarrow> event_from_row iso_lib (row\<lparr>er_payload := payload\<rparr>) = Inr sample_stored_event"
    by simp
  moreover have "distinct (map fst (er_payload row))" using Inr sample_payload_distinct by simp
  then have "map_of (rev (er_payload row)) = map_of (er_payload row)"
    by (simp add: map_of_inject_set distinct_rev rev_map [symmetric])
  ultimately show ?thesis using Inr by blast
qed (use sample_stored_event_ok in simp)

section \<open>Operations of a Node\<close>

text \<open>What an accepted operation of a Node went through: its credential, the reconciliation of the Mission, then
  its own checks on the locked row.\<close>

lemma run_locked_Inr:
  assumes "run_locked_delivery_operation L w db auth i operation = (Inr r, db')" and "good L db"
  obtains k db1 where "reconcile_and_lock_delivery_context L (tw_fresh w 0) (tw_now w) db auth i = Inr (k, db1)"
    "operation db1 k = Inr (r, db')" "goes L db db1" "locked db1 auth i k" "tw_now w = Some (lk_now k)"
    "lk_reconciled_status k = None \<Longrightarrow> db1 = db" "assert_active_node_credential db auth = Inr ()"
proof -
  from assms(1) obtain k db1 where
    run: "reconcile_and_lock_delivery_context L (tw_fresh w 0) (tw_now w) db auth i = Inr (k, db1)"
    and "operation db1 k = Inr (r, db')" "assert_active_node_credential db auth = Inr ()"
    unfolding run_locked_delivery_operation_def by (auto split: sum.splits prod.splits)
  then show thesis using reconcile_and_lock [OF run assms(2)] by (intro that [OF run]) simp_all
qed

text \<open>A refused request of any kind.\<close>

lemma reconcile_missions_one:
  "reconcile_mission_in_transaction L (fresh 0) clock db i = Inr (r, db')
    \<Longrightarrow> reconcile_missions L fresh clock [i] db = (None, db')"
  by simp





section \<open>Leases\<close>

text \<open>Locking without the invariant: the row and the Mission that an operation sees are those of the tables.\<close>

lemma reconcile_unchanged:
  "reconcile_mission_in_transaction L fresh clock db i = Inr (r, db') \<Longrightarrow> \<not> rn_reconciled r
    \<Longrightarrow> db' = db \<and> clock = Some (rn_checked_at r)"
  unfolding reconcile_mission_in_transaction_def terminate_mission_def Let_def read_database_clock_def
  by (auto split: option.splits if_split_asm)

lemma locked_rows:
  assumes run: "reconcile_and_lock_delivery_context L fresh clock db auth i = Inr (k, db')"
    and none: "lk_reconciled_status k = None"
  shows "db' = db" "clock = Some (lk_now k)" "lk_delivery k \<in> set (db_deliveries db)" "dr_id (lk_delivery k) = i"
    "dr_node_id (lk_delivery k) = na_node_id auth" "lk_mission k \<in> set (db_missions db)"
    "mr_id (lk_mission k) = dr_mission_id (lk_delivery k)"
    "find_delivery db (na_node_id auth) i = Inr (lk_delivery k)"
proof -
  from run obtain d r m where d: "find_delivery db (na_node_id auth) i = Inr d"
    and rec: "reconcile_mission_in_transaction L fresh clock db (dr_mission_id d) = Inr (r, db')"
    and m: "find_mission db' (dr_mission_id d) = Some m"
    and k: "lock_delivery_context db' auth i m (rn_checked_at r)
      (if rn_reconciled r then Some (rn_status r) else None) = Inr k"
    unfolding reconcile_and_lock_delivery_context_def by (auto split: option.splits)
  note lock = lock_delivery_Inr [OF k]
  then have "\<not> rn_reconciled r" using none by (auto split: if_splits)
  note same = reconcile_unchanged [OF rec this]
  then show "db' = db" "clock = Some (lk_now k)" using lock by auto
  show "find_delivery db (na_node_id auth) i = Inr (lk_delivery k)" using lock same by simp
  with d have "lk_delivery k = d" by simp
  with find_delivery_Inr [OF d] find_mission_Some [OF m] lock same
  show "lk_delivery k \<in> set (db_deliveries db)" "dr_id (lk_delivery k) = i"
    "dr_node_id (lk_delivery k) = na_node_id auth" "lk_mission k \<in> set (db_missions db)"
    "mr_id (lk_mission k) = dr_mission_id (lk_delivery k)" by auto
qed

lemma run_locked_accepted:
  assumes "run_locked_delivery_operation L w db auth i operation = (Inr r, db')"
  obtains k db1 where "reconcile_and_lock_delivery_context L (tw_fresh w 0) (tw_now w) db auth i = Inr (k, db1)"
    "operation db1 k = Inr (r, db')" "assert_active_node_credential db auth = Inr ()"
  using assms unfolding run_locked_delivery_operation_def by (auto split: sum.splits prod.splits)

lemma runnable_Inr:
  assumes "assert_runnable_context k = Inr ()"
  shows "lk_participant_status k = Accepted" "lk_workspace_active k" "lk_now k < mr_expires_at (lk_mission k)"
    "mr_status (lk_mission k) = M_active \<or> mr_status (lk_mission k) = M_verifying"
  using assms by (auto simp: assert_runnable_context_def split: if_split_asm)

lemma bounded_expiry_Inr:
  "bounded_lease_expiry now e = Inr t \<Longrightarrow> now < t \<and> t \<le> now + 60000 \<and> t \<le> e"
  by (auto simp: bounded_lease_expiry_def Let_def split: if_split_asm)

lemma set_delivery_mem: "x \<in> set (db_deliveries db) \<Longrightarrow> dr_id x = dr_id d \<Longrightarrow> d \<in> set (db_deliveries (set_delivery d db))"
  by (force simp: set_delivery_def)

text \<open>A lease that a claim grants, and the row that it was granted on.\<close>

definition lease_granted :: "relay_db \<Rightarrow> node_auth \<Rightarrow> uuid \<Rightarrow> int \<Rightarrow> relay_db \<Rightarrow> mission_delivery_item \<Rightarrow> bool" where
  "lease_granted db auth i now db' item \<longleftrightarrow>
     (\<exists>d d' m expires.
        d \<in> set (db_deliveries db) \<and> m \<in> set (db_missions db) \<and> d' \<in> set (db_deliveries db')
        \<and> dr_id d = i \<and> dr_id d' = i \<and> dr_node_id d = na_node_id auth \<and> mr_id m = dr_mission_id d
        \<and> (dr_status d = D_stored
            \<or> (dr_status d = D_leased \<or> dr_status d = D_executing) \<and> (\<exists>t. dr_lease_expires_at d = Some t \<and> t \<le> now))
        \<and> dr_settled_by_event_id d = None \<and> dr_attempt_count d < dr_max_attempts d
        \<and> dr_status d' = D_leased \<and> dr_attempt_count d' = dr_attempt_count d + 1
        \<and> dr_last_fencing_token d' = string_of_int (dr_attempt_count d + 1)
        \<and> dr_lease_expires_at d' = Some expires \<and> now < expires \<and> expires \<le> now + 60000 \<and> expires \<le> mr_expires_at m
        \<and> mdi_delivery item = delivery_of_row d')"

lemma grant_granted:
  assumes grant: "grant_lease L w auth k i x db1 = Inr (Claimed_result item receipt False, db')"
    and x: "x \<in> set (db_deliveries db1)" "dr_id x = dr_id d" "dr_attempt_count x = dr_attempt_count d"
      "dr_max_attempts x = dr_max_attempts d" "dr_settled_by_event_id x = dr_settled_by_event_id d"
    and d: "d \<in> set (db_deliveries db)" "dr_node_id d = na_node_id auth"
      "lk_mission k \<in> set (db_missions db)" "mr_id (lk_mission k) = dr_mission_id d"
      "dr_status d = D_stored \<or> (dr_status d = D_leased \<or> dr_status d = D_executing)
         \<and> (\<exists>t. dr_lease_expires_at d = Some t \<and> t \<le> lk_now k)"
  shows "lease_granted db auth (dr_id d) (lk_now k) db' item"
  using grant
proof (rule grant_lease_cases)
  fix expires item' receipt'
  let ?row = "leased_row (tw_fresh w 1 2) expires (lk_now k) x"
  assume free: "dr_settled_by_event_id x = None" "dr_attempt_count x < dr_max_attempts x"
    and expiry: "bounded_lease_expiry (lk_now k) (mr_expires_at (lk_mission k)) = Inr expires"
    and same: "same_ledger (set_delivery ?row db1) db'"
    and item: "mdi_delivery item' = delivery_of_row ?row"
      "Claimed_result item receipt False = Claimed_result item' receipt' False"
  have "?row \<in> set (db_deliveries db')"
    using set_delivery_mem [OF x(1), of ?row] same by (simp add: same_ledger_def)
  then show ?thesis
    unfolding lease_granted_def
    using x d free bounded_expiry_Inr [OF expiry] item
    by (intro exI [of _ d] exI [of _ ?row] exI [of _ "lk_mission k"] exI [of _ expires]) (auto simp: leased_row_def)
qed

lemma dead_letter_claim_result:
  "dead_letter_expired_final_claim L w auth k c db = Inr (Claimed_result item receipt b, db') \<Longrightarrow> False"
  by (auto elim: dead_letter_claim_cases)

lemma replayed_claim_marked: "replayed_claim L out \<noteq> Inr (Claimed_result item receipt False)"
proof -
  have "mark_replayed x \<noteq> Claimed_result item receipt False" for x by (cases x) auto
  then show ?thesis by (auto simp: replayed_claim_def split: stored_output.splits)
qed

lemma claim_locked_fresh:
  assumes "claim_locked L w auth i c db k = Inr (Claimed_result item receipt False, db')"
  shows "lk_reconciled_status k = None \<and> assert_runnable_context k = Inr ()
    \<and> claim_stored_or_expired L w auth k c db = Inr (Claimed_result item receipt False, db')"
proof -
  from assms obtain found where load: "load_replay db (na_node_id auth) i Op_claim (ci_idempotency_key c)
      (In_claim i c) = Inr found"
    unfolding claim_locked_def by (auto split: option.splits)
  show ?thesis
  proof (cases found)
    case None
    with assms load show ?thesis unfolding claim_locked_def by (auto split: if_split_asm)
  next
    case (Some stored)
    with assms load show ?thesis unfolding claim_locked_def by (auto simp: replayed_claim_marked)
  qed
qed

lemma claim_granted:
  assumes "claim_delivery L w db auth i c = (Inr (Claimed_result item receipt False), db')"
  shows "\<exists>now. tw_now w = Some now \<and> lease_granted db auth i now db' item"
proof -
  have "run_locked_delivery_operation L w db auth i (claim_locked L w auth i c)
      = (Inr (Claimed_result item receipt False), db')"
    using assms by (simp add: claim_delivery_def split: if_split_asm)
  then obtain k db1 where
    lock: "reconcile_and_lock_delivery_context L (tw_fresh w 0) (tw_now w) db auth i = Inr (k, db1)"
    and run: "claim_locked L w auth i c db1 k = Inr (Claimed_result item receipt False, db')"
    by (rule run_locked_accepted)
  note fresh = claim_locked_fresh [OF run]
  note rows = locked_rows [OF lock fresh [THEN conjunct1]]
  let ?d = "lk_delivery k"
  from fresh consider (grant) "dr_status ?d \<noteq> D_leased \<and> dr_status ?d \<noteq> D_executing"
      "grant_lease L w auth k c ?d db = Inr (Claimed_result item receipt False, db')"
    | (again) db2 x t where "dr_status ?d = D_leased \<or> dr_status ?d = D_executing"
      "dr_lease_expires_at ?d = Some t" "t \<le> lk_now k"
      "expire_lease_for_retry L (tw_fresh w 1 1) auth ?d (lk_now k) db = Inr db2"
      "find_delivery db2 (na_node_id auth) (dr_id ?d) = Inr x"
      "grant_lease L w auth k c x db2 = Inr (Claimed_result item receipt False, db')"
    unfolding claim_stored_or_expired_def rows(1) Let_def
    by (auto dest: dead_letter_claim_result split: if_split_asm option.splits)
  then have "lease_granted db auth (dr_id ?d) (lk_now k) db' item"
  proof cases
    case grant
    have "dr_status ?d = D_stored" using grant(2) by (rule grant_lease_cases)
    then show ?thesis by (intro grant_granted [OF grant(2)] rows refl) simp_all
  next
    case again
    note expired = expire_lease_cases [OF again(4)] and x = find_delivery_Inr [OF again(5)]
    have "x = retry_row (lk_now k) (lk_now k) ?d"
      using x expired(2) by (auto simp: same_ledger_def set_delivery_def split: if_split_asm)
    then show ?thesis
      using x again(1-3) rows
      by (intro grant_granted [OF again(6)]) (auto simp: retry_row_def close_lease_def)
  qed
  with rows(2,4) show ?thesis by auto
qed

text \<open>C12. A fresh claim grants a lease only on an unsettled delivery of the Node that is stored, or whose lease
  has expired, and that has attempts left; it counts the attempt, makes its number the fencing token, and lets
  the lease end after the clock reading, at most a minute later and never after the Mission's deadline.\<close>

theorem claimed_lease_bounded:
  "case claim_delivery L w db auth i c of
     (Inr (Claimed_result item receipt replayed), db') \<Rightarrow>
       replayed \<or> (\<exists>now. tw_now w = Some now \<and> lease_granted db auth i now db' item)
   | (Inr (Dead_lettered_result d receipt replayed), db') \<Rightarrow> True
   | (Inl e, db') \<Rightarrow> True"
proof -
  have "b \<or> (\<exists>now. tw_now w = Some now \<and> lease_granted db auth i now db' item)"
    if "claim_delivery L w db auth i c = (Inr (Claimed_result item receipt b), db')" for item receipt b db'
    using that claim_granted by (cases b) auto
  then show ?thesis by (auto split: prod.split sum.split claim_result.split)
qed

section \<open>Completion\<close>

definition completion_authorized :: "relay_db \<Rightarrow> node_auth \<Rightarrow> uuid \<Rightarrow> complete_input \<Rightarrow> int \<Rightarrow> bool" where
  "completion_authorized db auth i c now \<longleftrightarrow>
     (\<exists>d m p t. d \<in> set (db_deliveries db) \<and> m \<in> set (db_missions db) \<and> p \<in> set (participants_of db (mr_id m))
        \<and> dr_id d = i \<and> dr_node_id d = na_node_id auth \<and> mr_id m = dr_mission_id d
        \<and> dr_status d = D_executing \<and> dr_settled_by_event_id d = None
        \<and> dr_active_lease_id d = Some (lo_lease_id c) \<and> dr_last_fencing_token d = lo_fencing_token c
        \<and> dr_lease_expires_at d = Some t \<and> now < t
        \<and> (mr_status m = M_active \<or> mr_status m = M_verifying) \<and> now < mr_expires_at m
        \<and> pt_node_id p = na_node_id auth \<and> pt_agent_id p = na_agent_id auth \<and> pt_status p = Accepted)
     \<and> assert_active_node_credential db auth = Inr ()"

lemma lock_participant:
  assumes "reconcile_and_lock_delivery_context L fresh clock db auth i = Inr (k, db)"
    and "lk_reconciled_status k = None"
  shows "\<exists>p \<in> set (participants_of db (mr_id (lk_mission k))). pt_node_id p = na_node_id auth
    \<and> pt_agent_id p = na_agent_id auth \<and> pt_status p = lk_participant_status k"
proof -
  from assms(1) obtain m now s where "lock_delivery_context db auth i m now s = Inr k"
    unfolding reconcile_and_lock_delivery_context_def by (auto split: option.splits)
  then obtain p v rest where
    k: "lk_mission k = m" "lk_participant_status k = pt_status p"
    and "concat (map (\<lambda>p. map (\<lambda>w. (p, w)) (filter (\<lambda>w. ws_id w = pt_workspace_binding_id p) (db_workspaces db)))
      (filter (\<lambda>p. pt_node_id p = na_node_id auth \<and> pt_agent_id p = na_agent_id auth)
        (participants_of db (mr_id m)))) = (p, v) # rest"
    unfolding lock_delivery_context_def by (auto simp: first_pair_Inr)
  then have "(p, v) \<in> set (concat (map (\<lambda>p. map (\<lambda>w. (p, w)) (filter (\<lambda>w. ws_id w = pt_workspace_binding_id p) (db_workspaces db)))
      (filter (\<lambda>p. pt_node_id p = na_node_id auth \<and> pt_agent_id p = na_agent_id auth)
        (participants_of db (mr_id m)))))" by simp
  then show ?thesis using k by auto
qed

lemma lease_authority_Inr:
  "assert_lease_authority d c now = Inr () \<longleftrightarrow> dr_active_lease_id d = Some (lo_lease_id c)
     \<and> dr_last_fencing_token d = lo_fencing_token c \<and> (\<exists>t. dr_lease_expires_at d = Some t \<and> now < t)"
  by (cases "dr_lease_expires_at d") (auto simp: assert_lease_authority_def)

lemma replayed_completion_Inr:
  "replayed_completion L out = Inr r \<Longrightarrow> \<exists>x. out = Out_complete x \<and> r = x\<lparr>ors_replayed := True\<rparr>"
  by (auto simp: replayed_completion_def split: stored_output.splits if_split_asm)

lemma complete_accepted:
  assumes "complete_delivery L w db auth i c = (Inr r, db')"
  obtains k db1 where "reconcile_and_lock_delivery_context L (tw_fresh w 0) (tw_now w) db auth i = Inr (k, db1)"
    "complete_locked L w auth i c db1 k = Inr (r, db')" "assert_active_node_credential db auth = Inr ()"
  using assms run_locked_accepted [of L w db auth i "complete_locked L w auth i c" r db' thesis]
  by (simp add: complete_delivery_def split: if_split_asm)

lemma completed_authorized:
  assumes run: "complete_delivery L w db auth i c = (Inr r, db')" and fresh: "\<not> ors_replayed r"
  shows "\<exists>now a e. tw_now w = Some now \<and> completion_authorized db auth i c now
    \<and> ors_delivery r = delivery_of_row a \<and> dr_id a = i \<and> dr_status a = D_acknowledged
    \<and> last_option (cmr_events r) = Some e \<and> dr_settled_by_event_id a = Some (ev_event_id e)"
proof -
  from run obtain k db1 where
    lock: "reconcile_and_lock_delivery_context L (tw_fresh w 0) (tw_now w) db auth i = Inr (k, db1)"
    and locked_run: "complete_locked L w auth i c db1 k = Inr (r, db')"
    and cred: "assert_active_node_credential db auth = Inr ()"
    by (rule complete_accepted)
  from locked_run show ?thesis
  proof (cases rule: complete_cases)
    case (replayed receipt)
    with fresh show ?thesis by (auto dest: replayed_completion_Inr)
  next
    case (completed inputs rs db2)
    note rows = locked_rows [OF lock completed(2)] and ready = runnable_Inr [OF completed(3)]
    have "completion_authorized db auth i c (lk_now k)"
      using rows(3-7) ready completed(4,5) lease_authority_Inr completed(6) cred
        lock_participant [OF lock [unfolded rows(1)] completed(2)]
      unfolding completion_authorized_def by metis
    moreover from completed(9) obtain final a db3 receipt where
      "last_option (map ar_event rs) = Some final"
      "acknowledge_source auth i c (ev_event_id final) (lk_now k) db2 = Inr (a, db3)"
      "r = \<lparr>ors_delivery = delivery_of_row a, ors_receipt = receipt, ors_replayed = False,
        cmr_events = map ar_event rs, cmr_derived_delivery_ids = remdups (concat (map ar_delivery_ids rs))\<rparr>"
      by (rule finish_completion_cases)
    moreover from this(2) have "dr_id a = i" "dr_status a = D_acknowledged"
        "dr_settled_by_event_id a = Some (ev_event_id final)"
      by (auto elim!: acknowledge_source_Inr simp: acknowledged_row_def close_lease_def)
    ultimately show ?thesis using rows(2) by auto
  qed
qed

text \<open>C3. Only the holder of the current lease completes a delivery: a fresh completion was made with an active
  credential of the delivery's Node, for an executing, unsettled delivery whose lease and fencing token are the
  ones presented and whose lease has not expired, in a running Mission before its deadline, by a participant who
  accepted it; and it answers with the delivery acknowledged, settled by the last event that it appended.\<close>

theorem completion_needs_current_lease:
  "case complete_delivery L w db auth i c of
     (Inr r, db') \<Rightarrow> ors_replayed r
       \<or> (\<exists>now a e. tw_now w = Some now \<and> completion_authorized db auth i c now
            \<and> ors_delivery r = delivery_of_row a \<and> dr_id a = i \<and> dr_status a = D_acknowledged
            \<and> last_option (cmr_events r) = Some e \<and> dr_settled_by_event_id a = Some (ev_event_id e))
   | (Inl e, db') \<Rightarrow> True"
proof -
  have "ors_replayed r \<or> (\<exists>now a e. tw_now w = Some now \<and> completion_authorized db auth i c now
            \<and> ors_delivery r = delivery_of_row a \<and> dr_id a = i \<and> dr_status a = D_acknowledged
            \<and> last_option (cmr_events r) = Some e \<and> dr_settled_by_event_id a = Some (ev_event_id e))"
    if "complete_delivery L w db auth i c = (Inr r, db')" for r db'
    using completed_authorized [OF that] by blast
  then show ?thesis by (auto split: prod.split sum.split)
qed

text \<open>What the relay writes itself never answers a Node: the receipts of a reconciliation are its own, at the end.\<close>

definition relay_rows_added :: "relay_db \<Rightarrow> relay_db \<Rightarrow> bool" where
  "relay_rows_added db db' \<longleftrightarrow>
     (\<exists>rs. db_receipts db' = db_receipts db @ rs \<and> list_all (\<lambda>r. \<not> rr_from_node r) rs)"

lemma relay_rows_refl [simp]: "relay_rows_added db db"
  by (simp add: relay_rows_added_def)

lemma cancel_each_receipts:
  "cancel_each fresh key check f reason now actor ds db = Inr db' \<Longrightarrow> relay_rows_added db db'"
proof (induction ds arbitrary: fresh db)
  case (Cons d ds)
  then obtain db1 where
    one: "insert_receipt (cancel_receipt (fresh 0) (key d) reason now d)
      (update_deliveries (\<lambda>x. dr_id x = dr_id d) f db) = Inr db1"
    and "relay_rows_added (write_audit actor ''delivery.cancel'' (dr_id d) db1) db'"
    by auto
  then show ?case
    using insert_receipt_frame(1) [OF one] by (fastforce simp: relay_rows_added_def cancel_receipt_def)
qed simp

lemma reconcile_receipts:
  assumes "reconcile_mission_in_transaction L fresh clock db i = Inr (r, db')"
  shows "relay_rows_added db db'"
  using assms
proof (cases rule: reconcile_cases)
  case (ended m now cause)
  from ended(5) obtain e db1 db2 n key f reason ds t x y z where "insert_event e db = Inr db1"
    "cancel_each n key (check_cancelled L f) f reason now None ds db1 = Inr db2"
    "db' = write_audit None x y (update_mission z (project_mission t) db2)"
    unfolding terminate_mission_def Let_def by (auto split: if_split_asm)
  with cancel_each_receipts [OF this(2)] show ?thesis
    by (auto simp: relay_rows_added_def insert_event_Inr)
qed simp

lemma locking_receipts:
  assumes "reconcile_and_lock_delivery_context L fresh clock db auth i = Inr (k, db')"
  obtains j r where "reconcile_mission_in_transaction L fresh clock db j = Inr (r, db')" "relay_rows_added db db'"
  using assms reconcile_receipts unfolding reconcile_and_lock_delivery_context_def
  by (auto split: option.splits)

lemma load_replay_rows:
  "load_replay db n i op key inp = Inr (Some row) \<longleftrightarrow>
     find (\<lambda>r. rr_from_node r \<and> rr_node_id r = n \<and> rr_idempotency_key r = key) (db_receipts db) = Some row
     \<and> rr_delivery_id row = i \<and> rr_operation row = Node_operation op \<and> rr_input row = inp"
  by (auto simp: load_replay_def split: option.splits)

lemma find_append: "find P (xs @ ys) = (case find P xs of None \<Rightarrow> find P ys | Some x \<Rightarrow> Some x)"
  by (induction xs) auto

lemma load_replay_later:
  "load_replay db n i op key inp = Inr (Some row) \<Longrightarrow> db_receipts db' = db_receipts db @ rs
    \<Longrightarrow> load_replay db' n i op key inp = Inr (Some row)"
  by (simp add: load_replay_rows find_append)

text \<open>An accepted completion is on record.\<close>

lemma recorded_last:
  assumes "record_operation L auth d receipt inp out db = Inr db'"
  shows "\<exists>row. load_replay db' (na_node_id auth) (dr_id d) (or_operation receipt) (or_idempotency_key receipt) inp
      = Inr (Some row) \<and> rr_output row = out"
  using assms
proof (rule record_operation_frame)
  fix row
  assume row: "db_receipts db' = db_receipts db @ [row]" "rr_from_node row" "rr_node_id row = na_node_id auth"
    "rr_delivery_id row = dr_id d" "rr_operation row = Node_operation (or_operation receipt)"
    "rr_idempotency_key row = or_idempotency_key receipt" "rr_input row = inp" "rr_output row = out"
    and new: "\<forall>x \<in> set (db_receipts db). rr_from_node x \<and> rr_node_id x = na_node_id auth
      \<longrightarrow> rr_idempotency_key x \<noteq> or_idempotency_key receipt"
  have "find (\<lambda>r. rr_from_node r \<and> rr_node_id r = na_node_id auth
      \<and> rr_idempotency_key r = or_idempotency_key receipt) (db_receipts db) = None"
    using new by (auto simp: find_None_iff)
  then show ?thesis
    using row by (intro exI [of _ row]) (simp add: load_replay_rows find_append)
qed

lemma completion_recorded:
  assumes "complete_delivery L w db auth i c = (Inr r, db')"
  obtains row x where
    "load_replay db' (na_node_id auth) i Op_complete (lo_idempotency_key c) (In_complete i c) = Inr (Some row)"
    "rr_output row = Out_complete x" "r\<lparr>ors_replayed := True\<rparr> = x\<lparr>ors_replayed := True\<rparr>"
proof -
  from assms obtain k db1 where locked_run: "complete_locked L w auth i c db1 k = Inr (r, db')"
    by (rule complete_accepted)
  from locked_run show thesis
  proof (cases rule: complete_cases)
    case (replayed row)
    from replayed_completion_Inr [OF replayed(3)] replayed(1,2) that show ?thesis by auto
  next
    case (completed inputs rs db2)
    from completed(9) show ?thesis
    proof (rule finish_completion_cases)
      fix final a db3 db4 receipt
      assume ack: "acknowledge_source auth i c (ev_event_id final) (lk_now k) db2 = Inr (a, db3)"
        and rec: "record_operation L auth a receipt (In_complete i c) (Out_complete r) db4 = Inr db'"
        and kind: "or_operation receipt = Op_complete" "or_idempotency_key receipt = lo_idempotency_key c"
      from ack have "dr_id a = i" by (rule acknowledge_source_Inr) simp
      then obtain row where "load_replay db' (na_node_id auth) i Op_complete (lo_idempotency_key c) (In_complete i c)
          = Inr (Some row)" "rr_output row = Out_complete r"
        using recorded_last [OF rec] kind by auto
      then show ?thesis by (rule that) (rule refl)
    qed
  qed
qed

text \<open>C4. A completion is applied once: whatever tables a later attempt meets, if their receipts extend those that
  the accepted completion left, then the same request is either refused or answered with the recorded result,
  marked as replayed, and stores nothing but what the reconciliation that comes first stores.\<close>

theorem completion_applied_once:
  "case complete_delivery L w db auth i c of
     (Inl e, db1) \<Rightarrow> True
   | (Inr r, db1) \<Rightarrow>
      (case complete_delivery L w' (db2\<lparr>db_receipts := db_receipts db1 @ rs\<rparr>) auth i c of
         (Inl e, db3) \<Rightarrow> True
       | (Inr r', db3) \<Rightarrow> r' = r\<lparr>ors_replayed := True\<rparr>
           \<and> (\<exists>ms. db3 = snd (reconcile_missions L (tw_fresh w') (tw_now w') ms
                  (db2\<lparr>db_receipts := db_receipts db1 @ rs\<rparr>))))"
proof -
  let ?db = "\<lambda>db1. db2\<lparr>db_receipts := db_receipts db1 @ rs\<rparr>"
  have "r' = r\<lparr>ors_replayed := True\<rparr>
      \<and> (\<exists>ms. db3 = snd (reconcile_missions L (tw_fresh w') (tw_now w') ms (?db db1)))"
    if first: "complete_delivery L w db auth i c = (Inr r, db1)"
      and again: "complete_delivery L w' (?db db1) auth i c = (Inr r', db3)" for r db1 r' db3
  proof -
    from first obtain row x where
      load: "load_replay db1 (na_node_id auth) i Op_complete (lo_idempotency_key c) (In_complete i c) = Inr (Some row)"
      and out: "rr_output row = Out_complete x" "r\<lparr>ors_replayed := True\<rparr> = x\<lparr>ors_replayed := True\<rparr>"
      by (rule completion_recorded)
    from again obtain k db4 where
      lock: "reconcile_and_lock_delivery_context L (tw_fresh w' 0) (tw_now w') (?db db1) auth i = Inr (k, db4)"
      and run: "complete_locked L w' auth i c db4 k = Inr (r', db3)"
      by (rule complete_accepted)
    from lock obtain j rn where
      rec: "reconcile_mission_in_transaction L (tw_fresh w' 0) (tw_now w') (?db db1) j = Inr (rn, db4)"
      and "relay_rows_added (?db db1) db4" by (rule locking_receipts)
    then obtain rs' where "db_receipts db4 = db_receipts db1 @ rs @ rs'" by (auto simp: relay_rows_added_def)
    note load4 = load_replay_later [OF load this]
    from run show ?thesis
    proof (cases rule: complete_cases)
      case (replayed row')
      then have "row' = row" using load4 by simp
      with replayed replayed_completion_Inr [OF replayed(3)] out
        reconcile_missions_one [of L "tw_fresh w'", OF rec]
      show ?thesis by (auto intro!: exI [of _ "[j]"])
    qed (use load4 in simp)
  qed
  then show ?thesis by (auto split: prod.split sum.split)
qed

end
