(* ===== verification/Node_Policy.thy ===== *)
theory Node_Policy
  imports Complex_Main Coordinator_Schemas Canonical_Json Runtime_Authority Samples "HOL-Library.AList"
begin

text \<open>
  The local policy of a Node (\<^verbatim>\<open>node/src/policy.ts\<close>, and the profiles of \<^verbatim>\<open>node/src/config.ts\<close>): the
  owner's profiles, the hash by which a profile is granted to a Mission, and the one way from an opaque
  command id to a process.  Paths are POSIX paths.
\<close>

section \<open>Profiles\<close>

record verification_command =
  vc_argv :: "jstext list"
  vc_timeout_seconds :: int
  vc_environment :: "string list"

record policy_profile =
  pp_max_turn_seconds :: int
  pp_max_reported_tokens :: int
  pp_verification_commands :: "(string \<times> verification_command) list"

definition environment_name_ok :: "string \<Rightarrow> bool" where
  "environment_name_ok s \<longleftrightarrow> length s \<le> 128
     \<and> head_tail (\<lambda>c. (is_alnum c \<and> \<not> is_digit c) \<or> c = CHR ''_'') (\<lambda>c. is_alnum c \<or> c = CHR ''_'') s"

definition command_argument_ok :: "jstext \<Rightarrow> bool" where
  "command_argument_ok t \<longleftrightarrow> int (length t) \<le> 4096 \<and> 0 \<notin> set t"

definition verification_command_ok :: "verification_command \<Rightarrow> bool" where
  "verification_command_ok c \<longleftrightarrow> list_all command_argument_ok (vc_argv c)
     \<and> 1 \<le> length (vc_argv c) \<and> length (vc_argv c) \<le> 128
     \<and> (case vc_argv c of [] \<Rightarrow> True | a # as \<Rightarrow> js_trim a \<noteq> [])
     \<and> 0 < vc_timeout_seconds c \<and> vc_timeout_seconds c \<le> 3600
     \<and> list_all environment_name_ok (vc_environment c) \<and> length (vc_environment c) \<le> 64
     \<and> has_unique_values (vc_environment c)"

definition policy_profile_ok :: "policy_profile \<Rightarrow> bool" where
  "policy_profile_ok p \<longleftrightarrow> 0 < pp_max_turn_seconds p \<and> pp_max_turn_seconds p \<le> 86400
     \<and> 0 < pp_max_reported_tokens p \<and> pp_max_reported_tokens p \<le> 100000000
     \<and> list_all (\<lambda>(k, c). alias_ok k \<and> verification_command_ok c) (pp_verification_commands p)
     \<and> length (pp_verification_commands p) \<le> 32"

datatype policy_error =
  Policy_profile_not_found | Verification_command_not_allowed | Verification_command_not_required
| Verification_command_workspace_invalid | Verification_command_authority_invalid
| Verification_command_authority_expired | Verification_command_environment_not_allowed

section \<open>The grant of a profile\<close>

text \<open>\<open>JSON.stringify\<close>: the keys of an object in the order in which they were written.\<close>

fun stringify :: "json_tree \<Rightarrow> jstext" where
  "stringify (Jt_array vs) = [0x5B] @ join_comma (map stringify vs) @ [0x5D]"
| "stringify (Jt_object es) =
     [0x7B] @ join_comma (map (\<lambda>(k, v). json_string k @ [0x3A] @ stringify v) es) @ [0x7D]"
| "stringify t = canonical_json t"

definition policy_command_json :: "string \<times> verification_command \<Rightarrow> json_tree" where
  "policy_command_json kc = object_json
     [(''command_id'', text_json (fst kc)), (''argv'', Jt_array (map Jt_string (vc_argv (snd kc)))),
      (''timeout_seconds'', Jt_int (vc_timeout_seconds (snd kc))),
      (''environment'', Jt_array (map text_json (sort (vc_environment (snd kc)))))]"

definition canonical_policy_grant :: "string \<Rightarrow> policy_profile \<Rightarrow> jstext" where
  "canonical_policy_grant name p = stringify (object_json
     [(''schema_version'', Jt_int 1), (''profile_name'', text_json name),
      (''max_turn_seconds'', Jt_int (pp_max_turn_seconds p)),
      (''max_reported_tokens'', Jt_int (pp_max_reported_tokens p)),
      (''network_access'', text_json ''denied''),
      (''verification_commands'',
         Jt_array (map policy_command_json (sort_key fst (pp_verification_commands p))))])"

definition policy_grant_sha256 :: "host_lib \<Rightarrow> string \<Rightarrow> policy_profile \<Rightarrow> string" where
  "policy_grant_sha256 L name p = sha256_hex L (canonical_policy_grant name p)"

record resolved_profile =
  rs_name :: string
  rs_profile :: policy_profile
  rs_grant :: local_policy_grant

definition resolve_policy_profile ::
  "host_lib \<Rightarrow> (string \<times> policy_profile) list \<Rightarrow> string \<Rightarrow> policy_error + resolved_profile" where
  "resolve_policy_profile L profiles name =
     (case map_of profiles name of
        None \<Rightarrow> Inl Policy_profile_not_found
      | Some p \<Rightarrow> Inr \<lparr>rs_name = name, rs_profile = p,
          rs_grant = \<lparr>pg_profile_name = name, pg_grant_sha256 = policy_grant_sha256 L name p\<rparr>\<rparr>)"

section \<open>Running a verification command\<close>

definition resolve_verification_command ::
  "resolved_profile \<Rightarrow> string \<Rightarrow> policy_error + verification_command" where
  "resolve_verification_command r k =
     (case map_of (pp_verification_commands (rs_profile r)) k of
        None \<Rightarrow> Inl Verification_command_not_allowed | Some c \<Rightarrow> Inr c)"

abbreviation slash :: "16 word" where
  "slash \<equiv> 0x2F"

fun segments :: "jstext \<Rightarrow> jstext list" where
  "segments [] = [[]]"
| "segments (u # us) = (if u = slash then [] # segments us
     else (case segments us of s # ss \<Rightarrow> (u # s) # ss | [] \<Rightarrow> [[u]]))"

definition normalize_segment :: "jstext list \<Rightarrow> jstext \<Rightarrow> jstext list" where
  "normalize_segment path s = (if s = [] \<or> s = text_of ''.'' then path
     else if s = text_of ''..'' then butlast path else path @ [s])"

text \<open>\<open>path.normalize\<close> of an absolute path: a trailing slash is kept.\<close>

definition normalize_absolute :: "jstext \<Rightarrow> jstext" where
  "normalize_absolute p =
     (let path = foldl normalize_segment [] (segments p);
          body = concat (map (\<lambda>s. slash # s) path)
      in if path = [] then [slash] else if last p = slash then body @ [slash] else body)"

definition canonical_workspace_root :: "jstext \<Rightarrow> bool" where
  "canonical_workspace_root dir \<longleftrightarrow> 0 \<notin> set dir
     \<and> (case dir of [] \<Rightarrow> False | u # us \<Rightarrow> u = slash) \<and> normalize_absolute dir = dir"

text \<open>A number of JavaScript that is not finite is no remaining authority either; the others are rational.\<close>

definition is_safe_integer :: "rat \<Rightarrow> bool" where
  "is_safe_integer r \<longleftrightarrow> of_int (floor r) = r \<and> \<bar>r\<bar> \<le> of_int max_safe_integer"

definition check_remaining_authority :: "rat option \<Rightarrow> policy_error + int" where
  "check_remaining_authority remaining =
     (case remaining of
        None \<Rightarrow> Inl Verification_command_authority_invalid
      | Some r \<Rightarrow> if \<not> is_safe_integer r then Inl Verification_command_authority_invalid
                  else if r \<le> 0 then Inl Verification_command_authority_expired else Inr (floor r))"

definition safe_verification_environment :: "string list" where
  "safe_verification_environment =
     [''CI'', ''LANG'', ''LC_ALL'', ''LC_CTYPE'', ''PATH'', ''PATHEXT'', ''Path'', ''SystemRoot'',
      ''SYSTEMROOT'', ''TEMP'', ''TMP'', ''TMPDIR'', ''TZ'', ''WINDIR'']"

fun command_environment ::
  "(string \<Rightarrow> jstext option) \<Rightarrow> string list \<Rightarrow> (string \<times> jstext) list \<Rightarrow> policy_error + (string \<times> jstext) list" where
  "command_environment source [] env = Inr env"
| "command_environment source (name # names) env =
     (if name \<notin> set safe_verification_environment then Inl Verification_command_environment_not_allowed
      else command_environment source names
        (case source name of None \<Rightarrow> env | Some v \<Rightarrow> AList.update name v env))"

record execution_authority =
  xa_required_command_ids :: "string list"
  xa_canonical_workspace_root :: jstext
  xa_remaining_authority_ms :: "rat option"
  xa_source_environment :: "string \<Rightarrow> jstext option"

record command_execution =
  cx_executable :: jstext
  cx_args :: "jstext list"
  cx_cwd :: jstext
  cx_timeout_ms :: int
  cx_env :: "(string \<times> jstext) list"

definition resolve_verification_command_execution ::
  "resolved_profile \<Rightarrow> string \<Rightarrow> execution_authority \<Rightarrow> policy_error + command_execution" where
  "resolve_verification_command_execution r k a =
     (if \<not> canonical_workspace_root (xa_canonical_workspace_root a)
      then Inl Verification_command_workspace_invalid
      else case check_remaining_authority (xa_remaining_authority_ms a) of
        Inl e \<Rightarrow> Inl e
      | Inr remaining \<Rightarrow>
          if k \<notin> set (xa_required_command_ids a) then Inl Verification_command_not_required
          else case resolve_verification_command r k of
            Inl e \<Rightarrow> Inl e
          | Inr c \<Rightarrow>
              (case vc_argv c of
                 [] \<Rightarrow> Inl Verification_command_not_allowed
               | executable # args \<Rightarrow>
                   (case command_environment (xa_source_environment a) (vc_environment c) [] of
                      Inl e \<Rightarrow> Inl e
                    | Inr env \<Rightarrow> Inr \<lparr>cx_executable = executable, cx_args = args,
                        cx_cwd = xa_canonical_workspace_root a,
                        cx_timeout_ms = min (vc_timeout_seconds c * 1000) remaining, cx_env = env\<rparr>)))"

section \<open>Laws\<close>

lemma command_environment_Inr:
  "command_environment source names env = Inr env' \<longleftrightarrow>
     set names \<subseteq> set safe_verification_environment
     \<and> env' = foldl (\<lambda>env name. case source name of None \<Rightarrow> env | Some v \<Rightarrow> AList.update name v env) env names"
  by (induction source names env rule: command_environment.induct) auto

lemma command_environment_binding:
  "map_of (foldl (\<lambda>env name. case source name of None \<Rightarrow> env | Some v \<Rightarrow> AList.update name v env) env names) n
     = (if n \<in> set names \<and> source n \<noteq> None then source n else map_of env n)"
  by (induction names arbitrary: env) (auto simp: update_conv' split: option.splits)

lemma map_insort_key: "map f (insort_key (\<lambda>x. g (f x)) x xs) = insort_key g (f x) (map f xs)"
  by (induction xs) auto

lemma map_sort_key: "map f (sort_key (\<lambda>x. g (f x)) xs) = sort_key g (map f xs)"
  by (induction xs) (auto simp: map_insort_key)

text \<open>C16. Only what the owner registered runs: an opaque command id becomes a process only if the Mission requires
  it and the local profile has it, and then it is exactly the registered argument vector, in the canonical workspace,
  for no longer than the command's timeout and the authority that remains, with the allowed and harmless variables that
  the Node's environment has, and nothing else.\<close>

theorem verification_runs_registered_command:
  assumes "resolve_verification_command_execution r k a = Inr x"
  shows "k \<in> set (xa_required_command_ids a)
    \<and> (\<exists>c remaining. map_of (pp_verification_commands (rs_profile r)) k = Some c
        \<and> cx_executable x # cx_args x = vc_argv c
        \<and> xa_remaining_authority_ms a = Some (of_int remaining) \<and> 0 < remaining
        \<and> cx_timeout_ms x = min (vc_timeout_seconds c * 1000) remaining
        \<and> cx_cwd x = xa_canonical_workspace_root a \<and> canonical_workspace_root (cx_cwd x)
        \<and> set (vc_environment c) \<subseteq> set safe_verification_environment
        \<and> map_of (cx_env x) = (\<lambda>n. if n \<in> set (vc_environment c) then xa_source_environment a n else None))"
proof -
  obtain c remaining executable args env where x:
    "canonical_workspace_root (xa_canonical_workspace_root a)"
    "check_remaining_authority (xa_remaining_authority_ms a) = Inr remaining"
    "k \<in> set (xa_required_command_ids a)" "map_of (pp_verification_commands (rs_profile r)) k = Some c"
    "vc_argv c = executable # args"
    "command_environment (xa_source_environment a) (vc_environment c) [] = Inr env"
    "x = \<lparr>cx_executable = executable, cx_args = args, cx_cwd = xa_canonical_workspace_root a,
       cx_timeout_ms = min (vc_timeout_seconds c * 1000) remaining, cx_env = env\<rparr>"
    using assms
    by (auto simp: resolve_verification_command_execution_def resolve_verification_command_def
        split: if_splits sum.splits option.splits list.splits)
  have "xa_remaining_authority_ms a = Some (of_int remaining) \<and> 0 < remaining"
    using x(2) by (auto simp: check_remaining_authority_def is_safe_integer_def not_le
        split: option.splits if_splits)
  moreover have "map_of env = (\<lambda>n. if n \<in> set (vc_environment c) then xa_source_environment a n else None)"
    using x(6) by (auto simp: command_environment_Inr command_environment_binding fun_eq_iff)
  ultimately show ?thesis using x by (auto simp: command_environment_Inr)
qed

text \<open>C40. The hash that a participant grants stands for the meaning of a profile: writing its commands, or the
  variables a command may read, in another order gives the same hash.\<close>

theorem policy_grant_order_free:
  assumes "distinct (map fst (pp_verification_commands p))"
    and "mset (map (\<lambda>(k, c). (k, vc_argv c, vc_timeout_seconds c, mset (vc_environment c))) (pp_verification_commands p))
       = mset (map (\<lambda>(k, c). (k, vc_argv c, vc_timeout_seconds c, mset (vc_environment c))) (pp_verification_commands q))"
    and "pp_max_turn_seconds p = pp_max_turn_seconds q" and "pp_max_reported_tokens p = pp_max_reported_tokens q"
  shows "policy_grant_sha256 L name p = policy_grant_sha256 L name q"
proof -
  let ?view = "\<lambda>(k, c). (k, vc_argv c, vc_timeout_seconds c, mset (vc_environment c))"
  let ?json = "\<lambda>(k, argv, timeout, env). object_json
     [(''command_id'', text_json k), (''argv'', Jt_array (map Jt_string argv)),
      (''timeout_seconds'', Jt_int timeout),
      (''environment'', Jt_array (map text_json (sorted_list_of_multiset env)))]"
  have json: "policy_command_json kc = ?json (?view kc)" for kc
    by (cases kc) (simp add: policy_command_json_def sorted_list_of_multiset_mset)
  have views: "map ?view (sort_key fst cs) = sort_key fst (map ?view cs)"
    for cs :: "(string \<times> verification_command) list"
    using map_sort_key [of ?view fst cs] by (simp add: split_def)
  have listed: "map policy_command_json (sort_key fst cs) = map ?json (sort_key fst (map ?view cs))"
    for cs :: "(string \<times> verification_command) list"
    unfolding views [symmetric] map_map by (rule map_cong [OF refl]) (simp only: comp_def json)
  have "sort_key fst (map ?view (pp_verification_commands p)) = sort_key fst (map ?view (pp_verification_commands q))"
    using assms(1,2) by (intro sort_key_distinct_perm) (simp_all add: split_def comp_def)
  then have "map policy_command_json (sort_key fst (pp_verification_commands p))
      = map policy_command_json (sort_key fst (pp_verification_commands q))"
    by (simp only: listed)
  then show ?thesis using assms(3,4) by (simp add: policy_grant_sha256_def canonical_policy_grant_def)
qed

section \<open>Witnesses\<close>

definition sample_test_command :: verification_command where
  "sample_test_command = \<lparr>vc_argv = [text_of ''npm'', text_of ''test''], vc_timeout_seconds = 60,
     vc_environment = [''PATH'', ''CI'']\<rparr>"

definition sample_lint_command :: verification_command where
  "sample_lint_command = \<lparr>vc_argv = [text_of ''lint''], vc_timeout_seconds = 5, vc_environment = []\<rparr>"

definition sample_profile :: policy_profile where
  "sample_profile = \<lparr>pp_max_turn_seconds = 600, pp_max_reported_tokens = 1000,
     pp_verification_commands = [(''test'', sample_test_command), (''lint'', sample_lint_command)]\<rparr>"

definition sample_resolved :: resolved_profile where
  "sample_resolved = \<lparr>rs_name = ''default'', rs_profile = sample_profile,
     rs_grant = \<lparr>pg_profile_name = ''default'', pg_grant_sha256 = replicate 64 (CHR ''0'')\<rparr>\<rparr>"

definition sample_execution_authority :: execution_authority where
  "sample_execution_authority = \<lparr>xa_required_command_ids = [''test''],
     xa_canonical_workspace_root = text_of ''/work/repo'', xa_remaining_authority_ms = Some 30000,
     xa_source_environment = (\<lambda>n. if n = ''CI'' then Some (text_of ''1'') else None)\<rparr>"

definition sample_execution :: command_execution where
  "sample_execution = \<lparr>cx_executable = text_of ''npm'', cx_args = [text_of ''test''],
     cx_cwd = text_of ''/work/repo'', cx_timeout_ms = 30000, cx_env = [(''CI'', text_of ''1'')]\<rparr>"

lemma sample_executed:
  "resolve_verification_command_execution sample_resolved ''test'' sample_execution_authority = Inr sample_execution"
proof -
  have "canonical_workspace_root (text_of ''/work/repo'')" by code_simp
  moreover have "check_remaining_authority (Some 30000) = Inr 30000"
    by (simp add: check_remaining_authority_def is_safe_integer_def)
  ultimately show ?thesis
    by (simp add: resolve_verification_command_execution_def resolve_verification_command_def
        sample_execution_authority_def sample_resolved_def sample_profile_def sample_test_command_def
        sample_execution_def safe_verification_environment_def)
qed

theorem verification_runs_registered_command_witness:
  "\<exists>c. map_of (pp_verification_commands sample_profile) ''test'' = Some c
     \<and> cx_executable sample_execution # cx_args sample_execution = vc_argv c"
  using verification_runs_registered_command [OF sample_executed] by (auto simp: sample_resolved_def)

theorem policy_grant_order_free_witness:
  "policy_grant_sha256 sample_lib ''default'' sample_profile = policy_grant_sha256 sample_lib ''default''
     (sample_profile\<lparr>pp_verification_commands := [(''lint'', sample_lint_command),
        (''test'', sample_test_command\<lparr>vc_environment := [''CI'', ''PATH'']\<rparr>)]\<rparr>)"
  by (rule policy_grant_order_free) (simp_all add: sample_profile_def sample_test_command_def add_mset_commute)

end
