(* ===== verification/Wire_Json.thy ===== *)
theory Wire_Json
  imports Coordinator_Schemas Host_Stream Runtime_Authority
begin

text \<open>
  The JSON trees of the wire records whose canonical text the Node hashes
  (\<^verbatim>\<open>deliveryIdentityDigest\<close> and \<^verbatim>\<open>startTurnInputDigest\<close> of \<^verbatim>\<open>node/src/journal.ts\<close>): the objects have the
  keys of their schemas in \<^verbatim>\<open>protocol/src/schemas.ts\<close>, \<^verbatim>\<open>protocol/src/mission-coordinator.ts\<close> and
  \<^verbatim>\<open>protocol/src/adapter.ts\<close>; an absent optional field has no key, a nullable one is null.
\<close>

section \<open>Names of enumerations\<close>

fun wire_kind :: "delivery_kind \<Rightarrow> string" where
  "wire_kind K_turn = ''turn''"
| "wire_kind K_verification = ''verification''"
| "wire_kind K_contract_acknowledgement = ''contract_acknowledgement''"

fun message_type_text :: "message_type \<Rightarrow> string" where
  "message_type_text T_question = ''question''"
| "message_type_text T_answer = ''answer''"
| "message_type_text T_proposal = ''proposal''"
| "message_type_text T_decision = ''decision''"
| "message_type_text T_progress = ''progress''"
| "message_type_text T_blocker = ''blocker''"

fun failure_class_text :: "failure_class \<Rightarrow> string" where
  "failure_class_text F_transient = ''transient''"
| "failure_class_text F_permanent = ''permanent''"
| "failure_class_text F_policy_denied = ''policy_denied''"

fun evidence_outcome_text :: "evidence_outcome \<Rightarrow> string" where
  "evidence_outcome_text Passed = ''passed''"
| "evidence_outcome_text Failed = ''failed''"

fun actor_kind_text :: "actor_kind \<Rightarrow> string" where
  "actor_kind_text A_owner = ''owner''"
| "actor_kind_text A_agent = ''agent''"

definition nullable_json :: "('a \<Rightarrow> json_tree) \<Rightarrow> 'a option \<Rightarrow> json_tree" where
  "nullable_json f v = (case v of None \<Rightarrow> Jt_null | Some x \<Rightarrow> f x)"

definition optional_field :: "string \<Rightarrow> ('a \<Rightarrow> json_tree) \<Rightarrow> 'a option \<Rightarrow> (string \<times> json_tree) list" where
  "optional_field key f v = (case v of None \<Rightarrow> [] | Some x \<Rightarrow> [(key, f x)])"

section \<open>Artifacts, revisions, messages, evidence\<close>

definition artifact_json :: "artifact_ref \<Rightarrow> json_tree" where
  "artifact_json a = object_json
     [(''artifact_id'', text_json (a_artifact_id a)), (''type'', text_json (a_type a)),
      (''version'', Jt_int (a_version a)), (''sha256'', text_json (a_sha256 a)),
      (''media_type'', Jt_string (a_media_type a)), (''byte_size'', Jt_int (a_byte_size a))]"

definition revision_json :: "contract_revision \<Rightarrow> json_tree" where
  "revision_json r = object_json
     [(''revision_id'', text_json (r_revision_id r)), (''mission_id'', text_json (r_mission_id r)),
      (''previous_version'', Jt_int (r_previous_version r)), (''version'', Jt_int (r_version r)),
      (''artifact'', artifact_json (r_artifact r)),
      (''proposed_by_agent_id'', text_json (r_proposed_by_agent_id r)),
      (''acknowledged_by_agent_ids'', Jt_array (map text_json (r_acknowledged_by_agent_ids r))),
      (''idempotency_key'', text_json (r_idempotency_key r)), (''created_at'', text_json (r_created_at r))]"

definition message_json :: "message \<Rightarrow> json_tree" where
  "message_json m = object_json
     [(''message_id'', text_json (m_message_id m)), (''mission_id'', text_json (m_mission_id m)),
      (''sequence_no'', Jt_int (m_sequence_no m)), (''author_agent_id'', text_json (m_author_agent_id m)),
      (''type'', text_json (message_type_text (m_type m))), (''body'', Jt_string (m_body m)),
      (''artifacts'', Jt_array (map artifact_json (m_artifacts m))),
      (''contract_version'', Jt_int (m_contract_version m)),
      (''idempotency_key'', text_json (m_idempotency_key m)),
      (''causal_parent_message_id'', nullable_json text_json (m_causal_parent_message_id m)),
      (''created_at'', text_json (m_created_at m))]"

definition evidence_json :: "verification_evidence \<Rightarrow> json_tree" where
  "evidence_json e = object_json
     [(''verification_id'', text_json (e_verification_id e)), (''command_id'', text_json (e_command_id e)),
      (''outcome'', text_json (evidence_outcome_text (e_outcome e))),
      (''exit_code'', Jt_int (e_exit_code e)), (''duration_ms'', Jt_int (e_duration_ms e)),
      (''summary'', Jt_string (e_summary e)), (''output_sha256'', text_json (e_output_sha256 e)),
      (''artifacts'', Jt_array (map artifact_json (e_artifacts e))),
      (''recorded_at'', text_json (e_recorded_at e))]"

fun disposition_json :: "turn_disposition \<Rightarrow> json_tree" where
  "disposition_json (Reply t msg arts) = object_json
     ([(''kind'', text_json ''reply''), (''message_type'', text_json (message_type_text t)),
       (''message'', Jt_string msg)]
      @ optional_field ''artifacts'' (\<lambda>as. Jt_array (map artifact_json as)) arts)"
| "disposition_json (Propose_contract a) = object_json
     [(''kind'', text_json ''propose_contract''), (''artifact'', artifact_json a)]"
| "disposition_json (Ready es) = object_json
     [(''kind'', text_json ''ready''), (''evidence'', Jt_array (map evidence_json es))]"
| "disposition_json (Blocked reason requested) = object_json
     ([(''kind'', text_json ''blocked''), (''reason'', Jt_string reason)]
      @ optional_field ''requested_input'' Jt_string requested)"
| "disposition_json (Failed_turn c) = object_json
     [(''kind'', text_json ''failed''), (''class'', text_json (failure_class_text c))]"

section \<open>Coordinator events\<close>

fun event_body_json :: "event_body \<Rightarrow> (string \<times> json_tree) list" where
  "event_body_json (Participants_accepted ids contract) =
     [(''type'', text_json ''participants_accepted''),
      (''participant_agent_ids'', Jt_array (map text_json ids)), (''contract'', artifact_json contract)]"
| "event_body_json (Turn_completed p d v disposition msg revision) =
     [(''type'', text_json ''turn_completed''), (''participant_agent_id'', text_json p),
      (''delivery_id'', text_json d), (''contract_version'', Jt_int v),
      (''disposition'', disposition_json disposition), (''message'', nullable_json message_json msg),
      (''revision'', nullable_json revision_json revision)]"
| "event_body_json (Contract_acknowledged p d r v artifact) =
     [(''type'', text_json ''contract_acknowledged''), (''participant_agent_id'', text_json p),
      (''delivery_id'', text_json d), (''revision_id'', text_json r), (''contract_version'', Jt_int v),
      (''artifact'', artifact_json artifact)]"
| "event_body_json (Verification_recorded p d v round evidence) =
     [(''type'', text_json ''verification_recorded''), (''participant_agent_id'', text_json p),
      (''delivery_id'', text_json d), (''contract_version'', Jt_int v),
      (''verification_round'', Jt_int round), (''evidence'', evidence_json evidence)]"
| "event_body_json (Mission_terminal status reason trigger) =
     [(''type'', text_json ''mission_terminal''), (''terminal_status'', text_json (terminal_kind_text status)),
      (''reason'', text_json (terminal_reason_text reason)),
      (''triggering_delivery_id'', nullable_json text_json trigger)]"

definition event_json :: "coordinator_event \<Rightarrow> json_tree" where
  "event_json e = object_json
     ([(''event_id'', text_json (ev_event_id e)), (''idempotency_key'', text_json (ev_idempotency_key e)),
       (''mission_id'', text_json (ev_mission_id e)), (''sequence_no'', Jt_int (ev_sequence_no e)),
       (''created_at'', text_json (ev_created_at e))] @ event_body_json (ev_body e))"

section \<open>The identity of a delivery\<close>

definition delivery_identity_json :: "mission_delivery_item \<Rightarrow> json_tree" where
  "delivery_identity_json i =
     (let d = mdi_delivery i in object_json
        [(''delivery'', object_json
            [(''delivery_id'', text_json (d_delivery_id d)), (''node_id'', text_json (d_node_id d)),
             (''mission_id'', text_json (d_mission_id d)),
             (''mission_event_id'', text_json (d_mission_event_id d)),
             (''kind'', text_json (wire_kind (d_kind d))), (''cursor'', text_json (d_cursor d)),
             (''contract_version'', Jt_int (d_contract_version d)),
             (''verification_round'', nullable_json Jt_int (d_verification_round d)),
             (''idempotency_key'', text_json (d_idempotency_key d)),
             (''causal_parent_delivery_id'', nullable_json text_json (d_causal_parent_delivery_id d))]),
         (''event'', event_json (mdi_event i)),
         (''actor_agent_id'', text_json (mdi_actor_agent_id i)),
         (''source_delivery_id'', nullable_json text_json (mdi_source_delivery_id i)),
         (''causal_parent_event_id'', nullable_json text_json (mdi_causal_parent_event_id i))])"

definition delivery_identity_digest :: "host_lib \<Rightarrow> mission_delivery_item \<Rightarrow> string" where
  "delivery_identity_digest L i = sha256_hex L (canonical_json (delivery_identity_json i))"

section \<open>Start inputs\<close>

text \<open>\<open>json_value\<close> is the bounded value of \<open>JSON.parse\<close> of an artifact's raw text.\<close>

definition host_session_json :: "host_session \<Rightarrow> json_tree" where
  "host_session_json s = object_json
     [(''missionId'', text_json (si_mission_id s)), (''participantId'', text_json (si_participant_id s)),
      (''workspaceAlias'', text_json (si_workspace_alias s)), (''sessionId'', Jt_string (hs_session_id s))]"

definition host_mission_text_json :: "host_mission_text \<Rightarrow> json_tree" where
  "host_mission_text_json t = object_json
     [(''text'', Jt_string (ht_text t)), (''authorPrincipalId'', text_json (ht_author_principal_id t)),
      (''provenance'', text_json ''mission_manifest'')]"

definition host_peer_message_json :: "host_peer_message \<Rightarrow> json_tree" where
  "host_peer_message_json m = object_json
     [(''messageId'', text_json (hp_message_id m)), (''authorAgentId'', text_json (hp_author_agent_id m)),
      (''kind'', text_json (message_type_text (hp_kind m))), (''body'', Jt_string (hp_body m))]"

fun payload_json :: "(jstext \<Rightarrow> json_tree) \<Rightarrow> artifact_payload \<Rightarrow> json_tree" where
  "payload_json json_value (Text_payload t) =
     object_json [(''kind'', text_json ''text''), (''text'', Jt_string t)]"
| "payload_json json_value (Json_payload raw) =
     object_json [(''kind'', text_json ''json''), (''rawText'', Jt_string raw), (''value'', json_value raw)]"

definition actor_json :: "actor_ref \<Rightarrow> json_tree" where
  "actor_json a = object_json
     [(''principal_id'', text_json (principal_id a)),
      (''kind'', text_json (actor_kind_text (actor_ref_kind a)))]"

definition host_input_artifact_json :: "(jstext \<Rightarrow> json_tree) \<Rightarrow> host_input_artifact \<Rightarrow> json_tree" where
  "host_input_artifact_json json_value a = object_json
     [(''artifact'', artifact_json (hi_artifact a)), (''source'', actor_json (hi_source a)),
      (''payload'', payload_json json_value (hi_payload a))]"

definition start_turn_input_json :: "(jstext \<Rightarrow> json_tree) \<Rightarrow> start_turn_input \<Rightarrow> json_tree" where
  "start_turn_input_json json_value i = object_json
     [(''session'', host_session_json (ti_session i)), (''missionId'', text_json (ti_mission_id i)),
      (''contractVersion'', Jt_int (ti_contract_version i)),
      (''missionSequence'', Jt_int (ti_mission_sequence i)),
      (''objective'', host_mission_text_json (ti_objective i)),
      (''assignment'', host_mission_text_json (ti_assignment i)),
      (''acceptanceCriteria'', Jt_array (map host_mission_text_json (ti_acceptance_criteria i))),
      (''peerMessages'', Jt_array (map host_peer_message_json (ti_peer_messages i))),
      (''artifacts'', Jt_array (map (host_input_artifact_json json_value) (ti_artifacts i))),
      (''deliveryId'', text_json (st_delivery_id i)), (''executionAttempt'', Jt_int (st_execution_attempt i))]"

end
