(* ===== verification/Node_Journal.thy ===== *)
theory Node_Journal
  imports Wire_Json Delivery_Operations Cursors "HOL-Library.AList"
begin

text \<open>
  The journal of a Node (\<^verbatim>\<open>node/src/journal.ts\<close>): the durable record of every delivery the Node has
  seen, with the operation it is about to send, the exact start input of the active execution, the host
  events received, and the grant of local authority.  The schema of a journaled delivery and of the
  journal is written clause by clause, with the refinements of the source; the objects
  \<open>deliveries\<close>, \<open>mission_sessions\<close> and \<open>mission_acceptances\<close> are association lists in insertion order.
  The schema version is a literal, so it is no field.  An operation gives back the changed journal or the
  error it throws; \<^verbatim>\<open>Journal_Machine\<close> adds the storage.
\<close>

section \<open>Journaled deliveries\<close>

datatype journal_phase =
  Ph_ingested | Ph_claim_intent | Ph_claimed | Ph_start_intent | Ph_relay_executing | Ph_host_accepted
| Ph_host_terminal | Ph_complete_intent | Ph_release_intent | Ph_lease_lost | Ph_acknowledged
| Ph_dead_lettered | Ph_authority_lost

datatype operation_intent =
  Claim_intent claim_input
| Start_intent lease_operation_input
| Renew_intent lease_operation_input
| Complete_intent complete_input
| Release_intent release_input

fun operation_intent_ok :: "host_lib \<Rightarrow> operation_intent \<Rightarrow> bool" where
  "operation_intent_ok L (Claim_intent i) = claim_input_ok i"
| "operation_intent_ok L (Start_intent i) = lease_operation_input_ok L i"
| "operation_intent_ok L (Renew_intent i) = lease_operation_input_ok L i"
| "operation_intent_ok L (Complete_intent i) = complete_input_ok L i"
| "operation_intent_ok L (Release_intent i) = release_input_ok L i"

text \<open>\<open>z.string().datetime()\<close> without the offset option admits only times that end in Z.\<close>

definition journal_time_ok :: "host_lib \<Rightarrow> timestamp \<Rightarrow> bool" where
  "journal_time_ok L t \<longleftrightarrow> datetime_format L t \<and> t \<noteq> [] \<and> last t = CHR ''Z''"

record archived_execution =
  ax_execution_attempt :: int
  ax_start_input_sha256 :: string
  ax_host_events :: "host_event list"
  ax_result :: "node_delivery_result option"
  ax_archived_at :: timestamp

definition journal_attempt_ok :: "int \<Rightarrow> bool" where
  "journal_attempt_ok n \<longleftrightarrow> 0 < n \<and> n \<le> 100"

definition host_events_ok :: "host_lib \<Rightarrow> host_event list \<Rightarrow> bool" where
  "host_events_ok L es \<longleftrightarrow> list_all (host_event_ok L) es \<and> int (length es) \<le> 4096"

definition archived_execution_ok :: "host_lib \<Rightarrow> archived_execution \<Rightarrow> bool" where
  "archived_execution_ok L a \<longleftrightarrow> journal_attempt_ok (ax_execution_attempt a)
     \<and> sha256_ok (ax_start_input_sha256 a) \<and> host_events_ok L (ax_host_events a)
     \<and> nullable (node_delivery_result_ok L) (ax_result a) \<and> journal_time_ok L (ax_archived_at a)"

record journal_delivery =
  je_item :: mission_delivery_item
  je_identity_sha256 :: string
  je_phase :: journal_phase
  je_claim_attempt :: int
  je_renew_count :: int
  je_operation :: "operation_intent option"
  je_host_session :: "host_session option"
  je_execution_attempt :: int
  je_start_turn_input :: "start_turn_input option"
  je_host_attempt_history :: "archived_execution list"
  je_host_events :: "host_event list"
  je_result :: "node_delivery_result option"
  je_runtime_authority :: "authority_grant option"
  je_runtime_authority_predecessor :: "authority_grant option"
  je_last_error :: "jstext option"
  je_updated_at :: timestamp

abbreviation je_delivery :: "journal_delivery \<Rightarrow> delivery" where
  "je_delivery e \<equiv> mdi_delivery (je_item e)"

definition last_error_ok :: "jstext option \<Rightarrow> bool" where
  "last_error_ok t = nullable (\<lambda>t. int (length t) \<le> 2000) t"

definition journal_fields_ok :: "host_lib \<Rightarrow> journal_delivery \<Rightarrow> bool" where
  "journal_fields_ok L e \<longleftrightarrow>
     mission_delivery_item_ok L (je_item e) \<and> sha256_ok (je_identity_sha256 e)
     \<and> 0 \<le> je_claim_attempt e \<and> je_claim_attempt e \<le> 100 \<and> 0 \<le> je_renew_count e
     \<and> nullable (operation_intent_ok L) (je_operation e) \<and> nullable (host_session_ok L) (je_host_session e)
     \<and> journal_attempt_ok (je_execution_attempt e)
     \<and> nullable (start_turn_input_ok L) (je_start_turn_input e)
     \<and> list_all (archived_execution_ok L) (je_host_attempt_history e)
     \<and> length (je_host_attempt_history e) \<le> 99
     \<and> host_events_ok L (je_host_events e) \<and> nullable (node_delivery_result_ok L) (je_result e)
     \<and> nullable (grant_ok L) (je_runtime_authority e)
     \<and> nullable (grant_ok L) (je_runtime_authority_predecessor e)
     \<and> last_error_ok (je_last_error e) \<and> journal_time_ok L (je_updated_at e)"

fun is_accepted :: "host_event_payload \<Rightarrow> bool" where
  "is_accepted H_accepted = True"
| "is_accepted _ = False"

definition accepted_turn :: "host_event list \<Rightarrow> host_turn_ref option" where
  "accepted_turn es = map_option he_turn (find (\<lambda>e. is_accepted (he_payload e)) es)"

definition validate_start_turn_input :: "journal_delivery \<Rightarrow> start_turn_input \<Rightarrow> issue list" where
  "validate_start_turn_input e i =
     (let d = je_delivery e; path = (\<lambda>field. [Key ''start_turn_input'', Key field]) in
     add_issue (st_delivery_id i \<noteq> d_delivery_id d)
       ''Host start input deliveryId does not match its journal execution'' (path ''deliveryId'')
   @ add_issue (ti_mission_id i \<noteq> d_mission_id d)
       ''Host start input missionId does not match its journal execution'' (path ''missionId'')
   @ add_issue (ti_contract_version i \<noteq> d_contract_version d)
       ''Host start input contractVersion does not match its journal execution'' (path ''contractVersion'')
   @ add_issue (st_execution_attempt i \<noteq> je_execution_attempt e)
       ''Host start input executionAttempt does not match its journal execution'' (path ''executionAttempt'')
   @ add_issue (je_host_session e \<noteq> Some (ti_session i))
       ''Host start input session does not match the journaled Mission session'' (path ''session''))"

definition validate_runtime_authority ::
  "journal_delivery \<Rightarrow> authority_grant \<Rightarrow> string \<Rightarrow> bool \<Rightarrow> issue list" where
  "validate_runtime_authority e g name require_current_fence =
     (let d = je_delivery e in
     add_issue (sc_delivery_id g \<noteq> d_delivery_id d)
       ''Runtime authority delivery_id does not match its journaled delivery'' [Key name, Key ''delivery_id'']
   @ add_issue (sc_mission_id g \<noteq> d_mission_id d)
       ''Runtime authority mission_id does not match its journaled delivery'' [Key name, Key ''mission_id'']
   @ add_issue (sc_node_id g \<noteq> d_node_id d)
       ''Runtime authority node_id does not match its journaled delivery'' [Key name, Key ''node_id'']
   @ add_issue (sc_execution_attempt g \<noteq> je_execution_attempt e)
       ''Runtime authority execution_attempt does not match its journaled delivery''
       [Key name, Key ''execution_attempt'']
   @ add_issue (require_current_fence
         \<and> (case d_lease d of None \<Rightarrow> False
            | Some l \<Rightarrow> sc_lease_id g \<noteq> dl_lease_id l \<or> sc_fencing_token g \<noteq> dl_fencing_token l))
       ''Runtime authority does not match the journaled lease fence'' [Key name, Key ''lease_id''])"

text \<open>\<open>BigInt\<close> of a fencing token.\<close>

abbreviation fence :: "string \<Rightarrow> nat" where
  "fence \<equiv> decimal_value"

definition validate_predecessor :: "journal_delivery \<Rightarrow> authority_grant \<Rightarrow> issue list" where
  "validate_predecessor e p =
     add_issue (je_runtime_authority e \<noteq> None)
       ''Runtime authority predecessor cannot coexist with an active grant''
       [Key ''runtime_authority_predecessor'']
   @ add_issue (case d_lease (je_delivery e) of None \<Rightarrow> True
         | Some l \<Rightarrow> fence (sc_fencing_token p) \<ge> fence (dl_fencing_token l)
             \<or> sc_lease_id p = dl_lease_id l)
       ''Runtime authority predecessor must belong to an older Relay fence''
       [Key ''runtime_authority_predecessor'', Key ''fencing_token'']"

text \<open>The loop over the archived executions, with the set of the attempts already seen.\<close>

fun history_issues :: "int \<Rightarrow> nat \<Rightarrow> int list \<Rightarrow> archived_execution list \<Rightarrow> issue list" where
  "history_issues active i seen [] = []"
| "history_issues active i seen (a # rest) =
     add_issue (ax_execution_attempt a \<ge> active \<or> ax_execution_attempt a \<in> set seen)
       ''Archived host execution attempts must be unique and precede the active attempt''
       [Key ''host_attempt_history'', Index i, Key ''execution_attempt'']
   @ indexed_issues (\<lambda>k v. add_issue (tr_execution_attempt (he_turn v) \<noteq> ax_execution_attempt a)
       ''Archived host event belongs to a different execution attempt''
       [Key ''host_attempt_history'', Index i, Key ''host_events'', Index k, Key ''turn'', Key ''executionAttempt''])
       (ax_host_events a)
   @ history_issues active (Suc i) (ax_execution_attempt a # seen) rest"

definition journal_delivery_issues :: "host_lib \<Rightarrow> journal_delivery \<Rightarrow> issue list" where
  "journal_delivery_issues L e =
     add_issue (je_identity_sha256 e \<noteq> delivery_identity_digest L (je_item e))
       ''Delivery identity digest does not match the journaled item'' [Key ''identity_sha256'']
   @ (case je_start_turn_input e of
        None \<Rightarrow> add_issue (je_host_events e \<noteq> [] \<or> je_result e \<noteq> None)
          ''Host evidence requires the exact journaled start input'' [Key ''start_turn_input'']
      | Some i \<Rightarrow> validate_start_turn_input e i)
   @ add_issue (case accepted_turn (je_host_events e) of None \<Rightarrow> False
        | Some t \<Rightarrow> map_option hs_session_id (je_host_session e) \<noteq> Some (tr_session_id t))
       ''Host acceptance must belong to the journaled session'' [Key ''host_events'']
   @ indexed_issues (\<lambda>k v. add_issue (tr_execution_attempt (he_turn v) \<noteq> je_execution_attempt e)
       ''Active host event belongs to a different execution attempt''
       [Key ''host_events'', Index k, Key ''turn'', Key ''executionAttempt'']) (je_host_events e)
   @ (case je_runtime_authority e of None \<Rightarrow> []
      | Some g \<Rightarrow> validate_runtime_authority e g ''runtime_authority'' True)
   @ (case je_runtime_authority_predecessor e of None \<Rightarrow> []
      | Some p \<Rightarrow> validate_runtime_authority e p ''runtime_authority_predecessor'' False
          @ validate_predecessor e p)
   @ history_issues (je_execution_attempt e) 0 [] (je_host_attempt_history e)"

definition journal_delivery_ok :: "host_lib \<Rightarrow> journal_delivery \<Rightarrow> bool" where
  "journal_delivery_ok L e \<longleftrightarrow> journal_fields_ok L e \<and> journal_delivery_issues L e = []"

section \<open>The journal\<close>

datatype acceptance_progress = Acceptance_pending | Acceptance_accepted | Acceptance_quarantined

record mission_acceptance =
  ja_input :: acceptance_input
  ja_status :: acceptance_progress
  ja_last_error :: "jstext option"

definition mission_acceptance_ok :: "host_lib \<Rightarrow> mission_acceptance \<Rightarrow> bool" where
  "mission_acceptance_ok L a \<longleftrightarrow> acceptance_input_ok L (ja_input a) \<and> last_error_ok (ja_last_error a)"

record node_journal =
  jn_cursor :: "string option"
  jn_assignment_cursor :: "uuid option"
  jn_deliveries :: "(uuid \<times> journal_delivery) list"
  jn_sessions :: "(uuid \<times> host_session) list"
  jn_acceptances :: "(uuid \<times> mission_acceptance) list"

definition node_journal_fields_ok :: "host_lib \<Rightarrow> node_journal \<Rightarrow> bool" where
  "node_journal_fields_ok L s \<longleftrightarrow> nullable canonical_decimal (jn_cursor s)
     \<and> nullable (uuid_ok L) (jn_assignment_cursor s)
     \<and> list_all (\<lambda>(k, e). uuid_ok L k \<and> journal_delivery_ok L e) (jn_deliveries s)
     \<and> list_all (\<lambda>(k, h). uuid_ok L k \<and> host_session_ok L h) (jn_sessions s)
     \<and> list_all (\<lambda>(k, a). uuid_ok L k \<and> mission_acceptance_ok L a) (jn_acceptances s)"

definition node_journal_issues :: "node_journal \<Rightarrow> issue list" where
  "node_journal_issues s =
     concat (map (\<lambda>(k, e). add_issue (d_delivery_id (je_delivery e) \<noteq> k)
       ''Journal delivery key must match the payload'' [Key ''deliveries'', Key k]) (jn_deliveries s))
   @ concat (map (\<lambda>(k, h). add_issue (si_mission_id h \<noteq> k)
       ''Journal Mission key must match the host session'' [Key ''mission_sessions'', Key k]) (jn_sessions s))"

definition node_journal_ok :: "host_lib \<Rightarrow> node_journal \<Rightarrow> bool" where
  "node_journal_ok L s \<longleftrightarrow> node_journal_fields_ok L s \<and> node_journal_issues s = []"

definition empty_node_journal :: node_journal where
  "empty_node_journal = \<lparr>jn_cursor = None, jn_assignment_cursor = None, jn_deliveries = [],
     jn_sessions = [], jn_acceptances = []\<rparr>"

section \<open>Errors\<close>

datatype journal_error =
  J_zod | J_fence_backwards | J_lease_changed | J_expiry_backwards | J_predecessor_pending
| J_successor_not_advanced | J_cursor_backwards | J_replay_changed | J_identity_changed string
| J_not_journaled | J_session_differs | J_evidence_present | J_start_input_changed
| J_compare_and_swap | J_authority_changed | J_scope_changed | J_acceptance_changed
| J_accepted_final | J_quarantined_final | J_acceptance_missing | J_storage
| J_no_disposition | J_not_publishable | J_no_completion_intent | J_authority_not_retired
| J_no_start_input

section \<open>Fences and grants\<close>

text \<open>\<open>stageRuntimeAuthoritySuccessor\<close>: an installed grant is moved aside before the delivery advances
  to a newer fence.\<close>

definition check_lease_order :: "host_lib \<Rightarrow> delivery_lease option \<Rightarrow> delivery_lease \<Rightarrow> journal_error option" where
  "check_lease_order L journaled next_lease =
     (case journaled of None \<Rightarrow> None
      | Some l \<Rightarrow>
          if fence (dl_fencing_token next_lease) < fence (dl_fencing_token l) then Some J_fence_backwards
          else if fence (dl_fencing_token next_lease) = fence (dl_fencing_token l) then
            (if dl_lease_id l \<noteq> dl_lease_id next_lease then Some J_lease_changed
             else if num_lt (date_parse L (dl_expires_at next_lease)) (date_parse L (dl_expires_at l))
             then Some J_expiry_backwards else None)
          else None)"

definition stage_grant :: "journal_delivery \<Rightarrow> delivery_lease \<Rightarrow> journal_error + journal_delivery" where
  "stage_grant e l =
     (case je_runtime_authority e of
        Some g \<Rightarrow>
          if fence (dl_fencing_token l) < fence (sc_fencing_token g) then Inl J_fence_backwards
          else if fence (dl_fencing_token l) = fence (sc_fencing_token g) then
            (if sc_lease_id g \<noteq> dl_lease_id l then Inl J_lease_changed else Inr e)
          else if je_runtime_authority_predecessor e \<noteq> None then Inl J_predecessor_pending
          else Inr (e\<lparr>je_runtime_authority_predecessor := Some g, je_runtime_authority := None\<rparr>)
      | None \<Rightarrow>
          (case je_runtime_authority_predecessor e of
             Some p \<Rightarrow> if fence (dl_fencing_token l) \<le> fence (sc_fencing_token p)
                       then Inl J_successor_not_advanced else Inr e
           | None \<Rightarrow> Inr e))"

definition stage_runtime_authority_successor ::
  "host_lib \<Rightarrow> journal_delivery \<Rightarrow> delivery \<Rightarrow> journal_error + journal_delivery" where
  "stage_runtime_authority_successor L e next_d =
     (if fence (d_last_fencing_token next_d) < fence (d_last_fencing_token (je_delivery e))
      then Inl J_fence_backwards
      else case d_lease next_d of
        None \<Rightarrow>
          Inr (if je_runtime_authority e = None \<and> je_runtime_authority_predecessor e \<noteq> None
               then e\<lparr>je_runtime_authority := je_runtime_authority_predecessor e,
                      je_runtime_authority_predecessor := None\<rparr>
               else e)
      | Some l \<Rightarrow>
          (case check_lease_order L (d_lease (je_delivery e)) l of
             Some err \<Rightarrow> Inl err
           | None \<Rightarrow> stage_grant e l))"

text \<open>\<open>isRuntimeAuthoritySuccessor\<close>: everything but the grant, the lease and its expiry stays, and the
  fence grows.\<close>

definition runtime_authority_successor :: "authority_grant \<Rightarrow> authority_grant \<Rightarrow> bool" where
  "runtime_authority_successor p g \<longleftrightarrow> fence (sc_fencing_token g) > fence (sc_fencing_token p)
     \<and> p\<lparr>sc_grant_id := sc_grant_id g, sc_lease_id := sc_lease_id g,
         sc_fencing_token := sc_fencing_token g, gr_lease_expires_at := gr_lease_expires_at g\<rparr> = g"

record checkpoint_expectation =
  xp_lease_id :: uuid
  xp_fencing_token :: string
  xp_lease_expires_at :: timestamp
  xp_active_grant_id :: "string option"
  xp_predecessor_grant_id :: "string option"

definition checkpoint_matches :: "journal_delivery \<Rightarrow> checkpoint_expectation \<Rightarrow> bool" where
  "checkpoint_matches e x \<longleftrightarrow>
     (case d_lease (je_delivery e) of None \<Rightarrow> False
      | Some l \<Rightarrow> dl_lease_id l = xp_lease_id x \<and> dl_fencing_token l = xp_fencing_token x
          \<and> dl_expires_at l = xp_lease_expires_at x)
     \<and> map_option sc_grant_id (je_runtime_authority e) = xp_active_grant_id x
     \<and> map_option sc_grant_id (je_runtime_authority_predecessor e) = xp_predecessor_grant_id x"

section \<open>Delivery state\<close>

fun first_change :: "(string \<times> bool) list \<Rightarrow> string option" where
  "first_change [] = None"
| "first_change ((name, kept) # rest) = (if kept then first_change rest else Some name)"

definition assert_same_delivery_identity :: "delivery \<Rightarrow> delivery \<Rightarrow> journal_error option" where
  "assert_same_delivery_identity p n = map_option J_identity_changed (first_change
     [(''delivery_id'', d_delivery_id p = d_delivery_id n), (''node_id'', d_node_id p = d_node_id n),
      (''mission_id'', d_mission_id p = d_mission_id n),
      (''mission_event_id'', d_mission_event_id p = d_mission_event_id n),
      (''kind'', d_kind p = d_kind n), (''cursor'', d_cursor p = d_cursor n),
      (''contract_version'', d_contract_version p = d_contract_version n),
      (''verification_round'', d_verification_round p = d_verification_round n),
      (''idempotency_key'', d_idempotency_key p = d_idempotency_key n),
      (''causal_parent_delivery_id'', d_causal_parent_delivery_id p = d_causal_parent_delivery_id n)])"

definition with_delivery :: "delivery \<Rightarrow> journal_delivery \<Rightarrow> journal_delivery" where
  "with_delivery d e = e\<lparr>je_item := (je_item e)\<lparr>mdi_delivery := d\<rparr>\<rparr>"

definition advance_delivery ::
  "host_lib \<Rightarrow> delivery \<Rightarrow> timestamp \<Rightarrow> journal_delivery \<Rightarrow> journal_error + journal_delivery" where
  "advance_delivery L d now e =
     (case assert_same_delivery_identity (je_delivery e) d of
        Some err \<Rightarrow> Inl err
      | None \<Rightarrow> map_sum id (\<lambda>e. (with_delivery d e)\<lparr>je_updated_at := now\<rparr>)
                  (stage_runtime_authority_successor L e d))"

definition new_entry :: "host_lib \<Rightarrow> mission_delivery_item \<Rightarrow> timestamp \<Rightarrow> journal_delivery" where
  "new_entry L i now = \<lparr>je_item = i, je_identity_sha256 = delivery_identity_digest L i,
     je_phase = Ph_ingested, je_claim_attempt = 0, je_renew_count = 0, je_operation = None,
     je_host_session = None, je_execution_attempt = 1, je_start_turn_input = None,
     je_host_attempt_history = [], je_host_events = [], je_result = None, je_runtime_authority = None,
     je_runtime_authority_predecessor = None, je_last_error = None, je_updated_at = now\<rparr>"

definition set_entry :: "uuid \<Rightarrow> journal_delivery \<Rightarrow> node_journal \<Rightarrow> node_journal" where
  "set_entry k e s = s\<lparr>jn_deliveries := AList.update k e (jn_deliveries s)\<rparr>"

definition upsert_delivery ::
  "host_lib \<Rightarrow> timestamp \<Rightarrow> node_journal \<Rightarrow> mission_delivery_item \<Rightarrow> journal_error + node_journal" where
  "upsert_delivery L now s i =
     (if \<not> mission_delivery_item_ok L i then Inl J_zod
      else let k = d_delivery_id (mdi_delivery i) in
        case map_of (jn_deliveries s) k of
          None \<Rightarrow> Inr (set_entry k (new_entry L i now) s)
        | Some e \<Rightarrow>
            if je_identity_sha256 e \<noteq> delivery_identity_digest L i then Inl J_replay_changed
            else map_sum id (\<lambda>e. set_entry k e s) (advance_delivery L (mdi_delivery i) now e))"

section \<open>Operations on the journal\<close>

definition ingest_recoverable ::
  "host_lib \<Rightarrow> mission_delivery_item list \<Rightarrow> timestamp \<Rightarrow> node_journal \<Rightarrow> journal_error + node_journal" where
  "ingest_recoverable L items now s = run_steps (upsert_delivery L now) s items"

definition compare_cursor :: "string \<Rightarrow> string \<Rightarrow> int" where
  "compare_cursor left right =
     (if length left \<noteq> length right then (if length left < length right then -1 else 1)
      else if left = right then 0 else if left < right then -1 else 1)"

definition advance_cursor :: "string option \<Rightarrow> node_journal \<Rightarrow> journal_error + node_journal" where
  "advance_cursor next_cursor s =
     (case next_cursor of None \<Rightarrow> Inr s
      | Some c \<Rightarrow>
          if (case jn_cursor s of None \<Rightarrow> False | Some old \<Rightarrow> compare_cursor c old < 0)
          then Inl J_cursor_backwards else Inr (s\<lparr>jn_cursor := Some c\<rparr>))"

definition ingest_cursor_page ::
  "host_lib \<Rightarrow> mission_delivery_item list \<Rightarrow> string option \<Rightarrow> timestamp \<Rightarrow> node_journal
     \<Rightarrow> journal_error + node_journal" where
  "ingest_cursor_page L items next_cursor now s =
     (case ingest_recoverable L items now s of
        Inl err \<Rightarrow> Inl err
      | Inr s \<Rightarrow> advance_cursor next_cursor s)"

definition set_mission_assignment_cursor ::
  "host_lib \<Rightarrow> uuid option \<Rightarrow> node_journal \<Rightarrow> journal_error + node_journal" where
  "set_mission_assignment_cursor L c s =
     (if nullable (uuid_ok L) c then Inr (s\<lparr>jn_assignment_cursor := c\<rparr>) else Inl J_zod)"

definition update_delivery ::
  "host_lib \<Rightarrow> uuid \<Rightarrow> (journal_delivery \<Rightarrow> journal_error + journal_delivery) \<Rightarrow> node_journal
     \<Rightarrow> journal_error + node_journal" where
  "update_delivery L k mutate s =
     (if \<not> uuid_ok L k then Inl J_zod
      else case map_of (jn_deliveries s) k of
        None \<Rightarrow> Inl J_not_journaled
      | Some e \<Rightarrow> map_sum id (\<lambda>e. set_entry k e s) (mutate e))"

definition set_mission_session ::
  "host_lib \<Rightarrow> host_session \<Rightarrow> node_journal \<Rightarrow> journal_error + node_journal" where
  "set_mission_session L h s =
     (if \<not> host_session_ok L h then Inl J_zod
      else case map_of (jn_sessions s) (si_mission_id h) of
        Some old \<Rightarrow> if old \<noteq> h then Inl J_session_differs
          else Inr (s\<lparr>jn_sessions := AList.update (si_mission_id h) h (jn_sessions s)\<rparr>)
      | None \<Rightarrow> Inr (s\<lparr>jn_sessions := AList.update (si_mission_id h) h (jn_sessions s)\<rparr>))"

definition checkpoint_start_input ::
  "start_turn_input \<Rightarrow> timestamp \<Rightarrow> journal_delivery \<Rightarrow> journal_error + journal_delivery" where
  "checkpoint_start_input i now e =
     (if je_host_events e \<noteq> [] \<or> je_result e \<noteq> None then Inl J_evidence_present
      else if je_start_turn_input e \<noteq> None \<and> je_start_turn_input e \<noteq> Some i
      then Inl J_start_input_changed
      else Inr (e\<lparr>je_start_turn_input := Some i, je_updated_at := now\<rparr>))"

definition checkpoint_start_turn_input ::
  "host_lib \<Rightarrow> uuid \<Rightarrow> start_turn_input \<Rightarrow> timestamp \<Rightarrow> node_journal \<Rightarrow> journal_error + node_journal" where
  "checkpoint_start_turn_input L k i now s =
     (if start_turn_input_ok L i then update_delivery L k (checkpoint_start_input i now) s
      else Inl J_zod)"

definition checkpoint_grant ::
  "checkpoint_expectation option \<Rightarrow> authority_grant \<Rightarrow> timestamp \<Rightarrow> journal_delivery
     \<Rightarrow> journal_error + journal_delivery" where
  "checkpoint_grant expected g now e =
     (if (case expected of None \<Rightarrow> False | Some x \<Rightarrow> \<not> checkpoint_matches e x)
      then Inl J_compare_and_swap
      else if je_runtime_authority e \<noteq> None \<and> je_runtime_authority e \<noteq> Some g
      then Inl J_authority_changed
      else if je_runtime_authority e = None
        \<and> (case je_runtime_authority_predecessor e of None \<Rightarrow> False
           | Some p \<Rightarrow> \<not> runtime_authority_successor p g)
      then Inl J_scope_changed
      else Inr (e\<lparr>je_runtime_authority := Some g, je_runtime_authority_predecessor := None,
                  je_updated_at := now\<rparr>))"

definition checkpoint_runtime_authority ::
  "host_lib \<Rightarrow> uuid \<Rightarrow> authority_grant \<Rightarrow> timestamp \<Rightarrow> checkpoint_expectation option \<Rightarrow> node_journal
     \<Rightarrow> journal_error + node_journal" where
  "checkpoint_runtime_authority L k g now expected s =
     (if grant_ok L g then update_delivery L k (checkpoint_grant expected g now) s else Inl J_zod)"

text \<open>The status given to \<open>recordMissionAcceptance\<close> is pending or accepted.\<close>

definition record_mission_acceptance ::
  "host_lib \<Rightarrow> uuid \<Rightarrow> acceptance_input \<Rightarrow> bool \<Rightarrow> node_journal \<Rightarrow> journal_error + node_journal" where
  "record_mission_acceptance L k i accepted s =
     (if \<not> uuid_ok L k \<or> \<not> acceptance_input_ok L i then Inl J_zod
      else let old = map_of (jn_acceptances s) k;
               saved = s\<lparr>jn_acceptances := AList.update k
                 \<lparr>ja_input = i, ja_status = (if accepted then Acceptance_accepted else Acceptance_pending),
                  ja_last_error = None\<rparr> (jn_acceptances s)\<rparr>
        in case old of
          None \<Rightarrow> Inr saved
        | Some a \<Rightarrow>
            if ja_input a \<noteq> i then Inl J_acceptance_changed
            else if ja_status a = Acceptance_accepted \<and> \<not> accepted then Inl J_accepted_final
            else if ja_status a = Acceptance_quarantined then Inl J_quarantined_final
            else Inr saved)"

definition quarantine_mission_acceptance ::
  "host_lib \<Rightarrow> uuid \<Rightarrow> jstext \<Rightarrow> node_journal \<Rightarrow> journal_error + node_journal" where
  "quarantine_mission_acceptance L k err s =
     (if \<not> uuid_ok L k then Inl J_zod
      else case map_of (jn_acceptances s) k of
        None \<Rightarrow> Inl J_acceptance_missing
      | Some a \<Rightarrow>
          if ja_status a = Acceptance_accepted then Inl J_accepted_final
          else Inr (s\<lparr>jn_acceptances := AList.update k
                 (a\<lparr>ja_status := Acceptance_quarantined, ja_last_error := Some (take 2000 err)\<rparr>)
                 (jn_acceptances s)\<rparr>))"

definition replace_delivery_state ::
  "host_lib \<Rightarrow> delivery \<Rightarrow> timestamp \<Rightarrow> node_journal \<Rightarrow> journal_error + node_journal" where
  "replace_delivery_state L d now s = update_delivery L (d_delivery_id d) (advance_delivery L d now) s"

section \<open>Digests and results\<close>

definition start_turn_input_digest ::
  "host_lib \<Rightarrow> (jstext \<Rightarrow> json_tree) \<Rightarrow> start_turn_input \<Rightarrow> journal_error + string" where
  "start_turn_input_digest L json_value i =
     (if start_turn_input_ok L i
      then Inr (sha256_hex L (canonical_json (start_turn_input_json json_value i))) else Inl J_zod)"

definition terminal_result_from_events ::
  "host_lib \<Rightarrow> host_event list \<Rightarrow> journal_error + node_delivery_result" where
  "terminal_result_from_events L es =
     (case map_option he_payload (last_option es) of
        Some (H_completed d) \<Rightarrow>
          (case d of
             Blocked reason requested \<Rightarrow> Inl J_not_publishable
           | Failed_turn c \<Rightarrow> Inl J_not_publishable
           | _ \<Rightarrow> if node_delivery_result_ok L (Result_turn_completed d)
                  then Inr (Result_turn_completed d) else Inl J_zod)
      | _ \<Rightarrow> Inl J_no_disposition)"

end
