(* ===== verification/Delivery_Checkpoints.thy ===== *)
theory Delivery_Checkpoints
  imports Complex_Main Node_Journal
begin

text \<open>
  What the delivery processor of a Node writes into its journal
  (\<^verbatim>\<open>node/src/delivery-processor.ts\<close>, \<^verbatim>\<open>node/src/delivery-runtime-authority.ts\<close>): every mutation handed
  to \<open>updateDelivery\<close>, the requests it derives from a journaled delivery, the lease window of a
  renewal, and the consumption of a host's event stream.  Times of the wall clock are the strings of
  \<open>toISOString\<close>, times of the monotonic clock are rational numbers of milliseconds.
\<close>

section \<open>Entries\<close>

definition terminal_phases :: "journal_phase list" where
  "terminal_phases = [Ph_acknowledged, Ph_dead_lettered, Ph_authority_lost]"

definition is_terminal_entry :: "journal_delivery \<Rightarrow> bool" where
  "is_terminal_entry e \<longleftrightarrow> je_phase e \<in> set terminal_phases
     \<or> d_status (je_delivery e) = D_acknowledged \<or> d_status (je_delivery e) = D_cancelled
     \<or> d_status (je_delivery e) = D_dead_lettered"

definition has_journaled_runtime_authority :: "journal_delivery \<Rightarrow> bool" where
  "has_journaled_runtime_authority e \<longleftrightarrow>
     je_runtime_authority e \<noteq> None \<or> je_runtime_authority_predecessor e \<noteq> None"

text \<open>\<open>now\<close> is the time in milliseconds; an unreadable time is never available.\<close>

definition is_available :: "host_lib \<Rightarrow> journal_delivery \<Rightarrow> int \<Rightarrow> bool" where
  "is_available L e now \<longleftrightarrow> d_status (je_delivery e) \<noteq> D_stored
     \<or> num_le (date_parse L (d_available_at (je_delivery e))) (Some now)"

definition require_lease :: "delivery \<Rightarrow> delivery_lease option" where
  "require_lease d = (if d_status d \<noteq> D_leased \<and> d_status d \<noteq> D_executing then None else d_lease d)"

section \<open>Answers of the relay\<close>

record relay_failure =
  rf_status :: int
  rf_code :: string
  rf_available_at :: "string option"

definition is_definitive_authority_loss :: "relay_failure \<Rightarrow> bool" where
  "is_definitive_authority_loss f \<longleftrightarrow> rf_status f = 401 \<or> rf_status f = 403 \<or> rf_status f = 409"

definition retry_available_at :: "host_lib \<Rightarrow> relay_failure \<Rightarrow> timestamp option" where
  "retry_available_at L f =
     (if rf_status f \<noteq> 409 \<or> rf_code f \<noteq> ''state_changed'' then None
      else case rf_available_at f of
        None \<Rightarrow> None
      | Some t \<Rightarrow> if date_parse L t = None then None else Some t)"

section \<open>Requests\<close>

definition operation_key :: "string \<Rightarrow> uuid \<Rightarrow> string \<Rightarrow> string" where
  "operation_key operation k part = operation @ '':'' @ k @ '':'' @ part"

definition next_claim_input :: "uuid \<Rightarrow> int \<Rightarrow> claim_input" where
  "next_claim_input k attempt = \<lparr>ci_idempotency_key = operation_key ''claim'' k (string_of_int attempt)\<rparr>"

definition next_start_input :: "uuid \<Rightarrow> delivery_lease \<Rightarrow> lease_operation_input" where
  "next_start_input k l = \<lparr>lo_idempotency_key = operation_key ''start'' k (dl_fencing_token l),
     lo_lease_id = dl_lease_id l, lo_fencing_token = dl_fencing_token l\<rparr>"

definition next_renew_input :: "uuid \<Rightarrow> delivery_lease \<Rightarrow> int \<Rightarrow> lease_operation_input" where
  "next_renew_input k l renewals =
     \<lparr>lo_idempotency_key = operation_key ''renew'' k (dl_fencing_token l @ '':'' @ string_of_int renewals),
      lo_lease_id = dl_lease_id l, lo_fencing_token = dl_fencing_token l\<rparr>"

definition next_complete_input :: "uuid \<Rightarrow> delivery_lease \<Rightarrow> node_delivery_result \<Rightarrow> complete_input" where
  "next_complete_input k l r = \<lparr>lo_idempotency_key = operation_key ''complete'' k (dl_fencing_token l),
     lo_lease_id = dl_lease_id l, lo_fencing_token = dl_fencing_token l, co_result = r\<rparr>"

definition next_release_input ::
  "uuid \<Rightarrow> delivery_lease \<Rightarrow> release_classification \<Rightarrow> jstext \<Rightarrow> release_input" where
  "next_release_input k l c summary = \<lparr>lo_idempotency_key = operation_key ''release'' k (dl_fencing_token l),
     lo_lease_id = dl_lease_id l, lo_fencing_token = dl_fencing_token l,
     re_classification = c, re_summary = take 2000 summary\<rparr>"

section \<open>Mutations of an entry\<close>

datatype delivery_mutation =
  Write_claim_intent int claim_input
| Write_claim_result claim_result
| Write_start_intent lease_operation_input
| Write_start_result delivery
| Write_renew_intent int lease_operation_input
| Write_renew_result delivery
| Write_complete_intent node_delivery_result complete_input
| Write_completed delivery
| Write_release_intent release_input jstext
| Write_released delivery
| Write_reclaim
| Write_authority_lost jstext
| Write_lease_lost jstext
| Write_retained_completion jstext
| Write_deferred timestamp jstext
| Write_error jstext
| Write_session host_session
| Write_host_event host_event bool
| Write_host_result node_delivery_result
| Write_retired "authority_grant option" "authority_grant option"

text \<open>\<open>archiveHostExecution\<close>: the evidence of the attempt is kept with the digest of its start input.\<close>

definition archive_host_execution ::
  "host_lib \<Rightarrow> (jstext \<Rightarrow> json_tree) \<Rightarrow> timestamp \<Rightarrow> journal_delivery \<Rightarrow> journal_error + journal_delivery" where
  "archive_host_execution L json_value now e =
     (let next_attempt = (\<lambda>e. e\<lparr>je_execution_attempt := je_execution_attempt e + 1,
            je_start_turn_input := None, je_host_events := [], je_result := None\<rparr>)
      in if has_journaled_runtime_authority e then Inl J_authority_not_retired
         else if je_start_turn_input e = None \<and> je_host_events e = [] \<and> je_result e = None
         then Inr (next_attempt e)
         else case je_start_turn_input e of
           None \<Rightarrow> Inl J_no_start_input
         | Some i \<Rightarrow> map_sum id (\<lambda>digest. next_attempt
             (e\<lparr>je_host_attempt_history := je_host_attempt_history e @
                [\<lparr>ax_execution_attempt = je_execution_attempt e, ax_start_input_sha256 = digest,
                  ax_host_events = je_host_events e, ax_result = je_result e, ax_archived_at = now\<rparr>]\<rparr>))
             (start_turn_input_digest L json_value i))"

definition is_complete_intent :: "operation_intent option \<Rightarrow> bool" where
  "is_complete_intent operation = (case operation of Some (Complete_intent i) \<Rightarrow> True | _ \<Rightarrow> False)"

definition phase_after_event :: "host_event \<Rightarrow> bool \<Rightarrow> journal_phase \<Rightarrow> journal_phase" where
  "phase_after_event v terminal phase =
     (if is_accepted (he_payload v) then Ph_host_accepted
      else if terminal then Ph_host_terminal else phase)"

fun apply_mutation ::
  "host_lib \<Rightarrow> (jstext \<Rightarrow> json_tree) \<Rightarrow> timestamp \<Rightarrow> delivery_mutation \<Rightarrow> journal_delivery
     \<Rightarrow> journal_error + journal_delivery" where
  "apply_mutation L json_value now (Write_claim_intent attempt i) e =
     Inr (e\<lparr>je_claim_attempt := attempt, je_operation := Some (Claim_intent i),
            je_phase := Ph_claim_intent, je_updated_at := now\<rparr>)"
| "apply_mutation L json_value now (Write_claim_result (Claimed_result i receipt replayed)) e =
     map_sum id (\<lambda>e. e\<lparr>je_operation := None, je_item := i, je_phase := Ph_claimed, je_updated_at := now\<rparr>)
       (stage_runtime_authority_successor L e (mdi_delivery i))"
| "apply_mutation L json_value now (Write_claim_result (Dead_lettered_result d receipt replayed)) e =
     Inr ((with_delivery d e)\<lparr>je_operation := None, je_phase := Ph_dead_lettered, je_updated_at := now\<rparr>)"
| "apply_mutation L json_value now (Write_start_intent i) e =
     Inr (e\<lparr>je_operation := Some (Start_intent i), je_phase := Ph_start_intent, je_updated_at := now\<rparr>)"
| "apply_mutation L json_value now (Write_start_result d) e =
     Inr ((with_delivery d e)\<lparr>je_operation := None, je_phase := Ph_relay_executing, je_updated_at := now\<rparr>)"
| "apply_mutation L json_value now (Write_renew_intent renewals i) e =
     Inr (e\<lparr>je_renew_count := renewals, je_operation := Some (Renew_intent i), je_updated_at := now\<rparr>)"
| "apply_mutation L json_value now (Write_renew_result d) e =
     Inr ((with_delivery d e)\<lparr>je_operation := None, je_updated_at := now\<rparr>)"
| "apply_mutation L json_value now (Write_complete_intent r i) e =
     Inr (e\<lparr>je_result := Some r, je_operation := Some (Complete_intent i),
            je_phase := Ph_complete_intent, je_updated_at := now\<rparr>)"
| "apply_mutation L json_value now (Write_completed d) e =
     Inr ((with_delivery d e)\<lparr>je_operation := None, je_phase := Ph_acknowledged,
            je_last_error := None, je_updated_at := now\<rparr>)"
| "apply_mutation L json_value now (Write_release_intent i summary) e =
     Inr (e\<lparr>je_operation := Some (Release_intent i), je_phase := Ph_release_intent,
            je_last_error := Some (take 2000 summary), je_updated_at := now\<rparr>)"
| "apply_mutation L json_value now (Write_released d) e =
     map_sum id (\<lambda>e. (with_delivery d e)\<lparr>je_operation := None,
         je_phase := (if d_status d = D_dead_lettered then Ph_dead_lettered else Ph_ingested),
         je_updated_at := now\<rparr>)
       (if d_status d = D_stored then archive_host_execution L json_value now e else Inr e)"
| "apply_mutation L json_value now Write_reclaim e =
     Inr (e\<lparr>je_phase := Ph_lease_lost, je_operation := None, je_updated_at := now\<rparr>)"
| "apply_mutation L json_value now (Write_authority_lost err) e =
     Inr (e\<lparr>je_phase := Ph_authority_lost, je_operation := None,
            je_last_error := Some (take 2000 err), je_updated_at := now\<rparr>)"
| "apply_mutation L json_value now (Write_lease_lost err) e =
     Inr (e\<lparr>je_phase := Ph_lease_lost, je_operation := None,
            je_last_error := Some (take 2000 err), je_updated_at := now\<rparr>)"
| "apply_mutation L json_value now (Write_retained_completion err) e =
     (if is_complete_intent (je_operation e)
      then Inr (e\<lparr>je_phase := Ph_complete_intent, je_last_error := Some (take 2000 err), je_updated_at := now\<rparr>)
      else Inl J_no_completion_intent)"
| "apply_mutation L json_value now (Write_deferred available_at err) e =
     Inr ((with_delivery ((je_delivery e)\<lparr>d_available_at := available_at\<rparr>) e)
            \<lparr>je_phase := Ph_ingested, je_operation := None,
             je_last_error := Some (take 2000 err), je_updated_at := now\<rparr>)"
| "apply_mutation L json_value now (Write_error err) e =
     Inr (e\<lparr>je_last_error := Some (take 2000 err), je_updated_at := now\<rparr>)"
| "apply_mutation L json_value now (Write_session h) e =
     Inr (e\<lparr>je_host_session := Some h, je_updated_at := now\<rparr>)"
| "apply_mutation L json_value now (Write_host_event v terminal) e =
     Inr (e\<lparr>je_host_events := je_host_events e @ [v],
            je_phase := phase_after_event v terminal (je_phase e), je_updated_at := now\<rparr>)"
| "apply_mutation L json_value now (Write_host_result r) e =
     Inr (e\<lparr>je_result := Some r, je_phase := Ph_host_terminal, je_updated_at := now\<rparr>)"
| "apply_mutation L json_value now (Write_retired active predecessor) e =
     (if je_runtime_authority e \<noteq> active \<or> je_runtime_authority_predecessor e \<noteq> predecessor
      then Inl J_compare_and_swap
      else Inr (e\<lparr>je_runtime_authority := None, je_runtime_authority_predecessor := None,
                  je_updated_at := now\<rparr>))"

section \<open>The lease window\<close>

definition min_safe_lease_window_ms :: int where
  "min_safe_lease_window_ms = 100"

record lease_window =
  lw_lease :: delivery_lease
  lw_renew_at :: rat
  lw_expires_at :: rat

datatype window_error = No_lease | Receipt_mismatch | No_safe_window

definition lease_window_from_renewal ::
  "host_lib \<Rightarrow> delivery \<Rightarrow> operation_receipt \<Rightarrow> rat \<Rightarrow> rat \<Rightarrow> window_error + lease_window" where
  "lease_window_from_renewal L d receipt requested received =
     (case require_lease d of
        None \<Rightarrow> Inl No_lease
      | Some l \<Rightarrow>
          if or_lease_expires_at receipt \<noteq> Some (dl_expires_at l) then Inl Receipt_mismatch
          else case (date_parse L (dl_expires_at l), date_parse L (or_recorded_at receipt)) of
            (Some expires, Some recorded) \<Rightarrow>
              (let granted = expires - recorded;
                   remaining = granted - ceiling (max 0 (received - requested))
               in if remaining \<le> min_safe_lease_window_ms then Inl No_safe_window
                  else Inr \<lparr>lw_lease = l, lw_renew_at = received + of_int (remaining div 2),
                            lw_expires_at = requested + of_int granted\<rparr>)
          | _ \<Rightarrow> Inl No_safe_window)"

section \<open>Start inputs\<close>

definition max_host_peer_messages :: nat where
  "max_host_peer_messages = 64"

definition peer_message :: "message \<Rightarrow> host_peer_message" where
  "peer_message m = \<lparr>hp_message_id = m_message_id m, hp_author_agent_id = m_author_agent_id m,
     hp_kind = m_type m, hp_body = m_body m\<rparr>"

definition last_n :: "nat \<Rightarrow> 'a list \<Rightarrow> 'a list" where
  "last_n n xs = drop (length xs - n) xs"

definition start_turn_input_of ::
  "host_lib \<Rightarrow> mission_delivery_item \<Rightarrow> mission_assignment \<Rightarrow> host_session \<Rightarrow> int
     \<Rightarrow> derive_error + start_turn_input" where
  "start_turn_input_of L item a session attempt =
     map_sum id (\<lambda>inputs.
       \<lparr>ti_session = session, ti_mission_id = as_mission_id a,
        ti_contract_version = d_contract_version (mdi_delivery item),
        ti_mission_sequence = cs_sequence_no (as_coordinator_state a) + 1,
        ti_objective = hm_objective inputs, ti_assignment = hm_assignment inputs,
        ti_acceptance_criteria = hm_acceptance_criteria inputs,
        ti_peer_messages = map peer_message (last_n max_host_peer_messages
          (filter (\<lambda>m. m_author_agent_id m \<noteq> as_participant_agent_id a)
             (cs_messages (as_coordinator_state a)))),
        ti_artifacts = [], st_delivery_id = d_delivery_id (mdi_delivery item),
        st_execution_attempt = attempt\<rparr>)
       (derive_host_mission_inputs L (cfg_mission_context (as_coordinator_config a))
          (as_participant_agent_id a))"

section \<open>Host events\<close>

text \<open>The correlation expected of the stream: the journaled turn when there is one.\<close>

definition expected_turn :: "host_event list \<Rightarrow> start_turn_input \<Rightarrow> host_turn_correlation" where
  "expected_turn es i =
     (case es of
        v # vs \<Rightarrow>
          (let t = he_turn v in
           \<lparr>tc_turn_id = Some (tr_turn_id t), tc_session_id = tr_session_id t,
            tc_mission_id = tr_mission_id t, tc_delivery_id = tr_delivery_id t,
            tc_execution_attempt = tr_execution_attempt t, tc_contract_version = tr_contract_version t\<rparr>)
      | [] \<Rightarrow> \<lparr>tc_turn_id = None, tc_session_id = hs_session_id (ti_session i),
            tc_mission_id = ti_mission_id i, tc_delivery_id = st_delivery_id i,
            tc_execution_attempt = st_execution_attempt i, tc_contract_version = ti_contract_version i\<rparr>)"

datatype 'e consume_error = Stream_refused stream_error | Replay_differs int | Write_failed 'e | Stream_ended

definition journaled_event :: "host_event list \<Rightarrow> int \<Rightarrow> host_event option" where
  "journaled_event es n = (if 1 \<le> n \<and> n \<le> int (length es) then Some (es ! nat (n - 1)) else None)"

text \<open>The loop of \<open>consumeHostEvents\<close> over the events the stream yields: \<open>es\<close> are the events already
  journaled, \<open>write\<close> journals one more and says whether the stream is then terminal.\<close>

datatype event_verdict = Already_journaled | Differs int | Refused stream_error | Fresh stream_state

definition judge_event ::
  "host_lib \<Rightarrow> stream_policy \<Rightarrow> stream_state \<Rightarrow> host_event list \<Rightarrow> host_event \<Rightarrow> event_verdict" where
  "judge_event L policy st es v =
     (case journaled_event es (he_sequence v) of
        Some old \<Rightarrow> if old \<noteq> v then Differs (he_sequence v) else Already_journaled
      | None \<Rightarrow> (case accept_host_event L policy st v of Inl err \<Rightarrow> Refused err | Inr st' \<Rightarrow> Fresh st'))"

fun consume_stream ::
  "host_lib \<Rightarrow> stream_policy \<Rightarrow> (host_event \<Rightarrow> bool \<Rightarrow> 's \<Rightarrow> 'e + 's)
     \<Rightarrow> stream_state \<Rightarrow> host_event list \<Rightarrow> host_event list \<Rightarrow> 's
     \<Rightarrow> ('e consume_error + host_event list) \<times> 's" where
  "consume_stream L policy write st es [] s =
     (if ss_phase st = Terminal_phase then Inr es else Inl Stream_ended, s)"
| "consume_stream L policy write st es (v # vs) s =
     (case judge_event L policy st es v of
        Already_journaled \<Rightarrow> consume_stream L policy write st es vs s
      | Differs n \<Rightarrow> (Inl (Replay_differs n), s)
      | Refused err \<Rightarrow> (Inl (Stream_refused err), s)
      | Fresh st' \<Rightarrow>
          (case write v (ss_phase st' = Terminal_phase) s of
             Inl err \<Rightarrow> (Inl (Write_failed err), s)
           | Inr s' \<Rightarrow> consume_stream L policy write st' (es @ [v]) vs s'))"

definition consume_host_events ::
  "host_lib \<Rightarrow> stream_policy \<Rightarrow> (host_event \<Rightarrow> bool \<Rightarrow> 's \<Rightarrow> 'e + 's)
     \<Rightarrow> start_turn_input \<Rightarrow> host_event list \<Rightarrow> host_event list \<Rightarrow> 's
     \<Rightarrow> ('e consume_error + host_event list) \<times> 's" where
  "consume_host_events L policy write i es vs s =
     (case run_steps (accept_host_event L policy) (create_stream_state (expected_turn es i)) es of
        Inl err \<Rightarrow> (Inl (Stream_refused err), s)
      | Inr st \<Rightarrow> consume_stream L policy write st es vs s)"

section \<open>The order of work\<close>

text \<open>\<open>processNext\<close>: the deliveries that have work, in the order of their cursors.  A delivery whose
  authority transition is pending blocks the rest of its Mission and the next is tried; \<open>process\<close> and
  \<open>note\<close> act on the state.\<close>

definition work_candidates :: "host_lib \<Rightarrow> int \<Rightarrow> node_journal \<Rightarrow> journal_delivery list" where
  "work_candidates L now s =
     sort_key (\<lambda>e. Cursor (d_cursor (je_delivery e)))
       (filter (\<lambda>e. (\<not> is_terminal_entry e \<or> has_journaled_runtime_authority e) \<and> is_available L e now)
         (map snd (jn_deliveries s)))"

datatype 'e process_outcome = Processed | Transition_pending 'e | Process_failed 'e

fun process_in_order ::
  "(uuid \<Rightarrow> 's \<Rightarrow> 'e process_outcome \<times> 's) \<Rightarrow> (uuid \<Rightarrow> 'e \<Rightarrow> 's \<Rightarrow> ('e + unit) \<times> 's)
     \<Rightarrow> uuid list \<Rightarrow> journal_delivery list \<Rightarrow> 's \<Rightarrow> ('e + uuid option) \<times> 's" where
  "process_in_order process note blocked [] s = (Inr None, s)"
| "process_in_order process note blocked (e # es) s =
     (if d_mission_id (je_delivery e) \<in> set blocked then process_in_order process note blocked es s
      else case process (d_delivery_id (je_delivery e)) s of
        (Processed, s') \<Rightarrow> (Inr (Some (d_delivery_id (je_delivery e))), s')
      | (Process_failed err, s') \<Rightarrow> (Inl err, s')
      | (Transition_pending err, s') \<Rightarrow>
          (case note (d_delivery_id (je_delivery e)) err s' of
             (Inl err', s'') \<Rightarrow> (Inl err', s'')
           | (Inr _, s'') \<Rightarrow> process_in_order process note (d_mission_id (je_delivery e) # blocked) es s''))"

end
