(* ===== verification/Journal_Machine.thy ===== *)
theory Journal_Machine
  imports Delivery_Checkpoints
begin

text \<open>
  The journal with its storage: the queue of updates of \<open>NodeJournal\<close>
  (\<^verbatim>\<open>node/src/journal.ts\<close>: \<open>open\<close>, \<open>update\<close>, \<open>migrateJournalState\<close>) over the file of
  \<^verbatim>\<open>node/src/file-journal.ts\<close>, replaced by a rename as in \<^verbatim>\<open>node/src/durable-file.ts\<close>.  An update
  works on a clone, parses it, saves it, and only then becomes the state in memory.  A save has three
  outcomes: done, failed before the rename (the old file stays), failed after it (the new file is there
  but the caller sees an error).  The updates of a Node run one after the other, so a history is a list
  of commands and restarts.
\<close>

section \<open>Storage\<close>

datatype save_outcome = Save_done | Save_failed | Save_unsynced

definition write_durable :: "save_outcome \<Rightarrow> 'a \<Rightarrow> 'a option \<Rightarrow> bool \<times> 'a option" where
  "write_durable outcome content file =
     (case outcome of Save_done \<Rightarrow> (True, Some content) | Save_failed \<Rightarrow> (False, file)
      | Save_unsynced \<Rightarrow> (False, Some content))"

record journal_process =
  jp_memory :: "node_journal option"
  jp_disk :: "node_journal option"

text \<open>\<open>open\<close> of a stored journal of the current version; without a file the empty journal is saved.\<close>

definition open_journal :: "host_lib \<Rightarrow> save_outcome \<Rightarrow> node_journal option
    \<Rightarrow> (journal_error + node_journal) \<times> node_journal option" where
  "open_journal L outcome disk =
     (let s = (case disk of None \<Rightarrow> empty_node_journal | Some s \<Rightarrow> s) in
      if \<not> node_journal_ok L s then (Inl J_zod, disk)
      else if disk = None then
        (case write_durable outcome s disk of
           (True, disk') \<Rightarrow> (Inr s, disk')
         | (False, disk') \<Rightarrow> (Inl J_storage, disk'))
      else (Inr s, disk))"

definition update_journal :: "host_lib \<Rightarrow> (node_journal \<Rightarrow> journal_error + node_journal) \<Rightarrow> save_outcome
    \<Rightarrow> node_journal \<Rightarrow> node_journal option \<Rightarrow> (journal_error + node_journal) \<times> node_journal option" where
  "update_journal L mutate outcome memory disk =
     (case mutate memory of
        Inl err \<Rightarrow> (Inl err, disk)
      | Inr s \<Rightarrow>
          if \<not> node_journal_ok L s then (Inl J_zod, disk)
          else (case write_durable outcome s disk of
                  (True, disk') \<Rightarrow> (Inr s, disk')
                | (False, disk') \<Rightarrow> (Inl J_storage, disk')))"

section \<open>Commands\<close>

datatype journal_command =
  Ingest_page "mission_delivery_item list" "string option" timestamp
| Ingest_recovered "mission_delivery_item list" timestamp
| Set_assignment_cursor "uuid option"
| Set_session host_session
| Checkpoint_start uuid start_turn_input timestamp
| Checkpoint_authority uuid authority_grant timestamp "checkpoint_expectation option"
| Record_acceptance uuid acceptance_input bool
| Quarantine_acceptance uuid jstext
| Replace_state delivery timestamp
| Mutate_delivery uuid delivery_mutation timestamp

fun apply_command ::
  "host_lib \<Rightarrow> (jstext \<Rightarrow> json_tree) \<Rightarrow> journal_command \<Rightarrow> node_journal \<Rightarrow> journal_error + node_journal" where
  "apply_command L json_value (Ingest_page items c now) s = ingest_cursor_page L items c now s"
| "apply_command L json_value (Ingest_recovered items now) s = ingest_recoverable L items now s"
| "apply_command L json_value (Set_assignment_cursor c) s = set_mission_assignment_cursor L c s"
| "apply_command L json_value (Set_session h) s = set_mission_session L h s"
| "apply_command L json_value (Checkpoint_start k i now) s = checkpoint_start_turn_input L k i now s"
| "apply_command L json_value (Checkpoint_authority k g now x) s = checkpoint_runtime_authority L k g now x s"
| "apply_command L json_value (Record_acceptance k i accepted) s = record_mission_acceptance L k i accepted s"
| "apply_command L json_value (Quarantine_acceptance k err) s = quarantine_mission_acceptance L k err s"
| "apply_command L json_value (Replace_state d now) s = replace_delivery_state L d now s"
| "apply_command L json_value (Mutate_delivery k m now) s =
     update_delivery L k (apply_mutation L json_value now m) s"

datatype journal_event = Run_command journal_command save_outcome | Restart save_outcome

fun journal_step ::
  "host_lib \<Rightarrow> (jstext \<Rightarrow> json_tree) \<Rightarrow> journal_process \<Rightarrow> journal_event \<Rightarrow> journal_process" where
  "journal_step L json_value p (Run_command c outcome) =
     (case jp_memory p of
        None \<Rightarrow> p
      | Some s \<Rightarrow>
          (case update_journal L (apply_command L json_value c) outcome s (jp_disk p) of
             (Inl err, disk) \<Rightarrow> p\<lparr>jp_disk := disk\<rparr>
           | (Inr s', disk) \<Rightarrow> \<lparr>jp_memory = Some s', jp_disk = disk\<rparr>))"
| "journal_step L json_value p (Restart outcome) =
     (case open_journal L outcome (jp_disk p) of
        (Inl err, disk) \<Rightarrow> \<lparr>jp_memory = None, jp_disk = disk\<rparr>
      | (Inr s, disk) \<Rightarrow> \<lparr>jp_memory = Some s, jp_disk = disk\<rparr>)"

definition journal_run ::
  "host_lib \<Rightarrow> (jstext \<Rightarrow> json_tree) \<Rightarrow> journal_process \<Rightarrow> journal_event list \<Rightarrow> journal_process" where
  "journal_run L json_value p evs = foldl (journal_step L json_value) p evs"

section \<open>Migration\<close>

text \<open>Stored journals of older versions, as JSON.  A key is one of the object's own; setting a key that
  is there keeps its place.\<close>

fun set_field :: "string \<Rightarrow> json_tree \<Rightarrow> json_tree \<Rightarrow> json_tree" where
  "set_field key v (Jt_object es) = Jt_object (AList.update (text_of key) v es)"
| "set_field key v t = t"

fun has_own :: "string \<Rightarrow> json_tree \<Rightarrow> bool" where
  "has_own key (Jt_object es) = (text_of key \<in> fst ` set es)"
| "has_own key t = False"

fun field_of :: "string \<Rightarrow> json_tree \<Rightarrow> json_tree option" where
  "field_of key (Jt_object es) = map_of es (text_of key)"
| "field_of key t = None"

fun is_object :: "json_tree \<Rightarrow> bool" where
  "is_object (Jt_object es) = True"
| "is_object t = False"

text \<open>A change of every entry that is an object, in the \<open>deliveries\<close> of a record that has such an object.\<close>

fun map_entries :: "(json_tree \<Rightarrow> json_tree) \<Rightarrow> json_tree \<Rightarrow> json_tree" where
  "map_entries f (Jt_object es) =
     Jt_object (map (\<lambda>(k, v). (k, if is_object v then f v else v)) es)"
| "map_entries f t = t"

definition change_deliveries :: "(json_tree \<Rightarrow> json_tree) \<Rightarrow> json_tree \<Rightarrow> json_tree" where
  "change_deliveries f r =
     (case field_of ''deliveries'' r of
        Some (Jt_object es) \<Rightarrow> set_field ''deliveries'' (map_entries f (Jt_object es)) r
      | _ \<Rightarrow> r)"

definition add_predecessor :: "json_tree \<Rightarrow> json_tree" where
  "add_predecessor entry =
     (if has_own ''runtime_authority_predecessor'' entry then entry
      else set_field ''runtime_authority_predecessor'' Jt_null entry)"

definition add_runtime_authority_predecessors :: "json_tree \<Rightarrow> json_tree" where
  "add_runtime_authority_predecessors r = change_deliveries add_predecessor r"

definition clear_authority :: "json_tree \<Rightarrow> json_tree" where
  "clear_authority entry =
     set_field ''runtime_authority_predecessor'' Jt_null (set_field ''runtime_authority'' Jt_null entry)"

definition has_deliveries :: "json_tree \<Rightarrow> bool" where
  "has_deliveries r =
     (case field_of ''deliveries'' r of Some (Jt_object es) \<Rightarrow> es \<noteq> [] | _ \<Rightarrow> False)"

definition empty_journal_json :: json_tree where
  "empty_journal_json = object_json
     [(''schema_version'', Jt_int 4), (''cursor'', Jt_null), (''mission_assignment_cursor'', Jt_null),
      (''deliveries'', Jt_object []), (''mission_sessions'', Jt_object []),
      (''mission_acceptances'', Jt_object [])]"

datatype migration_error = Unsafe_migration

definition migrate_journal_state :: "json_tree option \<Rightarrow> migration_error + (json_tree \<times> bool)" where
  "migrate_journal_state stored =
     (case stored of
        None \<Rightarrow> Inr (empty_journal_json, True)
      | Some r \<Rightarrow>
          if r = Jt_null then Inr (empty_journal_json, True)
          else if \<not> is_object r then Inr (r, False)
          else if field_of ''schema_version'' r = Some (Jt_int 3)
          then Inr (add_runtime_authority_predecessors (set_field ''schema_version'' (Jt_int 4) r), True)
          else if field_of ''schema_version'' r = Some (Jt_int 2)
          then Inr (change_deliveries clear_authority (set_field ''schema_version'' (Jt_int 4) r), True)
          else if field_of ''schema_version'' r \<noteq> Some (Jt_int 1) then Inr (r, False)
          else if has_deliveries r then Inl Unsafe_migration
          else (let m = set_field ''schema_version'' (Jt_int 4) r in
                Inr (if has_own ''mission_assignment_cursor'' m then m
                     else set_field ''mission_assignment_cursor'' Jt_null m, True)))"

end
