(* ===== verification/Delivery_Process.thy ===== *)
theory Delivery_Process
  imports Journal_Machine Node_Policy
begin

text \<open>
  The delivery processor of a Node (\<^verbatim>\<open>node/src/delivery-processor.ts\<close>) for a Node without a runtime
  authority port (the option \<open>authorityPort\<close> is absent, so \<open>install\<close> answers null and a journaled grant
  cannot be retired).  A program acts on a world: the journal in memory and on disk, the abort signal, the
  lease keeper that runs beside a host turn, a trace of what was saved and sent, and a script of what the
  outside answers.  A script that ends, or that does not fit, is a Node that stops there; so every prefix of
  a run is a run.  At every await the script may first let the signal be aborted or the lease keeper move.
\<close>

section \<open>Programs\<close>

datatype call_failure = Http relay_failure jstext | Call_failed jstext

datatype process_error =
  PE_stopped
| PE_journal journal_error
| PE_relay relay_failure jstext
| PE_authority_lost jstext
| PE_completion_rejected jstext
| PE_shutdown
| PE_aborted
| PE_transition_pending jstext
| PE_policy jstext
| PE_preflight jstext
| PE_stream "journal_error consume_error"
| PE_other jstext

fun failure_error :: "call_failure \<Rightarrow> process_error" where
  "failure_error (Http f m) = PE_relay f m"
| "failure_error (Call_failed m) = PE_other m"

text \<open>\<open>safeError\<close> of the errors whose message is journaled.\<close>

fun error_message :: "process_error \<Rightarrow> jstext" where
  "error_message (PE_relay f m) = m"
| "error_message (PE_authority_lost m) = m"
| "error_message (PE_completion_rejected m) = m"
| "error_message PE_shutdown = text_of ''Node shutdown requested while a host turn was active''"
| "error_message (PE_transition_pending m) = m"
| "error_message (PE_policy m) = m"
| "error_message (PE_preflight m) = m"
| "error_message (PE_other m) = m"
| "error_message err = []"

definition safe_error :: "process_error \<Rightarrow> jstext" where
  "safe_error err = take 2000 (error_message err)"

fun is_authority_lost :: "process_error \<Rightarrow> bool" where
  "is_authority_lost (PE_authority_lost m) = True"
| "is_authority_lost (PE_completion_rejected m) = True"
| "is_authority_lost err = False"

fun is_definitive_loss :: "process_error \<Rightarrow> bool" where
  "is_definitive_loss (PE_relay f m) = is_definitive_authority_loss f"
| "is_definitive_loss err = False"

fun retry_time :: "host_lib \<Rightarrow> process_error \<Rightarrow> timestamp option" where
  "retry_time L (PE_relay f m) = retry_available_at L f"
| "retry_time L err = None"

datatype reply =
  R_save save_outcome timestamp
| R_claim "call_failure + claim_result"
| R_operation "call_failure + operation_result" rat rat
| R_complete "call_failure + complete_result"
| R_assignment "call_failure + mission_assignment"
| R_preflight "jstext option"
| R_probe "call_failure + adapter_info"
| R_session "call_failure + host_session"
| R_lookup "call_failure + host_turn_ref option"
| R_event "call_failure + host_event option"
| R_recover "call_failure + recoverable_page"
| R_page "call_failure + stored_mission_page"
| R_clock rat
| R_abort
| R_keeper_intent save_outcome timestamp
| R_keeper_answer "call_failure + operation_result" rat rat save_outcome timestamp

datatype call =
  Saved node_journal
| Sent uuid operation_intent
| Host_started uuid start_turn_input
| Host_recovered host_turn_ref start_turn_input
| Host_cancelled uuid int

datatype keeper =
  Keeper_off
| Keeper_idle lease_window
| Keeper_waiting lease_window
| Keeper_failed process_error

text \<open>The trace has the last call first.\<close>

record world =
  wo_memory :: node_journal
  wo_disk :: "node_journal option"
  wo_trace :: "call list"
  wo_script :: "reply list"
  wo_aborted :: bool
  wo_keeper :: keeper

type_synonym 'a proc = "world \<Rightarrow> (process_error + 'a) \<times> world"

definition proc_return :: "'a \<Rightarrow> 'a proc" where
  "proc_return x w = (Inr x, w)"

definition proc_raise :: "process_error \<Rightarrow> 'a proc" where
  "proc_raise err w = (Inl err, w)"

definition proc_bind :: "'a proc \<Rightarrow> ('a \<Rightarrow> 'b proc) \<Rightarrow> 'b proc" where
  "proc_bind m f w = (case m w of (Inl err, w') \<Rightarrow> (Inl err, w') | (Inr x, w') \<Rightarrow> f x w')"

definition proc_then :: "unit proc \<Rightarrow> 'b proc \<Rightarrow> 'b proc" where
  "proc_then m n = proc_bind m (\<lambda>_. n)"

text \<open>A Node that stopped handles nothing.\<close>

definition proc_catch :: "'a proc \<Rightarrow> (process_error \<Rightarrow> 'a proc) \<Rightarrow> 'a proc" where
  "proc_catch m h w = (case m w of
     (Inl err, w') \<Rightarrow> if err = PE_stopped then (Inl err, w') else h err w'
   | (Inr x, w') \<Rightarrow> (Inr x, w'))"

definition proc_gets :: "(world \<Rightarrow> 'a) \<Rightarrow> 'a proc" where
  "proc_gets f w = (Inr (f w), w)"

definition proc_when :: "bool \<Rightarrow> unit proc \<Rightarrow> unit proc" where
  "proc_when b m = (if b then m else proc_return ())"

definition record_call :: "call \<Rightarrow> unit proc" where
  "record_call c w = (Inr (), w\<lparr>wo_trace := c # wo_trace w\<rparr>)"

section \<open>The journal, and the lease keeper beside it\<close>

definition commit :: "host_lib \<Rightarrow> (jstext \<Rightarrow> json_tree) \<Rightarrow> journal_command \<Rightarrow> save_outcome \<Rightarrow> unit proc" where
  "commit L json_value c outcome w =
     (case update_journal L (apply_command L json_value c) outcome (wo_memory w) (wo_disk w) of
        (Inl err, disk) \<Rightarrow> (Inl (PE_journal err), w\<lparr>wo_disk := disk\<rparr>)
      | (Inr s, disk) \<Rightarrow> (Inr (), w\<lparr>wo_memory := s, wo_disk := disk, wo_trace := Saved s # wo_trace w\<rparr>))"

definition entry_of :: "uuid \<Rightarrow> world \<Rightarrow> journal_delivery option" where
  "entry_of k w = map_of (jn_deliveries (wo_memory w)) k"

definition require_entry :: "uuid \<Rightarrow> journal_delivery proc" where
  "require_entry k = proc_bind (proc_gets (entry_of k)) (\<lambda>e. case e of
     None \<Rightarrow> proc_raise (PE_other (text_of (''delivery is not journaled: '' @ k)))
   | Some e \<Rightarrow> proc_return e)"

definition need_lease :: "delivery \<Rightarrow> delivery_lease proc" where
  "need_lease d = (case require_lease d of
     None \<Rightarrow> proc_raise (PE_authority_lost (text_of (''delivery has no active lease: '' @ d_delivery_id d)))
   | Some l \<Rightarrow> proc_return l)"

definition throw_if_aborted :: "unit proc" where
  "throw_if_aborted = proc_bind (proc_gets wo_aborted) (\<lambda>b. if b then proc_raise PE_aborted else proc_return ())"

fun window_error_of :: "window_error \<Rightarrow> uuid \<Rightarrow> process_error" where
  "window_error_of No_lease k = PE_authority_lost (text_of (''delivery has no active lease: '' @ k))"
| "window_error_of Receipt_mismatch k =
     PE_other (text_of ''Relay renewal receipt does not match its delivery lease deadline'')"
| "window_error_of No_safe_window k =
     PE_authority_lost (text_of ''Relay returned no safe lease window for host execution'')"

definition window_of ::
  "host_lib \<Rightarrow> operation_result \<Rightarrow> rat \<Rightarrow> rat \<Rightarrow> lease_window proc" where
  "window_of L r requested received =
     (case lease_window_from_renewal L (ors_delivery r) (ors_receipt r) requested received of
        Inl err \<Rightarrow> proc_raise (window_error_of err (d_delivery_id (ors_delivery r)))
      | Inr window \<Rightarrow> proc_return window)"

text \<open>The two halves of an iteration of the keeper's loop: the intent and the request, then the answer.\<close>

definition keeper_intent ::
  "host_lib \<Rightarrow> (jstext \<Rightarrow> json_tree) \<Rightarrow> uuid \<Rightarrow> lease_window \<Rightarrow> save_outcome \<Rightarrow> timestamp \<Rightarrow> unit proc" where
  "keeper_intent L json_value k window outcome now =
     proc_then throw_if_aborted (proc_bind (require_entry k) (\<lambda>e.
     proc_bind (need_lease (je_delivery e)) (\<lambda>l.
       if dl_lease_id l \<noteq> dl_lease_id (lw_lease window)
         \<or> dl_fencing_token l \<noteq> dl_fencing_token (lw_lease window)
       then proc_raise (PE_authority_lost (text_of ''Lease authority changed while host turn was active''))
       else let i = next_renew_input k (lw_lease window) (je_renew_count e + 1) in
         proc_then (commit L json_value (Mutate_delivery k (Write_renew_intent (je_renew_count e + 1) i) now) outcome)
        (proc_then throw_if_aborted (record_call (Sent k (Renew_intent i)))))))"

definition keeper_answer ::
  "host_lib \<Rightarrow> (jstext \<Rightarrow> json_tree) \<Rightarrow> uuid \<Rightarrow> call_failure + operation_result \<Rightarrow> rat \<Rightarrow> rat
     \<Rightarrow> save_outcome \<Rightarrow> timestamp \<Rightarrow> lease_window proc" where
  "keeper_answer L json_value k answer requested received outcome now =
     (case answer of
        Inl f \<Rightarrow> proc_raise (failure_error f)
      | Inr r \<Rightarrow> proc_bind (window_of L r requested received) (\<lambda>window.
          proc_then (commit L json_value (Mutate_delivery k (Write_renew_result (ors_delivery r)) now) outcome)
            (proc_return window)))"

text \<open>What the script lets happen beside the program; an action that cannot happen is no background.  A keeper
  that fails asks for the host's turn to be cancelled.\<close>

definition keeper_after :: "(lease_window \<Rightarrow> keeper) \<Rightarrow> uuid \<Rightarrow> (process_error + lease_window) \<times> world \<Rightarrow> world" where
  "keeper_after next_state k r = (case r of
     (Inl err, w) \<Rightarrow> w\<lparr>wo_keeper := Keeper_failed err,
        wo_trace := (case entry_of k w of None \<Rightarrow> wo_trace w
          | Some e \<Rightarrow> Host_cancelled k (je_execution_attempt e) # wo_trace w)\<rparr>
   | (Inr window, w) \<Rightarrow> w\<lparr>wo_keeper := next_state window\<rparr>)"

definition background ::
  "host_lib \<Rightarrow> (jstext \<Rightarrow> json_tree) \<Rightarrow> uuid \<Rightarrow> reply \<Rightarrow> world \<Rightarrow> world option" where
  "background L json_value k r w =
     (case (r, wo_keeper w) of
        (R_abort, _) \<Rightarrow> Some (w\<lparr>wo_aborted := True\<rparr>)
      | (R_keeper_intent outcome now, Keeper_idle window) \<Rightarrow>
          Some (keeper_after Keeper_waiting k
            (proc_then (keeper_intent L json_value k window outcome now) (proc_return window) w))
      | (R_keeper_answer answer requested received outcome now, Keeper_waiting window) \<Rightarrow>
          Some (keeper_after Keeper_idle k
            (keeper_answer L json_value k answer requested received outcome now w))
      | _ \<Rightarrow> None)"

fun drain_background ::
  "host_lib \<Rightarrow> (jstext \<Rightarrow> json_tree) \<Rightarrow> uuid \<Rightarrow> reply list \<Rightarrow> world \<Rightarrow> world" where
  "drain_background L json_value k [] w = w\<lparr>wo_script := []\<rparr>"
| "drain_background L json_value k (r # rs) w =
     (case background L json_value k r w of
        None \<Rightarrow> w\<lparr>wo_script := r # rs\<rparr>
      | Some w' \<Rightarrow> drain_background L json_value k rs w')"

definition run_background :: "host_lib \<Rightarrow> (jstext \<Rightarrow> json_tree) \<Rightarrow> uuid \<Rightarrow> unit proc" where
  "run_background L json_value k w = (Inr (), drain_background L json_value k (wo_script w) w)"

text \<open>An await: what happens beside, then the answer of the script, if it is one that fits.\<close>

definition next_reply :: "(reply \<Rightarrow> 'a option) \<Rightarrow> 'a proc" where
  "next_reply pick w = (case wo_script w of
     [] \<Rightarrow> (Inl PE_stopped, w)
   | r # rs \<Rightarrow> (case pick r of None \<Rightarrow> (Inl PE_stopped, w) | Some x \<Rightarrow> (Inr x, w\<lparr>wo_script := rs\<rparr>)))"

definition await :: "host_lib \<Rightarrow> (jstext \<Rightarrow> json_tree) \<Rightarrow> uuid \<Rightarrow> (reply \<Rightarrow> 'a option) \<Rightarrow> 'a proc" where
  "await L json_value k pick = proc_then (run_background L json_value k) (next_reply pick)"

definition from_answer :: "call_failure + 'a \<Rightarrow> 'a proc" where
  "from_answer x = (case x of Inl f \<Rightarrow> proc_raise (failure_error f) | Inr y \<Rightarrow> proc_return y)"

fun save_reply :: "reply \<Rightarrow> (save_outcome \<times> timestamp) option" where
  "save_reply (R_save outcome now) = Some (outcome, now)"
| "save_reply _ = None"

definition update_entry ::
  "host_lib \<Rightarrow> (jstext \<Rightarrow> json_tree) \<Rightarrow> uuid \<Rightarrow> (timestamp \<Rightarrow> journal_command) \<Rightarrow> unit proc" where
  "update_entry L json_value k command =
     proc_bind (await L json_value k save_reply) (\<lambda>(outcome, now). commit L json_value (command now) outcome)"

definition mutate :: "host_lib \<Rightarrow> (jstext \<Rightarrow> json_tree) \<Rightarrow> uuid \<Rightarrow> delivery_mutation \<Rightarrow> unit proc" where
  "mutate L json_value k m = update_entry L json_value k (Mutate_delivery k m)"

section \<open>Relay operations\<close>

text \<open>A request goes out, then its answer is awaited.\<close>

definition send ::
  "host_lib \<Rightarrow> (jstext \<Rightarrow> json_tree) \<Rightarrow> uuid \<Rightarrow> operation_intent \<Rightarrow> (reply \<Rightarrow> 'a option) \<Rightarrow> 'a proc" where
  "send L json_value k i pick = proc_then (record_call (Sent k i)) (await L json_value k pick)"

fun claim_reply :: "reply \<Rightarrow> (call_failure + claim_result) option" where
  "claim_reply (R_claim x) = Some x"
| "claim_reply _ = None"

fun operation_reply :: "reply \<Rightarrow> ((call_failure + operation_result) \<times> rat \<times> rat) option" where
  "operation_reply (R_operation x requested received) = Some (x, requested, received)"
| "operation_reply _ = None"

fun complete_reply :: "reply \<Rightarrow> (call_failure + complete_result) option" where
  "complete_reply (R_complete x) = Some x"
| "complete_reply _ = None"

text \<open>\<open>retireJournaled\<close> of \<^verbatim>\<open>node/src/delivery-runtime-authority.ts\<close> without a port.\<close>

definition retire_journaled :: "uuid \<Rightarrow> unit proc" where
  "retire_journaled k = proc_bind (require_entry k) (\<lambda>e.
     if has_journaled_runtime_authority e
     then proc_raise (PE_transition_pending (text_of ''Journaled runtime authority has no local retirement port''))
     else proc_return ())"

fun claim_intent_of :: "operation_intent option \<Rightarrow> claim_input option" where
  "claim_intent_of (Some (Claim_intent i)) = Some i"
| "claim_intent_of _ = None"

fun start_intent_of :: "operation_intent option \<Rightarrow> lease_operation_input option" where
  "start_intent_of (Some (Start_intent i)) = Some i"
| "start_intent_of _ = None"

fun renew_intent_of :: "operation_intent option \<Rightarrow> lease_operation_input option" where
  "renew_intent_of (Some (Renew_intent i)) = Some i"
| "renew_intent_of _ = None"

fun complete_intent_of :: "operation_intent option \<Rightarrow> complete_input option" where
  "complete_intent_of (Some (Complete_intent i)) = Some i"
| "complete_intent_of _ = None"

fun release_intent_of :: "operation_intent option \<Rightarrow> release_input option" where
  "release_intent_of (Some (Release_intent i)) = Some i"
| "release_intent_of _ = None"

text \<open>An intent that is journaled is used again; otherwise a new one is journaled first.\<close>

definition journaled_or_new :: "'a option \<Rightarrow> unit proc \<Rightarrow> 'a \<Rightarrow> 'a proc" where
  "journaled_or_new old save new = (case old of Some i \<Rightarrow> proc_return i | None \<Rightarrow> proc_then save (proc_return new))"

definition claim_delivery_step :: "host_lib \<Rightarrow> (jstext \<Rightarrow> json_tree) \<Rightarrow> uuid \<Rightarrow> unit proc" where
  "claim_delivery_step L json_value k =
     proc_then throw_if_aborted (proc_bind (require_entry k) (\<lambda>e.
       let attempt = je_claim_attempt e + 1; new = next_claim_input k attempt in
     proc_bind (journaled_or_new (claim_intent_of (je_operation e))
       (mutate L json_value k (Write_claim_intent attempt new)) new) (\<lambda>i.
     proc_then throw_if_aborted (proc_bind (send L json_value k (Claim_intent i) claim_reply) (\<lambda>answer.
     proc_bind (from_answer answer) (\<lambda>result.
     proc_then (proc_when (claim_result_outcome result = Claim_dead_lettered) (retire_journaled k))
       (mutate L json_value k (Write_claim_result result))))))))"

text \<open>A refusal that settles the question becomes the loss of the lease.\<close>

definition losing_authority :: "'a proc \<Rightarrow> 'a proc" where
  "losing_authority m = proc_catch m (\<lambda>err.
     proc_raise (if is_definitive_loss err then PE_authority_lost (safe_error err) else err))"

definition start_delivery_step :: "host_lib \<Rightarrow> (jstext \<Rightarrow> json_tree) \<Rightarrow> uuid \<Rightarrow> unit proc" where
  "start_delivery_step L json_value k =
     proc_then throw_if_aborted (proc_bind (require_entry k) (\<lambda>e.
     proc_bind (need_lease (je_delivery e)) (\<lambda>l.
       let new = next_start_input k l in
     proc_bind (journaled_or_new (start_intent_of (je_operation e))
       (mutate L json_value k (Write_start_intent new)) new) (\<lambda>i.
     proc_bind (losing_authority (proc_then throw_if_aborted
         (proc_bind (send L json_value k (Start_intent i) operation_reply) (\<lambda>(x, _). from_answer x)))) (\<lambda>result.
     mutate L json_value k (Write_start_result (ors_delivery result)))))))"

text \<open>\<open>confirmLease\<close> tries twice: a replayed renewal has no fresh window.\<close>

fun confirm_lease :: "host_lib \<Rightarrow> (jstext \<Rightarrow> json_tree) \<Rightarrow> uuid \<Rightarrow> nat \<Rightarrow> lease_window proc" where
  "confirm_lease L json_value k 0 =
     proc_raise (PE_other (text_of ''Relay returned two historical lease renewals without a fresh window''))"
| "confirm_lease L json_value k (Suc n) =
     proc_then throw_if_aborted (proc_bind (require_entry k) (\<lambda>e.
     proc_bind (need_lease (je_delivery e)) (\<lambda>l.
       let renewal = je_renew_count e + 1; new = next_renew_input k l renewal in
     proc_bind (journaled_or_new (renew_intent_of (je_operation e))
       (mutate L json_value k (Write_renew_intent renewal new)) new) (\<lambda>i.
     proc_bind (losing_authority (proc_then throw_if_aborted
         (proc_bind (send L json_value k (Renew_intent i) operation_reply) (\<lambda>(x, requested, received).
          proc_bind (from_answer x) (\<lambda>result.
          proc_then (mutate L json_value k (Write_renew_result (ors_delivery result)))
            (if ors_replayed result then proc_return None
             else proc_bind (window_of L result requested received) (\<lambda>window. proc_return (Some window)))))))) (\<lambda>fresh.
     case fresh of Some window \<Rightarrow> proc_return window | None \<Rightarrow> confirm_lease L json_value k n)))))"

definition publish_completion :: "host_lib \<Rightarrow> (jstext \<Rightarrow> json_tree) \<Rightarrow> uuid \<Rightarrow> complete_input \<Rightarrow> unit proc" where
  "publish_completion L json_value k i = proc_catch
     (proc_then throw_if_aborted (proc_bind (send L json_value k (Complete_intent i) complete_reply) (\<lambda>answer.
      proc_bind (from_answer answer) (\<lambda>result.
        mutate L json_value k (Write_completed (ors_delivery result))))))
     (\<lambda>err. proc_raise (if is_definitive_loss err then PE_completion_rejected (safe_error err) else err))"

definition complete_delivery_step ::
  "host_lib \<Rightarrow> (jstext \<Rightarrow> json_tree) \<Rightarrow> uuid \<Rightarrow> node_delivery_result \<Rightarrow> unit proc" where
  "complete_delivery_step L json_value k r =
     proc_then throw_if_aborted (proc_bind (require_entry k) (\<lambda>e.
     proc_bind (need_lease (je_delivery e)) (\<lambda>l.
       let i = next_complete_input k l r in
     proc_then (mutate L json_value k (Write_complete_intent r i)) (publish_completion L json_value k i))))"

definition publish_release :: "host_lib \<Rightarrow> (jstext \<Rightarrow> json_tree) \<Rightarrow> uuid \<Rightarrow> release_input \<Rightarrow> unit proc" where
  "publish_release L json_value k i =
     proc_bind (losing_authority (proc_then throw_if_aborted (proc_then (retire_journaled k)
       (proc_then throw_if_aborted
         (proc_bind (send L json_value k (Release_intent i) operation_reply) (\<lambda>(x, _). from_answer x)))))) (\<lambda>result.
     mutate L json_value k (Write_released (ors_delivery result)))"

definition release_delivery_step ::
  "host_lib \<Rightarrow> (jstext \<Rightarrow> json_tree) \<Rightarrow> uuid \<Rightarrow> release_classification \<Rightarrow> jstext \<Rightarrow> unit proc" where
  "release_delivery_step L json_value k c summary =
     proc_then throw_if_aborted (proc_bind (require_entry k) (\<lambda>e.
     proc_bind (need_lease (je_delivery e)) (\<lambda>l.
       let i = next_release_input k l c summary in
     proc_then (mutate L json_value k (Write_release_intent i summary)) (publish_release L json_value k i))))"

section \<open>Losing authority\<close>

text \<open>\<open>cancelHostExecutionBounded\<close> waits for the adapter for a bounded time and drops its errors.\<close>

definition cancel_host_execution :: "uuid \<Rightarrow> int \<Rightarrow> unit proc" where
  "cancel_host_execution k attempt = record_call (Host_cancelled k attempt)"

definition mark_lease_lost :: "host_lib \<Rightarrow> (jstext \<Rightarrow> json_tree) \<Rightarrow> uuid \<Rightarrow> process_error \<Rightarrow> unit proc" where
  "mark_lease_lost L json_value k err = mutate L json_value k (Write_lease_lost (error_message err))"

definition mark_authority_lost :: "host_lib \<Rightarrow> (jstext \<Rightarrow> json_tree) \<Rightarrow> uuid \<Rightarrow> process_error \<Rightarrow> unit proc" where
  "mark_authority_lost L json_value k err = mutate L json_value k (Write_authority_lost (error_message err))"

definition cancel_and_mark_authority_lost ::
  "host_lib \<Rightarrow> (jstext \<Rightarrow> json_tree) \<Rightarrow> uuid \<Rightarrow> process_error \<Rightarrow> unit proc" where
  "cancel_and_mark_authority_lost L json_value k err = proc_bind (require_entry k) (\<lambda>e.
     if je_phase e = Ph_authority_lost then proc_return ()
     else proc_then (cancel_host_execution k (je_execution_attempt e)) (mark_authority_lost L json_value k err))"

definition retain_completion_intent ::
  "host_lib \<Rightarrow> (jstext \<Rightarrow> json_tree) \<Rightarrow> uuid \<Rightarrow> process_error \<Rightarrow> unit proc" where
  "retain_completion_intent L json_value k err =
     mutate L json_value k (Write_retained_completion (error_message err))"

definition defer_retry ::
  "host_lib \<Rightarrow> (jstext \<Rightarrow> json_tree) \<Rightarrow> uuid \<Rightarrow> timestamp \<Rightarrow> process_error \<Rightarrow> unit proc" where
  "defer_retry L json_value k available_at err =
     mutate L json_value k (Write_deferred available_at (error_message err))"

definition record_authority_transition_pending ::
  "host_lib \<Rightarrow> (jstext \<Rightarrow> json_tree) \<Rightarrow> uuid \<Rightarrow> process_error \<Rightarrow> unit proc" where
  "record_authority_transition_pending L json_value k err =
     mutate L json_value k (Write_error (error_message err))"

definition reclaim_lease :: "host_lib \<Rightarrow> (jstext \<Rightarrow> json_tree) \<Rightarrow> uuid \<Rightarrow> bool proc" where
  "reclaim_lease L json_value k =
     proc_then throw_if_aborted (proc_then (mutate L json_value k Write_reclaim)
     (proc_bind (proc_catch (proc_then (claim_delivery_step L json_value k) (proc_return True)) (\<lambda>err.
        if \<not> is_definitive_loss err then proc_raise err
        else proc_then (cancel_and_mark_authority_lost L json_value k err) (proc_return False))) (\<lambda>claimed.
      if \<not> claimed then proc_return False
      else proc_bind (require_entry k) (\<lambda>e. proc_return (\<not> is_terminal_entry e)))))"

text \<open>After a lost lease: mark it, claim again, or give up.\<close>

definition recover_lease :: "host_lib \<Rightarrow> (jstext \<Rightarrow> json_tree) \<Rightarrow> uuid \<Rightarrow> process_error \<Rightarrow> unit proc" where
  "recover_lease L json_value k err =
     (if \<not> is_authority_lost err then proc_raise err
      else proc_then (mark_lease_lost L json_value k err)
        (proc_bind (reclaim_lease L json_value k) (\<lambda>reclaimed.
          if reclaimed then proc_return ()
          else proc_raise (PE_authority_lost (text_of (''Delivery cannot be reclaimed: '' @ k))))))"

definition confirm_lease_with_reclaim :: "host_lib \<Rightarrow> (jstext \<Rightarrow> json_tree) \<Rightarrow> uuid \<Rightarrow> lease_window proc" where
  "confirm_lease_with_reclaim L json_value k = proc_catch (confirm_lease L json_value k 2) (\<lambda>err.
     proc_then (recover_lease L json_value k err) (confirm_lease L json_value k 2))"

fun clock_reply :: "reply \<Rightarrow> rat option" where
  "clock_reply (R_clock t) = Some t"
| "clock_reply _ = None"

fun prepare_executable_lease :: "host_lib \<Rightarrow> (jstext \<Rightarrow> json_tree) \<Rightarrow> uuid \<Rightarrow> nat \<Rightarrow> lease_window proc" where
  "prepare_executable_lease L json_value k 0 =
     proc_raise (PE_authority_lost (text_of (''Could not establish an executing lease: '' @ k)))"
| "prepare_executable_lease L json_value k (Suc n) =
     proc_then throw_if_aborted (proc_bind (confirm_lease_with_reclaim L json_value k) (\<lambda>window.
     proc_bind (require_entry k) (\<lambda>e.
       if d_status (je_delivery e) = D_executing then
         proc_bind (next_reply clock_reply) (\<lambda>t.
           if lw_expires_at window - t \<le> of_int min_safe_lease_window_ms
           then prepare_executable_lease L json_value k n else proc_return window)
       else if d_status (je_delivery e) \<noteq> D_leased then
         proc_raise (PE_authority_lost (text_of (''Delivery is not executable: '' @ k @ '' (''
           @ delivery_status_name (d_status (je_delivery e)) @ '')'')))
       else proc_then (proc_catch (start_delivery_step L json_value k) (recover_lease L json_value k))
              (prepare_executable_lease L json_value k n))))"

definition release_or_lose_lease ::
  "host_lib \<Rightarrow> (jstext \<Rightarrow> json_tree) \<Rightarrow> uuid \<Rightarrow> release_classification \<Rightarrow> jstext \<Rightarrow> unit proc" where
  "release_or_lose_lease L json_value k c summary =
     proc_catch (release_delivery_step L json_value k c summary) (\<lambda>err.
       if is_authority_lost err then mark_lease_lost L json_value k err else proc_raise err)"

section \<open>Authorisation\<close>

record node_config =
  nc_agent_id :: uuid
  nc_workspaces :: "(string \<times> string) list"
  nc_policy_profiles :: "(string \<times> policy_profile) list"

text \<open>Of a configured workspace only the name of its policy profile matters here; the check of its files is
  the injected \<open>preflight\<close>, whose error the script gives.\<close>

record authorized_delivery =
  au_assignment :: mission_assignment
  au_participant :: participant
  au_policy :: resolved_profile

fun assignment_reply :: "reply \<Rightarrow> (call_failure + mission_assignment) option" where
  "assignment_reply (R_assignment x) = Some x"
| "assignment_reply _ = None"

fun preflight_reply :: "reply \<Rightarrow> jstext option option" where
  "preflight_reply (R_preflight x) = Some x"
| "preflight_reply _ = None"

fun mission_status_text :: "mission_status \<Rightarrow> string" where
  "mission_status_text M_awaiting_acceptance = ''awaiting_acceptance''"
| "mission_status_text M_active = ''active''"
| "mission_status_text M_verifying = ''verifying''"
| "mission_status_text M_blocked = ''blocked''"
| "mission_status_text M_completed = ''completed''"
| "mission_status_text M_cancelled = ''cancelled''"
| "mission_status_text M_expired = ''expired''"
| "mission_status_text M_failed = ''failed''"

definition assignment_participants :: "mission_assignment \<Rightarrow> participant list" where
  "assignment_participants a =
     mf_participants (mc_manifest (cfg_mission_context (as_coordinator_config a)))"

definition mission_participant :: "mission_assignment \<Rightarrow> uuid \<Rightarrow> participant option" where
  "mission_participant a agent = find (\<lambda>p. p_agent_id p = agent) (assignment_participants a)"

text \<open>The checks of \<open>authorize\<close> on an assignment, before the workspace is looked at.\<close>

definition check_assignment ::
  "host_lib \<Rightarrow> node_config \<Rightarrow> mission_assignment \<Rightarrow> process_error + authorized_delivery" where
  "check_assignment L cfg a =
     (if as_participant_agent_id a \<noteq> nc_agent_id cfg
      then Inl (PE_other (text_of ''Delivery Mission belongs to a different local agent''))
      else if cs_status (as_coordinator_state a) \<noteq> M_active \<and> cs_status (as_coordinator_state a) \<noteq> M_verifying
      then Inl (PE_authority_lost (text_of (''Mission is not executable: ''
             @ mission_status_text (cs_status (as_coordinator_state a)))))
      else case mission_participant a (nc_agent_id cfg) of
        None \<Rightarrow> Inl (PE_other (text_of (''Agent is not a Mission participant: '' @ nc_agent_id cfg)))
      | Some p \<Rightarrow>
          (case map_of (nc_workspaces cfg) (p_workspace_alias p) of
             None \<Rightarrow> Inl (PE_preflight (text_of (''Unconfigured workspace: '' @ p_workspace_alias p)))
           | Some profile \<Rightarrow>
               if profile \<noteq> p_requested_local_policy_profile p
               then Inl (PE_policy (text_of (''Workspace does not grant policy: '' @ p_requested_local_policy_profile p)))
               else case resolve_policy_profile L (nc_policy_profiles cfg) (p_requested_local_policy_profile p) of
                 Inl err \<Rightarrow> Inl (PE_policy (text_of (''Local policy profile is not configured: ''
                      @ p_requested_local_policy_profile p)))
               | Inr policy \<Rightarrow>
                   if as_acceptance_status a \<noteq> Accepted
                     \<or> map_option ar_local_policy_grant (as_acceptance_receipt a) \<noteq> Some (rs_grant policy)
                   then Inl (PE_policy (text_of ''Current local policy no longer matches the accepted Mission grant''))
                   else Inr \<lparr>au_assignment = a, au_participant = p, au_policy = policy\<rparr>))"

definition from_result :: "process_error + 'a \<Rightarrow> 'a proc" where
  "from_result x = (case x of Inl err \<Rightarrow> proc_raise err | Inr y \<Rightarrow> proc_return y)"

definition authorize :: "host_lib \<Rightarrow> (jstext \<Rightarrow> json_tree) \<Rightarrow> node_config \<Rightarrow> uuid \<Rightarrow> authorized_delivery proc" where
  "authorize L json_value cfg k =
     proc_then throw_if_aborted (proc_bind (await L json_value k assignment_reply) (\<lambda>answer.
     proc_bind (from_answer answer) (\<lambda>a.
     proc_then throw_if_aborted (proc_bind (from_result (check_assignment L cfg a)) (\<lambda>authorized.
     proc_bind (await L json_value k preflight_reply) (\<lambda>failed.
     case failed of Some m \<Rightarrow> proc_raise (PE_preflight m) | None \<Rightarrow> proc_return authorized))))))"

section \<open>The host's turn\<close>

text \<open>\<open>waitForHostOperation\<close>: the answer, unless the signal or the lease keeper came first.\<close>

fun lost_by_keeper :: "keeper \<Rightarrow> process_error option" where
  "lost_by_keeper (Keeper_failed err) =
     Some (if is_authority_lost err \<or> is_definitive_loss err then PE_authority_lost (error_message err) else err)"
| "lost_by_keeper _ = None"

definition assert_healthy :: "unit proc" where
  "assert_healthy = proc_bind (proc_gets (\<lambda>w. lost_by_keeper (wo_keeper w))) (\<lambda>lost.
     case lost of Some err \<Rightarrow> proc_raise err | None \<Rightarrow> proc_return ())"

definition assert_host_operation_allowed :: "uuid \<Rightarrow> int \<Rightarrow> unit proc" where
  "assert_host_operation_allowed k attempt = proc_bind (proc_gets wo_aborted) (\<lambda>b.
     if b then proc_then (cancel_host_execution k attempt) (proc_raise PE_shutdown) else proc_return ())"

definition wait_for_host_operation ::
  "host_lib \<Rightarrow> (jstext \<Rightarrow> json_tree) \<Rightarrow> uuid \<Rightarrow> int \<Rightarrow> (reply \<Rightarrow> (call_failure + 'a) option) \<Rightarrow> 'a proc" where
  "wait_for_host_operation L json_value k attempt pick =
     proc_then (assert_host_operation_allowed k attempt)
    (proc_then (run_background L json_value k)
    (proc_then (assert_host_operation_allowed k attempt)
    (proc_then assert_healthy
    (proc_bind (next_reply pick) from_answer))))"

fun probe_reply :: "reply \<Rightarrow> (call_failure + adapter_info) option" where
  "probe_reply (R_probe x) = Some x"
| "probe_reply _ = None"

fun session_reply :: "reply \<Rightarrow> (call_failure + host_session) option" where
  "session_reply (R_session x) = Some x"
| "session_reply _ = None"

fun lookup_reply :: "reply \<Rightarrow> (call_failure + host_turn_ref option) option" where
  "lookup_reply (R_lookup x) = Some x"
| "lookup_reply _ = None"

fun event_reply :: "reply \<Rightarrow> (call_failure + host_event option) option" where
  "event_reply (R_event x) = Some x"
| "event_reply _ = None"

text \<open>The loop over the stream.  Each round takes an answer of the script, so as many rounds as the script
  has answers are enough.\<close>

fun read_events ::
  "host_lib \<Rightarrow> (jstext \<Rightarrow> json_tree) \<Rightarrow> uuid \<Rightarrow> int \<Rightarrow> stream_policy \<Rightarrow> stream_state \<Rightarrow> host_event list \<Rightarrow> nat
     \<Rightarrow> unit proc" where
  "read_events L json_value k attempt policy st es 0 = proc_raise PE_stopped"
| "read_events L json_value k attempt policy st es (Suc n) =
     proc_then assert_healthy (proc_bind (wait_for_host_operation L json_value k attempt event_reply) (\<lambda>v.
     case v of
       None \<Rightarrow> if ss_phase st = Terminal_phase then proc_return () else proc_raise (PE_stream Stream_ended)
     | Some v \<Rightarrow> proc_then assert_healthy
         (case judge_event L policy st es v of
            Already_journaled \<Rightarrow> read_events L json_value k attempt policy st es n
          | Differs i \<Rightarrow> proc_raise (PE_stream (Replay_differs i))
          | Refused err \<Rightarrow> proc_raise (PE_stream (Stream_refused err))
          | Fresh st' \<Rightarrow>
              proc_then (mutate L json_value k (Write_host_event v (ss_phase st' = Terminal_phase)))
                (read_events L json_value k attempt policy st' (es @ [v]) n))))"

definition consume_turn ::
  "host_lib \<Rightarrow> (jstext \<Rightarrow> json_tree) \<Rightarrow> uuid \<Rightarrow> int \<Rightarrow> stream_policy \<Rightarrow> start_turn_input \<Rightarrow> host_event list proc" where
  "consume_turn L json_value k attempt policy i =
     proc_bind (require_entry k) (\<lambda>e. let es = je_host_events e in
       case run_steps (accept_host_event L policy) (create_stream_state (expected_turn es i)) es of
         Inl err \<Rightarrow> proc_raise (PE_stream (Stream_refused err))
       | Inr st \<Rightarrow> proc_bind (proc_gets (\<lambda>w. length (wo_script w))) (\<lambda>n.
           proc_then (read_events L json_value k attempt policy st es (Suc n))
             (proc_bind (require_entry k) (\<lambda>e. proc_return (je_host_events e)))))"

definition turn_policy :: "authorized_delivery \<Rightarrow> adapter_info \<Rightarrow> stream_policy" where
  "turn_policy au adapter = default_stream_policy
     \<lparr>po_max_tokens := min (pp_max_reported_tokens (rs_profile (au_policy au)))
        (mf_token_budget (mc_manifest (cfg_mission_context (as_coordinator_config (au_assignment au))))),
      po_usage := ai_usage adapter\<rparr>"

text \<open>The exact start input of the execution: the journaled one, or a new one that is journaled first.\<close>

definition checkpointed_input ::
  "host_lib \<Rightarrow> (jstext \<Rightarrow> json_tree) \<Rightarrow> uuid \<Rightarrow> int \<Rightarrow> mission_assignment \<Rightarrow> host_session \<Rightarrow> start_turn_input proc" where
  "checkpointed_input L json_value k attempt a session = proc_bind (require_entry k) (\<lambda>e.
     case je_start_turn_input e of
       Some i \<Rightarrow> proc_return i
     | None \<Rightarrow>
         (case start_turn_input_of L (je_item e) a session attempt of
            Inl err \<Rightarrow> proc_raise (PE_other [])
          | Inr i \<Rightarrow> proc_then (update_entry L json_value k (Checkpoint_start k i)) (proc_return i)))"

definition start_keeper :: "lease_window \<Rightarrow> unit proc" where
  "start_keeper window w = (Inr (), w\<lparr>wo_keeper := Keeper_idle window\<rparr>)"

text \<open>\<open>stop\<close> waits for the request that is out; what failed stays known.\<close>

definition stop_keeper :: "host_lib \<Rightarrow> (jstext \<Rightarrow> json_tree) \<Rightarrow> uuid \<Rightarrow> unit proc" where
  "stop_keeper L json_value k = proc_then (run_background L json_value k) (\<lambda>w.
     case wo_keeper w of
       Keeper_waiting window \<Rightarrow> (Inl PE_stopped, w)
     | Keeper_failed err \<Rightarrow> (Inr (), w)
     | _ \<Rightarrow> (Inr (), w\<lparr>wo_keeper := Keeper_off\<rparr>))"

text \<open>The host is asked to start or to recover the turn with that input.\<close>

definition begin_turn :: "uuid \<Rightarrow> host_turn_ref option \<Rightarrow> start_turn_input \<Rightarrow> unit proc" where
  "begin_turn k turn i = record_call (case turn of None \<Rightarrow> Host_started k i | Some t \<Rightarrow> Host_recovered t i)"

definition run_host_turn ::
  "host_lib \<Rightarrow> (jstext \<Rightarrow> json_tree) \<Rightarrow> uuid \<Rightarrow> int \<Rightarrow> authorized_delivery \<Rightarrow> unit proc" where
  "run_host_turn L json_value k attempt au =
     (let a = au_assignment au in
      proc_then (assert_host_operation_allowed k attempt)
     (proc_bind (wait_for_host_operation L json_value k attempt probe_reply) (\<lambda>adapter.
      proc_then assert_healthy
     (proc_then (assert_host_operation_allowed k attempt)
     (proc_bind (require_entry k) (\<lambda>_.
      proc_bind (proc_gets (\<lambda>w. map_of (jn_sessions (wo_memory w)) (as_mission_id a))) (\<lambda>existing.
      proc_bind (wait_for_host_operation L json_value k attempt session_reply) (\<lambda>session.
      proc_then (proc_when (existing \<noteq> None \<and> existing \<noteq> Some session)
        (proc_raise (PE_other (text_of ''Host session identity changed during durable Mission recovery''))))
     (proc_then assert_healthy
     (proc_then (update_entry L json_value k (\<lambda>now. Set_session session))
     (proc_then assert_healthy
     (proc_then (mutate L json_value k (Write_session session))
     (proc_then assert_healthy
     (proc_bind (checkpointed_input L json_value k attempt a session) (\<lambda>i.
      proc_bind (wait_for_host_operation L json_value k attempt lookup_reply) (\<lambda>turn.
      proc_then assert_healthy
     (proc_then (assert_host_operation_allowed k attempt)
     (proc_then assert_healthy
     (proc_then (begin_turn k turn i)
     (proc_bind (consume_turn L json_value k attempt (turn_policy au adapter) i) (\<lambda>events.
      proc_then (stop_keeper L json_value k)
     (proc_then assert_healthy
     (proc_bind (from_result (map_sum PE_journal id (terminal_result_from_events L events))) (\<lambda>result.
      proc_then (mutate L json_value k (Write_host_result result))
     (proc_then (complete_delivery_step L json_value k result) (retire_journaled k))))))))))))))))))))))))))"

section \<open>The end of a turn that failed\<close>

fun failure_release :: "failure_class \<Rightarrow> release_classification" where
  "failure_release F_transient = R_transient"
| "failure_release F_permanent = R_permanent"
| "failure_release F_policy_denied = R_policy_denied"

text \<open>What the last host event asks for, when the run ended in an error.\<close>

fun release_after :: "host_event_payload \<Rightarrow> (release_classification \<times> jstext) option" where
  "release_after (H_failed f) = Some (failure_release (hf_class f), hf_message f)"
| "release_after (H_completed (Blocked reason requested)) = Some (R_policy_denied, reason)"
| "release_after (H_completed (Failed_turn c)) =
     Some (failure_release c, text_of (''Host returned '' @ failure_class_text c @ '' failure''))"
| "release_after H_cancelled =
     Some (R_transient, text_of ''Host turn was cancelled before producing a publishable result'')"
| "release_after _ = None"

definition after_turn_failure ::
  "host_lib \<Rightarrow> (jstext \<Rightarrow> json_tree) \<Rightarrow> uuid \<Rightarrow> process_error \<Rightarrow> unit proc" where
  "after_turn_failure L json_value k err =
     proc_then (stop_keeper L json_value k)
       (if err = PE_shutdown then mutate L json_value k (Write_error (error_message err))
        else if is_authority_lost err then mark_lease_lost L json_value k err
        else proc_bind (require_entry k) (\<lambda>e.
          case Option.bind (last_option (je_host_events e)) (\<lambda>v. release_after (he_payload v)) of
            Some (c, summary) \<Rightarrow> release_or_lose_lease L json_value k c summary
          | None \<Rightarrow> proc_raise err))"

section \<open>Processing a delivery\<close>

text \<open>What \<open>process\<close> does with an error of \<open>claim\<close>: wait, or give up.\<close>

definition claim_or_give_up :: "host_lib \<Rightarrow> (jstext \<Rightarrow> json_tree) \<Rightarrow> uuid \<Rightarrow> bool proc" where
  "claim_or_give_up L json_value k =
     proc_catch (proc_then (claim_delivery_step L json_value k) (proc_return True)) (\<lambda>err.
       case retry_time L err of
         Some t \<Rightarrow> proc_then (defer_retry L json_value k t err) (proc_return False)
       | None \<Rightarrow> if \<not> is_definitive_loss err then proc_raise err
           else proc_then (cancel_and_mark_authority_lost L json_value k err) (proc_return False))"

text \<open>A step whose loss of authority is only noted; the answer says whether to go on.\<close>

definition unless_lease_lost :: "host_lib \<Rightarrow> (jstext \<Rightarrow> json_tree) \<Rightarrow> uuid \<Rightarrow> unit proc \<Rightarrow> bool proc" where
  "unless_lease_lost L json_value k m = proc_catch (proc_then m (proc_return True)) (\<lambda>err.
     if is_authority_lost err then proc_then (mark_lease_lost L json_value k err) (proc_return False)
     else proc_raise err)"

text \<open>Stop with \<open>()\<close> unless the answer is yes.\<close>

definition proceed_if :: "bool proc \<Rightarrow> unit proc \<Rightarrow> unit proc" where
  "proceed_if m n = proc_bind m (\<lambda>b. if b then n else proc_return ())"

definition entry_holds :: "uuid \<Rightarrow> (journal_delivery \<Rightarrow> bool) \<Rightarrow> bool proc" where
  "entry_holds k P = proc_bind (require_entry k) (\<lambda>e. proc_return (P e))"

text \<open>The pending operations, in the order of the code.\<close>

definition resume_claim :: "host_lib \<Rightarrow> (jstext \<Rightarrow> json_tree) \<Rightarrow> uuid \<Rightarrow> bool proc" where
  "resume_claim L json_value k = proc_bind (require_entry k) (\<lambda>e.
     if claim_intent_of (je_operation e) = None then proc_return True
     else proc_bind (claim_or_give_up L json_value k) (\<lambda>claimed.
       if claimed then entry_holds k (\<lambda>e. \<not> is_terminal_entry e) else proc_return False))"

definition resume_start :: "host_lib \<Rightarrow> (jstext \<Rightarrow> json_tree) \<Rightarrow> uuid \<Rightarrow> bool proc" where
  "resume_start L json_value k = proc_bind (require_entry k) (\<lambda>e.
     if start_intent_of (je_operation e) = None then proc_return True
     else unless_lease_lost L json_value k (start_delivery_step L json_value k))"

definition resume_renew :: "host_lib \<Rightarrow> (jstext \<Rightarrow> json_tree) \<Rightarrow> uuid \<Rightarrow> bool proc" where
  "resume_renew L json_value k = proc_bind (require_entry k) (\<lambda>e.
     if renew_intent_of (je_operation e) = None then proc_return True
     else unless_lease_lost L json_value k
       (proc_bind (confirm_lease L json_value k 2) (\<lambda>window. proc_return ())))"

text \<open>A pending completion: a loss of authority that is no rejection keeps the intent, a rejection loses the
  lease; without a port the first comes only from outside the publication.\<close>

fun is_completion_rejected :: "process_error \<Rightarrow> bool" where
  "is_completion_rejected (PE_completion_rejected m) = True"
| "is_completion_rejected err = False"

definition resume_completion :: "host_lib \<Rightarrow> (jstext \<Rightarrow> json_tree) \<Rightarrow> uuid \<Rightarrow> bool proc" where
  "resume_completion L json_value k = proc_bind (require_entry k) (\<lambda>e.
     case complete_intent_of (je_operation e) of
       None \<Rightarrow> proc_return True
     | Some i \<Rightarrow>
         proc_bind (proc_catch
           (proc_then (publish_completion L json_value k i) (proc_then (retire_journaled k) (proc_return True)))
           (\<lambda>err.
             if is_authority_lost err \<and> \<not> is_completion_rejected err
             then proc_then (retain_completion_intent L json_value k err) (proc_return False)
             else if \<not> is_authority_lost err then proc_raise err
             else proc_then (mark_lease_lost L json_value k err) (proc_return True))) (\<lambda>settled.
         if settled then entry_holds k (\<lambda>e. je_phase e = Ph_lease_lost) else proc_return False))"

definition resume_release :: "host_lib \<Rightarrow> (jstext \<Rightarrow> json_tree) \<Rightarrow> uuid \<Rightarrow> bool proc" where
  "resume_release L json_value k = proc_bind (require_entry k) (\<lambda>e.
     case release_intent_of (je_operation e) of
       None \<Rightarrow> proc_return True
     | Some i \<Rightarrow> proc_bind (unless_lease_lost L json_value k (publish_release L json_value k i))
         (\<lambda>_. proc_return False))"

definition resume_lost_lease :: "host_lib \<Rightarrow> (jstext \<Rightarrow> json_tree) \<Rightarrow> uuid \<Rightarrow> bool proc" where
  "resume_lost_lease L json_value k = proc_bind (require_entry k) (\<lambda>e.
     if je_phase e = Ph_lease_lost then reclaim_lease L json_value k else proc_return True)"

definition claim_stored :: "host_lib \<Rightarrow> (jstext \<Rightarrow> json_tree) \<Rightarrow> uuid \<Rightarrow> int \<Rightarrow> bool proc" where
  "claim_stored L json_value k relay_as_of = proc_bind (require_entry k) (\<lambda>e.
     if d_status (je_delivery e) \<noteq> D_stored then proc_return True
     else if \<not> is_available L e relay_as_of then proc_return False
     else claim_or_give_up L json_value k)"

text \<open>A result that is journaled is published under a confirmed lease.\<close>

definition publish_journaled_result ::
  "host_lib \<Rightarrow> (jstext \<Rightarrow> json_tree) \<Rightarrow> uuid \<Rightarrow> node_delivery_result \<Rightarrow> unit proc" where
  "publish_journaled_result L json_value k r =
     proc_bind (proc_catch
       (proc_bind (prepare_executable_lease L json_value k 4) (\<lambda>window.
        proc_then throw_if_aborted (proc_bind (await L json_value k probe_reply) (\<lambda>answer.
        proc_bind (from_answer answer) (\<lambda>adapter. proc_then throw_if_aborted (proc_return True))))))
       (\<lambda>err. if is_authority_lost err
          then proc_then (cancel_and_mark_authority_lost L json_value k err) (proc_return False)
          else proc_raise err)) (\<lambda>ready.
     if \<not> ready then proc_return ()
     else proc_bind (unless_lease_lost L json_value k
            (proc_then (complete_delivery_step L json_value k r) (retire_journaled k))) (\<lambda>_. proc_return ()))"

definition execute_turn ::
  "host_lib \<Rightarrow> (jstext \<Rightarrow> json_tree) \<Rightarrow> uuid \<Rightarrow> int \<Rightarrow> authorized_delivery \<Rightarrow> unit proc" where
  "execute_turn L json_value k attempt au =
     proc_bind (proc_gets wo_aborted) (\<lambda>aborted.
       if aborted then cancel_host_execution k attempt
       else proc_bind (proc_catch (proc_bind (prepare_executable_lease L json_value k 4) (\<lambda>window. proc_return (Some window)))
         (\<lambda>err. if is_authority_lost err
            then proc_then (cancel_and_mark_authority_lost L json_value k err) (proc_return None)
            else proc_raise err)) (\<lambda>window.
       case window of
         None \<Rightarrow> proc_return ()
       | Some window \<Rightarrow> proc_then (start_keeper window)
           (proc_catch (run_host_turn L json_value k attempt au) (after_turn_failure L json_value k))))"

text \<open>The part of \<open>process\<close> after the pending operations.\<close>

definition authorize_or_release ::
  "host_lib \<Rightarrow> (jstext \<Rightarrow> json_tree) \<Rightarrow> node_config \<Rightarrow> uuid \<Rightarrow> int \<Rightarrow> authorized_delivery option proc" where
  "authorize_or_release L json_value cfg k attempt =
     proc_catch (proc_bind (authorize L json_value cfg k) (\<lambda>au. proc_return (Some au))) (\<lambda>err.
       if is_authority_lost err \<or> is_definitive_loss err
       then proc_then (cancel_and_mark_authority_lost L json_value k err) (proc_return None)
       else case err of
         PE_policy m \<Rightarrow> proc_then (cancel_host_execution k attempt)
           (proc_then (release_or_lose_lease L json_value k R_policy_denied (safe_error err)) (proc_return None))
       | PE_preflight m \<Rightarrow> proc_then (cancel_host_execution k attempt)
           (proc_then (release_or_lose_lease L json_value k R_policy_denied (safe_error err)) (proc_return None))
       | _ \<Rightarrow> proc_raise err)"

definition work_on ::
  "host_lib \<Rightarrow> (jstext \<Rightarrow> json_tree) \<Rightarrow> node_config \<Rightarrow> uuid \<Rightarrow> unit proc" where
  "work_on L json_value cfg k = proc_bind (require_entry k) (\<lambda>e.
     let attempt = je_execution_attempt e; d = je_delivery e in
     proc_bind (authorize_or_release L json_value cfg k attempt) (\<lambda>authorized.
     case authorized of
       None \<Rightarrow> proc_return ()
     | Some au \<Rightarrow>
         if d_kind d \<noteq> K_turn
         then release_or_lose_lease L json_value k R_policy_denied
           (text_of (wire_kind (d_kind d) @ '' execution awaits the artifact and verification handlers''))
         else (case je_result e of
                 Some r \<Rightarrow> publish_journaled_result L json_value k r
               | None \<Rightarrow> execute_turn L json_value k attempt au)))"

definition process_delivery ::
  "host_lib \<Rightarrow> (jstext \<Rightarrow> json_tree) \<Rightarrow> node_config \<Rightarrow> int \<Rightarrow> uuid \<Rightarrow> unit proc" where
  "process_delivery L json_value cfg relay_as_of k =
     proc_bind (proc_gets wo_aborted) (\<lambda>aborted. if aborted then proc_return () else
     proc_bind (require_entry k) (\<lambda>e. if is_terminal_entry e then retire_journaled k else
       proceed_if (resume_claim L json_value k)
      (proceed_if (resume_start L json_value k)
      (proceed_if (resume_renew L json_value k)
      (proceed_if (resume_completion L json_value k)
      (proceed_if (resume_release L json_value k)
      (proceed_if (resume_lost_lease L json_value k)
      (proceed_if (claim_stored L json_value k relay_as_of)
      (proceed_if (entry_holds k (\<lambda>e. \<not> is_terminal_entry e))
         (work_on L json_value cfg k))))))))))"

definition process_outcome_of :: "unit proc \<Rightarrow> world \<Rightarrow> process_error process_outcome \<times> world" where
  "process_outcome_of m w = (case m w of
     (Inr _, w') \<Rightarrow> (Processed, w')
   | (Inl err, w') \<Rightarrow>
       (case err of PE_transition_pending m \<Rightarrow> (Transition_pending err, w') | _ \<Rightarrow> (Process_failed err, w')))"

definition process_next ::
  "host_lib \<Rightarrow> (jstext \<Rightarrow> json_tree) \<Rightarrow> node_config \<Rightarrow> int \<Rightarrow> uuid option proc" where
  "process_next L json_value cfg relay_as_of w =
     (if wo_aborted w then (Inr None, w)
      else process_in_order (\<lambda>k. process_outcome_of (process_delivery L json_value cfg relay_as_of k))
        (record_authority_transition_pending L json_value) [] (work_candidates L relay_as_of (wo_memory w)) w)"

section \<open>The Node\<close>

text \<open>\<open>runCycle\<close> of \<^verbatim>\<open>node/src/daemon.ts\<close> up to the acceptance of Missions: what can be recovered and
  what is new goes into the journal, then one delivery is processed at the time of the relay.  No lease
  keeper runs outside a turn, so the delivery of the background is any.\<close>

fun recover_reply :: "reply \<Rightarrow> (call_failure + recoverable_page) option" where
  "recover_reply (R_recover x) = Some x"
| "recover_reply _ = None"

fun page_reply :: "reply \<Rightarrow> (call_failure + stored_mission_page) option" where
  "page_reply (R_page x) = Some x"
| "page_reply _ = None"

definition discover_and_process ::
  "host_lib \<Rightarrow> (jstext \<Rightarrow> json_tree) \<Rightarrow> node_config \<Rightarrow> uuid option proc" where
  "discover_and_process L json_value cfg =
     proc_then throw_if_aborted (proc_bind (await L json_value [] recover_reply) (\<lambda>answer.
     proc_bind (from_answer answer) (\<lambda>recoverable.
     proc_then (update_entry L json_value [] (Ingest_recovered (rp_items recoverable)))
    (proc_then throw_if_aborted (proc_bind (await L json_value [] page_reply) (\<lambda>answer.
     proc_bind (from_answer answer) (\<lambda>page.
     proc_then (update_entry L json_value [] (Ingest_page (smp_items page) (smp_next_cursor page)))
    (proc_then throw_if_aborted
       (case date_parse L (rp_as_of recoverable) of
          None \<Rightarrow> proc_bind (proc_gets wo_aborted) (\<lambda>aborted. if aborted then proc_return None
                  else proc_raise (PE_other (text_of ''Relay as-of time is invalid'')))
        | Some t \<Rightarrow> process_next L json_value cfg t)))))))))"

text \<open>A Node runs cycles, whatever their errors, and may be started again on the file it left.\<close>

datatype node_event = Cycle "reply list" | Reboot save_outcome

definition opened_world :: "node_journal \<Rightarrow> node_journal option \<Rightarrow> call list \<Rightarrow> world" where
  "opened_world s disk cs = \<lparr>wo_memory = s, wo_disk = disk, wo_trace = Saved s # cs, wo_script = [],
     wo_aborted = False, wo_keeper = Keeper_off\<rparr>"

fun node_step ::
  "host_lib \<Rightarrow> (jstext \<Rightarrow> json_tree) \<Rightarrow> node_config \<Rightarrow> world \<Rightarrow> node_event \<Rightarrow> world" where
  "node_step L json_value cfg w (Cycle rs) =
     snd (discover_and_process L json_value cfg (w\<lparr>wo_script := rs\<rparr>))"
| "node_step L json_value cfg w (Reboot outcome) =
     (case open_journal L outcome (wo_disk w) of
        (Inl err, disk) \<Rightarrow> w\<lparr>wo_disk := disk\<rparr>
      | (Inr s, disk) \<Rightarrow> opened_world s disk (wo_trace w))"

definition node_run ::
  "host_lib \<Rightarrow> (jstext \<Rightarrow> json_tree) \<Rightarrow> node_config \<Rightarrow> world \<Rightarrow> node_event list \<Rightarrow> world" where
  "node_run L json_value cfg w evs = foldl (node_step L json_value cfg) w evs"

end
