(* ===== verification/Journal_Laws.thy ===== *)
theory Journal_Laws
  imports Journal_Machine "HOL-Library.Sublist"
begin

text \<open>
  Laws of the Node journal.  A law of an order \<open>le\<close> on journals is proved for every operation, then for
  the machine with its storage once, in the locale \<open>journal_order\<close>: what memory has never moves back,
  also through failed saves and restarts, because the file is always at least what memory is.
\<close>

section \<open>Machines over a file\<close>

text \<open>A preorder that every accepted update by an allowed command respects.\<close>

locale journal_order =
  fixes L :: host_lib
    and json_value :: "jstext \<Rightarrow> json_tree"
    and allowed :: "journal_command \<Rightarrow> bool"
    and sane :: "node_journal \<Rightarrow> bool"
    and le :: "node_journal \<Rightarrow> node_journal \<Rightarrow> bool"
  assumes le_refl: "le s s"
    and le_trans: "le s t \<Longrightarrow> le t u \<Longrightarrow> le s u"
    and sane_empty: "sane empty_node_journal"
    and apply_le: "allowed c \<Longrightarrow> sane s \<Longrightarrow> node_journal_ok L s \<Longrightarrow> apply_command L json_value c s = Inr t
           \<Longrightarrow> node_journal_ok L t \<Longrightarrow> sane t \<and> le s t"
begin

definition invariant :: "journal_process \<Rightarrow> bool" where
  "invariant p \<longleftrightarrow> (\<forall>d. jp_disk p = Some d \<longrightarrow> sane d)
     \<and> (\<forall>s. jp_memory p = Some s \<longrightarrow> sane s \<and> node_journal_ok L s
           \<and> (\<exists>d. jp_disk p = Some d \<and> node_journal_ok L d \<and> le s d))"

definition later :: "journal_process \<Rightarrow> journal_process \<Rightarrow> bool" where
  "later p q \<longleftrightarrow> (\<forall>s. jp_memory p = Some s \<longrightarrow> (\<exists>t. jp_memory q = Some t \<and> le s t))"

lemma write_durable_cases:
  "write_durable outcome s disk = (b, disk') \<Longrightarrow> disk' = disk \<and> \<not> b \<or> disk' = Some s"
  by (auto simp: write_durable_def split: save_outcome.splits)

lemma write_durable_True: "write_durable outcome s disk = (True, disk') \<Longrightarrow> disk' = Some s"
  by (auto simp: write_durable_def split: save_outcome.splits)

lemma open_invariant:
  assumes "invariant p"
  shows "invariant (journal_step L json_value p (Restart outcome))"
    and "later p (journal_step L json_value p (Restart outcome))"
proof -
  show "invariant (journal_step L json_value p (Restart outcome))"
    using assms sane_empty le_refl
    by (auto simp: invariant_def open_journal_def Let_def split: prod.splits sum.splits option.splits if_splits bool.splits
             dest: write_durable_cases write_durable_True)
  show "later p (journal_step L json_value p (Restart outcome))"
    using assms
    by (auto simp: invariant_def later_def open_journal_def split: prod.splits sum.splits option.splits if_splits)
qed

fun allowed_event :: "journal_event \<Rightarrow> bool" where
  "allowed_event (Run_command c outcome) = allowed c"
| "allowed_event (Restart outcome) = True"

lemma update_invariant:
  assumes allowed: "allowed c" and inv: "invariant p"
  shows "invariant (journal_step L json_value p (Run_command c outcome))
    \<and> later p (journal_step L json_value p (Run_command c outcome))"
proof (cases "jp_memory p")
  case None
  then show ?thesis using inv by (simp add: later_def)
next
  case (Some s)
  with inv obtain d where s: "sane s" "node_journal_ok L s" and d: "jp_disk p = Some d" "le s d"
      "sane d" "node_journal_ok L d"
    by (auto simp: invariant_def)
  show ?thesis
  proof (cases "apply_command L json_value c s")
    case (Inl err)
    then show ?thesis using inv Some le_refl by (auto simp: update_journal_def later_def)
  next
    case (Inr t)
    show ?thesis
    proof (cases "node_journal_ok L t")
      case False
      then show ?thesis using inv Some Inr le_refl by (auto simp: update_journal_def later_def)
    next
      case True
      with apply_le [OF allowed s Inr] have t: "sane t" "le s t" by auto
      obtain b disk' where w: "write_durable outcome t (jp_disk p) = (b, disk')" by fastforce
      have "b \<Longrightarrow> disk' = Some t" using w write_durable_True by (cases b) auto
      then show ?thesis
        using Some Inr True t s d write_durable_cases [OF w] w le_refl
        by (auto simp: update_journal_def invariant_def later_def split: bool.splits)
    qed
  qed
qed

lemma step_invariant:
  "allowed_event ev \<Longrightarrow> invariant p
   \<Longrightarrow> invariant (journal_step L json_value p ev) \<and> later p (journal_step L json_value p ev)"
  using update_invariant open_invariant by (cases ev) auto

lemma later_refl: "later p p"
  by (auto simp: later_def le_refl)

lemma later_trans: "later p q \<Longrightarrow> later q r \<Longrightarrow> later p r"
  by (auto simp: later_def) (metis le_trans)

lemma run_invariant:
  "list_all allowed_event evs \<Longrightarrow> invariant p
   \<Longrightarrow> invariant (journal_run L json_value p evs) \<and> later p (journal_run L json_value p evs)"
proof (induction evs arbitrary: p)
  case Nil
  then show ?case by (simp add: journal_run_def later_refl)
next
  case (Cons ev evs)
  then show ?case using step_invariant [of ev p] later_trans
    by (simp add: journal_run_def) blast
qed

lemma invariant_start: "(\<forall>d. disk = Some d \<longrightarrow> sane d) \<Longrightarrow> invariant \<lparr>jp_memory = None, jp_disk = disk\<rparr>"
  by (simp add: invariant_def)

end

section \<open>The order of entries\<close>

definition events_of :: "journal_delivery \<Rightarrow> int \<Rightarrow> host_event list" where
  "events_of e n = (if n = je_execution_attempt e then je_host_events e
     else case find (\<lambda>a. ax_execution_attempt a = n) (je_host_attempt_history e) of
       None \<Rightarrow> [] | Some a \<Rightarrow> ax_host_events a)"

text \<open>The identity of the delivery stays; the attempt grows; archived executions stay; the events of
  every attempt are only extended; within an attempt a start input stays.\<close>

definition entry_le :: "journal_delivery \<Rightarrow> journal_delivery \<Rightarrow> bool" where
  "entry_le e f \<longleftrightarrow> je_identity_sha256 e = je_identity_sha256 f
     \<and> je_execution_attempt e \<le> je_execution_attempt f
     \<and> prefix (je_host_attempt_history e) (je_host_attempt_history f)
     \<and> (\<forall>n. prefix (events_of e n) (events_of f n))
     \<and> (je_execution_attempt e = je_execution_attempt f \<longrightarrow>
          (\<forall>i. je_start_turn_input e = Some i \<longrightarrow> je_start_turn_input f = Some i))"

lemma entry_le_refl [simp]: "entry_le e e"
  by (simp add: entry_le_def)

lemma entry_le_trans: "entry_le e f \<Longrightarrow> entry_le f g \<Longrightarrow> entry_le e g"
  unfolding entry_le_def by (auto intro: prefix_order.trans)

lemma same_evidence_le:
  "je_identity_sha256 e = je_identity_sha256 f \<Longrightarrow> je_execution_attempt e = je_execution_attempt f
   \<Longrightarrow> je_host_attempt_history e = je_host_attempt_history f \<Longrightarrow> prefix (je_host_events e) (je_host_events f)
   \<Longrightarrow> (\<And>i. je_start_turn_input e = Some i \<Longrightarrow> je_start_turn_input f = Some i) \<Longrightarrow> entry_le e f"
  by (auto simp: entry_le_def events_of_def split: option.splits)

lemma history_below:
  "history_issues active i seen h = [] \<Longrightarrow> a \<in> set h \<Longrightarrow> ax_execution_attempt a < active"
  by (induction active i seen h rule: history_issues.induct) (auto simp: not_le)

lemma entry_history_below:
  "journal_delivery_ok L e \<Longrightarrow> a \<in> set (je_host_attempt_history e)
   \<Longrightarrow> ax_execution_attempt a < je_execution_attempt e"
  by (auto simp: journal_delivery_ok_def journal_delivery_issues_def intro: history_below)

lemma map_sum_Inr: "map_sum f g x = Inr y \<longleftrightarrow> (\<exists>z. x = Inr z \<and> y = g z)"
  by (cases x) auto

lemma find_in_append: "find p (xs @ ys) = (case find p xs of None \<Rightarrow> find p ys | Some x \<Rightarrow> Some x)"
  by (induction xs) auto

lemma find_above: "(\<And>a. a \<in> set h \<Longrightarrow> ax_execution_attempt a < m) \<Longrightarrow> m \<le> n
    \<Longrightarrow> find (\<lambda>a. ax_execution_attempt a = n) h = None"
  by (fastforce simp: find_None_iff)

lemma archive_le:
  assumes ok: "journal_delivery_ok L e" and arch: "archive_host_execution L json_value now e = Inr f"
  shows "entry_le e f"
proof -
  have below: "\<And>a. a \<in> set (je_host_attempt_history e) \<Longrightarrow> ax_execution_attempt a < je_execution_attempt e"
    using entry_history_below [OF ok] .
  have none: "find (\<lambda>a. ax_execution_attempt a = n) (je_host_attempt_history e) = None"
    if "je_execution_attempt e \<le> n" for n using find_above [OF below that] by blast
  show ?thesis using arch
    by (auto simp: archive_host_execution_def Let_def map_sum_Inr entry_le_def events_of_def find_in_append none
             split: if_splits option.splits sum.splits)
qed

section \<open>Stages and mutations\<close>

text \<open>Everything but the grants stays when a successor is staged.\<close>

lemma stage_keeps:
  assumes "stage_runtime_authority_successor L e d = Inr f"
  shows "f = e\<lparr>je_runtime_authority := je_runtime_authority f,
    je_runtime_authority_predecessor := je_runtime_authority_predecessor f\<rparr>"
  using assms
  by (auto simp: stage_runtime_authority_successor_def stage_grant_def split: if_splits option.splits)

lemma entry_le_unrelated [simp]:
  "entry_le e (f\<lparr>je_item := x0\<rparr>) = entry_le e f"
  "entry_le e (f\<lparr>je_phase := x1\<rparr>) = entry_le e f"
  "entry_le e (f\<lparr>je_claim_attempt := x2\<rparr>) = entry_le e f"
  "entry_le e (f\<lparr>je_renew_count := x2\<rparr>) = entry_le e f"
  "entry_le e (f\<lparr>je_operation := x3\<rparr>) = entry_le e f"
  "entry_le e (f\<lparr>je_host_session := x4\<rparr>) = entry_le e f"
  "entry_le e (f\<lparr>je_result := x5\<rparr>) = entry_le e f"
  "entry_le e (f\<lparr>je_runtime_authority := x6\<rparr>) = entry_le e f"
  "entry_le e (f\<lparr>je_runtime_authority_predecessor := x6\<rparr>) = entry_le e f"
  "entry_le e (f\<lparr>je_last_error := x7\<rparr>) = entry_le e f"
  "entry_le e (f\<lparr>je_updated_at := x8\<rparr>) = entry_le e f"
  by (simp_all add: entry_le_def events_of_def cong: option.case_cong)

lemma with_delivery_le [simp]: "entry_le e (with_delivery d f) = entry_le e f"
  by (simp add: with_delivery_def)

lemma stage_le: "stage_runtime_authority_successor L e d = Inr f \<Longrightarrow> entry_le e f"
  using stage_keeps [of L e d f] by (metis entry_le_refl entry_le_unrelated(8,9))

lemma advance_le: "advance_delivery L d now e = Inr f \<Longrightarrow> entry_le e f"
  by (auto simp: advance_delivery_def map_sum_Inr stage_le split: option.splits)

lemma push_event_le [simp]: "entry_le e (e\<lparr>je_host_events := je_host_events e @ vs\<rparr>)"
  by (rule same_evidence_le) simp_all

lemma mutation_le:
  "journal_delivery_ok L e \<Longrightarrow> apply_mutation L json_value now m e = Inr f \<Longrightarrow> entry_le e f"
  by (induction L json_value now m e rule: apply_mutation.induct)
     (auto simp: map_sum_Inr stage_le archive_le split: if_splits)

section \<open>The order of journals\<close>

fun cursor_le :: "string option \<Rightarrow> string option \<Rightarrow> bool" where
  "cursor_le None c = True"
| "cursor_le (Some a) c = (case c of None \<Rightarrow> False | Some b \<Rightarrow> decimal_value a \<le> decimal_value b)"

definition acceptance_le :: "mission_acceptance \<Rightarrow> mission_acceptance \<Rightarrow> bool" where
  "acceptance_le a b \<longleftrightarrow> ja_input a = ja_input b
     \<and> (ja_status a = Acceptance_pending \<or> ja_status b = ja_status a)"

text \<open>Every binding of the first map is one of the second, up to \<open>r\<close>.\<close>

definition bindings_le :: "('b \<Rightarrow> 'c \<Rightarrow> bool) \<Rightarrow> ('a \<Rightarrow> 'b option) \<Rightarrow> ('a \<Rightarrow> 'c option) \<Rightarrow> bool" where
  "bindings_le r m n \<longleftrightarrow> (\<forall>k x. m k = Some x \<longrightarrow> (\<exists>y. n k = Some y \<and> r x y))"

lemma bindings_le_refl: "(\<And>x. r x x) \<Longrightarrow> bindings_le r m m"
  by (simp add: bindings_le_def)

lemma bindings_le_trans:
  "bindings_le r m n \<Longrightarrow> bindings_le r n l \<Longrightarrow> (\<And>x y z. r x y \<Longrightarrow> r y z \<Longrightarrow> r x z) \<Longrightarrow> bindings_le r m l"
  by (simp add: bindings_le_def) metis

lemma bindings_le_update:
  "(\<And>x. r x x) \<Longrightarrow> (\<And>x. map_of xs k = Some x \<Longrightarrow> r x y) \<Longrightarrow> bindings_le r (map_of xs) (map_of (AList.update k y xs))"
  by (simp add: bindings_le_def update_conv')

lemma bindings_leD: "bindings_le r m n \<Longrightarrow> m k = Some x \<Longrightarrow> \<exists>y. n k = Some y \<and> r x y"
  by (simp add: bindings_le_def)

definition journal_le :: "node_journal \<Rightarrow> node_journal \<Rightarrow> bool" where
  "journal_le s t \<longleftrightarrow> cursor_le (jn_cursor s) (jn_cursor t)
     \<and> bindings_le entry_le (map_of (jn_deliveries s)) (map_of (jn_deliveries t))
     \<and> bindings_le (=) (map_of (jn_sessions s)) (map_of (jn_sessions t))
     \<and> bindings_le acceptance_le (map_of (jn_acceptances s)) (map_of (jn_acceptances t))"

text \<open>The keys of an object are distinct.\<close>

definition distinct_keys :: "node_journal \<Rightarrow> bool" where
  "distinct_keys s \<longleftrightarrow> distinct (map fst (jn_deliveries s)) \<and> distinct (map fst (jn_sessions s))
     \<and> distinct (map fst (jn_acceptances s))"

lemma cursor_le_refl [simp]: "cursor_le c c"
  by (cases c) auto

lemma cursor_le_trans: "cursor_le a b \<Longrightarrow> cursor_le b c \<Longrightarrow> cursor_le a c"
  by (cases a; cases b; cases c) auto

lemma acceptance_le_refl [simp]: "acceptance_le a a"
  by (simp add: acceptance_le_def)

lemma acceptance_le_trans: "acceptance_le a b \<Longrightarrow> acceptance_le b c \<Longrightarrow> acceptance_le a c"
  by (auto simp: acceptance_le_def)

lemma journal_le_refl [simp]: "journal_le s s"
  by (simp add: journal_le_def bindings_le_refl)

lemma journal_le_trans: "journal_le s t \<Longrightarrow> journal_le t u \<Longrightarrow> journal_le s u"
  by (auto simp: journal_le_def elim!: bindings_le_trans intro: cursor_le_trans entry_le_trans acceptance_le_trans)

lemma set_entry_le:
  "(\<And>e. map_of (jn_deliveries s) k = Some e \<Longrightarrow> entry_le e f) \<Longrightarrow> journal_le s (set_entry k f s)"
  by (simp add: journal_le_def set_entry_def bindings_le_update bindings_le_refl)

lemma set_entry_keys: "distinct_keys s \<Longrightarrow> distinct_keys (set_entry k f s)"
  by (simp add: distinct_keys_def set_entry_def distinct_update)

lemma journal_entry_ok:
  "node_journal_ok L s \<Longrightarrow> map_of (jn_deliveries s) k = Some e \<Longrightarrow> journal_delivery_ok L e"
  by (auto simp: node_journal_ok_def node_journal_fields_ok_def list_all_iff dest!: map_of_SomeD)

text \<open>One item of a page; the law of the grants rides along.\<close>

definition grants :: "journal_delivery \<Rightarrow> authority_grant set" where
  "grants e = set_option (je_runtime_authority e) \<union> set_option (je_runtime_authority_predecessor e)"

lemma stage_grants: "stage_runtime_authority_successor L e d = Inr f \<Longrightarrow> grants f = grants e"
  by (auto simp: stage_runtime_authority_successor_def stage_grant_def grants_def
           split: if_splits option.splits)

lemma grants_unrelated [simp]:
  "grants (f\<lparr>je_item := x0\<rparr>) = grants f"
  "grants (f\<lparr>je_phase := x1\<rparr>) = grants f"
  "grants (f\<lparr>je_claim_attempt := x2\<rparr>) = grants f"
  "grants (f\<lparr>je_renew_count := x2\<rparr>) = grants f"
  "grants (f\<lparr>je_operation := x3\<rparr>) = grants f"
  "grants (f\<lparr>je_host_session := x4\<rparr>) = grants f"
  "grants (f\<lparr>je_execution_attempt := x2\<rparr>) = grants f"
  "grants (f\<lparr>je_start_turn_input := x9\<rparr>) = grants f"
  "grants (f\<lparr>je_host_attempt_history := x10\<rparr>) = grants f"
  "grants (f\<lparr>je_host_events := x11\<rparr>) = grants f"
  "grants (f\<lparr>je_result := x5\<rparr>) = grants f"
  "grants (f\<lparr>je_last_error := x7\<rparr>) = grants f"
  "grants (f\<lparr>je_updated_at := x8\<rparr>) = grants f"
  "grants (with_delivery d f) = grants f"
  by (simp_all add: grants_def with_delivery_def)

definition keeps_grants :: "node_journal \<Rightarrow> node_journal \<Rightarrow> bool" where
  "keeps_grants s t \<longleftrightarrow>
     bindings_le (\<lambda>e f. grants f = grants e) (map_of (jn_deliveries s)) (map_of (jn_deliveries t))"

lemma keeps_grants_refl: "keeps_grants s s"
  by (simp add: keeps_grants_def bindings_le_refl)

lemma keeps_grants_trans: "keeps_grants s t \<Longrightarrow> keeps_grants t u \<Longrightarrow> keeps_grants s u"
  unfolding keeps_grants_def by (erule bindings_le_trans) auto

lemma keeps_grants_set_entry:
  "(\<And>e. map_of (jn_deliveries s) k = Some e \<Longrightarrow> grants f = grants e) \<Longrightarrow> keeps_grants s (set_entry k f s)"
  by (simp add: keeps_grants_def set_entry_def bindings_le_update)

lemma advance_grants: "advance_delivery L d now e = Inr f \<Longrightarrow> grants f = grants e"
  by (auto simp: advance_delivery_def map_sum_Inr stage_grants split: option.splits)

lemma upsert_law:
  "upsert_delivery L now s i = Inr t
   \<Longrightarrow> journal_le s t \<and> keeps_grants s t \<and> (distinct_keys s \<longrightarrow> distinct_keys t)"
  by (auto simp: upsert_delivery_def Let_def map_sum_Inr advance_grants advance_le
           split: if_splits option.splits intro!: set_entry_le keeps_grants_set_entry set_entry_keys)

lemma ingest_law:
  "run_steps (upsert_delivery L now) s items = Inr t
   \<Longrightarrow> journal_le s t \<and> keeps_grants s t \<and> (distinct_keys s \<longrightarrow> distinct_keys t)"
proof (induction items arbitrary: s)
  case Nil
  then show ?case by (simp add: keeps_grants_refl)
next
  case (Cons i items)
  then obtain u where u: "upsert_delivery L now s i = Inr u" "run_steps (upsert_delivery L now) u items = Inr t"
    by (auto split: sum.splits)
  show ?case using upsert_law [OF u(1)] Cons.IH [OF u(2)]
    by (meson journal_le_trans keeps_grants_trans)
qed

section \<open>Commands\<close>

lemma compare_cursor_decimal: "compare_cursor a b = compare_decimal_strings a b"
  by (auto simp: compare_cursor_def compare_decimal_strings_def)

lemma advance_cursor_le:
  assumes "nullable canonical_decimal (jn_cursor s)" and "advance_cursor c s = Inr t"
    and "nullable canonical_decimal (jn_cursor t)"
  shows "cursor_le (jn_cursor s) (jn_cursor t)"
proof (cases "jn_cursor s")
  case (Some old)
  show ?thesis
  proof (cases c)
    case None
    then show ?thesis using assms(2) by (simp add: advance_cursor_def)
  next
    case new: (Some n)
    then have t: "t = s\<lparr>jn_cursor := Some n\<rparr>" and "\<not> compare_cursor n old < 0"
      using assms(2) Some by (auto simp: advance_cursor_def split: if_splits)
    then show ?thesis using assms(1,3) Some compare_less_numeric [of n old]
      by (simp add: compare_cursor_decimal)
  qed
qed simp

lemma update_delivery_le:
  assumes "update_delivery L k f s = Inr t" and "node_journal_ok L s"
    and "\<And>e g. journal_delivery_ok L e \<Longrightarrow> f e = Inr g \<Longrightarrow> entry_le e g"
  shows "journal_le s t" and "distinct_keys s \<Longrightarrow> distinct_keys t"
  using assms journal_entry_ok [OF assms(2)]
  by (auto simp: update_delivery_def map_sum_Inr split: if_splits option.splits
      intro!: set_entry_le set_entry_keys)

lemma set_session_law:
  "set_mission_session L h s = Inr t \<Longrightarrow> journal_le s t \<and> (distinct_keys s \<longrightarrow> distinct_keys t)"
  by (auto simp: set_mission_session_def journal_le_def distinct_keys_def distinct_update
      split: if_splits option.splits intro!: bindings_le_refl bindings_le_update)

lemma record_acceptance_law:
  "record_mission_acceptance L k i accepted s = Inr t
   \<Longrightarrow> journal_le s t \<and> (distinct_keys s \<longrightarrow> distinct_keys t)"
  by (auto simp: record_mission_acceptance_def Let_def journal_le_def distinct_keys_def distinct_update
      acceptance_le_def split: if_splits option.splits acceptance_progress.splits
      intro!: bindings_le_refl bindings_le_update)
     (metis acceptance_progress.exhaust)+

lemma quarantine_law:
  "quarantine_mission_acceptance L k err s = Inr t
   \<Longrightarrow> journal_le s t \<and> (distinct_keys s \<longrightarrow> distinct_keys t)"
  by (auto simp: quarantine_mission_acceptance_def journal_le_def distinct_keys_def distinct_update
      acceptance_le_def split: if_splits option.splits intro!: bindings_le_refl bindings_le_update)
     (metis acceptance_progress.exhaust)+

lemma checkpoint_start_le: "checkpoint_start_input i now e = Inr f \<Longrightarrow> entry_le e f"
  by (auto simp: checkpoint_start_input_def split: if_splits intro!: same_evidence_le)

lemma checkpoint_grant_le: "checkpoint_grant x g now e = Inr f \<Longrightarrow> entry_le e f"
  by (auto simp: checkpoint_grant_def split: if_splits)

lemma command_law:
  assumes "apply_command L json_value c s = Inr t" and ok: "node_journal_ok L s" "node_journal_ok L t"
  shows "journal_le s t \<and> (distinct_keys s \<longrightarrow> distinct_keys t)"
proof (cases c)
  case (Ingest_page items c' now)
  then obtain u where u: "run_steps (upsert_delivery L now) s items = Inr u" "advance_cursor c' u = Inr t"
    using assms(1) by (auto simp: ingest_cursor_page_def ingest_recoverable_def split: sum.splits)
  have cur: "nullable canonical_decimal (jn_cursor r)" if "node_journal_ok L r" for r
    using that by (simp add: node_journal_ok_def node_journal_fields_ok_def)
  have same: "jn_cursor u = jn_cursor s"
    using u(1)
  proof (induction items arbitrary: s)
    case (Cons i items)
    then obtain v where v: "upsert_delivery L now s i = Inr v" "run_steps (upsert_delivery L now) v items = Inr u"
      by (auto split: sum.splits)
    have "jn_cursor v = jn_cursor s" using v(1)
      by (auto simp: upsert_delivery_def Let_def map_sum_Inr set_entry_def split: if_splits option.splits)
    then show ?case using Cons.IH [OF v(2)] by simp
  qed simp
  have "cursor_le (jn_cursor u) (jn_cursor t)"
    using advance_cursor_le [OF _ u(2)] cur [OF ok(1)] cur [OF ok(2)] same by simp
  moreover have "jn_deliveries t = jn_deliveries u \<and> jn_sessions t = jn_sessions u
      \<and> jn_acceptances t = jn_acceptances u"
    using u(2) by (auto simp: advance_cursor_def split: if_splits option.splits)
  ultimately have "journal_le u t \<and> (distinct_keys u \<longrightarrow> distinct_keys t)"
    by (simp add: journal_le_def distinct_keys_def bindings_le_refl)
  then show ?thesis using ingest_law [OF u(1)] journal_le_trans by blast
next
  case (Ingest_recovered items now)
  then show ?thesis using assms(1) ingest_law by (simp add: ingest_recoverable_def)
next
  case (Set_assignment_cursor x)
  then show ?thesis using assms(1)
    by (auto simp: set_mission_assignment_cursor_def journal_le_def distinct_keys_def bindings_le_refl
             split: if_splits)
qed (use assms(1) set_session_law record_acceptance_law quarantine_law
      update_delivery_le [OF _ ok(1)] checkpoint_start_le checkpoint_grant_le advance_le mutation_le
    in \<open>(fastforce simp: checkpoint_start_turn_input_def checkpoint_runtime_authority_def
          replace_delivery_state_def split: if_splits)+\<close>)

interpretation journal: journal_order L json_value "\<lambda>c. True" distinct_keys journal_le for L json_value
  by unfold_locales
     (use command_law journal_le_trans in \<open>auto simp: distinct_keys_def empty_node_journal_def\<close>)

lemma journal_allowed [simp]: "journal.allowed_event ev"
  by (cases ev) auto

section \<open>Custody of the grants\<close>

fun retires :: "uuid \<Rightarrow> journal_command \<Rightarrow> bool" where
  "retires k (Mutate_delivery j (Write_retired active predecessor) now) = (j = k)"
| "retires k c = False"

definition inherits :: "journal_delivery \<Rightarrow> journal_delivery \<Rightarrow> bool" where
  "inherits e f \<longleftrightarrow> (\<forall>g \<in> grants e. \<exists>h \<in> grants f. h = g \<or> runtime_authority_successor g h)"

definition inherits_at :: "uuid \<Rightarrow> node_journal \<Rightarrow> node_journal \<Rightarrow> bool" where
  "inherits_at k s t \<longleftrightarrow> (\<forall>e. map_of (jn_deliveries s) k = Some e \<longrightarrow>
     (\<exists>f. map_of (jn_deliveries t) k = Some f \<and> inherits e f))"

lemma successor_trans:
  "runtime_authority_successor p g \<Longrightarrow> runtime_authority_successor g h \<Longrightarrow> runtime_authority_successor p h"
  by (cases p; cases g; cases h) (auto simp: runtime_authority_successor_def)

lemma inherits_same: "grants f = grants e \<Longrightarrow> inherits e f"
  by (auto simp: inherits_def)

lemma inherits_trans: "inherits e f \<Longrightarrow> inherits f g \<Longrightarrow> inherits e g"
  unfolding inherits_def by (metis successor_trans)

lemma inherits_at_refl: "inherits_at k s s"
  by (simp add: inherits_at_def inherits_same)

lemma inherits_at_trans: "inherits_at k s t \<Longrightarrow> inherits_at k t u \<Longrightarrow> inherits_at k s u"
  unfolding inherits_at_def by (metis inherits_trans)

lemma keeps_grants_inherits: "keeps_grants s t \<Longrightarrow> inherits_at k s t"
  by (auto simp: keeps_grants_def inherits_at_def dest!: bindings_leD [where k = k] intro: inherits_same)

lemma single_grant:
  "journal_delivery_ok L e \<Longrightarrow> je_runtime_authority e = None \<or> je_runtime_authority_predecessor e = None"
  by (auto simp: journal_delivery_ok_def journal_delivery_issues_def validate_predecessor_def)

lemma archive_grants: "archive_host_execution L json_value now e = Inr f \<Longrightarrow> grants f = grants e"
  by (auto simp: archive_host_execution_def Let_def map_sum_Inr split: if_splits option.splits)

lemma mutation_grants:
  "apply_mutation L json_value now m e = Inr f \<Longrightarrow> (\<And>a p. m \<noteq> Write_retired a p) \<Longrightarrow> grants f = grants e"
  by (induction L json_value now m e rule: apply_mutation.induct)
     (auto simp: map_sum_Inr stage_grants archive_grants split: if_splits)

lemma checkpoint_grant_inherits:
  "journal_delivery_ok L e \<Longrightarrow> checkpoint_grant x g now e = Inr f \<Longrightarrow> inherits e f"
  using single_grant [of L e]
  by (auto simp: checkpoint_grant_def inherits_def grants_def split: if_splits option.splits)

lemma update_delivery_inherits:
  assumes "update_delivery L j f s = Inr t" and "node_journal_ok L s"
    and "\<And>e g. j = k \<Longrightarrow> journal_delivery_ok L e \<Longrightarrow> f e = Inr g \<Longrightarrow> inherits e g"
  shows "inherits_at k s t"
  using assms(1,3) journal_entry_ok [OF assms(2)]
  by (auto simp: update_delivery_def map_sum_Inr inherits_at_def set_entry_def update_conv' inherits_same
      split: if_splits option.splits)

lemma command_inherits:
  assumes "\<not> retires k c" and "apply_command L json_value c s = Inr t" and ok: "node_journal_ok L s"
  shows "inherits_at k s t"
proof (cases c)
  case (Ingest_page items c' now)
  then obtain u where u: "run_steps (upsert_delivery L now) s items = Inr u" "advance_cursor c' u = Inr t"
    using assms(2) by (auto simp: ingest_cursor_page_def ingest_recoverable_def split: sum.splits)
  have "jn_deliveries t = jn_deliveries u"
    using u(2) by (auto simp: advance_cursor_def split: if_splits option.splits)
  then show ?thesis using ingest_law [OF u(1)] keeps_grants_inherits by (auto simp: inherits_at_def)
next
  case (Ingest_recovered items now)
  then show ?thesis using assms(2) ingest_law keeps_grants_inherits by (simp add: ingest_recoverable_def)
next
  case (Mutate_delivery j m now)
  then have "update_delivery L j (apply_mutation L json_value now m) s = Inr t" using assms(2) by simp
  moreover have "inherits e g" if "j = k" "apply_mutation L json_value now m e = Inr g" for e g
    using that assms(1) Mutate_delivery mutation_grants [OF that(2)] by (cases m) (auto intro: inherits_same)
  ultimately show ?thesis using update_delivery_inherits [OF _ ok] by blast
next
  case (Checkpoint_start j i now)
  then show ?thesis using assms(2) update_delivery_inherits [OF _ ok]
    by (fastforce simp: checkpoint_start_turn_input_def checkpoint_start_input_def inherits_same split: if_splits)
next
  case (Checkpoint_authority j g now x)
  then show ?thesis using assms(2) update_delivery_inherits [OF _ ok] checkpoint_grant_inherits
    by (fastforce simp: checkpoint_runtime_authority_def split: if_splits)
next
  case (Replace_state d now)
  then show ?thesis using assms(2) update_delivery_inherits [OF _ ok] advance_grants inherits_same
    by (fastforce simp: replace_delivery_state_def)
qed (use assms(2) inherits_at_refl [of k s] in
      \<open>auto simp: set_mission_assignment_cursor_def set_mission_session_def record_mission_acceptance_def
        quarantine_mission_acceptance_def Let_def inherits_at_def split: if_splits option.splits\<close>)

interpretation custody: journal_order L json_value "\<lambda>c. \<not> retires k c" "\<lambda>s. True" "inherits_at k"
  for L json_value k
  by unfold_locales (auto intro: inherits_at_refl inherits_at_trans command_inherits)

end
