(* ===== verification/Process_Laws.thy ===== *)
theory Process_Laws
  imports Delivery_Process Journal_Laws
begin

text \<open>
  The write-ahead rule of the delivery processor: whatever it sends was journaled, durably, before.  A
  program is \<open>safe\<close> when it keeps the rule; safety goes through sequencing and handlers, so it is proved for
  the few programs that save or send and then follows for the rest.
\<close>

named_theorems safe_intros "rules of safe programs"

definition journaled_where :: "uuid \<Rightarrow> (journal_delivery \<Rightarrow> bool) \<Rightarrow> call list \<Rightarrow> bool" where
  "journaled_where k P cs \<longleftrightarrow> (\<exists>s e. Saved s \<in> set cs \<and> map_of (jn_deliveries s) k = Some e \<and> P e)"

text \<open>A host works on a turn only from a journaled input, for a delivery that the relay said is executing.\<close>

definition may_start :: "uuid \<Rightarrow> start_turn_input \<Rightarrow> call list \<Rightarrow> bool" where
  "may_start k i cs \<longleftrightarrow> journaled_where k (\<lambda>e. je_start_turn_input e = Some i) cs
     \<and> journaled_where k (\<lambda>e. d_status (je_delivery e) = D_executing) cs"

fun written_ahead :: "call \<Rightarrow> call list \<Rightarrow> bool" where
  "written_ahead (Sent k i) cs = journaled_where k (\<lambda>e. je_operation e = Some i) cs"
| "written_ahead (Host_started k i) cs = may_start k i cs"
| "written_ahead (Host_recovered t i) cs = (\<exists>k. may_start k i cs)"
| "written_ahead (Saved s) cs = True"
| "written_ahead (Host_cancelled k attempt) cs = True"

text \<open>The trace has the last call first, so the tail is what came before.\<close>

fun write_ahead :: "call list \<Rightarrow> bool" where
  "write_ahead [] = True"
| "write_ahead (c # cs) = (written_ahead c cs \<and> write_ahead cs)"

definition world_inv :: "world \<Rightarrow> bool" where
  "world_inv w \<longleftrightarrow> write_ahead (wo_trace w) \<and> Saved (wo_memory w) \<in> set (wo_trace w)"

definition grows :: "world \<Rightarrow> world \<Rightarrow> bool" where
  "grows w w' \<longleftrightarrow> set (wo_trace w) \<subseteq> set (wo_trace w')"

definition safe_from :: "(world \<Rightarrow> bool) \<Rightarrow> 'a proc \<Rightarrow> ('a \<Rightarrow> world \<Rightarrow> bool) \<Rightarrow> bool" where
  "safe_from P m Q \<longleftrightarrow> (\<forall>w. world_inv w \<longrightarrow> P w \<longrightarrow>
     world_inv (snd (m w)) \<and> grows w (snd (m w)) \<and> (\<forall>x. fst (m w) = Inr x \<longrightarrow> Q x (snd (m w))))"

abbreviation safe :: "'a proc \<Rightarrow> bool" where
  "safe m \<equiv> safe_from (\<lambda>w. True) m (\<lambda>x w. True)"

lemma grows_refl [simp]: "grows w w"
  by (simp add: grows_def)

lemma grows_trans: "grows w w' \<Longrightarrow> grows w' w'' \<Longrightarrow> grows w w''"
  by (auto simp: grows_def)

lemma journaled_grows: "journaled_where k P (wo_trace w) \<Longrightarrow> grows w w' \<Longrightarrow> journaled_where k P (wo_trace w')"
  by (auto simp: journaled_where_def grows_def)

lemma journaled_memory:
  "world_inv w \<Longrightarrow> entry_of k w = Some e \<Longrightarrow> P e \<Longrightarrow> journaled_where k P (wo_trace w)"
  by (auto simp: journaled_where_def world_inv_def entry_of_def)

section \<open>Rules\<close>

lemma safe_from_weaken:
  "safe_from P m Q \<Longrightarrow> (\<And>w. P' w \<Longrightarrow> P w) \<Longrightarrow> (\<And>x w. world_inv w \<Longrightarrow> Q x w \<Longrightarrow> Q' x w) \<Longrightarrow> safe_from P' m Q'"
  by (fastforce simp: safe_from_def)

lemma safe_any: "safe m \<Longrightarrow> safe_from P m (\<lambda>x w. True)"
  by (simp add: safe_from_def)

lemma safe_bind:
  assumes "safe_from P m Q" and "\<And>x. safe_from (Q x) (f x) R"
  shows "safe_from P (proc_bind m f) R"
  unfolding safe_from_def
proof (intro allI impI)
  fix w assume w: "world_inv w" "P w"
  obtain r w' where m: "m w = (r, w')" by fastforce
  have w': "world_inv w'" "grows w w'" "\<And>x. r = Inr x \<Longrightarrow> Q x w'"
    using assms(1) w m by (fastforce simp: safe_from_def)+
  show "world_inv (snd (proc_bind m f w)) \<and> grows w (snd (proc_bind m f w))
    \<and> (\<forall>x. fst (proc_bind m f w) = Inr x \<longrightarrow> R x (snd (proc_bind m f w)))"
  proof (cases r)
    case (Inl err)
    then show ?thesis using w' m by (simp add: proc_bind_def)
  next
    case (Inr x)
    have "world_inv (snd (f x w')) \<and> grows w' (snd (f x w')) \<and> (\<forall>y. fst (f x w') = Inr y \<longrightarrow> R y (snd (f x w')))"
      using assms(2) [of x] w' Inr by (simp add: safe_from_def)
    then show ?thesis using Inr m w' grows_trans by (auto simp: proc_bind_def)
  qed
qed

lemma safe_bind_any [safe_intros]: "safe m \<Longrightarrow> (\<And>x. safe (f x)) \<Longrightarrow> safe (proc_bind m f)"
  by (rule safe_bind)

lemma safe_then [safe_intros]: "safe m \<Longrightarrow> safe n \<Longrightarrow> safe (proc_then m n)"
  unfolding proc_then_def by (rule safe_bind_any)

lemma safe_then_from: "safe_from P m (\<lambda>_. Q) \<Longrightarrow> safe_from Q n R \<Longrightarrow> safe_from P (proc_then m n) R"
  unfolding proc_then_def by (rule safe_bind)

lemma safe_return_from: "(\<And>w. P w \<Longrightarrow> Q x w) \<Longrightarrow> safe_from P (proc_return x) Q"
  by (simp add: safe_from_def proc_return_def)

lemma safe_return [safe_intros]: "safe (proc_return x)"
  by (simp add: safe_from_def proc_return_def)

lemma safe_raise_from: "safe_from P (proc_raise err) Q"
  by (simp add: safe_from_def proc_raise_def)

lemma safe_raise [safe_intros]: "safe (proc_raise err)"
  by (rule safe_raise_from)

lemma safe_gets [safe_intros]: "safe (proc_gets f)"
  by (simp add: safe_from_def proc_gets_def)

lemma safe_when [safe_intros]: "(b \<Longrightarrow> safe m) \<Longrightarrow> safe (proc_when b m)"
  by (simp add: proc_when_def safe_intros)

lemma safe_catch_from:
  assumes "safe_from P m Q" and "\<And>err. safe (h err)" and "\<And>x w. R x w"
  shows "safe_from P (proc_catch m h) R"
  unfolding safe_from_def
proof (intro allI impI)
  fix w assume w: "world_inv w" "P w"
  obtain r w' where m: "m w = (r, w')" by fastforce
  have w': "world_inv w'" "grows w w'"
    using assms(1) w m by (fastforce simp: safe_from_def)+
  have "world_inv (snd (h err w')) \<and> grows w' (snd (h err w'))" for err
    using assms(2) [of err] w' by (simp add: safe_from_def)
  then show "world_inv (snd (proc_catch m h w)) \<and> grows w (snd (proc_catch m h w))
    \<and> (\<forall>x. fst (proc_catch m h w) = Inr x \<longrightarrow> R x (snd (proc_catch m h w)))"
    using m w' assms(3) grows_trans by (auto simp: proc_catch_def split: sum.splits)
qed

lemma safe_catch [safe_intros]: "safe m \<Longrightarrow> (\<And>err. safe (h err)) \<Longrightarrow> safe (proc_catch m h)"
  by (rule safe_catch_from) auto

lemma safe_catch_any:
  "safe_from P m (\<lambda>x w. True) \<Longrightarrow> (\<And>err. safe (h err)) \<Longrightarrow> safe_from P (proc_catch m h) (\<lambda>x w. True)"
  by (rule safe_catch_from) auto

lemma safe_then_any:
  "safe_from P m (\<lambda>x w. True) \<Longrightarrow> safe n \<Longrightarrow> safe_from P (proc_then m n) (\<lambda>x w. True)"
  by (rule safe_then_from)

lemma safe_bind_first:
  "safe_from P m (\<lambda>x w. True) \<Longrightarrow> (\<And>x. safe (f x)) \<Longrightarrow> safe_from P (proc_bind m f) (\<lambda>x w. True)"
  by (rule safe_bind)

lemma safe_if [safe_intros]: "(b \<Longrightarrow> safe m) \<Longrightarrow> (\<not> b \<Longrightarrow> safe n) \<Longrightarrow> safe (if b then m else n)"
  by simp

lemma safe_option [safe_intros]:
  "safe m \<Longrightarrow> (\<And>x. safe (f x)) \<Longrightarrow> safe (case z of None \<Rightarrow> m | Some x \<Rightarrow> f x)"
  by (cases z) simp_all

lemma safe_prod [safe_intros]: "(\<And>x y. safe (f x y)) \<Longrightarrow> safe (case z of (x, y) \<Rightarrow> f x y)"
  by (cases z) simp

lemma safe_let [safe_intros]: "safe (f x) \<Longrightarrow> safe (Let x f)"
  by simp

lemma safe_sum [safe_intros]:
  "(\<And>x. safe (f x)) \<Longrightarrow> (\<And>x. safe (g x)) \<Longrightarrow> safe (case z of Inl x \<Rightarrow> f x | Inr x \<Rightarrow> g x)"
  by (cases z) simp_all

section \<open>Saving and sending\<close>

text \<open>Programs that leave the world alone.\<close>

definition quiet :: "'a proc \<Rightarrow> bool" where
  "quiet m \<longleftrightarrow> (\<forall>w. snd (m w) = w)"

lemma quiet_bind: "quiet m \<Longrightarrow> (\<And>x. quiet (f x)) \<Longrightarrow> quiet (proc_bind m f)"
  by (simp add: quiet_def proc_bind_def case_prod_beta split: sum.split)

lemma quiet_safe_from: "quiet m \<Longrightarrow> safe_from P m (\<lambda>_. P)"
  by (simp add: quiet_def safe_from_def)

lemma quiet_throw: "quiet throw_if_aborted"
  by (simp add: quiet_def throw_if_aborted_def proc_bind_def proc_gets_def proc_raise_def proc_return_def)

lemma quiet_require: "quiet (require_entry k)"
  by (simp add: quiet_def require_entry_def proc_bind_def proc_gets_def proc_raise_def proc_return_def
      split: option.splits)

lemma quiet_retire: "quiet (retire_journaled k)"
  unfolding retire_journaled_def
  by (rule quiet_bind [OF quiet_require]) (simp add: quiet_def proc_raise_def proc_return_def)

lemma quiet_lease: "quiet (need_lease d)"
  by (simp add: quiet_def need_lease_def proc_raise_def proc_return_def split: option.splits)

lemma quiet_window: "quiet (window_of L r requested received)"
  by (simp add: quiet_def window_of_def proc_raise_def proc_return_def split: sum.splits)

lemma quiet_answer: "quiet (from_answer x)"
  by (simp add: quiet_def from_answer_def proc_raise_def proc_return_def split: sum.splits)

lemma quiet_healthy: "quiet assert_healthy"
  by (simp add: quiet_def assert_healthy_def proc_bind_def proc_gets_def proc_raise_def proc_return_def
      split: option.splits)

lemma quiet_result: "quiet (from_result x)"
  by (simp add: quiet_def from_result_def proc_raise_def proc_return_def split: sum.splits)

lemma quiet_safe: "quiet m \<Longrightarrow> safe m"
  by (simp add: quiet_def safe_from_def)

lemmas safe_quiet [safe_intros] =
  quiet_throw [THEN quiet_safe] quiet_require [THEN quiet_safe] quiet_retire [THEN quiet_safe]
  quiet_lease [THEN quiet_safe] quiet_window [THEN quiet_safe] quiet_answer [THEN quiet_safe]
  quiet_healthy [THEN quiet_safe] quiet_result [THEN quiet_safe]

lemma safe_require_from:
  "safe_from P (require_entry k) (\<lambda>e w. entry_of k w = Some e)"
  by (auto simp: safe_from_def require_entry_def proc_bind_def proc_gets_def proc_raise_def proc_return_def
      split: option.splits)

lemma safe_record: "(\<And>w. world_inv w \<Longrightarrow> P w \<Longrightarrow> written_ahead c (wo_trace w)) \<Longrightarrow> safe_from P (record_call c) (\<lambda>x w. True)"
  by (auto simp: safe_from_def record_call_def world_inv_def grows_def)

text \<open>A mutation that was saved is what memory holds.\<close>

lemma safe_commit:
  "safe_from P (commit L json_value c outcome)
     (\<lambda>x w. \<exists>s. apply_command L json_value c s = Inr (wo_memory w))"
  by (auto simp: safe_from_def commit_def update_journal_def write_durable_def world_inv_def grows_def
      split: sum.splits if_splits save_outcome.splits)

lemma update_delivery_entry:
  "update_delivery L k f s = Inr t \<Longrightarrow> \<exists>e g. f e = Inr g \<and> map_of (jn_deliveries t) k = Some g"
  by (auto simp: update_delivery_def map_sum_Inr set_entry_def update_conv' split: if_splits option.splits)

lemma safe_commit_any [safe_intros]: "safe (commit L json_value c outcome)"
  by (rule safe_from_weaken [OF safe_commit [of "\<lambda>w. True"]]) auto

text \<open>After a saved mutation memory holds its result.\<close>

lemma safe_commit_mutation:
  assumes "\<And>e f. apply_mutation L json_value now m e = Inr f \<Longrightarrow> R f"
  shows "safe_from P (commit L json_value (Mutate_delivery k m now) outcome)
     (\<lambda>x w. \<exists>e. entry_of k w = Some e \<and> R e)"
  by (rule safe_from_weaken [OF safe_commit [of P]])
     (auto simp: entry_of_def dest!: update_delivery_entry intro: assms)

lemma journaled_intro:
  "safe_from P m (\<lambda>x w. \<exists>e. entry_of k w = Some e \<and> R e)
   \<Longrightarrow> safe_from P m (\<lambda>x w. journaled_where k R (wo_trace w))"
  by (erule safe_from_weaken) (auto intro: journaled_memory)

lemma safe_keeper_intent [safe_intros]: "safe (keeper_intent L json_value k window outcome now)"
proof -
  have sent: "safe (proc_then (commit L json_value (Mutate_delivery k (Write_renew_intent n i) now) outcome)
      (proc_then throw_if_aborted (record_call (Sent k (Renew_intent i)))))" for n i
    by (rule safe_then_from [OF journaled_intro [OF safe_commit_mutation [where R = "\<lambda>e. je_operation e = Some (Renew_intent i)"]]
          safe_then_from [OF quiet_safe_from [OF quiet_throw] safe_record]]) auto
  show ?thesis
    unfolding keeper_intent_def Let_def by (intro safe_intros sent)
qed

lemma safe_keeper_answer [safe_intros]:
  "safe (keeper_answer L json_value k answer requested received outcome now)"
  unfolding keeper_answer_def by (intro safe_intros)

lemma keeper_after_inv:
  assumes "safe m" and "world_inv w"
  shows "world_inv (keeper_after st k (m w)) \<and> grows w (keeper_after st k (m w))"
proof -
  obtain r w' where m: "m w = (r, w')" by fastforce
  then have "world_inv w'" "grows w w'" using assms by (fastforce simp: safe_from_def)+
  then show ?thesis using m
    by (auto simp: keeper_after_def world_inv_def grows_def split: sum.splits option.splits)
qed

lemma world_inv_unrelated [simp]:
  "world_inv (w\<lparr>wo_aborted := b\<rparr>) = world_inv w" "world_inv (w\<lparr>wo_keeper := q\<rparr>) = world_inv w"
  "world_inv (w\<lparr>wo_script := rs\<rparr>) = world_inv w" "grows v (w\<lparr>wo_aborted := b\<rparr>) = grows v w"
  "grows v (w\<lparr>wo_keeper := q\<rparr>) = grows v w" "grows v (w\<lparr>wo_script := rs\<rparr>) = grows v w"
  by (simp_all add: world_inv_def grows_def)

lemma background_inv:
  assumes "background L json_value k r w = Some w'" and "world_inv w"
  shows "world_inv w' \<and> grows w w'"
proof -
  have intent: "safe (proc_then (keeper_intent L json_value k window outcome now) (proc_return window))"
    for window outcome now by (intro safe_intros)
  show ?thesis using assms keeper_after_inv [OF intent assms(2)] keeper_after_inv [OF safe_keeper_answer assms(2)]
    by (cases r; cases "wo_keeper w") (auto simp: background_def)
qed

lemma drain_inv: "world_inv w \<Longrightarrow> world_inv (drain_background L json_value k rs w) \<and> grows w (drain_background L json_value k rs w)"
proof (induction rs arbitrary: w)
  case (Cons r rs)
  then show ?case using background_inv [of L json_value k r w] grows_trans
    by (auto split: option.splits)
qed simp

lemma safe_run_background [safe_intros]: "safe (run_background L json_value k)"
  using drain_inv by (simp add: safe_from_def run_background_def)

lemma safe_next_reply [safe_intros]: "safe (next_reply pick)"
  by (auto simp: safe_from_def next_reply_def split: list.splits option.splits)

lemma safe_await [safe_intros]: "safe (await L json_value k pick)"
  unfolding await_def by (intro safe_intros)

lemma safe_update_entry [safe_intros]: "safe (update_entry L json_value k command)"
  unfolding update_entry_def by (intro safe_intros)

lemma safe_mutate [safe_intros]: "safe (mutate L json_value k m)"
  unfolding mutate_def by (intro safe_intros)

lemma mutate_journaled:
  assumes "\<And>now e f. apply_mutation L json_value now m e = Inr f \<Longrightarrow> R f"
  shows "safe_from P (mutate L json_value k m) (\<lambda>x w. journaled_where k R (wo_trace w))"
proof -
  have "safe_from (\<lambda>w. True) (case z of (outcome, now) \<Rightarrow> commit L json_value (Mutate_delivery k m now) outcome)
      (\<lambda>x w. journaled_where k R (wo_trace w))" for z
    by (cases z) (simp add: journaled_intro [OF safe_commit_mutation [OF assms]])
  then show ?thesis
    unfolding mutate_def update_entry_def by (rule safe_bind [OF safe_any [OF safe_await]])
qed

lemma safe_send:
  "safe_from (\<lambda>w. journaled_where k (\<lambda>e. je_operation e = Some i) (wo_trace w)) (send L json_value k i pick) (\<lambda>x w. True)"
  unfolding send_def by (rule safe_then_from [OF safe_record]) (auto intro: safe_intros)

text \<open>An intent that comes from the journal, or was just put there, may be sent.\<close>

abbreviation ready :: "uuid \<Rightarrow> operation_intent \<Rightarrow> world \<Rightarrow> bool" where
  "ready k op w \<equiv> journaled_where k (\<lambda>e. je_operation e = Some op) (wo_trace w)"

abbreviation loaded :: "uuid \<Rightarrow> journal_delivery \<Rightarrow> world \<Rightarrow> bool" where
  "loaded k e w \<equiv> entry_of k w = Some e"

lemma safe_journaled_or_new:
  assumes "\<And>i. old = Some i \<Longrightarrow> je_operation e = Some (F i)"
    and "safe_from (loaded k e) save (\<lambda>x. ready k (F new))"
  shows "safe_from (loaded k e) (journaled_or_new old save new) (\<lambda>i. ready k (F i))"
proof (cases old)
  case None
  then show ?thesis unfolding journaled_or_new_def
    by (simp add: safe_then_from [OF assms(2) safe_return_from])
next
  case (Some i)
  then show ?thesis using assms(1)
    by (auto simp: journaled_or_new_def safe_from_def proc_return_def intro!: journaled_memory)
qed

lemma intent_of_cases:
  "claim_intent_of op = Some i \<Longrightarrow> op = Some (Claim_intent i)"
  "start_intent_of op = Some j \<Longrightarrow> op = Some (Start_intent j)"
  "renew_intent_of op = Some j \<Longrightarrow> op = Some (Renew_intent j)"
  "complete_intent_of op = Some c \<Longrightarrow> op = Some (Complete_intent c)"
  "release_intent_of op = Some r \<Longrightarrow> op = Some (Release_intent r)"
  by (cases op rule: claim_intent_of.cases; simp; fail)
     (cases op rule: start_intent_of.cases; simp; fail | cases op rule: renew_intent_of.cases; simp; fail
      | cases op rule: complete_intent_of.cases; simp; fail | cases op rule: release_intent_of.cases; simp; fail)+

lemma intent_written:
  "safe_from P (mutate L json_value k (Write_claim_intent n i)) (\<lambda>x. ready k (Claim_intent i))"
  "safe_from P (mutate L json_value k (Write_start_intent j)) (\<lambda>x. ready k (Start_intent j))"
  "safe_from P (mutate L json_value k (Write_renew_intent n j)) (\<lambda>x. ready k (Renew_intent j))"
  "safe_from P (mutate L json_value k (Write_complete_intent res c)) (\<lambda>x. ready k (Complete_intent c))"
  "safe_from P (mutate L json_value k (Write_release_intent r summary)) (\<lambda>x. ready k (Release_intent r))"
  by (rule mutate_journaled; auto)+

lemmas quiet_keeps = quiet_safe_from [OF quiet_throw] quiet_safe_from [OF quiet_lease] quiet_safe_from [OF quiet_retire]

section \<open>The operations\<close>

lemma safe_claim [safe_intros]: "safe (claim_delivery_step L json_value k)"
proof -
  have sends: "safe_from (ready k (Claim_intent i)) (proc_then throw_if_aborted
      (proc_bind (send L json_value k (Claim_intent i) claim_reply) f)) (\<lambda>x w. True)"
    if "\<And>x. safe (f x)" for i f
    using that by (intro safe_then_from [OF quiet_keeps(1)] safe_bind [OF safe_send])
  show ?thesis
    unfolding claim_delivery_step_def Let_def
    by (rule safe_then [OF safe_quiet(1)], rule safe_bind [OF safe_require_from],
        rule safe_bind [OF safe_journaled_or_new [OF intent_of_cases(1) intent_written(1)]], assumption)
       (rule sends, intro safe_intros)
qed

text \<open>A request and what follows, under the handlers of the operations.\<close>

lemma safe_request:
  "(\<And>x. safe (f x)) \<Longrightarrow> safe_from (ready k op) (proc_then throw_if_aborted
     (proc_bind (send L json_value k op pick) f)) (\<lambda>x w. True)"
  by (intro safe_then_from [OF quiet_keeps(1)] safe_bind [OF safe_send])

lemma safe_losing:
  "safe_from P m (\<lambda>x w. True) \<Longrightarrow> safe_from P (losing_authority m) (\<lambda>x w. True)"
  unfolding losing_authority_def by (rule safe_catch_from) (auto intro: safe_intros)

lemma safe_start [safe_intros]: "safe (start_delivery_step L json_value k)"
  unfolding start_delivery_step_def Let_def
  by (rule safe_then [OF safe_quiet(1)], rule safe_bind [OF safe_require_from],
      rule safe_bind [OF quiet_keeps(2)],
      rule safe_bind [OF safe_journaled_or_new [OF intent_of_cases(2) intent_written(2)]], assumption,
      rule safe_bind [OF safe_losing [OF safe_request]])
     (intro safe_intros)+

lemma safe_confirm [safe_intros]: "safe (confirm_lease L json_value k n)"
proof (induction n)
  case 0
  then show ?case by (simp add: safe_intros)
next
  case (Suc n)
  have renew: "safe_from (ready k (Renew_intent i)) (losing_authority (proc_then throw_if_aborted
         (proc_bind (send L json_value k (Renew_intent i) operation_reply) (\<lambda>(x, requested, received).
          proc_bind (from_answer x) (\<lambda>result.
          proc_then (mutate L json_value k (Write_renew_result (ors_delivery result)))
            (if ors_replayed result then proc_return None
             else proc_bind (window_of L result requested received) (\<lambda>window. proc_return (Some window)))))))) (\<lambda>x w. True)" for i
    by (intro safe_losing safe_request safe_intros)
  show ?case
    unfolding confirm_lease.simps Let_def
    by (rule safe_then [OF safe_quiet(1)], rule safe_bind [OF safe_require_from],
        rule safe_bind [OF quiet_keeps(2)],
        rule safe_bind [OF safe_journaled_or_new [OF intent_of_cases(3) intent_written(3)]], assumption,
        rule safe_bind [OF renew])
       (intro safe_intros Suc.IH)
qed

lemma safe_publish_completion:
  "safe_from (ready k (Complete_intent i)) (publish_completion L json_value k i) (\<lambda>x w. True)"
  unfolding publish_completion_def
  by (rule safe_catch_from [OF safe_request]) (intro safe_intros | simp)+

lemma safe_complete [safe_intros]: "safe (complete_delivery_step L json_value k r)"
  unfolding complete_delivery_step_def Let_def
  by (rule safe_then [OF safe_quiet(1)], rule safe_bind_any [OF safe_quiet(2)],
      rule safe_bind_any [OF safe_quiet(4)])
     (rule safe_then_from [OF intent_written(4) safe_publish_completion])

lemma safe_publish_release:
  "safe_from (ready k (Release_intent i)) (publish_release L json_value k i) (\<lambda>x w. True)"
  unfolding publish_release_def
  by (rule safe_bind [OF safe_losing [OF safe_then_from [OF quiet_keeps(1)
        safe_then_from [OF quiet_keeps(3) safe_request]]]])
     (intro safe_intros)+

lemma safe_release [safe_intros]: "safe (release_delivery_step L json_value k c summary)"
  unfolding release_delivery_step_def Let_def
  by (rule safe_then [OF safe_quiet(1)], rule safe_bind_any [OF safe_quiet(2)],
      rule safe_bind_any [OF safe_quiet(4)])
     (rule safe_then_from [OF intent_written(5) safe_publish_release])

lemma safe_cancel [safe_intros]: "safe (cancel_host_execution k attempt)"
  unfolding cancel_host_execution_def by (rule safe_record) simp

lemma safe_marks [safe_intros]:
  "safe (mark_lease_lost L json_value k err)" "safe (mark_authority_lost L json_value k err)"
  "safe (cancel_and_mark_authority_lost L json_value k err)" "safe (retain_completion_intent L json_value k err)"
  "safe (defer_retry L json_value k t err)" "safe (record_authority_transition_pending L json_value k err)"
  unfolding mark_lease_lost_def mark_authority_lost_def cancel_and_mark_authority_lost_def
    retain_completion_intent_def defer_retry_def record_authority_transition_pending_def
  by (intro safe_intros)+

lemma safe_reclaim [safe_intros]: "safe (reclaim_lease L json_value k)"
  unfolding reclaim_lease_def by (intro safe_intros)

lemma safe_recover [safe_intros]: "safe (recover_lease L json_value k err)"
  unfolding recover_lease_def by (intro safe_intros)

lemma safe_confirm_with_reclaim [safe_intros]: "safe (confirm_lease_with_reclaim L json_value k)"
  unfolding confirm_lease_with_reclaim_def by (intro safe_intros)

lemma safe_prepare [safe_intros]: "safe (prepare_executable_lease L json_value k n)"
  by (induction n) (simp_all only: prepare_executable_lease.simps, (intro safe_intros; simp)+)

lemma safe_release_or_lose [safe_intros]: "safe (release_or_lose_lease L json_value k c summary)"
  unfolding release_or_lose_lease_def by (intro safe_intros)

section \<open>The host's turn\<close>

lemma safe_allowed [safe_intros]: "safe (assert_host_operation_allowed k attempt)"
  unfolding assert_host_operation_allowed_def by (intro safe_intros)

lemma safe_wait [safe_intros]: "safe (wait_for_host_operation L json_value k attempt pick)"
  unfolding wait_for_host_operation_def by (intro safe_intros)

lemma safe_read [safe_intros]: "safe (read_events L json_value k attempt policy st es n)"
proof (induction n arbitrary: st es)
  case 0
  then show ?case by (simp add: safe_intros)
next
  case (Suc n)
  have judged: "safe (case v of Already_journaled \<Rightarrow> read_events L json_value k attempt policy st es n
      | Differs i \<Rightarrow> proc_raise (PE_stream (Replay_differs i))
      | Refused err \<Rightarrow> proc_raise (PE_stream (Stream_refused err))
      | Fresh st' \<Rightarrow> proc_then (mutate L json_value k (Write_host_event x (ss_phase st' = Terminal_phase)))
          (read_events L json_value k attempt policy st' (es @ [x]) n))" for v x
    by (cases v) (simp_all add: safe_intros Suc.IH)
  show ?case unfolding read_events.simps by (intro safe_intros judged)
qed

lemma safe_consume [safe_intros]: "safe (consume_turn L json_value k attempt policy i)"
  unfolding consume_turn_def Let_def by (intro safe_intros)

lemma safe_start_keeper [safe_intros]: "safe (start_keeper window)"
  by (simp add: safe_from_def start_keeper_def)

lemma safe_stop_keeper [safe_intros]: "safe (stop_keeper L json_value k)"
proof -
  have "safe (\<lambda>w. case wo_keeper w of Keeper_waiting window \<Rightarrow> (Inl PE_stopped, w)
     | Keeper_failed err \<Rightarrow> (Inr (), w) | _ \<Rightarrow> (Inr (), w\<lparr>wo_keeper := Keeper_off\<rparr>))"
    by (auto simp: safe_from_def split: keeper.splits)
  then show ?thesis unfolding stop_keeper_def by (intro safe_intros)
qed

abbreviation has_input :: "uuid \<Rightarrow> start_turn_input \<Rightarrow> world \<Rightarrow> bool" where
  "has_input k i w \<equiv> journaled_where k (\<lambda>e. je_start_turn_input e = Some i) (wo_trace w)"

lemma checkpoint_written:
  "safe_from P (update_entry L json_value k (Checkpoint_start k i)) (\<lambda>x. has_input k i)"
proof -
  have c: "safe_from Q (commit L json_value (Checkpoint_start k i now) outcome) (\<lambda>x. has_input k i)" for Q outcome now
    by (rule safe_from_weaken [OF safe_commit [of Q]])
       (auto simp: checkpoint_start_turn_input_def entry_of_def split: if_splits dest!: update_delivery_entry
          intro!: journaled_memory, auto simp: checkpoint_start_input_def split: if_splits)
  have "safe_from (\<lambda>w. True) (case z of (outcome, now) \<Rightarrow> commit L json_value (Checkpoint_start k i now) outcome)
      (\<lambda>x. has_input k i)" for z
    by (cases z) (simp add: c)
  then show ?thesis
    unfolding update_entry_def by (rule safe_bind [OF safe_any [OF safe_await]])
qed

lemma safe_checkpointed:
  "safe_from P (checkpointed_input L json_value k attempt a session) (\<lambda>i. has_input k i)"
proof -
  have "safe_from (loaded k e) (case je_start_turn_input e of
       Some i \<Rightarrow> proc_return i
     | None \<Rightarrow> (case start_turn_input_of L (je_item e) a session attempt of
            Inl err \<Rightarrow> proc_raise (PE_other [])
          | Inr i \<Rightarrow> proc_then (update_entry L json_value k (Checkpoint_start k i)) (proc_return i)))
      (\<lambda>i. has_input k i)" for e
  proof (cases "je_start_turn_input e")
    case None
    then show ?thesis
      by (cases "start_turn_input_of L (je_item e) a session attempt")
         (simp_all add: safe_raise_from safe_then_from [OF checkpoint_written safe_return_from])
  qed (auto simp: safe_from_def proc_return_def intro!: journaled_memory)
  then show ?thesis
    unfolding checkpointed_input_def by (rule safe_bind [OF safe_require_from])
qed

text \<open>What was journaled once stays in the trace.\<close>

abbreviation executing :: "uuid \<Rightarrow> world \<Rightarrow> bool" where
  "executing k w \<equiv> journaled_where k (\<lambda>e. d_status (je_delivery e) = D_executing) (wo_trace w)"

lemma safe_frame:
  "safe_from P m Q \<Longrightarrow> safe_from (\<lambda>w. P w \<and> journaled_where k R (wo_trace w)) m
     (\<lambda>x w. Q x w \<and> journaled_where k R (wo_trace w))"
  by (auto simp: safe_from_def intro: journaled_grows)

lemma safe_keeps_executing: "safe m \<Longrightarrow> safe_from (executing k) m (\<lambda>x. executing k)"
  by (auto simp: safe_from_def intro: journaled_grows)

lemma safe_executing_bind:
  "safe m \<Longrightarrow> (\<And>x. safe_from (executing k) (f x) Q) \<Longrightarrow> safe_from (executing k) (proc_bind m f) Q"
  by (rule safe_bind [OF safe_keeps_executing])

lemma safe_executing_then:
  "safe m \<Longrightarrow> safe_from (executing k) n Q \<Longrightarrow> safe_from (executing k) (proc_then m n) Q"
  unfolding proc_then_def by (rule safe_executing_bind)

lemma safe_checkpointed_start:
  "safe_from (executing k) (checkpointed_input L json_value k attempt a session)
     (\<lambda>i w. may_start k i (wo_trace w))"
  by (rule safe_from_weaken [OF safe_frame [OF safe_checkpointed [of "\<lambda>w. True"]]])
     (simp_all add: may_start_def)

lemma safe_keeps_start:
  "safe m \<Longrightarrow> safe_from (\<lambda>w. may_start k i (wo_trace w)) m (\<lambda>x w. may_start k i (wo_trace w))"
  by (auto simp: safe_from_def may_start_def intro: journaled_grows)

lemma safe_begin: "safe_from (\<lambda>w. may_start k i (wo_trace w)) (begin_turn k turn i) (\<lambda>x w. True)"
  unfolding begin_turn_def by (rule safe_record) (auto split: option.splits)

lemma safe_turn_with_input:
  assumes "\<And>adapter. safe (f adapter)"
  shows "safe_from (\<lambda>w. may_start k i (wo_trace w))
     (proc_bind (wait_for_host_operation L json_value k attempt lookup_reply) (\<lambda>turn.
      proc_then assert_healthy
     (proc_then (assert_host_operation_allowed k attempt)
     (proc_then assert_healthy
     (proc_then (begin_turn k turn i) (f turn)))))) (\<lambda>x w. True)"
  by (rule safe_bind [OF safe_keeps_start [OF safe_wait]],
      rule safe_then_from [OF safe_keeps_start [OF safe_quiet(7)]],
      rule safe_then_from [OF safe_keeps_start [OF safe_allowed]],
      rule safe_then_from [OF safe_keeps_start [OF safe_quiet(7)]],
      rule safe_then_from [OF safe_begin assms])

lemma safe_host_turn:
  "safe_from (executing k) (run_host_turn L json_value k attempt au) (\<lambda>x w. True)"
  unfolding run_host_turn_def Let_def
  by (intro safe_executing_then safe_executing_bind safe_intros
        safe_bind [OF safe_checkpointed_start safe_turn_with_input])

lemma safe_after_failure [safe_intros]: "safe (after_turn_failure L json_value k err)"
  unfolding after_turn_failure_def by (intro safe_intros)

section \<open>Processing\<close>

lemma safe_claim_or_give_up [safe_intros]: "safe (claim_or_give_up L json_value k)"
  unfolding claim_or_give_up_def by (intro safe_intros)

lemma safe_unless_lost_from:
  "safe_from P m (\<lambda>x w. True) \<Longrightarrow> safe_from P (unless_lease_lost L json_value k m) (\<lambda>x w. True)"
  unfolding unless_lease_lost_def
  by (intro safe_catch_any safe_then_any) (assumption | intro safe_intros)+

lemma safe_unless_lost [safe_intros]: "safe m \<Longrightarrow> safe (unless_lease_lost L json_value k m)"
  by (rule safe_unless_lost_from)

lemma safe_proceed [safe_intros]: "safe m \<Longrightarrow> safe n \<Longrightarrow> safe (proceed_if m n)"
  unfolding proceed_if_def by (intro safe_intros)

lemma safe_entry_holds [safe_intros]: "safe (entry_holds k P)"
  unfolding entry_holds_def by (intro safe_intros)

lemma loaded_ready: "je_operation e = Some op \<Longrightarrow> safe_from (ready k op) m Q \<Longrightarrow> safe_from (loaded k e) m Q"
  by (auto simp: safe_from_def intro: journaled_memory)

lemma safe_resume_completion [safe_intros]: "safe (resume_completion L json_value k)"
proof -
  have "safe_from (loaded k e) (case complete_intent_of (je_operation e) of
       None \<Rightarrow> proc_return True
     | Some i \<Rightarrow>
         proc_bind (proc_catch
           (proc_then (publish_completion L json_value k i) (proc_then (retire_journaled k) (proc_return True)))
           (\<lambda>err.
             if is_authority_lost err \<and> \<not> is_completion_rejected err
             then proc_then (retain_completion_intent L json_value k err) (proc_return False)
             else if \<not> is_authority_lost err then proc_raise err
             else proc_then (mark_lease_lost L json_value k err) (proc_return True))) (\<lambda>settled.
         if settled then entry_holds k (\<lambda>e. je_phase e = Ph_lease_lost) else proc_return False)) (\<lambda>x w. True)" for e
  proof (cases "complete_intent_of (je_operation e)")
    case None
    then show ?thesis by (simp add: safe_any safe_intros)
  next
    case (Some i)
    have op: "je_operation e = Some (Complete_intent i)" using Some by (rule intent_of_cases(4))
    show ?thesis unfolding Some option.case
      by (rule loaded_ready [OF op],
          rule safe_bind_first [OF safe_catch_any [OF safe_then_any [OF safe_publish_completion]]])
         (intro safe_intros)+
  qed
  then show ?thesis unfolding resume_completion_def by (rule safe_bind [OF safe_require_from])
qed

lemma safe_resume_release [safe_intros]: "safe (resume_release L json_value k)"
proof -
  have "safe_from (loaded k e) (case release_intent_of (je_operation e) of
       None \<Rightarrow> proc_return True
     | Some i \<Rightarrow> proc_bind (unless_lease_lost L json_value k (publish_release L json_value k i))
         (\<lambda>_. proc_return False)) (\<lambda>x w. True)" for e
  proof (cases "release_intent_of (je_operation e)")
    case None
    then show ?thesis by (simp add: safe_any safe_intros)
  next
    case (Some i)
    have op: "je_operation e = Some (Release_intent i)" using Some by (rule intent_of_cases(5))
    show ?thesis unfolding Some option.case
      by (rule loaded_ready [OF op], rule safe_bind [OF safe_unless_lost_from [OF safe_publish_release]])
         (intro safe_intros)
  qed
  then show ?thesis unfolding resume_release_def by (rule safe_bind [OF safe_require_from])
qed

lemma safe_resume [safe_intros]:
  "safe (resume_claim L json_value k)" "safe (resume_start L json_value k)" "safe (resume_renew L json_value k)"
  "safe (resume_lost_lease L json_value k)" "safe (claim_stored L json_value k relay_as_of)"
  unfolding resume_claim_def resume_start_def resume_renew_def resume_lost_lease_def claim_stored_def
  by (intro safe_intros)+

lemma safe_authorize [safe_intros]: "safe (authorize L json_value cfg k)"
  unfolding authorize_def by (intro safe_intros)

lemma safe_authorize_or_release [safe_intros]: "safe (authorize_or_release L json_value cfg k attempt)"
proof -
  have handler: "safe (case err of
         PE_policy m \<Rightarrow> proc_then (cancel_host_execution k attempt)
           (proc_then (release_or_lose_lease L json_value k R_policy_denied (safe_error err)) (proc_return None))
       | PE_preflight m \<Rightarrow> proc_then (cancel_host_execution k attempt)
           (proc_then (release_or_lose_lease L json_value k R_policy_denied (safe_error err)) (proc_return None))
       | _ \<Rightarrow> proc_raise err)" for err
    by (cases err) (simp_all add: safe_intros)
  show ?thesis unfolding authorize_or_release_def by (intro safe_intros handler)
qed

lemma safe_publish_result [safe_intros]: "safe (publish_journaled_result L json_value k r)"
  unfolding publish_journaled_result_def by (intro safe_intros)

text \<open>A handler that keeps what the program promises.\<close>

lemma safe_catch_post:
  assumes "safe_from P m R" and "\<And>err. safe_from (\<lambda>w. True) (h err) R"
  shows "safe_from P (proc_catch m h) R"
  unfolding safe_from_def
proof (intro allI impI)
  fix w assume w: "world_inv w" "P w"
  obtain r w' where m: "m w = (r, w')" by fastforce
  have w': "world_inv w'" "grows w w'" "\<And>x. r = Inr x \<Longrightarrow> R x w'"
    using assms(1) w m by (fastforce simp: safe_from_def)+
  have "world_inv (snd (h err w')) \<and> grows w' (snd (h err w'))
    \<and> (\<forall>x. fst (h err w') = Inr x \<longrightarrow> R x (snd (h err w')))" for err
    using assms(2) [of err] w' by (simp add: safe_from_def)
  then show "world_inv (snd (proc_catch m h w)) \<and> grows w (snd (proc_catch m h w))
    \<and> (\<forall>x. fst (proc_catch m h w) = Inr x \<longrightarrow> R x (snd (proc_catch m h w)))"
    using m w' grows_trans by (auto simp: proc_catch_def split: sum.splits)
qed

lemma safe_prepare_executing:
  "safe_from (\<lambda>w. True) (prepare_executable_lease L json_value k n) (\<lambda>x. executing k)"
proof (induction n)
  case 0
  then show ?case by (simp add: safe_raise_from)
next
  case (Suc n)
  have again: "safe_from Q (prepare_executable_lease L json_value k n) (\<lambda>x. executing k)" for Q
    using Suc by (rule safe_from_weaken) auto
  have "safe_from (executing k) (proc_bind (next_reply clock_reply) (\<lambda>t.
      if lw_expires_at window - t \<le> of_int min_safe_lease_window_ms
      then prepare_executable_lease L json_value k n else proc_return window)) (\<lambda>x. executing k)" for window
    by (rule safe_executing_bind [OF safe_next_reply]) (simp add: again safe_return_from)
  moreover have "executing k w" if "world_inv w" "loaded k e w" "d_status (je_delivery e) = D_executing" for w e
    using that by (rule journaled_memory)
  ultimately have ready: "safe_from (loaded k e) (proc_bind (next_reply clock_reply) (\<lambda>t.
      if lw_expires_at window - t \<le> of_int min_safe_lease_window_ms
      then prepare_executable_lease L json_value k n else proc_return window)) (\<lambda>x. executing k)"
    if "d_status (je_delivery e) = D_executing" for e window
    using that by (fastforce simp: safe_from_def)
  have start: "safe_from Q (proc_then (proc_catch (start_delivery_step L json_value k) (recover_lease L json_value k))
      (prepare_executable_lease L json_value k n)) (\<lambda>x. executing k)" for Q
    by (rule safe_then_from [OF safe_any again]) (intro safe_intros)
  show ?case
    unfolding prepare_executable_lease.simps
    by (rule safe_then_from [OF safe_quiet(1)], rule safe_bind [OF safe_confirm_with_reclaim],
        rule safe_bind [OF safe_require_from])
       (simp add: ready start safe_raise_from)
qed

lemma safe_execute [safe_intros]: "safe (execute_turn L json_value k attempt au)"
proof -
  let ?prepared = "\<lambda>r w. r \<noteq> None \<longrightarrow> executing k w"
  have "safe_from (\<lambda>w. True) (proc_bind (prepare_executable_lease L json_value k 4) (\<lambda>window. proc_return (Some window))) ?prepared"
    by (rule safe_bind [OF safe_prepare_executing safe_return_from]) simp
  moreover have "safe_from (\<lambda>w. True) (if is_authority_lost err
      then proc_then (cancel_and_mark_authority_lost L json_value k err) (proc_return None) else proc_raise err) ?prepared" for err
    by (simp add: safe_raise_from safe_then_from [OF safe_marks(3) safe_return_from])
  ultimately have prepare: "safe_from (\<lambda>w. True) (proc_catch
      (proc_bind (prepare_executable_lease L json_value k 4) (\<lambda>window. proc_return (Some window)))
      (\<lambda>err. if is_authority_lost err then proc_then (cancel_and_mark_authority_lost L json_value k err) (proc_return None)
         else proc_raise err)) ?prepared"
    by (rule safe_catch_post)
  have turn: "safe_from (executing k) (proc_then (start_keeper window)
      (proc_catch (run_host_turn L json_value k attempt au) (after_turn_failure L json_value k))) (\<lambda>x w. True)" for window
    by (rule safe_executing_then [OF safe_start_keeper safe_catch_any [OF safe_host_turn safe_after_failure]])
  have rest: "safe_from (?prepared r) (case r of None \<Rightarrow> proc_return () | Some window \<Rightarrow> proc_then (start_keeper window)
      (proc_catch (run_host_turn L json_value k attempt au) (after_turn_failure L json_value k))) (\<lambda>x w. True)" for r
    using turn by (cases r) (simp_all add: safe_return_from)
  show ?thesis
    unfolding execute_turn_def
    by (rule safe_bind_any [OF safe_gets safe_if [OF safe_cancel]]) (rule safe_bind [OF prepare rest])
qed

lemma safe_work [safe_intros]: "safe (work_on L json_value cfg k)"
  unfolding work_on_def Let_def by (intro safe_intros)

lemma safe_process [safe_intros]: "safe (process_delivery L json_value cfg relay_as_of k)"
  unfolding process_delivery_def by (intro safe_intros)

lemma safe_in_order:
  assumes "\<And>k. safe (f k)" and "\<And>k err. safe (note k err)"
  shows "safe (process_in_order (\<lambda>k. process_outcome_of (f k)) note blocked es)"
proof (induction es arbitrary: blocked)
  case Nil
  then show ?case by (simp add: safe_from_def)
next
  case (Cons e es)
  let ?go = "process_in_order (\<lambda>k. process_outcome_of (f k)) note"
  let ?k = "d_delivery_id (je_delivery e)" and ?m = "d_mission_id (je_delivery e)"
  have kept: "world_inv v \<Longrightarrow> world_inv (snd (m v)) \<and> grows v (snd (m v))" if "safe m" for m :: "'c proc" and v
    using that by (simp add: safe_from_def)
  have "world_inv (snd (?go blocked (e # es) w)) \<and> grows w (snd (?go blocked (e # es) w))" if w: "world_inv w" for w
  proof (cases "?m \<in> set blocked")
    case True
    then show ?thesis using Cons.IH [of blocked] w by (simp add: safe_from_def)
  next
    case fresh: False
    obtain r v where fk: "f ?k w = (r, v)" by fastforce
    have v: "world_inv v" "grows w v" using kept [OF assms(1) w, of ?k] fk by auto
    obtain r' u where nk: "note ?k (projl r) v = (r', u)" by fastforce
    have u: "world_inv u" "grows w u"
      using kept [OF assms(2) v(1), of ?k "projl r"] nk grows_trans [OF v(2)] by auto
    have rest: "world_inv (snd (?go (?m # blocked) es u)) \<and> grows u (snd (?go (?m # blocked) es u))"
      using Cons.IH [of "?m # blocked"] u by (simp add: safe_from_def)
    show ?thesis
      using fresh fk nk v u rest grows_trans [OF u(2)]
      by (cases r) (auto simp: process_outcome_of_def split: process_error.split sum.split)
  qed
  then show ?case by (simp add: safe_from_def)
qed

lemma safe_process_next: "safe (process_next L json_value cfg relay_as_of)"
proof -
  have "safe (process_in_order (\<lambda>k. process_outcome_of (process_delivery L json_value cfg relay_as_of k))
      (record_authority_transition_pending L json_value) [] es)" for es
    by (rule safe_in_order) (intro safe_intros)+
  then show ?thesis by (simp add: safe_from_def process_next_def)
qed

lemma safe_cycle: "safe (discover_and_process L json_value cfg)"
  unfolding discover_and_process_def by (intro safe_intros safe_process_next)

lemma opened_inv: "write_ahead cs \<Longrightarrow> world_inv (opened_world s disk cs)"
  by (simp add: world_inv_def opened_world_def)

lemma node_step_inv: "world_inv w \<Longrightarrow> world_inv (node_step L json_value cfg w ev)"
proof (cases ev)
  case (Cycle rs)
  assume "world_inv w"
  then have "world_inv (w\<lparr>wo_script := rs\<rparr>)" by simp
  with safe_cycle [of L json_value cfg] show ?thesis using Cycle by (simp add: safe_from_def)
next
  case (Reboot outcome)
  assume w: "world_inv w"
  then have "world_inv (w\<lparr>wo_disk := disk\<rparr>)" and "write_ahead (wo_trace w)" for disk
    by (simp_all add: world_inv_def)
  then show ?thesis using Reboot by (auto split: prod.splits sum.splits intro: opened_inv)
qed

lemma node_run_inv: "world_inv w \<Longrightarrow> world_inv (node_run L json_value cfg w evs)"
  unfolding node_run_def by (induction evs arbitrary: w) (auto intro: node_step_inv)

end
