(* ===== verification/Lease_Preparation.thy ===== *)
theory Lease_Preparation
  imports Process_Laws
begin

text \<open>
  Where the lease of a host's turn comes from.  A program takes a first part of the answers; it is \<open>drawn\<close> from
  a set for a predicate, when its result satisfies the predicate whenever the answers that it took are in the set.
  The rules follow the structure of the programs, as those of \<open>safe\<close> do.
\<close>

named_theorems drawn_intros "rules of programs drawn from a set of answers"

definition drawn :: "reply set \<Rightarrow> 'a proc \<Rightarrow> ('a \<Rightarrow> bool) \<Rightarrow> bool" where
  "drawn S m Q \<longleftrightarrow> (\<forall>w. \<exists>taken. wo_script w = taken @ wo_script (snd (m w))
     \<and> (set taken \<subseteq> S \<longrightarrow> (\<forall>x. fst (m w) = Inr x \<longrightarrow> Q x)))"

abbreviation takes :: "reply set \<Rightarrow> 'a proc \<Rightarrow> bool" where
  "takes S m \<equiv> drawn S m (\<lambda>x. True)"

lemma drawnE:
  assumes "drawn S m Q" and "m w = (r, w')"
  obtains taken where "wo_script w = taken @ wo_script w'" "\<And>x. set taken \<subseteq> S \<Longrightarrow> r = Inr x \<Longrightarrow> Q x"
  using assms unfolding drawn_def by (metis fst_conv snd_conv)

lemma drawnI:
  assumes "\<And>w r w'. m w = (r, w') \<Longrightarrow> \<exists>taken. wo_script w = taken @ wo_script w'
      \<and> (\<forall>x. set taken \<subseteq> S \<longrightarrow> r = Inr x \<longrightarrow> Q x)"
  shows "drawn S m Q"
  unfolding drawn_def by (metis assms prod.collapse)

lemma drawn_weaken: "drawn S m Q \<Longrightarrow> (\<And>x. Q x \<Longrightarrow> R x) \<Longrightarrow> drawn S m R"
  unfolding drawn_def by blast

lemma drawn_bind:
  assumes "drawn S m Q" and "\<And>x. takes S (f x)" and "\<And>x. Q x \<Longrightarrow> drawn S (f x) R"
  shows "drawn S (proc_bind m f) R"
proof (rule drawnI)
  fix w r w' assume run: "proc_bind m f w = (r, w')"
  obtain r1 v where m: "m w = (r1, v)" by fastforce
  obtain t1 where t1: "wo_script w = t1 @ wo_script v" "\<And>x. set t1 \<subseteq> S \<Longrightarrow> r1 = Inr x \<Longrightarrow> Q x"
    using drawnE [OF assms(1) m] by blast
  show "\<exists>taken. wo_script w = taken @ wo_script w' \<and> (\<forall>y. set taken \<subseteq> S \<longrightarrow> r = Inr y \<longrightarrow> R y)"
  proof (cases r1)
    case (Inl err)
    then show ?thesis using m run t1(1) by (auto simp: proc_bind_def)
  next
    case (Inr x)
    with m run have f: "f x v = (r, w')" by (simp add: proc_bind_def)
    show ?thesis
    proof (cases "set t1 \<subseteq> S")
      case True
      with assms(3) [of x] t1(2) Inr have "drawn S (f x) R" by blast
      then show ?thesis
      proof (rule drawnE [where m = "f x" and w = v, OF _ f])
        fix t2 assume "wo_script v = t2 @ wo_script w'" "\<And>y. set t2 \<subseteq> S \<Longrightarrow> r = Inr y \<Longrightarrow> R y"
        with t1(1) show ?thesis by (intro exI [of _ "t1 @ t2"]) simp
      qed
    next
      case False
      obtain t2 where "wo_script v = t2 @ wo_script w'" by (rule drawnE [OF assms(2) [of x] f])
      with t1(1) False show ?thesis by (intro exI [of _ "t1 @ t2"]) simp
    qed
  qed
qed

lemma drawn_takes: "drawn S m Q \<Longrightarrow> takes S m"
  by (rule drawn_weaken) simp_all

lemma drawn_bind_any [drawn_intros]: "takes S m \<Longrightarrow> (\<And>x. drawn S (f x) R) \<Longrightarrow> drawn S (proc_bind m f) R"
  by (rule drawn_bind) (blast intro: drawn_takes)+

lemma drawn_then [drawn_intros]: "takes S m \<Longrightarrow> drawn S n R \<Longrightarrow> drawn S (proc_then m n) R"
  unfolding proc_then_def by (rule drawn_bind_any)

lemma drawn_return: "Q x \<Longrightarrow> drawn S (proc_return x) Q"
  by (simp add: drawn_def proc_return_def)

lemma takes_return [drawn_intros]: "takes S (proc_return x)"
  by (simp add: drawn_return)

lemma drawn_raise [drawn_intros]: "drawn S (proc_raise err) Q"
  by (simp add: drawn_def proc_raise_def)

lemma takes_gets [drawn_intros]: "takes S (proc_gets f)"
  by (simp add: drawn_def proc_gets_def)

lemma takes_when [drawn_intros]: "(b \<Longrightarrow> takes S m) \<Longrightarrow> takes S (proc_when b m)"
  by (simp add: proc_when_def drawn_return)

lemma drawn_catch [drawn_intros]:
  assumes "drawn S m Q" and "\<And>err. drawn S (h err) Q"
  shows "drawn S (proc_catch m h) Q"
proof (rule drawnI)
  fix w r w' assume run: "proc_catch m h w = (r, w')"
  obtain r1 v where m: "m w = (r1, v)" by fastforce
  obtain t1 where t1: "wo_script w = t1 @ wo_script v" "\<And>x. set t1 \<subseteq> S \<Longrightarrow> r1 = Inr x \<Longrightarrow> Q x"
    using drawnE [OF assms(1) m] by blast
  show "\<exists>taken. wo_script w = taken @ wo_script w' \<and> (\<forall>y. set taken \<subseteq> S \<longrightarrow> r = Inr y \<longrightarrow> Q y)"
  proof (cases r1)
    case (Inl err)
    with m run have "err = PE_stopped \<and> r = Inl err \<and> w' = v \<or> h err v = (r, w')"
      by (auto simp: proc_catch_def split: if_splits)
    then obtain t2 where "wo_script v = t2 @ wo_script w'" "\<And>y. set t2 \<subseteq> S \<Longrightarrow> r = Inr y \<Longrightarrow> Q y"
      using drawnE [OF assms(2)] by (metis Inl_Inr_False append_Nil)
    with t1(1) show ?thesis by (intro exI [of _ "t1 @ t2"]) simp
  next
    case (Inr x)
    with m run t1 show ?thesis by (auto simp: proc_catch_def)
  qed
qed

lemma drawn_if [drawn_intros]: "(b \<Longrightarrow> drawn S m Q) \<Longrightarrow> (\<not> b \<Longrightarrow> drawn S n Q) \<Longrightarrow> drawn S (if b then m else n) Q"
  by simp

lemma drawn_option [drawn_intros]:
  "(z = None \<Longrightarrow> drawn S m Q) \<Longrightarrow> (\<And>x. z = Some x \<Longrightarrow> drawn S (f x) Q)
   \<Longrightarrow> drawn S (case z of None \<Rightarrow> m | Some x \<Rightarrow> f x) Q"
  by (cases z) simp_all

lemma drawn_prod [drawn_intros]: "(\<And>x y. z = (x, y) \<Longrightarrow> drawn S (f x y) Q) \<Longrightarrow> drawn S (case z of (x, y) \<Rightarrow> f x y) Q"
  by (cases z) simp

lemma drawn_let [drawn_intros]: "drawn S (f x) Q \<Longrightarrow> drawn S (Let x f) Q"
  by simp

lemma quiet_takes: "quiet m \<Longrightarrow> takes S m"
  by (simp add: quiet_def drawn_def)

lemmas takes_quiet [drawn_intros] =
  quiet_throw [THEN quiet_takes] quiet_require [THEN quiet_takes] quiet_retire [THEN quiet_takes]
  quiet_lease [THEN quiet_takes]

lemma takes_record [drawn_intros]: "takes S (record_call c)"
  by (simp add: drawn_def record_call_def)

lemma takes_commit [drawn_intros]: "takes S (commit L json_value c outcome)"
  by (auto simp: drawn_def commit_def split: prod.splits sum.splits)

section \<open>Awaiting\<close>

lemma drain_script: "\<exists>taken. rs = taken @ wo_script (drain_background L json_value k rs w)"
proof (induction rs arbitrary: w)
  case (Cons r rs)
  show ?case
  proof (cases "background L json_value k r w")
    case (Some v)
    obtain taken where "rs = taken @ wo_script (drain_background L json_value k rs v)" using Cons by blast
    with Some show ?thesis by (intro exI [of _ "r # taken"]) simp
  qed simp
qed simp

lemma takes_background [drawn_intros]: "takes S (run_background L json_value k)"
  using drain_script by (auto simp: drawn_def run_background_def)

lemma drawn_reply: "drawn S (next_reply pick) (\<lambda>x. \<exists>r \<in> S. pick r = Some x)"
  by (rule drawnI) (auto simp: next_reply_def split: list.splits option.splits)

lemma drawn_await: "drawn S (await L json_value k pick) (\<lambda>x. \<exists>r \<in> S. pick r = Some x)"
  unfolding await_def by (rule drawn_then [OF takes_background drawn_reply])

lemma drawn_send: "drawn S (send L json_value k i pick) (\<lambda>x. \<exists>r \<in> S. pick r = Some x)"
  unfolding send_def by (rule drawn_then [OF takes_record drawn_await])

lemma takes_await [drawn_intros]: "takes S (await L json_value k pick)"
  by (rule drawn_weaken [OF drawn_await]) simp

lemma takes_send [drawn_intros]: "takes S (send L json_value k i pick)"
  by (rule drawn_weaken [OF drawn_send]) simp

lemma takes_update [drawn_intros]: "takes S (update_entry L json_value k command)"
  unfolding update_entry_def by (intro drawn_intros)

lemma takes_mutate [drawn_intros]: "takes S (mutate L json_value k m)"
  unfolding mutate_def by (intro drawn_intros)

lemma takes_answer [drawn_intros]: "takes S (from_answer x)"
  by (rule quiet_takes [OF quiet_answer])

lemma takes_journaled [drawn_intros]: "takes S save \<Longrightarrow> takes S (journaled_or_new old save new)"
  unfolding journaled_or_new_def by (intro drawn_intros)

lemma drawn_losing [drawn_intros]: "drawn S m Q \<Longrightarrow> drawn S (losing_authority m) Q"
  unfolding losing_authority_def by (intro drawn_intros)

section \<open>The lease\<close>

text \<open>A window that the relay granted in one of the answers: the answer of a renewal, and no replay of one.\<close>

definition granted_window :: "host_lib \<Rightarrow> reply set \<Rightarrow> lease_window \<Rightarrow> bool" where
  "granted_window L S window \<longleftrightarrow> (\<exists>r requested received. R_operation (Inr r) requested received \<in> S
     \<and> \<not> ors_replayed r
     \<and> lease_window_from_renewal L (ors_delivery r) (ors_receipt r) requested received = Inr window)"

lemma drawn_window:
  "drawn S (window_of L r requested received)
     (\<lambda>window. lease_window_from_renewal L (ors_delivery r) (ors_receipt r) requested received = Inr window)"
  by (cases "lease_window_from_renewal L (ors_delivery r) (ors_receipt r) requested received")
     (simp_all add: window_of_def drawn_raise drawn_return)

lemma operation_reply_Some:
  "operation_reply r = Some (x, requested, received) \<longleftrightarrow> r = R_operation x requested received"
  by (cases r) auto

lemma drawn_answer: "drawn S (from_answer x) (\<lambda>y. x = Inr y)"
  by (cases x) (simp_all add: from_answer_def drawn_raise drawn_return)

lemma takes_window [drawn_intros]: "takes S (window_of L r requested received)"
  by (rule drawn_takes [OF drawn_window])

lemma drawn_renewal:
  "drawn S (proc_bind (send L json_value k (Renew_intent i) operation_reply) (\<lambda>(x, requested, received).
     proc_bind (from_answer x) (\<lambda>result.
     proc_then (mutate L json_value k (Write_renew_result (ors_delivery result)))
       (if ors_replayed result then proc_return None
        else proc_bind (window_of L result requested received) (\<lambda>window. proc_return (Some window))))))
   (\<lambda>fresh. case fresh of None \<Rightarrow> True | Some window \<Rightarrow> granted_window L S window)"
proof (rule drawn_bind [OF drawn_send])
  fix z assume "\<exists>r \<in> S. operation_reply r = Some z"
  then obtain x requested received where z: "z = (x, requested, received)" "R_operation x requested received \<in> S"
    by (cases z) (auto simp: operation_reply_Some)
  have "drawn S (proc_bind (window_of L result requested received) (\<lambda>window. proc_return (Some window)))
      (\<lambda>fresh. case fresh of None \<Rightarrow> True | Some window \<Rightarrow> granted_window L S window)"
    if "x = Inr result" "\<not> ors_replayed result" for result
    by (rule drawn_bind [OF drawn_window takes_return drawn_return]) (use that z(2) in \<open>auto simp: granted_window_def\<close>)
  moreover have more: "takes S (proc_then (mutate L json_value k (Write_renew_result (ors_delivery result)))
       (if ors_replayed result then proc_return None
        else proc_bind (window_of L result requested received) (\<lambda>window. proc_return (Some window))))" for result
    by (intro drawn_intros)
  ultimately show "drawn S (case z of (x, requested, received) \<Rightarrow> proc_bind (from_answer x) (\<lambda>result.
     proc_then (mutate L json_value k (Write_renew_result (ors_delivery result)))
       (if ors_replayed result then proc_return None
        else proc_bind (window_of L result requested received) (\<lambda>window. proc_return (Some window)))))
     (\<lambda>fresh. case fresh of None \<Rightarrow> True | Some window \<Rightarrow> granted_window L S window)"
    unfolding z(1) prod.case
    by (intro drawn_bind [OF drawn_answer more] drawn_then [OF takes_mutate] drawn_if drawn_return) simp_all
qed (intro drawn_intros)

lemma drawn_confirm: "drawn S (confirm_lease L json_value k n) (granted_window L S)"
proof (induction n)
  case (Suc n)
  have more: "takes S (case fresh of Some window \<Rightarrow> proc_return window | None \<Rightarrow> confirm_lease L json_value k n)" for fresh
    using drawn_takes [OF Suc.IH] by (cases fresh) (simp_all add: drawn_return)
  have fresh: "drawn S (case fresh of Some window \<Rightarrow> proc_return window | None \<Rightarrow> confirm_lease L json_value k n)
      (granted_window L S)" if "case fresh of None \<Rightarrow> True | Some window \<Rightarrow> granted_window L S window" for fresh
    using that Suc.IH by (cases fresh) (simp_all add: drawn_return)
  show ?case
    unfolding confirm_lease.simps Let_def
    by (intro drawn_then drawn_bind_any drawn_intros
        drawn_bind [OF drawn_losing [OF drawn_then [OF takes_quiet(1) drawn_renewal]] more fresh])
qed (simp add: drawn_raise)

lemma takes_confirm [drawn_intros]: "takes S (confirm_lease L json_value k n)"
  by (rule drawn_weaken [OF drawn_confirm]) simp

lemma takes_steps [drawn_intros]:
  "takes S (claim_delivery_step L json_value k)" "takes S (start_delivery_step L json_value k)"
  unfolding claim_delivery_step_def start_delivery_step_def by (intro drawn_intros)+

lemma takes_marks [drawn_intros]:
  "takes S (mark_lease_lost L json_value k err)" "takes S (cancel_and_mark_authority_lost L json_value k err)"
  unfolding mark_lease_lost_def cancel_and_mark_authority_lost_def mark_authority_lost_def cancel_host_execution_def
  by (intro drawn_intros)+

lemma takes_recover [drawn_intros]: "takes S (recover_lease L json_value k err)"
  unfolding recover_lease_def reclaim_lease_def by (intro drawn_intros)

lemma drawn_confirm_reclaim: "drawn S (confirm_lease_with_reclaim L json_value k) (granted_window L S)"
  unfolding confirm_lease_with_reclaim_def
  by (intro drawn_catch drawn_confirm drawn_then takes_recover)

lemma takes_confirm_reclaim [drawn_intros]: "takes S (confirm_lease_with_reclaim L json_value k)"
  by (rule drawn_takes [OF drawn_confirm_reclaim])

lemma takes_reply [drawn_intros]: "takes S (next_reply pick)"
  by (rule drawn_takes [OF drawn_reply])

lemma takes_prepare [drawn_intros]: "takes S (prepare_executable_lease L json_value k n)"
  by (induction n) (simp_all only: prepare_executable_lease.simps, (intro drawn_intros)+)

lemma drawn_prepare: "drawn S (prepare_executable_lease L json_value k n) (granted_window L S)"
proof (induction n)
  case (Suc n)
  have checked: "drawn S (proc_bind (next_reply clock_reply) (\<lambda>t.
      if lw_expires_at window - t \<le> of_int min_safe_lease_window_ms
      then prepare_executable_lease L json_value k n else proc_return window)) (granted_window L S)"
    if "granted_window L S window" for window
    using that Suc.IH by (auto intro!: drawn_bind_any takes_reply drawn_return)
  show ?case
    unfolding prepare_executable_lease.simps
    by (intro drawn_then [OF takes_quiet(1)] drawn_bind [OF drawn_confirm_reclaim] drawn_bind_any [OF takes_quiet(2)]
        drawn_if drawn_raise drawn_then [OF drawn_catch [OF takes_steps(2) takes_recover]] Suc.IH checked drawn_intros)
qed (simp add: drawn_raise)

text \<open>What it takes last is the clock that it compares with the window; the journal then holds the delivery as
  executing.\<close>

lemma takes_suffix: "takes S m \<Longrightarrow> m w = (r, w') \<Longrightarrow> \<exists>taken. wo_script w = taken @ wo_script w'"
  by (erule drawnE) blast+

lemma require_entry_Inr: "require_entry k w = (Inr e, w') \<Longrightarrow> entry_of k w = Some e \<and> w' = w"
  by (auto simp: require_entry_def proc_bind_def proc_gets_def proc_raise_def proc_return_def split: option.splits)

lemma bind_Inr_cases: "proc_bind m f w = (Inr y, v) \<Longrightarrow> \<exists>x u. m w = (Inr x, u) \<and> f x u = (Inr y, v)"
  by (auto simp: proc_bind_def split: prod.splits sum.splits)

lemma clock_reply_taken:
  "next_reply clock_reply w = (Inr t, w') \<Longrightarrow> wo_script w = R_clock t # wo_script w' \<and> entry_of k w' = entry_of k w"
  by (auto simp: next_reply_def entry_of_def split: list.splits option.splits) (metis clock_reply.simps option.distinct(1) option.inject reply.exhaust)

definition ends_checked :: "uuid \<Rightarrow> lease_window \<Rightarrow> world \<Rightarrow> world \<Rightarrow> bool" where
  "ends_checked k window w w' \<longleftrightarrow> (\<exists>taken t e. wo_script w = taken @ R_clock t # wo_script w'
     \<and> of_int min_safe_lease_window_ms < lw_expires_at window - t
     \<and> entry_of k w' = Some e \<and> d_status (je_delivery e) = D_executing)"

lemma ends_checked_later: "wo_script w = taken @ wo_script u \<Longrightarrow> ends_checked k window u w' \<Longrightarrow> ends_checked k window w w'"
  unfolding ends_checked_def by (metis append_assoc)

lemma prepared_is_checked:
  "prepare_executable_lease L json_value k n w = (Inr window, w') \<Longrightarrow> ends_checked k window w w'"
proof (induction n arbitrary: w)
  case 0
  then show ?case by (simp add: proc_raise_def)
next
  case (Suc n)
  let ?again = "prepare_executable_lease L json_value k n"
  let ?rest = "\<lambda>granted e. if d_status (je_delivery e) = D_executing then
         proc_bind (next_reply clock_reply) (\<lambda>t.
           if lw_expires_at granted - t \<le> of_int min_safe_lease_window_ms then ?again else proc_return granted)
       else if d_status (je_delivery e) \<noteq> D_leased then
         proc_raise (PE_authority_lost (text_of (''Delivery is not executable: '' @ k @ '' (''
           @ delivery_status_name (d_status (je_delivery e)) @ '')'')))
       else proc_then (proc_catch (start_delivery_step L json_value k) (recover_lease L json_value k)) ?again"
  from Suc.prems obtain granted u e where
    u: "proc_then throw_if_aborted (confirm_lease_with_reclaim L json_value k) w = (Inr granted, u)"
    and e: "entry_of k u = Some e" and rest: "?rest granted e u = (Inr window, w')"
    unfolding prepare_executable_lease.simps proc_then_def
    by (elim bind_Inr_cases [THEN exE] exE conjE) (auto simp: proc_bind_def dest!: bind_Inr_cases require_entry_Inr)
  obtain taken where taken: "wo_script w = taken @ wo_script u"
    using takes_suffix [OF drawn_then [OF takes_quiet(1) takes_confirm_reclaim] u] by blast
  have "ends_checked k window u w'"
  proof (cases "d_status (je_delivery e) = D_executing")
    case True
    with rest obtain t v where t: "next_reply clock_reply u = (Inr t, v)"
      and v: "(if lw_expires_at granted - t \<le> of_int min_safe_lease_window_ms then ?again else proc_return granted) v
        = (Inr window, w')"
      by (auto dest: bind_Inr_cases)
    note clock = clock_reply_taken [OF t, of k]
    show ?thesis
    proof (cases "lw_expires_at granted - t \<le> of_int min_safe_lease_window_ms")
      case False
      with v have "w' = v" "window = granted" by (simp_all add: proc_return_def)
      with clock e True False show ?thesis by (auto simp: ends_checked_def intro!: exI [of _ "[]"])
    next
      case True
      with v have "ends_checked k window v w'" by (simp add: Suc.IH)
      with clock show ?thesis by (intro ends_checked_later [of u "[R_clock t]" v]) simp_all
    qed
  next
    case False
    with rest obtain x v where x: "proc_catch (start_delivery_step L json_value k) (recover_lease L json_value k) u = (Inr x, v)"
      and v: "?again v = (Inr window, w')"
      by (auto simp: proc_raise_def proc_then_def dest!: bind_Inr_cases split: if_splits)
    obtain more where "wo_script u = more @ wo_script v"
      using takes_suffix [OF drawn_catch [OF takes_steps(2) takes_recover] x] by blast
    with Suc.IH [OF v] show ?thesis by (blast intro: ends_checked_later)
  qed
  with taken show ?case by (rule ends_checked_later)
qed

text \<open>Together: the answers that the preparation took.\<close>

lemma prepared_from:
  assumes "prepare_executable_lease L json_value k n w = (Inr window, w')"
  shows "\<exists>taken t e. wo_script w = taken @ R_clock t # wo_script w' \<and> granted_window L (set taken) window
     \<and> of_int min_safe_lease_window_ms < lw_expires_at window - t
     \<and> entry_of k w' = Some e \<and> d_status (je_delivery e) = D_executing"
proof -
  obtain taken t e where t: "wo_script w = taken @ R_clock t # wo_script w'"
    "of_int min_safe_lease_window_ms < lw_expires_at window - t" "entry_of k w' = Some e"
    "d_status (je_delivery e) = D_executing"
    using prepared_is_checked [OF assms] by (auto simp: ends_checked_def)
  have "granted_window L (set (taken @ [R_clock t])) window"
  proof (rule drawnE [OF drawn_prepare assms])
    fix used assume used: "wo_script w = used @ wo_script w'"
      and granted: "\<And>x. set used \<subseteq> set (taken @ [R_clock t]) \<Longrightarrow> Inr window = Inr x \<Longrightarrow> granted_window L (set (taken @ [R_clock t])) x"
    from used t(1) have "used @ wo_script w' = (taken @ [R_clock t]) @ wo_script w'" by simp
    then have "used = taken @ [R_clock t]" by (simp only: append_same_eq)
    with granted show ?thesis by simp
  qed
  then have "granted_window L (set taken) window" by (auto simp: granted_window_def)
  with t show ?thesis by blast
qed

end
