(* ===== verification/Stream_Recovery.thy ===== *)
theory Stream_Recovery
  imports Journal_Laws Host_Stream_Laws
begin

text \<open>
  A host's event stream after a crash of the Node: the journaled events are replayed into the same state
  of the stream, what the host sends again is recognised by its sequence number, and the run goes on as if
  nothing had happened.
\<close>

definition expecting :: "host_turn_correlation \<Rightarrow> stream_state \<Rightarrow> stream_state" where
  "expecting c st = st\<lparr>ss_expected_turn := c\<rparr>"

lemma expecting_phase [simp]:
  "ss_phase (expecting c st) = ss_phase st" "ss_last_sequence (expecting c st) = ss_last_sequence st"
  by (simp_all add: expecting_def)

text \<open>After the acceptance the expected turn no longer matters.\<close>

lemma accept_expecting:
  "ss_phase st \<noteq> Awaiting_acceptance
   \<Longrightarrow> accept_host_event L p (expecting c st) v = map_sum id (expecting c) (accept_host_event L p st v)"
  by (simp add: accept_host_event_def expecting_def Let_def split: prod.splits sum.splits)

lemma accept_acceptance_expecting:
  assumes "ss_phase st = Awaiting_acceptance" and "accept_host_event L p st v = Inr st'"
    and "matches_expected_host_turn c (he_turn v)"
  shows "accept_host_event L p (expecting c st) v = Inr (expecting c st')"
  using assms
  by (auto simp: accept_host_event_def expecting_def Let_def split: prod.splits sum.splits if_splits)

lemma accept_not_awaiting: "accept_host_event L p st v = Inr st' \<Longrightarrow> ss_phase st' \<noteq> Awaiting_acceptance"
  by (auto simp: accept_host_event_def Let_def split: prod.splits sum.splits if_splits)

lemma accept_sequence: "accept_host_event L p st v = Inr st' \<Longrightarrow>
    he_sequence v = ss_last_sequence st + 1 \<and> ss_last_sequence st' = he_sequence v"
  by (auto simp: accept_host_event_def Let_def split: prod.splits sum.splits if_splits)

lemma run_expecting:
  "ss_phase st \<noteq> Awaiting_acceptance \<Longrightarrow>
   run_steps (accept_host_event L p) (expecting c st) es
     = map_sum id (expecting c) (run_steps (accept_host_event L p) st es)"
proof (induction es arbitrary: st)
  case (Cons v es)
  show ?case
  proof (cases "accept_host_event L p st v")
    case (Inr st')
    then show ?thesis using Cons accept_not_awaiting [OF Inr] by (simp add: accept_expecting)
  qed (simp add: accept_expecting Cons.prems)
qed simp

lemma consume_expecting:
  "ss_phase st \<noteq> Awaiting_acceptance \<Longrightarrow>
   consume_stream L p put (expecting c st) es vs s = consume_stream L p put st es vs s"
proof (induction L p put st es vs s rule: consume_stream.induct)
  case (2 L p put st es v vs s)
  then show ?case
    using accept_not_awaiting [of L p st v]
    by (auto simp: judge_event_def accept_expecting split: option.splits sum.splits)
qed simp

lemma run_sequence:
  "run_steps (accept_host_event L p) st es = Inr st' \<Longrightarrow>
   ss_last_sequence st' = ss_last_sequence st + int (length es)"
  by (induction es arbitrary: st) (auto split: sum.splits dest: accept_sequence)

text \<open>What is already journaled is passed over.\<close>

lemma consume_replayed:
  "\<forall>v \<in> set rs. journaled_event es (he_sequence v) = Some v \<Longrightarrow>
   consume_stream L p put st es (rs @ vs) s = consume_stream L p put st es vs s"
  by (induction rs) (auto simp: judge_event_def)

text \<open>What the stream accepts is journaled in order, as long as the journal takes it.\<close>

lemma consume_accepted:
  assumes "run_steps (accept_host_event L p) st fs = Inr st'"
    and "ss_last_sequence st = int (length es)"
    and "consume_stream L p put st es fs s = (r, s')" and "\<forall>err. r \<noteq> Inl (Write_failed err)"
  shows "consume_stream L p put st es (fs @ vs) s = consume_stream L p put st' (es @ fs) vs s'"
  using assms
proof (induction fs arbitrary: st es s)
  case Nil
  then show ?case by (cases vs) (auto split: if_splits)
next
  case (Cons v fs)
  then obtain st1 where acc: "accept_host_event L p st v = Inr st1"
    and rest: "run_steps (accept_host_event L p) st1 fs = Inr st'"
    by (auto split: sum.splits)
  have new: "journaled_event es (he_sequence v) = None"
    using accept_sequence [OF acc] Cons.prems(2) by (simp add: journaled_event_def)
  obtain s1 where w: "put v (ss_phase st1 = Terminal_phase) s = Inr s1"
    using Cons.prems(3,4) acc new by (auto simp: judge_event_def split: sum.splits)
  have "consume_stream L p put st1 (es @ [v]) fs s1 = (r, s')"
    using Cons.prems(3) acc new w by (simp add: judge_event_def)
  moreover have "ss_last_sequence st1 = int (length (es @ [v]))"
    using accept_sequence [OF acc] Cons.prems(2) by simp
  ultimately show ?case
    using Cons.IH [OF rest _ _ Cons.prems(4), of "es @ [v]" s1] acc new w by (simp add: judge_event_def)
qed

lemma expected_turn_run:
  assumes "run_steps (accept_host_event L p) (create_stream_state (expected_turn [] i)) es = Inr st"
    and "es \<noteq> []"
  shows "run_steps (accept_host_event L p) (create_stream_state (expected_turn es i)) es
     = Inr (expecting (expected_turn es i) st)" and "ss_phase st \<noteq> Awaiting_acceptance"
proof -
  obtain v vs where es: "es = v # vs" using assms(2) by (cases es) auto
  let ?c = "expected_turn es i" and ?st0 = "create_stream_state (expected_turn [] i)"
  have create: "create_stream_state ?c = expecting ?c ?st0"
    by (simp add: create_stream_state_def expecting_def)
  obtain st1 where acc: "accept_host_event L p ?st0 v = Inr st1"
    and rest: "run_steps (accept_host_event L p) st1 vs = Inr st"
    using assms(1) es by (auto split: sum.splits)
  have "ss_phase ?st0 = Awaiting_acceptance" by (simp add: create_stream_state_def)
  moreover have "matches_expected_host_turn ?c (he_turn v)"
    by (simp add: es expected_turn_def Let_def matches_expected_host_turn_def)
  ultimately have "accept_host_event L p (expecting ?c ?st0) v = Inr (expecting ?c st1)"
    using acc accept_acceptance_expecting by blast
  then show "run_steps (accept_host_event L p) (create_stream_state ?c) es = Inr (expecting ?c st)"
    using rest run_expecting [OF accept_not_awaiting [OF acc], of L p ?c vs] by (simp add: create [unfolded es] es)
  have "ss_phase st \<noteq> Awaiting_acceptance \<or> vs = []"
    using rest by (induction vs arbitrary: st rule: rev_induct)
      (auto simp: run_laws split: sum.splits dest: accept_not_awaiting)
  then show "ss_phase st \<noteq> Awaiting_acceptance"
    using accept_not_awaiting [OF acc] rest by auto
qed

lemma recovered_stream:
  assumes "run_steps (accept_host_event L p) (create_stream_state (expected_turn [] i)) es = Inr st"
    and "consume_host_events L p put i [] es s = (r, s')" and "\<forall>err. r \<noteq> Inl (Write_failed err)"
    and "\<forall>v \<in> set rs. journaled_event es (he_sequence v) = Some v"
  shows "consume_host_events L p put i es (rs @ vs) s' = consume_host_events L p put i [] (es @ vs) s"
proof -
  have start: "ss_last_sequence (create_stream_state (expected_turn [] i)) = int (length ([] :: host_event list))"
    by (simp add: create_stream_state_def)
  have first: "consume_host_events L p put i [] (es @ vs) s = consume_stream L p put st es vs s'"
    using consume_accepted [OF assms(1) start, of put s r s' vs] assms(2,3)
    by (simp add: consume_host_events_def)
  show ?thesis
  proof (cases "es = []")
    case True
    then have "rs = []" using assms(4) by (cases rs) (auto simp: journaled_event_def split: if_splits)
    then show ?thesis using True first assms(1) by (simp add: consume_host_events_def)
  next
    case False
    note run = expected_turn_run [OF assms(1) False]
    show ?thesis
      using run consume_replayed [OF assms(4), of L p put _ vs s'] first
      by (simp add: consume_host_events_def consume_expecting)
  qed
qed

end
