(* ===== verification/Node_Properties.thy ===== *)
theory Node_Properties
  imports Stream_Recovery Operation_Laws Monitor_Laws
begin

text \<open>
  What holds of a Node's journal after any history of commands, failing saves and restarts, and of the
  recovery of a host's stream.
\<close>

section \<open>A sample\<close>

abbreviation sample_time :: timestamp where
  "sample_time \<equiv> ''2026-01-01T00:00:02Z''"

definition no_json :: "jstext \<Rightarrow> json_tree" where
  "no_json raw = Jt_null"

definition sample_entry :: journal_delivery where
  "sample_entry = (new_entry sample_lib sample_item sample_time)
     \<lparr>je_phase := Ph_claimed, je_claim_attempt := 1, je_runtime_authority := Some sample_grant\<rparr>"

definition sample_journal :: node_journal where
  "sample_journal = \<lparr>jn_cursor = Some ''5'', jn_assignment_cursor = None,
     jn_deliveries = [(uid ''21'', sample_entry)], jn_sessions = [], jn_acceptances = []\<rparr>"

lemma sample_item_ok: "mission_delivery_item_ok sample_lib sample_item"
  using sample_claim_result_ok by (simp add: claim_result_ok_def)

lemma sample_grant_ok: "grant_ok sample_lib sample_grant"
  by code_simp

lemma sample_digest: "delivery_identity_digest sample_lib i = replicate 64 (CHR ''0'')"
  by (simp add: delivery_identity_digest_def sample_lib_def)

lemma sample_digest_ok: "sha256_ok (replicate 64 (CHR ''0''))"
  by code_simp

lemma sample_time_ok: "journal_time_ok sample_lib sample_time"
  by code_simp

lemma sample_entry_ok: "journal_delivery_ok sample_lib sample_entry"
proof -
  have "validate_runtime_authority sample_entry sample_grant ''runtime_authority'' True = []"
    by (simp add: validate_runtime_authority_def sample_entry_def new_entry_def sample_item_def sample_work_def
        sample_delivery_def sample_grant_def sample_grant_input_def grant_input.defs Let_def)
  then show ?thesis
    by (simp add: journal_delivery_ok_def journal_fields_ok_def journal_delivery_issues_def sample_entry_def
        new_entry_def sample_item_ok sample_grant_ok sample_digest sample_digest_ok sample_time_ok
        journal_attempt_ok_def host_events_ok_def last_error_ok_def accepted_turn_def indexed_issues_def)
qed

lemma sample_journal_ok: "node_journal_ok sample_lib sample_journal"
proof -
  have "uuid_ok sample_lib (uid ''21'')" "canonical_decimal ''5''" by code_simp+
  moreover have "d_delivery_id (je_delivery sample_entry) = uid ''21''"
    by (simp add: sample_entry_def new_entry_def sample_item_def sample_work_def sample_delivery_def)
  ultimately show ?thesis
    by (simp add: node_journal_ok_def node_journal_fields_ok_def node_journal_issues_def sample_journal_def
        sample_entry_ok)
qed

section \<open>The journal never moves back\<close>

abbreviation started_on :: "node_journal option \<Rightarrow> journal_process" where
  "started_on disk \<equiv> \<lparr>jp_memory = None, jp_disk = disk\<rparr>"

lemma run_append:
  "journal_run L json_value p (xs @ ys) = journal_run L json_value (journal_run L json_value p xs) ys"
  by (simp add: journal_run_def)

text \<open>C7. A Node never forgets: whatever the history of updates, refused updates, failing saves and restarts, what the
  journal holds in memory passes its schema and is on disk; and whatever follows, a later memory still has every
  delivery, session and acceptance of it: a cursor never goes back, a delivery keeps its identity, the start input of
  an execution stays, and the events recorded for an attempt are only extended, also when the attempt is archived.\<close>

theorem journal_never_moves_back:
  assumes "\<forall>d. disk = Some d \<longrightarrow> distinct_keys d"
    and "jp_memory (journal_run L json_value (started_on disk) evs) = Some s"
  shows "node_journal_ok L s \<and> distinct_keys s
    \<and> (\<exists>d. jp_disk (journal_run L json_value (started_on disk) evs) = Some d \<and> node_journal_ok L d \<and> journal_le s d)
    \<and> (\<exists>t. jp_memory (journal_run L json_value (started_on disk) (evs @ later)) = Some t \<and> journal_le s t)"
proof -
  note start = journal.invariant_start [OF assms(1), of L]
  have "list_all (journal.allowed_event) xs" for xs by (simp add: list_all_iff)
  with journal.run_invariant [OF _ start, of evs json_value]
  have inv: "journal.invariant L (journal_run L json_value (started_on disk) evs)" by blast
  with journal.run_invariant [OF _ inv, of later json_value] \<open>\<And>xs. list_all _ xs\<close> assms(2) show ?thesis
    by (auto simp: journal.invariant_def journal.later_def run_append)
qed

theorem journal_never_moves_back_witness:
  "\<exists>t. jp_memory (journal_run sample_lib no_json (started_on (Some sample_journal))
       ([Restart Save_done] @ [Run_command (Mutate_delivery (uid ''21'') (Write_error []) sample_time) Save_unsynced,
          Restart Save_done])) = Some t \<and> journal_le sample_journal t"
proof -
  have "jp_memory (journal_run sample_lib no_json (started_on (Some sample_journal)) [Restart Save_done])
      = Some sample_journal"
    by (simp add: journal_run_def open_journal_def sample_journal_ok)
  moreover have "\<forall>d. Some sample_journal = Some d \<longrightarrow> distinct_keys d"
    by (simp add: distinct_keys_def sample_journal_def)
  ultimately show ?thesis using journal_never_moves_back by blast
qed

section \<open>Grants are kept until they are retired\<close>

fun attempts_retirement :: "uuid \<Rightarrow> journal_event \<Rightarrow> bool" where
  "attempts_retirement k (Run_command c outcome) = retires k c"
| "attempts_retirement k (Restart outcome) = False"

lemma custody_allowed: "custody.allowed_event k = (\<lambda>ev. \<not> attempts_retirement k ev)"
proof
  fix ev show "custody.allowed_event k ev = (\<not> attempts_retirement k ev)" by (cases ev) simp_all
qed

text \<open>C14. A grant of local authority is never lost: unless its retirement is attempted, a grant that the journal
  holds for a delivery is held by every later journal, through fences, failing saves and restarts, or was replaced by
  a grant of the same scope under a greater fence.\<close>

theorem grant_kept_until_retired:
  assumes "list_all (\<lambda>ev. \<not> attempts_retirement k ev) (evs @ later)"
    and "jp_memory (journal_run L json_value (started_on disk) evs) = Some s"
    and "map_of (jn_deliveries s) k = Some e" and "g \<in> grants e"
  shows "\<exists>t f h. jp_memory (journal_run L json_value (started_on disk) (evs @ later)) = Some t
    \<and> map_of (jn_deliveries t) k = Some f \<and> h \<in> grants f \<and> (h = g \<or> runtime_authority_successor g h)"
proof -
  have "custody.invariant L k (started_on disk)" by (rule custody.invariant_start) simp
  from custody.run_invariant [OF _ this, of evs json_value] assms(1)
  have inv: "custody.invariant L k (journal_run L json_value (started_on disk) evs)"
    by (simp add: custody_allowed)
  from custody.run_invariant [OF _ inv, of later json_value] assms show ?thesis
    by (simp add: custody_allowed custody.later_def inherits_at_def inherits_def run_append) blast
qed

theorem grant_kept_until_retired_witness:
  "\<exists>t f h. jp_memory (journal_run sample_lib no_json (started_on (Some sample_journal))
       ([Restart Save_done] @ [Run_command (Replace_state sample_work sample_time) Save_done, Restart Save_done])) = Some t
    \<and> map_of (jn_deliveries t) (uid ''21'') = Some f \<and> h \<in> grants f
    \<and> (h = sample_grant \<or> runtime_authority_successor sample_grant h)"
proof (rule grant_kept_until_retired [where e = sample_entry])
  show "jp_memory (journal_run sample_lib no_json (started_on (Some sample_journal)) [Restart Save_done])
      = Some sample_journal"
    by (simp add: journal_run_def open_journal_def sample_journal_ok)
qed (simp_all add: sample_journal_def sample_entry_def new_entry_def grants_def)

section \<open>Streams\<close>

text \<open>C15. A crash does not change what a host's stream does: when the Node has journaled some events of a stream
  and comes back, and the host sends any of them again and then goes on, the Node accepts, journals and answers exactly
  as if it had read the whole stream once; no event is journaled twice and none is passed over.\<close>

theorem recovered_stream_is_one_run:
  assumes "run_steps (accept_host_event L policy) (create_stream_state (expected_turn [] i)) es = Inr st"
    and "consume_host_events L policy put i [] es s = (r, s')" and "\<forall>err. r \<noteq> Inl (Write_failed err)"
    and "\<forall>v \<in> set rs. journaled_event es (he_sequence v) = Some v"
  shows "consume_host_events L policy put i es (rs @ vs) s' = consume_host_events L policy put i [] (es @ vs) s"
  using assms by (rule recovered_stream)

definition sample_start :: start_turn_input where
  "sample_start = \<lparr>ti_session = \<lparr>si_mission_id = uid ''80'', si_participant_id = uid ''a1'',
       si_workspace_alias = ''main'', hs_session_id = text_of ''s1''\<rparr>, ti_mission_id = uid ''80'',
     ti_contract_version = 1, ti_mission_sequence = 2,
     ti_objective = \<lparr>ht_text = text_of ''o'', ht_author_principal_id = uid ''a1''\<rparr>,
     ti_assignment = \<lparr>ht_text = text_of ''a'', ht_author_principal_id = uid ''a1''\<rparr>,
     ti_acceptance_criteria = [], ti_peer_messages = [], ti_artifacts = [],
     st_delivery_id = uid ''21'', st_execution_attempt = 1\<rparr>"

definition put_event :: "host_event \<Rightarrow> bool \<Rightarrow> host_event list \<Rightarrow> unit + host_event list" where
  "put_event v terminal s = Inr (s @ [v])"

lemma sample_first_events:
  "\<exists>st. run_steps (accept_host_event sample_lib default_stream_policy)
       (create_stream_state (expected_turn [] sample_start)) (take 2 sample_host_events) = Inr st"
  "consume_host_events sample_lib default_stream_policy put_event sample_start [] (take 2 sample_host_events) []
     = (Inl Stream_ended, take 2 sample_host_events)"
  "\<forall>v \<in> set [hd sample_host_events]. journaled_event (take 2 sample_host_events) (he_sequence v) = Some v"
  "consume_host_events sample_lib default_stream_policy put_event sample_start [] sample_host_events []
     = (Inr sample_host_events, sample_host_events)"
proof -
  have "\<not> isl (run_steps (accept_host_event sample_lib default_stream_policy)
       (create_stream_state (expected_turn [] sample_start)) (take 2 sample_host_events))"
    by code_simp
  then show "\<exists>st. run_steps (accept_host_event sample_lib default_stream_policy)
       (create_stream_state (expected_turn [] sample_start)) (take 2 sample_host_events) = Inr st"
    by (cases "run_steps (accept_host_event sample_lib default_stream_policy)
       (create_stream_state (expected_turn [] sample_start)) (take 2 sample_host_events)") auto
qed code_simp+

theorem recovered_stream_is_one_run_witness:
  "consume_host_events sample_lib default_stream_policy put_event sample_start (take 2 sample_host_events)
     (hd sample_host_events # drop 2 sample_host_events) (take 2 sample_host_events)
   = (Inr sample_host_events, sample_host_events)"
proof -
  obtain st where st: "run_steps (accept_host_event sample_lib default_stream_policy)
       (create_stream_state (expected_turn [] sample_start)) (take 2 sample_host_events) = Inr st"
    using sample_first_events(1) by blast
  have "take 2 sample_host_events @ drop 2 sample_host_events = sample_host_events" by simp
  with recovered_stream_is_one_run [OF st sample_first_events(2) _ sample_first_events(3),
      of "drop 2 sample_host_events"] sample_first_events(4)
  show ?thesis by simp
qed

end
