(* ===== verification/Process_Properties.thy ===== *)
theory Process_Properties
  imports Lease_Preparation Node_Properties
begin

text \<open>
  What holds of every run of a Node: cycles, restarts, failing saves, lost answers, an aborted signal and a
  lease keeper at work beside the turn, in any order that a script can give.
\<close>

section \<open>A sample\<close>

text \<open>A Node without a journal reads one stored delivery of a page and asks to claim it.\<close>

definition stored_item :: mission_delivery_item where
  "stored_item = sample_item\<lparr>mdi_delivery := (sample_delivery ''21'' ''5'')\<lparr>d_mission_event_id := uid ''02''\<rparr>\<rparr>"

definition sample_node_config :: node_config where
  "sample_node_config = \<lparr>nc_agent_id = agent_a, nc_workspaces = [], nc_policy_profiles = []\<rparr>"

definition sample_script :: "reply list" where
  "sample_script = [R_recover (Inr \<lparr>rp_items = [], rp_as_of = sample_time\<rparr>), R_save Save_done sample_time,
  R_page (Inr \<lparr>smp_items = [stored_item], smp_next_cursor = Some ''5''\<rparr>), R_save Save_done sample_time, R_save Save_done sample_time]"

definition seen_entry :: journal_delivery where
  "seen_entry = new_entry sample_lib stored_item sample_time"

definition seen_journal :: node_journal where
  "seen_journal = \<lparr>jn_cursor = Some ''5'', jn_assignment_cursor = None,
     jn_deliveries = [(uid ''21'', seen_entry)], jn_sessions = [], jn_acceptances = []\<rparr>"

definition sample_claim_input :: claim_input where
  "sample_claim_input = next_claim_input (uid ''21'') 1"

definition claiming_entry :: journal_delivery where
  "claiming_entry = seen_entry\<lparr>je_claim_attempt := 1, je_operation := Some (Claim_intent sample_claim_input),
            je_phase := Ph_claim_intent, je_updated_at := sample_time\<rparr>"

definition claiming_journal :: node_journal where
  "claiming_journal = seen_journal\<lparr>jn_deliveries := [(uid ''21'', claiming_entry)]\<rparr>"

lemma stored_item_ok: "mission_delivery_item_ok sample_lib stored_item" by code_simp

lemma sample_uid_ok: "uuid_ok sample_lib (uid ''21'')" by code_simp

lemma sample_cursor_ok: "canonical_decimal ''5''" by code_simp

lemma claim_ok: "claim_input_ok sample_claim_input" by code_simp

lemma stored_delivery: "d_delivery_id (mdi_delivery stored_item) = uid ''21''"
  by (simp add: stored_item_def sample_delivery_def)

lemma seen_ok: "journal_delivery_ok sample_lib seen_entry"
    by (simp add: journal_delivery_ok_def journal_fields_ok_def journal_delivery_issues_def seen_entry_def
        new_entry_def stored_item_ok sample_digest sample_digest_ok sample_time_ok
        journal_attempt_ok_def host_events_ok_def last_error_ok_def accepted_turn_def indexed_issues_def)

lemma claiming_ok: "journal_delivery_ok sample_lib claiming_entry"
    by (simp add: journal_delivery_ok_def journal_fields_ok_def journal_delivery_issues_def seen_entry_def claiming_entry_def
        new_entry_def stored_item_ok sample_digest sample_digest_ok sample_time_ok claim_ok
        journal_attempt_ok_def host_events_ok_def last_error_ok_def accepted_turn_def indexed_issues_def)

lemma seen_journal_ok: "node_journal_ok sample_lib seen_journal"
    by (simp add: node_journal_ok_def node_journal_fields_ok_def node_journal_issues_def seen_journal_def sample_uid_ok sample_cursor_ok
        seen_ok, simp add: seen_entry_def new_entry_def stored_delivery)

lemma claiming_journal_ok: "node_journal_ok sample_lib claiming_journal"
    by (simp add: node_journal_ok_def node_journal_fields_ok_def node_journal_issues_def seen_journal_def claiming_journal_def sample_uid_ok sample_cursor_ok
        claiming_ok, simp add: claiming_entry_def seen_entry_def new_entry_def stored_delivery)

lemma empty_ok: "node_journal_ok L empty_node_journal"
  by (simp add: node_journal_ok_def node_journal_fields_ok_def node_journal_issues_def empty_node_journal_def)

lemma ingest_seen: "apply_command sample_lib no_json (Ingest_page [stored_item] (Some ''5'') sample_time) empty_node_journal = Inr seen_journal"
  by (simp add: ingest_cursor_page_def ingest_recoverable_def upsert_delivery_def stored_item_ok stored_delivery Let_def
     empty_node_journal_def set_entry_def advance_cursor_def seen_journal_def seen_entry_def)

lemma ingest_none: "apply_command sample_lib no_json (Ingest_recovered [] sample_time) s = Inr s"
  by (simp add: ingest_recoverable_def)

lemma claim_seen: "apply_command sample_lib no_json (Mutate_delivery (uid ''21'') (Write_claim_intent 1 sample_claim_input) sample_time) seen_journal = Inr claiming_journal"
  by (simp add: update_delivery_def sample_uid_ok seen_journal_def claiming_journal_def claiming_entry_def set_entry_def)

lemma seen_entry_simps: "je_phase seen_entry = Ph_ingested" "je_operation seen_entry = None" "je_claim_attempt seen_entry = 0"
  "d_status (je_delivery seen_entry) = D_stored" "je_runtime_authority seen_entry = None" "je_runtime_authority_predecessor seen_entry = None"
  "d_delivery_id (je_delivery seen_entry) = uid ''21''"
  by (simp_all add: seen_entry_def new_entry_def stored_item_def sample_delivery_def)

lemma seen_available: "is_available sample_lib seen_entry 1767225602000"
  by (simp add: is_available_def seen_entry_def new_entry_def stored_item_def sample_delivery_def, code_simp)

lemma sample_time_millis: "date_parse sample_lib sample_time = Some 1767225602000" by code_simp

lemma seen_work: "work_candidates sample_lib 1767225602000 seen_journal = [seen_entry]"
  by (simp add: work_candidates_def seen_journal_def is_terminal_entry_def terminal_phases_def seen_entry_simps seen_available)

lemma seen_deliveries: "jn_deliveries seen_journal = [(uid ''21'', seen_entry)]"
  by (simp add: seen_journal_def)

lemma sample_cycle_trace:
  "wo_trace (node_run sample_lib no_json sample_node_config
      (opened_world empty_node_journal (Some empty_node_journal) []) [Cycle sample_script])
   = [Sent (uid ''21'') (Claim_intent sample_claim_input), Saved claiming_journal, Saved seen_journal,
      Saved empty_node_journal, Saved empty_node_journal]"
  by (simp add: node_run_def opened_world_def sample_script_def discover_and_process_def proc_bind_def proc_then_def
     proc_return_def proc_raise_def proc_gets_def throw_if_aborted_def await_def run_background_def background_def next_reply_def from_answer_def
     update_entry_def commit_def update_journal_def ingest_none ingest_seen empty_ok seen_journal_ok write_durable_def sample_time_millis
     process_next_def seen_work seen_entry_simps process_outcome_of_def process_delivery_def require_entry_def entry_of_def
     is_terminal_entry_def terminal_phases_def proceed_if_def resume_claim_def resume_start_def resume_renew_def resume_completion_def
     resume_release_def resume_lost_lease_def claim_stored_def seen_available entry_holds_def claim_or_give_up_def proc_catch_def
     claim_delivery_step_def Let_def journaled_or_new_def mutate_def sample_claim_input_def [symmetric] claim_seen claiming_journal_ok send_def record_call_def
     seen_deliveries
    del: apply_command.simps)

section \<open>Written ahead\<close>

lemma write_ahead_split: "write_ahead (later @ c # earlier) \<Longrightarrow> written_ahead c earlier"
  by (induction later) auto

text \<open>C6. Nothing leaves the Node that a crash could make it forget: an operation is sent to the relay, a retry
  included, only after a journal in which it is the pending operation of its delivery was saved durably, and a host
  is asked to start or recover a turn only from a start input that was saved before, for a delivery that a saved
  journal has as executing.  This holds over any cycles, restarts, failing saves and lost answers.\<close>

theorem sends_only_what_is_journaled:
  assumes "wo_trace (node_run L json_value cfg (opened_world s disk []) evs) = later @ c # earlier"
  shows "written_ahead c earlier"
proof -
  have "world_inv (node_run L json_value cfg (opened_world s disk []) evs)"
    by (rule node_run_inv) (simp add: opened_inv)
  then have "write_ahead (later @ c # earlier)" by (simp add: world_inv_def assms)
  then show ?thesis by (rule write_ahead_split)
qed

theorem sends_only_what_is_journaled_witness:
  "written_ahead (Sent (uid ''21'') (Claim_intent sample_claim_input))
     [Saved claiming_journal, Saved seen_journal, Saved empty_node_journal, Saved empty_node_journal]"
  by (rule sends_only_what_is_journaled [where later = "[]", OF trans [OF sample_cycle_trace]]) simp

section \<open>The lease of a turn\<close>

lemma window_times:
  assumes "lease_window_from_renewal L d receipt requested received = Inr window"
  shows "\<exists>expires recorded. require_lease d = Some (lw_lease window)
    \<and> date_parse L (dl_expires_at (lw_lease window)) = Some expires
    \<and> date_parse L (or_recorded_at receipt) = Some recorded
    \<and> lw_expires_at window = requested + of_int (expires - recorded)
    \<and> received + 50 \<le> lw_renew_at window \<and> lw_renew_at window + 50 < lw_expires_at window"
proof -
  obtain expires recorded where dates: "date_parse L (dl_expires_at (lw_lease window)) = Some expires"
    "date_parse L (or_recorded_at receipt) = Some recorded"
    using assms by (auto simp: lease_window_from_renewal_def Let_def split: option.splits if_splits)
  define left where "left = expires - recorded - ceiling (max 0 (received - requested))"
  have w: "require_lease d = Some (lw_lease window)" "100 < left"
    "lw_renew_at window = received + of_int (left div 2)" "lw_expires_at window = requested + of_int (expires - recorded)"
    using assms dates by (auto simp: lease_window_from_renewal_def left_def Let_def min_safe_lease_window_ms_def
        split: option.splits if_splits)
  have "received - requested \<le> of_int (ceiling (max 0 (received - requested)))" by linarith
  then have room: "received + of_int left \<le> lw_expires_at window" by (simp add: w(4) left_def)
  have "50 \<le> left div 2" "left div 2 + 50 < left" using w(2) by linarith+
  then have "(50::rat) \<le> of_int (left div 2)" "of_int (left div 2) + (50::rat) < of_int left" by linarith+
  with w room dates show ?thesis by auto
qed

text \<open>C39. A host's turn is prepared only with a fresh lease: of the answers that a successful preparation takes, the
  last is the clock, and more than 100 ms were left at it of the window that the preparation returns; before it comes an
  answer of the relay to a renewal, not a replay of an old one, from which that window is made; and the journal then
  holds the delivery as executing.  On the Node's monotonic clock the window ends when the granted time (the lease's end
  less the time at which the relay recorded the renewal) has passed since the request was sent, so the offset of the two
  clocks does not enter, and the next renewal is due at least 50 ms after the answer and more than 50 ms before the
  end.  The property is about the start of a turn: what a host does later, while a renewal is waiting for its answer,
  is not part of it.\<close>

theorem turn_prepared_with_fresh_lease:
  assumes "prepare_executable_lease L json_value k n w = (Inr window, w')"
  shows "\<exists>taken t e r requested received expires recorded.
    wo_script w = taken @ R_clock t # wo_script w' \<and> t + 100 < lw_expires_at window
    \<and> entry_of k w' = Some e \<and> d_status (je_delivery e) = D_executing
    \<and> R_operation (Inr r) requested received \<in> set taken
    \<and> \<not> ors_replayed r \<and> require_lease (ors_delivery r) = Some (lw_lease window)
    \<and> date_parse L (dl_expires_at (lw_lease window)) = Some expires
    \<and> date_parse L (or_recorded_at (ors_receipt r)) = Some recorded
    \<and> lw_expires_at window = requested + of_int (expires - recorded)
    \<and> received + 50 \<le> lw_renew_at window \<and> lw_renew_at window + 50 < lw_expires_at window"
proof -
  obtain taken t e where taken: "wo_script w = taken @ R_clock t # wo_script w'" "granted_window L (set taken) window"
    "t + 100 < lw_expires_at window" "entry_of k w' = Some e" "d_status (je_delivery e) = D_executing"
    using prepared_from [OF assms] by (auto simp: min_safe_lease_window_ms_def)
  then obtain r requested received where r: "R_operation (Inr r) requested received \<in> set taken" "\<not> ors_replayed r"
    and "lease_window_from_renewal L (ors_delivery r) (ors_receipt r) requested received = Inr window"
    unfolding granted_window_def by blast
  from window_times [OF this(3)] taken(1,3-) r show ?thesis by blast
qed

definition executing_work :: delivery where
  "executing_work = sample_work\<lparr>d_status := D_executing\<rparr>"

definition renewing_entry :: journal_delivery where
  "renewing_entry = (new_entry sample_lib (sample_item\<lparr>mdi_delivery := executing_work\<rparr>) sample_time)
     \<lparr>je_phase := Ph_relay_executing, je_claim_attempt := 1, je_renew_count := 1,
      je_operation := Some (Renew_intent (next_renew_input (uid ''21'')
        \<lparr>dl_lease_id = uid ''11'', dl_fencing_token = ''1'', dl_expires_at = ''2026-01-01T00:05:00Z''\<rparr> 1))\<rparr>"

definition renewed_entry :: journal_delivery where
  "renewed_entry = renewing_entry\<lparr>je_operation := None\<rparr>"

definition renewing_journal :: node_journal where
  "renewing_journal = seen_journal\<lparr>jn_deliveries := [(uid ''21'', renewing_entry)]\<rparr>"

definition renewed_journal :: node_journal where
  "renewed_journal = seen_journal\<lparr>jn_deliveries := [(uid ''21'', renewed_entry)]\<rparr>"

definition sample_renewal :: operation_result where
  "sample_renewal = \<lparr>ors_delivery = executing_work,
     ors_receipt = (sample_receipt Op_renew D_executing D_executing None)
       \<lparr>or_lease_expires_at := Some ''2026-01-01T00:05:00Z'', or_recorded_at := ''2026-01-01T00:00:00Z''\<rparr>,
     ors_replayed = False\<rparr>"

definition sample_window :: lease_window where
  "sample_window = \<lparr>lw_lease = \<lparr>dl_lease_id = uid ''11'', dl_fencing_token = ''1'', dl_expires_at = ''2026-01-01T00:05:00Z''\<rparr>,
     lw_renew_at = 302017 / 2, lw_expires_at = 301000\<rparr>"

definition renewing_world :: Delivery_Process.world where
  "renewing_world = (opened_world renewing_journal (Some renewing_journal) [])
     \<lparr>wo_script := [R_operation (Inr sample_renewal) 1000 (2035 / 2), R_save Save_done sample_time, R_clock 1100]\<rparr>"

lemma sample_window_granted:
  "lease_window_from_renewal sample_lib (ors_delivery sample_renewal) (ors_receipt sample_renewal) 1000 (2035 / 2)
   = Inr sample_window"
  by code_simp

lemma executing_item_ok: "mission_delivery_item_ok sample_lib (sample_item\<lparr>mdi_delivery := executing_work\<rparr>)"
  by code_simp

lemma renewed_ok: "journal_delivery_ok sample_lib renewed_entry"
  by (simp add: journal_delivery_ok_def journal_fields_ok_def journal_delivery_issues_def renewed_entry_def renewing_entry_def
      new_entry_def executing_item_ok sample_digest sample_digest_ok sample_time_ok
      journal_attempt_ok_def host_events_ok_def last_error_ok_def accepted_turn_def indexed_issues_def)

lemma executing_work_simps:
  "d_delivery_id executing_work = uid ''21''" "d_status executing_work = D_executing"
  "require_lease executing_work = Some (lw_lease sample_window)"
  by (simp_all add: executing_work_def sample_work_def sample_delivery_def require_lease_def sample_window_def)

lemma renewed_journal_ok: "node_journal_ok sample_lib renewed_journal"
  by (simp add: node_journal_ok_def node_journal_fields_ok_def node_journal_issues_def renewed_journal_def seen_journal_def
      sample_uid_ok sample_cursor_ok renewed_ok, simp add: renewed_entry_def renewing_entry_def new_entry_def executing_work_simps)

lemma renewal_recorded:
  "apply_command sample_lib no_json (Mutate_delivery (uid ''21'') (Write_renew_result (ors_delivery sample_renewal)) sample_time)
     renewing_journal = Inr renewed_journal"
  by (simp add: update_delivery_def sample_uid_ok renewing_journal_def renewed_journal_def renewed_entry_def renewing_entry_def
      set_entry_def with_delivery_def new_entry_def sample_renewal_def)

lemma renewing_entry_simps:
  "je_delivery renewing_entry = executing_work" "je_renew_count renewing_entry = 1"
  "renew_intent_of (je_operation renewing_entry) = Some (next_renew_input (uid ''21'') (lw_lease sample_window) 1)"
  "je_delivery renewed_entry = executing_work"
  by (simp_all add: renewed_entry_def renewing_entry_def new_entry_def sample_window_def)

lemma sample_renewal_simps: "\<not> ors_replayed sample_renewal" "ors_delivery sample_renewal = executing_work"
  by (simp_all add: sample_renewal_def)

definition renewed_world :: Delivery_Process.world where
  "renewed_world = (snd (confirm_lease sample_lib no_json (uid ''21'') 2 renewing_world))"

lemma sample_confirmed:
  "confirm_lease sample_lib no_json (uid ''21'') 2 renewing_world = (Inr sample_window, renewed_world)
   \<and> entry_of (uid ''21'') renewed_world = Some renewed_entry \<and> wo_script renewed_world = [R_clock 1100]"
  unfolding renewed_world_def
  using renewal_recorded sample_window_granted
  by (simp add: numeral_2_eq_2 renewing_world_def opened_world_def proc_catch_def proc_bind_def proc_then_def losing_authority_def
      proc_return_def proc_raise_def proc_gets_def throw_if_aborted_def require_entry_def entry_of_def renewing_journal_def [THEN arg_cong, of jn_deliveries]
      renewed_journal_def [THEN arg_cong, of jn_deliveries] seen_deliveries
      Let_def need_lease_def renewing_entry_simps executing_work_simps journaled_or_new_def send_def record_call_def await_def run_background_def
      background_def next_reply_def from_answer_def mutate_def update_entry_def commit_def update_journal_def write_durable_def
      renewed_journal_ok window_of_def sample_renewal_simps
      del: apply_command.simps)

lemma sample_prepared:
  "prepare_executable_lease sample_lib no_json (uid ''21'') (Suc n) renewing_world
   = (Inr sample_window, renewed_world\<lparr>wo_script := []\<rparr>)"
proof -
  have "throw_if_aborted renewing_world = (Inr (), renewing_world)"
    by (simp add: throw_if_aborted_def proc_bind_def proc_gets_def proc_return_def renewing_world_def opened_world_def)
  then show ?thesis using sample_confirmed
    by (simp add: proc_then_def proc_bind_def confirm_lease_with_reclaim_def proc_catch_def require_entry_def proc_gets_def
        proc_return_def renewing_entry_simps executing_work_simps next_reply_def min_safe_lease_window_ms_def
        del: confirm_lease.simps, simp add: sample_window_def)
qed

theorem turn_prepared_with_fresh_lease_witness:
  "\<exists>taken t. wo_script renewing_world = taken @ [R_clock t] \<and> t + 100 < lw_expires_at sample_window"
  using turn_prepared_with_fresh_lease [OF sample_prepared] by auto

end
