(* ===== verification/Spec2Isabelle.thy ===== *)
theory Spec2Isabelle
  imports Cursors Coordinator_Laws Operation_Laws Host_Stream_Laws Bounded_Json Monitor_Laws
    Mailbox_Properties Account_Laws Relay_Client Relay_Properties
    Node_Policy Process_Properties
begin

text \<open>
  AgentRelay: the shared protocol, the Mission coordinator, the Relay's ledger and mailboxes, the Node's
  journal, delivery processor and local authority, and the agents' connector and live bridge, verified.

  The program. AgentRelay lets coding agents that run on different machines work on one Mission.
  A Relay stores Missions, their events and the deliveries derived from them. A Node runs beside
  each participant: it claims deliveries under a lease, runs the coding runtime inside a capsule,
  checks the commands the Mission requires, and reports results. The rules both sides obey live in
  the package protocol (src/protocol/src), as schemas and as pure state machines; the Node adds a
  reference monitor (src/node/src/runtime-authority.ts) through which every effect of the
  untrusted runtime passes. Beside the Missions the Relay keeps mailboxes: threads of messages between two
  agents (src/relay/src/services/handoff.ts), which an agent reads through a local connector and may
  answer through a live bridge (src/mcp-server/src).

  Theories, in the order of the code.

  Relay_Prelude holds what all share: strings as lists of characters, the fallible result type
  (an error on the left, a value on the right), the list and comparison lemmas, the collection
  unfold_checks for validators, and the run functions with three interfaces. step_machine is an
  invariant kept by each accepted step, advancing_machine adds a preorder along which each accepted
  step moves, budgeted_machine adds a measure which each accepted step increases and which has a
  bound. Each component that is a state machine interprets one of them on its own step function.

  Schemas and Deliveries: the zod schemas of schemas.ts as records, datatypes and bool-valued
  validators. A refinement is a list of issues; parsing succeeds when the list is empty.
  Values which depend on the JavaScript library (Date.parse, UTF-16 length, normalisation of
  paths, the date-time pattern) are fields of the parameter record host_lib; no property
  assumes more of it than it says.

  Samples: concrete values for witnesses, with a concrete host_lib.

  Cursors: the decimal cursors of delivery pages. Comparing digit strings is proved to be comparing
  the numbers they spell, so the page order is the numeric order; the bound 2^63 - 1 is the Relay's
  column type.

  Fencing, Transitions: state-machines.ts. Fencing states what a lease of a delivery promises:
  the fencing token never goes back, and a step with an old token does not pass. Transitions models
  both tables and transitionDeliveryState with every guard, and interprets the interface on it.

  Coordinator: mission-coordinator.ts from the configuration to the reducer. The state is the
  record coordinator_state; one definition per event handler; reduce_coordinator_event is
  reduceCoordinatorEvent with replay detection, the Mission and sequence checks, the terminal
  check and the dispatch; replay_coordinator_events is the fold. An error code is a constructor.

  Coordinator_Schemas: the state schema with its refinement, the append inputs, Node results,
  and the acceptance, creation, assignment and delivery-page schemas of the same file.

  Coordinator_Steps, Coordinator_Invariant, Coordinator_Bounds, Coordinator_Laws: how each handler
  changes the state; the invariant (setup, phase, contract and message chain) and its
  preservation per handler; the counts (at most 3402 events are applied, so the capacity of 4096 is
  never the reason for a rejection); and the properties. coordinator_inv is
  strictly stronger than the schema's refinement: a reached state always parses.

  Coordinator_Samples: one whole Mission, from creation to completion, event by event.

  Delivery_Operations, Operation_Laws: delivery-operations.ts, the inputs, the receipts and the
  results of claiming, starting, renewing, completing and releasing; the properties tie a receipt
  to the transition table and a result to the evidence it must carry.

  Host_Stream, Host_Stream_Laws: the part of adapter.ts that checks the event stream of a runtime.
  accept_host_event is the checking of one event; the laws give the account of text, artifacts
  and bytes, the bound on each, the usage that never goes back, and that a finished stream accepts
  nothing.

  Bounded_Json: sanitizeJsonValue of adapter.ts, with its depth, node and size budgets threaded
  through the recursion. Canonical_Json: the canonical JSON text and its independence of key order.

  Runtime_Authority, Reference_Monitor, Monitor_Laws: runtime-authority-contract.ts and
  runtime-authority.ts: compiling a grant as the intersection of request, policy and Mission
  limits; the monitor with renew, revoke, assert, perform and expiry. The clock reading and
  the outcome of storing evidence are arguments of a step, so a law holds for every clock and for
  every failing store. The timer is a step that may come at any moment.

  Event_Objects: Mission events as JavaScript objects with their keys, the spread and the deletion of keys, and
  the strict schemas of the five event types that read an object. A row of the event table holds
  the object less the keys with a column of their own (eventPayload); eventFromRow spreads the columns over
  it and parses the result. The values below a key stay as they are.

  Relay_Store: the tables of relay/src/db/schema.ts as lists of rows in the record relay_db, with
  the check constraints and unique indexes that the services rely on, dates as milliseconds
  and their ISO strings, the rows read back as protocol values, the database clock, trust and
  credentials.

  Mission_Ledger, Mission_Reconciliation, Delivery_Ledger, Delivery_Revocation, Node_Enrollment:
  mission-ledger.ts, mission-reconciliation.ts, delivery-ledger.ts, delivery-revocation.ts and
  node-enrollment.ts of relay/src/services. A transaction is a function from the tables to an error or
  an answer with new tables; its random ids, clock readings and start time are arguments. Where the
  code catches an error and still commits (a Mission that reconciliation ended), the function gives
  the error and the new tables.

  Owed_Work, Ledger_Invariant, Ledger_Order, Append_Laws, Reconcile_Laws, Lease_Laws, Ledger_Laws:
  the work that a coordinator state owes; the invariant of the tables (each stored Mission is the
  replay of its events; its unsettled deliveries are the work it owes; each row satisfies its
  constraints); the order along which tables move; that each service keeps the one and follows the other;
  and the Relay as one machine over requests, with the interface advancing_machine interpreted on it.

  Iso_Dates, Relay_Samples, Relay_Properties: a date function that reads back the ISO strings, a
  Relay with two Nodes and the requests that start a Mission, and the properties of the Relay after any
  sequence of requests. The one assumption on the outside is date_law: a date that the Relay printed
  and the schema accepts is read back as the same date.

  Mailbox_Store, Handoffs, Mailbox_Routes, Mailbox_Views, Accounts: the mailboxes of the Relay on tables like
  those of the ledger. Handoffs is handoff.ts: creating a thread, appending, accepting, completing and
  cancelling, with idempotency keys, blocks and the event log with its cursor. Mailbox_Routes is the
  JSON-RPC layer of routes/a2a.ts with its error codes; Mailbox_Views the reads of a2a.ts and agents.ts and the
  block list; Accounts the API keys, registration and invites. Notifications is dispatcher.ts: the
  bounded queue and the retries of one job.

  Mailbox_Machine, Mailbox_Protocol, Mailbox_Laws, Account_Laws, Replay_Laws, Mailbox_Properties: every mailbox
  request as one step function; an abstract protocol of threads, of which each accepted request is a step
  (a refinement); the invariant and the growth order, proved once for the protocol and interpreted for the
  requests; the codecs against their reference definitions; idempotent retries; and the properties of
  every run of requests from empty tables.

  Trust_Policy, Relay_Client, Connector, Live_Bridge, with Connector_Laws and Live_Laws: the programs of an
  agent in mcp-server/src. Trust_Policy is the decision for a sender and the changes of the policy file,
  Relay_Client the parameters and retries of a call, Connector the drain of a mailbox into a saved state,
  Live_Bridge the answering of messages by model turns with its journal. The outside (the Relay, the
  runtime, the disk) is a list of answers, so that a law holds for every behaviour of it, failing saves and
  restarts included.

  Wire_Json, Node_Journal, Delivery_Checkpoints, Journal_Machine, Journal_Laws, Node_Properties: the Node's
  durable memory. Node_Journal is journal.ts: the schema with its refinement, the staging of grants when a
  fence advances, and each operation of the class; a stored object with UUID keys is an association list.
  Delivery_Checkpoints has the mutations that delivery-processor.ts writes, one constructor each, the lease
  window, the start input and the reading of a host's stream. Journal_Machine puts the journal over the file of
  durable-file.ts, with saves that fail before or after the rename, restarts, and the migrations. The locale
  journal_order is what a journal owes to those who rely on it: an order which every accepted operation
  follows, and so every history. It is interpreted for two orders: nothing is forgotten (journal), and
  grants stay until they are retired (custody).

  Stream_Recovery: reading a host's stream again after a crash is one uninterrupted reading.

  Node_Policy: policy.ts, the profiles and their hash, and the one way from a command id to a process.

  Delivery_Process, Process_Laws, Lease_Preparation, Process_Properties: delivery-processor.ts and the cycle of daemon.ts, for a Node
  without a runtime authority port, which is an option of the class. A program is a function on a world: the
  journal in memory and on disk, the abort signal, the lease keeper, a trace of what was saved and sent, and a
  script of answers. Every await takes an answer of the script, and before it the script may abort the signal or
  move the lease keeper, which is how the keeper's concurrency with the host's turn is modelled: both act on
  the journal only between awaits. A script that ends is a Node that stops there, so each prefix of a run is a
  run. The laws are rules for programs that keep the write-ahead rule, so that safety follows the structure of the
  code; read_events, the only loop without a bound in the code, has as many rounds as the script has
  answers left and one more, and each round takes one. Lease_Preparation follows a lease from the answers that
  the preparation of a turn takes to the window with which the turn starts. That window is compared with the
  clock only there: during the turn the code has no check of the window's end, so none is proved.

  Executability and totality. Every operation is a total HOL function, evaluated in the
  witnesses by simp or code_simp; loops are folds, structural recursion, or recursion on the script of answers or
  on the retries that the code allows.
  The JavaScript numbers of the modelled code are integers which the schemas bound below 2^53, so
  they are int here, with no rounding; the monotonic clock is rational.

  What is not modelled. HTTP framing, server-sent events, SQL, SMTP and webhooks, sockets, processes, files and git
  (I/O around the modelled rules); the locks of a database transaction (each transaction is one
  step). Of the Node: the sessions of the runtime authority and the capsule behind its port (they are
  sockets and processes; the grants, their limits, their journal and the reference monitor are modelled), the
  Codex runtime, process locks and the sandbox (operating-system effects), the git checks of a workspace (their
  verdict is an answer of the script), the acceptance of Missions at the end of a cycle
  (mission-acceptance.ts; its journal records are modelled), and the optional checkpoint hook, which tests use.
  Time-outs of cancelling a host are not modelled, as their outcome is dropped by the code. When the signal and
  the keeper's failure arrive during the same wait, the model reports the signal. The display strings
  of errors are modelled where the journal keeps them. The command line, the landing page and the
  infrastructure carry no rules of their own.
\<close>

end
